(* ===== verification/Prelude.thy ===== *)
theory Prelude
  imports Main "HOL-Library.List_Lexorder" "HOL-Library.Char_ord" "HOL-Library.Multiset"
begin

text \<open>
  Shared vocabulary of the development.

  \<^item> Python exceptions as values (\<open>exc\<close>) and fallible computations as the sum
    \<open>exc + 'a\<close> with the sequencing combinators \<open>ebind\<close>, \<open>mapE\<close>, \<open>foldE\<close> and
    \<open>traverseE\<close>; dataclass validators (\<open>__post_init__\<close>) as values \<open>exc option\<close>, the
    first exception raised, combined by \<open>first_exc\<close>.
  \<^item> The identifier syntaxes that the sources describe by regular expressions
    (\<open>TOKEN_PATTERN\<close>, \<open>SHA256_PATTERN\<close>, \<open>RCID_PATTERN\<close>, ...) as executable recognisers.
  \<^item> JSON documents, as the \<open>to_dict\<close> methods build them.
  \<^item> Generic list lemmas: first match, sorting by a key with distinct keys, grouping.
\<close>

section \<open>Lemma collections\<close>

named_theorems validates \<open>what a passing validator says about the value\<close>
named_theorems emitted \<open>what an unchanged or empty issue list says about the guards\<close>

section \<open>Exceptions and fallible computations\<close>

text \<open>
  The exception classes raised or caught by the modelled code. The string of a
  \<open>ValueError\<close> or \<open>OverflowError\<close> is the constant part of its message.
  \<open>ProviderOperationError\<close> carries code, message, cleanup handle and diagnostics
  (\<open>environment_providers.py\<close>), \<open>LifecycleVerificationError\<close> code and message
  (\<open>environment_manager.py\<close>).
\<close>

datatype exc =
    ValueError string
  | OverflowError string
  | KeyError string
  | StopIteration
  | InvalidLifecycleTransition string
  | LifecycleVerificationError string string
  | ProviderOperationError string string "string option" "string list"
  | OtherException string

type_synonym 'a result = "exc + 'a"

definition ebind :: "('e + 'a) \<Rightarrow> ('a \<Rightarrow> 'e + 'b) \<Rightarrow> 'e + 'b" where
  "ebind m f = (case m of Inl e \<Rightarrow> Inl e | Inr x \<Rightarrow> f x)"

lemma ebind_Inl [simp]: "ebind (Inl e) f = Inl e"
  and ebind_Inr [simp]: "ebind (Inr x) f = f x"
  by (simp_all add: ebind_def)

lemma ebind_eq_Inr [simp]: "ebind m f = Inr y \<longleftrightarrow> (\<exists>x. m = Inr x \<and> f x = Inr y)"
  by (cases m) simp_all

lemma Inr_eq_ebind [simp]: "Inr y = ebind m f \<longleftrightarrow> (\<exists>x. m = Inr x \<and> f x = Inr y)"
  by (cases m) auto

lemma ebind_eq_Inl:
  "ebind m f = Inl e \<longleftrightarrow> m = Inl e \<or> (\<exists>x. m = Inr x \<and> f x = Inl e)"
  by (cases m) simp_all

lemma ebind_cong [fundef_cong]:
  "m = m' \<Longrightarrow> (\<And>x. m' = Inr x \<Longrightarrow> f x = g x) \<Longrightarrow> ebind m f = ebind m' g"
  by (cases m') simp_all

lemma ebind_assoc: "ebind (ebind m f) g = ebind m (\<lambda>x. ebind (f x) g)"
  by (cases m) simp_all

fun mapE :: "('a \<Rightarrow> 'e + 'b) \<Rightarrow> 'a list \<Rightarrow> 'e + 'b list" where
  "mapE f [] = Inr []"
| "mapE f (x # xs) = ebind (f x) (\<lambda>y. ebind (mapE f xs) (\<lambda>ys. Inr (y # ys)))"

fun foldE :: "('a \<Rightarrow> 's \<Rightarrow> 'e + 's) \<Rightarrow> 'a list \<Rightarrow> 's \<Rightarrow> 'e + 's" where
  "foldE f [] s = Inr s"
| "foldE f (x # xs) s = ebind (f x s) (foldE f xs)"

text \<open>A loop that threads a state and collects one value per element.\<close>

fun traverseE :: "('a \<Rightarrow> 's \<Rightarrow> 'e + ('b \<times> 's)) \<Rightarrow> 'a list \<Rightarrow> 's \<Rightarrow> 'e + ('b list \<times> 's)" where
  "traverseE f [] s = Inr ([], s)"
| "traverseE f (x # xs) s =
     ebind (f x s) (\<lambda>(y, t). ebind (traverseE f xs t) (\<lambda>(ys, u). Inr (y # ys, u)))"

lemma mapE_cong [fundef_cong]:
  "xs = ys \<Longrightarrow> (\<And>x. x \<in> set ys \<Longrightarrow> f x = g x) \<Longrightarrow> mapE f xs = mapE g ys"
  by (induction xs arbitrary: ys) auto

lemma mapE_Inr_length: "mapE f xs = Inr ys \<Longrightarrow> length ys = length xs"
  by (induction xs arbitrary: ys) auto

lemma mapE_Inr_iff: "mapE f xs = Inr ys \<longleftrightarrow> list_all2 (\<lambda>x y. f x = Inr y) xs ys"
  by (induction xs arbitrary: ys) (auto simp: list_all2_Cons1)

lemma mapE_total: "(\<And>x. x \<in> set xs \<Longrightarrow> f x = Inr (g x)) \<Longrightarrow> mapE f xs = Inr (map g xs)"
  by (induction xs) auto

lemma mapE_all:
  "\<forall>x \<in> set xs. \<exists>y. f x = Inr y \<and> P y \<Longrightarrow> \<exists>ys. mapE f xs = Inr ys \<and> (\<forall>y \<in> set ys. P y)"
  by (induction xs) fastforce+

lemma foldE_append: "foldE f (xs @ ys) s = ebind (foldE f xs s) (foldE f ys)"
proof (induction xs arbitrary: s)
  case (Cons x xs)
  then show ?case by (cases "f x s") auto
qed simp

text \<open>An invariant kept by every step of a successful loop holds at its end.\<close>

lemma foldE_invariant:
  assumes "foldE f xs s = Inr t" and "I s"
    and "\<And>x s t. x \<in> set xs \<Longrightarrow> I s \<Longrightarrow> f x s = Inr t \<Longrightarrow> I t"
  shows "I t"
  using assms by (induction xs arbitrary: s) auto

lemma traverseE_invariant:
  assumes "traverseE f xs s = Inr (ys, t)" and "I s"
    and "\<And>x s y t. x \<in> set xs \<Longrightarrow> I s \<Longrightarrow> f x s = Inr (y, t) \<Longrightarrow> I t"
  shows "I t"
  using assms
proof (induction xs arbitrary: s ys)
  case (Cons x xs)
  from Cons.prems(1) obtain y u zs where "f x s = Inr (y, u)" and "traverseE f xs u = Inr (zs, t)"
    by auto
  with Cons.prems(2,3) Cons.IH [of u zs] show ?case by (meson list.set_intros)
qed simp

text \<open>Sequencing of state transformers that may raise.\<close>

fun seqE :: "('s \<Rightarrow> 'e + 's) list \<Rightarrow> 's \<Rightarrow> 'e + 's" where
  "seqE [] s = Inr s"
| "seqE (f # fs) s = ebind (f s) (seqE fs)"

text \<open>A computation that returns instead of raising.\<close>

definition returns :: "('e + 'a) \<Rightarrow> bool" where
  "returns m \<longleftrightarrow> (\<exists>x. m = Inr x)"

lemma returns_Inr [simp]: "returns (Inr x)"
  and returns_Inl [simp]: "\<not> returns (Inl e)"
  by (simp_all add: returns_def)

lemma returns_ebind: "returns (ebind m f) \<longleftrightarrow> returns m \<and> (\<forall>x. m = Inr x \<longrightarrow> returns (f x))"
  by (cases m) (simp_all add: returns_def)

lemma returns_ebindI: "returns m \<Longrightarrow> (\<And>x. m = Inr x \<Longrightarrow> returns (f x)) \<Longrightarrow> returns (ebind m f)"
  by (simp add: returns_ebind)

lemma returns_seqE: "\<forall>f \<in> set fs. \<forall>s. returns (f s) \<Longrightarrow> returns (seqE fs s)"
  by (induction fs arbitrary: s) (auto simp: returns_ebind)

lemma returns_foldE: "\<forall>x \<in> set xs. \<forall>s. returns (f x s) \<Longrightarrow> returns (foldE f xs s)"
  by (induction xs arbitrary: s) (auto simp: returns_ebind)

lemma returns_mapE: "returns (mapE f xs) \<longleftrightarrow> (\<forall>x \<in> set xs. returns (f x))"
  by (induction xs) (auto simp: returns_ebind, auto simp: returns_def)

lemma returns_traverseE: "\<forall>x \<in> set xs. \<forall>s. returns (f x s) \<Longrightarrow> returns (traverseE f xs s)"
  by (induction xs arbitrary: s) (auto simp: returns_ebind)

section \<open>Validators\<close>

definition raise_if :: "bool \<Rightarrow> exc \<Rightarrow> exc option" where
  "raise_if b e = (if b then Some e else None)"

text \<open>The first exception of a sequence of checks; \<open>None\<close> when all of them pass.\<close>

fun first_exc :: "exc option list \<Rightarrow> exc option" where
  "first_exc [] = None"
| "first_exc (None # cs) = first_exc cs"
| "first_exc (Some e # cs) = Some e"

lemma first_exc_None [simp]: "first_exc cs = None \<longleftrightarrow> (\<forall>c \<in> set cs. c = None)"
  by (induction cs rule: first_exc.induct) auto

lemma first_exc_append: "first_exc (xs @ ys) = (case first_exc xs of None \<Rightarrow> first_exc ys | Some e \<Rightarrow> Some e)"
  by (induction xs rule: first_exc.induct) auto

lemma raise_if_None [simp]: "raise_if b e = None \<longleftrightarrow> \<not> b"
  by (simp add: raise_if_def)

lemma raise_if_Some [simp]: "raise_if b e = Some e' \<longleftrightarrow> b \<and> e' = e"
  by (auto simp: raise_if_def)

text \<open>A check with an exception of the component's own type.\<close>

definition refuse :: "bool \<Rightarrow> 'e \<Rightarrow> 'e + unit" where
  "refuse b e = (if b then Inl e else Inr ())"

lemma refuse_Inr [simp]: "refuse b e = Inr u \<longleftrightarrow> \<not> b"
  by (auto simp: refuse_def)

lemma refuse_Inl [simp]: "refuse b e = Inl e' \<longleftrightarrow> b \<and> e' = e"
  by (auto simp: refuse_def)

text \<open>Calling a dataclass constructor: the value, or what \<open>__post_init__\<close> raises.\<close>

definition construct :: "('a \<Rightarrow> exc option) \<Rightarrow> 'a \<Rightarrow> 'a result" where
  "construct post_init x = (case post_init x of None \<Rightarrow> Inr x | Some e \<Rightarrow> Inl e)"

lemma construct_Inr [simp]: "construct p x = Inr y \<longleftrightarrow> p x = None \<and> y = x"
  by (auto simp: construct_def split: option.splits)

lemma construct_Inl [simp]: "construct p x = Inl e \<longleftrightarrow> p x = Some e"
  by (auto simp: construct_def split: option.splits)

lemma construct_ok: "p x = None \<Longrightarrow> construct p x = Inr x"
  by simp

lemma returns_construct [simp]: "returns (construct p x) \<longleftrightarrow> p x = None"
  by (auto simp: returns_def)

section \<open>Identifier syntaxes\<close>

definition is_lower :: "char \<Rightarrow> bool" where
  "is_lower c \<longleftrightarrow> c \<in> set ''abcdefghijklmnopqrstuvwxyz''"

definition is_digit :: "char \<Rightarrow> bool" where
  "is_digit c \<longleftrightarrow> c \<in> set ''0123456789''"

definition is_hex :: "char \<Rightarrow> bool" where
  "is_hex c \<longleftrightarrow> c \<in> set ''0123456789abcdef''"

definition is_lower_alnum :: "char \<Rightarrow> bool" where
  "is_lower_alnum c \<longleftrightarrow> is_lower c \<or> is_digit c"

text \<open>
  \<open>TOKEN_PATTERN\<close> is \<^verbatim>\<open>[a-z][a-z0-9]*(?:-[a-z0-9]+)*\<close>, matched in full. The recogniser
  reads the string once; the flag says that the last character was a dash.
\<close>

fun token_rest :: "bool \<Rightarrow> string \<Rightarrow> bool" where
  "token_rest dash [] \<longleftrightarrow> \<not> dash"
| "token_rest dash (c # cs) \<longleftrightarrow>
     (if is_lower_alnum c then token_rest False cs
      else if c = CHR ''-'' \<and> \<not> dash then token_rest True cs
      else False)"

fun is_token :: "string \<Rightarrow> bool" where
  "is_token [] \<longleftrightarrow> False"
| "is_token (c # cs) \<longleftrightarrow> is_lower c \<and> token_rest False cs"

definition is_hex_string :: "nat \<Rightarrow> string \<Rightarrow> bool" where
  "is_hex_string n s \<longleftrightarrow> length s = n \<and> list_all is_hex s"

text \<open>\<open>SHA256_PATTERN\<close>: 64 lowercase hexadecimal digits.\<close>

definition is_sha256 :: "string \<Rightarrow> bool" where
  "is_sha256 s \<longleftrightarrow> is_hex_string 64 s"

fun split_on :: "char \<Rightarrow> string \<Rightarrow> string list" where
  "split_on d [] = [[]]"
| "split_on d (c # cs) =
     (case split_on d cs of
        [] \<Rightarrow> [[c]]
      | s # ss \<Rightarrow> (if c = d then [] # s # ss else (c # s) # ss))"

text \<open>The textual form of a version 7 UUID, as every \<open>u7\<close> pattern of the sources spells it.\<close>

definition is_uuid7 :: "string \<Rightarrow> bool" where
  "is_uuid7 s \<longleftrightarrow>
     (case split_on (CHR ''-'') s of
        [a, b, c, d, e] \<Rightarrow>
          is_hex_string 8 a \<and> is_hex_string 4 b \<and>
          is_hex_string 4 c \<and> take 1 c = ''7'' \<and>
          is_hex_string 4 d \<and> (\<exists>x \<in> set ''89ab''. take 1 d = [x]) \<and>
          is_hex_string 12 e
      | _ \<Rightarrow> False)"

text \<open>
  \<open>IDENTITY_PATTERN\<close> and \<open>RCID_PATTERN\<close>: scheme, version, namespace token, then either a
  version 7 UUID or a hash policy token and a SHA-256 digest. None of the parts contains a
  colon, so the pattern is a condition on the colon-separated parts.
\<close>

definition identity_syntax :: "string list \<Rightarrow> string \<Rightarrow> bool" where
  "identity_syntax schemes s \<longleftrightarrow>
     (case split_on (CHR '':'') s of
        [scheme, version, ns, kind, u] \<Rightarrow>
          scheme \<in> set schemes \<and> version = ''v1'' \<and> is_token ns \<and> kind = ''u7'' \<and> is_uuid7 u
      | [scheme, version, ns, kind, policy, digest] \<Rightarrow>
          scheme \<in> set schemes \<and> version = ''v1'' \<and> is_token ns \<and> kind = ''h'' \<and>
          is_token policy \<and> is_sha256 digest
      | _ \<Rightarrow> False)"

definition is_identity :: "string \<Rightarrow> bool" where
  "is_identity = identity_syntax [''opid'', ''rcid'']"

definition is_rcid :: "string \<Rightarrow> bool" where
  "is_rcid = identity_syntax [''rcid'']"

text \<open>Operational identifiers \<^verbatim>\<open>opid:v1:<namespace>:u7:<uuid>\<close>.\<close>

definition is_opid :: "string \<Rightarrow> string \<Rightarrow> bool" where
  "is_opid ns s \<longleftrightarrow>
     (case split_on (CHR '':'') s of
        [scheme, version, n, kind, u] \<Rightarrow>
          scheme = ''opid'' \<and> version = ''v1'' \<and> n = ns \<and> kind = ''u7'' \<and> is_uuid7 u
      | _ \<Rightarrow> False)"

lemma split_on_ne [simp]: "split_on d s \<noteq> []"
  by (induction s) (auto split: list.splits)

text \<open>Splitting is the inverse of joining with the separator.\<close>

fun join_with :: "char \<Rightarrow> string list \<Rightarrow> string" where
  "join_with d [] = []"
| "join_with d [s] = s"
| "join_with d (s # t # ss) = s @ d # join_with d (t # ss)"

lemma join_with_Cons: "ss \<noteq> [] \<Longrightarrow> join_with d (s # ss) = s @ d # join_with d ss"
  by (cases ss) simp_all

lemma join_with_extend: "join_with d ((c # s) # ss) = c # join_with d (s # ss)"
  by (cases ss) simp_all

lemma join_split_on: "join_with d (split_on d s) = s"
proof (induction s)
  case (Cons c cs)
  then show ?case
    by (cases "split_on d cs") (simp_all add: join_with_Cons join_with_extend)
qed simp

lemma split_on_no_sep: "s \<in> set (split_on d t) \<Longrightarrow> d \<notin> set s"
  by (induction t arbitrary: s) (auto split: list.splits if_splits)

section \<open>JSON documents and timestamps\<close>

text \<open>
  A timestamp field is what \<open>datetime.fromisoformat\<close> makes of its text: an instant with a
  UTC offset (in microseconds since the epoch), a local time without one, or no time at all.
\<close>

datatype timestamp = Aware int | Naive int | Unparsable

definition require_timestamp :: "timestamp \<Rightarrow> exc option" where
  "require_timestamp t =
     (case t of
        Aware _ \<Rightarrow> None
      | Naive _ \<Rightarrow> Some (ValueError ''timestamp must include a UTC offset'')
      | Unparsable \<Rightarrow> Some (ValueError ''invalid RFC 3339 timestamp''))"

text \<open>The instant of a validated timestamp.\<close>

fun instant :: "timestamp \<Rightarrow> int" where
  "instant (Aware t) = t"
| "instant (Naive t) = t"
| "instant Unparsable = 0"

lemma require_timestamp_None [validates]: "require_timestamp t = None \<longleftrightarrow> (\<exists>i. t = Aware i)"
  by (cases t) (simp_all add: require_timestamp_def)

text \<open>\<open>_rfc3339\<close>: milliseconds are kept, a clock value without offset is refused.\<close>

definition rfc3339 :: "timestamp \<Rightarrow> timestamp result" where
  "rfc3339 t =
     (case t of
        Aware i \<Rightarrow> Inr (Aware (i div 1000 * 1000))
      | _ \<Rightarrow> Inl (ValueError ''clock values must be timezone-aware''))"

datatype json =
    JNull
  | JBool bool
  | JInt int
  | JStr string
  | JTime timestamp
  | JArr "json list"
  | JObj "(string \<times> json) list"

definition JOpt :: "('a \<Rightarrow> json) \<Rightarrow> 'a option \<Rightarrow> json" where
  "JOpt f v = (case v of None \<Rightarrow> JNull | Some x \<Rightarrow> f x)"

section \<open>Shared checks\<close>

definition SAFE_INTEGER_MAX :: int where
  "SAFE_INTEGER_MAX = 9007199254740991"

definition require_token :: "string \<Rightarrow> exc option" where
  "require_token v = raise_if (\<not> is_token v) (ValueError ''must be a lowercase canonical token'')"

definition require_sha256 :: "string \<Rightarrow> exc option" where
  "require_sha256 v = raise_if (\<not> is_sha256 v) (ValueError ''must be a lowercase SHA-256 digest'')"

definition require_rcid :: "string \<Rightarrow> exc option" where
  "require_rcid v = raise_if (\<not> is_rcid v) (ValueError ''must be a canonical rcid:v1 identifier'')"

definition require_unique :: "string list \<Rightarrow> exc option" where
  "require_unique vs =
     raise_if (length vs \<noteq> length (remdups vs)) (ValueError ''must not contain duplicate identities'')"

definition safe_integer :: "int \<Rightarrow> bool" where
  "safe_integer n \<longleftrightarrow> 0 \<le> n \<and> n \<le> SAFE_INTEGER_MAX"

definition require_nonnegative_safe_integer :: "int option \<Rightarrow> exc option" where
  "require_nonnegative_safe_integer v =
     (case v of
        None \<Rightarrow> None
      | Some n \<Rightarrow>
          raise_if (\<not> safe_integer n) (ValueError ''must be a non-negative safe integer or unknown''))"

lemma require_token_None [validates]: "require_token v = None \<longleftrightarrow> is_token v"
  by (simp add: require_token_def)

lemma require_sha256_None [validates]: "require_sha256 v = None \<longleftrightarrow> is_sha256 v"
  by (simp add: require_sha256_def)

lemma require_rcid_None [validates]: "require_rcid v = None \<longleftrightarrow> is_rcid v"
  by (simp add: require_rcid_def)

lemma length_remdups_distinct: "length xs = length (remdups xs) \<longleftrightarrow> distinct xs"
  by (metis card_distinct distinct_card length_remdups_card_conv)

lemma require_unique_None [validates]: "require_unique vs = None \<longleftrightarrow> distinct vs"
  by (simp add: require_unique_def length_remdups_distinct)

text \<open>An optional amount that is unknown or a safe integer.\<close>

fun safe_amount :: "int option \<Rightarrow> bool" where
  "safe_amount None \<longleftrightarrow> True"
| "safe_amount (Some n) \<longleftrightarrow> safe_integer n"

lemma require_nonnegative_safe_integer_None [validates]:
  "require_nonnegative_safe_integer v = None \<longleftrightarrow> safe_amount v"
  by (cases v) (simp_all add: require_nonnegative_safe_integer_def)

section \<open>Lists\<close>

text \<open>
  Sorting by a key that is distinct on the list does not depend on the order of the input:
  the reason why the \<open>to_dict\<close> documents are canonical.
\<close>

lemma sort_key_canonical:
  assumes "mset xs = mset ys" and "distinct (map f xs)"
  shows "sort_key f xs = sort_key f ys"
proof (rule sym, rule properties_for_sort_key)
  show "mset (sort_key f xs) = mset ys" using assms(1) by simp
  show "sorted (map f (sort_key f xs))" by simp
next
  fix k assume "k \<in> set (sort_key f xs)"
  then have k: "k \<in> set xs" by simp
  have inj: "inj_on f (set xs)" and dx: "distinct xs" using assms(2) by (auto simp: distinct_map)
  have dy: "distinct ys" using dx assms(1) by (metis mset_eq_imp_distinct_iff)
  have sy: "set ys = set xs" using assms(1) by (metis set_mset_mset)
  have one: "filter (\<lambda>x. f k = f x) zs = [k]" if "distinct zs" "set zs = set xs" for zs
  proof -
    have "filter (\<lambda>x. f k = f x) zs = filter (\<lambda>x. k = x) zs"
      using inj k that(2) by (intro filter_cong) (auto simp: inj_on_def)
    also have "\<dots> = [k]" using that k
      by (induction zs arbitrary: xs) (auto simp: filter_empty_conv)
    finally show ?thesis .
  qed
  show "filter (\<lambda>x. f k = f x) (sort_key f xs) = filter (\<lambda>x. f k = f x) ys"
    using one [of "sort_key f xs"] one [of ys] dx dy sy by simp
qed

lemma find_Some_iff_distinct:
  assumes "distinct (map f xs)"
  shows "find (\<lambda>x. f x = k) xs = Some x \<longleftrightarrow> x \<in> set xs \<and> f x = k"
  using assms by (induction xs) (auto simp: image_iff)

lemma find_SomeD: "find P xs = Some x \<Longrightarrow> x \<in> set xs \<and> P x"
  by (induction xs) (auto split: if_splits)

lemma find_NoneD: "find P xs = None \<Longrightarrow> x \<in> set xs \<Longrightarrow> \<not> P x"
  by (simp add: find_None_iff)

lemma list_all2_memberD: "list_all2 P xs ys \<Longrightarrow> x \<in> set xs \<Longrightarrow> \<exists>y \<in> set ys. P x y"
  by (induction rule: list_all2_induct) auto

lemma list_all2_memberD2: "list_all2 P xs ys \<Longrightarrow> y \<in> set ys \<Longrightarrow> \<exists>x \<in> set xs. P x y"
  by (induction rule: list_all2_induct) auto

lemma list_all2_map_back: "list_all2 P xs ys \<Longrightarrow> (\<And>x y. P x y \<Longrightarrow> f y = x) \<Longrightarrow> map f ys = xs"
  by (induction rule: list_all2_induct) auto

end
