(* ===== verification/Machine_Inventory.thy ===== *)
theory Machine_Inventory
  imports Prelude
begin

text \<open>
  The typed machine inventory of \<open>control-plane/.../models.py\<close>: resource pools, providers,
  capabilities, trust and the doctor report. Each dataclass is a record, its
  \<open>__post_init__\<close> a validator that gives the first exception raised, its \<open>to_dict\<close> a JSON
  document.
\<close>

definition ACCURACY_CLASSES :: "string list" where
  "ACCURACY_CLASSES = [''exact'', ''bounded'', ''estimated'', ''unknown'']"

definition VISIBILITY_CLASSES :: "string list" where
  "VISIBILITY_CLASSES = [''host'', ''process'', ''configured'']"

definition RESOURCE_STATES :: "string list" where
  "RESOURCE_STATES = [''observed'', ''partial'', ''unknown'']"

definition PROVIDER_STATES :: "string list" where
  "PROVIDER_STATES = [''available'', ''detected_unverified'', ''unavailable'', ''unknown'']"

definition CAPABILITY_STATES :: "string list" where
  "CAPABILITY_STATES = [''supported'', ''unsupported'', ''unknown'']"

definition DIAGNOSTIC_SEVERITIES :: "string list" where
  "DIAGNOSTIC_SEVERITIES = [''info'', ''warning'', ''error'']"

definition REPORT_STATES :: "string list" where
  "REPORT_STATES = [''healthy'', ''degraded'', ''unsupported'']"

definition require_nonnegative :: "int option \<Rightarrow> exc option" where
  "require_nonnegative v =
     (case v of
        None \<Rightarrow> None
      | Some n \<Rightarrow> raise_if (n < 0) (ValueError ''must be non-negative or unknown''))"

lemma require_nonnegative_None [validates]:
  "require_nonnegative v = None \<longleftrightarrow> (\<forall>n. v = Some n \<longrightarrow> 0 \<le> n)"
  by (cases v) (auto simp: require_nonnegative_def)

section \<open>Diagnostics and identity\<close>

record diagnostic =
  dg_severity :: string
  dg_code :: string
  dg_message :: string
  dg_remediation :: "string option"

definition diagnostic_post_init :: "diagnostic \<Rightarrow> exc option" where
  "diagnostic_post_init d = first_exc [
     raise_if (dg_severity d \<notin> set DIAGNOSTIC_SEVERITIES) (ValueError ''invalid diagnostic severity''),
     raise_if (dg_code d = [] \<or> dg_message d = []) (ValueError ''diagnostic code and message are required'')]"

definition diagnostic_to_dict :: "diagnostic \<Rightarrow> json" where
  "diagnostic_to_dict d = JObj [
     (''code'', JStr (dg_code d)),
     (''message'', JStr (dg_message d)),
     (''remediation'', JOpt JStr (dg_remediation d)),
     (''severity'', JStr (dg_severity d))]"

record machine_identity =
  mi_os_family :: string
  mi_os_name :: string
  mi_os_release :: string
  mi_architecture :: string
  mi_architecture_raw :: string
  mi_python_implementation :: string
  mi_python_version :: string

definition machine_identity_to_dict :: "machine_identity \<Rightarrow> json" where
  "machine_identity_to_dict m = JObj [
     (''architecture'', JStr (mi_architecture m)),
     (''architecture_raw'', JStr (mi_architecture_raw m)),
     (''os_family'', JStr (mi_os_family m)),
     (''os_name'', JStr (mi_os_name m)),
     (''os_release'', JStr (mi_os_release m)),
     (''python_implementation'', JStr (mi_python_implementation m)),
     (''python_version'', JStr (mi_python_version m))]"

section \<open>Resource pools\<close>

record resource_pool =
  rp_kind :: string
  rp_unit :: string
  rp_status :: string
  rp_capacity :: "int option"
  rp_used :: "int option"
  rp_reserved :: int
  rp_available :: "int option"
  rp_source :: string
  rp_accuracy :: string
  rp_visibility :: string
  rp_observed_at :: timestamp
  rp_staleness_seconds :: int
  rp_configured_path :: "string option"
  rp_observed_path :: "string option"
  rp_backing_store :: "string option"
  rp_diagnostic :: "string option"

definition exceeds :: "int option \<Rightarrow> int \<Rightarrow> bool" where
  "exceeds v capacity \<longleftrightarrow> (case v of None \<Rightarrow> False | Some n \<Rightarrow> n > capacity)"

definition resource_pool_accounting :: "resource_pool \<Rightarrow> exc option" where
  "resource_pool_accounting p =
     (case rp_capacity p of
        None \<Rightarrow> None
      | Some capacity \<Rightarrow> first_exc [
          raise_if (exceeds (rp_used p) capacity) (ValueError ''used exceeds resource capacity''),
          raise_if (rp_reserved p > capacity) (ValueError ''reserved exceeds resource capacity''),
          raise_if (exceeds (rp_available p) capacity) (ValueError ''available exceeds resource capacity''),
          (case (rp_used p, rp_available p) of
             (Some used, Some available) \<Rightarrow>
               raise_if (used + rp_reserved p + available > capacity)
                 (ValueError ''resource accounting exceeds capacity'')
           | _ \<Rightarrow> None)])"

definition resource_pool_post_init :: "resource_pool \<Rightarrow> exc option" where
  "resource_pool_post_init p = first_exc [
     raise_if (rp_kind p = [] \<or> rp_unit p = [] \<or> rp_source p = [])
       (ValueError ''resource kind, unit, and source are required''),
     raise_if (rp_status p \<notin> set RESOURCE_STATES) (ValueError ''invalid resource status''),
     raise_if (rp_accuracy p \<notin> set ACCURACY_CLASSES) (ValueError ''invalid resource accuracy''),
     raise_if (rp_visibility p \<notin> set VISIBILITY_CLASSES) (ValueError ''invalid resource visibility''),
     require_timestamp (rp_observed_at p),
     require_nonnegative (rp_capacity p),
     require_nonnegative (rp_used p),
     require_nonnegative (Some (rp_reserved p)),
     require_nonnegative (rp_available p),
     require_nonnegative (Some (rp_staleness_seconds p)),
     raise_if (rp_status p = ''unknown'' \<and>
         (rp_capacity p \<noteq> None \<or> rp_used p \<noteq> None \<or> rp_available p \<noteq> None))
       (ValueError ''unknown resource measurements must remain null''),
     resource_pool_accounting p]"

definition resource_pool_to_dict :: "resource_pool \<Rightarrow> json" where
  "resource_pool_to_dict p = JObj [
     (''accuracy'', JStr (rp_accuracy p)),
     (''available'', JOpt JInt (rp_available p)),
     (''backing_store'', JOpt JStr (rp_backing_store p)),
     (''capacity'', JOpt JInt (rp_capacity p)),
     (''configured_path'', JOpt JStr (rp_configured_path p)),
     (''diagnostic'', JOpt JStr (rp_diagnostic p)),
     (''kind'', JStr (rp_kind p)),
     (''observed_at'', JTime (rp_observed_at p)),
     (''observed_path'', JOpt JStr (rp_observed_path p)),
     (''reserved'', JInt (rp_reserved p)),
     (''source'', JStr (rp_source p)),
     (''staleness_seconds'', JInt (rp_staleness_seconds p)),
     (''status'', JStr (rp_status p)),
     (''unit'', JStr (rp_unit p)),
     (''used'', JOpt JInt (rp_used p)),
     (''visibility'', JStr (rp_visibility p))]"

section \<open>Providers, capabilities, trust\<close>

record provider_capability =
  pc_name :: string
  pc_availability :: string
  pc_strategies :: "string list"
  pc_source :: string
  pc_observed_at :: timestamp
  pc_accuracy :: string
  pc_visibility :: string
  pc_staleness_seconds :: int
  pc_executable :: "string option"
  pc_diagnostic :: "string option"

definition provider_capability_post_init :: "provider_capability \<Rightarrow> exc option" where
  "provider_capability_post_init c = first_exc [
     raise_if (pc_availability c \<notin> set PROVIDER_STATES) (ValueError ''invalid provider availability''),
     require_timestamp (pc_observed_at c),
     raise_if (pc_accuracy c \<notin> set ACCURACY_CLASSES \<or> pc_visibility c \<notin> set VISIBILITY_CLASSES)
       (ValueError ''provider accuracy and visibility must use registered classes''),
     require_nonnegative (Some (pc_staleness_seconds c)),
     raise_if (pc_availability c = ''unknown'' \<and> pc_accuracy c \<noteq> ''unknown'')
       (ValueError ''unknown provider availability must have unknown accuracy''),
     raise_if (pc_availability c \<notin> {''available'', ''detected_unverified''} \<and> pc_executable c \<noteq> None)
       (ValueError ''only an available or detected provider may expose an executable'')]"

definition provider_capability_to_dict :: "provider_capability \<Rightarrow> json" where
  "provider_capability_to_dict c = JObj [
     (''availability'', JStr (pc_availability c)),
     (''accuracy'', JStr (pc_accuracy c)),
     (''diagnostic'', JOpt JStr (pc_diagnostic c)),
     (''executable'', JOpt JStr (pc_executable c)),
     (''name'', JStr (pc_name c)),
     (''observed_at'', JTime (pc_observed_at c)),
     (''source'', JStr (pc_source c)),
     (''staleness_seconds'', JInt (pc_staleness_seconds c)),
     (''strategies'', JArr (map JStr (pc_strategies c))),
     (''visibility'', JStr (pc_visibility c))]"

record capability =
  cap_name :: string
  cap_status :: string
  cap_source :: string
  cap_observed_at :: timestamp
  cap_value :: json
  cap_diagnostic :: "string option"
  cap_accuracy :: string
  cap_visibility :: string
  cap_staleness_seconds :: int

definition capability_post_init :: "capability \<Rightarrow> exc option" where
  "capability_post_init c = first_exc [
     raise_if (cap_status c \<notin> set CAPABILITY_STATES) (ValueError ''invalid capability status''),
     require_timestamp (cap_observed_at c),
     raise_if (cap_accuracy c \<notin> set ACCURACY_CLASSES \<or> cap_visibility c \<notin> set VISIBILITY_CLASSES)
       (ValueError ''capability accuracy and visibility must use registered classes''),
     require_nonnegative (Some (cap_staleness_seconds c)),
     raise_if (cap_status c = ''unknown'' \<and> cap_accuracy c \<noteq> ''unknown'')
       (ValueError ''unknown capability status must have unknown accuracy''),
     raise_if (cap_status c \<in> {''unsupported'', ''unknown''} \<and> cap_value c \<noteq> JNull)
       (ValueError ''unsupported or unknown capability values must remain null'')]"

definition capability_to_dict :: "capability \<Rightarrow> json" where
  "capability_to_dict c = JObj [
     (''accuracy'', JStr (cap_accuracy c)),
     (''diagnostic'', JOpt JStr (cap_diagnostic c)),
     (''name'', JStr (cap_name c)),
     (''observed_at'', JTime (cap_observed_at c)),
     (''source'', JStr (cap_source c)),
     (''staleness_seconds'', JInt (cap_staleness_seconds c)),
     (''status'', JStr (cap_status c)),
     (''value'', cap_value c),
     (''visibility'', JStr (cap_visibility c))]"

record trust_observation =
  tr_trust_class :: string
  tr_source :: string
  tr_configured :: bool

definition trust_observation_to_dict :: "trust_observation \<Rightarrow> json" where
  "trust_observation_to_dict t = JObj [
     (''configured'', JBool (tr_configured t)),
     (''source'', JStr (tr_source t)),
     (''trust_class'', JStr (tr_trust_class t))]"

text \<open>The configured paths are a dictionary, kept as an association list with unique keys.\<close>

record safety_configuration_view =
  sc_inventory_only :: bool
  sc_mutation_permitted :: bool
  sc_inventory_max_age_seconds :: int
  sc_configured_pool_paths :: "(string \<times> string) list"

definition safety_configuration_to_dict :: "safety_configuration_view \<Rightarrow> json" where
  "safety_configuration_to_dict v = JObj [
     (''configured_pool_paths'',
        JObj (map (\<lambda>(k, p). (k, JStr p)) (sort_key fst (sc_configured_pool_paths v)))),
     (''inventory_max_age_seconds'', JInt (sc_inventory_max_age_seconds v)),
     (''inventory_only'', JBool (sc_inventory_only v)),
     (''mutation_permitted'', JBool (sc_mutation_permitted v))]"

section \<open>The doctor report\<close>

record doctor_report =
  dr_status :: string
  dr_observed_at :: timestamp
  dr_valid_until :: timestamp
  dr_machine :: machine_identity
  dr_trust :: trust_observation
  dr_resources :: "resource_pool list"
  dr_providers :: "provider_capability list"
  dr_capabilities :: "capability list"
  dr_safety_configuration :: safety_configuration_view
  dr_diagnostics :: "diagnostic list"

definition doctor_report_post_init :: "doctor_report \<Rightarrow> exc option" where
  "doctor_report_post_init r = first_exc [
     raise_if (dr_status r \<notin> set REPORT_STATES) (ValueError ''invalid doctor status''),
     require_timestamp (dr_observed_at r),
     require_timestamp (dr_valid_until r)]"

text \<open>Diagnostics are sorted by the pair of severity and code.\<close>

definition doctor_report_to_dict :: "doctor_report \<Rightarrow> json" where
  "doctor_report_to_dict r = JObj [
     (''capabilities'', JArr (map capability_to_dict (sort_key cap_name (dr_capabilities r)))),
     (''diagnostics'', JArr (map diagnostic_to_dict
        (sort_key dg_severity (sort_key dg_code (dr_diagnostics r))))),
     (''machine'', machine_identity_to_dict (dr_machine r)),
     (''observed_at'', JTime (dr_observed_at r)),
     (''providers'', JArr (map provider_capability_to_dict (sort_key pc_name (dr_providers r)))),
     (''resource_pools'', JArr (map resource_pool_to_dict (sort_key rp_kind (dr_resources r)))),
     (''safety_configuration'', safety_configuration_to_dict (dr_safety_configuration r)),
     (''schema_version'', JStr ''machine-inventory.v1''),
     (''status'', JStr (dr_status r)),
     (''trust'', trust_observation_to_dict (dr_trust r)),
     (''valid_until'', JTime (dr_valid_until r))]"

text \<open>
  A report as the constructors leave it: the report and everything in it has passed its
  \<open>__post_init__\<close>.
\<close>

definition doctor_report_constructed :: "doctor_report \<Rightarrow> bool" where
  "doctor_report_constructed r \<longleftrightarrow>
     doctor_report_post_init r = None \<and>
     (\<forall>p \<in> set (dr_resources r). resource_pool_post_init p = None) \<and>
     (\<forall>c \<in> set (dr_providers r). provider_capability_post_init c = None) \<and>
     (\<forall>c \<in> set (dr_capabilities r). capability_post_init c = None) \<and>
     (\<forall>d \<in> set (dr_diagnostics r). diagnostic_post_init d = None)"

section \<open>What a constructed pool guarantees\<close>

lemma exceeds_False: "\<not> exceeds v c \<longleftrightarrow> (\<forall>n. v = Some n \<longrightarrow> n \<le> c)"
  by (cases v) (auto simp: exceeds_def)

lemma resource_pool_nonneg:
  assumes "resource_pool_post_init p = None"
  shows "0 \<le> rp_reserved p" "0 \<le> rp_staleness_seconds p"
    and "rp_capacity p = Some c \<Longrightarrow> 0 \<le> c" and "rp_available p = Some a \<Longrightarrow> 0 \<le> a"
    and "rp_used p = Some u \<Longrightarrow> 0 \<le> u"
  using assms by (auto simp: resource_pool_post_init_def validates)

lemma resource_pool_available_le_capacity:
  assumes "resource_pool_post_init p = None" and "rp_capacity p = Some c" and "rp_available p = Some a"
  shows "a \<le> c"
  using assms
  by (auto simp: resource_pool_post_init_def resource_pool_accounting_def exceeds_False)

lemma resource_pool_fields:
  assumes "resource_pool_post_init p = None"
  shows "rp_kind p \<noteq> []" "rp_unit p \<noteq> []" "rp_source p \<noteq> []" "rp_accuracy p \<in> set ACCURACY_CLASSES"
    and "\<exists>i. rp_observed_at p = Aware i"
  using assms by (auto simp: resource_pool_post_init_def validates)

text \<open>Used, reserved and available amounts of a constructed pool never exceed its capacity.\<close>

lemma resource_pool_accounting_bound:
  assumes "resource_pool_post_init p = None" and "rp_capacity p = Some c"
    and "rp_used p = Some u" and "rp_available p = Some a"
  shows "u + rp_reserved p + a \<le> c"
  using assms by (auto simp: resource_pool_post_init_def resource_pool_accounting_def)

lemma doctor_report_pool:
  "doctor_report_constructed r \<Longrightarrow> p \<in> set (dr_resources r) \<Longrightarrow> resource_pool_post_init p = None"
  by (simp add: doctor_report_constructed_def)

end
