(* ===== verification/Resource_Models.thy ===== *)
theory Resource_Models
  imports Prelude
begin

text \<open>
  Predictive resource plans, the admission policy and admission reports of
  \<open>control-plane/.../resource_models.py\<close>: records, validators, policy lookups and JSON
  documents.

  The free-text fields \<open>message\<close> and \<open>remediation\<close> of an admission issue are left out:
  every constructor call gives them non-empty text, and nothing reads them back.
\<close>

definition CONFIDENCE_CLASSES :: "string list" where
  "CONFIDENCE_CLASSES = [''known'', ''measured'', ''estimated'', ''bounded'', ''unknown'']"

definition MARGIN_CONFIDENCE_CLASSES :: "string list" where
  "MARGIN_CONFIDENCE_CLASSES = filter (\<lambda>c. c \<noteq> ''unknown'') CONFIDENCE_CLASSES"

definition RESOURCE_POOL_KINDS :: "string list" where
  "RESOURCE_POOL_KINDS = [''persistent_disk'', ''environment_cache'', ''build_scratch'',
     ''execution_scratch'', ''result_spool'', ''ram'', ''swap'', ''cpu'']"

definition RESOURCE_UNITS :: "string list" where
  "RESOURCE_UNITS = [''bytes'', ''logical_cpu'']"

definition OPERATION_KINDS :: "string list" where
  "OPERATION_KINDS = [''environment'', ''campaign'', ''shard'']"

definition ADMISSION_STAGES :: "string list" where
  "ADMISSION_STAGES = [''preflight'', ''dynamic'']"

definition ADMISSION_OUTCOMES :: "string list" where
  "ADMISSION_OUTCOMES = [''admitted'', ''rejected'', ''backpressure'', ''drain'']"

definition EVALUATION_STATES :: "string list" where
  "EVALUATION_STATES = [''pass'', ''fail'', ''unknown'']"

definition ISSUE_CATEGORIES :: "string list" where
  "ISSUE_CATEGORIES = [''inventory'', ''provider'', ''capability'', ''trust'', ''resource'',
     ''concurrency'', ''plan'']"

definition TRUST_CLASSES :: "string list" where
  "TRUST_CLASSES = [''unknown'', ''development'', ''trusted_executioner'', ''untrusted_public'']"

text \<open>The unit a typed pool is measured in; the same two checks recur in four dataclasses.\<close>

definition require_pool_unit :: "string \<Rightarrow> string \<Rightarrow> exc option" where
  "require_pool_unit kind u = first_exc [
     raise_if (kind = ''cpu'' \<and> u \<noteq> ''logical_cpu'') (ValueError ''CPU amounts must use logical_cpu units''),
     raise_if (kind \<noteq> ''cpu'' \<and> u \<noteq> ''bytes'') (ValueError ''non-CPU amounts must use byte units'')]"

lemma require_pool_unit_None [validates]:
  "require_pool_unit kind u = None \<longleftrightarrow> u = (if kind = ''cpu'' then ''logical_cpu'' else ''bytes'')"
  by (auto simp: require_pool_unit_def)

section \<open>Forecasts and estimates\<close>

definition validate_forecast ::
    "string \<Rightarrow> int option \<Rightarrow> int option \<Rightarrow> string option \<Rightarrow> exc option" where
  "validate_forecast confidence expected upper_bound diagnostic = first_exc [
     raise_if (confidence \<notin> set CONFIDENCE_CLASSES) (ValueError ''invalid resource confidence''),
     require_nonnegative_safe_integer expected,
     require_nonnegative_safe_integer upper_bound,
     (if confidence = ''unknown''
      then raise_if (expected \<noteq> None \<or> upper_bound \<noteq> None \<or> diagnostic = None \<or> diagnostic = Some [])
             (ValueError ''unknown forecasts require null amounts and a diagnostic'')
      else first_exc [
        raise_if (upper_bound = None) (ValueError ''forecasts require a conservative upper bound''),
        raise_if (confidence \<in> {''known'', ''measured'', ''estimated''} \<and> expected = None)
          (ValueError ''forecasts require an expected amount''),
        (case (expected, upper_bound) of
           (Some e, Some u) \<Rightarrow>
             raise_if (u < e) (ValueError ''resource upper bound cannot be below the expected amount'')
         | _ \<Rightarrow> None),
        raise_if (confidence = ''known'' \<and> upper_bound \<noteq> expected)
          (ValueError ''known forecasts require equal expected and upper-bound amounts'')])]"

record resource_estimate =
  re_name :: string
  re_pool_kind :: string
  re_unit :: string
  re_expected :: "int option"
  re_upper_bound :: "int option"
  re_confidence :: string
  re_source :: string
  re_diagnostic :: "string option"

definition resource_estimate_post_init :: "resource_estimate \<Rightarrow> exc option" where
  "resource_estimate_post_init e = first_exc [
     require_token (re_name e),
     raise_if (re_pool_kind e \<notin> set RESOURCE_POOL_KINDS) (ValueError ''unknown typed resource pool''),
     raise_if (re_unit e \<notin> set RESOURCE_UNITS) (ValueError ''invalid resource unit''),
     require_pool_unit (re_pool_kind e) (re_unit e),
     raise_if (re_source e = []) (ValueError ''resource estimate source is required''),
     validate_forecast (re_confidence e) (re_expected e) (re_upper_bound e) (re_diagnostic e)]"

definition resource_estimate_to_dict :: "resource_estimate \<Rightarrow> json" where
  "resource_estimate_to_dict e = JObj [
     (''confidence'', JStr (re_confidence e)),
     (''diagnostic'', JOpt JStr (re_diagnostic e)),
     (''expected'', JOpt JInt (re_expected e)),
     (''name'', JStr (re_name e)),
     (''pool_kind'', JStr (re_pool_kind e)),
     (''source'', JStr (re_source e)),
     (''unit'', JStr (re_unit e)),
     (''upper_bound'', JOpt JInt (re_upper_bound e))]"

record transfer_forecast =
  tf_name :: string
  tf_direction :: string
  tf_expected_bytes :: "int option"
  tf_upper_bound_bytes :: "int option"
  tf_confidence :: string
  tf_source :: string
  tf_diagnostic :: "string option"

definition transfer_forecast_post_init :: "transfer_forecast \<Rightarrow> exc option" where
  "transfer_forecast_post_init t = first_exc [
     require_token (tf_name t),
     raise_if (tf_direction t \<notin> {''download'', ''upload'', ''internal''})
       (ValueError ''invalid transfer direction''),
     raise_if (tf_source t = []) (ValueError ''transfer forecast source is required''),
     validate_forecast (tf_confidence t) (tf_expected_bytes t) (tf_upper_bound_bytes t) (tf_diagnostic t)]"

definition transfer_forecast_to_dict :: "transfer_forecast \<Rightarrow> json" where
  "transfer_forecast_to_dict t = JObj [
     (''confidence'', JStr (tf_confidence t)),
     (''diagnostic'', JOpt JStr (tf_diagnostic t)),
     (''direction'', JStr (tf_direction t)),
     (''expected_bytes'', JOpt JInt (tf_expected_bytes t)),
     (''name'', JStr (tf_name t)),
     (''source'', JStr (tf_source t)),
     (''upper_bound_bytes'', JOpt JInt (tf_upper_bound_bytes t))]"

section \<open>Workload plans\<close>

record workload_resource_plan =
  wp_operation_kind :: string
  wp_operation_id :: string
  wp_estimates :: "resource_estimate list"
  wp_transfers :: "transfer_forecast list"
  wp_provider_name :: "string option"
  wp_provider_strategy :: "string option"
  wp_required_capabilities :: "string list"
  wp_eligible_trust_classes :: "string list"
  wp_requested_concurrency :: int
  wp_mutation_permitted :: bool

definition workload_plan_provider_check :: "workload_resource_plan \<Rightarrow> exc option" where
  "workload_plan_provider_check p =
     (case wp_provider_name p of
        None \<Rightarrow> None
      | Some n \<Rightarrow> first_exc [
          require_token n,
          require_token (case wp_provider_strategy p of None \<Rightarrow> [] | Some s \<Rightarrow> s)])"

definition workload_plan_post_init :: "workload_resource_plan \<Rightarrow> exc option" where
  "workload_plan_post_init p = first_exc [
     raise_if (wp_operation_kind p \<notin> set OPERATION_KINDS) (ValueError ''invalid resource-plan operation kind''),
     raise_if (\<not> is_identity (wp_operation_id p))
       (ValueError ''resource-plan operation ID must be a canonical rcid/opid identity''),
     raise_if (wp_operation_kind p = ''environment'' \<and> \<not> is_opid ''environment'' (wp_operation_id p))
       (ValueError ''environment resource plans must bind an operational environment UUIDv7''),
     raise_if (wp_estimates p = []) (ValueError ''resource plans require at least one typed estimate''),
     require_unique (map re_name (wp_estimates p)),
     require_unique (map tf_name (wp_transfers p)),
     require_unique (wp_required_capabilities p),
     require_unique (wp_eligible_trust_classes p),
     first_exc (map require_token (wp_required_capabilities p)),
     raise_if (wp_eligible_trust_classes p = [] \<or>
         (\<exists>v \<in> set (wp_eligible_trust_classes p). v \<notin> set TRUST_CLASSES))
       (ValueError ''resource plans require registered eligible trust classes''),
     raise_if ((wp_provider_name p = None) \<noteq> (wp_provider_strategy p = None))
       (ValueError ''provider name and strategy must be supplied together''),
     workload_plan_provider_check p,
     require_nonnegative_safe_integer (Some (wp_requested_concurrency p)),
     raise_if (wp_requested_concurrency p < 1) (ValueError ''requested concurrency must be at least one''),
     raise_if (wp_mutation_permitted p) (ValueError ''resource plans must be explicitly non-mutating'')]"

definition workload_plan_to_dict :: "workload_resource_plan \<Rightarrow> json" where
  "workload_plan_to_dict p = JObj [
     (''eligible_trust_classes'', JArr (map JStr (sort (wp_eligible_trust_classes p)))),
     (''estimates'', JArr (map resource_estimate_to_dict (sort_key re_name (wp_estimates p)))),
     (''mutation_permitted'', JBool (wp_mutation_permitted p)),
     (''operation_id'', JStr (wp_operation_id p)),
     (''operation_kind'', JStr (wp_operation_kind p)),
     (''provider_name'', JOpt JStr (wp_provider_name p)),
     (''provider_strategy'', JOpt JStr (wp_provider_strategy p)),
     (''requested_concurrency'', JInt (wp_requested_concurrency p)),
     (''required_capabilities'', JArr (map JStr (sort (wp_required_capabilities p)))),
     (''transfers'', JArr (map transfer_forecast_to_dict (sort_key tf_name (wp_transfers p))))]"

section \<open>Admission policy and context\<close>

record confidence_margin =
  cm_confidence :: string
  cm_basis_points :: int

definition confidence_margin_post_init :: "confidence_margin \<Rightarrow> exc option" where
  "confidence_margin_post_init m = first_exc [
     raise_if (cm_confidence m \<notin> set MARGIN_CONFIDENCE_CLASSES)
       (ValueError ''margin confidence must be known, measured, estimated, or bounded''),
     require_nonnegative_safe_integer (Some (cm_basis_points m)),
     raise_if (cm_basis_points m > 100000) (ValueError ''confidence margin cannot exceed 1000 percent'')]"

definition confidence_margin_to_dict :: "confidence_margin \<Rightarrow> json" where
  "confidence_margin_to_dict m = JObj [
     (''basis_points'', JInt (cm_basis_points m)),
     (''confidence'', JStr (cm_confidence m))]"

record pool_safety_reserve =
  sr_pool_kind :: string
  sr_minimum_units :: int
  sr_capacity_basis_points :: int

definition pool_safety_reserve_post_init :: "pool_safety_reserve \<Rightarrow> exc option" where
  "pool_safety_reserve_post_init r = first_exc [
     raise_if (sr_pool_kind r \<notin> set RESOURCE_POOL_KINDS) (ValueError ''unknown reserve pool''),
     require_nonnegative_safe_integer (Some (sr_minimum_units r)),
     require_nonnegative_safe_integer (Some (sr_capacity_basis_points r)),
     raise_if (sr_capacity_basis_points r > 10000) (ValueError ''capacity reserve cannot exceed 100 percent'')]"

definition pool_safety_reserve_to_dict :: "pool_safety_reserve \<Rightarrow> json" where
  "pool_safety_reserve_to_dict r = JObj [
     (''capacity_basis_points'', JInt (sr_capacity_basis_points r)),
     (''minimum_units'', JInt (sr_minimum_units r)),
     (''pool_kind'', JStr (sr_pool_kind r))]"

record admission_policy =
  ap_confidence_margins :: "confidence_margin list"
  ap_pool_reserves :: "pool_safety_reserve list"
  ap_max_concurrency :: int
  ap_inventory_max_age_seconds :: int

definition admission_policy_post_init :: "admission_policy \<Rightarrow> exc option" where
  "admission_policy_post_init p =
     (let names = map cm_confidence (ap_confidence_margins p) in first_exc [
        raise_if (set names \<noteq> set MARGIN_CONFIDENCE_CLASSES \<or>
            length names \<noteq> length MARGIN_CONFIDENCE_CLASSES)
          (ValueError ''admission policy must define each non-unknown confidence margin exactly once''),
        require_unique (map sr_pool_kind (ap_pool_reserves p)),
        require_nonnegative_safe_integer (Some (ap_max_concurrency p)),
        require_nonnegative_safe_integer (Some (ap_inventory_max_age_seconds p)),
        raise_if (ap_max_concurrency p < 1 \<or> ap_inventory_max_age_seconds p < 1)
          (ValueError ''concurrency and inventory maximum age must be positive'')])"

text \<open>\<open>next(...)\<close> without a default raises \<open>StopIteration\<close>.\<close>

definition margin_basis_points :: "admission_policy \<Rightarrow> string \<Rightarrow> int result" where
  "margin_basis_points p confidence =
     (case find (\<lambda>m. cm_confidence m = confidence) (ap_confidence_margins p) of
        None \<Rightarrow> Inl StopIteration
      | Some m \<Rightarrow> Inr (cm_basis_points m))"

text \<open>
  The default argument of \<open>next\<close> is built before the search, so an unregistered pool kind
  raises even when no default is needed.
\<close>

definition policy_reserve :: "admission_policy \<Rightarrow> string \<Rightarrow> pool_safety_reserve result" where
  "policy_reserve p kind =
     ebind (construct pool_safety_reserve_post_init
              \<lparr>sr_pool_kind = kind, sr_minimum_units = 0, sr_capacity_basis_points = 0\<rparr>)
       (\<lambda>default.
          case find (\<lambda>r. sr_pool_kind r = kind) (ap_pool_reserves p) of
            None \<Rightarrow> Inr default
          | Some r \<Rightarrow> Inr r)"

definition admission_policy_to_dict :: "admission_policy \<Rightarrow> json" where
  "admission_policy_to_dict p = JObj [
     (''confidence_margins'',
        JArr (map confidence_margin_to_dict (sort_key cm_confidence (ap_confidence_margins p)))),
     (''inventory_max_age_seconds'', JInt (ap_inventory_max_age_seconds p)),
     (''max_concurrency'', JInt (ap_max_concurrency p)),
     (''pool_reserves'',
        JArr (map pool_safety_reserve_to_dict (sort_key sr_pool_kind (ap_pool_reserves p))))]"

record active_resource_usage =
  au_pool_kind :: string
  au_unit :: string
  au_amount :: int

definition active_usage_post_init :: "active_resource_usage \<Rightarrow> exc option" where
  "active_usage_post_init a = first_exc [
     raise_if (au_pool_kind a \<notin> set RESOURCE_POOL_KINDS) (ValueError ''unknown active resource pool''),
     raise_if (au_unit a \<notin> set RESOURCE_UNITS) (ValueError ''invalid active-resource unit''),
     require_pool_unit (au_pool_kind a) (au_unit a),
     require_nonnegative_safe_integer (Some (au_amount a))]"

definition active_usage_to_dict :: "active_resource_usage \<Rightarrow> json" where
  "active_usage_to_dict a = JObj [
     (''amount'', JInt (au_amount a)),
     (''pool_kind'', JStr (au_pool_kind a)),
     (''unit'', JStr (au_unit a))]"

record admission_context =
  ac_active_concurrency :: int
  ac_active_usage :: "active_resource_usage list"

definition admission_context_post_init :: "admission_context \<Rightarrow> exc option" where
  "admission_context_post_init c = first_exc [
     require_nonnegative_safe_integer (Some (ac_active_concurrency c)),
     require_unique (map au_pool_kind (ac_active_usage c))]"

definition admission_context_to_dict :: "admission_context \<Rightarrow> json" where
  "admission_context_to_dict c = JObj [
     (''active_concurrency'', JInt (ac_active_concurrency c)),
     (''active_usage'',
        JArr (map active_usage_to_dict (sort_key au_pool_kind (ac_active_usage c))))]"

section \<open>Issues and evaluations\<close>

record admission_issue =
  is_code :: string
  is_category :: string
  is_recoverable :: bool
  is_pool_kind :: "string option"
  is_required :: "int option"
  is_available :: "int option"

definition admission_issue_post_init :: "admission_issue \<Rightarrow> exc option" where
  "admission_issue_post_init i = first_exc [
     require_token (is_code i),
     raise_if (is_category i \<notin> set ISSUE_CATEGORIES) (ValueError ''invalid admission issue category''),
     (case is_pool_kind i of
        None \<Rightarrow> None
      | Some k \<Rightarrow> raise_if (k \<notin> set RESOURCE_POOL_KINDS) (ValueError ''unknown issue resource pool'')),
     require_nonnegative_safe_integer (is_required i),
     require_nonnegative_safe_integer (is_available i)]"

record resource_evaluation =
  ev_pool_kind :: string
  ev_unit :: string
  ev_estimate_names :: "string list"
  ev_expected :: "int option"
  ev_upper_bound :: "int option"
  ev_margin :: "int option"
  ev_required :: "int option"
  ev_observed_available :: "int option"
  ev_inventory_accuracy :: string
  ev_inventory_source :: string
  ev_safety_reserve :: "int option"
  ev_active_usage :: int
  ev_post_admission_available :: "int option"
  ev_backing_store :: "string option"
  ev_status :: string

definition resource_evaluation_post_init :: "resource_evaluation \<Rightarrow> exc option" where
  "resource_evaluation_post_init e = first_exc [
     raise_if (ev_pool_kind e \<notin> set RESOURCE_POOL_KINDS \<or> ev_unit e \<notin> set RESOURCE_UNITS)
       (ValueError ''resource evaluation must name a typed pool and unit''),
     require_pool_unit (ev_pool_kind e) (ev_unit e),
     raise_if (ev_inventory_accuracy e \<notin> {''exact'', ''bounded'', ''estimated'', ''unknown''})
       (ValueError ''resource evaluation must preserve registered inventory accuracy''),
     raise_if (ev_inventory_source e = []) (ValueError ''resource evaluation must preserve inventory provenance''),
     raise_if (ev_estimate_names e = []) (ValueError ''resource evaluation requires estimate identities''),
     require_unique (ev_estimate_names e),
     first_exc (map require_token (ev_estimate_names e)),
     require_nonnegative_safe_integer (ev_expected e),
     require_nonnegative_safe_integer (ev_upper_bound e),
     require_nonnegative_safe_integer (ev_margin e),
     require_nonnegative_safe_integer (ev_required e),
     require_nonnegative_safe_integer (ev_observed_available e),
     require_nonnegative_safe_integer (ev_safety_reserve e),
     require_nonnegative_safe_integer (Some (ev_active_usage e)),
     require_nonnegative_safe_integer (ev_post_admission_available e),
     raise_if (ev_status e \<notin> set EVALUATION_STATES) (ValueError ''invalid resource evaluation state'')]"

definition resource_evaluation_to_dict :: "resource_evaluation \<Rightarrow> json" where
  "resource_evaluation_to_dict e = JObj [
     (''active_usage'', JInt (ev_active_usage e)),
     (''backing_store'', JOpt JStr (ev_backing_store e)),
     (''estimate_names'', JArr (map JStr (sort (ev_estimate_names e)))),
     (''expected'', JOpt JInt (ev_expected e)),
     (''inventory_accuracy'', JStr (ev_inventory_accuracy e)),
     (''inventory_source'', JStr (ev_inventory_source e)),
     (''margin'', JOpt JInt (ev_margin e)),
     (''observed_available'', JOpt JInt (ev_observed_available e)),
     (''pool_kind'', JStr (ev_pool_kind e)),
     (''post_admission_available'', JOpt JInt (ev_post_admission_available e)),
     (''required'', JOpt JInt (ev_required e)),
     (''safety_reserve'', JOpt JInt (ev_safety_reserve e)),
     (''status'', JStr (ev_status e)),
     (''unit'', JStr (ev_unit e)),
     (''upper_bound'', JOpt JInt (ev_upper_bound e))]"

record backing_store_evaluation =
  bs_backing_store :: string
  bs_pool_kinds :: "string list"
  bs_required :: int
  bs_observed_available :: int
  bs_safety_reserve :: int
  bs_active_usage :: int
  bs_post_admission_available :: int
  bs_status :: string

definition backing_store_evaluation_post_init :: "backing_store_evaluation \<Rightarrow> exc option" where
  "backing_store_evaluation_post_init b = first_exc [
     raise_if (bs_backing_store b = [] \<or> length (bs_pool_kinds b) < 2)
       (ValueError ''backing-store evaluations require an identity and at least two logical pools''),
     require_unique (bs_pool_kinds b),
     raise_if (\<exists>k \<in> set (bs_pool_kinds b).
         k \<notin> set (filter (\<lambda>k. k \<notin> {''ram'', ''swap'', ''cpu''}) RESOURCE_POOL_KINDS))
       (ValueError ''backing-store evaluations may contain only disk-backed pools''),
     require_nonnegative_safe_integer (Some (bs_required b)),
     require_nonnegative_safe_integer (Some (bs_observed_available b)),
     require_nonnegative_safe_integer (Some (bs_safety_reserve b)),
     require_nonnegative_safe_integer (Some (bs_active_usage b)),
     require_nonnegative_safe_integer (Some (bs_post_admission_available b)),
     raise_if (bs_status b \<notin> {''pass'', ''fail''})
       (ValueError ''backing-store evaluation status must be pass or fail'')]"

definition backing_store_evaluation_to_dict :: "backing_store_evaluation \<Rightarrow> json" where
  "backing_store_evaluation_to_dict b = JObj [
     (''active_usage'', JInt (bs_active_usage b)),
     (''backing_store'', JStr (bs_backing_store b)),
     (''observed_available'', JInt (bs_observed_available b)),
     (''pool_kinds'', JArr (map JStr (sort (bs_pool_kinds b)))),
     (''post_admission_available'', JInt (bs_post_admission_available b)),
     (''required'', JInt (bs_required b)),
     (''safety_reserve'', JInt (bs_safety_reserve b)),
     (''status'', JStr (bs_status b))]"

section \<open>Admission reports\<close>

record resource_admission_report =
  rr_reservation_id :: string
  rr_stage :: string
  rr_outcome :: string
  rr_observed_at :: timestamp
  rr_inventory_observed_at :: timestamp
  rr_plan :: workload_resource_plan
  rr_policy :: admission_policy
  rr_context :: admission_context
  rr_resource_evaluations :: "resource_evaluation list"
  rr_backing_store_evaluations :: "backing_store_evaluation list"
  rr_issues :: "admission_issue list"
  rr_mutation_permitted :: bool

definition admission_report_post_init :: "resource_admission_report \<Rightarrow> exc option" where
  "admission_report_post_init r = first_exc [
     raise_if (\<not> is_opid ''resource-reservation'' (rr_reservation_id r))
       (ValueError ''reservation ID must be an operational resource-reservation UUIDv7''),
     raise_if (rr_stage r \<notin> set ADMISSION_STAGES \<or> rr_outcome r \<notin> set ADMISSION_OUTCOMES)
       (ValueError ''invalid admission stage or outcome''),
     require_timestamp (rr_observed_at r),
     require_timestamp (rr_inventory_observed_at r),
     require_unique (map ev_pool_kind (rr_resource_evaluations r)),
     require_unique (map bs_backing_store (rr_backing_store_evaluations r)),
     raise_if (rr_outcome r = ''admitted'' \<and> rr_issues r \<noteq> [])
       (ValueError ''admitted resource reports cannot retain blocking issues''),
     raise_if (rr_outcome r \<noteq> ''admitted'' \<and> rr_issues r = [])
       (ValueError ''non-admitted resource reports require explicit issues''),
     raise_if (rr_stage r = ''preflight'' \<and> rr_outcome r \<notin> {''admitted'', ''rejected''})
       (ValueError ''preflight outcomes must be admitted or rejected''),
     raise_if (rr_stage r = ''dynamic'' \<and> rr_outcome r = ''rejected'')
       (ValueError ''dynamic admission uses backpressure or drain instead of rejected''),
     raise_if (rr_outcome r = ''backpressure'' \<and> (\<exists>i \<in> set (rr_issues r). \<not> is_recoverable i))
       (ValueError ''backpressure reports may contain only recoverable issues''),
     raise_if (rr_outcome r = ''drain'' \<and> \<not> (\<exists>i \<in> set (rr_issues r). \<not> is_recoverable i))
       (ValueError ''drain reports require at least one non-recoverable issue''),
     raise_if (set (map re_pool_kind (wp_estimates (rr_plan r))) \<noteq>
         set (map ev_pool_kind (rr_resource_evaluations r)))
       (ValueError ''resource reports must evaluate every and only planned typed pool''),
     raise_if (rr_outcome r = ''admitted'' \<and> (\<exists>e \<in> set (rr_resource_evaluations r). ev_status e \<noteq> ''pass''))
       (ValueError ''admitted reports require every typed resource evaluation to pass''),
     raise_if (rr_outcome r = ''admitted'' \<and> (\<exists>b \<in> set (rr_backing_store_evaluations r). bs_status b \<noteq> ''pass''))
       (ValueError ''admitted reports require every shared backing-store evaluation to pass''),
     raise_if (rr_mutation_permitted r) (ValueError ''admission reports must be explicitly non-mutating'')]"

section \<open>What constructed values guarantee\<close>

definition plan_constructed :: "workload_resource_plan \<Rightarrow> bool" where
  "plan_constructed p \<longleftrightarrow>
     workload_plan_post_init p = None \<and>
     (\<forall>e \<in> set (wp_estimates p). resource_estimate_post_init e = None) \<and>
     (\<forall>t \<in> set (wp_transfers p). transfer_forecast_post_init t = None)"

definition policy_constructed :: "admission_policy \<Rightarrow> bool" where
  "policy_constructed p \<longleftrightarrow>
     admission_policy_post_init p = None \<and>
     (\<forall>m \<in> set (ap_confidence_margins p). confidence_margin_post_init m = None) \<and>
     (\<forall>r \<in> set (ap_pool_reserves p). pool_safety_reserve_post_init r = None)"

definition context_constructed :: "admission_context \<Rightarrow> bool" where
  "context_constructed c \<longleftrightarrow>
     admission_context_post_init c = None \<and>
     (\<forall>a \<in> set (ac_active_usage c). active_usage_post_init a = None)"

text \<open>A known forecast is exact; any other known one is bounded from above by its upper bound.\<close>

lemma validate_forecast_None:
  assumes "validate_forecast c e u d = None" and "c \<noteq> ''unknown''"
  obtains b where "u = Some b" "safe_integer b" "\<forall>x. e = Some x \<longrightarrow> x \<le> b \<and> safe_integer x"
    "c \<in> set MARGIN_CONFIDENCE_CLASSES"
  using assms
  by (cases u; cases e) (auto simp: validate_forecast_def validates MARGIN_CONFIDENCE_CLASSES_def)

lemma validate_forecast_unknown:
  "validate_forecast ''unknown'' e u d = None \<Longrightarrow> e = None \<and> u = None"
  by (auto simp: validate_forecast_def)

lemma estimate_unit:
  "resource_estimate_post_init e = None \<Longrightarrow>
     re_unit e = (if re_pool_kind e = ''cpu'' then ''logical_cpu'' else ''bytes'') \<and>
     re_pool_kind e \<in> set RESOURCE_POOL_KINDS \<and> is_token (re_name e)"
  by (simp add: resource_estimate_post_init_def validates)

lemma estimate_forecast:
  "resource_estimate_post_init e = None \<Longrightarrow>
     validate_forecast (re_confidence e) (re_expected e) (re_upper_bound e) (re_diagnostic e) = None"
  by (simp add: resource_estimate_post_init_def)

text \<open>Every non-unknown confidence has a margin between 0 and 1000 percent.\<close>

lemma margin_basis_points_defined:
  assumes "policy_constructed p" and "c \<in> set MARGIN_CONFIDENCE_CLASSES"
  shows "\<exists>b. margin_basis_points p c = Inr b \<and> 0 \<le> b \<and> b \<le> 100000"
proof -
  from assms have "c \<in> set (map cm_confidence (ap_confidence_margins p))"
    by (auto simp: policy_constructed_def admission_policy_post_init_def Let_def)
  then obtain m where "find (\<lambda>m. cm_confidence m = c) (ap_confidence_margins p) = Some m"
    by (cases "find (\<lambda>m. cm_confidence m = c) (ap_confidence_margins p)") (auto simp: find_None_iff)
  moreover from this assms(1) have "confidence_margin_post_init m = None"
    by (auto simp: policy_constructed_def dest: find_SomeD)
  ultimately show ?thesis
    by (auto simp: margin_basis_points_def confidence_margin_post_init_def validates safe_integer_def)
qed

text \<open>Every registered pool has a safety reserve of at most its whole capacity.\<close>

lemma policy_reserve_defined:
  assumes "policy_constructed p" and "k \<in> set RESOURCE_POOL_KINDS"
  shows "\<exists>r. policy_reserve p k = Inr r \<and> safe_integer (sr_minimum_units r) \<and>
     0 \<le> sr_capacity_basis_points r \<and> sr_capacity_basis_points r \<le> 10000"
  using assms
  by (auto simp: policy_reserve_def pool_safety_reserve_post_init_def validates safe_integer_def
      SAFE_INTEGER_MAX_def policy_constructed_def ebind_def construct_def
      split: option.splits dest!: find_SomeD)

lemma policy_reserve_unregistered:
  "k \<notin> set RESOURCE_POOL_KINDS \<Longrightarrow> policy_reserve p k = Inl (ValueError ''unknown reserve pool'')"
  by (simp add: policy_reserve_def pool_safety_reserve_post_init_def construct_def raise_if_def)

end
