(* ===== verification/Environment_Models.thy ===== *)
theory Environment_Models
  imports Prelude
begin

text \<open>
  Recipes, provider plans, observations and the lifecycle record of
  \<open>control-plane/.../environment_models.py\<close>: records and validators. The validator of the
  lifecycle record is the place where the code states what a Ready environment is.
\<close>

definition LIFECYCLE_STATES :: "string list" where
  "LIFECYCLE_STATES = [''planned'', ''admitted'', ''acquiring'', ''verifying_artifacts'',
     ''artifacts_verified'', ''constructing'', ''constructed'', ''verifying_runtime'',
     ''runtime_verified'', ''verifying_smoke'', ''smoke_verified'', ''fingerprinting'', ''ready'',
     ''releasing'', ''released'', ''cancelled'', ''rejected'', ''failed'', ''cleanup_required'',
     ''release_failed'']"

definition FAILURE_CLASSES :: "string list" where
  "FAILURE_CLASSES = [''admission'', ''cancelled'', ''input'', ''provider'', ''verification'']"

definition ENV_CAPABILITY_STATES :: "string list" where
  "ENV_CAPABILITY_STATES = [''supported'', ''unsupported'', ''unknown'']"

text \<open>An optional diagnostic text that is missing or empty (Python: \<open>not diagnostic\<close>).\<close>

definition no_text :: "string option \<Rightarrow> bool" where
  "no_text d \<longleftrightarrow> d = None \<or> d = Some []"

section \<open>Recipes\<close>

record named_value =
  nv_name :: string
  nv_value :: string

definition named_value_post_init :: "named_value \<Rightarrow> exc option" where
  "named_value_post_init v = first_exc [
     require_token (nv_name v),
     raise_if (nv_value v = []) (ValueError ''fact value must be a non-empty string'')]"

record artifact_requirement =
  ar_name :: string
  ar_sha256 :: string
  ar_size_bytes :: int
  ar_media_type :: string
  ar_locators :: "string list"

definition artifact_requirement_post_init :: "artifact_requirement \<Rightarrow> exc option" where
  "artifact_requirement_post_init a = first_exc [
     require_token (ar_name a),
     require_sha256 (ar_sha256 a),
     require_token (ar_media_type a),
     require_nonnegative_safe_integer (Some (ar_size_bytes a)),
     raise_if (ar_locators a = [] \<or> [] \<in> set (ar_locators a))
       (ValueError ''artifact locators must contain non-empty strings'')]"

record environment_recipe =
  rc_recipe_revision_id :: string
  rc_target_profile_id :: string
  rc_target_release_id :: string
  rc_strategy :: string
  rc_artifacts :: "artifact_requirement list"
  rc_expected_runtime_facts :: "named_value list"
  rc_expected_configuration :: "named_value list"
  rc_required_capabilities :: "string list"
  rc_smoke_probe_ids :: "string list"
  rc_isolation_policy_digest :: string
  rc_network_policy :: string

definition environment_recipe_post_init :: "environment_recipe \<Rightarrow> exc option" where
  "environment_recipe_post_init r = first_exc [
     require_rcid (rc_recipe_revision_id r),
     require_rcid (rc_target_profile_id r),
     require_rcid (rc_target_release_id r),
     require_token (rc_strategy r),
     require_sha256 (rc_isolation_policy_digest r),
     require_token (rc_network_policy r),
     require_unique (map ar_name (rc_artifacts r)),
     require_unique (map nv_name (rc_expected_runtime_facts r)),
     require_unique (map nv_name (rc_expected_configuration r)),
     require_unique (rc_required_capabilities r),
     require_unique (rc_smoke_probe_ids r),
     raise_if (rc_artifacts r = [] \<or> rc_expected_runtime_facts r = [] \<or> rc_smoke_probe_ids r = [])
       (ValueError ''environment recipes require artifacts, runtime facts, and smoke probes''),
     first_exc (map require_token (rc_required_capabilities r @ rc_smoke_probe_ids r))]"

section \<open>Providers\<close>

record env_capability =
  ec_name :: string
  ec_status :: string
  ec_diagnostic :: "string option"

definition env_capability_post_init :: "env_capability \<Rightarrow> exc option" where
  "env_capability_post_init c = first_exc [
     require_token (ec_name c),
     raise_if (ec_status c \<notin> set ENV_CAPABILITY_STATES) (ValueError ''invalid provider capability status''),
     raise_if (ec_status c \<noteq> ''supported'' \<and> no_text (ec_diagnostic c))
       (ValueError ''unsupported or unknown provider capabilities require a diagnostic'')]"

record provider_descriptor =
  pd_name :: string
  pd_strategy :: string
  pd_implementation_digest :: string
  pd_capabilities :: "env_capability list"

definition provider_descriptor_post_init :: "provider_descriptor \<Rightarrow> exc option" where
  "provider_descriptor_post_init d = first_exc [
     require_token (pd_name d),
     require_token (pd_strategy d),
     require_sha256 (pd_implementation_digest d),
     require_unique (map ec_name (pd_capabilities d)),
     raise_if (pd_capabilities d = []) (ValueError ''provider descriptor requires explicit capabilities'')]"

definition descriptor_capability :: "provider_descriptor \<Rightarrow> string \<Rightarrow> env_capability option" where
  "descriptor_capability d name = find (\<lambda>c. ec_name c = name) (pd_capabilities d)"

record provider_plan =
  pp_provider_name :: string
  pp_plan_token :: string
  pp_expected_download_bytes :: int
  pp_expected_expanded_bytes :: int
  pp_expected_scratch_bytes :: int
  pp_diagnostics :: "string list"
  pp_mutation_permitted :: bool

definition provider_plan_post_init :: "provider_plan \<Rightarrow> exc option" where
  "provider_plan_post_init p = first_exc [
     require_token (pp_provider_name p),
     raise_if (pp_plan_token p = []) (ValueError ''provider plan token is required''),
     require_nonnegative_safe_integer (Some (pp_expected_download_bytes p)),
     require_nonnegative_safe_integer (Some (pp_expected_expanded_bytes p)),
     require_nonnegative_safe_integer (Some (pp_expected_scratch_bytes p)),
     raise_if (pp_mutation_permitted p) (ValueError ''environment planning must not permit mutation'')]"

record admission_decision =
  ad_admitted :: bool
  ad_decision_id :: string
  ad_reason :: string

definition admission_decision_post_init :: "admission_decision \<Rightarrow> exc option" where
  "admission_decision_post_init d =
     raise_if (ad_decision_id d = [] \<or> ad_reason d = [])
       (ValueError ''admission decision ID and reason are required'')"

section \<open>Acquisition, verification and runtime observations\<close>

record artifact_observation =
  ao_name :: string
  ao_path :: string

definition artifact_observation_post_init :: "artifact_observation \<Rightarrow> exc option" where
  "artifact_observation_post_init b = first_exc [
     require_token (ao_name b),
     raise_if (ao_path b = []) (ValueError ''observed artifact path is required'')]"

record provider_acquisition =
  aq_handle :: string
  aq_artifacts :: "artifact_observation list"

definition provider_acquisition_post_init :: "provider_acquisition \<Rightarrow> exc option" where
  "provider_acquisition_post_init a = first_exc [
     raise_if (aq_handle a = []) (ValueError ''provider acquisition handle is required''),
     require_unique (map ao_name (aq_artifacts a))]"

record verified_artifact =
  va_name :: string
  va_sha256 :: string
  va_size_bytes :: int
  va_media_type :: string

definition verified_artifact_post_init :: "verified_artifact \<Rightarrow> exc option" where
  "verified_artifact_post_init a = first_exc [
     require_token (va_name a),
     require_sha256 (va_sha256 a),
     require_token (va_media_type a),
     require_nonnegative_safe_integer (Some (va_size_bytes a))]"

record runtime_identity =
  ri_strategy :: string
  ri_provider_implementation_digest :: string
  ri_facts :: "named_value list"
  ri_relevant_configuration :: "named_value list"
  ri_isolation_policy_digest :: string
  ri_network_policy :: string

definition runtime_identity_post_init :: "runtime_identity \<Rightarrow> exc option" where
  "runtime_identity_post_init r = first_exc [
     require_token (ri_strategy r),
     require_sha256 (ri_provider_implementation_digest r),
     require_sha256 (ri_isolation_policy_digest r),
     require_token (ri_network_policy r),
     require_unique (map nv_name (ri_facts r)),
     require_unique (map nv_name (ri_relevant_configuration r)),
     raise_if (ri_facts r = []) (ValueError ''runtime identity requires behaviorally relevant facts'')]"

record smoke_observation =
  so_probe_id :: string
  so_passed :: bool
  so_diagnostic :: "string option"

definition smoke_observation_post_init :: "smoke_observation \<Rightarrow> exc option" where
  "smoke_observation_post_init b = first_exc [
     require_token (so_probe_id b),
     raise_if (\<not> so_passed b \<and> no_text (so_diagnostic b)) (ValueError ''failed smoke probes require a diagnostic'')]"

record provider_outcome =
  po_succeeded :: bool
  po_diagnostics :: "string list"

definition provider_outcome_post_init :: "provider_outcome \<Rightarrow> exc option" where
  "provider_outcome_post_init b =
     raise_if (\<not> po_succeeded b \<and> po_diagnostics b = []) (ValueError ''failed provider outcomes require diagnostics'')"

record provider_diagnosis =
  pdg_status :: string
  pdg_diagnostics :: "string list"

definition DIAGNOSIS_STATES :: "string list" where
  "DIAGNOSIS_STATES = [''healthy'', ''degraded'', ''unavailable'', ''unknown'']"

definition provider_diagnosis_post_init :: "provider_diagnosis \<Rightarrow> exc option" where
  "provider_diagnosis_post_init d =
     raise_if (pdg_status d \<notin> set DIAGNOSIS_STATES) (ValueError ''invalid provider diagnosis status'')"

record environment_diagnosis =
  ed_transaction_id :: string
  ed_state :: string
  ed_provider_name :: string
  ed_provider_status :: string
  ed_diagnostics :: "string list"
  ed_failure_code :: "string option"

definition environment_diagnosis_post_init :: "environment_diagnosis \<Rightarrow> exc option" where
  "environment_diagnosis_post_init d = first_exc [
     raise_if (\<not> is_opid ''environment'' (ed_transaction_id d))
       (ValueError ''diagnosis transaction ID must be an operational environment UUIDv7''),
     raise_if (ed_state d \<notin> set LIFECYCLE_STATES) (ValueError ''diagnosis state is invalid''),
     require_token (ed_provider_name d),
     raise_if (ed_provider_status d \<notin> set DIAGNOSIS_STATES) (ValueError ''diagnosis provider status is invalid'')]"

section \<open>Failures, transitions and the lifecycle record\<close>

record lifecycle_failure =
  lf_classification :: string
  lf_code :: string
  lf_message :: string
  lf_cleanup_required :: bool

definition lifecycle_failure_post_init :: "lifecycle_failure \<Rightarrow> exc option" where
  "lifecycle_failure_post_init f = first_exc [
     raise_if (lf_classification f \<notin> set FAILURE_CLASSES) (ValueError ''invalid lifecycle failure class''),
     require_token (lf_code f),
     raise_if (lf_message f = []) (ValueError ''failure message is required'')]"

record lifecycle_transition =
  lt_sequence :: int
  lt_from_state :: "string option"
  lt_to_state :: string
  lt_observed_at :: timestamp
  lt_detail :: string

definition lifecycle_transition_post_init :: "lifecycle_transition \<Rightarrow> exc option" where
  "lifecycle_transition_post_init t = first_exc [
     raise_if (lt_sequence t < 1) (ValueError ''transition sequence starts at one''),
     (case lt_from_state t of
        None \<Rightarrow> None
      | Some s \<Rightarrow> raise_if (s \<notin> set LIFECYCLE_STATES) (ValueError ''invalid source lifecycle state'')),
     raise_if (lt_to_state t \<notin> set LIFECYCLE_STATES) (ValueError ''invalid target lifecycle state''),
     require_timestamp (lt_observed_at t),
     raise_if (lt_detail t = []) (ValueError ''transition detail is required'')]"

record lifecycle_record =
  lr_transaction_id :: string
  lr_state :: string
  lr_recipe :: environment_recipe
  lr_provider :: provider_descriptor
  lr_plan :: "provider_plan option"
  lr_admission :: "admission_decision option"
  lr_provider_handle :: "string option"
  lr_verified_artifacts :: "verified_artifact list"
  lr_runtime_identity :: "runtime_identity option"
  lr_smoke_observations :: "smoke_observation list"
  lr_verification_digest :: "string option"
  lr_environment_fingerprint_id :: "string option"
  lr_transitions :: "lifecycle_transition list"
  lr_failure :: "lifecycle_failure option"
  lr_rollback :: "provider_outcome option"
  lr_diagnostics :: "string list"

text \<open>\<open>needle in text\<close> for strings: a contiguous occurrence.\<close>

fun occurs_in :: "string \<Rightarrow> string \<Rightarrow> bool" where
  "occurs_in needle [] \<longleftrightarrow> needle = []"
| "occurs_in needle (c # cs) \<longleftrightarrow> take (length needle) (c # cs) = needle \<or> occurs_in needle cs"

definition lifecycle_fingerprint_check :: "lifecycle_record \<Rightarrow> exc option" where
  "lifecycle_fingerprint_check r =
     (case lr_environment_fingerprint_id r of
        None \<Rightarrow> None
      | Some f \<Rightarrow> first_exc [
          require_rcid f,
          raise_if (\<not> occurs_in '':environment-fingerprint:h:'' f)
            (ValueError ''environment fingerprint must use the environment-fingerprint hash namespace'')])"

definition lifecycle_ready_check :: "lifecycle_record \<Rightarrow> exc option" where
  "lifecycle_ready_check r =
     (if lr_state r = ''ready''
      then first_exc [
        raise_if (lr_provider_handle r = None \<or> lr_runtime_identity r = None \<or>
            lr_verification_digest r = None \<or> lr_environment_fingerprint_id r = None \<or> lr_failure r \<noteq> None)
          (ValueError ''Ready requires verified runtime, fingerprint, handle, and no failure''),
        raise_if (lr_plan r = None \<or>
            (case lr_admission r of None \<Rightarrow> True | Some d \<Rightarrow> \<not> ad_admitted d))
          (ValueError ''Ready requires an admitted provider plan''),
        raise_if (lr_verified_artifacts r = [] \<or> lr_smoke_observations r = [])
          (ValueError ''Ready requires verified artifacts and smoke observations''),
        raise_if (\<exists>s \<in> set (lr_smoke_observations r). \<not> so_passed s)
          (ValueError ''Ready cannot contain a failed smoke observation''),
        raise_if (lr_rollback r \<noteq> None) (ValueError ''Ready cannot follow a rollback'')]
      else None)"

definition lifecycle_failure_check :: "lifecycle_record \<Rightarrow> exc option" where
  "lifecycle_failure_check r = first_exc [
     raise_if (lr_state r \<in> {''rejected'', ''failed'', ''cleanup_required'', ''release_failed''} \<and> lr_failure r = None)
       (ValueError ''state requires an explicit failure''),
     raise_if (lr_state r = ''cancelled'' \<and> lr_failure r = None)
       (ValueError ''cancelled requires an explicit failure''),
     raise_if (lr_state r \<in> {''cleanup_required'', ''release_failed''} \<and>
         (case lr_failure r of None \<Rightarrow> True | Some f \<Rightarrow> \<not> lf_cleanup_required f))
       (ValueError ''state requires cleanup_required failure evidence'')]"

definition lifecycle_record_post_init :: "lifecycle_record \<Rightarrow> exc option" where
  "lifecycle_record_post_init r = first_exc [
     raise_if (\<not> is_opid ''environment'' (lr_transaction_id r))
       (ValueError ''transaction ID must be an operational environment UUIDv7''),
     raise_if (lr_state r \<notin> set LIFECYCLE_STATES) (ValueError ''invalid lifecycle state''),
     require_unique (map va_name (lr_verified_artifacts r)),
     require_unique (map so_probe_id (lr_smoke_observations r)),
     (case lr_verification_digest r of None \<Rightarrow> None | Some d \<Rightarrow> require_sha256 d),
     lifecycle_fingerprint_check r,
     lifecycle_ready_check r,
     lifecycle_failure_check r,
     raise_if (map lt_sequence (lr_transitions r) \<noteq> map int [1..<length (lr_transitions r) + 1])
       (ValueError ''transition sequence must be contiguous and ordered''),
     raise_if (lr_transitions r \<noteq> [] \<and> lt_to_state (last (lr_transitions r)) \<noteq> lr_state r)
       (ValueError ''last transition must match current lifecycle state'')]"

section \<open>What a constructed Ready record carries\<close>

lemma ready_record_evidence:
  assumes "lifecycle_record_post_init r = None" and "lr_state r = ''ready''"
  shows "lr_provider_handle r \<noteq> None" "lr_runtime_identity r \<noteq> None"
    "lr_verification_digest r \<noteq> None" "lr_environment_fingerprint_id r \<noteq> None"
    "lr_failure r = None" "lr_plan r \<noteq> None" "lr_rollback r = None"
    "\<exists>d. lr_admission r = Some d \<and> ad_admitted d"
    "lr_verified_artifacts r \<noteq> []" "lr_smoke_observations r \<noteq> []"
    "\<forall>s \<in> set (lr_smoke_observations r). so_passed s"
  using assms
  by (auto simp: lifecycle_record_post_init_def lifecycle_ready_check_def split: option.splits)

lemma constructed_sequence:
  assumes "lifecycle_record_post_init r = None"
  shows "map lt_sequence (lr_transitions r) = map int [1..<length (lr_transitions r) + 1]"
  using assms by (simp add: lifecycle_record_post_init_def)

lemma constructed_last_state:
  assumes "lifecycle_record_post_init r = None" and "lr_transitions r \<noteq> []"
  shows "lt_to_state (last (lr_transitions r)) = lr_state r"
  using assms by (simp add: lifecycle_record_post_init_def)

end
