(* ===== verification/Resource_Planner.thy ===== *)
theory Resource_Planner
  imports Machine_Inventory Resource_Models Environment_Models
begin

text \<open>
  \<open>ResourcePlanner\<close> of \<open>control-plane/.../resource_planner.py\<close>: workload plans, the admission
  evaluation and the decision that binds a preflight report to an environment transaction.

  The evaluation threads the list of blocking issues through its stages, as the code threads
  its mutable \<open>issues\<close> list; a stage that constructs an invalid record raises, so every stage
  is a function into \<open>exc + admission_issue list\<close>. Clock, identifier generator and
  calibrator are fields of the planner: the value the clock returns, the identifier the
  generator returns, and the calibration function.

  Ages are compared in microseconds. The code compares \<open>total_seconds()\<close>, a float, with an
  integer number of seconds; the two agree for any age below several hundred years.
\<close>

section \<open>Integer helpers\<close>

definition ceil_basis_points :: "int \<Rightarrow> int \<Rightarrow> int result" where
  "ceil_basis_points amount basis_points =
     (let result = (amount * basis_points + 9999) div 10000 in
      if result > SAFE_INTEGER_MAX
      then Inl (OverflowError ''basis-point calculation exceeds the safe-integer domain'')
      else Inr result)"

definition safe_sum :: "int list \<Rightarrow> int result" where
  "safe_sum values =
     (let result = sum_list values in
      if result > SAFE_INTEGER_MAX
      then Inl (OverflowError ''resource aggregation exceeds the safe-integer domain'')
      else Inr result)"

definition observation_problem :: "int \<Rightarrow> timestamp \<Rightarrow> int \<Rightarrow> int \<Rightarrow> string option" where
  "observation_problem now observed_at reported_staleness maximum_age =
     (let actual_age = now - instant observed_at in
      if actual_age < 0 then Some ''future''
      else if actual_age > maximum_age * 1000000 \<or> reported_staleness > maximum_age then Some ''stale''
      else None)"

text \<open>\<open>value or 0\<close> for an optional amount.\<close>

definition or_zero :: "int option \<Rightarrow> int" where
  "or_zero v = (case v of None \<Rightarrow> 0 | Some n \<Rightarrow> n)"

text \<open>\<open>max(values, default=0)\<close> and \<open>min(values)\<close>.\<close>

fun list_max :: "int list \<Rightarrow> int" where
  "list_max [] = 0"
| "list_max [x] = x"
| "list_max (x # y # ys) = max x (list_max (y # ys))"

fun list_min :: "int list \<Rightarrow> int" where
  "list_min [] = 0"
| "list_min [x] = x"
| "list_min (x # y # ys) = min x (list_min (y # ys))"

section \<open>Issues\<close>

definition issue :: "string \<Rightarrow> string \<Rightarrow> bool \<Rightarrow> string option \<Rightarrow> int option \<Rightarrow> int option \<Rightarrow> admission_issue" where
  "issue code category recoverable pool_kind required available =
     \<lparr>is_code = code, is_category = category, is_recoverable = recoverable,
      is_pool_kind = pool_kind, is_required = required, is_available = available\<rparr>"

definition add_issue :: "admission_issue \<Rightarrow> admission_issue list \<Rightarrow> admission_issue list result" where
  "add_issue i issues = ebind (construct admission_issue_post_init i) (\<lambda>i. Inr (issues @ [i]))"

definition issue_if :: "bool \<Rightarrow> admission_issue \<Rightarrow> admission_issue list \<Rightarrow> admission_issue list result" where
  "issue_if b i issues = (if b then add_issue i issues else Inr issues)"

section \<open>The planner\<close>

record planner =
  pl_policy :: admission_policy
  pl_clock :: timestamp
  pl_new_reservation_id :: "string result"
  pl_calibrator :: "(resource_estimate list \<Rightarrow> string \<Rightarrow> string \<Rightarrow> resource_estimate list result) option"

definition workload_plan ::
    "planner \<Rightarrow> string \<Rightarrow> string \<Rightarrow> resource_estimate list \<Rightarrow> transfer_forecast list \<Rightarrow>
     string option \<Rightarrow> string option \<Rightarrow> string list \<Rightarrow> string list \<Rightarrow> int \<Rightarrow> string option \<Rightarrow>
     workload_resource_plan result" where
  "workload_plan pl operation_kind operation_id estimates transfers provider_name provider_strategy
       required_capabilities eligible_trust_classes requested_concurrency calibration_key =
     ebind (case (pl_calibrator pl, calibration_key) of
              (Some calibrate_all, Some key) \<Rightarrow> calibrate_all estimates operation_kind key
            | _ \<Rightarrow> Inr estimates)
       (\<lambda>calibrated. construct workload_plan_post_init
          \<lparr>wp_operation_kind = operation_kind, wp_operation_id = operation_id,
           wp_estimates = calibrated, wp_transfers = transfers,
           wp_provider_name = provider_name, wp_provider_strategy = provider_strategy,
           wp_required_capabilities = required_capabilities,
           wp_eligible_trust_classes = eligible_trust_classes,
           wp_requested_concurrency = requested_concurrency, wp_mutation_permitted = False\<rparr>)"

definition provider_plan_estimate :: "string \<Rightarrow> string \<Rightarrow> int \<Rightarrow> string \<Rightarrow> resource_estimate" where
  "provider_plan_estimate name pool_kind amount confidence =
     \<lparr>re_name = name, re_pool_kind = pool_kind, re_unit = ''bytes'', re_expected = Some amount,
      re_upper_bound = Some amount, re_confidence = confidence, re_source = ''provider-plan'',
      re_diagnostic = None\<rparr>"

definition environment_plan ::
    "planner \<Rightarrow> lifecycle_record \<Rightarrow> string \<Rightarrow> string \<Rightarrow> resource_estimate list \<Rightarrow> string list \<Rightarrow>
     string list \<Rightarrow> workload_resource_plan result" where
  "environment_plan pl record machine_provider_name estimate_confidence supplemental_estimates
       required_capabilities eligible_trust_classes =
     (case lr_plan record of
        None \<Rightarrow> Inl (ValueError ''environment resource planning requires a planned provider transaction'')
      | Some provider_plan \<Rightarrow>
          if lr_state record \<noteq> ''planned''
          then Inl (ValueError ''environment resource planning requires a planned provider transaction'')
          else
            ebind (mapE (construct resource_estimate_post_init) [
                provider_plan_estimate ''environment-download-cache'' ''environment_cache''
                  (pp_expected_download_bytes provider_plan) estimate_confidence,
                provider_plan_estimate ''environment-expanded-cache'' ''environment_cache''
                  (pp_expected_expanded_bytes provider_plan) estimate_confidence,
                provider_plan_estimate ''environment-build-scratch'' ''build_scratch''
                  (pp_expected_scratch_bytes provider_plan) estimate_confidence])
              (\<lambda>base. ebind (construct transfer_forecast_post_init
                  \<lparr>tf_name = ''environment-acquisition'', tf_direction = ''download'',
                   tf_expected_bytes = Some (pp_expected_download_bytes provider_plan),
                   tf_upper_bound_bytes = Some (pp_expected_download_bytes provider_plan),
                   tf_confidence = estimate_confidence, tf_source = ''provider-plan'',
                   tf_diagnostic = None\<rparr>)
                (\<lambda>transfer. workload_plan pl ''environment'' (lr_transaction_id record)
                   (base @ supplemental_estimates) [transfer] (Some machine_provider_name)
                   (Some (rc_strategy (lr_recipe record))) required_capabilities
                   eligible_trust_classes 1 (Some (rc_recipe_revision_id (lr_recipe record))))))"

section \<open>Stages of the evaluation\<close>

definition evaluate_inventory ::
    "admission_policy \<Rightarrow> int \<Rightarrow> doctor_report \<Rightarrow> admission_issue list \<Rightarrow> admission_issue list result" where
  "evaluate_inventory pol now inventory = seqE [
     issue_if (now - instant (dr_observed_at inventory) < 0)
       (issue ''inventory-observed-in-future'' ''inventory'' False None None None),
     issue_if (now > instant (dr_valid_until inventory) \<or>
         now - instant (dr_observed_at inventory) > ap_inventory_max_age_seconds pol * 1000000)
       (issue ''inventory-stale'' ''inventory'' False None None None),
     issue_if (dr_status inventory = ''unsupported'')
       (issue ''inventory-unsupported'' ''inventory'' False None None None)]"

definition evaluate_trust ::
    "workload_resource_plan \<Rightarrow> doctor_report \<Rightarrow> admission_issue list \<Rightarrow> admission_issue list result" where
  "evaluate_trust plan inventory = seqE [
     issue_if (tr_trust_class (dr_trust inventory) \<notin> set (wp_eligible_trust_classes plan))
       (issue ''trust-class-ineligible'' ''trust'' False None None None),
     issue_if (\<not> tr_configured (dr_trust inventory))
       (issue ''trust-class-unconfigured'' ''trust'' False None None None)]"

definition evaluate_provider ::
    "admission_policy \<Rightarrow> workload_resource_plan \<Rightarrow> doctor_report \<Rightarrow> int \<Rightarrow>
     admission_issue list \<Rightarrow> admission_issue list result" where
  "evaluate_provider pol plan inventory now issues =
     (case wp_provider_name plan of
        None \<Rightarrow> Inr issues
      | Some name \<Rightarrow>
          (case filter (\<lambda>c. pc_name c = name) (dr_providers inventory) of
             [provider] \<Rightarrow>
               seqE [
                 (case observation_problem now (pc_observed_at provider) (pc_staleness_seconds provider)
                     (ap_inventory_max_age_seconds pol) of
                    None \<Rightarrow> Inr
                  | Some problem \<Rightarrow>
                      add_issue (issue (''provider-inventory-'' @ problem) ''provider'' False None None None)),
                 issue_if (pc_accuracy provider \<noteq> ''exact'')
                   (issue ''provider-availability-ambiguous'' ''provider'' False None None None),
                 issue_if (pc_availability provider \<noteq> ''available'')
                   (issue ''provider-not-verified-available'' ''provider'' False None None None),
                 issue_if (case wp_provider_strategy plan of
                       None \<Rightarrow> True | Some s \<Rightarrow> s \<notin> set (pc_strategies provider))
                   (issue ''provider-strategy-unavailable'' ''provider'' False None None None)] issues
           | _ \<Rightarrow> add_issue (issue ''provider-inventory-ambiguous'' ''provider'' False None None None) issues))"

text \<open>The capability dictionary is built from distinct names, so a lookup is the first match.\<close>

definition evaluate_capability ::
    "admission_policy \<Rightarrow> doctor_report \<Rightarrow> int \<Rightarrow> string \<Rightarrow> admission_issue list \<Rightarrow> admission_issue list result" where
  "evaluate_capability pol inventory now name issues =
     (case find (\<lambda>c. cap_name c = name) (dr_capabilities inventory) of
        None \<Rightarrow> add_issue (issue ''required-capability-unavailable'' ''capability'' False None None None) issues
      | Some c \<Rightarrow>
          if cap_status c \<noteq> ''supported''
          then add_issue (issue ''required-capability-unavailable'' ''capability'' False None None None) issues
          else if cap_accuracy c \<noteq> ''exact''
          then add_issue (issue ''required-capability-ambiguous'' ''capability'' False None None None) issues
          else (case observation_problem now (cap_observed_at c) (cap_staleness_seconds c)
                    (ap_inventory_max_age_seconds pol) of
                  None \<Rightarrow> Inr issues
                | Some problem \<Rightarrow>
                    add_issue (issue (''capability-inventory-'' @ problem) ''capability'' False None None None)
                      issues))"

definition evaluate_capabilities ::
    "admission_policy \<Rightarrow> workload_resource_plan \<Rightarrow> doctor_report \<Rightarrow> int \<Rightarrow>
     admission_issue list \<Rightarrow> admission_issue list result" where
  "evaluate_capabilities pol plan inventory now issues =
     (let names = map cap_name (dr_capabilities inventory) in
      if length names \<noteq> length (remdups names)
      then add_issue (issue ''capability-inventory-ambiguous'' ''capability'' False None None None) issues
      else foldE (evaluate_capability pol inventory now) (sort (wp_required_capabilities plan)) issues)"

definition evaluate_cpu ::
    "admission_policy \<Rightarrow> doctor_report \<Rightarrow> admission_context \<Rightarrow> int \<Rightarrow> int \<Rightarrow>
     admission_issue list \<Rightarrow> admission_issue list result" where
  "evaluate_cpu pol inventory context now requested_total issues =
     (case find (\<lambda>p. rp_kind p = ''cpu'') (dr_resources inventory) of
        None \<Rightarrow> add_issue (issue ''cpu-capacity-unknown'' ''concurrency'' False (Some ''cpu'')
                  (Some requested_total) None) issues
      | Some cpu \<Rightarrow>
          (case rp_capacity cpu of
             None \<Rightarrow> add_issue (issue ''cpu-capacity-unknown'' ''concurrency'' False (Some ''cpu'')
                       (Some requested_total) None) issues
           | Some capacity \<Rightarrow>
               if observation_problem now (rp_observed_at cpu) (rp_staleness_seconds cpu)
                    (ap_inventory_max_age_seconds pol) \<noteq> None
               then add_issue (issue ''cpu-inventory-stale'' ''concurrency'' False (Some ''cpu'')
                      (Some requested_total) None) issues
               else issue_if (requested_total > capacity)
                      (issue ''cpu-capacity-exceeded'' ''concurrency'' True (Some ''cpu'')
                         (Some requested_total) (Some (max 0 (capacity - ac_active_concurrency context)))) issues))"

definition evaluate_concurrency ::
    "admission_policy \<Rightarrow> workload_resource_plan \<Rightarrow> doctor_report \<Rightarrow> admission_context \<Rightarrow> int \<Rightarrow>
     admission_issue list \<Rightarrow> admission_issue list result" where
  "evaluate_concurrency pol plan inventory context now issues =
     (case safe_sum [ac_active_concurrency context, wp_requested_concurrency plan] of
        Inl _ \<Rightarrow> add_issue (issue ''concurrency-plan-overflow'' ''plan'' False (Some ''cpu'') None None) issues
      | Inr requested_total \<Rightarrow>
          ebind (issue_if (requested_total > ap_max_concurrency pol)
                   (issue ''concurrency-limit-reached'' ''concurrency'' True (Some ''cpu'')
                      (Some requested_total)
                      (Some (max 0 (ap_max_concurrency pol - ac_active_concurrency context)))) issues)
            (evaluate_cpu pol inventory context now requested_total))"

text \<open>\<open>setdefault\<close> keeps the first pool of each kind, in inventory order.\<close>

fun pools_by_kind :: "resource_pool list \<Rightarrow> resource_pool list" where
  "pools_by_kind [] = []"
| "pools_by_kind (p # ps) = p # filter (\<lambda>q. rp_kind q \<noteq> rp_kind p) (pools_by_kind ps)"

definition pool_map ::
    "doctor_report \<Rightarrow> admission_issue list \<Rightarrow> (resource_pool list \<times> admission_issue list) result" where
  "pool_map inventory issues =
     (let names = map rp_kind (dr_resources inventory) in
      ebind (issue_if (length names \<noteq> length (remdups names))
               (issue ''resource-pool-inventory-ambiguous'' ''inventory'' False None None None) issues)
        (\<lambda>issues. Inr (pools_by_kind (dr_resources inventory), issues)))"

definition pool_lookup :: "resource_pool list \<Rightarrow> string \<Rightarrow> resource_pool option" where
  "pool_lookup pools kind = find (\<lambda>p. rp_kind p = kind) pools"

text \<open>\<open>{item.pool_kind: item ...}\<close>: the last entry of a kind wins.\<close>

definition active_lookup :: "active_resource_usage list \<Rightarrow> string \<Rightarrow> active_resource_usage option" where
  "active_lookup usage kind = find (\<lambda>a. au_pool_kind a = kind) (rev usage)"

section \<open>Pools\<close>

record pool_amounts =
  am_expected :: "int option"
  am_upper_bound :: "int option"
  am_margin :: "int option"
  am_required :: "int option"

definition unknown_amounts :: pool_amounts where
  "unknown_amounts = \<lparr>am_expected = None, am_upper_bound = None, am_margin = None, am_required = None\<rparr>"

definition estimate_margin :: "admission_policy \<Rightarrow> resource_estimate \<Rightarrow> int result" where
  "estimate_margin pol e =
     ebind (margin_basis_points pol (re_confidence e))
       (ceil_basis_points (or_zero (re_upper_bound e)))"

text \<open>
  The body of the \<open>try\<close> block of \<open>_evaluate_pool\<close>. An \<open>OverflowError\<close> leaves the amounts
  assigned so far; the flag says that it was caught. Any other exception escapes.
\<close>

definition aggregate_demand ::
    "admission_policy \<Rightarrow> resource_estimate list \<Rightarrow> (pool_amounts \<times> bool) result" where
  "aggregate_demand pol estimates =
     (case safe_sum (map (or_zero \<circ> re_expected) estimates) of
        Inl _ \<Rightarrow> Inr (unknown_amounts, True)
      | Inr expected \<Rightarrow>
     (case safe_sum (map (or_zero \<circ> re_upper_bound) estimates) of
        Inl _ \<Rightarrow> Inr (unknown_amounts\<lparr>am_expected := Some expected\<rparr>, True)
      | Inr upper_bound \<Rightarrow>
     (let known = unknown_amounts\<lparr>am_expected := Some expected, am_upper_bound := Some upper_bound\<rparr> in
      case ebind (mapE (estimate_margin pol) estimates) safe_sum of
        Inl (OverflowError _) \<Rightarrow> Inr (known, True)
      | Inl e \<Rightarrow> Inl e
      | Inr margin \<Rightarrow>
     (case safe_sum [upper_bound, margin] of
        Inl _ \<Rightarrow> Inr (known\<lparr>am_margin := Some margin\<rparr>, True)
      | Inr required \<Rightarrow> Inr (known\<lparr>am_margin := Some margin, am_required := Some required\<rparr>, False)))))"

definition pool_reserve :: "admission_policy \<Rightarrow> string \<Rightarrow> int \<Rightarrow> int result" where
  "pool_reserve pol kind capacity =
     ebind (policy_reserve pol kind)
       (\<lambda>r. ebind (ceil_basis_points capacity (sr_capacity_basis_points r))
         (\<lambda>share. Inr (max (sr_minimum_units r) share)))"

definition pool_evaluation ::
    "string \<Rightarrow> string \<Rightarrow> string list \<Rightarrow> pool_amounts \<Rightarrow> int option \<Rightarrow> string \<Rightarrow> string \<Rightarrow> int option \<Rightarrow>
     int \<Rightarrow> int option \<Rightarrow> string option \<Rightarrow> string \<Rightarrow> resource_evaluation" where
  "pool_evaluation kind u names amounts available accuracy source reserve active post store status =
     \<lparr>ev_pool_kind = kind, ev_unit = u, ev_estimate_names = names,
      ev_expected = am_expected amounts, ev_upper_bound = am_upper_bound amounts,
      ev_margin = am_margin amounts, ev_required = am_required amounts,
      ev_observed_available = available, ev_inventory_accuracy = accuracy,
      ev_inventory_source = source, ev_safety_reserve = reserve, ev_active_usage = active,
      ev_post_admission_available = post, ev_backing_store = store, ev_status = status\<rparr>"

text \<open>What the pool can still give: \<open>max(0, available - reserve - active)\<close> when both are known.\<close>

definition usable_units :: "int option \<Rightarrow> int option \<Rightarrow> int \<Rightarrow> int option" where
  "usable_units available reserve active =
     (case (available, reserve) of (Some a, Some r) \<Rightarrow> Some (max 0 (a - r - active)) | _ \<Rightarrow> None)"

definition required_fits :: "int option \<Rightarrow> int option \<Rightarrow> bool" where
  "required_fits required usable \<longleftrightarrow> (case (required, usable) of (Some r, Some v) \<Rightarrow> r \<le> v | _ \<Rightarrow> False)"

definition required_exceeds :: "int option \<Rightarrow> int option \<Rightarrow> bool" where
  "required_exceeds required usable \<longleftrightarrow> (case (required, usable) of (Some r, Some v) \<Rightarrow> r > v | _ \<Rightarrow> False)"

definition pool_status :: "bool \<Rightarrow> int option \<Rightarrow> int option \<Rightarrow> string" where
  "pool_status passed required usable =
     (if passed then ''pass'' else if required = None \<or> usable = None then ''unknown'' else ''fail'')"

definition post_admission :: "bool \<Rightarrow> int option \<Rightarrow> int option \<Rightarrow> int option" where
  "post_admission passed required usable =
     (case (required, usable) of (Some r, Some v) \<Rightarrow> if passed then Some (v - r) else None | _ \<Rightarrow> None)"

definition optional_reserve :: "admission_policy \<Rightarrow> string \<Rightarrow> int option \<Rightarrow> int option result" where
  "optional_reserve pol kind capacity =
     (case capacity of None \<Rightarrow> Inr None | Some c \<Rightarrow> ebind (pool_reserve pol kind c) (\<lambda>r. Inr (Some r)))"

text \<open>The second half of \<open>_evaluate_pool\<close>, for a pool that the inventory has.\<close>

definition evaluate_present_pool ::
    "admission_policy \<Rightarrow> int \<Rightarrow> string \<Rightarrow> string \<Rightarrow> string list \<Rightarrow> int \<Rightarrow> pool_amounts \<Rightarrow> resource_pool \<Rightarrow>
     admission_issue list \<Rightarrow> (resource_evaluation \<times> admission_issue list) result" where
  "evaluate_present_pool pol now kind u names active_amount amounts pool issues =
     (let required = am_required amounts;
          available = rp_available pool;
          problem = observation_problem now (rp_observed_at pool) (rp_staleness_seconds pool)
                      (ap_inventory_max_age_seconds pol)
      in
      ebind (issue_if (rp_unit pool \<noteq> u)
               (issue ''resource-pool-unit-mismatch'' ''inventory'' False (Some kind) required available) issues)
        (\<lambda>issues.
      ebind (case problem of
               None \<Rightarrow> Inr issues
             | Some q \<Rightarrow> add_issue (issue (''resource-pool-'' @ q) ''inventory'' False (Some kind)
                            required available) issues)
        (\<lambda>issues.
      ebind (optional_reserve pol kind (rp_capacity pool))
        (\<lambda>reserve.
      ebind (issue_if (available = None \<or> rp_accuracy pool \<in> {''unknown'', ''bounded''})
               (issue ''resource-capacity-unknown'' ''resource'' False (Some kind) required None) issues)
        (\<lambda>issues.
      let usable = usable_units available reserve active_amount;
          passed = (required_fits required usable \<and> rp_unit pool = u \<and> problem = None)
      in
      ebind (issue_if (required_exceeds required usable)
               (issue ''resource-capacity-insufficient'' ''resource'' True (Some kind) required usable) issues)
        (\<lambda>issues.
      ebind (construct resource_evaluation_post_init
               (pool_evaluation kind u names amounts available (rp_accuracy pool) (rp_source pool) reserve
                  active_amount (post_admission passed required usable) (rp_backing_store pool)
                  (pool_status passed required usable)))
        (\<lambda>evaluation. Inr (evaluation, issues))))))))"

definition evaluate_pool ::
    "admission_policy \<Rightarrow> int \<Rightarrow> active_resource_usage list \<Rightarrow> resource_pool list \<Rightarrow> resource_estimate list \<Rightarrow>
     string \<Rightarrow> admission_issue list \<Rightarrow> (resource_evaluation \<times> admission_issue list) result" where
  "evaluate_pool pol now usage pools plan_estimates kind issues =
     (let estimates = filter (\<lambda>e. re_pool_kind e = kind) plan_estimates;
          names = sort (map re_name estimates);
          u = re_unit (hd estimates);
          active = active_lookup usage kind;
          active_amount = (case active of None \<Rightarrow> 0 | Some a \<Rightarrow> au_amount a);
          conflict = (\<exists>e \<in> set estimates. re_unit e \<noteq> u);
          unknown = (\<exists>e \<in> set estimates. re_confidence e = ''unknown'')
      in
      ebind (seqE [
          issue_if unknown (issue ''resource-estimate-unknown'' ''plan'' False (Some kind) None None),
          issue_if conflict (issue ''resource-estimate-unit-conflict'' ''plan'' False (Some kind) None None),
          issue_if (case active of None \<Rightarrow> False | Some a \<Rightarrow> au_unit a \<noteq> u)
            (issue ''active-resource-unit-conflict'' ''plan'' False (Some kind) None None)] issues)
        (\<lambda>issues.
      ebind (if unknown \<or> conflict then Inr (unknown_amounts, False) else aggregate_demand pol estimates)
        (\<lambda>(amounts, overflow).
      ebind (issue_if overflow (issue ''resource-plan-overflow'' ''plan'' False (Some kind) None None) issues)
        (\<lambda>issues.
      case pool_lookup pools kind of
        None \<Rightarrow>
          ebind (add_issue (issue ''resource-pool-missing'' ''inventory'' False (Some kind)
                   (am_required amounts) None) issues)
            (\<lambda>issues. ebind (construct resource_evaluation_post_init
                 (pool_evaluation kind u names amounts None ''unknown'' ''missing'' None active_amount
                    None None ''unknown''))
              (\<lambda>evaluation. Inr (evaluation, issues)))
      | Some pool \<Rightarrow> evaluate_present_pool pol now kind u names active_amount amounts pool issues))))"

section \<open>Shared backing stores\<close>

definition is_disk :: "string \<Rightarrow> string \<Rightarrow> bool" where
  "is_disk u kind \<longleftrightarrow> u = ''bytes'' \<and> kind \<notin> {''ram'', ''swap''}"

definition store_pools :: "resource_pool list \<Rightarrow> string \<Rightarrow> resource_pool list" where
  "store_pools pools store =
     filter (\<lambda>p. is_disk (rp_unit p) (rp_kind p) \<and> rp_backing_store p = Some store) pools"

definition store_names :: "resource_pool list \<Rightarrow> string list" where
  "store_names pools = sort (remdups (concat (map
     (\<lambda>p. case rp_backing_store p of
        Some s \<Rightarrow> (if s \<noteq> [] \<and> is_disk (rp_unit p) (rp_kind p) then [s] else [])
      | None \<Rightarrow> []) pools)))"

definition demanded_lookup :: "resource_evaluation list \<Rightarrow> string \<Rightarrow> resource_evaluation option" where
  "demanded_lookup disk_evaluations kind = find (\<lambda>e. ev_pool_kind e = kind) (rev disk_evaluations)"

record store_amounts =
  sa_required :: int
  sa_active :: int
  sa_reserve :: int
  sa_available :: int
  sa_total :: int

definition store_demand ::
    "admission_policy \<Rightarrow> active_resource_usage list \<Rightarrow> resource_evaluation list \<Rightarrow> resource_pool list \<Rightarrow>
     store_amounts result" where
  "store_demand pol usage demanded pools =
     ebind (safe_sum (concat (map (\<lambda>p. case demanded_lookup demanded (rp_kind p) of
                None \<Rightarrow> [] | Some e \<Rightarrow> [or_zero (ev_required e)]) pools)))
       (\<lambda>required.
     ebind (safe_sum (concat (map (\<lambda>p. case active_lookup usage (rp_kind p) of
                None \<Rightarrow> [] | Some a \<Rightarrow> [au_amount a]) pools)))
       (\<lambda>active.
     ebind (mapE (\<lambda>p. pool_reserve pol (rp_kind p) (or_zero (rp_capacity p))) pools)
       (\<lambda>reserves.
     let reserve = list_max reserves;
         available = list_min (map (or_zero \<circ> rp_available) pools)
     in ebind (safe_sum [required, active, reserve])
       (\<lambda>total. Inr \<lparr>sa_required = required, sa_active = active, sa_reserve = reserve,
                      sa_available = available, sa_total = total\<rparr>))))"

definition store_evaluation :: "string \<Rightarrow> resource_pool list \<Rightarrow> store_amounts \<Rightarrow> backing_store_evaluation" where
  "store_evaluation store pools a =
     (let admitted = sa_total a \<le> sa_available a in
      \<lparr>bs_backing_store = store, bs_pool_kinds = sort (map rp_kind pools),
       bs_required = sa_required a, bs_observed_available = sa_available a,
       bs_safety_reserve = sa_reserve a, bs_active_usage = sa_active a,
       bs_post_admission_available = (if admitted then sa_available a - sa_total a else 0),
       bs_status = (if admitted then ''pass'' else ''fail'')\<rparr>)"

text \<open>One iteration of the loop over the stores; \<open>[]\<close> when the store gets no evaluation.\<close>

definition evaluate_store ::
    "admission_policy \<Rightarrow> active_resource_usage list \<Rightarrow> resource_evaluation list \<Rightarrow> resource_pool list \<Rightarrow>
     string \<Rightarrow> admission_issue list \<Rightarrow> (backing_store_evaluation list \<times> admission_issue list) result" where
  "evaluate_store pol usage demanded all_pools store issues =
     (let pools = store_pools all_pools store in
      if length pools < 2 \<or> \<not> (\<exists>p \<in> set pools. demanded_lookup demanded (rp_kind p) \<noteq> None)
      then Inr ([], issues)
      else if \<exists>p \<in> set pools. rp_available p = None
      then ebind (add_issue (issue ''backing-store-capacity-unknown'' ''resource'' False None None None) issues)
             (\<lambda>issues. Inr ([], issues))
      else (case store_demand pol usage demanded pools of
              Inl (OverflowError _) \<Rightarrow>
                ebind (add_issue (issue ''backing-store-plan-overflow'' ''plan'' False None None None) issues)
                  (\<lambda>issues. Inr ([], issues))
            | Inl e \<Rightarrow> Inl e
            | Inr a \<Rightarrow>
                ebind (issue_if (\<not> sa_total a \<le> sa_available a)
                         (issue ''backing-store-capacity-insufficient'' ''resource'' True None
                            (Some (sa_total a)) (Some (sa_available a))) issues)
                  (\<lambda>issues. ebind (construct backing_store_evaluation_post_init (store_evaluation store pools a))
                    (\<lambda>b. Inr ([b], issues)))))"

definition evaluate_backing_stores ::
    "admission_policy \<Rightarrow> resource_evaluation list \<Rightarrow> resource_pool list \<Rightarrow> active_resource_usage list \<Rightarrow>
     admission_issue list \<Rightarrow> (backing_store_evaluation list \<times> admission_issue list) result" where
  "evaluate_backing_stores pol evaluations pools usage issues =
     (let disk = filter (\<lambda>e. is_disk (ev_unit e) (ev_pool_kind e)) evaluations in
      ebind (issue_if (length disk > 1 \<and> (\<exists>e \<in> set disk. ev_backing_store e = None))
               (issue ''backing-store-identity-unknown'' ''inventory'' False None None None) issues)
        (\<lambda>issues. ebind (traverseE (evaluate_store pol usage disk pools) (store_names pools) issues)
          (\<lambda>(results, issues). Inr (concat results, issues))))"

section \<open>Admission\<close>

definition admission_outcome :: "string \<Rightarrow> admission_issue list \<Rightarrow> string" where
  "admission_outcome stage issues =
     (if issues = [] then ''admitted''
      else if stage = ''preflight'' then ''rejected''
      else if \<exists>i \<in> set issues. \<not> is_recoverable i then ''drain''
      else ''backpressure'')"

text \<open>The stages that only report issues, in source order, then the pools and the stores.\<close>

definition evaluate_guards ::
    "admission_policy \<Rightarrow> workload_resource_plan \<Rightarrow> doctor_report \<Rightarrow> admission_context \<Rightarrow> int \<Rightarrow>
     admission_issue list \<Rightarrow> admission_issue list result" where
  "evaluate_guards pol plan inventory context now = seqE [
     evaluate_inventory pol now inventory,
     evaluate_trust plan inventory,
     evaluate_provider pol plan inventory now,
     evaluate_capabilities pol plan inventory now,
     evaluate_concurrency pol plan inventory context now]"

definition evaluate_resources ::
    "admission_policy \<Rightarrow> workload_resource_plan \<Rightarrow> doctor_report \<Rightarrow> admission_context \<Rightarrow> int \<Rightarrow>
     (resource_evaluation list \<times> backing_store_evaluation list \<times> admission_issue list) result" where
  "evaluate_resources pol plan inventory context now =
     ebind (evaluate_guards pol plan inventory context now []) (\<lambda>issues.
     ebind (pool_map inventory issues) (\<lambda>(pools, issues).
     ebind (traverseE (evaluate_pool pol now (ac_active_usage context) pools (wp_estimates plan))
              (sort (remdups (map re_pool_kind (wp_estimates plan)))) issues) (\<lambda>(evaluations, issues).
     ebind (evaluate_backing_stores pol evaluations pools (ac_active_usage context) issues)
       (\<lambda>(stores, issues). Inr (evaluations, stores, issues)))))"

definition evaluate ::
    "planner \<Rightarrow> workload_resource_plan \<Rightarrow> doctor_report \<Rightarrow> admission_context \<Rightarrow> string \<Rightarrow>
     resource_admission_report result" where
  "evaluate pl plan inventory context stage =
     (case pl_clock pl of
        Aware now \<Rightarrow>
          ebind (evaluate_resources (pl_policy pl) plan inventory context now)
            (\<lambda>(evaluations, stores, issues).
          ebind (pl_new_reservation_id pl) (\<lambda>reservation_id.
          ebind (rfc3339 (Aware now)) (\<lambda>observed_at.
            construct admission_report_post_init
              \<lparr>rr_reservation_id = reservation_id, rr_stage = stage,
               rr_outcome = admission_outcome stage issues, rr_observed_at = observed_at,
               rr_inventory_observed_at = dr_observed_at inventory, rr_plan = plan,
               rr_policy = pl_policy pl, rr_context = context,
               rr_resource_evaluations = evaluations, rr_backing_store_evaluations = stores,
               rr_issues = issues, rr_mutation_permitted = False\<rparr>)))
      | _ \<Rightarrow> Inl (ValueError ''resource planner clock must be timezone-aware''))"

definition default_context :: admission_context where
  "default_context = \<lparr>ac_active_concurrency = 0, ac_active_usage = []\<rparr>"

definition preflight ::
    "planner \<Rightarrow> workload_resource_plan \<Rightarrow> doctor_report \<Rightarrow> admission_context option \<Rightarrow>
     resource_admission_report result" where
  "preflight pl plan inventory context =
     evaluate pl plan inventory (case context of None \<Rightarrow> default_context | Some c \<Rightarrow> c) ''preflight''"

definition dynamic_admit ::
    "planner \<Rightarrow> workload_resource_plan \<Rightarrow> doctor_report \<Rightarrow> admission_context option \<Rightarrow>
     resource_admission_report result" where
  "dynamic_admit pl plan inventory context =
     evaluate pl plan inventory (case context of None \<Rightarrow> default_context | Some c \<Rightarrow> c) ''dynamic''"

text \<open>
  The reason text of a refusal joins the issue codes (the messages are not modelled); it is
  non-empty because a rejected report has an issue.
\<close>

definition environment_decision ::
    "planner \<Rightarrow> lifecycle_record \<Rightarrow> resource_admission_report \<Rightarrow> admission_decision result" where
  "environment_decision pl record report =
     (if lr_state record \<noteq> ''planned''
      then Inl (ValueError ''resource admission can only bind a planned environment'')
      else if rr_stage report \<noteq> ''preflight'' \<or> wp_operation_kind (rr_plan report) \<noteq> ''environment''
      then Inl (ValueError ''environment admission requires an environment preflight report'')
      else if rr_policy report \<noteq> pl_policy pl
      then Inl (ValueError ''environment admission requires this planner's exact admission policy'')
      else if wp_operation_id (rr_plan report) \<noteq> lr_transaction_id record
      then Inl (ValueError ''resource preflight belongs to a different environment transaction'')
      else if rr_outcome report \<notin> {''admitted'', ''rejected''}
      then Inl (ValueError ''environment preflight outcome cannot be applied as an admission decision'')
      else construct admission_decision_post_init
        \<lparr>ad_admitted = (rr_outcome report = ''admitted''),
         ad_decision_id = rr_reservation_id report,
         ad_reason = (if rr_outcome report = ''admitted''
            then ''resource preflight admitted all typed pools, shared stores, capabilities, and concurrency''
            else concat (map (\<lambda>i. is_code i @ ''; '') (rr_issues report)))\<rparr>)"

end
