(* ===== verification/Admission_Soundness.thy ===== *)
theory Admission_Soundness
  imports Resource_Planner "HOL-Library.Sublist"
begin

text \<open>
  Correctness of the admission evaluation. The interfaces \<open>issue_stage\<close> and
  \<open>issue_collector\<close> state what the evaluation relies on in each of its stages: a stage only
  appends to the list of blocking issues. From them follows that a report without issues
  passed every guard, and then that an admitted workload fits every typed pool and every
  shared backing store.
\<close>

section \<open>Stages only append issues\<close>

locale issue_stage =
  fixes stage :: "admission_issue list \<Rightarrow> admission_issue list result"
  assumes appends: "stage issues = Inr issues' \<Longrightarrow> prefix issues issues'"
begin

lemma empty_result: "stage issues = Inr [] \<Longrightarrow> issues = []"
  using appends by fastforce

lemma keeps_issue: "stage issues = Inr issues' \<Longrightarrow> i \<in> set issues \<Longrightarrow> i \<in> set issues'"
  using appends set_mono_prefix by blast

end

locale issue_collector =
  fixes step :: "'x \<Rightarrow> admission_issue list \<Rightarrow> ('y \<times> admission_issue list) result"
  assumes step_appends: "step x issues = Inr (y, issues') \<Longrightarrow> prefix issues issues'"
begin

lemma traverse_appends:
  "traverseE step xs issues = Inr (ys, issues') \<Longrightarrow> prefix issues issues'"
proof (induction xs arbitrary: issues ys)
  case (Cons x xs)
  then obtain y mid zs where "step x issues = Inr (y, mid)" and "traverseE step xs mid = Inr (zs, issues')"
    by auto
  with Cons.IH [of mid zs] step_appends show ?case by (meson prefix_order.trans)
qed simp

text \<open>A loop that ends without issues ran every step from and to the empty list.\<close>

lemma traverse_empty:
  "traverseE step xs issues = Inr (ys, []) \<Longrightarrow>
     issues = [] \<and> list_all2 (\<lambda>x y. step x [] = Inr (y, [])) xs ys"
proof (induction xs arbitrary: issues ys)
  case (Cons x xs)
  then obtain y mid zs where s: "step x issues = Inr (y, mid)"
    and t: "traverseE step xs mid = Inr (zs, [])" and ys: "ys = y # zs"
    by auto
  from Cons.IH [OF t] have mid: "mid = []" and rest: "list_all2 (\<lambda>x y. step x [] = Inr (y, [])) xs zs"
    by auto
  from step_appends [OF s] mid have "issues = []" by simp
  with s mid rest ys show ?case by simp
qed simp

text \<open>What every step guarantees about its own result holds for all of them.\<close>

lemma traverse_results:
  assumes "traverseE step xs issues = Inr (ys, issues')"
    and "\<And>x s y t. step x s = Inr (y, t) \<Longrightarrow> P x y"
  shows "list_all2 P xs ys"
  using assms(1)
proof (induction xs arbitrary: issues ys)
  case (Cons x xs)
  then obtain y mid zs where "step x issues = Inr (y, mid)" and "traverseE step xs mid = Inr (zs, issues')"
    and "ys = y # zs"
    by auto
  with Cons.IH assms(2) show ?case by auto
qed simp

end

sublocale issue_collector \<subseteq> loop: issue_stage "\<lambda>issues. ebind (traverseE step xs issues) (\<lambda>(ys, s). Inr s)" for xs
  by unfold_locales (auto dest: traverse_appends)

lemma add_issue_Inr: "add_issue i issues = Inr issues' \<longleftrightarrow> admission_issue_post_init i = None \<and> issues' = issues @ [i]"
  by (auto simp: add_issue_def)

lemma add_issue_nonempty [emitted]: "add_issue i issues = Inr [] \<longleftrightarrow> False"
  by (simp add: add_issue_Inr)

lemma issue_if_empty [emitted]: "issue_if b i issues = Inr [] \<longleftrightarrow> \<not> b \<and> issues = []"
  by (auto simp: issue_if_def add_issue_Inr)

lemma issue_if_Inr:
  "issue_if b i issues = Inr issues' \<longleftrightarrow>
     (if b then admission_issue_post_init i = None \<and> issues' = issues @ [i] else issues' = issues)"
  by (auto simp: issue_if_def add_issue_Inr)

lemmas issue_steps = add_issue_Inr issue_if_Inr

lemma add_issue_appends: "add_issue i issues = Inr issues' \<Longrightarrow> prefix issues issues'"
  by (simp add: add_issue_Inr)

lemma issue_if_appends: "issue_if b i issues = Inr issues' \<Longrightarrow> prefix issues issues'"
  by (auto simp: issue_if_Inr split: if_splits)

lemmas appending = add_issue_appends issue_if_appends prefix_order.trans

interpretation inventory_stage: issue_stage "evaluate_inventory pol now inventory" for pol now inventory
  by unfold_locales (auto simp: evaluate_inventory_def issue_steps split: if_splits)

interpretation trust_stage: issue_stage "evaluate_trust plan inventory" for plan inventory
  by unfold_locales (auto simp: evaluate_trust_def issue_steps split: if_splits)

interpretation provider_stage: issue_stage "evaluate_provider pol plan inventory now" for pol plan inventory now
  by unfold_locales
    (auto simp: evaluate_provider_def issue_steps split: if_splits option.splits list.splits)

interpretation capability_stage: issue_stage "evaluate_capability pol inventory now name" for pol inventory now name
  by unfold_locales (auto simp: evaluate_capability_def issue_steps split: if_splits option.splits)

lemma capability_loop_appends:
  "foldE (evaluate_capability pol inventory now) names issues = Inr issues' \<Longrightarrow> prefix issues issues'"
proof (induction names arbitrary: issues)
  case (Cons n names)
  then obtain mid where "evaluate_capability pol inventory now n issues = Inr mid"
    and "foldE (evaluate_capability pol inventory now) names mid = Inr issues'"
    by auto
  with Cons.IH [of mid] capability_stage.appends [of pol inventory now n issues mid] show ?case by (meson prefix_order.trans)
qed simp

interpretation capabilities_stage: issue_stage "evaluate_capabilities pol plan inventory now" for pol plan inventory now
  by unfold_locales
    (auto simp: evaluate_capabilities_def Let_def issue_steps split: if_splits dest: capability_loop_appends)

interpretation cpu_stage: issue_stage "evaluate_cpu pol inventory ctx now requested" for pol inventory ctx now requested
  by unfold_locales (auto simp: evaluate_cpu_def issue_steps split: if_splits option.splits)

interpretation concurrency_stage: issue_stage "evaluate_concurrency pol plan inventory ctx now"
  for pol plan inventory ctx now
  by unfold_locales
    (auto simp: evaluate_concurrency_def issue_steps split: if_splits sum.splits dest!: cpu_stage.appends dest: append_prefixD)

section \<open>The pool stage\<close>

lemma present_pool_appends:
  assumes "evaluate_present_pool pol now kind u names active amounts pool issues = Inr (ev, issues')"
  shows "prefix issues issues'"
proof -
  from assms obtain i1 i2 i3 b1 b2 b3 x1 x2 x3 where "issue_if b1 x1 issues = Inr i1"
    and problem: "(case observation_problem now (rp_observed_at pool) (rp_staleness_seconds pool)
            (ap_inventory_max_age_seconds pol) of
          None \<Rightarrow> Inr i1
        | Some q \<Rightarrow> add_issue (issue (''resource-pool-'' @ q) ''inventory'' False (Some kind)
            (am_required amounts) (rp_available pool)) i1) = Inr i2"
    and "issue_if b2 x2 i2 = Inr i3" and "issue_if b3 x3 i3 = Inr issues'"
    by (clarsimp simp: evaluate_present_pool_def Let_def simp del: issue_if_Inr)
  moreover from problem have "prefix i1 i2" by (auto split: option.splits intro: appending)
  ultimately show ?thesis by (meson appending)
qed

interpretation pool_stage: issue_collector "evaluate_pool pol now usage pools ests" for pol now usage pools ests
proof
  fix kind issues ev issues'
  assume a: "evaluate_pool pol now usage pools ests kind issues = Inr (ev, issues')"
  then obtain i1 i2 i3 i4 b1 b2 b3 b4 x1 x2 x3 x4 where
      "issue_if b1 x1 issues = Inr i1" "issue_if b2 x2 i1 = Inr i2" "issue_if b3 x3 i2 = Inr i3"
      "issue_if b4 x4 i3 = Inr i4" and "prefix i4 issues'"
    by (cases "pool_lookup pools kind")
      (clarsimp simp: evaluate_pool_def Let_def, blast dest: add_issue_appends present_pool_appends)+
  then show "prefix issues issues'" by (meson appending)
qed

interpretation store_stage: issue_collector "evaluate_store pol usage demanded pools" for pol usage demanded pools
  by unfold_locales
    (auto simp: evaluate_store_def Let_def split: if_splits sum.splits exc.splits dest: appending)

section \<open>Arithmetic of the demand\<close>

text \<open>
  The reference definition of a pool's demand: the upper bounds of its estimates, each with
  its confidence margin rounded up, over unbounded integers.
\<close>

definition margin_units :: "admission_policy \<Rightarrow> resource_estimate \<Rightarrow> int" where
  "margin_units pol e =
     (case margin_basis_points pol (re_confidence e) of
        Inl _ \<Rightarrow> 0
      | Inr b \<Rightarrow> (or_zero (re_upper_bound e) * b + 9999) div 10000)"

definition demand :: "admission_policy \<Rightarrow> resource_estimate list \<Rightarrow> int" where
  "demand pol ests = (\<Sum>e \<leftarrow> ests. or_zero (re_upper_bound e) + margin_units pol e)"

definition active_amount :: "active_resource_usage list \<Rightarrow> string \<Rightarrow> int" where
  "active_amount usage kind = (case active_lookup usage kind of None \<Rightarrow> 0 | Some a \<Rightarrow> au_amount a)"

abbreviation estimates_of :: "resource_estimate list \<Rightarrow> string \<Rightarrow> resource_estimate list" where
  "estimates_of ests kind \<equiv> filter (\<lambda>e. re_pool_kind e = kind) ests"

lemma safe_sum_Inr: "safe_sum xs = Inr n \<longleftrightarrow> n = sum_list xs \<and> sum_list xs \<le> SAFE_INTEGER_MAX"
  by (auto simp: safe_sum_def Let_def)

lemma ceil_basis_points_Inr:
  "ceil_basis_points a b = Inr n \<longleftrightarrow> n = (a * b + 9999) div 10000 \<and> n \<le> SAFE_INTEGER_MAX"
  by (auto simp: ceil_basis_points_def Let_def)

lemma estimate_margin_Inr: "estimate_margin pol e = Inr m \<Longrightarrow> m = margin_units pol e"
  by (auto simp: estimate_margin_def margin_units_def ceil_basis_points_Inr)

lemma margins_sum:
  "mapE (estimate_margin pol) ests = Inr ms \<Longrightarrow> sum_list ms = (\<Sum>e \<leftarrow> ests. margin_units pol e)"
  by (induction ests arbitrary: ms) (auto dest: estimate_margin_Inr)

lemma aggregate_demand_required:
  assumes "aggregate_demand pol ests = Inr (amounts, False)"
  shows "am_required amounts = Some (demand pol ests)"
  using assms
  by (auto simp: aggregate_demand_def Let_def safe_sum_Inr demand_def sum_list_addf comp_def
      split: sum.splits exc.splits dest!: margins_sum)

lemma list_max_ge: "x \<in> set xs \<Longrightarrow> x \<le> list_max xs"
  by (induction xs rule: list_max.induct) auto

lemma list_min_le: "x \<in> set xs \<Longrightarrow> list_min xs \<le> x"
  by (induction xs rule: list_min.induct) auto

section \<open>What a passing pool evaluation says\<close>

lemma present_pool_result:
  assumes "evaluate_present_pool pol now kind u names active amounts pool issues = Inr (ev, issues')"
  shows "ev_pool_kind ev = kind" "ev_unit ev = u" "ev_required ev = am_required amounts"
    "ev_backing_store ev = rp_backing_store pool" "resource_evaluation_post_init ev = None"
  using assms
  by (auto simp: evaluate_present_pool_def Let_def pool_evaluation_def)

text \<open>A pass means that demand fits what is left after the safety reserve and active work.\<close>

lemma present_pool_pass:
  assumes "evaluate_present_pool pol now kind u names active amounts pool issues = Inr (ev, issues')"
    and "ev_status ev = ''pass''"
  shows "\<exists>a c r q. rp_available pool = Some a \<and> rp_capacity pool = Some c \<and>
     pool_reserve pol kind c = Inr r \<and> am_required amounts = Some q \<and> q \<le> max 0 (a - r - active) \<and>
     rp_unit pool = u \<and>
     observation_problem now (rp_observed_at pool) (rp_staleness_seconds pool)
       (ap_inventory_max_age_seconds pol) = None"
  using assms
  by (auto simp: evaluate_present_pool_def Let_def pool_evaluation_def pool_status_def required_fits_def
      usable_units_def optional_reserve_def split: if_splits option.splits)

lemma present_pool_known:
  assumes "evaluate_present_pool pol now kind u names active amounts pool issues = Inr (ev, [])"
  shows "rp_accuracy pool \<notin> {''unknown'', ''bounded''}"
  using assms by (auto simp: evaluate_present_pool_def Let_def emitted)

lemma evaluate_pool_result:
  assumes "evaluate_pool pol now usage pools ests kind issues = Inr (ev, issues')"
  shows "ev_pool_kind ev = kind \<and> ev_unit ev = re_unit (hd (estimates_of ests kind)) \<and>
     resource_evaluation_post_init ev = None"
  using assms
  by (cases "pool_lookup pools kind")
    (auto simp: evaluate_pool_def Let_def pool_evaluation_def dest: present_pool_result)

lemma evaluate_pool_admitted:
  assumes "evaluate_pool pol now usage pools ests kind [] = Inr (ev, [])" and "ev_status ev = ''pass''"
  shows "\<exists>pool a c r. pool_lookup pools kind = Some pool \<and> rp_available pool = Some a \<and>
     rp_capacity pool = Some c \<and> pool_reserve pol kind c = Inr r \<and>
     ev_required ev = Some (demand pol (estimates_of ests kind)) \<and>
     demand pol (estimates_of ests kind) \<le> max 0 (a - r - active_amount usage kind) \<and>
     rp_unit pool = ev_unit ev \<and> rp_accuracy pool \<notin> {''unknown'', ''bounded''} \<and>
     ev_backing_store ev = rp_backing_store pool \<and>
     observation_problem now (rp_observed_at pool) (rp_staleness_seconds pool)
       (ap_inventory_max_age_seconds pol) = None"
proof (cases "pool_lookup pools kind")
  case None
  with assms show ?thesis by (auto simp: evaluate_pool_def Let_def emitted)
next
  case (Some pool)
  let ?es = "estimates_of ests kind"
  let ?agg = "if (\<exists>e \<in> set ?es. re_confidence e = ''unknown'') \<or> (\<exists>e \<in> set ?es. re_unit e \<noteq> re_unit (hd ?es))
     then Inr (unknown_amounts, False) else aggregate_demand pol ?es"
  from assms(1) Some obtain amounts overflow i1 i2 where agg: "?agg = Inr (amounts, overflow)"
    and over: "issue_if overflow (issue ''resource-plan-overflow'' ''plan'' False (Some kind) None None) i1 = Inr i2"
    and ev2: "evaluate_present_pool pol now kind (re_unit (hd ?es)) (sort (map re_name ?es))
       (active_amount usage kind) amounts pool i2 = Inr (ev, [])"
    unfolding evaluate_pool_def Let_def active_amount_def ebind_eq_Inr by force
  from present_pool_appends [OF ev2] have "i2 = []" by simp
  with over ev2 have "\<not> overflow" and ev: "evaluate_present_pool pol now kind (re_unit (hd ?es))
      (sort (map re_name ?es)) (active_amount usage kind) amounts pool [] = Inr (ev, [])"
    by (auto simp: emitted)
  from present_pool_pass [OF ev assms(2)] have "am_required amounts \<noteq> None" by auto
  with \<open>\<not> overflow\<close> have "am_required amounts = Some (demand pol ?es)"
    using agg aggregate_demand_required by (auto simp: unknown_amounts_def split: if_splits)
  with present_pool_pass [OF ev assms(2)] present_pool_result [OF ev] present_pool_known [OF ev] Some
  show ?thesis by auto
qed

section \<open>What a passing store evaluation says\<close>

lemma sum_list_concat_option:
  "sum_list (concat (map (\<lambda>p. case f p of None \<Rightarrow> [] | Some e \<Rightarrow> [g e]) ps)) =
     (\<Sum>p \<leftarrow> ps. case f p of None \<Rightarrow> 0 | Some e \<Rightarrow> (g e :: int))"
  by (induction ps) (auto split: option.splits)

lemma store_demand_bounds:
  assumes "store_demand pol usage demanded ps = Inr a" and "p \<in> set ps"
  shows "\<exists>r. pool_reserve pol (rp_kind p) (or_zero (rp_capacity p)) = Inr r \<and> r \<le> sa_reserve a \<and>
     sa_available a \<le> or_zero (rp_available p)"
proof -
  from assms(1) obtain rs where rs: "mapE (\<lambda>p. pool_reserve pol (rp_kind p) (or_zero (rp_capacity p))) ps = Inr rs"
    and a: "sa_reserve a = list_max rs" "sa_available a = list_min (map (or_zero \<circ> rp_available) ps)"
    by (auto simp: store_demand_def Let_def)
  from rs assms(2) obtain r where "pool_reserve pol (rp_kind p) (or_zero (rp_capacity p)) = Inr r" "r \<in> set rs"
    by (auto simp: mapE_Inr_iff list_all2_conv_all_nth in_set_conv_nth) metis
  moreover have "sa_available a \<le> or_zero (rp_available p)"
    unfolding a(2) using assms(2) by (intro list_min_le) auto
  ultimately show ?thesis using a(1) list_max_ge by metis
qed

lemma store_demand_total:
  assumes "store_demand pol usage demanded ps = Inr a"
  shows "sa_total a =
     (\<Sum>p \<leftarrow> ps. case demanded_lookup demanded (rp_kind p) of None \<Rightarrow> 0 | Some e \<Rightarrow> or_zero (ev_required e)) +
     (\<Sum>p \<leftarrow> ps. active_amount usage (rp_kind p)) + sa_reserve a"
  using assms
  by (auto simp: store_demand_def Let_def safe_sum_Inr sum_list_concat_option active_amount_def)

lemma evaluate_store_admitted:
  assumes "evaluate_store pol usage demanded pools store [] = Inr (bs, [])"
    and "2 \<le> length (store_pools pools store)"
    and "\<exists>p \<in> set (store_pools pools store). demanded_lookup demanded (rp_kind p) \<noteq> None"
  shows "\<exists>a. store_demand pol usage demanded (store_pools pools store) = Inr a \<and>
     sa_total a \<le> sa_available a \<and> (\<forall>p \<in> set (store_pools pools store). rp_available p \<noteq> None) \<and>
     backing_store_evaluation_post_init (store_evaluation store (store_pools pools store) a) = None"
  using assms
  by (auto simp: evaluate_store_def Let_def emitted split: if_splits sum.splits exc.splits)

lemma store_evaluation_kinds:
  assumes "backing_store_evaluation_post_init (store_evaluation store ps a) = None" and "p \<in> set ps"
  shows "rp_kind p \<noteq> ''cpu''"
  using assms by (auto simp: backing_store_evaluation_post_init_def store_evaluation_def Let_def)

lemma store_names_member:
  assumes "store \<noteq> []" and "store_pools pools store \<noteq> []"
  shows "store \<in> set (store_names pools)"
proof -
  from assms(2) obtain p where "p \<in> set pools" "is_disk (rp_unit p) (rp_kind p)" "rp_backing_store p = Some store"
    by (auto simp: store_pools_def filter_empty_conv)
  with assms(1) show ?thesis by (force simp: store_names_def)
qed

section \<open>Admitted reports\<close>

lemma evaluate_Inr:
  assumes "evaluate pl plan inventory ctx stage = Inr report"
  obtains now where "pl_clock pl = Aware now"
    "evaluate_resources (pl_policy pl) plan inventory ctx now =
       Inr (rr_resource_evaluations report, rr_backing_store_evaluations report, rr_issues report)"
    "rr_outcome report = admission_outcome stage (rr_issues report)"
    "admission_report_post_init report = None" "rr_plan report = plan" "rr_policy report = pl_policy pl"
    "rr_context report = ctx" "rr_stage report = stage"
  using assms by (auto simp: evaluate_def split: timestamp.splits)

lemma admission_outcome_admitted [simp]: "admission_outcome stage issues = ''admitted'' \<longleftrightarrow> issues = []"
  by (simp add: admission_outcome_def)

text \<open>The stages of a run that ends without issues.\<close>

lemma evaluate_resources_empty:
  assumes "evaluate_resources pol plan inventory ctx now = Inr (evs, stores, [])"
  shows "evaluate_guards pol plan inventory ctx now [] = Inr []"
    and "distinct (map rp_kind (dr_resources inventory))"
    and "list_all2 (\<lambda>kind ev. evaluate_pool pol now (ac_active_usage ctx) (pools_by_kind (dr_resources inventory))
           (wp_estimates plan) kind [] = Inr (ev, [])) (sort (remdups (map re_pool_kind (wp_estimates plan)))) evs"
    and "\<exists>bss. list_all2 (\<lambda>store bs. evaluate_store pol (ac_active_usage ctx)
           (filter (\<lambda>e. is_disk (ev_unit e) (ev_pool_kind e)) evs) (pools_by_kind (dr_resources inventory)) store []
             = Inr (bs, [])) (store_names (pools_by_kind (dr_resources inventory))) bss"
proof -
  let ?pools = "pools_by_kind (dr_resources inventory)" and ?usage = "ac_active_usage ctx"
  let ?disk = "filter (\<lambda>e. is_disk (ev_unit e) (ev_pool_kind e)) evs"
  let ?amb = "length (map rp_kind (dr_resources inventory)) \<noteq> length (remdups (map rp_kind (dr_resources inventory)))"
  from assms obtain i0 i1 i2 i3 bss where g: "evaluate_guards pol plan inventory ctx now [] = Inr i0"
    and m: "issue_if ?amb (issue ''resource-pool-inventory-ambiguous'' ''inventory'' False None None None) i0 = Inr i1"
    and t: "traverseE (evaluate_pool pol now ?usage ?pools (wp_estimates plan))
        (sort (remdups (map re_pool_kind (wp_estimates plan)))) i1 = Inr (evs, i2)"
    and b: "issue_if (length ?disk > 1 \<and> (\<exists>e \<in> set ?disk. ev_backing_store e = None))
        (issue ''backing-store-identity-unknown'' ''inventory'' False None None None) i2 = Inr i3"
    and u: "traverseE (evaluate_store pol ?usage ?disk ?pools) (store_names ?pools) i3 = Inr (bss, [])"
    unfolding evaluate_resources_def pool_map_def evaluate_backing_stores_def Let_def ebind_eq_Inr by force
  from store_stage.traverse_empty [OF u] have i3: "i3 = []" and s: "list_all2 (\<lambda>store bs.
      evaluate_store pol ?usage ?disk ?pools store [] = Inr (bs, [])) (store_names ?pools) bss" by auto
  from b i3 have i2: "i2 = []" by (simp add: emitted)
  from pool_stage.traverse_empty [OF t [unfolded i2]] have i1: "i1 = []"
    and e: "list_all2 (\<lambda>kind ev. evaluate_pool pol now ?usage ?pools (wp_estimates plan) kind [] = Inr (ev, []))
      (sort (remdups (map re_pool_kind (wp_estimates plan)))) evs" by auto
  from m i1 have "i0 = []" and "\<not> ?amb" by (auto simp: emitted)
  with g length_remdups_distinct show "evaluate_guards pol plan inventory ctx now [] = Inr []"
    and "distinct (map rp_kind (dr_resources inventory))" by blast+
  show "list_all2 (\<lambda>kind ev. evaluate_pool pol now ?usage ?pools (wp_estimates plan) kind [] = Inr (ev, []))
      (sort (remdups (map re_pool_kind (wp_estimates plan)))) evs" by (rule e)
  show "\<exists>bss. list_all2 (\<lambda>store bs. evaluate_store pol ?usage ?disk ?pools store [] = Inr (bs, []))
      (store_names ?pools) bss" using s by blast
qed

lemma pools_by_kind_distinct: "distinct (map rp_kind ps) \<Longrightarrow> pools_by_kind ps = ps"
  by (induction ps) (auto simp: filter_id_conv image_iff)

lemma find_filter_other_kind:
  "k \<noteq> kind \<Longrightarrow>
     find (\<lambda>p. rp_kind p = kind) (filter (\<lambda>q. rp_kind q \<noteq> k) qs) = find (\<lambda>p. rp_kind p = kind) qs"
  by (induction qs) auto

lemma pool_lookup_pools_by_kind: "pool_lookup (pools_by_kind ps) kind = find (\<lambda>p. rp_kind p = kind) ps"
  by (induction ps) (auto simp: pool_lookup_def find_filter_other_kind)

text \<open>The evaluations of an admitted report, one per demanded kind.\<close>

lemma admitted_evaluation:
  assumes "evaluate_resources pol plan inventory ctx now = Inr (evs, stores, [])"
    and "kind \<in> set (map re_pool_kind (wp_estimates plan))"
  obtains ev where "ev \<in> set evs"
    "evaluate_pool pol now (ac_active_usage ctx) (pools_by_kind (dr_resources inventory))
       (wp_estimates plan) kind [] = Inr (ev, [])"
proof -
  from assms(2) have "kind \<in> set (sort (remdups (map re_pool_kind (wp_estimates plan))))" by simp
  from list_all2_memberD [OF evaluate_resources_empty(3) [OF assms(1)] this] show ?thesis
    using that by blast
qed

lemma admitted_kinds:
  assumes "evaluate_resources pol plan inventory ctx now = Inr (evs, stores, [])"
  shows "map ev_pool_kind evs = sort (remdups (map re_pool_kind (wp_estimates plan)))"
  by (rule list_all2_map_back [OF evaluate_resources_empty(3) [OF assms]])
    (simp add: evaluate_pool_result)

text \<open>An admitted run evaluated every demanded pool, without an issue and with a pass.\<close>

lemma admitted_pool_evaluation:
  assumes run: "evaluate pl plan inventory ctx stage = Inr report"
    and adm: "rr_outcome report = ''admitted''"
    and kind: "kind \<in> set (map re_pool_kind (wp_estimates plan))"
  obtains now ev where "pl_clock pl = Aware now" "ev_status ev = ''pass''"
    "evaluate_pool (pl_policy pl) now (ac_active_usage ctx) (pools_by_kind (dr_resources inventory))
       (wp_estimates plan) kind [] = Inr (ev, [])"
proof -
  from evaluate_Inr [OF run] obtain now where now: "pl_clock pl = Aware now"
    and res: "evaluate_resources (pl_policy pl) plan inventory ctx now =
       Inr (rr_resource_evaluations report, rr_backing_store_evaluations report, rr_issues report)"
    and out: "rr_outcome report = admission_outcome stage (rr_issues report)"
    and ok: "admission_report_post_init report = None"
    by metis
  from out adm have none: "rr_issues report = []" by (metis admission_outcome_admitted)
  from admitted_evaluation [OF res [unfolded none] kind] obtain ev where "ev \<in> set (rr_resource_evaluations report)"
    and ev: "evaluate_pool (pl_policy pl) now (ac_active_usage ctx) (pools_by_kind (dr_resources inventory))
       (wp_estimates plan) kind [] = Inr (ev, [])" by metis
  with ok adm have "ev_status ev = ''pass''" by (auto simp: admission_report_post_init_def)
  with now ev that show ?thesis by blast
qed

text \<open>
  C1. An admitted workload fits every typed pool it demands: the pool is in the inventory,
  its observation is fresh and its capacity known, and the upper bounds of all estimates for
  it, each enlarged by its confidence margin, fit what the safety reserve and the active
  reservations leave of the observed available amount (a demand of zero always fits).
\<close>

theorem admitted_fits_every_pool:
  assumes run: "evaluate pl plan inventory ctx stage = Inr report"
    and adm: "rr_outcome report = ''admitted''"
    and kind: "kind \<in> set (map re_pool_kind (wp_estimates plan))"
  shows "\<exists>now pool a c r.
     pl_clock pl = Aware now \<and>
     find (\<lambda>p. rp_kind p = kind) (dr_resources inventory) = Some pool \<and>
     rp_available pool = Some a \<and> rp_capacity pool = Some c \<and>
     rp_accuracy pool \<notin> {''unknown'', ''bounded''} \<and>
     observation_problem now (rp_observed_at pool) (rp_staleness_seconds pool)
       (ap_inventory_max_age_seconds (pl_policy pl)) = None \<and>
     pool_reserve (pl_policy pl) kind c = Inr r \<and>
     (let d = demand (pl_policy pl) (filter (\<lambda>e. re_pool_kind e = kind) (wp_estimates plan))
      in d \<le> 0 \<or> d + r + active_amount (ac_active_usage ctx) kind \<le> a)"
proof -
  from admitted_pool_evaluation [OF assms] obtain now ev where "pl_clock pl = Aware now"
    and "ev_status ev = ''pass''" and "evaluate_pool (pl_policy pl) now (ac_active_usage ctx)
       (pools_by_kind (dr_resources inventory)) (wp_estimates plan) kind [] = Inr (ev, [])" by metis
  with evaluate_pool_admitted [OF this(3,2)] show ?thesis
    by (auto simp: pool_lookup_pools_by_kind Let_def)
qed

lemma disk_evaluation_lookup:
  assumes res: "evaluate_resources pol plan inventory ctx now = Inr (evs, stores, [])"
    and pass: "\<forall>ev \<in> set evs. ev_status ev = ''pass''"
    and plan: "plan_constructed plan" and disk: "kind \<noteq> ''cpu''" "kind \<notin> {''ram'', ''swap''}"
  defines "d \<equiv> demanded_lookup (filter (\<lambda>e. is_disk (ev_unit e) (ev_pool_kind e)) evs) kind"
  shows "(case d of None \<Rightarrow> 0 | Some e \<Rightarrow> or_zero (ev_required e)) = demand pol (estimates_of (wp_estimates plan) kind)"
    and "d \<noteq> None \<longleftrightarrow> kind \<in> set (map re_pool_kind (wp_estimates plan))"
proof -
  let ?disk = "filter (\<lambda>e. is_disk (ev_unit e) (ev_pool_kind e)) evs"
  have kinds: "map ev_pool_kind evs = sort (remdups (map re_pool_kind (wp_estimates plan)))"
    by (rule admitted_kinds [OF res])
  then have "distinct (map ev_pool_kind evs)" by simp
  then have dist: "distinct (map ev_pool_kind (rev ?disk))"
    by (metis distinct_map_filter distinct_rev rev_map)
  have inv: "d = Some ev \<longleftrightarrow> ev \<in> set ?disk \<and> ev_pool_kind ev = kind" for ev
    unfolding d_def demanded_lookup_def using find_Some_iff_distinct [OF dist] by simp
  have "(case d of None \<Rightarrow> 0 | Some e \<Rightarrow> or_zero (ev_required e)) = demand pol (estimates_of (wp_estimates plan) kind) \<and>
      (d \<noteq> None \<longleftrightarrow> kind \<in> set (map re_pool_kind (wp_estimates plan)))"
  proof (cases "kind \<in> set (map re_pool_kind (wp_estimates plan))")
    case True
    from admitted_evaluation [OF res True] obtain ev where mem: "ev \<in> set evs" and run:
        "evaluate_pool pol now (ac_active_usage ctx) (pools_by_kind (dr_resources inventory))
           (wp_estimates plan) kind [] = Inr (ev, [])" by metis
    from evaluate_pool_result [OF run] have k: "ev_pool_kind ev = kind"
      and u: "ev_unit ev = re_unit (hd (estimates_of (wp_estimates plan) kind))" by auto
    from True have "estimates_of (wp_estimates plan) kind \<noteq> []" by (auto simp: filter_empty_conv)
    then have "hd (estimates_of (wp_estimates plan) kind) \<in> set (estimates_of (wp_estimates plan) kind)"
      by (rule hd_in_set)
    then have "re_pool_kind (hd (estimates_of (wp_estimates plan) kind)) = kind"
      and "resource_estimate_post_init (hd (estimates_of (wp_estimates plan) kind)) = None"
      using plan by (simp_all add: plan_constructed_def)
    from estimate_unit [OF this(2)] this(1) disk u have "ev_unit ev = ''bytes''" by simp
    with mem k disk have "d = Some ev" unfolding inv by (auto simp: is_disk_def)
    with evaluate_pool_admitted [OF run] pass mem True show ?thesis by (auto simp: or_zero_def)
  next
    case False
    with kinds have "kind \<notin> set (map ev_pool_kind evs)" by simp
    then have "\<not> (ev \<in> set ?disk \<and> ev_pool_kind ev = kind)" for ev by auto
    then have "d = None" unfolding inv [symmetric] by (cases d) auto
    moreover from False have "estimates_of (wp_estimates plan) kind = []" by (auto simp: filter_empty_conv)
    ultimately show ?thesis using False by (simp add: demand_def)
  qed
  then show "(case d of None \<Rightarrow> 0 | Some e \<Rightarrow> or_zero (ev_required e)) = demand pol (estimates_of (wp_estimates plan) kind)"
    and "d \<noteq> None \<longleftrightarrow> kind \<in> set (map re_pool_kind (wp_estimates plan))" by auto
qed

text \<open>
  C2. No double spending of a shared backing store: when several logical disk pools live on
  one store and the plan demands one of them, the demands of all of them, all active
  reservations on them and the largest safety reserve together fit the available amount that
  any of them reports.
\<close>

theorem admitted_fits_shared_store:
  assumes run: "evaluate pl plan inventory ctx stage = Inr report"
    and adm: "rr_outcome report = ''admitted''" and plan: "plan_constructed plan"
    and ps: "ps = store_pools (dr_resources inventory) store" "2 \<le> length ps" "store \<noteq> []"
    and dem: "\<exists>p \<in> set ps. rp_kind p \<in> set (map re_pool_kind (wp_estimates plan)) \<and> rp_kind p \<noteq> ''cpu''"
    and p: "p \<in> set ps"
  shows "\<exists>a r. rp_available p = Some a \<and>
     pool_reserve (pl_policy pl) (rp_kind p) (or_zero (rp_capacity p)) = Inr r \<and>
     (\<Sum>q \<leftarrow> ps. demand (pl_policy pl) (filter (\<lambda>e. re_pool_kind e = rp_kind q) (wp_estimates plan))) +
     (\<Sum>q \<leftarrow> ps. active_amount (ac_active_usage ctx) (rp_kind q)) + r \<le> a"
proof -
  let ?pol = "pl_policy pl" and ?evs = "rr_resource_evaluations report" and ?usage = "ac_active_usage ctx"
  let ?disk = "filter (\<lambda>e. is_disk (ev_unit e) (ev_pool_kind e)) ?evs"
  from evaluate_Inr [OF run] adm obtain now where
    res: "evaluate_resources ?pol plan inventory ctx now = Inr (?evs, rr_backing_store_evaluations report, [])"
    and ok: "admission_report_post_init report = None"
    by (metis admission_outcome_admitted)
  from ok adm have pass: "\<forall>ev \<in> set ?evs. ev_status ev = ''pass''" by (auto simp: admission_report_post_init_def)
  note same = pools_by_kind_distinct [OF evaluate_resources_empty(2) [OF res]]
  have disk: "rp_kind q \<notin> {''ram'', ''swap''}" if "q \<in> set ps" for q
    using that ps(1) by (auto simp: store_pools_def is_disk_def)
  from dem obtain q where q: "q \<in> set ps" and qk: "rp_kind q \<in> set (map re_pool_kind (wp_estimates plan))"
    and qc: "rp_kind q \<noteq> ''cpu''" by auto
  from disk_evaluation_lookup(2) [OF res pass plan qc disk [OF q]] qk
  have some: "\<exists>q \<in> set ps. demanded_lookup ?disk (rp_kind q) \<noteq> None" using q by blast
  have named: "store \<in> set (store_names (dr_resources inventory))" using ps by (auto intro!: store_names_member)
  from evaluate_resources_empty(4) [OF res] same obtain bss where all: "list_all2 (\<lambda>store bs.
      evaluate_store ?pol ?usage ?disk (dr_resources inventory) store [] = Inr (bs, []))
      (store_names (dr_resources inventory)) bss" by auto
  from list_all2_memberD [OF all named] obtain bs where
    "evaluate_store ?pol ?usage ?disk (dr_resources inventory) store [] = Inr (bs, [])" by blast
  from evaluate_store_admitted [OF this, folded ps(1), OF ps(2) some] obtain a where
    a: "store_demand ?pol ?usage ?disk ps = Inr a" "sa_total a \<le> sa_available a"
      "\<forall>p \<in> set ps. rp_available p \<noteq> None"
      "backing_store_evaluation_post_init (store_evaluation store ps a) = None" by blast
  have sums: "(\<Sum>q \<leftarrow> ps. case demanded_lookup ?disk (rp_kind q) of None \<Rightarrow> 0 | Some e \<Rightarrow> or_zero (ev_required e)) =
      (\<Sum>q \<leftarrow> ps. demand ?pol (estimates_of (wp_estimates plan) (rp_kind q)))"
  proof (intro arg_cong [where f = sum_list] map_cong refl)
    fix q assume "q \<in> set ps"
    with disk store_evaluation_kinds [OF a(4)] show "(case demanded_lookup ?disk (rp_kind q) of None \<Rightarrow> 0
        | Some e \<Rightarrow> or_zero (ev_required e)) = demand ?pol (estimates_of (wp_estimates plan) (rp_kind q))"
      by (intro disk_evaluation_lookup(1) [OF res pass plan]) auto
  qed
  from a(3) p obtain v where v: "rp_available p = Some v" by auto
  from store_demand_bounds [OF a(1) p] obtain r where
    r: "pool_reserve ?pol (rp_kind p) (or_zero (rp_capacity p)) = Inr r" "r \<le> sa_reserve a" "sa_available a \<le> v"
    by (auto simp: v or_zero_def)
  have "(\<Sum>q \<leftarrow> ps. demand ?pol (estimates_of (wp_estimates plan) (rp_kind q))) +
      (\<Sum>q \<leftarrow> ps. active_amount ?usage (rp_kind q)) + r \<le> v"
    using store_demand_total [OF a(1)] sums a(2) r(2,3) by linarith
  with v r(1) show ?thesis by blast
qed

end
