(* ===== verification/Admission_Totality.thy ===== *)
theory Admission_Totality
  imports Admission_Soundness
begin

text \<open>
  The planner is fail-closed without raising: on constructed inputs and an inventory in the
  safe-integer domain whose pools know their capacity when they know what is available, the
  evaluation returns a report. Every stage gets a lemma that it returns, from the validity of
  the issue it may add.
\<close>

lemmas token_eval = is_lower_alnum_def is_lower_def is_digit_def

lemma issue_valid:
  assumes "is_token code" and "category \<in> set ISSUE_CATEGORIES"
    and "\<And>k. kind = Some k \<Longrightarrow> k \<in> set RESOURCE_POOL_KINDS"
    and "safe_amount required" and "safe_amount available"
  shows "admission_issue_post_init (issue code category recoverable kind required available) = None"
  using assms by (auto simp: admission_issue_post_init_def issue_def validates split: option.splits)

lemma returns_add_issue [simp]: "returns (add_issue i issues) \<longleftrightarrow> admission_issue_post_init i = None"
  by (auto simp: add_issue_def returns_ebind)

lemma returns_issue_if [simp]: "returns (issue_if b i issues) \<longleftrightarrow> (b \<longrightarrow> admission_issue_post_init i = None)"
  by (simp add: issue_if_def)

lemma plain_issue_valid:
  "category \<in> {''inventory'', ''provider'', ''capability'', ''trust'', ''resource'', ''plan''} \<Longrightarrow> is_token code \<Longrightarrow>
     admission_issue_post_init (issue code category recoverable None None None) = None"
  by (rule issue_valid) (auto simp: ISSUE_CATEGORIES_def)

lemma observation_problem_cases:
  "observation_problem now t s m = None \<or> observation_problem now t s m = Some ''future'' \<or>
   observation_problem now t s m = Some ''stale''"
  by (simp add: observation_problem_def Let_def)

section \<open>The guard stages return\<close>

lemma evaluate_inventory_returns: "returns (evaluate_inventory pol now inventory s)"
  unfolding evaluate_inventory_def
  by (rule returns_seqE) (auto intro!: plain_issue_valid simp: token_eval)

lemma evaluate_trust_returns: "returns (evaluate_trust plan inventory s)"
  unfolding evaluate_trust_def
  by (rule returns_seqE) (auto intro!: plain_issue_valid simp: token_eval)

lemma problem_stage_returns:
  assumes "is_token (pre @ ''future'')" "is_token (pre @ ''stale'')"
    and "category \<in> {''inventory'', ''provider'', ''capability'', ''trust'', ''resource'', ''plan''}"
  shows "returns ((case observation_problem now t st m of
       None \<Rightarrow> Inr | Some q \<Rightarrow> add_issue (issue (pre @ q) category False None None None)) s)"
  using observation_problem_cases [of now t st m] assms by (auto intro!: plain_issue_valid)

lemma evaluate_provider_returns: "returns (evaluate_provider pol plan inventory now s)"
proof (cases "wp_provider_name plan")
  case (Some name)
  let ?ps = "filter (\<lambda>c. pc_name c = name) (dr_providers inventory)"
  consider p where "?ps = [p]" | "\<nexists>p. ?ps = [p]" by blast
  then show ?thesis
  proof cases
    case 1
    show ?thesis
      unfolding evaluate_provider_def Some option.case 1 list.case
      by (rule returns_seqE) (auto intro!: plain_issue_valid problem_stage_returns simp: token_eval)
  next
    case 2
    then have "evaluate_provider pol plan inventory now s =
        add_issue (issue ''provider-inventory-ambiguous'' ''provider'' False None None None) s"
      by (auto simp: evaluate_provider_def Some split: list.split)
    then show ?thesis by (auto intro!: plain_issue_valid simp: token_eval)
  qed
qed (simp add: evaluate_provider_def)

lemma evaluate_capability_returns: "returns (evaluate_capability pol inventory now name s)"
proof (cases "find (\<lambda>c. cap_name c = name) (dr_capabilities inventory)")
  case None
  then show ?thesis by (auto simp: evaluate_capability_def token_eval intro!: plain_issue_valid)
next
  case (Some c)
  have "returns (case observation_problem now (cap_observed_at c) (cap_staleness_seconds c)
        (ap_inventory_max_age_seconds pol) of None \<Rightarrow> Inr s
      | Some q \<Rightarrow> add_issue (issue (''capability-inventory-'' @ q) ''capability'' False None None None) s)"
    using observation_problem_cases [of now "cap_observed_at c" "cap_staleness_seconds c" "ap_inventory_max_age_seconds pol"]
    by (auto intro!: plain_issue_valid simp: token_eval)
  with Some show ?thesis
    by (auto simp: evaluate_capability_def token_eval intro!: plain_issue_valid)
qed

lemma evaluate_capabilities_returns: "returns (evaluate_capabilities pol plan inventory now s)"
  by (auto simp: evaluate_capabilities_def Let_def token_eval
      intro!: plain_issue_valid returns_foldE evaluate_capability_returns)

section \<open>Amounts stay in the safe-integer domain\<close>

text \<open>
  A pool the planner can account for: constructed, of a registered kind, within the
  safe-integer domain, and with a known capacity whenever the available amount is known.
\<close>

definition pool_in_domain :: "resource_pool \<Rightarrow> bool" where
  "pool_in_domain p \<longleftrightarrow>
     resource_pool_post_init p = None \<and> rp_kind p \<in> set RESOURCE_POOL_KINDS \<and>
     (rp_kind p = ''cpu'' \<longrightarrow> rp_unit p \<noteq> ''bytes'') \<and>
     (\<forall>c. rp_capacity p = Some c \<longrightarrow> c \<le> SAFE_INTEGER_MAX) \<and>
     (rp_available p \<noteq> None \<longrightarrow> rp_capacity p \<noteq> None)"

lemma pool_in_domain_amounts:
  assumes "pool_in_domain p"
  shows "rp_capacity p = Some c \<Longrightarrow> safe_integer c" and "rp_available p = Some a \<Longrightarrow> safe_integer a"
proof -
  have ok: "resource_pool_post_init p = None" using assms by (simp add: pool_in_domain_def)
  show "rp_capacity p = Some c \<Longrightarrow> safe_integer c"
    using assms resource_pool_nonneg(3) [OF ok] by (auto simp: pool_in_domain_def safe_integer_def)
  assume a: "rp_available p = Some a"
  with assms obtain c where "rp_capacity p = Some c" "c \<le> SAFE_INTEGER_MAX" by (auto simp: pool_in_domain_def)
  with a resource_pool_nonneg(4) [OF ok a] resource_pool_available_le_capacity [OF ok] show "safe_integer a"
    by (force simp: safe_integer_def)
qed

lemma ceil_share_le:
  fixes c b :: int
  assumes "0 \<le> c" "0 \<le> b" "b \<le> 10000"
  shows "0 \<le> (c * b + 9999) div 10000" "(c * b + 9999) div 10000 \<le> c"
proof -
  have "c * b \<le> c * 10000" using assms by (intro mult_left_mono) auto
  then have "(c * b + 9999) div 10000 \<le> (c * 10000 + 9999) div 10000" by (intro zdiv_mono1) auto
  then show "(c * b + 9999) div 10000 \<le> c" by simp
  show "0 \<le> (c * b + 9999) div 10000" using assms by (auto intro!: pos_imp_zdiv_nonneg_iff [THEN iffD2])
qed

lemma pool_reserve_returns:
  assumes "policy_constructed pol" "kind \<in> set RESOURCE_POOL_KINDS" "safe_integer c"
  shows "\<exists>r. pool_reserve pol kind c = Inr r \<and> safe_integer r"
proof -
  from policy_reserve_defined [OF assms(1,2)] obtain r where r: "policy_reserve pol kind = Inr r"
    "safe_integer (sr_minimum_units r)" "0 \<le> sr_capacity_basis_points r" "sr_capacity_basis_points r \<le> 10000" by auto
  from assms(3) have "0 \<le> c" "c \<le> SAFE_INTEGER_MAX" by (auto simp: safe_integer_def)
  with ceil_share_le [OF this(1) r(3,4)] r(1,2) show ?thesis
    by (auto simp: pool_reserve_def ceil_basis_points_def Let_def safe_integer_def)
qed

definition amounts_safe :: "pool_amounts \<Rightarrow> bool" where
  "amounts_safe a \<longleftrightarrow> safe_amount (am_expected a) \<and> safe_amount (am_upper_bound a) \<and>
     safe_amount (am_margin a) \<and> safe_amount (am_required a)"

lemma estimate_margin_cases:
  assumes "policy_constructed pol" "resource_estimate_post_init e = None" "re_confidence e \<noteq> ''unknown''"
  shows "(\<exists>m. estimate_margin pol e = Inr m \<and> 0 \<le> m) \<or> (\<exists>msg. estimate_margin pol e = Inl (OverflowError msg))"
proof -
  obtain b where b: "re_upper_bound e = Some b" "safe_integer b" "re_confidence e \<in> set MARGIN_CONFIDENCE_CLASSES"
    using validate_forecast_None [OF estimate_forecast [OF assms(2)] assms(3)] by metis
  from margin_basis_points_defined [OF assms(1) b(3)] obtain p where
    p: "margin_basis_points pol (re_confidence e) = Inr p" "0 \<le> p" by auto
  from b(2) p(2) have "0 \<le> (b * p + 9999) div 10000"
    by (auto simp: safe_integer_def intro!: pos_imp_zdiv_nonneg_iff [THEN iffD2] add_nonneg_nonneg)
  with b(1) p(1) show ?thesis
    by (auto simp: estimate_margin_def ceil_basis_points_def Let_def or_zero_def)
qed

lemma margins_cases:
  assumes "policy_constructed pol"
    and "\<forall>e \<in> set ests. resource_estimate_post_init e = None \<and> re_confidence e \<noteq> ''unknown''"
  shows "(\<exists>ms. mapE (estimate_margin pol) ests = Inr ms \<and> (\<forall>m \<in> set ms. 0 \<le> m)) \<or>
     (\<exists>msg. mapE (estimate_margin pol) ests = Inl (OverflowError msg))"
  using assms(2)
proof (induction ests)
  case (Cons e ests)
  with estimate_margin_cases [OF assms(1), of e] show ?case by fastforce
qed simp

lemma estimate_amounts_nonneg:
  assumes "resource_estimate_post_init e = None"
  shows "0 \<le> or_zero (re_expected e)" "0 \<le> or_zero (re_upper_bound e)"
  using estimate_forecast [OF assms]
  by (auto simp: validate_forecast_def validates or_zero_def safe_integer_def split: option.splits)

lemma safe_sum_cases:
  "(\<forall>x \<in> set xs. 0 \<le> x) \<Longrightarrow>
     (\<exists>n. safe_sum xs = Inr n \<and> safe_integer n) \<or> (\<exists>msg. safe_sum xs = Inl (OverflowError msg))"
  by (auto simp: safe_sum_def Let_def safe_integer_def sum_list_nonneg)

lemma aggregate_demand_returns:
  assumes "policy_constructed pol"
    and ests: "\<forall>e \<in> set ests. resource_estimate_post_init e = None \<and> re_confidence e \<noteq> ''unknown''"
  shows "\<exists>a ov. aggregate_demand pol ests = Inr (a, ov) \<and> amounts_safe a \<and> (\<not> ov \<longrightarrow> am_required a \<noteq> None)"
proof -
  have e: "(\<exists>n. safe_sum (map (or_zero \<circ> re_expected) ests) = Inr n \<and> safe_integer n) \<or>
      (\<exists>msg. safe_sum (map (or_zero \<circ> re_expected) ests) = Inl (OverflowError msg))"
    and u: "(\<exists>n. safe_sum (map (or_zero \<circ> re_upper_bound) ests) = Inr n \<and> safe_integer n) \<or>
      (\<exists>msg. safe_sum (map (or_zero \<circ> re_upper_bound) ests) = Inl (OverflowError msg))"
    using ests estimate_amounts_nonneg by (auto intro!: safe_sum_cases)
  have m: "(\<exists>n. ebind (mapE (estimate_margin pol) ests) safe_sum = Inr n \<and> safe_integer n) \<or>
      (\<exists>msg. ebind (mapE (estimate_margin pol) ests) safe_sum = Inl (OverflowError msg))"
    using margins_cases [OF assms] safe_sum_cases by fastforce
  have t: "(\<exists>n. safe_sum [a, b] = Inr n \<and> safe_integer n) \<or> (\<exists>msg. safe_sum [a, b] = Inl (OverflowError msg))"
    if "safe_integer a" "safe_integer b" for a b
    using that by (intro safe_sum_cases) (auto simp: safe_integer_def)
  show ?thesis
  proof (cases "safe_sum (map (or_zero \<circ> re_expected) ests)")
    case (Inr expected)
    note exp = this
    show ?thesis
    proof (cases "safe_sum (map (or_zero \<circ> re_upper_bound) ests)")
      case (Inr upper)
      with exp e u m t show ?thesis
        by (fastforce simp: aggregate_demand_def Let_def amounts_safe_def unknown_amounts_def)
    qed (use exp e in \<open>auto simp: aggregate_demand_def amounts_safe_def unknown_amounts_def\<close>)
  qed (auto simp: aggregate_demand_def amounts_safe_def unknown_amounts_def)
qed

section \<open>The remaining stages return\<close>

lemma cpu_issue_valid:
  assumes "is_token code" "category \<in> {''concurrency'', ''plan''}"
    and "safe_amount required" "safe_amount available"
  shows "admission_issue_post_init (issue code category recoverable (Some ''cpu'') required available) = None"
  using assms by (auto intro!: issue_valid simp: ISSUE_CATEGORIES_def RESOURCE_POOL_KINDS_def)

lemma safe_headroom: "safe_integer c \<Longrightarrow> 0 \<le> a \<Longrightarrow> safe_integer (max 0 (c - a))"
  by (auto simp: safe_integer_def)

lemma evaluate_cpu_returns:
  assumes "\<forall>p \<in> set (dr_resources inventory). pool_in_domain p" "safe_integer requested"
    and "0 \<le> ac_active_concurrency ctx"
  shows "returns (evaluate_cpu pol inventory ctx now requested s)"
proof (cases "find (\<lambda>p. rp_kind p = ''cpu'') (dr_resources inventory)")
  case None
  with assms show ?thesis by (auto simp: evaluate_cpu_def token_eval intro!: cpu_issue_valid)
next
  case (Some cpu)
  then have "pool_in_domain cpu" using assms(1) find_SomeD by fastforce
  with Some assms(2,3) show ?thesis
    by (cases "rp_capacity cpu")
      (auto simp: evaluate_cpu_def token_eval intro!: cpu_issue_valid safe_headroom dest: pool_in_domain_amounts)
qed

lemma evaluate_concurrency_returns:
  assumes "\<forall>p \<in> set (dr_resources inventory). pool_in_domain p" "policy_constructed pol"
    and "context_constructed ctx" "plan_constructed plan"
  shows "returns (evaluate_concurrency pol plan inventory ctx now s)"
proof (cases "safe_sum [ac_active_concurrency ctx, wp_requested_concurrency plan]")
  case (Inl e)
  then show ?thesis by (auto simp: evaluate_concurrency_def token_eval intro!: cpu_issue_valid)
next
  case (Inr requested)
  have a: "safe_integer (ac_active_concurrency ctx)" and m: "safe_integer (ap_max_concurrency pol)"
    and r: "safe_integer (wp_requested_concurrency plan)"
    using assms(2-4)
    by (auto simp: context_constructed_def admission_context_post_init_def policy_constructed_def
        admission_policy_post_init_def Let_def plan_constructed_def workload_plan_post_init_def validates)
  with Inr have req: "safe_integer requested" by (auto simp: safe_sum_Inr safe_integer_def)
  from a have nonneg: "0 \<le> ac_active_concurrency ctx" by (simp add: safe_integer_def)
  with Inr m req show ?thesis
    by (auto simp: evaluate_concurrency_def token_eval
        intro!: returns_ebindI cpu_issue_valid safe_headroom evaluate_cpu_returns [OF assms(1) req nonneg])
qed

lemma evaluate_guards_returns:
  assumes "\<forall>p \<in> set (dr_resources inventory). pool_in_domain p" "policy_constructed pol"
    and "context_constructed ctx" "plan_constructed plan"
  shows "returns (evaluate_guards pol plan inventory ctx now s)"
  unfolding evaluate_guards_def
  by (rule returns_seqE)
    (auto simp: evaluate_inventory_returns evaluate_trust_returns evaluate_provider_returns
      evaluate_capabilities_returns evaluate_concurrency_returns [OF assms])

lemma pool_evaluation_valid:
  assumes "kind \<in> set RESOURCE_POOL_KINDS" "u = (if kind = ''cpu'' then ''logical_cpu'' else ''bytes'')"
    and "names \<noteq> []" "distinct names" "\<forall>n \<in> set names. is_token n" "amounts_safe amounts"
    and "safe_amount available" "safe_amount reserve" "safe_amount post" "safe_integer active"
    and "accuracy \<in> {''exact'', ''bounded'', ''estimated'', ''unknown''}" "source \<noteq> []"
    and "status \<in> {''pass'', ''fail'', ''unknown''}"
  shows "resource_evaluation_post_init
     (pool_evaluation kind u names amounts available accuracy source reserve active post store status) = None"
  using assms
  by (auto simp: resource_evaluation_post_init_def pool_evaluation_def validates amounts_safe_def
      RESOURCE_UNITS_def EVALUATION_STATES_def)

lemma pool_issue_valid:
  assumes "is_token code" "category \<in> {''inventory'', ''resource'', ''plan''}" "kind \<in> set RESOURCE_POOL_KINDS"
    and "safe_amount required" "safe_amount available"
  shows "admission_issue_post_init (issue code category recoverable (Some kind) required available) = None"
  using assms by (auto intro!: issue_valid simp: ISSUE_CATEGORIES_def)

lemma pool_problem_returns:
  assumes "kind \<in> set RESOURCE_POOL_KINDS" "safe_amount required" "safe_amount available"
  shows "returns (case observation_problem now t st m of None \<Rightarrow> Inr s
     | Some q \<Rightarrow> add_issue (issue (''resource-pool-'' @ q) ''inventory'' False (Some kind) required available) s)"
  using observation_problem_cases [of now t st m] assms by (auto intro!: pool_issue_valid simp: token_eval)

lemma usable_units_safe:
  assumes "safe_amount available" "safe_amount reserve" "safe_integer active"
  shows "safe_amount (usable_units available reserve active)"
  using assms by (auto simp: usable_units_def safe_integer_def split: option.splits)

lemma post_admission_safe:
  assumes "safe_amount required" "safe_amount usable"
  shows "safe_amount (post_admission (required_fits required usable \<and> b) required usable)"
  using assms
  by (auto simp: post_admission_def required_fits_def safe_integer_def split: option.splits)

lemma optional_reserve_returns:
  assumes "policy_constructed pol" "kind \<in> set RESOURCE_POOL_KINDS" "safe_amount capacity"
  shows "returns (optional_reserve pol kind capacity)"
    and "optional_reserve pol kind capacity = Inr r \<Longrightarrow> safe_amount r \<and> (r = None \<longleftrightarrow> capacity = None)"
  using pool_reserve_returns [OF assms(1,2)] assms(3)
  by (cases capacity; fastforce simp: optional_reserve_def)+

lemma pool_status_registered: "pool_status b r v \<in> {''pass'', ''fail'', ''unknown''}"
  by (simp add: pool_status_def)

text \<open>A pool in the domain is evaluated without raising.\<close>

lemma evaluate_present_pool_returns:
  assumes pol: "policy_constructed pol" and kind: "kind \<in> set RESOURCE_POOL_KINDS"
    and u: "u = (if kind = ''cpu'' then ''logical_cpu'' else ''bytes'')"
    and names: "names \<noteq> []" "distinct names" "\<forall>n \<in> set names. is_token n"
    and am: "amounts_safe amounts" and act: "safe_integer active" and pool: "pool_in_domain pool"
  shows "returns (evaluate_present_pool pol now kind u names active amounts pool s)"
proof -
  have ok: "resource_pool_post_init pool = None" using pool by (simp add: pool_in_domain_def)
  have avail: "safe_amount (rp_available pool)" and cap: "safe_amount (rp_capacity pool)"
    using pool_in_domain_amounts [OF pool] by (cases "rp_available pool"; cases "rp_capacity pool"; auto)+
  have req: "safe_amount (am_required amounts)" using am by (simp add: amounts_safe_def)
  have acc: "rp_accuracy pool \<in> {''exact'', ''bounded'', ''estimated'', ''unknown''}" and src: "rp_source pool \<noteq> []"
    using resource_pool_fields [OF ok] by (auto simp: ACCURACY_CLASSES_def)
  note reserve = optional_reserve_returns [OF pol kind cap]
  note usable = usable_units_safe [OF avail _ act]
  show ?thesis
    unfolding evaluate_present_pool_def Let_def
    by (intro returns_ebindI pool_problem_returns [OF kind req avail] reserve(1) returns_Inr
        returns_issue_if [THEN iffD2] returns_construct [THEN iffD2] impI
        pool_issue_valid [OF _ _ kind req]
        pool_evaluation_valid [OF kind u names am avail _ _ act acc src pool_status_registered]
        post_admission_safe [OF req] usable)
      (auto simp: token_eval avail dest!: reserve(2))
qed

lemma present_pool_passes:
  assumes run: "evaluate_present_pool pol now kind u names active amounts pool issues = Inr (ev, [])"
    and dom: "pool_in_domain pool" and req: "am_required amounts \<noteq> None"
  shows "ev_status ev = ''pass''"
proof -
  from run obtain reserve where res: "optional_reserve pol kind (rp_capacity pool) = Inr reserve"
    and unit: "rp_unit pool = u"
    and prob: "observation_problem now (rp_observed_at pool) (rp_staleness_seconds pool)
       (ap_inventory_max_age_seconds pol) = None"
    and avail: "rp_available pool \<noteq> None"
    and fits: "\<not> required_exceeds (am_required amounts) (usable_units (rp_available pool) reserve active)"
    and ev: "ev_status ev = pool_status (required_fits (am_required amounts)
       (usable_units (rp_available pool) reserve active)) (am_required amounts)
       (usable_units (rp_available pool) reserve active)"
    by (auto simp: evaluate_present_pool_def Let_def emitted pool_evaluation_def split: option.splits)
  from dom avail have "rp_capacity pool \<noteq> None" by (simp add: pool_in_domain_def)
  with res have "reserve \<noteq> None" by (auto simp: optional_reserve_def)
  with avail fits ev req show ?thesis
    by (auto simp: required_exceeds_def required_fits_def usable_units_def pool_status_def split: option.splits)
qed

section \<open>The pool stage returns\<close>

text \<open>The data one demanded kind contributes to its evaluation.\<close>

lemma plan_kind_estimates:
  assumes plan: "plan_constructed plan" and kind: "kind \<in> set (map re_pool_kind (wp_estimates plan))"
  defines "es \<equiv> estimates_of (wp_estimates plan) kind"
  shows "kind \<in> set RESOURCE_POOL_KINDS" and "es \<noteq> []"
    and "re_unit (hd es) = (if kind = ''cpu'' then ''logical_cpu'' else ''bytes'')"
    and "\<forall>e \<in> set es. resource_estimate_post_init e = None"
    and "sort (map re_name es) \<noteq> []" and "distinct (sort (map re_name es))"
    and "\<forall>n \<in> set (sort (map re_name es)). is_token n"
    and "\<forall>e \<in> set es. re_unit e = re_unit (hd es)"
proof -
  have ok: "\<forall>e \<in> set es. resource_estimate_post_init e = None"
    using plan by (simp add: es_def plan_constructed_def)
  have k: "\<forall>e \<in> set es. re_pool_kind e = kind" by (simp add: es_def)
  from kind have ne: "es \<noteq> []" by (auto simp: es_def filter_empty_conv)
  then have "hd es \<in> set es" by (rule hd_in_set)
  with ok k show "kind \<in> set RESOURCE_POOL_KINDS"
    and u: "re_unit (hd es) = (if kind = ''cpu'' then ''logical_cpu'' else ''bytes'')"
    using estimate_unit by fastforce+
  show "es \<noteq> []" by (rule ne)
  then show "sort (map re_name es) \<noteq> []" by (metis list.map_disc_iff list.size(3) length_0_conv length_sort)
  show "\<forall>e \<in> set es. resource_estimate_post_init e = None" by (rule ok)
  from plan have "distinct (map re_name (wp_estimates plan))"
    by (simp add: plan_constructed_def workload_plan_post_init_def validates)
  then show "distinct (sort (map re_name es))" by (simp add: es_def distinct_map_filter)
  show "\<forall>n \<in> set (sort (map re_name es)). is_token n" using ok estimate_unit by fastforce
  show "\<forall>e \<in> set es. re_unit e = re_unit (hd es)" unfolding u using ok k estimate_unit by metis
qed

lemma active_amount_safe:
  assumes "context_constructed ctx"
  shows "safe_integer (active_amount (ac_active_usage ctx) kind)"
proof (cases "active_lookup (ac_active_usage ctx) kind")
  case (Some a)
  then have "a \<in> set (ac_active_usage ctx)" by (auto simp: active_lookup_def dest: find_SomeD)
  with Some assms show ?thesis
    by (auto simp: active_amount_def context_constructed_def active_usage_post_init_def validates)
qed (simp add: active_amount_def safe_integer_def SAFE_INTEGER_MAX_def)

lemma evaluate_pool_returns:
  assumes pol: "policy_constructed pol" and plan: "plan_constructed plan" and ctx: "context_constructed ctx"
    and pools: "\<forall>p \<in> set pools. pool_in_domain p" and kind: "kind \<in> set (map re_pool_kind (wp_estimates plan))"
  shows "returns (evaluate_pool pol now (ac_active_usage ctx) pools (wp_estimates plan) kind s)"
proof -
  let ?es = "estimates_of (wp_estimates plan) kind"
  note facts = plan_kind_estimates [OF plan kind]
  have act: "safe_integer (case active_lookup (ac_active_usage ctx) kind of None \<Rightarrow> 0 | Some a \<Rightarrow> au_amount a)"
    using active_amount_safe [OF ctx] by (simp add: active_amount_def)
  let ?b = "(\<exists>e \<in> set ?es. re_confidence e = ''unknown'') \<or> (\<exists>e \<in> set ?es. re_unit e \<noteq> re_unit (hd ?es))"
  let ?agg = "if ?b then Inr (unknown_amounts, False) else aggregate_demand pol ?es"
  have agg: "\<exists>a ov. ?agg = Inr (a, ov) \<and> amounts_safe a"
  proof (cases ?b)
    case False
    then have "\<forall>e \<in> set ?es. resource_estimate_post_init e = None \<and> re_confidence e \<noteq> ''unknown''"
      using facts(4) by blast
    from aggregate_demand_returns [OF pol this] show ?thesis unfolding if_not_P [OF False] by blast
  next
    case True
    then show ?thesis unfolding if_P [OF True] by (auto simp: amounts_safe_def unknown_amounts_def)
  qed
  then obtain a ov where a: "?agg = Inr (a, ov)" "amounts_safe a" by blast
  then have req: "safe_amount (am_required a)" by (simp add: amounts_safe_def)
  have iv: "admission_issue_post_init (issue code cat b (Some kind) q None) = None"
    if "is_token code" "cat \<in> {''inventory'', ''resource'', ''plan''}" "safe_amount q" for code cat b q
    using that facts(1) by (intro pool_issue_valid) auto
  have missing: "resource_evaluation_post_init (pool_evaluation kind (re_unit (hd ?es)) (sort (map re_name ?es)) a
      None ''unknown'' ''missing'' None n None None ''unknown'') = None" if "safe_integer n" for n
    using that a(2) by (intro pool_evaluation_valid [OF facts(1,3,5-7)]) auto
  have look: "pool_lookup pools kind = Some p \<Longrightarrow> pool_in_domain p" for p
    using pools by (auto simp: pool_lookup_def dest: find_SomeD)
  have last: "returns (case pool_lookup pools kind of
        None \<Rightarrow> ebind (add_issue (issue ''resource-pool-missing'' ''inventory'' False (Some kind) (am_required a) None) t)
          (\<lambda>t. ebind (construct resource_evaluation_post_init (pool_evaluation kind (re_unit (hd ?es))
             (sort (map re_name ?es)) a None ''unknown'' ''missing'' None n None None ''unknown'')) (\<lambda>e. Inr (e, t)))
      | Some pool \<Rightarrow> evaluate_present_pool pol now kind (re_unit (hd ?es)) (sort (map re_name ?es)) n a pool t)"
    if "safe_integer n" for n t
    using that req missing [OF that] evaluate_present_pool_returns [OF pol facts(1,3,5-7) a(2) that look]
    by (cases "pool_lookup pools kind") (simp_all add: returns_ebind iv token_eval)
  show ?thesis
    unfolding evaluate_pool_def Let_def a(1) ebind_Inr prod.case
    by (intro returns_ebindI returns_seqE last act) (simp_all add: iv token_eval)
qed

text \<open>In the domain, an evaluation without issues is a pass.\<close>

lemma evaluate_pool_passes:
  assumes run: "evaluate_pool pol now usage pools (wp_estimates plan) kind [] = Inr (ev, [])"
    and pol: "policy_constructed pol" and plan: "plan_constructed plan"
    and pools: "\<forall>p \<in> set pools. pool_in_domain p"
  shows "ev_status ev = ''pass''"
proof (cases "pool_lookup pools kind")
  case None
  with run show ?thesis by (auto simp: evaluate_pool_def Let_def emitted)
next
  case (Some pool)
  let ?es = "estimates_of (wp_estimates plan) kind"
  let ?unk = "\<exists>e \<in> set ?es. re_confidence e = ''unknown''" and ?conf = "\<exists>e \<in> set ?es. re_unit e \<noteq> re_unit (hd ?es)"
  from run Some obtain a ov i0 i1 i2 i3 n where
      i: "issue_if ?unk (issue ''resource-estimate-unknown'' ''plan'' False (Some kind) None None) [] = Inr i0"
      "issue_if ?conf (issue ''resource-estimate-unit-conflict'' ''plan'' False (Some kind) None None) i0 = Inr i1"
      "prefix i1 i2"
      "(if ?unk \<or> ?conf then Inr (unknown_amounts, False) else aggregate_demand pol ?es) = Inr (a, ov)"
      "issue_if ov (issue ''resource-plan-overflow'' ''plan'' False (Some kind) None None) i2 = Inr i3"
    and ev: "evaluate_present_pool pol now kind (re_unit (hd ?es)) (sort (map re_name ?es)) n a pool i3 = Inr (ev, [])"
    unfolding evaluate_pool_def Let_def seqE.simps ebind_eq_Inr by (force dest: issue_if_appends)
  from present_pool_appends [OF ev] have i3: "i3 = []" by simp
  with i(5) have "i2 = []" and ov: "\<not> ov" by (auto simp: emitted)
  with i(3) have i1: "i1 = []" by simp
  with i(2) have nc: "\<not> ?conf" and "i0 = []" by (auto simp only: emitted)
  with i(1) have nu: "\<not> ?unk" by (auto simp only: emitted)
  from nu plan have "\<forall>e \<in> set ?es. resource_estimate_post_init e = None \<and> re_confidence e \<noteq> ''unknown''"
    by (auto simp: plan_constructed_def)
  from aggregate_demand_returns [OF pol this] i(4) nu nc ov have "am_required a \<noteq> None"
    by (auto simp del: set_filter)
  moreover from Some pools have "pool_in_domain pool" by (auto simp: pool_lookup_def dest: find_SomeD)
  ultimately show ?thesis using present_pool_passes [OF ev] by blast
qed

section \<open>The store stage returns\<close>

lemma list_max_member: "xs \<noteq> [] \<Longrightarrow> list_max xs \<in> set xs"
  by (induction xs rule: list_max.induct) (auto simp: max_def)

lemma list_min_member: "xs \<noteq> [] \<Longrightarrow> list_min xs \<in> set xs"
  by (induction xs rule: list_min.induct) (auto simp: min_def)

lemma safe_or_zero: "safe_amount v \<Longrightarrow> safe_integer (or_zero v)"
  by (cases v) (simp_all add: or_zero_def safe_integer_def SAFE_INTEGER_MAX_def)

lemma pool_amounts_in_domain:
  "pool_in_domain p \<Longrightarrow> safe_amount (rp_capacity p)" "pool_in_domain p \<Longrightarrow> safe_amount (rp_available p)"
  using pool_in_domain_amounts by (cases "rp_capacity p"; cases "rp_available p"; auto)+

lemma option_list_nonneg:
  assumes "\<And>p e. p \<in> set ps \<Longrightarrow> f p = Some e \<Longrightarrow> 0 \<le> (g e :: int)"
  shows "\<forall>x \<in> set (concat (map (\<lambda>p. case f p of None \<Rightarrow> [] | Some e \<Rightarrow> [g e]) ps)). 0 \<le> x"
  using assms by (fastforce split: option.splits)

lemma store_demand_returns:
  assumes pol: "policy_constructed pol" and ctx: "context_constructed ctx"
    and dem: "\<forall>e \<in> set demanded. safe_amount (ev_required e)"
    and ps: "\<forall>p \<in> set ps. pool_in_domain p" "ps \<noteq> []"
  shows "(\<exists>a. store_demand pol (ac_active_usage ctx) demanded ps = Inr a \<and> safe_integer (sa_required a) \<and>
       safe_integer (sa_active a) \<and> safe_integer (sa_reserve a) \<and> safe_integer (sa_available a) \<and>
       safe_integer (sa_total a)) \<or>
     (\<exists>msg. store_demand pol (ac_active_usage ctx) demanded ps = Inl (OverflowError msg))"
proof -
  have d: "0 \<le> or_zero (ev_required e)" if "demanded_lookup demanded k = Some e" for k e
    using that dem safe_or_zero by (fastforce simp: demanded_lookup_def safe_integer_def dest: find_SomeD)
  have u: "0 \<le> au_amount a" if "active_lookup (ac_active_usage ctx) k = Some a" for k a
    using active_amount_safe [OF ctx, of k] that by (simp add: active_amount_def safe_integer_def)
  have "\<forall>p \<in> set ps. \<exists>r. pool_reserve pol (rp_kind p) (or_zero (rp_capacity p)) = Inr r \<and> safe_integer r"
    using ps pool_reserve_returns [OF pol] pool_amounts_in_domain safe_or_zero by (auto simp: pool_in_domain_def)
  from mapE_all [OF this] obtain rs where
    rs: "mapE (\<lambda>p. pool_reserve pol (rp_kind p) (or_zero (rp_capacity p))) ps = Inr rs"
      "\<forall>r \<in> set rs. safe_integer r" by blast
  with ps(2) have "rs \<noteq> []" by (auto dest: mapE_Inr_length)
  with rs list_max_member have mx: "safe_integer (list_max rs)" by blast
  have mn: "safe_integer (list_min (map (or_zero \<circ> rp_available) ps))"
    using list_min_member [of "map (or_zero \<circ> rp_available) ps"] ps pool_amounts_in_domain(2) safe_or_zero by fastforce
  have t: "(\<exists>n. safe_sum [a, b, c] = Inr n \<and> safe_integer n) \<or> (\<exists>msg. safe_sum [a, b, c] = Inl (OverflowError msg))"
    if "safe_integer a" "safe_integer b" "safe_integer c" for a b c
    using that by (intro safe_sum_cases) (auto simp: safe_integer_def)
  let ?req = "concat (map (\<lambda>p. case demanded_lookup demanded (rp_kind p) of
        None \<Rightarrow> [] | Some e \<Rightarrow> [or_zero (ev_required e)]) ps)"
    and ?act = "concat (map (\<lambda>p. case active_lookup (ac_active_usage ctx) (rp_kind p) of
        None \<Rightarrow> [] | Some a \<Rightarrow> [au_amount a]) ps)"
  have req: "(\<exists>n. safe_sum ?req = Inr n \<and> safe_integer n) \<or> (\<exists>msg. safe_sum ?req = Inl (OverflowError msg))"
    by (intro safe_sum_cases option_list_nonneg) (rule d)
  have act: "(\<exists>n. safe_sum ?act = Inr n \<and> safe_integer n) \<or> (\<exists>msg. safe_sum ?act = Inl (OverflowError msg))"
    by (intro safe_sum_cases option_list_nonneg) (rule u)
  show ?thesis
  proof (cases "safe_sum ?req")
    case (Inl e)
    with req show ?thesis by (auto simp: store_demand_def)
  next
    case r: (Inr n)
    with req have n: "safe_integer n" by simp
    show ?thesis
    proof (cases "safe_sum ?act")
      case (Inl e)
      with act r show ?thesis by (auto simp: store_demand_def)
    next
      case a: (Inr m)
      with act have "safe_integer m" by simp
      with t [OF n this mx] r a rs(1) n mx mn show ?thesis by (auto simp: store_demand_def Let_def)
    qed
  qed
qed

lemma store_pools_facts:
  assumes "p \<in> set (store_pools pools store)" and "\<forall>p \<in> set pools. pool_in_domain p"
  shows "rp_kind p \<in> set (filter (\<lambda>k. k \<notin> {''ram'', ''swap'', ''cpu''}) RESOURCE_POOL_KINDS)"
  using assms by (auto simp: store_pools_def is_disk_def pool_in_domain_def)

lemma store_evaluation_valid:
  assumes dom: "\<forall>p \<in> set pools. pool_in_domain p" and d: "distinct (map rp_kind pools)"
    and store: "store \<noteq> []" and len: "2 \<le> length (store_pools pools store)"
    and a: "safe_integer (sa_required a)" "safe_integer (sa_active a)" "safe_integer (sa_reserve a)"
      "safe_integer (sa_available a)" "safe_integer (sa_total a)"
  shows "backing_store_evaluation_post_init (store_evaluation store (store_pools pools store) a) = None"
proof -
  have "distinct (map rp_kind (store_pools pools store))"
    unfolding store_pools_def by (rule distinct_map_filter [OF d])
  moreover have "safe_integer (sa_available a - sa_total a)" if "sa_total a \<le> sa_available a"
    using that a by (simp add: safe_integer_def)
  moreover have "safe_integer 0" by (simp add: safe_integer_def SAFE_INTEGER_MAX_def)
  moreover have "\<forall>p \<in> set (store_pools pools store).
      rp_kind p \<in> set (filter (\<lambda>k. k \<notin> {''ram'', ''swap'', ''cpu''}) RESOURCE_POOL_KINDS)"
    using store_pools_facts [OF _ dom] by blast
  ultimately show ?thesis using store len a
    by (auto simp: backing_store_evaluation_post_init_def store_evaluation_def Let_def validates)
qed

lemma store_issue_valid:
  assumes "is_token code" and "cat \<in> {''resource'', ''plan'', ''inventory''}" and "safe_amount r" "safe_amount v"
  shows "admission_issue_post_init (issue code cat b None r v) = None"
  using assms by (intro issue_valid) (auto simp: ISSUE_CATEGORIES_def)

lemma evaluate_store_returns:
  assumes pol: "policy_constructed pol" and ctx: "context_constructed ctx"
    and dem: "\<forall>e \<in> set demanded. safe_amount (ev_required e)"
    and dom: "\<forall>p \<in> set pools. pool_in_domain p" and d: "distinct (map rp_kind pools)" and store: "store \<noteq> []"
  shows "returns (evaluate_store pol (ac_active_usage ctx) demanded pools store s)"
proof -
  let ?ps = "store_pools pools store"
  have ps: "\<forall>p \<in> set ?ps. pool_in_domain p" using dom by (auto simp: store_pools_def)
  have iv: "admission_issue_post_init (issue code cat b None r v) = None"
    if "is_token code" "cat \<in> {''resource'', ''plan'', ''inventory''}" "safe_amount r" "safe_amount v" for code cat b r v
    using that by (rule store_issue_valid)
  show ?thesis
  proof (cases "length ?ps < 2")
    case True
    then show ?thesis by (simp add: evaluate_store_def Let_def)
  next
    case False
    then have "?ps \<noteq> []" and len: "2 \<le> length ?ps" by auto
    from store_demand_returns [OF pol ctx dem ps this(1)] show ?thesis
    proof (elim disjE exE conjE)
      fix a
      assume r: "store_demand pol (ac_active_usage ctx) demanded ?ps = Inr a"
        and safe: "safe_integer (sa_required a)" "safe_integer (sa_active a)" "safe_integer (sa_reserve a)"
          "safe_integer (sa_available a)" "safe_integer (sa_total a)"
      from store_evaluation_valid [OF dom d store len safe] r safe show ?thesis
        by (simp add: evaluate_store_def Let_def returns_ebind iv token_eval)
    next
      fix msg
      assume "store_demand pol (ac_active_usage ctx) demanded ?ps = Inl (OverflowError msg)"
      then show ?thesis by (simp add: evaluate_store_def Let_def returns_ebind iv token_eval)
    qed
  qed
qed

text \<open>A store yields no evaluation or one that carries its name.\<close>

lemma evaluate_store_result:
  assumes "evaluate_store pol usage demanded pools store s = Inr (bs, t)"
  shows "bs = [] \<or> (\<exists>b. bs = [b] \<and> bs_backing_store b = store)"
  using assms
  by (auto simp: evaluate_store_def Let_def store_evaluation_def split: if_splits sum.splits exc.splits)

lemma evaluate_store_passes:
  assumes "evaluate_store pol usage demanded pools store [] = Inr (bs, [])" and "b \<in> set bs"
  shows "bs_status b = ''pass''"
  using assms
  by (auto simp: evaluate_store_def Let_def store_evaluation_def emitted split: if_splits sum.splits exc.splits)

lemma concat_store_names_distinct:
  assumes "list_all2 (\<lambda>store bs. bs = [] \<or> (\<exists>b. bs = [b] \<and> bs_backing_store b = store)) stores bss"
    and "distinct stores"
  shows "distinct (map bs_backing_store (concat bss)) \<and>
     (\<forall>bs \<in> set bss. \<forall>b \<in> set bs. bs_backing_store b \<in> set stores)"
  using assms
  by (induction rule: list_all2_induct) auto

end
