(* ===== verification/Admission_Examples.thy ===== *)
theory Admission_Examples
  imports Admission_Soundness
begin

text \<open>
  A small concrete machine, policy and plan, on which the admission theorems are applied: two
  disk pools on one backing store, one CPU pool, a verified provider and one capability.
\<close>

definition ex_estimate :: "string \<Rightarrow> string \<Rightarrow> int \<Rightarrow> int \<Rightarrow> string \<Rightarrow> resource_estimate" where
  "ex_estimate name kind expected bound confidence =
     \<lparr>re_name = name, re_pool_kind = kind, re_unit = ''bytes'', re_expected = Some expected,
      re_upper_bound = Some bound, re_confidence = confidence, re_source = ''provider-plan'',
      re_diagnostic = None\<rparr>"

definition ex_plan :: workload_resource_plan where
  "ex_plan = \<lparr>wp_operation_kind = ''campaign'',
     wp_operation_id = ''rcid:v1:campaign:u7:019ff82c-9517-76fb-a67d-c461e9145384'',
     wp_estimates = [ex_estimate ''cache-bytes'' ''environment_cache'' 1000 2000 ''estimated'',
                     ex_estimate ''scratch-bytes'' ''build_scratch'' 300 300 ''known''],
     wp_transfers = [], wp_provider_name = Some ''native'', wp_provider_strategy = Some ''source-build'',
     wp_required_capabilities = [''cgroups''], wp_eligible_trust_classes = [''development''],
     wp_requested_concurrency = 2, wp_mutation_permitted = False\<rparr>"

definition ex_margin :: "string \<Rightarrow> int \<Rightarrow> confidence_margin" where
  "ex_margin c b = \<lparr>cm_confidence = c, cm_basis_points = b\<rparr>"

definition ex_policy :: admission_policy where
  "ex_policy = \<lparr>ap_confidence_margins =
       [ex_margin ''known'' 0, ex_margin ''measured'' 500, ex_margin ''estimated'' 2500, ex_margin ''bounded'' 0],
     ap_pool_reserves = [\<lparr>sr_pool_kind = ''environment_cache'', sr_minimum_units = 100,
                           sr_capacity_basis_points = 1000\<rparr>],
     ap_max_concurrency = 4, ap_inventory_max_age_seconds = 60\<rparr>"

definition ex_pool :: "string \<Rightarrow> string \<Rightarrow> int option \<Rightarrow> int option \<Rightarrow> string option \<Rightarrow> resource_pool" where
  "ex_pool kind u capacity available store =
     \<lparr>rp_kind = kind, rp_unit = u, rp_status = ''partial'', rp_capacity = capacity, rp_used = None,
      rp_reserved = 0, rp_available = available, rp_source = ''statvfs'', rp_accuracy = ''exact'',
      rp_visibility = ''host'', rp_observed_at = Aware 1000000000, rp_staleness_seconds = 0,
      rp_configured_path = None, rp_observed_path = None, rp_backing_store = store, rp_diagnostic = None\<rparr>"

definition ex_provider :: provider_capability where
  "ex_provider = \<lparr>pc_name = ''native'', pc_availability = ''available'', pc_strategies = [''source-build''],
     pc_source = ''probe'', pc_observed_at = Aware 1000000000, pc_accuracy = ''exact'',
     pc_visibility = ''process'', pc_staleness_seconds = 0, pc_executable = None, pc_diagnostic = None\<rparr>"

definition ex_capability :: capability where
  "ex_capability = \<lparr>cap_name = ''cgroups'', cap_status = ''supported'', cap_source = ''probe'',
     cap_observed_at = Aware 1000000000, cap_value = JNull, cap_diagnostic = None, cap_accuracy = ''exact'',
     cap_visibility = ''process'', cap_staleness_seconds = 0\<rparr>"

definition ex_report :: "resource_pool list \<Rightarrow> doctor_report" where
  "ex_report pools = \<lparr>dr_status = ''healthy'', dr_observed_at = Aware 1000000000,
     dr_valid_until = Aware 1060000000,
     dr_machine = \<lparr>mi_os_family = ''linux'', mi_os_name = ''Linux'', mi_os_release = ''6.1'',
       mi_architecture = ''x86-64'', mi_architecture_raw = ''x86_64'',
       mi_python_implementation = ''CPython'', mi_python_version = ''3.12.3''\<rparr>,
     dr_trust = \<lparr>tr_trust_class = ''development'', tr_source = ''cli'', tr_configured = True\<rparr>,
     dr_resources = pools, dr_providers = [ex_provider], dr_capabilities = [ex_capability],
     dr_safety_configuration = \<lparr>sc_inventory_only = True, sc_mutation_permitted = False,
       sc_inventory_max_age_seconds = 60, sc_configured_pool_paths = []\<rparr>,
     dr_diagnostics = []\<rparr>"

definition ex_pools :: "resource_pool list" where
  "ex_pools = [ex_pool ''environment_cache'' ''bytes'' (Some 10000) (Some 9000) (Some ''disk0''),
     ex_pool ''build_scratch'' ''bytes'' (Some 10000) (Some 8000) (Some ''disk0''),
     ex_pool ''cpu'' ''logical_cpu'' (Some 8) (Some 8) None]"

definition ex_planner :: planner where
  "ex_planner = \<lparr>pl_policy = ex_policy, pl_clock = Aware 1030000000,
     pl_new_reservation_id = Inr ''opid:v1:resource-reservation:u7:019ff82c-9517-76fb-a67d-c461e9145384'',
     pl_calibrator = None\<rparr>"

definition ex_context :: admission_context where
  "ex_context = \<lparr>ac_active_concurrency = 1,
     ac_active_usage = [\<lparr>au_pool_kind = ''build_scratch'', au_unit = ''bytes'', au_amount = 500\<rparr>]\<rparr>"

lemma ex_run: "\<exists>report. evaluate ex_planner ex_plan (ex_report ex_pools) ex_context ''preflight'' = Inr report \<and>
    rr_outcome report = ''admitted''"
proof -
  have "case evaluate ex_planner ex_plan (ex_report ex_pools) ex_context ''preflight'' of
      Inr report \<Rightarrow> rr_outcome report = ''admitted'' | Inl _ \<Rightarrow> False"
    by code_simp
  then show ?thesis by (simp split: sum.splits)
qed

end
