(* ===== verification/Admission_Properties.thy ===== *)
theory Admission_Properties
  imports Admission_Totality Admission_Examples
begin

text \<open>
  What an admission run guarantees as a whole: it returns a report on every inventory of its
  domain, the report's outcome is determined by its issues, an admitted report passed every
  guard, and the decision derived from a report binds exactly one planned environment
  transaction.
\<close>

section \<open>Reports on every branch\<close>

text \<open>The stages of any run that returns.\<close>

lemma evaluate_resources_stages:
  assumes "evaluate_resources pol plan inventory ctx now = Inr (evs, stores, issues)"
  obtains i1 i2 i3 bss where
    "traverseE (evaluate_pool pol now (ac_active_usage ctx) (pools_by_kind (dr_resources inventory)) (wp_estimates plan))
       (sort (remdups (map re_pool_kind (wp_estimates plan)))) i1 = Inr (evs, i2)"
    "traverseE (evaluate_store pol (ac_active_usage ctx) (filter (\<lambda>e. is_disk (ev_unit e) (ev_pool_kind e)) evs)
       (pools_by_kind (dr_resources inventory))) (store_names (pools_by_kind (dr_resources inventory))) i3
       = Inr (bss, issues)"
    "stores = concat bss"
  using assms unfolding evaluate_resources_def pool_map_def evaluate_backing_stores_def Let_def ebind_eq_Inr
  by (force intro: that)

lemma evaluated_kinds:
  assumes "evaluate_resources pol plan inventory ctx now = Inr (evs, stores, issues)"
  shows "map ev_pool_kind evs = sort (remdups (map re_pool_kind (wp_estimates plan)))"
proof -
  from evaluate_resources_stages [OF assms] obtain i1 i2 where
    "traverseE (evaluate_pool pol now (ac_active_usage ctx) (pools_by_kind (dr_resources inventory)) (wp_estimates plan))
       (sort (remdups (map re_pool_kind (wp_estimates plan)))) i1 = Inr (evs, i2)" by metis
  from pool_stage.traverse_results [OF this, of "\<lambda>kind ev. ev_pool_kind ev = kind"] evaluate_pool_result
  have "list_all2 (\<lambda>kind ev. ev_pool_kind ev = kind) (sort (remdups (map re_pool_kind (wp_estimates plan)))) evs"
    by blast
  then show ?thesis by (rule list_all2_map_back)
qed

lemma evaluated_stores_distinct:
  assumes "evaluate_resources pol plan inventory ctx now = Inr (evs, stores, issues)"
  shows "distinct (map bs_backing_store stores)"
proof -
  let ?pools = "pools_by_kind (dr_resources inventory)"
  from evaluate_resources_stages [OF assms] obtain i3 bss where
    t: "traverseE (evaluate_store pol (ac_active_usage ctx) (filter (\<lambda>e. is_disk (ev_unit e) (ev_pool_kind e)) evs)
       ?pools) (store_names ?pools) i3 = Inr (bss, issues)" and "stores = concat bss" by metis
  moreover have "list_all2 (\<lambda>store bs. bs = [] \<or> (\<exists>b. bs = [b] \<and> bs_backing_store b = store)) (store_names ?pools) bss"
    by (rule store_stage.traverse_results [OF t]) (rule evaluate_store_result)
  moreover have "distinct (store_names ?pools)" by (simp add: store_names_def)
  ultimately show ?thesis using concat_store_names_distinct by blast
qed

text \<open>
  A run without issues leaves only passing evaluations, whenever the pools are in the domain.
\<close>

lemma clean_run_passes:
  assumes run: "evaluate_resources pol plan inventory ctx now = Inr (evs, stores, [])"
    and pol: "policy_constructed pol" and plan: "plan_constructed plan"
    and dom: "\<forall>p \<in> set (dr_resources inventory). pool_in_domain p"
  shows "\<forall>e \<in> set evs. ev_status e = ''pass''" and "\<forall>b \<in> set stores. bs_status b = ''pass''"
proof -
  let ?pools = "pools_by_kind (dr_resources inventory)"
  have eq: "?pools = dr_resources inventory"
    by (rule pools_by_kind_distinct [OF evaluate_resources_empty(2) [OF run]])
  show "\<forall>e \<in> set evs. ev_status e = ''pass''"
  proof
    fix e assume "e \<in> set evs"
    from list_all2_memberD2 [OF evaluate_resources_empty(3) [OF run] this] obtain kind where
      "evaluate_pool pol now (ac_active_usage ctx) ?pools (wp_estimates plan) kind [] = Inr (e, [])" by blast
    then show "ev_status e = ''pass''" unfolding eq by (rule evaluate_pool_passes [OF _ pol plan dom])
  qed
  from evaluate_resources_stages [OF run] obtain i3 bss where
    t: "traverseE (evaluate_store pol (ac_active_usage ctx) (filter (\<lambda>e. is_disk (ev_unit e) (ev_pool_kind e)) evs)
       ?pools) (store_names ?pools) i3 = Inr (bss, [])" and st: "stores = concat bss" by metis
  show "\<forall>b \<in> set stores. bs_status b = ''pass''"
  proof
    fix b assume "b \<in> set stores"
    with st obtain bs where bs: "bs \<in> set bss" "b \<in> set bs" by auto
    from list_all2_memberD2 [OF store_stage.traverse_empty [OF t, THEN conjunct2] bs(1)] bs(2)
    show "bs_status b = ''pass''" using evaluate_store_passes by blast
  qed
qed

section \<open>Totality\<close>

lemma pools_by_kind_facts:
  "set (pools_by_kind ps) \<subseteq> set ps" "distinct (map rp_kind (pools_by_kind ps))"
  by (induction ps) (auto simp: distinct_map_filter)

lemma store_names_nonempty: "store \<in> set (store_names pools) \<Longrightarrow> store \<noteq> []"
  by (auto simp: store_names_def split: option.splits if_splits)

lemma evaluate_resources_returns:
  assumes pol: "policy_constructed pol" and plan: "plan_constructed plan" and ctx: "context_constructed ctx"
    and dom: "\<forall>p \<in> set (dr_resources inventory). pool_in_domain p"
  shows "returns (evaluate_resources pol plan inventory ctx now)"
proof -
  let ?pools = "pools_by_kind (dr_resources inventory)" and ?usage = "ac_active_usage ctx"
  let ?kinds = "sort (remdups (map re_pool_kind (wp_estimates plan)))"
  have pdom: "\<forall>p \<in> set ?pools. pool_in_domain p" using dom pools_by_kind_facts(1) by blast
  have ambiguous: "returns (pool_map inventory s)" for s
    unfolding pool_map_def Let_def
    by (intro returns_ebindI) (auto intro: plain_issue_valid simp: token_eval)
  have pools: "returns (traverseE (evaluate_pool pol now ?usage ?pools (wp_estimates plan)) ?kinds s)" for s
    by (rule returns_traverseE) (auto intro!: evaluate_pool_returns [OF pol plan ctx pdom])
  have stores: "returns (evaluate_backing_stores pol evs ?pools ?usage s)"
    if "traverseE (evaluate_pool pol now ?usage ?pools (wp_estimates plan)) ?kinds s0 = Inr (evs, t)" for evs s s0 t
  proof -
    from pool_stage.traverse_results [OF that, of "\<lambda>_ ev. resource_evaluation_post_init ev = None"] evaluate_pool_result
    have "list_all2 (\<lambda>_ ev. resource_evaluation_post_init ev = None) ?kinds evs" by blast
    from list_all2_memberD2 [OF this] have "\<forall>e \<in> set evs. safe_amount (ev_required e)"
      by (force simp: resource_evaluation_post_init_def validates)
    then have dem: "\<forall>e \<in> set (filter (\<lambda>e. is_disk (ev_unit e) (ev_pool_kind e)) evs). safe_amount (ev_required e)"
      by simp
    have st: "\<forall>x \<in> set (store_names ?pools). \<forall>s. returns (evaluate_store pol ?usage
        (filter (\<lambda>e. is_disk (ev_unit e) (ev_pool_kind e)) evs) ?pools x s)"
      using evaluate_store_returns [OF pol ctx dem pdom pools_by_kind_facts(2)] store_names_nonempty by blast
    show ?thesis unfolding evaluate_backing_stores_def Let_def
      by (intro returns_ebindI returns_traverseE st) (auto intro: plain_issue_valid simp: token_eval split: prod.split)
  qed
  show ?thesis unfolding evaluate_resources_def
  proof (rule returns_ebindI)
    show "returns (evaluate_guards pol plan inventory ctx now [])"
      by (rule evaluate_guards_returns [OF dom pol ctx plan])
  next
    fix i0 assume "evaluate_guards pol plan inventory ctx now [] = Inr i0"
    from ambiguous [of i0] obtain i1 where m: "pool_map inventory i0 = Inr (?pools, i1)"
      by (auto simp: returns_def pool_map_def Let_def)
    from pools [of i1] obtain evs i2 where
      t: "traverseE (evaluate_pool pol now ?usage ?pools (wp_estimates plan)) ?kinds i1 = Inr (evs, i2)"
      by (auto simp: returns_def)
    from stores [OF t, of i2] obtain st i3 where "evaluate_backing_stores pol evs ?pools ?usage i2 = Inr (st, i3)"
      by (auto simp: returns_def)
    with t show "returns (ebind (pool_map inventory i0) (\<lambda>(pools, issues).
        ebind (traverseE (evaluate_pool pol now ?usage pools (wp_estimates plan)) ?kinds issues) (\<lambda>(evaluations, issues).
        ebind (evaluate_backing_stores pol evaluations pools ?usage issues)
          (\<lambda>(stores, issues). Inr (evaluations, stores, issues)))))"
      unfolding m by simp
  qed
qed

text \<open>
  C3. Admission is total on its domain: for a constructed policy, plan and context, an
  inventory whose pools are registered, in the safe-integer range and accounted for, a clock
  with a UTC offset and a well-formed reservation identifier, the evaluation returns a report
  and never raises, whatever the amounts, overflows and missing observations are.
\<close>

theorem evaluate_total:
  assumes pol: "policy_constructed (pl_policy pl)" and plan: "plan_constructed plan" and ctx: "context_constructed ctx"
    and inv: "doctor_report_constructed inventory"
    and dom: "\<forall>p \<in> set (dr_resources inventory). pool_in_domain p"
    and clock: "pl_clock pl = Aware now"
    and rid: "pl_new_reservation_id pl = Inr rid" "is_opid ''resource-reservation'' rid"
    and stage: "stage \<in> {''preflight'', ''dynamic''}"
  shows "\<exists>report. evaluate pl plan inventory ctx stage = Inr report"
proof -
  from evaluate_resources_returns [OF pol plan ctx dom, of now] obtain evs stores issues where
    run: "evaluate_resources (pl_policy pl) plan inventory ctx now = Inr (evs, stores, issues)"
    by (auto simp: returns_def)
  from evaluated_kinds [OF run] have kinds: "distinct (map ev_pool_kind evs)"
    "set (map ev_pool_kind evs) = set (map re_pool_kind (wp_estimates plan))"
    by simp_all
  have passes: "issues = [] \<Longrightarrow> (\<forall>e \<in> set evs. ev_status e = ''pass'') \<and> (\<forall>b \<in> set stores. bs_status b = ''pass'')"
    using clean_run_passes [OF _ pol plan dom] run by blast
  have time: "require_timestamp (dr_observed_at inventory) = None"
    using inv by (simp add: doctor_report_constructed_def doctor_report_post_init_def)
  let ?report = "\<lparr>rr_reservation_id = rid, rr_stage = stage, rr_outcome = admission_outcome stage issues,
    rr_observed_at = Aware (now div 1000 * 1000), rr_inventory_observed_at = dr_observed_at inventory, rr_plan = plan,
    rr_policy = pl_policy pl, rr_context = ctx, rr_resource_evaluations = evs, rr_backing_store_evaluations = stores,
    rr_issues = issues, rr_mutation_permitted = False\<rparr>"
  have "admission_report_post_init ?report = None"
    using kinds evaluated_stores_distinct [OF run] passes time rid(2) stage
    by (auto simp: admission_report_post_init_def validates admission_outcome_def ADMISSION_STAGES_def
        ADMISSION_OUTCOMES_def)
  with run clock rid(1) show ?thesis by (auto simp: evaluate_def rfc3339_def)
qed

section \<open>Guards of an admitted report\<close>

lemma guards_empty:
  assumes "evaluate_guards pol plan inventory ctx now [] = Inr []"
  shows "evaluate_inventory pol now inventory [] = Inr []" "evaluate_trust plan inventory [] = Inr []"
    "evaluate_provider pol plan inventory now [] = Inr []" "evaluate_capabilities pol plan inventory now [] = Inr []"
    "evaluate_concurrency pol plan inventory ctx now [] = Inr []"
proof -
  from assms obtain i1 i2 i3 i4 where r: "evaluate_inventory pol now inventory [] = Inr i1"
    "evaluate_trust plan inventory i1 = Inr i2" "evaluate_provider pol plan inventory now i2 = Inr i3"
    "evaluate_capabilities pol plan inventory now i3 = Inr i4" "evaluate_concurrency pol plan inventory ctx now i4 = Inr []"
    by (auto simp: evaluate_guards_def)
  note e4 = concurrency_stage.empty_result [OF r(5)]
  note e3 = capabilities_stage.empty_result [OF r(4) [unfolded e4]]
  note e2 = provider_stage.empty_result [OF r(3) [unfolded e3]]
  note e1 = trust_stage.empty_result [OF r(2) [unfolded e2]]
  show "evaluate_inventory pol now inventory [] = Inr []" "evaluate_trust plan inventory [] = Inr []"
    "evaluate_provider pol plan inventory now [] = Inr []" "evaluate_capabilities pol plan inventory now [] = Inr []"
    "evaluate_concurrency pol plan inventory ctx now [] = Inr []"
    using r e1 e2 e3 e4 by simp_all
qed

lemma provider_guard:
  assumes "evaluate_provider pol plan inventory now [] = Inr []" and "wp_provider_name plan = Some name"
  shows "\<exists>c s. filter (\<lambda>c. pc_name c = name) (dr_providers inventory) = [c] \<and> pc_accuracy c = ''exact'' \<and>
     pc_availability c = ''available'' \<and> wp_provider_strategy plan = Some s \<and> s \<in> set (pc_strategies c) \<and>
     observation_problem now (pc_observed_at c) (pc_staleness_seconds c) (ap_inventory_max_age_seconds pol) = None"
proof -
  obtain c where c: "filter (\<lambda>c. pc_name c = name) (dr_providers inventory) = [c]"
    using assms by (auto simp: evaluate_provider_def emitted split: list.splits)
  with assms show ?thesis
    by (auto simp: evaluate_provider_def emitted split: option.splits)
qed

lemma capability_loop_empty:
  assumes "foldE (evaluate_capability pol inventory now) names s = Inr []" and "name \<in> set names"
  shows "s = [] \<and> evaluate_capability pol inventory now name [] = Inr []"
  using assms
proof (induction names arbitrary: s)
  case (Cons n names)
  then obtain t where step: "evaluate_capability pol inventory now n s = Inr t"
    and rest: "foldE (evaluate_capability pol inventory now) names t = Inr []" by auto
  from capability_loop_appends [OF rest] have t: "t = []" by simp
  with capability_stage.empty_result step have "s = []" by blast
  with Cons t step rest show ?case by auto
qed simp

lemma capability_guard:
  assumes "evaluate_capabilities pol plan inventory now [] = Inr []" and "name \<in> set (wp_required_capabilities plan)"
  shows "\<exists>c. find (\<lambda>c. cap_name c = name) (dr_capabilities inventory) = Some c \<and> cap_status c = ''supported'' \<and>
     cap_accuracy c = ''exact'' \<and>
     observation_problem now (cap_observed_at c) (cap_staleness_seconds c) (ap_inventory_max_age_seconds pol) = None"
proof -
  from assms have "foldE (evaluate_capability pol inventory now) (sort (wp_required_capabilities plan)) [] = Inr []"
    by (auto simp: evaluate_capabilities_def Let_def emitted split: if_splits)
  from capability_loop_empty [OF this, of name] assms(2) have "evaluate_capability pol inventory now name [] = Inr []"
    by simp
  then show ?thesis by (auto simp: evaluate_capability_def emitted split: option.splits if_splits)
qed

lemma concurrency_guard:
  assumes "evaluate_concurrency pol plan inventory ctx now [] = Inr []"
  shows "\<exists>cpu n. find (\<lambda>p. rp_kind p = ''cpu'') (dr_resources inventory) = Some cpu \<and> rp_capacity cpu = Some n \<and>
     ac_active_concurrency ctx + wp_requested_concurrency plan \<le> min n (ap_max_concurrency pol)"
proof -
  let ?n = "ac_active_concurrency ctx + wp_requested_concurrency plan"
  from assms obtain i where lim: "issue_if (?n > ap_max_concurrency pol)
      (issue ''concurrency-limit-reached'' ''concurrency'' True (Some ''cpu'') (Some ?n)
         (Some (max 0 (ap_max_concurrency pol - ac_active_concurrency ctx)))) [] = Inr i"
    and cpu: "evaluate_cpu pol inventory ctx now ?n i = Inr []"
    by (auto simp: evaluate_concurrency_def emitted safe_sum_def Let_def split: if_splits)
  from cpu_stage.empty_result [OF cpu] have i: "i = []" .
  with lim have "?n \<le> ap_max_concurrency pol" by (auto simp: emitted)
  moreover from cpu i have "\<exists>cpu n. find (\<lambda>p. rp_kind p = ''cpu'') (dr_resources inventory) = Some cpu \<and>
      rp_capacity cpu = Some n \<and> ?n \<le> n"
    by (auto simp: evaluate_cpu_def emitted split: option.splits if_splits)
  ultimately show ?thesis by auto
qed

text \<open>
  C4. An admitted report passed every guard: the inventory is neither from the future nor
  stale nor unsupported, the machine's trust class is configured and eligible, a named
  provider is the only one of its name, exactly verified as available and offers the
  requested strategy, every required capability is supported and exactly and freshly
  observed, and the active plus the requested concurrency fit both the policy limit and the
  number of logical CPUs.
\<close>

theorem admitted_passed_guards:
  assumes run: "evaluate pl plan inventory ctx stage = Inr report" and adm: "rr_outcome report = ''admitted''"
    and clock: "pl_clock pl = Aware now"
  defines "age \<equiv> ap_inventory_max_age_seconds (pl_policy pl)"
  shows "instant (dr_observed_at inventory) \<le> now \<and> now \<le> instant (dr_valid_until inventory) \<and>
     now - instant (dr_observed_at inventory) \<le> age * 1000000 \<and> dr_status inventory \<noteq> ''unsupported'' \<and>
     tr_configured (dr_trust inventory) \<and> tr_trust_class (dr_trust inventory) \<in> set (wp_eligible_trust_classes plan) \<and>
     (\<forall>name. wp_provider_name plan = Some name \<longrightarrow>
        (\<exists>c s. filter (\<lambda>c. pc_name c = name) (dr_providers inventory) = [c] \<and> pc_accuracy c = ''exact'' \<and>
           pc_availability c = ''available'' \<and> wp_provider_strategy plan = Some s \<and> s \<in> set (pc_strategies c) \<and>
           observation_problem now (pc_observed_at c) (pc_staleness_seconds c) age = None)) \<and>
     (\<forall>name \<in> set (wp_required_capabilities plan).
        \<exists>c. find (\<lambda>c. cap_name c = name) (dr_capabilities inventory) = Some c \<and> cap_status c = ''supported'' \<and>
           cap_accuracy c = ''exact'' \<and>
           observation_problem now (cap_observed_at c) (cap_staleness_seconds c) age = None) \<and>
     (\<exists>cpu n. find (\<lambda>p. rp_kind p = ''cpu'') (dr_resources inventory) = Some cpu \<and> rp_capacity cpu = Some n \<and>
        ac_active_concurrency ctx + wp_requested_concurrency plan \<le> min n (ap_max_concurrency (pl_policy pl)))"
proof -
  from evaluate_Inr [OF run] clock have
    "evaluate_resources (pl_policy pl) plan inventory ctx now =
       Inr (rr_resource_evaluations report, rr_backing_store_evaluations report, rr_issues report)"
    and "rr_outcome report = admission_outcome stage (rr_issues report)"
    by (metis timestamp.inject(1))+
  with adm have "evaluate_guards (pl_policy pl) plan inventory ctx now [] = Inr []"
    using evaluate_resources_empty(1) by (metis admission_outcome_admitted)
  note g = guards_empty [OF this]
  from g(1) have "instant (dr_observed_at inventory) \<le> now \<and> now \<le> instant (dr_valid_until inventory) \<and>
     now - instant (dr_observed_at inventory) \<le> age * 1000000 \<and> dr_status inventory \<noteq> ''unsupported''"
    by (auto simp: evaluate_inventory_def emitted age_def)
  moreover from g(2) have "tr_configured (dr_trust inventory) \<and>
      tr_trust_class (dr_trust inventory) \<in> set (wp_eligible_trust_classes plan)"
    by (auto simp: evaluate_trust_def emitted)
  ultimately show ?thesis
    using provider_guard [OF g(3)] capability_guard [OF g(4)] concurrency_guard [OF g(5)]
    unfolding age_def by blast
qed

section \<open>Classification of issues\<close>

text \<open>The issues that waiting for a release of resources can cure.\<close>

definition SHORTAGE_CODES :: "string list" where
  "SHORTAGE_CODES = [''concurrency-limit-reached'', ''cpu-capacity-exceeded'', ''resource-capacity-insufficient'',
     ''backing-store-capacity-insufficient'']"

definition classified :: "admission_issue \<Rightarrow> bool" where
  "classified i \<longleftrightarrow> (is_recoverable i \<longleftrightarrow> is_code i \<in> set SHORTAGE_CODES) \<and>
     (is_recoverable i \<longrightarrow> (\<exists>r v. is_required i = Some r \<and> is_available i = Some v))"

text \<open>A stage that keeps every issue of its list classified.\<close>

locale classifying_stage =
  fixes stage :: "admission_issue list \<Rightarrow> admission_issue list result"
  assumes classifies: "stage s = Inr t \<Longrightarrow> list_all classified s \<Longrightarrow> list_all classified t"
begin

lemma from_empty: "stage [] = Inr t \<Longrightarrow> i \<in> set t \<Longrightarrow> classified i"
  using classifies [of "[]" t] by (auto simp: list_all_iff)

end

lemma add_issue_classified:
  "add_issue i s = Inr t \<Longrightarrow> classified i \<Longrightarrow> list_all classified s \<Longrightarrow> list_all classified t"
  by (auto simp: add_issue_Inr)

lemma issue_if_classified:
  "issue_if b i s = Inr t \<Longrightarrow> (b \<Longrightarrow> classified i) \<Longrightarrow> list_all classified s \<Longrightarrow> list_all classified t"
  by (auto simp: issue_if_Inr split: if_splits)

lemma blocking_classified:
  "code \<notin> set SHORTAGE_CODES \<Longrightarrow> classified (issue code cat False kind r v)"
  by (simp add: classified_def issue_def)

lemma shortage_classified:
  "code \<in> set SHORTAGE_CODES \<Longrightarrow> classified (issue code cat True kind (Some r) (Some v))"
  by (simp add: classified_def issue_def)

lemmas classify = add_issue_classified issue_if_classified blocking_classified shortage_classified

lemma seqE_classified:
  assumes "\<And>f s t. f \<in> set fs \<Longrightarrow> f s = Inr t \<Longrightarrow> list_all classified s \<Longrightarrow> list_all classified t"
    and "seqE fs s = Inr t" and "list_all classified s"
  shows "list_all classified t"
  using assms by (induction fs arbitrary: s) auto

interpretation inventory_class: classifying_stage "evaluate_inventory pol now inventory" for pol now inventory
  unfolding evaluate_inventory_def
  by unfold_locales (erule seqE_classified [rotated], auto elim!: classify simp: SHORTAGE_CODES_def intro!: blocking_classified)

interpretation trust_class: classifying_stage "evaluate_trust plan inventory" for plan inventory
  unfolding evaluate_trust_def
  by unfold_locales (erule seqE_classified [rotated], auto elim!: classify simp: SHORTAGE_CODES_def intro!: blocking_classified)

lemma observation_codes:
  "observation_problem now t staleness age = Some q \<Longrightarrow> pre @ q \<notin> set SHORTAGE_CODES"
  if "pre \<in> {''provider-inventory-'', ''capability-inventory-'', ''resource-pool-''}"
  using that by (auto simp: observation_problem_def Let_def SHORTAGE_CODES_def split: if_splits)

lemma problem_classified:
  assumes "(case observation_problem now t staleness age of None \<Rightarrow> Inr s
      | Some q \<Rightarrow> add_issue (issue (pre @ q) cat False kind r v) s) = Inr u"
    and "list_all classified s" and "pre \<in> {''provider-inventory-'', ''capability-inventory-'', ''resource-pool-''}"
  shows "list_all classified u"
  using assms observation_codes [OF assms(3)]
  by (auto split: option.splits elim!: add_issue_classified intro!: blocking_classified)

interpretation provider_class: classifying_stage "evaluate_provider pol plan inventory now" for pol plan inventory now
proof
  fix s t
  assume r: "evaluate_provider pol plan inventory now s = Inr t" and s: "list_all classified s"
  show "list_all classified t"
  proof (cases "\<exists>name c. wp_provider_name plan = Some name \<and> filter (\<lambda>c. pc_name c = name) (dr_providers inventory) = [c]")
    case False
    with r s show ?thesis
      by (auto simp: evaluate_provider_def SHORTAGE_CODES_def split: option.splits list.splits
          elim!: add_issue_classified intro!: blocking_classified)
  next
    case True
    then obtain name c where c: "wp_provider_name plan = Some name"
      "filter (\<lambda>c. pc_name c = name) (dr_providers inventory) = [c]" by blast
    have first: "list_all classified b" if
      "(case observation_problem now (pc_observed_at c) (pc_staleness_seconds c) (ap_inventory_max_age_seconds pol) of
          None \<Rightarrow> Inr | Some q \<Rightarrow> add_issue (issue (''provider-inventory-'' @ q) ''provider'' False None None None)) a = Inr b"
      "list_all classified a" for a b
      using that problem_classified [where now = now and t = "pc_observed_at c" and
          staleness = "pc_staleness_seconds c" and age = "ap_inventory_max_age_seconds pol" and s = a and u = b and
          pre = "''provider-inventory-''" and cat = "''provider''" and kind = None and r = None and v = None]
      by (cases "observation_problem now (pc_observed_at c) (pc_staleness_seconds c) (ap_inventory_max_age_seconds pol)")
        simp_all
    from r s show ?thesis unfolding evaluate_provider_def c option.case list.case
      by (elim seqE_classified [rotated])
        (auto dest: first elim!: issue_if_classified simp: SHORTAGE_CODES_def intro!: blocking_classified)
  qed
qed

interpretation capability_class: classifying_stage "evaluate_capability pol inventory now name" for pol inventory now name
proof
  fix s t
  assume r: "evaluate_capability pol inventory now name s = Inr t" and s: "list_all classified s"
  have direct: "list_all classified t" if "add_issue (issue code cat False None None None) s = Inr t"
    "code \<in> {''required-capability-unavailable'', ''required-capability-ambiguous''}" for code cat
    using that s by (auto elim!: add_issue_classified intro!: blocking_classified simp: SHORTAGE_CODES_def)
  show "list_all classified t"
  proof (cases "find (\<lambda>c. cap_name c = name) (dr_capabilities inventory)")
    case None
    with r show ?thesis unfolding evaluate_capability_def by (auto intro: direct)
  next
    case (Some c)
    show ?thesis
    proof (cases "cap_status c = ''supported'' \<and> cap_accuracy c = ''exact''")
      case True
      with r Some s problem_classified [where now = now and t = "cap_observed_at c" and
          staleness = "cap_staleness_seconds c" and age = "ap_inventory_max_age_seconds pol" and s = s and u = t and
          pre = "''capability-inventory-''" and cat = "''capability''" and kind = None and r = None and v = None]
      show ?thesis by (simp add: evaluate_capability_def)
    next
      case False
      with r Some show ?thesis unfolding evaluate_capability_def by (auto intro: direct split: if_splits)
    qed
  qed
qed

interpretation capabilities_class: classifying_stage "evaluate_capabilities pol plan inventory now"
  for pol plan inventory now
proof
  fix s t
  assume r: "evaluate_capabilities pol plan inventory now s = Inr t" and s: "list_all classified s"
  then show "list_all classified t"
    unfolding evaluate_capabilities_def Let_def
    by (auto split: if_splits elim!: add_issue_classified intro!: blocking_classified simp: SHORTAGE_CODES_def
        elim: foldE_invariant [where I = "list_all classified"] dest: capability_class.classifies)
qed

interpretation concurrency_class: classifying_stage "evaluate_concurrency pol plan inventory ctx now"
  for pol plan inventory ctx now
proof
  fix s t
  assume r: "evaluate_concurrency pol plan inventory ctx now s = Inr t" and s: "list_all classified s"
  have cpu: "list_all classified v" if "evaluate_cpu pol inventory ctx now n u = Inr v" "list_all classified u" for n u v
    using that by (auto simp: evaluate_cpu_def SHORTAGE_CODES_def split: option.splits if_splits
        elim!: add_issue_classified issue_if_classified intro!: blocking_classified shortage_classified)
  show "list_all classified t"
  proof (cases "safe_sum [ac_active_concurrency ctx, wp_requested_concurrency plan]")
    case (Inl e)
    with r s show ?thesis
      by (auto simp: evaluate_concurrency_def SHORTAGE_CODES_def elim!: add_issue_classified intro!: blocking_classified)
  next
    case (Inr n)
    with r obtain u where "issue_if (n > ap_max_concurrency pol)
        (issue ''concurrency-limit-reached'' ''concurrency'' True (Some ''cpu'') (Some n)
           (Some (max 0 (ap_max_concurrency pol - ac_active_concurrency ctx)))) s = Inr u"
      and t: "evaluate_cpu pol inventory ctx now n u = Inr t"
      by (auto simp: evaluate_concurrency_def)
    from issue_if_classified [OF this(1) _ s] have "list_all classified u"
      by (simp add: shortage_classified SHORTAGE_CODES_def)
    then show ?thesis by (rule cpu [OF t])
  qed
qed

lemma present_pool_classified:
  assumes r: "evaluate_present_pool pol now kind u names active amounts pool s = Inr (ev, t)"
    and s: "list_all classified s"
  shows "list_all classified t"
proof -
  from r obtain i1 i2 i3 reserve where
    i: "issue_if (rp_unit pool \<noteq> u) (issue ''resource-pool-unit-mismatch'' ''inventory'' False (Some kind)
          (am_required amounts) (rp_available pool)) s = Inr i1"
      "(case observation_problem now (rp_observed_at pool) (rp_staleness_seconds pool)
          (ap_inventory_max_age_seconds pol) of None \<Rightarrow> Inr i1
        | Some q \<Rightarrow> add_issue (issue (''resource-pool-'' @ q) ''inventory'' False (Some kind)
             (am_required amounts) (rp_available pool)) i1) = Inr i2"
      "issue_if (rp_available pool = None \<or> rp_accuracy pool \<in> {''unknown'', ''bounded''})
          (issue ''resource-capacity-unknown'' ''resource'' False (Some kind) (am_required amounts) None) i2 = Inr i3"
      "issue_if (required_exceeds (am_required amounts) (usable_units (rp_available pool) reserve active))
          (issue ''resource-capacity-insufficient'' ''resource'' True (Some kind) (am_required amounts)
             (usable_units (rp_available pool) reserve active)) i3 = Inr t"
    unfolding evaluate_present_pool_def Let_def ebind_eq_Inr by blast
  have "list_all classified i1"
    by (rule issue_if_classified [OF i(1) _ s]) (simp add: blocking_classified SHORTAGE_CODES_def)
  from problem_classified [OF i(2) this] have "list_all classified i2" by simp
  from issue_if_classified [OF i(3) _ this] have c3: "list_all classified i3"
    by (simp add: blocking_classified SHORTAGE_CODES_def)
  show ?thesis
    by (rule issue_if_classified [OF i(4) _ c3])
      (auto simp: required_exceeds_def SHORTAGE_CODES_def split: option.splits intro!: shortage_classified)
qed

lemma pool_classified:
  assumes r: "evaluate_pool pol now usage pools ests kind s = Inr (ev, t)" and s: "list_all classified s"
  shows "list_all classified t"
proof -
  let ?es = "estimates_of ests kind"
  have plan: "list_all classified b" if "issue_if c (issue code cat False (Some kind) None None) a = Inr b"
    "list_all classified a" "code \<in> {''resource-estimate-unknown'', ''resource-estimate-unit-conflict'',
       ''active-resource-unit-conflict'', ''resource-plan-overflow''}" for a b c code cat
    using that by (auto elim!: issue_if_classified intro!: blocking_classified simp: SHORTAGE_CODES_def)
  from r obtain c1 c2 c3 i1 i2 i3 i4 ov am n where
    i: "issue_if c1 (issue ''resource-estimate-unknown'' ''plan'' False (Some kind) None None) s = Inr i1"
      "issue_if c2 (issue ''resource-estimate-unit-conflict'' ''plan'' False (Some kind) None None) i1 = Inr i2"
      "issue_if c3 (issue ''active-resource-unit-conflict'' ''plan'' False (Some kind) None None) i2 = Inr i3"
      "issue_if ov (issue ''resource-plan-overflow'' ''plan'' False (Some kind) None None) i3 = Inr i4"
      "case pool_lookup pools kind of
         None \<Rightarrow> add_issue (issue ''resource-pool-missing'' ''inventory'' False (Some kind) (am_required am) None) i4 = Inr t
       | Some pool \<Rightarrow> evaluate_present_pool pol now kind (re_unit (hd ?es)) (sort (map re_name ?es)) n am pool i4 = Inr (ev, t)"
    unfolding evaluate_pool_def Let_def seqE.simps ebind_eq_Inr
    by (cases "pool_lookup pools kind") force+
  from plan [OF i(1) s] plan [OF i(2)] plan [OF i(3)] plan [OF i(4)] have "list_all classified i4" by simp
  with i(5) show ?thesis
    by (auto split: option.splits elim!: add_issue_classified intro!: blocking_classified
        simp: SHORTAGE_CODES_def dest: present_pool_classified)
qed

lemma store_classified:
  assumes r: "evaluate_store pol usage demanded pools store s = Inr (bs, t)" and s: "list_all classified s"
  shows "list_all classified t"
proof (cases "store_demand pol usage demanded (store_pools pools store)")
  case (Inr a)
  with r s show ?thesis
    by (auto simp: evaluate_store_def Let_def SHORTAGE_CODES_def split: if_splits
        elim!: add_issue_classified issue_if_classified intro!: blocking_classified shortage_classified)
next
  case (Inl e)
  with r s show ?thesis
    by (cases e) (auto simp: evaluate_store_def Let_def SHORTAGE_CODES_def split: if_splits
        elim!: add_issue_classified intro!: blocking_classified)
qed

lemma guards_classified:
  assumes "evaluate_guards pol plan inventory ctx now s = Inr t" and "list_all classified s"
  shows "list_all classified t"
  using assms unfolding evaluate_guards_def
  by (elim seqE_classified [rotated])
    (auto dest: inventory_class.classifies trust_class.classifies provider_class.classifies
      capabilities_class.classifies concurrency_class.classifies)

lemma run_classified:
  assumes "evaluate_resources pol plan inventory ctx now = Inr (evs, stores, issues)"
  shows "list_all classified issues"
proof -
  let ?pools = "pools_by_kind (dr_resources inventory)" and ?usage = "ac_active_usage ctx"
  let ?disk = "filter (\<lambda>e. is_disk (ev_unit e) (ev_pool_kind e)) evs"
  from assms obtain i0 i1 i2 i3 bss c d where g: "evaluate_guards pol plan inventory ctx now [] = Inr i0"
    and m: "issue_if c (issue ''resource-pool-inventory-ambiguous'' ''inventory'' False None None None) i0 = Inr i1"
    and t: "traverseE (evaluate_pool pol now ?usage ?pools (wp_estimates plan))
        (sort (remdups (map re_pool_kind (wp_estimates plan)))) i1 = Inr (evs, i2)"
    and b: "issue_if d (issue ''backing-store-identity-unknown'' ''inventory'' False None None None) i2 = Inr i3"
    and u: "traverseE (evaluate_store pol ?usage ?disk ?pools) (store_names ?pools) i3 = Inr (bss, issues)"
    unfolding evaluate_resources_def pool_map_def evaluate_backing_stores_def Let_def ebind_eq_Inr by force
  from guards_classified [OF g] have "list_all classified i0" by simp
  with m have "list_all classified i1"
    by (elim issue_if_classified) (simp_all add: blocking_classified SHORTAGE_CODES_def)
  with t have "list_all classified i2"
    by (elim traverseE_invariant [where I = "list_all classified"]) (auto dest: pool_classified)
  with b have "list_all classified i3"
    by (elim issue_if_classified) (simp_all add: blocking_classified SHORTAGE_CODES_def)
  with u show ?thesis
    by (elim traverseE_invariant [where I = "list_all classified"]) (auto dest: store_classified)
qed

text \<open>
  C5. The outcome of a report is determined by its issues and the stage, and backpressure is
  only ever asked for shortages that a release of resources can cure: a report that asks the
  caller to wait lists nothing but concurrency, CPU, pool or backing-store shortages, each
  with the required and the available amount; any other issue drains a running workload, and
  a preflight never answers with backpressure or drain.
\<close>

theorem outcome_classification:
  assumes "evaluate pl plan inventory ctx stage = Inr report"
  shows "(rr_outcome report = ''admitted'' \<longleftrightarrow> rr_issues report = []) \<and>
     (stage = ''preflight'' \<longrightarrow> rr_outcome report \<in> {''admitted'', ''rejected''}) \<and>
     (stage = ''dynamic'' \<longrightarrow> rr_outcome report \<in> {''admitted'', ''backpressure'', ''drain''}) \<and>
     (rr_outcome report = ''backpressure'' \<longrightarrow>
        (\<forall>i \<in> set (rr_issues report). is_code i \<in> set SHORTAGE_CODES \<and>
           (\<exists>r v. is_required i = Some r \<and> is_available i = Some v))) \<and>
     (rr_outcome report = ''drain'' \<longrightarrow> (\<exists>i \<in> set (rr_issues report). is_code i \<notin> set SHORTAGE_CODES))"
proof -
  from evaluate_Inr [OF assms] obtain now where
    run: "evaluate_resources (pl_policy pl) plan inventory ctx now =
       Inr (rr_resource_evaluations report, rr_backing_store_evaluations report, rr_issues report)"
    and out: "rr_outcome report = admission_outcome stage (rr_issues report)" by metis
  from run_classified [OF run] have "\<forall>i \<in> set (rr_issues report). classified i" by (simp add: list_all_iff)
  then show ?thesis unfolding out
    by (auto simp: admission_outcome_def classified_def split: if_splits)
qed

end
