(* ===== verification/Admission_Decisions.thy ===== *)
theory Admission_Decisions
  imports Admission_Properties
begin

text \<open>
  From a planned environment to its admission decision: what the environment plan demands,
  what the decision binds, the documents of plans and policies, and one inventory on which
  the evaluation raises instead of rejecting. The last section applies the admission theorems
  to the example machine.
\<close>

section \<open>Environment plans and decisions\<close>

lemma is_opid_nonempty: "is_opid ns s \<Longrightarrow> s \<noteq> []"
  by (auto simp: is_opid_def)

lemma environment_plan_Inr:
  assumes "environment_plan pl record name conf extra caps trust = Inr plan" and "pl_calibrator pl = None"
  obtains pp where "lr_plan record = Some pp" "lr_state record = ''planned''" "workload_plan_post_init plan = None"
    "wp_operation_kind plan = ''environment''" "wp_operation_id plan = lr_transaction_id record"
    "wp_estimates plan =
       [provider_plan_estimate ''environment-download-cache'' ''environment_cache'' (pp_expected_download_bytes pp) conf,
        provider_plan_estimate ''environment-expanded-cache'' ''environment_cache'' (pp_expected_expanded_bytes pp) conf,
        provider_plan_estimate ''environment-build-scratch'' ''build_scratch'' (pp_expected_scratch_bytes pp) conf] @ extra"
  using assms
  by (auto simp: environment_plan_def workload_plan_def split: option.splits if_splits)

lemma environment_plan_identity:
  assumes "environment_plan pl record name conf extra caps trust = Inr plan"
  shows "lr_state record = ''planned''" "wp_operation_kind plan = ''environment''"
    "wp_operation_id plan = lr_transaction_id record"
  using assms by (auto simp: environment_plan_def workload_plan_def split: option.splits if_splits)

text \<open>
  A decision binds exactly what was planned and evaluated. When it exists, the record is
  planned, the report is a preflight of this planner's policy for this very environment
  transaction, the decision carries the report's reservation identifier, and it admits exactly
  when the report has no issue.
\<close>

theorem environment_decision_binds:
  assumes "environment_decision pl record report = Inr d" and "admission_report_post_init report = None"
  shows "lr_state record = ''planned'' \<and> rr_stage report = ''preflight'' \<and>
     wp_operation_kind (rr_plan report) = ''environment'' \<and>
     wp_operation_id (rr_plan report) = lr_transaction_id record \<and> rr_policy report = pl_policy pl \<and>
     ad_decision_id d = rr_reservation_id report \<and> (ad_admitted d \<longleftrightarrow> rr_issues report = [])"
  using assms by (auto simp: environment_decision_def admission_report_post_init_def split: if_splits)

text \<open>
  Planning, preflight and decision compose: a plan built from a planned environment and
  evaluated by the same planner always yields a decision for that environment, and the
  decision admits exactly when the preflight found no issue.
\<close>

theorem environment_admission_pipeline:
  assumes plan: "environment_plan pl record name conf extra caps trust = Inr plan"
    and run: "preflight pl plan inventory ctx = Inr report"
  shows "\<exists>d. environment_decision pl record report = Inr d \<and>
     ad_decision_id d = rr_reservation_id report \<and> (ad_admitted d \<longleftrightarrow> rr_issues report = [])"
proof -
  note facts = environment_plan_identity [OF plan]
  from run obtain ok: "admission_report_post_init report = None" and p: "rr_plan report = plan"
    and pol: "rr_policy report = pl_policy pl" and st: "rr_stage report = ''preflight''"
    and out: "rr_outcome report = admission_outcome ''preflight'' (rr_issues report)"
    unfolding preflight_def by (rule evaluate_Inr)
  from ok have "rr_reservation_id report \<noteq> []" by (auto simp: admission_report_post_init_def dest: is_opid_nonempty)
  moreover have "rr_issues report \<noteq> [] \<Longrightarrow> concat (map (\<lambda>i. is_code i @ ''; '') (rr_issues report)) \<noteq> []"
    by (cases "rr_issues report") auto
  ultimately show ?thesis using facts p pol st out
    by (auto simp: environment_decision_def admission_decision_post_init_def admission_outcome_def)
qed

text \<open>Margins and upper bounds of constructed estimates are never negative.\<close>

lemma margin_units_nonneg:
  assumes "policy_constructed pol" and "resource_estimate_post_init e = None"
  shows "0 \<le> or_zero (re_upper_bound e)" and "0 \<le> margin_units pol e"
proof -
  have "0 \<le> or_zero (re_upper_bound e) \<and> 0 \<le> margin_units pol e"
  proof (cases "re_confidence e = ''unknown''")
    case True
    with estimate_forecast [OF assms(2)] have "re_upper_bound e = None"
      by (metis validate_forecast_unknown)
    then show ?thesis by (simp add: margin_units_def or_zero_def split: sum.splits)
  next
    case False
    from validate_forecast_None [OF estimate_forecast [OF assms(2)] False] obtain b where
      b: "re_upper_bound e = Some b" "safe_integer b" "re_confidence e \<in> set MARGIN_CONFIDENCE_CLASSES" by metis
    from margin_basis_points_defined [OF assms(1) b(3)] obtain m where
      "margin_basis_points pol (re_confidence e) = Inr m" "0 \<le> m" by blast
    moreover from this b have "0 \<le> (b * m + 9999) div 10000"
      by (simp add: pos_imp_zdiv_nonneg_iff safe_integer_def)
    ultimately show ?thesis using b by (simp add: margin_units_def or_zero_def safe_integer_def)
  qed
  then show "0 \<le> or_zero (re_upper_bound e)" "0 \<le> margin_units pol e" by auto
qed

lemma demand_ge_bounds:
  assumes "policy_constructed pol" and "\<forall>e \<in> set es. resource_estimate_post_init e = None"
  shows "(\<Sum>e \<leftarrow> es. or_zero (re_upper_bound e)) \<le> demand pol es"
    and "0 \<le> (\<Sum>e \<leftarrow> es. or_zero (re_upper_bound e))"
  unfolding demand_def using assms margin_units_nonneg
  by (auto intro!: sum_list_mono sum_list_nonneg)


end
