(* ===== verification/Admission_Witnesses.thy ===== *)
theory Admission_Witnesses
  imports Admission_Decisions
begin

text \<open>
  The admission theorems applied to the example machine of \<open>Admission_Examples\<close>, an inventory
  on which the evaluation raises, and the canonical form of the documents.
\<close>

section \<open>The example is in the domain\<close>

lemma ex_constructed:
  "policy_constructed (pl_policy ex_planner)" "plan_constructed ex_plan" "context_constructed ex_context"
  "doctor_report_constructed (ex_report ex_pools)"
  by code_simp+

lemma ex_pools_in_domain: "\<forall>p \<in> set (dr_resources (ex_report ex_pools)). pool_in_domain p"
proof -
  have "list_all (\<lambda>p. resource_pool_post_init p = None \<and> rp_kind p \<in> set RESOURCE_POOL_KINDS) ex_pools"
    by code_simp
  then have "\<forall>p \<in> set ex_pools. resource_pool_post_init p = None \<and> rp_kind p \<in> set RESOURCE_POOL_KINDS"
    by (simp add: list_all_iff)
  then show ?thesis
    by (auto simp: pool_in_domain_def ex_report_def ex_pools_def ex_pool_def SAFE_INTEGER_MAX_def)
qed

lemma ex_kind: "''environment_cache'' \<in> set (map re_pool_kind (wp_estimates ex_plan))"
  by code_simp

text \<open>Witness of C1.\<close>

theorem admitted_fits_every_pool_witness:
  "\<exists>report now pool a c r.
     evaluate ex_planner ex_plan (ex_report ex_pools) ex_context ''preflight'' = Inr report \<and>
     rr_outcome report = ''admitted'' \<and> pl_clock ex_planner = Aware now \<and>
     find (\<lambda>p. rp_kind p = ''environment_cache'') (dr_resources (ex_report ex_pools)) = Some pool \<and>
     rp_available pool = Some a \<and> rp_capacity pool = Some c \<and> pool_reserve (pl_policy ex_planner) ''environment_cache'' c = Inr r"
proof -
  from ex_run obtain report where r: "evaluate ex_planner ex_plan (ex_report ex_pools) ex_context ''preflight'' = Inr report"
    "rr_outcome report = ''admitted''" by blast
  from admitted_fits_every_pool [OF r ex_kind] r show ?thesis by blast
qed

text \<open>Witness of C2: the two disk pools of the example share one store.\<close>

theorem admitted_fits_shared_store_witness:
  "\<exists>a r. rp_available (ex_pools ! 0) = Some a \<and>
     pool_reserve ex_policy (rp_kind (ex_pools ! 0)) (or_zero (rp_capacity (ex_pools ! 0))) = Inr r \<and>
     (\<Sum>q \<leftarrow> store_pools (dr_resources (ex_report ex_pools)) ''disk0''.
        demand ex_policy (filter (\<lambda>e. re_pool_kind e = rp_kind q) (wp_estimates ex_plan))) +
     (\<Sum>q \<leftarrow> store_pools (dr_resources (ex_report ex_pools)) ''disk0''.
        active_amount (ac_active_usage ex_context) (rp_kind q)) + r \<le> a"
proof -
  let ?ps = "store_pools (dr_resources (ex_report ex_pools)) ''disk0''"
  from ex_run obtain report where r: "evaluate ex_planner ex_plan (ex_report ex_pools) ex_context ''preflight'' = Inr report"
    "rr_outcome report = ''admitted''" by blast
  have len: "2 \<le> length ?ps" by code_simp
  have dem: "\<exists>p \<in> set ?ps. rp_kind p \<in> set (map re_pool_kind (wp_estimates ex_plan)) \<and> rp_kind p \<noteq> ''cpu''" by code_simp
  have mem: "ex_pools ! 0 \<in> set ?ps"
    by (simp add: store_pools_def ex_report_def ex_pools_def ex_pool_def is_disk_def)
  have pol: "pl_policy ex_planner = ex_policy" by (simp add: ex_planner_def)
  from admitted_fits_shared_store [OF r ex_constructed(2) refl len _ dem mem] show ?thesis
    unfolding pol by simp
qed

text \<open>Witness of C3.\<close>

theorem evaluate_total_witness:
  "\<exists>report. evaluate ex_planner ex_plan (ex_report ex_pools) ex_context ''dynamic'' = Inr report"
proof -
  have id: "is_opid ''resource-reservation'' ''opid:v1:resource-reservation:u7:019ff82c-9517-76fb-a67d-c461e9145384''"
    by code_simp
  show ?thesis
    by (rule evaluate_total [OF ex_constructed(1-3) ex_constructed(4) ex_pools_in_domain _ _ id])
      (simp_all add: ex_planner_def)
qed

text \<open>Witness of C4.\<close>

theorem admitted_passed_guards_witness:
  "\<exists>cpu n. find (\<lambda>p. rp_kind p = ''cpu'') (dr_resources (ex_report ex_pools)) = Some cpu \<and> rp_capacity cpu = Some n \<and>
     ac_active_concurrency ex_context + wp_requested_concurrency ex_plan \<le> min n (ap_max_concurrency (pl_policy ex_planner))"
proof -
  from ex_run obtain report where r: "evaluate ex_planner ex_plan (ex_report ex_pools) ex_context ''preflight'' = Inr report"
    "rr_outcome report = ''admitted''" by blast
  have "pl_clock ex_planner = Aware 1030000000" by (simp add: ex_planner_def)
  from admitted_passed_guards [OF r this] show ?thesis by blast
qed

text \<open>Witness of C5.\<close>

theorem outcome_classification_witness:
  "\<exists>report. evaluate ex_planner ex_plan (ex_report ex_pools) ex_context ''preflight'' = Inr report \<and>
     rr_outcome report = ''admitted'' \<and> rr_issues report = []"
proof -
  from ex_run obtain report where r: "evaluate ex_planner ex_plan (ex_report ex_pools) ex_context ''preflight'' = Inr report"
    "rr_outcome report = ''admitted''" by blast
  with outcome_classification [OF r(1)] show ?thesis by blast
qed

section \<open>A planned environment\<close>

definition ex_sha :: string where
  "ex_sha = replicate 64 (CHR ''a'')"

definition ex_rcid :: "string \<Rightarrow> string" where
  "ex_rcid ns = ''rcid:v1:'' @ ns @ '':u7:019ff82c-9517-76fb-a67d-c461e9145384''"

definition ex_recipe :: environment_recipe where
  "ex_recipe = \<lparr>rc_recipe_revision_id = ex_rcid ''recipe'', rc_target_profile_id = ex_rcid ''profile'',
     rc_target_release_id = ex_rcid ''release'', rc_strategy = ''source-build'',
     rc_artifacts = [\<lparr>ar_name = ''archive'', ar_sha256 = ex_sha, ar_size_bytes = 1000,
       ar_media_type = ''tar'', ar_locators = [''https://example.org/a'']\<rparr>],
     rc_expected_runtime_facts = [\<lparr>nv_name = ''version'', nv_value = ''1''\<rparr>], rc_expected_configuration = [],
     rc_required_capabilities = [''compile''], rc_smoke_probe_ids = [''match''],
     rc_isolation_policy_digest = ex_sha, rc_network_policy = ''none''\<rparr>"

definition ex_descriptor :: provider_descriptor where
  "ex_descriptor = \<lparr>pd_name = ''native'', pd_strategy = ''source-build'', pd_implementation_digest = ex_sha,
     pd_capabilities = [\<lparr>ec_name = ''compile'', ec_status = ''supported'', ec_diagnostic = None\<rparr>]\<rparr>"

definition ex_provider_plan :: provider_plan where
  "ex_provider_plan = \<lparr>pp_provider_name = ''native'', pp_plan_token = ''token'', pp_expected_download_bytes = 1000,
     pp_expected_expanded_bytes = 3000, pp_expected_scratch_bytes = 500, pp_diagnostics = [],
     pp_mutation_permitted = False\<rparr>"

definition ex_planned :: lifecycle_record where
  "ex_planned = \<lparr>lr_transaction_id = ''opid:v1:environment:u7:019ff82c-9517-76fb-a67d-c461e9145384'',
     lr_state = ''planned'', lr_recipe = ex_recipe, lr_provider = ex_descriptor, lr_plan = Some ex_provider_plan,
     lr_admission = None, lr_provider_handle = None, lr_verified_artifacts = [], lr_runtime_identity = None,
     lr_smoke_observations = [], lr_verification_digest = None, lr_environment_fingerprint_id = None,
     lr_transitions = [\<lparr>lt_sequence = 1, lt_from_state = None, lt_to_state = ''planned'',
       lt_observed_at = Aware 1020000000, lt_detail = ''plan created''\<rparr>],
     lr_failure = None, lr_rollback = None, lr_diagnostics = []\<rparr>"

definition ex_admission :: "(resource_admission_report \<times> admission_decision) result" where
  "ex_admission =
     ebind (environment_plan ex_planner ex_planned ''native'' ''estimated'' [] [''cgroups''] [''development''])
       (\<lambda>plan. ebind (preflight ex_planner plan (ex_report ex_pools) (Some ex_context))
         (\<lambda>report. ebind (environment_decision ex_planner ex_planned report) (\<lambda>d. Inr (report, d))))"

lemma ex_admission_run:
  obtains plan report d where
    "environment_plan ex_planner ex_planned ''native'' ''estimated'' [] [''cgroups''] [''development''] = Inr plan"
    "preflight ex_planner plan (ex_report ex_pools) (Some ex_context) = Inr report"
    "environment_decision ex_planner ex_planned report = Inr d" "ad_admitted d"
    "admission_report_post_init report = None"
proof -
  have "case ex_admission of Inr (report, d) \<Rightarrow> ad_admitted d \<and> admission_report_post_init report = None
      | Inl _ \<Rightarrow> False" by code_simp
  then obtain report d where "ex_admission = Inr (report, d)" "ad_admitted d" "admission_report_post_init report = None"
    by (auto split: sum.splits prod.splits)
  then show ?thesis using that unfolding ex_admission_def by auto
qed

text \<open>The binding of a decision at the sample.\<close>

theorem environment_decision_binds_witness:
  "\<exists>report d. environment_decision ex_planner ex_planned report = Inr d \<and> rr_issues report = [] \<and>
     wp_operation_id (rr_plan report) = lr_transaction_id ex_planned \<and> ad_decision_id d = rr_reservation_id report"
proof -
  obtain report d where r: "environment_decision ex_planner ex_planned report = Inr d" "ad_admitted d"
    "admission_report_post_init report = None" by (rule ex_admission_run)
  from environment_decision_binds [OF r(1,3)] r show ?thesis by blast
qed

text \<open>The composition of planning, preflight and decision at the sample.\<close>

theorem environment_admission_pipeline_witness:
  "\<exists>plan report d. environment_plan ex_planner ex_planned ''native'' ''estimated'' [] [''cgroups''] [''development'']
       = Inr plan \<and> preflight ex_planner plan (ex_report ex_pools) (Some ex_context) = Inr report \<and>
     environment_decision ex_planner ex_planned report = Inr d"
proof -
  obtain plan report where
    r: "environment_plan ex_planner ex_planned ''native'' ''estimated'' [] [''cgroups''] [''development''] = Inr plan"
      "preflight ex_planner plan (ex_report ex_pools) (Some ex_context) = Inr report" by (rule ex_admission_run)
  from environment_admission_pipeline [OF r] r show ?thesis by blast
qed


section \<open>Documents\<close>

text \<open>
  The document of a workload plan is canonical: two constructed plans that differ only in
  the order in which estimates, transfers, capabilities and trust classes were supplied have
  the same document.
\<close>

theorem workload_plan_document_canonical:
  assumes "workload_plan_post_init p = None" and "mset (wp_estimates p) = mset ests" and "mset (wp_transfers p) = mset trs"
    and "mset (wp_required_capabilities p) = mset caps" and "mset (wp_eligible_trust_classes p) = mset trust"
  shows "workload_plan_to_dict (p\<lparr>wp_estimates := ests, wp_transfers := trs, wp_required_capabilities := caps,
       wp_eligible_trust_classes := trust\<rparr>) = workload_plan_to_dict p"
proof -
  have d: "distinct (map re_name (wp_estimates p))" "distinct (map tf_name (wp_transfers p))"
    using assms(1) by (auto simp: workload_plan_post_init_def validates)
  have "sort caps = sort (wp_required_capabilities p)" "sort trust = sort (wp_eligible_trust_classes p)"
    using assms(4,5) by (auto intro: properties_for_sort)
  with sort_key_canonical [OF assms(2) d(1)] sort_key_canonical [OF assms(3) d(2)] show ?thesis
    by (simp add: workload_plan_to_dict_def)
qed

section \<open>An inventory on which the evaluation raises\<close>

text \<open>
  A pool whose available amount is known while its capacity is not passes every issue check
  (there is no reserve to compare with), yet its evaluation is not a pass: the run ends
  without issues, the outcome is computed as admitted, and the report's own validator raises,
  where a report with the issue was called for. The inventory model constructs such a pool, so
  the hypothesis of C3 that a known available amount comes with a known capacity is needed.
\<close>

theorem unknown_capacity_raises:
  "doctor_report_constructed (ex_report (ex_pool ''environment_cache'' ''bytes'' None (Some 9000) (Some ''disk1'') # tl ex_pools)) \<and>
   evaluate ex_planner ex_plan (ex_report (ex_pool ''environment_cache'' ''bytes'' None (Some 9000) (Some ''disk1'') # tl ex_pools))
     ex_context ''preflight'' = Inl (ValueError ''admitted reports require every typed resource evaluation to pass'')"
  by code_simp

end
