(* ===== verification/Environment_Providers.thy ===== *)
theory Environment_Providers
  imports Environment_Models
begin

text \<open>
  The interfaces of the environment manager: providers and their registry
  (\<open>environment_providers.py\<close>), the event drafts it publishes, the files it hashes, and the
  world its effects act on.

  A provider is code the manager only calls, so it is a record of functions: each operation
  gets the list of provider calls made so far (a provider may behave differently the second
  time) and its arguments, and returns a value or raises. The event journal is the function
  \<open>mg_publisher\<close>, which gets the drafts published so far; the validation of a draft is part
  of it. The files are the parameter \<open>mg_files\<close>, one view per path.

  The world records the number of clock reads, the published drafts and the provider calls,
  in order. An action maps a world to a result and the world after it.
\<close>

section \<open>Calls and events\<close>

datatype provider_call =
    CallPlan
  | CallAcquire string
  | CallConstruct string
  | CallInspect string string
  | CallSmoke string string
  | CallRelease string string
  | CallRollback "string option" string
  | CallDiagnose "string option" string

text \<open>The fields of \<open>EventDraft\<close> that the manager sets; \<open>event_type\<close> is \<open>lifecycle\<close> for all of them.\<close>

record event_draft =
  evd_stream_id :: string
  evd_operation_kind :: string
  evd_event_type :: string
  evd_phase :: string
  evd_status :: string
  evd_message :: string
  evd_from_state :: "string option"
  evd_provider_name :: string
  evd_recipe_revision_id :: string
  evd_to_state :: string
  evd_transition_sequence :: int
  evd_terminal :: bool

record world =
  w_ticks :: nat
  w_events :: "event_draft list"
  w_calls :: "provider_call list"

type_synonym 'a action = "world \<Rightarrow> 'a result \<times> world"

definition act_return :: "'a \<Rightarrow> 'a action" where
  "act_return x w = (Inr x, w)"

definition act_lift :: "'a result \<Rightarrow> 'a action" where
  "act_lift r w = (r, w)"

definition act_bind :: "'a action \<Rightarrow> ('a \<Rightarrow> 'b action) \<Rightarrow> 'b action" where
  "act_bind m f w = (case m w of (Inl e, w') \<Rightarrow> (Inl e, w') | (Inr x, w') \<Rightarrow> f x w')"

lemma act_bind_Inr [simp]:
  "act_bind m f w = (Inr y, w') \<longleftrightarrow> (\<exists>x v. m w = (Inr x, v) \<and> f x v = (Inr y, w'))"
  by (auto simp: act_bind_def split: prod.splits sum.splits)

lemma act_bind_Inl:
  "act_bind m f w = (Inl e, w') \<longleftrightarrow> m w = (Inl e, w') \<or> (\<exists>x v. m w = (Inr x, v) \<and> f x v = (Inl e, w'))"
  by (auto simp: act_bind_def split: prod.splits sum.splits)

lemma act_return_eq [simp]: "act_return x w = (r, w') \<longleftrightarrow> r = Inr x \<and> w' = w"
  by (auto simp: act_return_def)

lemma act_lift_eq [simp]: "act_lift m w = (r, w') \<longleftrightarrow> m = r \<and> w' = w"
  by (auto simp: act_lift_def)

section \<open>Files\<close>

text \<open>
  What hashing a path observes: \<open>lstat\<close>, then \<open>fstat\<close> of the opened descriptor (\<open>None\<close> for an
  \<open>OSError\<close>), then the chunks read from the stream (\<open>None\<close> for a read that fails).
\<close>

record file_stat =
  st_regular :: bool
  st_dev :: int
  st_ino :: int
  st_size :: int

record file_view =
  fv_lstat :: "file_stat option"
  fv_fstat :: "file_stat option"
  fv_chunks :: "nat list option list"

section \<open>Providers and the registry\<close>

record provider =
  pv_descriptor :: provider_descriptor
  pv_plan :: "provider_call list \<Rightarrow> environment_recipe \<Rightarrow> provider_plan result"
  pv_acquire :: "provider_call list \<Rightarrow> environment_recipe \<Rightarrow> provider_plan \<Rightarrow> string \<Rightarrow> provider_acquisition result"
  pv_construct :: "provider_call list \<Rightarrow> environment_recipe \<Rightarrow> provider_acquisition \<Rightarrow> string \<Rightarrow> string result"
  pv_inspect_runtime :: "provider_call list \<Rightarrow> environment_recipe \<Rightarrow> string \<Rightarrow> string \<Rightarrow> runtime_identity result"
  pv_smoke_verify :: "provider_call list \<Rightarrow> environment_recipe \<Rightarrow> string \<Rightarrow> string \<Rightarrow> smoke_observation list result"
  pv_release :: "provider_call list \<Rightarrow> string \<Rightarrow> string \<Rightarrow> provider_outcome result"
  pv_rollback :: "provider_call list \<Rightarrow> string option \<Rightarrow> string \<Rightarrow> provider_outcome result"
  pv_diagnose :: "provider_call list \<Rightarrow> string option \<Rightarrow> string \<Rightarrow> provider_diagnosis result"

definition provider_registry :: "provider list \<Rightarrow> provider list result" where
  "provider_registry providers =
     (let names = map (pd_name \<circ> pv_descriptor) providers in
      if length names \<noteq> length (remdups names)
      then Inl (ValueError ''provider registry contains duplicate provider names'')
      else Inr providers)"

definition registry_get :: "provider list \<Rightarrow> string \<Rightarrow> provider result" where
  "registry_get providers name =
     (case find (\<lambda>p. pd_name (pv_descriptor p) = name) providers of
        None \<Rightarrow> Inl (ValueError ''environment provider is not registered'')
      | Some p \<Rightarrow> Inr p)"

definition registry_descriptors :: "provider list \<Rightarrow> provider_descriptor list" where
  "registry_descriptors providers = sort_key pd_name (map pv_descriptor providers)"

text \<open>A registry returns for each name the one provider that was registered under it.\<close>

lemma registry_get_registered:
  assumes "provider_registry providers = Inr reg" and "p \<in> set providers"
  shows "registry_get reg (pd_name (pv_descriptor p)) = Inr p"
proof -
  from assms(1) have "distinct (map (pd_name \<circ> pv_descriptor) providers)" and reg: "reg = providers"
    using length_remdups_distinct [of "map (pd_name \<circ> pv_descriptor) providers"]
    by (auto simp: provider_registry_def Let_def split: if_splits)
  from find_Some_iff_distinct [OF this(1), of "pd_name (pv_descriptor p)" p] assms(2)
  have "find (\<lambda>q. pd_name (pv_descriptor q) = pd_name (pv_descriptor p)) providers = Some p" by simp
  with reg show ?thesis by (simp add: registry_get_def)
qed

section \<open>The manager's parameters\<close>

record manager =
  mg_providers :: "provider list"
  mg_clock :: "nat \<Rightarrow> timestamp"
  mg_new_id :: "nat \<Rightarrow> string result"
  mg_files :: "string \<Rightarrow> file_view"
  mg_sha256 :: "nat list \<Rightarrow> string"
  mg_canonical :: "json \<Rightarrow> nat list result"
  mg_nfc :: "string \<Rightarrow> string"
  mg_publisher :: "(event_draft list \<Rightarrow> event_draft \<Rightarrow> exc option) option"

text \<open>Reading the clock and calling a provider.\<close>

definition clock_now :: "manager \<Rightarrow> timestamp action" where
  "clock_now mg w = (Inr (mg_clock mg (w_ticks w)), w\<lparr>w_ticks := w_ticks w + 1\<rparr>)"

definition provider_call :: "provider_call \<Rightarrow> (provider_call list \<Rightarrow> 'a result) \<Rightarrow> 'a action" where
  "provider_call c f w = (f (w_calls w), w\<lparr>w_calls := w_calls w @ [c]\<rparr>)"

text \<open>\<open>str(error) or type(error).__name__\<close>.\<close>

definition or_text :: "string \<Rightarrow> string \<Rightarrow> string" where
  "or_text s t = (if s = [] then t else s)"

fun exc_text :: "exc \<Rightarrow> string" where
  "exc_text (ValueError s) = or_text s ''ValueError''"
| "exc_text (OverflowError s) = or_text s ''OverflowError''"
| "exc_text (KeyError s) = or_text s ''KeyError''"
| "exc_text StopIteration = ''StopIteration''"
| "exc_text (InvalidLifecycleTransition s) = or_text s ''InvalidLifecycleTransition''"
| "exc_text (LifecycleVerificationError c s) = or_text s ''LifecycleVerificationError''"
| "exc_text (ProviderOperationError c s h d) = or_text s ''ProviderOperationError''"
| "exc_text (OtherException s) = or_text s ''Exception''"

lemma exc_text_nonempty: "exc_text e \<noteq> []"
  by (cases e) (simp_all add: or_text_def)

text \<open>\<open>a or b\<close> for optional handles: an empty handle counts as missing.\<close>

definition or_handle :: "string option \<Rightarrow> string option \<Rightarrow> string option" where
  "or_handle a b = (case a of None \<Rightarrow> b | Some s \<Rightarrow> if s = [] then b else Some s)"

text \<open>What the manager makes of a release or rollback: a raised exception is a failed outcome.\<close>

fun outcome_of :: "provider_outcome result \<Rightarrow> provider_outcome" where
  "outcome_of (Inr b) = b"
| "outcome_of (Inl (ProviderOperationError code message handle diagnostics)) =
     \<lparr>po_succeeded = False, po_diagnostics = message # diagnostics\<rparr>"
| "outcome_of (Inl e) = \<lparr>po_succeeded = False, po_diagnostics = [exc_text e]\<rparr>"

end
