(* ===== verification/Environment_Fingerprint.thy ===== *)
theory Environment_Fingerprint
  imports Environment_Providers
begin

text \<open>
  \<open>EnvironmentFingerprinter\<close> of \<open>environment_fingerprint.py\<close>: the identity document of a
  verified environment and its digest. RFC 8785 canonicalization, Unicode normalization and
  SHA-256 are parameters (\<open>mg_canonical\<close>, \<open>mg_nfc\<close>, \<open>mg_sha256\<close>).
\<close>

definition CONTENT_DOMAIN :: string where
  "CONTENT_DOMAIN = ''strling.regex-conformance.content-id''"

definition VERIFICATION_DOMAIN :: string where
  "VERIFICATION_DOMAIN = ''strling.regex-conformance.environment-verification''"

definition HASH_POLICY :: string where
  "HASH_POLICY = ''jcs-sha256-v1''"

definition FINGERPRINT_SCHEMA_FAMILY_ID :: string where
  "FINGERPRINT_SCHEMA_FAMILY_ID = ''rcid:v1:schema-family:u7:019ff82c-9517-76fb-a67d-c461e9145384''"

definition FINGERPRINT_SCHEMA_VERSION :: string where
  "FINGERPRINT_SCHEMA_VERSION = ''1.0.0''"

text \<open>\<open>_canonical_set\<close>: a dictionary from canonical bytes to values, listed in key order.\<close>

definition canonical_set :: "(json \<Rightarrow> nat list result) \<Rightarrow> json list \<Rightarrow> json list result" where
  "canonical_set canon values =
     ebind (mapE canon values) (\<lambda>keys.
       Inr (map (\<lambda>k. the (map_of (rev (zip keys values)) k)) (sort (remdups keys))))"

definition named_value_doc :: "(string \<Rightarrow> string) \<Rightarrow> named_value \<Rightarrow> json" where
  "named_value_doc nfc v = JObj [(''name'', JStr (nv_name v)), (''value'', JStr (nfc (nv_value v)))]"

definition normalized_values ::
    "(json \<Rightarrow> nat list result) \<Rightarrow> (string \<Rightarrow> string) \<Rightarrow> named_value list \<Rightarrow> json list result" where
  "normalized_values canon nfc values = canonical_set canon (map (named_value_doc nfc) values)"

definition artifact_doc :: "verified_artifact \<Rightarrow> json" where
  "artifact_doc a = JObj [(''digest'', JStr (va_sha256 a)), (''media_type'', JStr (va_media_type a)),
     (''name'', JStr (va_name a)), (''size_bytes'', JInt (va_size_bytes a))]"

definition smoke_doc :: "(string \<Rightarrow> string) \<Rightarrow> smoke_observation \<Rightarrow> json" where
  "smoke_doc nfc s = JObj [(''diagnostic'', JOpt (JStr \<circ> nfc) (so_diagnostic s)),
     (''passed'', JBool (so_passed s)), (''probe_id'', JStr (so_probe_id s))]"

definition capability_doc :: "env_capability \<Rightarrow> json" where
  "capability_doc c = JObj [(''name'', JStr (ec_name c)), (''status'', JStr (ec_status c))]"

record fingerprint_result =
  fr_environment_fingerprint_id :: string
  fr_verification_digest :: string
  fr_identity :: json
  fr_canonical_utf8 :: "nat list"

definition fingerprint ::
    "(json \<Rightarrow> nat list result) \<Rightarrow> (string \<Rightarrow> string) \<Rightarrow> (nat list \<Rightarrow> string) \<Rightarrow> environment_recipe \<Rightarrow>
     provider_descriptor \<Rightarrow> verified_artifact list \<Rightarrow> runtime_identity \<Rightarrow> smoke_observation list \<Rightarrow>
     fingerprint_result result" where
  "fingerprint canon nfc sha recipe provider artifacts runtime smoke =
     ebind (canonical_set canon (map artifact_doc artifacts)) (\<lambda>artifact_docs.
     ebind (normalized_values canon nfc (ri_facts runtime)) (\<lambda>facts.
     ebind (canonical_set canon (map (smoke_doc nfc) smoke)) (\<lambda>smoke_docs.
     let verification = JObj [(''artifacts'', JArr artifact_docs), (''runtime_facts'', JArr facts),
           (''smoke'', JArr smoke_docs)]
     in
     ebind (canon (JObj [(''domain'', JStr VERIFICATION_DOMAIN), (''verification'', verification)]))
       (\<lambda>verification_bytes.
     ebind (canonical_set canon (map capability_doc (pd_capabilities provider))) (\<lambda>capabilities.
     ebind (normalized_values canon nfc (ri_relevant_configuration runtime)) (\<lambda>configuration.
     let verification_digest = sha verification_bytes;
         identity = JObj [(''artifacts'', JArr artifact_docs),
           (''isolation_policy_digest'', JStr (ri_isolation_policy_digest runtime)),
           (''network_policy'', JStr (ri_network_policy runtime)),
           (''provider_capabilities'', JArr capabilities),
           (''provider_implementation_digest'', JStr (ri_provider_implementation_digest runtime)),
           (''provider_name'', JStr (pd_name provider)),
           (''provider_strategy'', JStr (ri_strategy runtime)),
           (''recipe_revision'', JStr (rc_recipe_revision_id recipe)),
           (''relevant_configuration'', JArr configuration),
           (''runtime_facts'', JArr facts),
           (''target_profile'', JStr (rc_target_profile_id recipe)),
           (''target_release'', JStr (rc_target_release_id recipe)),
           (''verification_digest'', JStr verification_digest)]
     in
     ebind (canon (JObj [(''domain'', JStr CONTENT_DOMAIN), (''hash_policy'', JStr HASH_POLICY),
              (''identity'', identity), (''identity_schema_family_id'', JStr FINGERPRINT_SCHEMA_FAMILY_ID),
              (''identity_schema_version'', JStr FINGERPRINT_SCHEMA_VERSION),
              (''namespace'', JStr ''environment-fingerprint'')]))
       (\<lambda>canonical. Inr \<lparr>
          fr_environment_fingerprint_id =
            ''rcid:v1:environment-fingerprint:h:'' @ HASH_POLICY @ '':'' @ sha canonical,
          fr_verification_digest = verification_digest,
          fr_identity = identity, fr_canonical_utf8 = canonical\<rparr>)))))))"

section \<open>Canonical sets ignore order and repetition\<close>

text \<open>
  The documents of a set are flat objects with the same member names. Canonicalization tells
  two of them apart: canonical JSON is a text of the document.
\<close>

fun scalar :: "json \<Rightarrow> bool" where
  "scalar (JArr _) \<longleftrightarrow> False"
| "scalar (JObj _) \<longleftrightarrow> False"
| "scalar _ \<longleftrightarrow> True"

definition flat :: "string list \<Rightarrow> json \<Rightarrow> bool" where
  "flat names d \<longleftrightarrow> (\<exists>ms. d = JObj ms \<and> map fst ms = names \<and> list_all (scalar \<circ> snd) ms)"

definition canonical_faithful :: "(json \<Rightarrow> nat list result) \<Rightarrow> bool" where
  "canonical_faithful canon \<longleftrightarrow>
     (\<forall>names d d' b. flat names d \<longrightarrow> flat names d' \<longrightarrow> canon d = Inr b \<longrightarrow> canon d' = Inr b \<longrightarrow> d = d')"

lemma map_of_rev_zip:
  assumes "list_all2 (\<lambda>v k. canon v = Inr k) values keys" and "k \<in> set keys"
  shows "\<exists>v \<in> set values. map_of (rev (zip keys values)) k = Some v \<and> canon v = Inr k"
proof -
  have len: "length keys = length values" using assms(1) list_all2_lengthD by metis
  then have "k \<in> fst ` set (rev (zip keys values))" using assms(2) by (metis set_rev set_map map_fst_zip)
  then obtain v where v: "map_of (rev (zip keys values)) k = Some v"
    by (metis map_of_eq_None_iff option.exhaust)
  then have mem: "(k, v) \<in> set (zip keys values)" by (metis map_of_SomeD set_rev)
  then have "v \<in> set values" by (rule set_zip_rightD)
  moreover have "canon v = Inr k"
    using assms(1) mem by (auto simp: list_all2_conv_all_nth set_zip)
  ultimately show ?thesis using v by blast
qed

lemma canonical_set_cong:
  assumes faithful: "canonical_faithful canon" and same: "set xs = set ys"
    and flat: "\<forall>d \<in> set xs. flat names d" and run: "canonical_set canon xs = Inr ds"
  shows "canonical_set canon ys = Inr ds"
proof -
  have inj: "v = v'" if "v \<in> set xs" "v' \<in> set xs" "canon v = Inr k" "canon v' = Inr k" for v v' k
    using faithful flat that unfolding canonical_faithful_def by blast
  from run obtain keys where keys: "mapE canon xs = Inr keys"
    and ds: "ds = map (\<lambda>k. the (map_of (rev (zip keys xs)) k)) (sort (remdups keys))"
    by (auto simp: canonical_set_def)
  then have r: "list_all2 (\<lambda>v k. canon v = Inr k) xs keys" by (simp add: mapE_Inr_iff)
  have "\<forall>v \<in> set ys. \<exists>k. canon v = Inr k \<and> k \<in> set keys"
    using list_all2_memberD [OF r] same by blast
  from mapE_all [OF this] obtain keys' where keys': "mapE canon ys = Inr keys'" "\<forall>k \<in> set keys'. k \<in> set keys" by blast
  then have r': "list_all2 (\<lambda>v k. canon v = Inr k) ys keys'" by (simp add: mapE_Inr_iff)
  have "set keys \<subseteq> set keys'"
  proof
    fix k assume "k \<in> set keys"
    from list_all2_memberD2 [OF r this] obtain v where "v \<in> set ys" "canon v = Inr k" using same by blast
    with list_all2_memberD [OF r'] show "k \<in> set keys'" by force
  qed
  with keys'(2) have ks: "set keys' = set keys" by blast
  then have "sort (remdups keys') = sort (remdups keys)"
    by (intro sorted_distinct_set_unique) simp_all
  moreover have "the (map_of (rev (zip keys' ys)) k) = the (map_of (rev (zip keys xs)) k)" if k: "k \<in> set keys" for k
  proof -
    from map_of_rev_zip [OF r k] obtain v where
      v: "v \<in> set xs" "map_of (rev (zip keys xs)) k = Some v" "canon v = Inr k" by blast
    from map_of_rev_zip [OF r', of k] k ks obtain v' where
      v': "v' \<in> set ys" "map_of (rev (zip keys' ys)) k = Some v'" "canon v' = Inr k" by blast
    have "v' = v" using v v' same by (intro inj) auto
    with v v' show ?thesis by simp
  qed
  ultimately show ?thesis using keys' ds ks
    by (auto simp: canonical_set_def intro!: map_cong)
qed

lemma flat_docs [simp]:
  "flat [''digest'', ''media_type'', ''name'', ''size_bytes''] (artifact_doc a)"
  "flat [''name'', ''value''] (named_value_doc nfc v)"
  "flat [''diagnostic'', ''passed'', ''probe_id''] (smoke_doc nfc s)"
  "flat [''name'', ''status''] (capability_doc c)"
  by (auto simp: flat_def artifact_doc_def named_value_doc_def smoke_doc_def capability_doc_def JOpt_def
      split: option.splits)

lemma canonical_set_map_cong:
  assumes "canonical_faithful canon" and "set xs = set ys" and "\<And>x. flat names (f x)"
  shows "canonical_set canon (map f xs) = Inr ds \<Longrightarrow> canonical_set canon (map f ys) = Inr ds"
  by (rule canonical_set_cong [OF assms(1), of "map f xs"]) (use assms(2,3) in auto)

text \<open>
  C11. The fingerprint identifies the verified content, not the order in which the provider
  reported it: listing the same artifacts, facts, configuration values, smoke observations
  and capabilities in another order, or one of them twice, yields the same fingerprint, digest
  and identity document. It is always a hash identifier of the fingerprint namespace.
\<close>

theorem fingerprint_order_independent:
  assumes faithful: "canonical_faithful canon"
    and run: "fingerprint canon nfc sha recipe provider artifacts runtime smoke = Inr fr"
    and same: "set artifacts' = set artifacts" "set facts = set (ri_facts runtime)" "set smoke' = set smoke"
      "set config = set (ri_relevant_configuration runtime)" "set caps = set (pd_capabilities provider)"
  shows "fingerprint canon nfc sha recipe (provider\<lparr>pd_capabilities := caps\<rparr>) artifacts'
       (runtime\<lparr>ri_facts := facts, ri_relevant_configuration := config\<rparr>) smoke' = Inr fr \<and>
     (\<exists>digest. fr_environment_fingerprint_id fr = ''rcid:v1:environment-fingerprint:h:jcs-sha256-v1:'' @ digest)"
proof -
  note cong = canonical_set_map_cong [OF faithful]
  from run obtain ads fs sds cds cfg where
    r: "canonical_set canon (map artifact_doc artifacts) = Inr ads"
      "canonical_set canon (map (named_value_doc nfc) (ri_facts runtime)) = Inr fs"
      "canonical_set canon (map (smoke_doc nfc) smoke) = Inr sds"
      "canonical_set canon (map capability_doc (pd_capabilities provider)) = Inr cds"
      "canonical_set canon (map (named_value_doc nfc) (ri_relevant_configuration runtime)) = Inr cfg"
    unfolding fingerprint_def normalized_values_def Let_def ebind_eq_Inr by blast
  have c: "canonical_set canon (map artifact_doc artifacts') = Inr ads"
      "canonical_set canon (map (named_value_doc nfc) facts) = Inr fs"
      "canonical_set canon (map (smoke_doc nfc) smoke') = Inr sds"
      "canonical_set canon (map capability_doc caps) = Inr cds"
      "canonical_set canon (map (named_value_doc nfc) config) = Inr cfg"
    using cong [OF same(1) [symmetric] flat_docs(1) r(1)] cong [OF same(2) [symmetric] flat_docs(2) r(2)]
      cong [OF same(3) [symmetric] flat_docs(3) r(3)] cong [OF same(5) [symmetric] flat_docs(4) r(4)]
      cong [OF same(4) [symmetric] flat_docs(2) r(5)] by blast+
  from run r c show ?thesis
    by (auto simp: fingerprint_def normalized_values_def Let_def HASH_POLICY_def)
qed

end
