(* ===== verification/Environment_Manager.thy ===== *)
theory Environment_Manager
  imports Environment_Fingerprint
begin

text \<open>
  \<open>EnvironmentManager\<close> of \<open>environment_manager.py\<close>: planning, admission, realization with its
  verification stages, rollback, cancellation, release and diagnosis.

  Every operation is an action on the world. The \<open>try\<close> block of \<open>realize\<close> is a list of
  statements over the local variables \<open>current\<close>, \<open>handle\<close>, \<open>acquisition\<close>, ... : a statement that
  raises leaves the locals as the previous statement left them, which is what the handler of
  the block sees. The texts of verification errors are their constant parts.
\<close>

definition BASE_READY_CAPABILITIES :: "string list" where
  "BASE_READY_CAPABILITIES = [''acquisition'', ''artifact-digest-visibility'', ''construction'', ''diagnostics'',
     ''rollback'', ''runtime-identity'', ''safe-release'', ''smoke-verification'']"

definition MUTATED_STATES :: "string list" where
  "MUTATED_STATES = [''acquiring'', ''verifying_artifacts'', ''artifacts_verified'', ''constructing'', ''constructed'',
     ''verifying_runtime'', ''runtime_verified'', ''verifying_smoke'', ''smoke_verified'', ''fingerprinting'',
     ''ready'', ''releasing'', ''release_failed'', ''cleanup_required'']"

section \<open>Transitions and events\<close>

definition terminal_status :: "string \<Rightarrow> string option" where
  "terminal_status state =
     (if state = ''cancelled'' then Some ''cancelled''
      else if state = ''cleanup_required'' then Some ''failed''
      else if state = ''failed'' then Some ''failed''
      else if state = ''rejected'' then Some ''refused''
      else if state = ''release_failed'' then Some ''failed''
      else if state = ''released'' then Some ''completed''
      else None)"

definition transition_event :: "lifecycle_record \<Rightarrow> lifecycle_transition \<Rightarrow> event_draft" where
  "transition_event r t = \<lparr>
     evd_stream_id = lr_transaction_id r, evd_operation_kind = ''environment-lifecycle'',
     evd_event_type = ''lifecycle'',
     evd_phase = map (\<lambda>c. if c = CHR ''_'' then CHR ''-'' else c) (lr_state r),
     evd_status = (case terminal_status (lr_state r) of None \<Rightarrow> ''running'' | Some s \<Rightarrow> s),
     evd_message = ''environment lifecycle entered '' @ lr_state r,
     evd_from_state = lt_from_state t, evd_provider_name = pd_name (lr_provider r),
     evd_recipe_revision_id = rc_recipe_revision_id (lr_recipe r),
     evd_to_state = lt_to_state t, evd_transition_sequence = lt_sequence t,
     evd_terminal = (terminal_status (lr_state r) \<noteq> None)\<rparr>"

definition emit_transition :: "manager \<Rightarrow> lifecycle_record \<Rightarrow> lifecycle_transition \<Rightarrow> unit action" where
  "emit_transition mg r t w =
     (case mg_publisher mg of
        None \<Rightarrow> (Inr (), w)
      | Some publish \<Rightarrow>
          (case publish (w_events w) (transition_event r t) of
             Some e \<Rightarrow> (Inl e, w)
           | None \<Rightarrow> (Inr (), w\<lparr>w_events := w_events w @ [transition_event r t]\<rparr>)))"

definition record_transition ::
    "manager \<Rightarrow> int \<Rightarrow> string option \<Rightarrow> string \<Rightarrow> string \<Rightarrow> lifecycle_transition action" where
  "record_transition mg seq from_state state detail =
     act_bind (clock_now mg) (\<lambda>now.
     act_bind (act_lift (rfc3339 now)) (\<lambda>observed_at.
     act_lift (construct lifecycle_transition_post_init
       \<lparr>lt_sequence = seq, lt_from_state = from_state, lt_to_state = state,
        lt_observed_at = observed_at, lt_detail = detail\<rparr>)))"

definition transition :: "manager \<Rightarrow> lifecycle_record \<Rightarrow> string \<Rightarrow> string \<Rightarrow> lifecycle_record action" where
  "transition mg r state detail =
     act_bind (record_transition mg (int (length (lr_transitions r)) + 1) (Some (lr_state r)) state detail) (\<lambda>t.
     act_bind (act_lift (construct lifecycle_record_post_init
       (r\<lparr>lr_state := state, lr_transitions := lr_transitions r @ [t]\<rparr>))) (\<lambda>updated.
     act_bind (emit_transition mg updated t) (\<lambda>_. act_return updated)))"

definition initial_record ::
    "manager \<Rightarrow> string \<Rightarrow> environment_recipe \<Rightarrow> provider_descriptor \<Rightarrow> string \<Rightarrow> lifecycle_failure option \<Rightarrow>
     string list \<Rightarrow> lifecycle_record action" where
  "initial_record mg transaction_id recipe descriptor state failure diagnostics =
     act_bind (record_transition mg 1 None state (''environment '' @ state)) (\<lambda>t.
     act_bind (act_lift (construct lifecycle_record_post_init
       \<lparr>lr_transaction_id = transaction_id, lr_state = state, lr_recipe = recipe, lr_provider = descriptor,
        lr_plan = None, lr_admission = None, lr_provider_handle = None, lr_verified_artifacts = [],
        lr_runtime_identity = None, lr_smoke_observations = [], lr_verification_digest = None,
        lr_environment_fingerprint_id = None, lr_transitions = [t], lr_failure = failure,
        lr_rollback = None, lr_diagnostics = diagnostics\<rparr>)) (\<lambda>r.
     act_bind (emit_transition mg r t) (\<lambda>_. act_return r)))"

text \<open>\<open>replace(record, ...)\<close> builds a new record, so the validator runs again.\<close>

definition replace_record :: "lifecycle_record \<Rightarrow> lifecycle_record action" where
  "replace_record r = act_lift (construct lifecycle_record_post_init r)"

definition require_state :: "lifecycle_record \<Rightarrow> string list \<Rightarrow> string \<Rightarrow> unit action" where
  "require_state r allowed operation =
     act_lift (if lr_state r \<in> set allowed then Inr ()
               else Inl (InvalidLifecycleTransition (''cannot '' @ operation @ '' environment from '' @ lr_state r)))"

definition new_failure :: "string \<Rightarrow> string \<Rightarrow> string \<Rightarrow> bool \<Rightarrow> lifecycle_failure action" where
  "new_failure classification code message cleanup_required =
     act_lift (construct lifecycle_failure_post_init
       \<lparr>lf_classification = classification, lf_code = code, lf_message = message,
        lf_cleanup_required = cleanup_required\<rparr>)"

section \<open>Planning\<close>

text \<open>\<open>separator.join(parts)\<close>.\<close>

fun join_text :: "string \<Rightarrow> string list \<Rightarrow> string" where
  "join_text sep [] = []"
| "join_text sep [d] = d"
| "join_text sep (d # e # ds) = d @ sep @ join_text sep (e # ds)"

text \<open>The representation of a string without quotes and backslashes, as \<open>!r\<close> writes it.\<close>

definition py_repr :: "string \<Rightarrow> string" where
  "py_repr s = CHR 0x27 # s @ [CHR 0x27]"

definition capability_gap :: "provider_descriptor \<Rightarrow> string \<Rightarrow> string list" where
  "capability_gap descriptor name =
     (case descriptor_capability descriptor name of
        None \<Rightarrow> [name @ ''=absent'']
      | Some c \<Rightarrow> (if ec_status c \<noteq> ''supported'' then [name @ ''='' @ ec_status c] else []))"

definition provider_incompatibility :: "environment_recipe \<Rightarrow> provider_descriptor \<Rightarrow> string option" where
  "provider_incompatibility recipe descriptor =
     (if pd_strategy descriptor \<noteq> rc_strategy recipe
      then Some (''provider strategy '' @ py_repr (pd_strategy descriptor) @
                 '' does not realize recipe strategy '' @ py_repr (rc_strategy recipe))
      else
        let required = sort (remdups (BASE_READY_CAPABILITIES @ rc_required_capabilities recipe));
            failures = concat (map (capability_gap descriptor) required)
        in if failures \<noteq> []
           then Some (''provider cannot satisfy required capabilities: '' @ join_text '', '' failures)
           else None)"

definition checked_plan :: "provider_descriptor \<Rightarrow> provider_plan result \<Rightarrow> provider_plan result" where
  "checked_plan descriptor r =
     ebind r (\<lambda>plan.
       if pp_provider_name plan \<noteq> pd_name descriptor
       then Inl (LifecycleVerificationError ''provider-plan-identity-mismatch''
                   ''provider plan names a different provider implementation'')
       else if pp_mutation_permitted plan
       then Inl (LifecycleVerificationError ''provider-plan-permits-mutation''
                   ''provider plan incorrectly permits mutation'')
       else Inr plan)"

definition plan_failed ::
    "manager \<Rightarrow> string \<Rightarrow> environment_recipe \<Rightarrow> provider_descriptor \<Rightarrow> exc \<Rightarrow> lifecycle_record action" where
  "plan_failed mg transaction_id recipe descriptor e =
     (case e of
        LifecycleVerificationError code message \<Rightarrow>
          act_bind (new_failure ''verification'' code message False) (\<lambda>f.
            initial_record mg transaction_id recipe descriptor ''rejected'' (Some f) [])
      | ProviderOperationError code message handle diagnostics \<Rightarrow>
          act_bind (new_failure ''provider'' code message False) (\<lambda>f.
            initial_record mg transaction_id recipe descriptor ''failed'' (Some f) diagnostics)
      | _ \<Rightarrow>
          act_bind (new_failure ''provider'' ''provider-plan-failed'' (exc_text e) False) (\<lambda>f.
            initial_record mg transaction_id recipe descriptor ''failed'' (Some f) []))"

definition plan :: "manager \<Rightarrow> environment_recipe \<Rightarrow> string \<Rightarrow> lifecycle_record action" where
  "plan mg recipe provider_name =
     act_bind (act_lift (registry_get (mg_providers mg) provider_name)) (\<lambda>provider.
     act_bind (\<lambda>w. (mg_new_id mg (w_ticks w), w)) (\<lambda>transaction_id.
     let descriptor = pv_descriptor provider in
     case provider_incompatibility recipe descriptor of
       Some incompatibility \<Rightarrow>
         act_bind (new_failure ''input'' ''provider-capability-mismatch'' incompatibility False) (\<lambda>f.
           initial_record mg transaction_id recipe descriptor ''rejected'' (Some f) [])
     | None \<Rightarrow>
         act_bind (\<lambda>w. case provider_call CallPlan (\<lambda>h. checked_plan descriptor (pv_plan provider h recipe)) w of
                       (r, w') \<Rightarrow> (Inr r, w')) (\<lambda>outcome.
           case outcome of
             Inl e \<Rightarrow> plan_failed mg transaction_id recipe descriptor e
           | Inr p \<Rightarrow>
               act_bind (initial_record mg transaction_id recipe descriptor ''planned'' None []) (\<lambda>r.
                 replace_record (r\<lparr>lr_plan := Some p, lr_diagnostics := pp_diagnostics p\<rparr>)))))"

definition admit :: "manager \<Rightarrow> lifecycle_record \<Rightarrow> admission_decision \<Rightarrow> lifecycle_record action" where
  "admit mg r decision =
     act_bind (require_state r [''planned''] ''admit'') (\<lambda>_.
     if \<not> ad_admitted decision
     then act_bind (new_failure ''admission'' ''admission-denied'' (ad_reason decision) False) (\<lambda>f.
          act_bind (replace_record (r\<lparr>lr_admission := Some decision, lr_failure := Some f\<rparr>)) (\<lambda>r.
            transition mg r ''rejected'' (ad_reason decision)))
     else act_bind (replace_record (r\<lparr>lr_admission := Some decision\<rparr>)) (\<lambda>r.
            transition mg r ''admitted'' (ad_reason decision)))"

section \<open>Verification\<close>

text \<open>The dictionary \<open>{item.name: item}\<close>: the last item of a name wins.\<close>

definition last_named :: "('a \<Rightarrow> string) \<Rightarrow> 'a list \<Rightarrow> string \<Rightarrow> 'a option" where
  "last_named name items n = find (\<lambda>i. name i = n) (rev items)"

text \<open>The read loop: the bytes hashed and the size counted; reading stops beyond the expected size.\<close>

fun read_chunks :: "int \<Rightarrow> nat list \<Rightarrow> int \<Rightarrow> nat list option list \<Rightarrow> (nat list \<times> int) result" where
  "read_chunks expected hashed n [] = Inr (hashed, n)"
| "read_chunks expected hashed n (None # cs) =
     Inl (LifecycleVerificationError ''artifact-read-failed'' ''artifact could not be read'')"
| "read_chunks expected hashed n (Some chunk # cs) =
     (if chunk = [] then Inr (hashed, n)
      else if n + int (length chunk) > expected then Inr (hashed, n + int (length chunk))
      else read_chunks expected (hashed @ chunk) (n + int (length chunk)) cs)"

definition hash_regular_artifact :: "(nat list \<Rightarrow> string) \<Rightarrow> file_view \<Rightarrow> int \<Rightarrow> (string \<times> int) result" where
  "hash_regular_artifact sha view expected_size =
     (case fv_lstat view of
        None \<Rightarrow> Inl (LifecycleVerificationError ''artifact-read-failed'' ''artifact could not be read'')
      | Some before \<Rightarrow>
          if \<not> st_regular before
          then Inl (LifecycleVerificationError ''artifact-path-unsafe'' ''artifact is not a regular non-symlink file'')
          else (case fv_fstat view of
             None \<Rightarrow> Inl (LifecycleVerificationError ''artifact-read-failed'' ''artifact could not be read'')
           | Some opened \<Rightarrow>
               if \<not> st_regular opened \<or> (st_dev before, st_ino before) \<noteq> (st_dev opened, st_ino opened)
               then Inl (LifecycleVerificationError ''artifact-path-unsafe''
                           ''artifact changed identity during verification'')
               else if st_size opened \<noteq> expected_size then Inr (sha [], st_size opened)
               else ebind (read_chunks expected_size [] 0 (fv_chunks view))
                      (\<lambda>(hashed, size). Inr (sha hashed, size))))"

definition verify_artifact :: "manager \<Rightarrow> artifact_requirement \<Rightarrow> artifact_observation \<Rightarrow> verified_artifact result" where
  "verify_artifact mg requirement observation =
     ebind (hash_regular_artifact (mg_sha256 mg) (mg_files mg (ao_path observation)) (ar_size_bytes requirement))
       (\<lambda>(actual_digest, size).
       if size \<noteq> ar_size_bytes requirement \<or> actual_digest \<noteq> ar_sha256 requirement
       then Inl (LifecycleVerificationError ''artifact-identity-mismatch''
                   ''artifact does not match its pinned size and digest'')
       else construct verified_artifact_post_init
         \<lparr>va_name = ar_name requirement, va_sha256 = actual_digest, va_size_bytes = size,
          va_media_type = ar_media_type requirement\<rparr>)"

definition verify_artifacts ::
    "manager \<Rightarrow> artifact_requirement list \<Rightarrow> artifact_observation list \<Rightarrow> verified_artifact list result" where
  "verify_artifacts mg requirements observations =
     (let expected = remdups (map ar_name requirements);
          observed = remdups (map ao_name observations)
      in
      if length observed \<noteq> length observations
      then Inl (LifecycleVerificationError ''artifact-identity-collision'' ''provider returned duplicate artifact names'')
      else if (\<exists>n \<in> set expected. n \<notin> set observed) \<or> (\<exists>n \<in> set observed. n \<notin> set expected)
      then Inl (LifecycleVerificationError ''artifact-set-mismatch'' ''artifact set mismatch'')
      else mapE (\<lambda>n. verify_artifact mg (the (last_named ar_name requirements n)) (the (last_named ao_name observations n)))
             (sort expected))"

definition verify_named_values :: "string \<Rightarrow> named_value list \<Rightarrow> named_value list \<Rightarrow> exc option" where
  "verify_named_values label expected_values actual_values = first_exc [
     raise_if (length (remdups (map nv_name actual_values)) \<noteq> length actual_values)
       (LifecycleVerificationError (label @ ''-identity-collision'') ''duplicate fact names''),
     raise_if (\<exists>n \<in> set (map nv_name expected_values).
         case last_named nv_name actual_values n of
           None \<Rightarrow> True
         | Some v \<Rightarrow> map_option nv_value (last_named nv_name expected_values n) \<noteq> Some (nv_value v))
       (LifecycleVerificationError (label @ ''-identity-mismatch'') ''identity mismatch'')]"

definition verify_runtime :: "environment_recipe \<Rightarrow> provider_descriptor \<Rightarrow> runtime_identity \<Rightarrow> exc option" where
  "verify_runtime recipe descriptor runtime = first_exc [
     raise_if (ri_strategy runtime \<noteq> rc_strategy recipe \<or> ri_strategy runtime \<noteq> pd_strategy descriptor)
       (LifecycleVerificationError ''runtime-strategy-mismatch'' ''realized runtime strategy is not the planned strategy''),
     raise_if (ri_provider_implementation_digest runtime \<noteq> pd_implementation_digest descriptor)
       (LifecycleVerificationError ''provider-implementation-mismatch''
          ''runtime inspection does not bind the selected provider implementation''),
     raise_if (ri_isolation_policy_digest runtime \<noteq> rc_isolation_policy_digest recipe)
       (LifecycleVerificationError ''isolation-policy-mismatch'' ''realized isolation policy differs from the recipe''),
     raise_if (ri_network_policy runtime \<noteq> rc_network_policy recipe)
       (LifecycleVerificationError ''network-policy-mismatch'' ''realized network policy differs from the recipe''),
     verify_named_values ''runtime'' (rc_expected_runtime_facts recipe) (ri_facts runtime),
     verify_named_values ''configuration'' (rc_expected_configuration recipe) (ri_relevant_configuration runtime)]"

definition verify_smoke :: "environment_recipe \<Rightarrow> smoke_observation list \<Rightarrow> exc option" where
  "verify_smoke recipe observations = first_exc [
     raise_if (length (remdups (map so_probe_id observations)) \<noteq> length observations)
       (LifecycleVerificationError ''smoke-identity-collision'' ''duplicate smoke probe IDs''),
     raise_if (\<exists>n \<in> set (rc_smoke_probe_ids recipe).
         case last_named so_probe_id observations n of None \<Rightarrow> True | Some b \<Rightarrow> \<not> so_passed b)
       (LifecycleVerificationError ''smoke-verification-failed'' ''required smoke verification failed'')]"

section \<open>Rollback\<close>

definition rollback ::
    "manager \<Rightarrow> lifecycle_record \<Rightarrow> provider \<Rightarrow> string option \<Rightarrow> lifecycle_failure \<Rightarrow> bool \<Rightarrow> lifecycle_record action" where
  "rollback mg r provider handle failure cancelled =
     act_bind (\<lambda>w. case provider_call (CallRollback handle (lr_transaction_id r))
                       (\<lambda>h. pv_rollback provider h handle (lr_transaction_id r)) w of
                   (b, w') \<Rightarrow> (Inr (outcome_of b), w')) (\<lambda>outcome.
     let failure = (if po_succeeded outcome then failure else failure\<lparr>lf_cleanup_required := True\<rparr>);
         target = (if \<not> po_succeeded outcome then ''cleanup_required''
                   else if cancelled then ''cancelled'' else ''failed'');
         detail = (if \<not> po_succeeded outcome then ''rollback could not prove cleanup; reconciliation is required''
                   else if cancelled then ''provider rollback completed after cancellation''
                   else ''provider rollback completed after failure'')
     in act_bind (replace_record (r\<lparr>lr_provider_handle := or_handle handle (lr_provider_handle r),
            lr_failure := Some failure, lr_rollback := Some outcome,
            lr_diagnostics := lr_diagnostics r @ po_diagnostics outcome\<rparr>)) (\<lambda>r.
          transition mg r target detail))"

definition fail_with_rollback ::
    "manager \<Rightarrow> lifecycle_record \<Rightarrow> provider \<Rightarrow> exc \<Rightarrow> string option \<Rightarrow> lifecycle_record action" where
  "fail_with_rollback mg r provider e handle =
     (case e of
        LifecycleVerificationError code message \<Rightarrow>
          act_bind (new_failure ''verification'' code message False) (\<lambda>f. rollback mg r provider handle f False)
      | ProviderOperationError code message cleanup_handle diagnostics \<Rightarrow>
          act_bind (new_failure ''provider'' code message False) (\<lambda>f.
          act_bind (replace_record (r\<lparr>lr_diagnostics := lr_diagnostics r @ diagnostics\<rparr>)) (\<lambda>r.
            rollback mg r provider (or_handle cleanup_handle handle) f False))
      | _ \<Rightarrow>
          act_bind (new_failure ''provider'' ''provider-operation-failed'' (exc_text e) False) (\<lambda>f.
            rollback mg r provider handle f False))"

section \<open>Realization\<close>

record realize_locals =
  rl_current :: lifecycle_record
  rl_handle :: "string option"
  rl_acquisition :: provider_acquisition
  rl_verified :: "verified_artifact list"
  rl_runtime :: runtime_identity
  rl_smoke :: "smoke_observation list"
  rl_fingerprint :: fingerprint_result

type_synonym statement = "realize_locals \<Rightarrow> realize_locals action"

text \<open>Running a block: the locals at its end, or the exception with the locals before the statement that raised it.\<close>

fun run_block :: "statement list \<Rightarrow> realize_locals \<Rightarrow> world \<Rightarrow> ((exc \<times> realize_locals) + realize_locals) \<times> world" where
  "run_block [] l w = (Inr l, w)"
| "run_block (s # ss) l w =
     (case s l w of (Inl e, w') \<Rightarrow> (Inl (e, l), w') | (Inr l', w') \<Rightarrow> run_block ss l' w')"

definition to_state :: "manager \<Rightarrow> string \<Rightarrow> string \<Rightarrow> statement" where
  "to_state mg state detail l =
     act_bind (transition mg (rl_current l) state detail) (\<lambda>r. act_return (l\<lparr>rl_current := r\<rparr>))"

definition set_current :: "(realize_locals \<Rightarrow> lifecycle_record) \<Rightarrow> statement" where
  "set_current f l = act_bind (replace_record (f l)) (\<lambda>r. act_return (l\<lparr>rl_current := r\<rparr>))"

definition check :: "(realize_locals \<Rightarrow> exc option) \<Rightarrow> statement" where
  "check f l = act_lift (case f l of None \<Rightarrow> Inr l | Some e \<Rightarrow> Inl e)"

definition call_acquire :: "provider \<Rightarrow> lifecycle_record \<Rightarrow> statement" where
  "call_acquire provider r l =
     act_bind (provider_call (CallAcquire (lr_transaction_id r))
       (\<lambda>h. pv_acquire provider h (lr_recipe r) (the (lr_plan r)) (lr_transaction_id r)))
       (\<lambda>a. act_return (l\<lparr>rl_acquisition := a\<rparr>))"

definition call_construct :: "provider \<Rightarrow> lifecycle_record \<Rightarrow> statement" where
  "call_construct provider r l =
     act_bind (provider_call (CallConstruct (lr_transaction_id r))
       (\<lambda>h. pv_construct provider h (lr_recipe r) (rl_acquisition l) (lr_transaction_id r)))
       (\<lambda>handle. act_return (l\<lparr>rl_handle := Some handle\<rparr>))"

definition call_inspect :: "provider \<Rightarrow> lifecycle_record \<Rightarrow> statement" where
  "call_inspect provider r l =
     act_bind (provider_call (CallInspect (the (rl_handle l)) (lr_transaction_id r))
       (\<lambda>h. pv_inspect_runtime provider h (lr_recipe r) (the (rl_handle l)) (lr_transaction_id r)))
       (\<lambda>runtime. act_return (l\<lparr>rl_runtime := runtime\<rparr>))"

definition call_smoke :: "provider \<Rightarrow> lifecycle_record \<Rightarrow> statement" where
  "call_smoke provider r l =
     act_bind (provider_call (CallSmoke (the (rl_handle l)) (lr_transaction_id r))
       (\<lambda>h. pv_smoke_verify provider h (lr_recipe r) (the (rl_handle l)) (lr_transaction_id r)))
       (\<lambda>smoke. act_return (l\<lparr>rl_smoke := smoke\<rparr>))"

definition take_fingerprint :: "manager \<Rightarrow> lifecycle_record \<Rightarrow> statement" where
  "take_fingerprint mg r l =
     act_lift (case fingerprint (mg_canonical mg) (mg_nfc mg) (mg_sha256 mg) (lr_recipe r) (lr_provider r)
                      (rl_verified l) (rl_runtime l) (rl_smoke l) of
       Inr fr \<Rightarrow> Inr (l\<lparr>rl_fingerprint := fr\<rparr>)
     | Inl (ValueError message) \<Rightarrow> Inl (LifecycleVerificationError ''fingerprint-canonicalization-failed''
         (or_text message ''verified environment fingerprint could not be canonicalized''))
     | Inl e \<Rightarrow> Inl e)"

text \<open>The statements of the \<open>try\<close> block, by stage.\<close>

definition acquire_stage :: "manager \<Rightarrow> provider \<Rightarrow> lifecycle_record \<Rightarrow> statement list" where
  "acquire_stage mg provider r = [
     call_acquire provider r,
     (\<lambda>l. act_return (l\<lparr>rl_handle := Some (aq_handle (rl_acquisition l))\<rparr>)),
     set_current (\<lambda>l. (rl_current l)\<lparr>lr_provider_handle := rl_handle l\<rparr>),
     to_state mg ''verifying_artifacts'' ''independent artifact verification started'',
     (\<lambda>l. act_bind (act_lift (verify_artifacts mg (rc_artifacts (lr_recipe r)) (aq_artifacts (rl_acquisition l))))
        (\<lambda>v. act_return (l\<lparr>rl_verified := v\<rparr>))),
     set_current (\<lambda>l. (rl_current l)\<lparr>lr_verified_artifacts := rl_verified l\<rparr>),
     to_state mg ''artifacts_verified'' ''all acquired artifact bytes match the recipe'']"

definition construct_stage :: "manager \<Rightarrow> provider \<Rightarrow> lifecycle_record \<Rightarrow> statement list" where
  "construct_stage mg provider r = [
     to_state mg ''constructing'' ''provider construction started'',
     call_construct provider r,
     check (\<lambda>l. raise_if (rl_handle l = Some [])
        (LifecycleVerificationError ''empty-provider-handle'' ''provider construction returned an empty handle'')),
     set_current (\<lambda>l. (rl_current l)\<lparr>lr_provider_handle := rl_handle l\<rparr>),
     to_state mg ''constructed'' ''provider construction completed'']"

definition runtime_stage :: "manager \<Rightarrow> provider \<Rightarrow> lifecycle_record \<Rightarrow> statement list" where
  "runtime_stage mg provider r = [
     to_state mg ''verifying_runtime'' ''runtime identity inspection started'',
     call_inspect provider r,
     check (\<lambda>l. verify_runtime (lr_recipe r) (lr_provider r) (rl_runtime l)),
     set_current (\<lambda>l. (rl_current l)\<lparr>lr_runtime_identity := Some (rl_runtime l)\<rparr>),
     to_state mg ''runtime_verified'' ''runtime identity matches recipe requirements'']"

definition smoke_stage :: "manager \<Rightarrow> provider \<Rightarrow> lifecycle_record \<Rightarrow> statement list" where
  "smoke_stage mg provider r = [
     to_state mg ''verifying_smoke'' ''identity smoke verification started'',
     call_smoke provider r,
     check (\<lambda>l. verify_smoke (lr_recipe r) (rl_smoke l)),
     set_current (\<lambda>l. (rl_current l)\<lparr>lr_smoke_observations := rl_smoke l\<rparr>),
     to_state mg ''smoke_verified'' ''all required non-conformance smoke probes passed'']"

definition fingerprint_stage :: "manager \<Rightarrow> lifecycle_record \<Rightarrow> statement list" where
  "fingerprint_stage mg r = [
     to_state mg ''fingerprinting'' ''verified realized fingerprint derivation started'',
     take_fingerprint mg r,
     set_current (\<lambda>l. (rl_current l)\<lparr>lr_verification_digest := Some (fr_verification_digest (rl_fingerprint l)),
        lr_environment_fingerprint_id := Some (fr_environment_fingerprint_id (rl_fingerprint l))\<rparr>)]"

definition ready_statement :: "manager \<Rightarrow> statement" where
  "ready_statement mg = to_state mg ''ready'' ''artifact, runtime, smoke, and fingerprint verification passed''"

definition realize_block :: "manager \<Rightarrow> provider \<Rightarrow> lifecycle_record \<Rightarrow> statement list" where
  "realize_block mg provider r = acquire_stage mg provider r @ construct_stage mg provider r @
     runtime_stage mg provider r @ smoke_stage mg provider r @ fingerprint_stage mg r @ [ready_statement mg]"

text \<open>Locals that are not assigned yet; no statement reads one before it is assigned.\<close>

definition initial_locals :: "lifecycle_record \<Rightarrow> realize_locals" where
  "initial_locals r = \<lparr>rl_current = r, rl_handle = None, rl_acquisition = \<lparr>aq_handle = [], aq_artifacts = []\<rparr>,
     rl_verified = [], rl_runtime = \<lparr>ri_strategy = [], ri_provider_implementation_digest = [], ri_facts = [],
       ri_relevant_configuration = [], ri_isolation_policy_digest = [], ri_network_policy = []\<rparr>,
     rl_smoke = [], rl_fingerprint = \<lparr>fr_environment_fingerprint_id = [], fr_verification_digest = [],
       fr_identity = JNull, fr_canonical_utf8 = []\<rparr>\<rparr>"

definition realize :: "manager \<Rightarrow> lifecycle_record \<Rightarrow> lifecycle_record action" where
  "realize mg r =
     act_bind (require_state r [''admitted''] ''realize'') (\<lambda>_.
     if lr_plan r = None \<or> (case lr_admission r of None \<Rightarrow> True | Some d \<Rightarrow> \<not> ad_admitted d)
     then act_lift (Inl (InvalidLifecycleTransition ''realization requires an admitted provider plan''))
     else
       act_bind (act_lift (registry_get (mg_providers mg) (pd_name (lr_provider r)))) (\<lambda>provider.
       act_bind (transition mg r ''acquiring'' ''provider acquisition started'') (\<lambda>current w.
         case run_block (realize_block mg provider r) (initial_locals current) w of
           (Inr l, w') \<Rightarrow> (Inr (rl_current l), w')
         | (Inl (e, l), w') \<Rightarrow> fail_with_rollback mg (rl_current l) provider e (rl_handle l) w')))"

section \<open>Cancellation, release and diagnosis\<close>

definition cancel :: "manager \<Rightarrow> lifecycle_record \<Rightarrow> string \<Rightarrow> lifecycle_record action" where
  "cancel mg r reason =
     (if reason = [] then act_lift (Inl (ValueError ''cancellation reason is required''))
      else if lr_state r \<in> {''planned'', ''admitted''}
      then act_bind (new_failure ''cancelled'' ''operation-cancelled'' reason False) (\<lambda>f.
           act_bind (replace_record (r\<lparr>lr_failure := Some f\<rparr>)) (\<lambda>r. transition mg r ''cancelled'' reason))
      else if lr_state r \<notin> set MUTATED_STATES
      then act_lift (Inl (InvalidLifecycleTransition (''cannot cancel environment from '' @ lr_state r)))
      else act_bind (act_lift (registry_get (mg_providers mg) (pd_name (lr_provider r)))) (\<lambda>provider.
           act_bind (new_failure ''cancelled'' ''operation-cancelled'' reason False) (\<lambda>f.
             rollback mg r provider (lr_provider_handle r) f True)))"

definition release :: "manager \<Rightarrow> lifecycle_record \<Rightarrow> lifecycle_record action" where
  "release mg r =
     act_bind (require_state r [''ready''] ''release'') (\<lambda>_.
     act_bind (act_lift (registry_get (mg_providers mg) (pd_name (lr_provider r)))) (\<lambda>provider.
     act_bind (transition mg r ''releasing'' ''provider release started'') (\<lambda>current.
     let handle = (case lr_provider_handle r of None \<Rightarrow> [] | Some s \<Rightarrow> s) in
     act_bind (\<lambda>w. case provider_call (CallRelease handle (lr_transaction_id r))
                       (\<lambda>h. pv_release provider h handle (lr_transaction_id r)) w of
                   (b, w') \<Rightarrow> (Inr (outcome_of b), w')) (\<lambda>outcome.
     if \<not> po_succeeded outcome
     then act_bind (new_failure ''provider'' ''provider-release-failed'' (join_text ''; '' (po_diagnostics outcome)) True)
            (\<lambda>f. act_bind (replace_record (current\<lparr>lr_failure := Some f,
                   lr_diagnostics := lr_diagnostics current @ po_diagnostics outcome\<rparr>)) (\<lambda>r.
              transition mg r ''release_failed'' ''provider could not prove safe release''))
     else act_bind (replace_record (current\<lparr>lr_diagnostics := lr_diagnostics current @ po_diagnostics outcome\<rparr>)) (\<lambda>r.
            transition mg r ''released'' ''provider release completed'')))))"

definition diagnose :: "manager \<Rightarrow> lifecycle_record \<Rightarrow> environment_diagnosis action" where
  "diagnose mg r =
     act_bind (act_lift (registry_get (mg_providers mg) (pd_name (lr_provider r)))) (\<lambda>provider.
     act_bind (\<lambda>w. case provider_call (CallDiagnose (lr_provider_handle r) (lr_transaction_id r))
                       (\<lambda>h. pv_diagnose provider h (lr_provider_handle r) (lr_transaction_id r)) w of
                   (Inl e, w') \<Rightarrow> (Inr (''unknown'', [''provider diagnosis failed: '' @ exc_text e]), w')
                 | (Inr d, w') \<Rightarrow> (Inr (pdg_status d, pdg_diagnostics d), w')) (\<lambda>(status, diagnostics).
     act_lift (construct environment_diagnosis_post_init
       \<lparr>ed_transaction_id = lr_transaction_id r, ed_state = lr_state r, ed_provider_name = pd_name (lr_provider r),
        ed_provider_status = status,
        ed_diagnostics = lr_diagnostics r @
          (case lr_failure r of None \<Rightarrow> [] | Some f \<Rightarrow> [lf_code f @ '': '' @ lf_message f]) @ diagnostics,
        ed_failure_code = map_option lf_code (lr_failure r)\<rparr>)))"

end
