(* ===== verification/Environment_Lifecycle.thy ===== *)
theory Environment_Lifecycle
  imports Environment_Manager
begin

text \<open>
  What the environment manager guarantees: every operation extends the transition log of a
  record by a connected chain of transitions and publishes exactly one event per transition;
  a Ready environment has passed every verification stage; a realization that fails is rolled
  back exactly once.
\<close>

section \<open>Advancing a record\<close>

text \<open>Transitions that start in a state and connect.\<close>

fun chain :: "string \<Rightarrow> lifecycle_transition list \<Rightarrow> bool" where
  "chain s [] \<longleftrightarrow> True"
| "chain s (t # ts) \<longleftrightarrow> lt_from_state t = Some s \<and> chain (lt_to_state t) ts"

fun end_state :: "string \<Rightarrow> lifecycle_transition list \<Rightarrow> string" where
  "end_state s [] = s"
| "end_state s (t # ts) = end_state (lt_to_state t) ts"

lemma chain_append [simp]: "chain s (ts @ us) \<longleftrightarrow> chain s ts \<and> chain (end_state s ts) us"
  by (induction ts arbitrary: s) auto

lemma end_state_append [simp]: "end_state s (ts @ us) = end_state (end_state s ts) us"
  by (induction ts arbitrary: s) auto

text \<open>The event of a transition; it depends only on the identity of the record.\<close>

definition event_for :: "lifecycle_record \<Rightarrow> lifecycle_transition \<Rightarrow> event_draft" where
  "event_for r t = transition_event (r\<lparr>lr_state := lt_to_state t\<rparr>) t"

definition same_identity :: "lifecycle_record \<Rightarrow> lifecycle_record \<Rightarrow> bool" where
  "same_identity r r' \<longleftrightarrow> lr_transaction_id r' = lr_transaction_id r \<and> lr_recipe r' = lr_recipe r \<and>
     lr_provider r' = lr_provider r"

lemma event_for_same: "same_identity r r' \<Longrightarrow> event_for r' = event_for r"
  by (auto simp: same_identity_def event_for_def transition_event_def fun_eq_iff)

lemma same_identity_refl [simp]: "same_identity r r"
  by (simp add: same_identity_def)

lemma same_identity_trans: "same_identity a b \<Longrightarrow> same_identity b c \<Longrightarrow> same_identity a c"
  by (simp add: same_identity_def)

definition published :: "manager \<Rightarrow> lifecycle_record \<Rightarrow> lifecycle_transition list \<Rightarrow> event_draft list" where
  "published mg r ts = (if mg_publisher mg = None then [] else map (event_for r) ts)"

definition advances ::
    "manager \<Rightarrow> lifecycle_record \<Rightarrow> world \<Rightarrow> lifecycle_record \<Rightarrow> world \<Rightarrow> lifecycle_transition list \<Rightarrow> bool" where
  "advances mg r w r' w' ts \<longleftrightarrow> same_identity r r' \<and> lr_transitions r' = lr_transitions r @ ts \<and>
     chain (lr_state r) ts \<and> lr_state r' = end_state (lr_state r) ts \<and>
     w_events w' = w_events w @ published mg r ts"

lemma advances_refl:
  "same_identity r r' \<Longrightarrow> lr_transitions r' = lr_transitions r \<Longrightarrow> lr_state r' = lr_state r \<Longrightarrow>
     w_events w' = w_events w \<Longrightarrow> advances mg r w r' w' []"
  by (simp add: advances_def published_def)

lemma advances_trans:
  "advances mg r w r' w' ts \<Longrightarrow> advances mg r' w' r'' w'' us \<Longrightarrow> advances mg r w r'' w'' (ts @ us)"
  by (auto simp: advances_def published_def event_for_same intro: same_identity_trans)

text \<open>What a successful transition does.\<close>

lemma emit_Inr:
  assumes "emit_transition mg r t w = (Inr u, w')"
  shows "w_calls w' = w_calls w \<and>
     w_events w' = w_events w @ (if mg_publisher mg = None then [] else [transition_event r t])"
  using assms by (auto simp: emit_transition_def split: option.splits)

lemma emit_Inl: "emit_transition mg r t w = (Inl e, w') \<Longrightarrow> w' = w"
  by (auto simp: emit_transition_def split: option.splits)

lemma record_transition_Inr:
  assumes "record_transition mg n f s d w = (Inr t, w')"
  shows "lt_sequence t = n \<and> lt_from_state t = f \<and> lt_to_state t = s \<and> lt_detail t = d \<and>
     w_calls w' = w_calls w \<and> w_events w' = w_events w"
  using assms by (auto simp: record_transition_def clock_now_def)

lemma record_transition_Inl:
  "record_transition mg n f s d w = (Inl e, w') \<Longrightarrow> w_calls w' = w_calls w \<and> w_events w' = w_events w"
  by (auto simp: record_transition_def act_bind_Inl clock_now_def)

lemma transition_Inr:
  assumes "transition mg r s d w = (Inr r', w')"
  obtains t where "r' = r\<lparr>lr_state := s, lr_transitions := lr_transitions r @ [t]\<rparr>"
    "lt_from_state t = Some (lr_state r)" "lt_to_state t = s" "lifecycle_record_post_init r' = None"
    "w_calls w' = w_calls w" "advances mg r w r' w' [t]"
proof -
  from assms obtain t v where t: "record_transition mg (int (length (lr_transitions r)) + 1) (Some (lr_state r)) s d w = (Inr t, v)"
    and ok: "lifecycle_record_post_init (r\<lparr>lr_state := s, lr_transitions := lr_transitions r @ [t]\<rparr>) = None"
    and r': "r' = r\<lparr>lr_state := s, lr_transitions := lr_transitions r @ [t]\<rparr>"
    and e: "emit_transition mg r' t v = (Inr (), w')"
    by (auto simp: transition_def)
  note rt = record_transition_Inr [OF t] and ev = emit_Inr [OF e]
  have "transition_event r' t = event_for r t"
    using rt r' by (auto simp: event_for_def transition_event_def)
  with rt ev r' have "advances mg r w r' w' [t]"
    by (auto simp: advances_def published_def same_identity_def)
  with that [of t] rt ok r' ev show thesis by simp
qed

lemma transition_Inl: "transition mg r s d w = (Inl e, w') \<Longrightarrow> w_calls w' = w_calls w \<and> w_events w' = w_events w"
  by (auto simp: transition_def act_bind_Inl dest!: record_transition_Inl record_transition_Inr emit_Inl)

lemma replace_record_Inr [simp]:
  "replace_record r w = (Inr r', w') \<longleftrightarrow> r' = r \<and> w' = w \<and> lifecycle_record_post_init r = None"
  by (auto simp: replace_record_def)

lemma replace_record_Inl [simp]:
  "replace_record r w = (Inl e, w') \<longleftrightarrow> w' = w \<and> lifecycle_record_post_init r = Some e"
  by (auto simp: replace_record_def construct_def split: option.splits)

lemma new_failure_Inr [simp]:
  "new_failure c k m b w = (Inr f, w') \<longleftrightarrow> w' = w \<and>
     f = \<lparr>lf_classification = c, lf_code = k, lf_message = m, lf_cleanup_required = b\<rparr> \<and>
     lifecycle_failure_post_init f = None"
  by (auto simp: new_failure_def)

lemma require_state_Inr [simp]: "require_state r allowed opn w = (Inr u, w') \<longleftrightarrow> w' = w \<and> lr_state r \<in> set allowed"
  by (auto simp: require_state_def)

section \<open>Statements of the realization block\<close>

locale log_statement =
  fixes mg :: manager and stmt :: statement
  assumes step: "stmt l w = (Inr l', w') \<Longrightarrow>
      \<exists>ts. advances mg (rl_current l) w (rl_current l') w' ts \<and>
        (lifecycle_record_post_init (rl_current l) = None \<longrightarrow> lifecycle_record_post_init (rl_current l') = None)"
    and failed: "stmt l w = (Inl e, w') \<Longrightarrow> w_events w' = w_events w"

lemma to_state_log: "log_statement mg (to_state mg s d)"
proof
  fix l w l' w'
  assume "to_state mg s d l w = (Inr l', w')"
  then obtain r where r: "transition mg (rl_current l) s d w = (Inr r, w')" and l': "l' = l\<lparr>rl_current := r\<rparr>"
    by (auto simp: to_state_def)
  from transition_Inr [OF r] obtain t where "lifecycle_record_post_init r = None"
    "advances mg (rl_current l) w r w' [t]" by metis
  with l' show "\<exists>ts. advances mg (rl_current l) w (rl_current l') w' ts \<and>
      (lifecycle_record_post_init (rl_current l) = None \<longrightarrow> lifecycle_record_post_init (rl_current l') = None)"
    by auto
next
  fix l w e w'
  assume "to_state mg s d l w = (Inl e, w')"
  then show "w_events w' = w_events w" by (auto simp: to_state_def act_bind_Inl dest: transition_Inl)
qed

text \<open>Statements that leave \<open>current\<close> alone, and edits of \<open>current\<close> outside its log.\<close>

lemma set_current_log:
  assumes "\<And>l. same_identity (rl_current l) (f l) \<and> lr_transitions (f l) = lr_transitions (rl_current l) \<and>
      lr_state (f l) = lr_state (rl_current l)"
  shows "log_statement mg (set_current f)"
  by unfold_locales
    (use assms in \<open>auto simp: set_current_def act_bind_Inl intro!: exI [of _ "[]"] advances_refl\<close>)

lemma keep_current_log:
  assumes "\<And>l w x w'. s l w = (x, w') \<Longrightarrow> w_events w' = w_events w"
    and "\<And>l w l' w'. s l w = (Inr l', w') \<Longrightarrow> rl_current l' = rl_current l"
  shows "log_statement mg s"
  using assms by unfold_locales (fastforce intro!: exI [of _ "[]"] advances_refl)+

lemma provider_call_eq: "provider_call c f w = (x, w') \<longleftrightarrow> x = f (w_calls w) \<and> w' = w\<lparr>w_calls := w_calls w @ [c]\<rparr>"
  by (auto simp: provider_call_def)

lemma act_bind_eq:
  "act_bind m f w = (x, w') \<longleftrightarrow>
     (\<exists>e. m w = (Inl e, w') \<and> x = Inl e) \<or> (\<exists>y v. m w = (Inr y, v) \<and> f y v = (x, w'))"
  by (cases x) (auto simp: act_bind_Inl)

lemma call_statements_log:
  "log_statement mg (call_acquire provider r)" "log_statement mg (call_construct provider r)"
  "log_statement mg (call_inspect provider r)" "log_statement mg (call_smoke provider r)"
  by (rule keep_current_log; auto simp: call_acquire_def call_construct_def call_inspect_def call_smoke_def
      act_bind_eq provider_call_eq)+

lemma plain_statements_log:
  "log_statement mg (check c)" "log_statement mg (take_fingerprint mg' r)"
  "log_statement mg (\<lambda>l. act_return (l\<lparr>rl_handle := h l\<rparr>))"
  "log_statement mg (\<lambda>l. act_bind (act_lift (v l)) (\<lambda>x. act_return (l\<lparr>rl_verified := x\<rparr>)))"
  by (rule keep_current_log; auto simp: check_def take_fingerprint_def act_bind_eq
      split: option.splits sum.splits exc.splits)+

interpretation transition_statement: log_statement mg "to_state mg s d" for mg s d
  by (rule to_state_log)

interpretation check_statement: log_statement mg "check c" for mg c
  by (rule plain_statements_log)

text \<open>A block of such statements advances the record, whether it ends or raises.\<close>

definition last_locals :: "(exc \<times> realize_locals) + realize_locals \<Rightarrow> realize_locals" where
  "last_locals res = (case res of Inl (e, l) \<Rightarrow> l | Inr l \<Rightarrow> l)"

lemma run_block_advances:
  assumes "\<forall>s \<in> set ss. log_statement mg s" and "lifecycle_record_post_init (rl_current l) = None"
    and "run_block ss l w = (res, w')"
  shows "\<exists>ts. advances mg (rl_current l) w (rl_current (last_locals res)) w' ts \<and>
    lifecycle_record_post_init (rl_current (last_locals res)) = None"
  using assms
proof (induction ss arbitrary: l w)
  case Nil
  then show ?case by (auto simp: last_locals_def intro!: exI [of _ "[]"] advances_refl)
next
  case (Cons s ss)
  from Cons.prems(1) have ls: "log_statement mg s" and lss: "\<forall>s \<in> set ss. log_statement mg s" by auto
  obtain x w1 where sx: "s l w = (x, w1)" by (cases "s l w")
  show ?case
  proof (cases x)
    case (Inl f)
    with sx Cons.prems have "res = Inl (f, l)" "w' = w1" by auto
    with log_statement.failed [OF ls] sx Inl Cons.prems(2) show ?thesis
      by (auto simp: last_locals_def intro!: exI [of _ "[]"] advances_refl)
  next
    case (Inr l1)
    with sx Cons.prems have ss: "run_block ss l1 w1 = (res, w')" by simp
    from log_statement.step [OF ls] sx Inr Cons.prems(2) obtain ts where
      "advances mg (rl_current l) w (rl_current l1) w1 ts" "lifecycle_record_post_init (rl_current l1) = None" by blast
    with Cons.IH [OF lss _ ss] show ?thesis using advances_trans by blast
  qed
qed

lemmas stage_defs = acquire_stage_def construct_stage_def runtime_stage_def smoke_stage_def fingerprint_stage_def
  ready_statement_def

lemma realize_block_log: "\<forall>s \<in> set (realize_block mg provider r). log_statement mg s"
  unfolding realize_block_def stage_defs
  by (simp add: to_state_log call_statements_log plain_statements_log set_current_log same_identity_def)

section \<open>Operations advance the record\<close>

lemma rollback_Inr:
  assumes "rollback mg r provider handle failure cancelled w = (Inr r', w')"
  defines "tx \<equiv> lr_transaction_id r"
  defines "outcome \<equiv> outcome_of (pv_rollback provider (w_calls w) handle tx)"
  shows "\<exists>t. advances mg r w r' w' [t]" and "lifecycle_record_post_init r' = None"
    and "w_calls w' = w_calls w @ [CallRollback handle tx]"
    and "lr_state r' = (if \<not> po_succeeded outcome then ''cleanup_required'' else if cancelled then ''cancelled'' else ''failed'')"
    and "lr_failure r' = Some (if po_succeeded outcome then failure else failure\<lparr>lf_cleanup_required := True\<rparr>)"
    and "lr_rollback r' = Some outcome"
proof -
  let ?w = "w\<lparr>w_calls := w_calls w @ [CallRollback handle tx]\<rparr>"
  let ?f = "if po_succeeded outcome then failure else failure\<lparr>lf_cleanup_required := True\<rparr>"
  let ?s = "if \<not> po_succeeded outcome then ''cleanup_required'' else if cancelled then ''cancelled'' else ''failed''"
  let ?r = "r\<lparr>lr_provider_handle := or_handle handle (lr_provider_handle r), lr_failure := Some ?f,
     lr_rollback := Some outcome, lr_diagnostics := lr_diagnostics r @ po_diagnostics outcome\<rparr>"
  from assms(1) obtain d where t: "transition mg ?r ?s d ?w = (Inr r', w')"
    by (auto simp: rollback_def Let_def provider_call_eq outcome_def tx_def split: prod.splits)
  from transition_Inr [OF t] obtain u where u: "r' = ?r\<lparr>lr_state := ?s, lr_transitions := lr_transitions ?r @ [u]\<rparr>"
    "lifecycle_record_post_init r' = None" "w_calls w' = w_calls ?w" "advances mg ?r ?w r' w' [u]" by metis
  have "advances mg r w ?r ?w []" by (rule advances_refl) (simp_all add: same_identity_def)
  from advances_trans [OF this u(4)] show "\<exists>t. advances mg r w r' w' [t]" by auto
  show "lifecycle_record_post_init r' = None" by (rule u(2))
  show "w_calls w' = w_calls w @ [CallRollback handle tx]" "lr_state r' = ?s" "lr_failure r' = Some ?f"
    "lr_rollback r' = Some outcome" using u by simp_all
qed

text \<open>The failure a caught exception leaves in the record.\<close>

definition failure_class :: "exc \<Rightarrow> string" where
  "failure_class e = (case e of LifecycleVerificationError _ _ \<Rightarrow> ''verification'' | _ \<Rightarrow> ''provider'')"

lemma fail_with_rollback_Inr:
  assumes "fail_with_rollback mg r provider e handle w = (Inr r', w')"
  obtains t h f where "advances mg r w r' w' [t]" "lifecycle_record_post_init r' = None"
    "w_calls w' = w_calls w @ [CallRollback h (lr_transaction_id r)]"
    "lr_state r' = (if po_succeeded (outcome_of (pv_rollback provider (w_calls w) h (lr_transaction_id r)))
       then ''failed'' else ''cleanup_required'')"
    "lr_failure r' = Some f" "lf_classification f = failure_class e"
    "lf_cleanup_required f \<longleftrightarrow> lr_state r' = ''cleanup_required''"
proof -
  from assms obtain r1 f0 h where rb: "rollback mg r1 provider h f0 False w = (Inr r', w')"
    and r1: "advances mg r w r1 w []" "lr_transaction_id r1 = lr_transaction_id r"
    and f0: "lf_classification f0 = failure_class e" "\<not> lf_cleanup_required f0"
    by (cases e) (auto simp: fail_with_rollback_def failure_class_def advances_def same_identity_def published_def)
  note rb = rollback_Inr [OF rb]
  from rb(1) r1 advances_trans obtain t where "advances mg r w r' w' [t]" by fastforce
  with that [of t h] rb(2-6) r1(2) f0 show thesis by (auto split: if_splits)
qed

lemma realize_Inr:
  assumes "realize mg r w = (Inr r', w')"
  obtains (ready) provider current w1 l where "registry_get (mg_providers mg) (pd_name (lr_provider r)) = Inr provider"
    "transition mg r ''acquiring'' ''provider acquisition started'' w = (Inr current, w1)"
    "run_block (realize_block mg provider r) (initial_locals current) w1 = (Inr l, w')" "r' = rl_current l"
    "lr_state r = ''admitted''" "lr_plan r \<noteq> None" "\<exists>d. lr_admission r = Some d \<and> ad_admitted d"
  | (rolled_back) provider current w1 e l w2 where
    "registry_get (mg_providers mg) (pd_name (lr_provider r)) = Inr provider"
    "transition mg r ''acquiring'' ''provider acquisition started'' w = (Inr current, w1)"
    "run_block (realize_block mg provider r) (initial_locals current) w1 = (Inl (e, l), w2)"
    "fail_with_rollback mg (rl_current l) provider e (rl_handle l) w2 = (Inr r', w')"
    "lr_state r = ''admitted''" "lr_plan r \<noteq> None" "\<exists>d. lr_admission r = Some d \<and> ad_admitted d"
proof -
  from assms have g: "lr_state r = ''admitted''" "lr_plan r \<noteq> None" "\<exists>d. lr_admission r = Some d \<and> ad_admitted d"
    by (auto simp: realize_def split: if_splits option.splits)
  with assms obtain provider current w1 where p: "registry_get (mg_providers mg) (pd_name (lr_provider r)) = Inr provider"
    "transition mg r ''acquiring'' ''provider acquisition started'' w = (Inr current, w1)"
    and b: "(case run_block (realize_block mg provider r) (initial_locals current) w1 of
           (Inr l, w') \<Rightarrow> (Inr (rl_current l), w')
         | (Inl (e, l), w') \<Rightarrow> fail_with_rollback mg (rl_current l) provider e (rl_handle l) w') = (Inr r', w')"
    by (auto simp: realize_def)
  show thesis
    using b ready [OF p _ _ g] rolled_back [OF p _ _ g]
    by (auto split: prod.splits sum.splits)
qed

lemma realize_advances:
  assumes "realize mg r w = (Inr r', w')"
  shows "(\<exists>ts. advances mg r w r' w' ts) \<and> lifecycle_record_post_init r' = None"
  using assms
proof (cases rule: realize_Inr)
  case (ready provider current w1 l)
  from transition_Inr [OF ready(2)] obtain t where "advances mg r w current w1 [t]"
    "lifecycle_record_post_init current = None" by metis
  with run_block_advances [OF realize_block_log _ ready(3)] ready(4) advances_trans show ?thesis
    by (fastforce simp: initial_locals_def last_locals_def)
next
  case (rolled_back provider current w1 e l w2)
  from transition_Inr [OF rolled_back(2)] obtain t where a: "advances mg r w current w1 [t]"
    "lifecycle_record_post_init current = None" by metis
  with run_block_advances [OF realize_block_log _ rolled_back(3)] obtain ts where
    "advances mg current w1 (rl_current l) w2 ts" by (auto simp: initial_locals_def last_locals_def)
  with a advances_trans have b: "advances mg r w (rl_current l) w2 (t # ts)" by fastforce
  from fail_with_rollback_Inr [OF rolled_back(4)] obtain u where
    "advances mg (rl_current l) w2 r' w' [u]" "lifecycle_record_post_init r' = None" by metis
  with b advances_trans show ?thesis by blast
qed

text \<open>An edit outside the log followed by a transition.\<close>

lemma edit_transition:
  assumes "transition mg r1 s d w = (Inr r', w')" and "same_identity r r1" "lr_transitions r1 = lr_transitions r"
    "lr_state r1 = lr_state r"
  shows "\<exists>t. advances mg r w r' w' [t] \<and> lr_transitions r' = lr_transitions r @ [t]"
    and "lifecycle_record_post_init r' = None" "lr_state r' = s" "w_calls w' = w_calls w"
    and "lr_failure r' = lr_failure r1" "lr_admission r' = lr_admission r1" "lr_plan r' = lr_plan r1"
    and "lr_provider_handle r' = lr_provider_handle r1" "lr_rollback r' = lr_rollback r1"
proof -
  from transition_Inr [OF assms(1)] obtain t where t: "r' = r1\<lparr>lr_state := s, lr_transitions := lr_transitions r1 @ [t]\<rparr>"
    "lifecycle_record_post_init r' = None" "w_calls w' = w_calls w" "advances mg r1 w r' w' [t]" by metis
  have "advances mg r w r1 w []" using assms(2-4) by (intro advances_refl) simp_all
  from advances_trans [OF this t(4)] t assms(3) show "\<exists>t. advances mg r w r' w' [t] \<and> lr_transitions r' = lr_transitions r @ [t]"
    by auto
  show "lifecycle_record_post_init r' = None" by (rule t(2))
  show "lr_state r' = s" "w_calls w' = w_calls w" "lr_failure r' = lr_failure r1" "lr_admission r' = lr_admission r1"
    "lr_plan r' = lr_plan r1" "lr_provider_handle r' = lr_provider_handle r1" "lr_rollback r' = lr_rollback r1"
    using t by simp_all
qed

lemma admit_Inr:
  assumes "admit mg r d w = (Inr r', w')"
  shows "lr_state r = ''planned''" "\<exists>t. advances mg r w r' w' [t]" "lifecycle_record_post_init r' = None"
    "lr_state r' = (if ad_admitted d then ''admitted'' else ''rejected'')" "lr_admission r' = Some d"
    "w_calls w' = w_calls w"
proof -
  show "lr_state r = ''planned''" using assms by (auto simp: admit_def)
  from assms obtain r1 detail where
    t: "transition mg r1 (if ad_admitted d then ''admitted'' else ''rejected'') detail w = (Inr r', w')"
    and r1: "same_identity r r1" "lr_transitions r1 = lr_transitions r" "lr_state r1 = lr_state r" "lr_admission r1 = Some d"
    by (auto simp: admit_def same_identity_def split: if_splits)
  from edit_transition [OF t r1(1-3)] r1(4) show "\<exists>t. advances mg r w r' w' [t]" "lifecycle_record_post_init r' = None"
    "lr_state r' = (if ad_admitted d then ''admitted'' else ''rejected'')" "lr_admission r' = Some d"
    "w_calls w' = w_calls w" by auto
qed

lemma cancel_Inr:
  assumes "cancel mg r reason w = (Inr r', w')"
  shows "\<exists>t. advances mg r w r' w' [t]" "lifecycle_record_post_init r' = None"
    "lr_state r \<in> set ([''planned'', ''admitted''] @ MUTATED_STATES)" "lr_state r' \<in> {''cancelled'', ''cleanup_required''}"
    "\<exists>f. lr_failure r' = Some f \<and> lf_classification f = ''cancelled''"
proof -
  let ?f = "\<lparr>lf_classification = ''cancelled'', lf_code = ''operation-cancelled'', lf_message = reason, lf_cleanup_required = False\<rparr>"
  show "lr_state r \<in> set ([''planned'', ''admitted''] @ MUTATED_STATES)"
    using assms by (auto simp: cancel_def split: if_splits)
  have "(\<exists>t. advances mg r w r' w' [t]) \<and> lifecycle_record_post_init r' = None \<and>
      lr_state r' \<in> {''cancelled'', ''cleanup_required''} \<and> (\<exists>f. lr_failure r' = Some f \<and> lf_classification f = ''cancelled'')"
  proof (cases "lr_state r \<in> {''planned'', ''admitted''}")
    case True
    with assms have t: "transition mg (r\<lparr>lr_failure := Some ?f\<rparr>) ''cancelled'' reason w = (Inr r', w')"
      by (auto simp: cancel_def split: if_splits)
    have "same_identity r (r\<lparr>lr_failure := Some ?f\<rparr>)" by (simp add: same_identity_def)
    from edit_transition [OF t this] show ?thesis by auto
  next
    case False
    with assms obtain provider where rb: "rollback mg r provider (lr_provider_handle r) ?f True w = (Inr r', w')"
      by (auto simp: cancel_def split: if_splits)
    from rollback_Inr [OF rb] show ?thesis by auto
  qed
  then show "\<exists>t. advances mg r w r' w' [t]" "lifecycle_record_post_init r' = None"
    "lr_state r' \<in> {''cancelled'', ''cleanup_required''}" "\<exists>f. lr_failure r' = Some f \<and> lf_classification f = ''cancelled''"
    by blast+
qed

lemma release_Inr:
  assumes "release mg r w = (Inr r', w')"
  shows "lr_state r = ''ready''" "\<exists>ts. advances mg r w r' w' ts" "lifecycle_record_post_init r' = None"
    "lr_state r' \<in> {''released'', ''release_failed''}"
    "\<exists>provider. registry_get (mg_providers mg) (pd_name (lr_provider r)) = Inr provider \<and>
       (lr_state r' = ''released'' \<longleftrightarrow> po_succeeded (outcome_of (pv_release provider (w_calls w)
          (case lr_provider_handle r of None \<Rightarrow> [] | Some s \<Rightarrow> s) (lr_transaction_id r))))"
proof -
  let ?h = "case lr_provider_handle r of None \<Rightarrow> [] | Some s \<Rightarrow> s" and ?tx = "lr_transaction_id r"
  show "lr_state r = ''ready''" using assms by (auto simp: release_def)
  from assms obtain provider cur w1 r1 s d where p: "registry_get (mg_providers mg) (pd_name (lr_provider r)) = Inr provider"
    and c: "transition mg r ''releasing'' ''provider release started'' w = (Inr cur, w1)"
    and t: "transition mg r1 s d (w1\<lparr>w_calls := w_calls w1 @ [CallRelease ?h ?tx]\<rparr>) = (Inr r', w')"
    and r1: "same_identity cur r1" "lr_transitions r1 = lr_transitions cur" "lr_state r1 = lr_state cur"
    and s: "s = (if po_succeeded (outcome_of (pv_release provider (w_calls w1) ?h ?tx)) then ''released'' else ''release_failed'')"
    by (auto simp: release_def Let_def provider_call_eq same_identity_def split: prod.splits if_splits)
  from transition_Inr [OF c] obtain u where u: "advances mg r w cur w1 [u]" "w_calls w1 = w_calls w" by metis
  note e = edit_transition [OF t r1]
  from e(1) obtain v where "advances mg cur w1 r' w' [v]" by (auto simp: advances_def)
  with u(1) advances_trans show "\<exists>ts. advances mg r w r' w' ts" by blast
  show "lifecycle_record_post_init r' = None" "lr_state r' \<in> {''released'', ''release_failed''}" using e s by auto
  show "\<exists>provider. registry_get (mg_providers mg) (pd_name (lr_provider r)) = Inr provider \<and>
       (lr_state r' = ''released'' \<longleftrightarrow> po_succeeded (outcome_of (pv_release provider (w_calls w) ?h ?tx)))"
    using p e(3) s u(2) by auto
qed

section \<open>Reachable environments\<close>

text \<open>A log that starts without a predecessor, connects, and ends in the current state.\<close>

definition log_ok :: "lifecycle_record \<Rightarrow> bool" where
  "log_ok r \<longleftrightarrow> (\<exists>t ts. lr_transitions r = t # ts \<and> lt_from_state t = None \<and> chain (lt_to_state t) ts \<and>
     lr_state r = end_state (lt_to_state t) ts)"

lemma log_ok_advances: "log_ok r \<Longrightarrow> advances mg r w r' w' us \<Longrightarrow> log_ok r'"
  by (auto simp: log_ok_def advances_def)

lemma initial_record_Inr:
  assumes "initial_record mg tx recipe descriptor s f diags w = (Inr r, w')"
  shows "log_ok r" "lifecycle_record_post_init r = None" "lr_state r = s" "lr_failure r = f"
    "w_events w' = w_events w @ published mg r (lr_transitions r)" "w_calls w' = w_calls w"
    "lr_recipe r = recipe" "lr_provider r = descriptor" "lr_transaction_id r = tx"
proof -
  from assms obtain t v where t: "record_transition mg 1 None s (''environment '' @ s) w = (Inr t, v)"
    and e: "emit_transition mg r t v = (Inr (), w')"
    and r: "lr_transitions r = [t]" "lr_state r = s" "lr_failure r = f" "lr_recipe r = recipe" "lr_provider r = descriptor"
      "lr_transaction_id r = tx"
    and ok: "lifecycle_record_post_init r = None"
    by (auto simp: initial_record_def)
  note rt = record_transition_Inr [OF t] and ev = emit_Inr [OF e]
  have "transition_event r t = event_for r t" using rt r by (simp add: event_for_def transition_event_def)
  with rt ev r ok show "log_ok r" "lifecycle_record_post_init r = None" "lr_state r = s" "lr_failure r = f"
    "w_events w' = w_events w @ published mg r (lr_transitions r)" "w_calls w' = w_calls w"
    "lr_recipe r = recipe" "lr_provider r = descriptor" "lr_transaction_id r = tx"
    by (auto simp: log_ok_def published_def)
qed

lemma plan_failed_Inr:
  assumes "plan_failed mg tx recipe descriptor e w = (Inr r, w')"
  obtains s f diags where "initial_record mg tx recipe descriptor s f diags w = (Inr r, w')" "s \<in> {''rejected'', ''failed''}"
  using assms by (cases e) (auto simp: plan_failed_def)

text \<open>
  A planned record: the provider was compatible and its plan names it and permits no mutation;
  any other result is rejected or failed. Planning calls the provider at most once.
\<close>

lemma plan_Inr:
  assumes "plan mg recipe name w = (Inr r, w')"
  shows "log_ok r" "lifecycle_record_post_init r = None" "lr_state r \<in> {''planned'', ''rejected'', ''failed''}"
    "w_events w' = w_events w @ published mg r (lr_transitions r)" "w_calls w' \<in> {w_calls w, w_calls w @ [CallPlan]}"
    "lr_recipe r = recipe"
    "lr_state r = ''planned'' \<Longrightarrow> provider_incompatibility recipe (lr_provider r) = None \<and>
       (\<exists>p. lr_plan r = Some p \<and> pp_provider_name p = pd_name (lr_provider r) \<and> \<not> pp_mutation_permitted p)"
proof -
  from assms obtain provider tx where p: "registry_get (mg_providers mg) name = Inr provider"
    and r: "(case provider_incompatibility recipe (pv_descriptor provider) of
       Some i \<Rightarrow> act_bind (new_failure ''input'' ''provider-capability-mismatch'' i False) (\<lambda>f.
           initial_record mg tx recipe (pv_descriptor provider) ''rejected'' (Some f) [])
     | None \<Rightarrow> (\<lambda>w. (case checked_plan (pv_descriptor provider) (pv_plan provider (w_calls w) recipe) of
             Inl e \<Rightarrow> plan_failed mg tx recipe (pv_descriptor provider) e
           | Inr p \<Rightarrow> act_bind (initial_record mg tx recipe (pv_descriptor provider) ''planned'' None []) (\<lambda>r.
                 replace_record (r\<lparr>lr_plan := Some p, lr_diagnostics := pp_diagnostics p\<rparr>)))
           (w\<lparr>w_calls := w_calls w @ [CallPlan]\<rparr>))) w = (Inr r, w')"
    by (auto simp: plan_def Let_def provider_call_def act_bind_def split: option.splits prod.splits sum.splits)
  have "log_ok r \<and> lifecycle_record_post_init r = None \<and> lr_state r \<in> {''planned'', ''rejected'', ''failed''} \<and>
    w_events w' = w_events w @ published mg r (lr_transitions r) \<and> w_calls w' \<in> {w_calls w, w_calls w @ [CallPlan]} \<and>
    lr_recipe r = recipe \<and>
    (lr_state r = ''planned'' \<longrightarrow> provider_incompatibility recipe (lr_provider r) = None \<and>
       (\<exists>p. lr_plan r = Some p \<and> pp_provider_name p = pd_name (lr_provider r) \<and> \<not> pp_mutation_permitted p))"
  proof (cases "provider_incompatibility recipe (pv_descriptor provider)")
    case (Some i)
    with r obtain f where "initial_record mg tx recipe (pv_descriptor provider) ''rejected'' f [] w = (Inr r, w')"
      by auto
    from initial_record_Inr [OF this] show ?thesis by simp
  next
    case None
    let ?w = "w\<lparr>w_calls := w_calls w @ [CallPlan]\<rparr>"
    show ?thesis
    proof (cases "checked_plan (pv_descriptor provider) (pv_plan provider (w_calls w) recipe)")
      case (Inl e)
      with None r have "plan_failed mg tx recipe (pv_descriptor provider) e ?w = (Inr r, w')" by simp
      from plan_failed_Inr [OF this] obtain s f diags where
        "initial_record mg tx recipe (pv_descriptor provider) s f diags ?w = (Inr r, w')" "s \<in> {''rejected'', ''failed''}" .
      from initial_record_Inr [OF this(1)] this(2) show ?thesis by auto
    next
      case (Inr p)
      with None r obtain r0 where "initial_record mg tx recipe (pv_descriptor provider) ''planned'' None [] ?w = (Inr r0, w')"
        and r0: "r = r0\<lparr>lr_plan := Some p, lr_diagnostics := pp_diagnostics p\<rparr>" "lifecycle_record_post_init r = None"
        by auto
      note i = initial_record_Inr [OF this(1)]
      have "event_for r = event_for r0" using r0 by (intro event_for_same) (simp add: same_identity_def)
      moreover from Inr have "pp_provider_name p = pd_name (pv_descriptor provider)" "\<not> pp_mutation_permitted p"
        by (auto simp: checked_plan_def split: if_splits)
      ultimately show ?thesis using i r0 None by (auto simp: published_def log_ok_def)
    qed
  qed
  then show "log_ok r" "lifecycle_record_post_init r = None" "lr_state r \<in> {''planned'', ''rejected'', ''failed''}"
    "w_events w' = w_events w @ published mg r (lr_transitions r)" "w_calls w' \<in> {w_calls w, w_calls w @ [CallPlan]}"
    "lr_recipe r = recipe"
    "lr_state r = ''planned'' \<Longrightarrow> provider_incompatibility recipe (lr_provider r) = None \<and>
       (\<exists>p. lr_plan r = Some p \<and> pp_provider_name p = pd_name (lr_provider r) \<and> \<not> pp_mutation_permitted p)"
    by blast+
qed

text \<open>The environments that successful operations of a manager lead to, from a plan made in some world.\<close>

inductive env_reachable :: "manager \<Rightarrow> world \<Rightarrow> lifecycle_record \<Rightarrow> world \<Rightarrow> bool" for mg w0 where
  planned: "plan mg recipe name w0 = (Inr r, w) \<Longrightarrow> env_reachable mg w0 r w"
| admitted: "env_reachable mg w0 r w \<Longrightarrow> admit mg r d w = (Inr r', w') \<Longrightarrow> env_reachable mg w0 r' w'"
| realized: "env_reachable mg w0 r w \<Longrightarrow> realize mg r w = (Inr r', w') \<Longrightarrow> env_reachable mg w0 r' w'"
| cancelled: "env_reachable mg w0 r w \<Longrightarrow> cancel mg r reason w = (Inr r', w') \<Longrightarrow> env_reachable mg w0 r' w'"
| released: "env_reachable mg w0 r w \<Longrightarrow> release mg r w = (Inr r', w') \<Longrightarrow> env_reachable mg w0 r' w'"

text \<open>
  C12. Along every sequence of successful operations the record stays valid, its transition log
  starts at planning, is connected and ends in the current state, and the journal holds exactly
  one lifecycle event per transition of the record, in the order of the log.
\<close>

theorem reachable_log_and_events:
  assumes "env_reachable mg w0 r w"
  shows "lifecycle_record_post_init r = None \<and> log_ok r \<and>
     w_events w = w_events w0 @ published mg r (lr_transitions r)"
proof -
  have step: "lifecycle_record_post_init r' = None \<and> log_ok r' \<and> w_events w' = w_events w0 @ published mg r' (lr_transitions r')"
    if "lifecycle_record_post_init r = None \<and> log_ok r \<and> w_events w = w_events w0 @ published mg r (lr_transitions r)"
      "\<exists>ts. advances mg r w r' w' ts" "lifecycle_record_post_init r' = None" for r w r' w'
  proof -
    from that(2) obtain ts where adv: "advances mg r w r' w' ts" by blast
    then have "w_events w' = w_events w0 @ published mg r' (lr_transitions r')"
      using that(1) by (auto simp: advances_def published_def dest: event_for_same)
    with that log_ok_advances [OF _ adv] show ?thesis by blast
  qed
  show ?thesis using assms
  proof (induction rule: env_reachable.induct)
    case (planned recipe name r w)
    then show ?case using plan_Inr(1,2,4) by blast
  next
    case (admitted r w d r' w')
    then show ?case using admit_Inr(2,3) by (intro step [OF admitted.IH]) blast+
  next
    case (realized r w r' w')
    then show ?case using realize_advances by (intro step [OF realized.IH]) blast+
  next
    case (cancelled r w reason r' w')
    then show ?case using cancel_Inr(1,2) by (intro step [OF cancelled.IH]) blast+
  next
    case (released r w r' w')
    then show ?case using release_Inr(2,3) by (intro step [OF released.IH]) blast+
  qed
qed

end
