(* ===== verification/Environment_Verification.thy ===== *)
theory Environment_Verification
  imports Environment_Lifecycle
begin

text \<open>
  What a Ready environment has proved about itself, and what the realization does when a stage
  fails: the verification stages against their declarative meaning, the order of the provider
  calls, and the rollback.
\<close>

section \<open>The verification stages\<close>

text \<open>The bytes of a stream up to its end; \<open>None\<close> when a read fails.\<close>

fun stream_bytes :: "nat list option list \<Rightarrow> nat list option" where
  "stream_bytes [] = Some []"
| "stream_bytes (None # cs) = None"
| "stream_bytes (Some chunk # cs) = (if chunk = [] then Some [] else map_option ((@) chunk) (stream_bytes cs))"

lemma read_chunks_exact:
  assumes "read_chunks expected hashed n cs = Inr (bytes, expected)" and "n = int (length hashed)"
  shows "\<exists>rest. stream_bytes cs = Some rest \<and> bytes = hashed @ rest \<and> int (length bytes) = expected"
  using assms
  by (induction expected hashed n cs arbitrary: bytes rule: read_chunks.induct) (auto split: if_splits)

text \<open>A file whose whole content is what the recipe pinned, read from one and the same regular file.\<close>

definition artifact_pinned :: "manager \<Rightarrow> artifact_requirement \<Rightarrow> string \<Rightarrow> bool" where
  "artifact_pinned mg req path \<longleftrightarrow>
     (\<exists>before opened bytes. fv_lstat (mg_files mg path) = Some before \<and> fv_fstat (mg_files mg path) = Some opened \<and>
        st_regular before \<and> st_regular opened \<and> st_dev before = st_dev opened \<and> st_ino before = st_ino opened \<and>
        stream_bytes (fv_chunks (mg_files mg path)) = Some bytes \<and> int (length bytes) = ar_size_bytes req \<and>
        mg_sha256 mg bytes = ar_sha256 req)"

lemma verify_artifact_Inr:
  assumes "verify_artifact mg req obs = Inr va"
  shows "artifact_pinned mg req (ao_path obs) \<and> va_name va = ar_name req \<and> va_sha256 va = ar_sha256 req \<and>
     va_size_bytes va = ar_size_bytes req \<and> va_media_type va = ar_media_type req"
proof -
  let ?view = "mg_files mg (ao_path obs)"
  from assms have h: "hash_regular_artifact (mg_sha256 mg) ?view (ar_size_bytes req) = Inr (ar_sha256 req, ar_size_bytes req)"
    and va: "va = \<lparr>va_name = ar_name req, va_sha256 = ar_sha256 req, va_size_bytes = ar_size_bytes req, va_media_type = ar_media_type req\<rparr>"
    by (auto simp: verify_artifact_def split: prod.splits if_splits)
  from h obtain before opened bytes where f: "fv_lstat ?view = Some before" "fv_fstat ?view = Some opened"
      "st_regular before" "st_regular opened" "st_dev before = st_dev opened" "st_ino before = st_ino opened"
    and b: "read_chunks (ar_size_bytes req) [] 0 (fv_chunks ?view) = Inr (bytes, ar_size_bytes req)"
      "mg_sha256 mg bytes = ar_sha256 req"
    by (auto simp: hash_regular_artifact_def split: option.splits if_splits)
  from read_chunks_exact [OF b(1)] f b(2) va show ?thesis by (auto simp: artifact_pinned_def)
qed

lemma last_named_distinct:
  assumes "distinct (map name xs)" and "x \<in> set xs"
  shows "last_named name xs (name x) = Some x"
  using assms find_Some_iff_distinct [of name "rev xs" "name x" x]
  by (simp add: last_named_def rev_map [symmetric])

lemma last_named_SomeD: "last_named name xs n = Some x \<Longrightarrow> x \<in> set xs \<and> name x = n"
  by (auto simp: last_named_def dest: find_SomeD)

lemma verify_artifacts_Inr:
  assumes run: "verify_artifacts mg reqs obs = Inr vs" and d: "distinct (map ar_name reqs)" and req: "req \<in> set reqs"
  shows "\<exists>ob \<in> set obs. \<exists>va \<in> set vs. ao_name ob = ar_name req \<and> artifact_pinned mg req (ao_path ob) \<and>
     va_name va = ar_name req \<and> va_sha256 va = ar_sha256 req \<and> va_size_bytes va = ar_size_bytes req"
proof -
  let ?f = "\<lambda>n. verify_artifact mg (the (last_named ar_name reqs n)) (the (last_named ao_name obs n))"
  from run req have m: "mapE ?f (sort (remdups (map ar_name reqs))) = Inr vs"
    and mem: "ar_name req \<in> set (map ao_name obs)"
    by (auto simp: verify_artifacts_def Let_def split: if_splits)
  from m req obtain va where "va \<in> set vs" and va: "?f (ar_name req) = Inr va"
    by (auto simp: mapE_Inr_iff dest!: list_all2_memberD [where x = "ar_name req"])
  from mem obtain ob where ob: "last_named ao_name obs (ar_name req) = Some ob"
    by (cases "last_named ao_name obs (ar_name req)") (auto simp: last_named_def find_None_iff)
  from va have "verify_artifact mg req ob = Inr va"
    by (simp add: last_named_distinct [OF d req] ob)
  from verify_artifact_Inr [OF this] \<open>va \<in> set vs\<close> last_named_SomeD [OF ob] show ?thesis by blast
qed

lemma verify_named_values_None:
  assumes "verify_named_values label expected actual = None" and "distinct (map nv_name expected)" and "v \<in> set expected"
  shows "v \<in> set actual"
proof -
  from assms(1,3) obtain a where a: "last_named nv_name actual (nv_name v) = Some a"
    "map_option nv_value (last_named nv_name expected (nv_name v)) = Some (nv_value a)"
    by (auto simp: verify_named_values_def split: option.splits)
  from last_named_SomeD [OF a(1)] a(2) have "a \<in> set actual" "nv_name a = nv_name v" "nv_value a = nv_value v"
    by (auto simp: last_named_distinct [OF assms(2,3)])
  moreover from this have "a = v" by (intro named_value.equality) simp_all
  ultimately show ?thesis by simp
qed

lemma verify_smoke_None:
  assumes "verify_smoke recipe smoke = None" and "n \<in> set (rc_smoke_probe_ids recipe)"
  shows "\<exists>b \<in> set smoke. so_probe_id b = n \<and> so_passed b"
  using assms by (fastforce simp: verify_smoke_def split: option.splits dest: last_named_SomeD)

section \<open>A successful realization\<close>

lemma run_block_Cons_Inr:
  "run_block (s # ss) l w = (Inr l', w') \<longleftrightarrow> (\<exists>l1 w1. s l w = (Inr l1, w1) \<and> run_block ss l1 w1 = (Inr l', w'))"
  by (auto split: prod.splits sum.splits)

lemma to_state_Inr:
  assumes "to_state mg s d l w = (Inr l', w')"
  shows "\<exists>t. l' = l\<lparr>rl_current := (rl_current l)\<lparr>lr_state := s, lr_transitions := lr_transitions (rl_current l) @ [t]\<rparr>\<rparr> \<and>
     w_calls w' = w_calls w \<and> lifecycle_record_post_init (rl_current l') = None"
  using assms by (auto simp: to_state_def elim!: transition_Inr)

lemma statement_Inr:
  "set_current f l w = (Inr l', w') \<Longrightarrow> l' = l\<lparr>rl_current := f l\<rparr> \<and> w' = w"
  "check c l w = (Inr l', w') \<Longrightarrow> l' = l \<and> w' = w \<and> c l = None"
  by (auto simp: set_current_def check_def split: option.splits)

lemma run_block_append_Inr:
  "run_block (ss @ us) l w = (Inr l', w') \<longleftrightarrow>
     (\<exists>l1 w1. run_block ss l w = (Inr l1, w1) \<and> run_block us l1 w1 = (Inr l', w'))"
  by (induction ss arbitrary: l w) (auto split: prod.splits sum.splits)

lemmas stage_unfold = run_block_Cons_Inr run_block.simps(1)
lemmas call_defs = call_acquire_def call_construct_def call_inspect_def call_smoke_def provider_call_eq

lemma acquire_stage_Inr:
  assumes "run_block (acquire_stage mg provider r) l w = (Inr l', w')"
  shows "pv_acquire provider (w_calls w) (lr_recipe r) (the (lr_plan r)) (lr_transaction_id r) = Inr (rl_acquisition l')"
    "verify_artifacts mg (rc_artifacts (lr_recipe r)) (aq_artifacts (rl_acquisition l')) = Inr (rl_verified l')"
    "lr_verified_artifacts (rl_current l') = rl_verified l'"
    "w_calls w' = w_calls w @ [CallAcquire (lr_transaction_id r)]"
  using assms unfolding acquire_stage_def stage_unfold
  by (auto simp: call_defs dest!: to_state_Inr statement_Inr)

lemma construct_stage_Inr:
  assumes "run_block (construct_stage mg provider r) l w = (Inr l', w')"
  shows "\<exists>h. rl_handle l' = Some h \<and> h \<noteq> [] \<and> lr_provider_handle (rl_current l') = Some h"
    "lr_verified_artifacts (rl_current l') = lr_verified_artifacts (rl_current l)" "rl_verified l' = rl_verified l"
    "w_calls w' = w_calls w @ [CallConstruct (lr_transaction_id r)]"
  using assms unfolding construct_stage_def stage_unfold
  by (auto simp: call_defs dest!: to_state_Inr statement_Inr)

lemma runtime_stage_Inr:
  assumes "run_block (runtime_stage mg provider r) l w = (Inr l', w')"
  shows "verify_runtime (lr_recipe r) (lr_provider r) (rl_runtime l') = None"
    "lr_runtime_identity (rl_current l') = Some (rl_runtime l')"
    "rl_handle l' = rl_handle l" "lr_provider_handle (rl_current l') = lr_provider_handle (rl_current l)"
    "lr_verified_artifacts (rl_current l') = lr_verified_artifacts (rl_current l)" "rl_verified l' = rl_verified l"
    "w_calls w' = w_calls w @ [CallInspect (the (rl_handle l)) (lr_transaction_id r)]"
  using assms unfolding runtime_stage_def stage_unfold
  by (auto simp: call_defs dest!: to_state_Inr statement_Inr)

lemma smoke_stage_Inr:
  assumes "run_block (smoke_stage mg provider r) l w = (Inr l', w')"
  shows "verify_smoke (lr_recipe r) (rl_smoke l') = None" "lr_smoke_observations (rl_current l') = rl_smoke l'"
    "rl_handle l' = rl_handle l" "lr_provider_handle (rl_current l') = lr_provider_handle (rl_current l)"
    "lr_verified_artifacts (rl_current l') = lr_verified_artifacts (rl_current l)" "rl_verified l' = rl_verified l"
    "rl_runtime l' = rl_runtime l" "lr_runtime_identity (rl_current l') = lr_runtime_identity (rl_current l)"
    "w_calls w' = w_calls w @ [CallSmoke (the (rl_handle l)) (lr_transaction_id r)]"
  using assms unfolding smoke_stage_def stage_unfold
  by (auto simp: call_defs dest!: to_state_Inr statement_Inr)

lemma take_fingerprint_Inr:
  assumes "take_fingerprint mg r l w = (Inr l', w')"
  shows "\<exists>fr. fingerprint (mg_canonical mg) (mg_nfc mg) (mg_sha256 mg) (lr_recipe r) (lr_provider r)
       (rl_verified l) (rl_runtime l) (rl_smoke l) = Inr fr \<and> l' = l\<lparr>rl_fingerprint := fr\<rparr> \<and> w' = w"
  using assms by (auto simp: take_fingerprint_def split: sum.splits exc.splits)

lemma fingerprint_stage_Inr:
  assumes "run_block (fingerprint_stage mg r @ [ready_statement mg]) l w = (Inr l', w')"
  shows "fingerprint (mg_canonical mg) (mg_nfc mg) (mg_sha256 mg) (lr_recipe r) (lr_provider r)
       (rl_verified l) (rl_runtime l) (rl_smoke l) = Inr (rl_fingerprint l')"
    "lr_environment_fingerprint_id (rl_current l') = Some (fr_environment_fingerprint_id (rl_fingerprint l'))"
    "lr_verification_digest (rl_current l') = Some (fr_verification_digest (rl_fingerprint l'))"
    "lr_state (rl_current l') = ''ready''" "lifecycle_record_post_init (rl_current l') = None" "w_calls w' = w_calls w"
    "lr_provider_handle (rl_current l') = lr_provider_handle (rl_current l)"
    "lr_verified_artifacts (rl_current l') = lr_verified_artifacts (rl_current l)"
    "lr_smoke_observations (rl_current l') = lr_smoke_observations (rl_current l)"
    "lr_runtime_identity (rl_current l') = lr_runtime_identity (rl_current l)"
  using assms unfolding fingerprint_stage_def ready_statement_def append.simps stage_unfold
  by (auto dest!: to_state_Inr statement_Inr take_fingerprint_Inr)

text \<open>The evidence of a Ready record, in terms of the recipe and the provider it was planned with.\<close>

definition env_verified :: "manager \<Rightarrow> lifecycle_record \<Rightarrow> bool" where
  "env_verified mg r \<longleftrightarrow>
     (\<forall>req \<in> set (rc_artifacts (lr_recipe r)). \<exists>path. artifact_pinned mg req path \<and>
        (\<exists>va \<in> set (lr_verified_artifacts r). va_name va = ar_name req \<and> va_sha256 va = ar_sha256 req \<and>
           va_size_bytes va = ar_size_bytes req)) \<and>
     (\<exists>runtime fr. lr_runtime_identity r = Some runtime \<and>
        ri_strategy runtime = rc_strategy (lr_recipe r) \<and> ri_strategy runtime = pd_strategy (lr_provider r) \<and>
        ri_provider_implementation_digest runtime = pd_implementation_digest (lr_provider r) \<and>
        ri_isolation_policy_digest runtime = rc_isolation_policy_digest (lr_recipe r) \<and>
        ri_network_policy runtime = rc_network_policy (lr_recipe r) \<and>
        set (rc_expected_runtime_facts (lr_recipe r)) \<subseteq> set (ri_facts runtime) \<and>
        set (rc_expected_configuration (lr_recipe r)) \<subseteq> set (ri_relevant_configuration runtime) \<and>
        fingerprint (mg_canonical mg) (mg_nfc mg) (mg_sha256 mg) (lr_recipe r) (lr_provider r)
          (lr_verified_artifacts r) runtime (lr_smoke_observations r) = Inr fr \<and>
        lr_environment_fingerprint_id r = Some (fr_environment_fingerprint_id fr) \<and>
        lr_verification_digest r = Some (fr_verification_digest fr)) \<and>
     (\<forall>n \<in> set (rc_smoke_probe_ids (lr_recipe r)). \<exists>b \<in> set (lr_smoke_observations r). so_probe_id b = n \<and> so_passed b) \<and>
     (\<forall>b \<in> set (lr_smoke_observations r). so_passed b) \<and>
     (\<exists>h. h \<noteq> [] \<and> lr_provider_handle r = Some h)"

lemma verify_runtime_None:
  assumes "verify_runtime recipe descriptor runtime = None" and "environment_recipe_post_init recipe = None"
  shows "ri_strategy runtime = rc_strategy recipe \<and> ri_strategy runtime = pd_strategy descriptor \<and>
    ri_provider_implementation_digest runtime = pd_implementation_digest descriptor \<and>
    ri_isolation_policy_digest runtime = rc_isolation_policy_digest recipe \<and>
    ri_network_policy runtime = rc_network_policy recipe \<and>
    set (rc_expected_runtime_facts recipe) \<subseteq> set (ri_facts runtime) \<and>
    set (rc_expected_configuration recipe) \<subseteq> set (ri_relevant_configuration runtime)"
proof -
  have d: "distinct (map nv_name (rc_expected_runtime_facts recipe))" "distinct (map nv_name (rc_expected_configuration recipe))"
    using assms(2) by (auto simp: environment_recipe_post_init_def validates)
  have n: "verify_named_values ''runtime'' (rc_expected_runtime_facts recipe) (ri_facts runtime) = None"
    "verify_named_values ''configuration'' (rc_expected_configuration recipe) (ri_relevant_configuration runtime) = None"
    and e: "ri_strategy runtime = rc_strategy recipe" "ri_strategy runtime = pd_strategy descriptor"
      "ri_provider_implementation_digest runtime = pd_implementation_digest descriptor"
      "ri_isolation_policy_digest runtime = rc_isolation_policy_digest recipe"
      "ri_network_policy runtime = rc_network_policy recipe"
    using assms(1) by (simp_all add: verify_runtime_def)
  show ?thesis using e verify_named_values_None [OF n(1) d(1)] verify_named_values_None [OF n(2) d(2)] by blast
qed

lemma realize_block_verified:
  assumes run: "run_block (realize_block mg provider r) l0 w = (Inr l, w')"
    and recipe: "environment_recipe_post_init (lr_recipe r) = None"
    and same: "same_identity r (rl_current l)"
  shows "env_verified mg (rl_current l) \<and> lr_state (rl_current l) = ''ready''"
    and "\<exists>h. w_calls w' = w_calls w @ [CallAcquire (lr_transaction_id r), CallConstruct (lr_transaction_id r),
       CallInspect h (lr_transaction_id r), CallSmoke h (lr_transaction_id r)]"
proof -
  from run obtain l1 w1 l2 w2 l3 w3 l4 w4 where
    st: "run_block (acquire_stage mg provider r) l0 w = (Inr l1, w1)"
      "run_block (construct_stage mg provider r) l1 w1 = (Inr l2, w2)"
      "run_block (runtime_stage mg provider r) l2 w2 = (Inr l3, w3)"
      "run_block (smoke_stage mg provider r) l3 w3 = (Inr l4, w4)"
      "run_block (fingerprint_stage mg r @ [ready_statement mg]) l4 w4 = (Inr l, w')"
    unfolding realize_block_def run_block_append_Inr by blast
  note a = acquire_stage_Inr [OF st(1)] and c = construct_stage_Inr [OF st(2)] and t = runtime_stage_Inr [OF st(3)]
    and s = smoke_stage_Inr [OF st(4)] and f = fingerprint_stage_Inr [OF st(5)]
  have names: "distinct (map ar_name (rc_artifacts (lr_recipe r)))"
    using recipe by (simp add: environment_recipe_post_init_def validates)
  have va: "lr_verified_artifacts (rl_current l) = rl_verified l1" "rl_verified l4 = rl_verified l1"
    using a c t s f by simp_all
  from c(1) t s f obtain h where h: "h \<noteq> []" "lr_provider_handle (rl_current l) = Some h" "rl_handle l2 = Some h" by auto
  from ready_record_evidence(11) [OF f(5,4)] have smoke: "\<forall>b \<in> set (lr_smoke_observations (rl_current l)). so_passed b" .
  have rt: "lr_runtime_identity (rl_current l) = Some (rl_runtime l4)" "rl_runtime l4 = rl_runtime l3"
    and sm: "lr_smoke_observations (rl_current l) = rl_smoke l4" using t s f by simp_all
  have id: "lr_recipe (rl_current l) = lr_recipe r" "lr_provider (rl_current l) = lr_provider r"
    using same by (auto simp: same_identity_def)
  show "\<exists>h. w_calls w' = w_calls w @ [CallAcquire (lr_transaction_id r), CallConstruct (lr_transaction_id r),
      CallInspect h (lr_transaction_id r), CallSmoke h (lr_transaction_id r)]"
    using a c t s f h by auto
  have arts: "\<exists>path. artifact_pinned mg req path \<and> (\<exists>va \<in> set (rl_verified l1). va_name va = ar_name req \<and>
      va_sha256 va = ar_sha256 req \<and> va_size_bytes va = ar_size_bytes req)" if "req \<in> set (rc_artifacts (lr_recipe r))" for req
    using verify_artifacts_Inr [OF a(2) names that] by blast
  show "env_verified mg (rl_current l) \<and> lr_state (rl_current l) = ''ready''"
    unfolding env_verified_def id va(1) rt(1) sm
    using arts verify_runtime_None [OF t(1) recipe] verify_smoke_None [OF s(1)] f(1-4) va(2) rt(2) smoke sm h
    by auto
qed

lemma realize_ready_verified:
  assumes run: "realize mg r w = (Inr r', w')" and recipe: "environment_recipe_post_init (lr_recipe r) = None"
    and ready: "lr_state r' = ''ready''"
  shows "env_verified mg r'"
    and "\<exists>h. w_calls w' = w_calls w @ [CallAcquire (lr_transaction_id r), CallConstruct (lr_transaction_id r),
       CallInspect h (lr_transaction_id r), CallSmoke h (lr_transaction_id r)]"
proof -
  have same: "same_identity r r'" using realize_advances [OF run] by (auto simp: advances_def)
  have "env_verified mg r' \<and> (\<exists>h. w_calls w' = w_calls w @ [CallAcquire (lr_transaction_id r),
      CallConstruct (lr_transaction_id r), CallInspect h (lr_transaction_id r), CallSmoke h (lr_transaction_id r)])"
    using run
  proof (cases rule: realize_Inr)
    case (ready provider current w1 l)
    from transition_Inr [OF ready(2)] have "w_calls w1 = w_calls w" by metis
    with realize_block_verified [OF ready(3) recipe] same ready(4) show ?thesis by simp
  next
    case (rolled_back provider current w1 e l w2)
    from fail_with_rollback_Inr [OF rolled_back(4)] have "lr_state r' \<in> {''failed'', ''cleanup_required''}"
      by (metis insertI1 insertI2)
    with ready show ?thesis by auto
  qed
  then show "env_verified mg r'" "\<exists>h. w_calls w' = w_calls w @ [CallAcquire (lr_transaction_id r),
      CallConstruct (lr_transaction_id r), CallInspect h (lr_transaction_id r), CallSmoke h (lr_transaction_id r)]"
    by blast+
qed

text \<open>
  C13. Every reachable Ready environment has passed all verification: each pinned artifact was
  read in full from one unchanged regular file with the pinned size and digest, the runtime
  reports the planned strategy, provider implementation, isolation and network policy and
  every expected fact and configuration value, all required smoke probes were observed and no
  observed probe failed, and the recorded fingerprint is the fingerprint of exactly this
  evidence; the environment was admitted, is not rolled back and has no failure.
\<close>

theorem reachable_ready_verified:
  assumes reach: "env_reachable mg w0 r w" and ready: "lr_state r = ''ready''"
    and recipe: "environment_recipe_post_init (lr_recipe r) = None"
  shows "env_verified mg r \<and> (\<exists>d. lr_admission r = Some d \<and> ad_admitted d) \<and> lr_failure r = None \<and> lr_rollback r = None"
proof -
  have "lifecycle_record_post_init r = None \<and> env_verified mg r"
    using reach
  proof (cases rule: env_reachable.cases)
    case (planned recipe name)
    from plan_Inr(3) [OF this] ready show ?thesis by auto
  next
    case (admitted r0 w1 d)
    from admit_Inr(4) [OF admitted(2)] ready show ?thesis
      by (auto split: if_splits)
  next
    case (realized r0 w1)
    have "lr_recipe r0 = lr_recipe r" using realize_advances [OF realized(2)] by (auto simp: advances_def same_identity_def)
    with realize_ready_verified(1) [OF realized(2) _ ready] recipe realize_advances [OF realized(2)]
    show ?thesis by simp
  next
    case (cancelled r0 w1 reason)
    from cancel_Inr(4) [OF cancelled(2)] ready show ?thesis by auto
  next
    case (released r0 w1)
    from release_Inr(4) [OF released(2)] ready show ?thesis by auto
  qed
  then have ok: "lifecycle_record_post_init r = None" and v: "env_verified mg r" by auto
  from v ready_record_evidence(5,7,8) [OF ok ready] show ?thesis by simp
qed

section \<open>A failed realization\<close>

text \<open>The provider calls that build an environment.\<close>

fun forward :: "provider_call \<Rightarrow> bool" where
  "forward (CallAcquire _) \<longleftrightarrow> True"
| "forward (CallConstruct _) \<longleftrightarrow> True"
| "forward (CallInspect _ _) \<longleftrightarrow> True"
| "forward (CallSmoke _ _) \<longleftrightarrow> True"
| "forward _ \<longleftrightarrow> False"

definition forward_only :: "statement \<Rightarrow> bool" where
  "forward_only s \<longleftrightarrow> (\<forall>l w x w'. s l w = (x, w') \<longrightarrow> (\<exists>cs. w_calls w' = w_calls w @ cs \<and> list_all forward cs))"

lemma forward_onlyI:
  assumes "\<And>l w x w'. s l w = (x, w') \<Longrightarrow> w_calls w' = w_calls w \<or> (\<exists>c. forward c \<and> w_calls w' = w_calls w @ [c])"
  shows "forward_only s"
  unfolding forward_only_def
proof (intro allI impI)
  fix l w x w' assume "s l w = (x, w')"
  from assms [OF this] show "\<exists>cs. w_calls w' = w_calls w @ cs \<and> list_all forward cs"
  proof (elim disjE exE conjE)
    assume "w_calls w' = w_calls w" then show ?thesis by (intro exI [of _ "[]"]) simp
  next
    fix c assume "forward c" "w_calls w' = w_calls w @ [c]" then show ?thesis by (intro exI [of _ "[c]"]) simp
  qed
qed

lemma transition_calls: "transition mg r s d w = (x, w') \<Longrightarrow> w_calls w' = w_calls w"
  by (cases x) (auto dest: transition_Inl elim: transition_Inr)

lemma statements_forward:
  "forward_only (to_state mg s d)" "forward_only (set_current f)" "forward_only (check c)"
  "forward_only (take_fingerprint mg r)" "forward_only (call_acquire provider r)" "forward_only (call_construct provider r)"
  "forward_only (call_inspect provider r)" "forward_only (call_smoke provider r)"
  "forward_only (\<lambda>l. act_return (l\<lparr>rl_handle := h l\<rparr>))"
  "forward_only (\<lambda>l. act_bind (act_lift (v l)) (\<lambda>x. act_return (l\<lparr>rl_verified := x\<rparr>)))"
  by (rule forward_onlyI; auto simp: to_state_def set_current_def check_def take_fingerprint_def call_defs act_bind_eq
      replace_record_def dest: transition_calls)+

lemma run_block_forward:
  assumes "\<forall>s \<in> set ss. forward_only s" and "run_block ss l w = (res, w')"
  shows "\<exists>cs. w_calls w' = w_calls w @ cs \<and> list_all forward cs"
  using assms
proof (induction ss arbitrary: l w)
  case Nil
  then show ?case by simp
next
  case (Cons s ss)
  obtain x w1 where s: "s l w = (x, w1)" by (cases "s l w")
  with Cons.prems(1) obtain cs where cs: "w_calls w1 = w_calls w @ cs" "list_all forward cs"
    by (force simp: forward_only_def)
  show ?case
  proof (cases x)
    case (Inl e)
    with s Cons.prems cs show ?thesis by auto
  next
    case (Inr l1)
    with s Cons.prems have "run_block ss l1 w1 = (res, w')" by simp
    with Cons obtain ds where "w_calls w' = w_calls w1 @ ds" "list_all forward ds" by fastforce
    with cs show ?thesis by auto
  qed
qed

lemma realize_block_forward: "\<forall>s \<in> set (realize_block mg provider r). forward_only s"
  unfolding realize_block_def stage_defs by (simp add: statements_forward)

text \<open>
  C14. A realization that does not end Ready is rolled back exactly once, as its last provider
  call, and the record says how that went: it is failed when the provider proved the cleanup
  and needs cleanup otherwise, with a classified failure. A realization that ends Ready made
  the four building calls, in order and once each, and never rolled back.
\<close>

theorem realize_calls:
  assumes run: "realize mg r w = (Inr r', w')" and recipe: "environment_recipe_post_init (lr_recipe r) = None"
  shows "(lr_state r' = ''ready'' \<and>
       (\<exists>h. w_calls w' = w_calls w @ [CallAcquire (lr_transaction_id r), CallConstruct (lr_transaction_id r),
          CallInspect h (lr_transaction_id r), CallSmoke h (lr_transaction_id r)])) \<or>
     (\<exists>cs h f provider. registry_get (mg_providers mg) (pd_name (lr_provider r)) = Inr provider \<and>
        list_all forward cs \<and> w_calls w' = w_calls w @ cs @ [CallRollback h (lr_transaction_id r)] \<and>
        lr_state r' = (if po_succeeded (outcome_of (pv_rollback provider (w_calls w @ cs) h (lr_transaction_id r)))
          then ''failed'' else ''cleanup_required'') \<and>
        lr_failure r' = Some f \<and> lf_classification f \<in> {''verification'', ''provider''} \<and>
        (lf_cleanup_required f \<longleftrightarrow> lr_state r' = ''cleanup_required''))"
  using run
proof (cases rule: realize_Inr)
  case (ready provider current w1 l)
  have same: "same_identity r r'" using realize_advances [OF run] by (auto simp: advances_def)
  from realize_block_verified(1) [OF ready(3) recipe] same ready(4) have "lr_state r' = ''ready''" by simp
  with realize_ready_verified(2) [OF run recipe] show ?thesis by blast
next
  case (rolled_back provider current w1 e l w2)
  from transition_Inr [OF rolled_back(2)] obtain t where w1: "w_calls w1 = w_calls w" and cur: "same_identity r current"
    "lifecycle_record_post_init current = None" by (metis advances_def)
  from run_block_forward [OF realize_block_forward rolled_back(3)] w1 obtain cs where
    cs: "w_calls w2 = w_calls w @ cs" "list_all forward cs" by auto
  from run_block_advances [OF realize_block_log _ rolled_back(3)] cur have
    tx: "lr_transaction_id (rl_current l) = lr_transaction_id r"
    by (auto simp: initial_locals_def last_locals_def advances_def same_identity_def)
  from fail_with_rollback_Inr [OF rolled_back(4)] obtain h f where
    fin: "w_calls w' = w_calls w2 @ [CallRollback h (lr_transaction_id (rl_current l))]"
      "lr_state r' = (if po_succeeded (outcome_of (pv_rollback provider (w_calls w2) h (lr_transaction_id (rl_current l))))
         then ''failed'' else ''cleanup_required'')"
      "lr_failure r' = Some f" "lf_classification f = failure_class e" "lf_cleanup_required f \<longleftrightarrow> lr_state r' = ''cleanup_required''"
    by metis
  have "lf_classification f \<in> {''verification'', ''provider''}" unfolding fin(4) failure_class_def by (cases e) auto
  with fin cs rolled_back(1) tx show ?thesis by auto
qed

end
