(* ===== verification/Environment_Totality.thy ===== *)
theory Environment_Totality
  imports Environment_Verification
begin

text \<open>
  A realization always returns a record, whatever its provider does, as long as the clock has
  an offset, the journal accepts events and raised errors carry a code and a message. The
  other operations: final states, release, and the states from which a cancellation raises
  after it has already rolled back.
\<close>

section \<open>Exceptions the manager can record\<close>

definition exc_ok :: "exc \<Rightarrow> bool" where
  "exc_ok e \<longleftrightarrow> (case e of
       LifecycleVerificationError code message \<Rightarrow> is_token code \<and> message \<noteq> []
     | ProviderOperationError code message handle diagnostics \<Rightarrow> is_token code \<and> message \<noteq> []
     | _ \<Rightarrow> True)"

lemma exc_ok_simps [simp]: "exc_ok (ValueError s)" "exc_ok (OtherException s)"
  by (simp_all add: exc_ok_def)

definition clean :: "exc option \<Rightarrow> bool" where
  "clean c \<longleftrightarrow> (\<forall>e. c = Some e \<longrightarrow> exc_ok e)"

lemma clean_None [simp]: "clean None"
  by (simp add: clean_def)

lemma clean_raise_if [simp]: "clean (raise_if b e) \<longleftrightarrow> (b \<longrightarrow> exc_ok e)"
  by (auto simp: clean_def)

lemma clean_first_exc: "list_all clean cs \<Longrightarrow> clean (first_exc cs)"
  by (induction cs rule: first_exc.induct) (auto simp: clean_def)

lemma clean_require [simp]:
  "clean (require_unique xs)" "clean (require_sha256 s)" "clean (require_rcid s)" "clean (require_token s)"
  "clean (require_timestamp t)" "clean (require_nonnegative_safe_integer v)"
  by (simp_all add: require_unique_def require_sha256_def require_rcid_def require_token_def)
    (auto simp: clean_def require_timestamp_def require_nonnegative_safe_integer_def split: timestamp.splits option.splits)

lemma record_clean [simp]: "clean (lifecycle_record_post_init r)"
  unfolding lifecycle_record_post_init_def lifecycle_fingerprint_check_def lifecycle_ready_check_def lifecycle_failure_check_def
  by (intro clean_first_exc) (auto intro!: clean_first_exc split: option.splits)

lemma transition_clean [simp]: "clean (lifecycle_transition_post_init t)"
  unfolding lifecycle_transition_post_init_def by (intro clean_first_exc) (auto split: option.splits)

lemma verified_artifact_clean [simp]: "clean (verified_artifact_post_init a)"
  unfolding verified_artifact_post_init_def by (intro clean_first_exc) simp

text \<open>A computation that raises only such exceptions.\<close>

definition raises_ok :: "'a result \<Rightarrow> bool" where
  "raises_ok m \<longleftrightarrow> (\<forall>e. m = Inl e \<longrightarrow> exc_ok e)"

lemma raises_ok_simps [simp]: "raises_ok (Inr x)" "raises_ok (Inl e) \<longleftrightarrow> exc_ok e"
  "raises_ok (construct p y) \<longleftrightarrow> clean (p y)" "raises_ok (rfc3339 t)"
  by (auto simp: raises_ok_def clean_def rfc3339_def split: timestamp.splits)

lemma raises_ok_ebind: "raises_ok m \<Longrightarrow> (\<And>x. m = Inr x \<Longrightarrow> raises_ok (f x)) \<Longrightarrow> raises_ok (ebind m f)"
  by (cases m) simp_all

lemma raises_ok_mapE: "\<forall>x \<in> set xs. raises_ok (f x) \<Longrightarrow> raises_ok (mapE f xs)"
  by (induction xs) (auto intro!: raises_ok_ebind)

lemmas verification_tokens = exc_ok_def is_lower_alnum_def is_lower_def is_digit_def

lemma verification_error_ok:
  "exc_ok (LifecycleVerificationError ''artifact-read-failed'' ''artifact could not be read'')"
  "exc_ok (LifecycleVerificationError ''artifact-path-unsafe'' (CHR ''a'' # m))"
  "exc_ok (LifecycleVerificationError ''artifact-identity-mismatch'' (CHR ''a'' # m))"
  "exc_ok (LifecycleVerificationError ''artifact-identity-collision'' (CHR ''p'' # m))"
  "exc_ok (LifecycleVerificationError ''artifact-set-mismatch'' (CHR ''a'' # m))"
  by (simp_all add: verification_tokens)

lemma read_chunks_ok: "raises_ok (read_chunks expected hashed n cs)"
  by (induction expected hashed n cs rule: read_chunks.induct) (simp_all add: verification_error_ok)

lemma hash_ok: "raises_ok (hash_regular_artifact sha view n)"
  unfolding hash_regular_artifact_def
  by (auto intro!: raises_ok_ebind read_chunks_ok split: option.splits simp: verification_error_ok)

lemma verify_artifacts_ok: "raises_ok (verify_artifacts mg reqs obs)"
  unfolding verify_artifacts_def verify_artifact_def Let_def
  by (auto intro!: raises_ok_ebind raises_ok_mapE hash_ok simp: verification_error_ok split: prod.splits)

lemma verify_runtime_clean: "clean (verify_runtime recipe descriptor runtime)"
  unfolding verify_runtime_def verify_named_values_def
  by (intro clean_first_exc) (simp add: clean_first_exc verification_tokens)

lemma verify_smoke_clean: "clean (verify_smoke recipe smoke)"
  unfolding verify_smoke_def by (intro clean_first_exc) (simp add: verification_tokens)

lemma fingerprint_ok:
  assumes "\<And>d. raises_ok (canon d)"
  shows "raises_ok (fingerprint canon nfc sha recipe provider artifacts runtime smoke)"
  unfolding fingerprint_def canonical_set_def normalized_values_def Let_def
  by (intro raises_ok_ebind raises_ok_mapE ballI assms) simp_all

section \<open>The manager's surroundings\<close>

definition surroundings_ok :: "manager \<Rightarrow> bool" where
  "surroundings_ok mg \<longleftrightarrow> (\<forall>n. \<exists>t. mg_clock mg n = Aware t) \<and>
     (\<forall>publish. mg_publisher mg = Some publish \<longrightarrow> (\<forall>es d. publish es d = None)) \<and>
     (\<forall>d. raises_ok (mg_canonical mg d))"

definition provider_errors_ok :: "provider \<Rightarrow> bool" where
  "provider_errors_ok pv \<longleftrightarrow> (\<forall>h recipe p tx. raises_ok (pv_acquire pv h recipe p tx)) \<and>
     (\<forall>h recipe a tx. raises_ok (pv_construct pv h recipe a tx)) \<and>
     (\<forall>h recipe n tx. raises_ok (pv_inspect_runtime pv h recipe n tx)) \<and>
     (\<forall>h recipe n tx. raises_ok (pv_smoke_verify pv h recipe n tx))"

definition errors_ok :: "statement \<Rightarrow> bool" where
  "errors_ok s \<longleftrightarrow> (\<forall>l w e w'. s l w = (Inl e, w') \<longrightarrow> exc_ok e)"

lemma emit_returns: "surroundings_ok mg \<Longrightarrow> \<exists>w'. emit_transition mg r t w = (Inr (), w')"
  by (auto simp: emit_transition_def surroundings_ok_def split: option.splits)

lemma transition_raises_ok:
  assumes "surroundings_ok mg" and "transition mg r s d w = (Inl e, w')"
  shows "exc_ok e"
proof -
  have "exc_ok e" if "record_transition mg n f s d v = (Inl e, v')" for n f v v'
    using that raises_ok_simps(4) transition_clean
    by (auto simp: record_transition_def act_bind_Inl clock_now_def raises_ok_def clean_def)
  moreover have "emit_transition mg r t v \<noteq> (Inl e, w')" for r t v
    using emit_returns [OF assms(1)] by (metis Inl_Inr_False prod.inject)
  ultimately show ?thesis using assms(2) record_clean
    by (auto simp: transition_def act_bind_Inl clean_def)
qed

lemma statement_errors_ok:
  "surroundings_ok mg \<Longrightarrow> errors_ok (to_state mg s d)" "errors_ok (set_current f)"
  "(\<And>l. clean (c l)) \<Longrightarrow> errors_ok (check c)" "surroundings_ok mg \<Longrightarrow> errors_ok (take_fingerprint mg r)"
  "provider_errors_ok pv \<Longrightarrow> errors_ok (call_acquire pv r)" "provider_errors_ok pv \<Longrightarrow> errors_ok (call_construct pv r)"
  "provider_errors_ok pv \<Longrightarrow> errors_ok (call_inspect pv r)" "provider_errors_ok pv \<Longrightarrow> errors_ok (call_smoke pv r)"
  "errors_ok (\<lambda>l. act_return (l\<lparr>rl_handle := h l\<rparr>))"
  "(\<And>l. raises_ok (v l)) \<Longrightarrow> errors_ok (\<lambda>l. act_bind (act_lift (v l)) (\<lambda>x. act_return (l\<lparr>rl_verified := x\<rparr>)))"
proof -
  show "surroundings_ok mg \<Longrightarrow> errors_ok (to_state mg s d)"
    by (auto simp: errors_ok_def to_state_def act_bind_Inl dest: transition_raises_ok)
  show "errors_ok (set_current f)" using record_clean
    by (auto simp: errors_ok_def set_current_def act_bind_Inl clean_def)
  show "(\<And>l. clean (c l)) \<Longrightarrow> errors_ok (check c)"
    by (auto simp: errors_ok_def check_def clean_def split: option.splits)
  show "errors_ok (take_fingerprint mg r)" if "surroundings_ok mg"
  proof -
    have ok: "exc_ok e" if "fingerprint (mg_canonical mg) (mg_nfc mg) (mg_sha256 mg) a b c d f = Inl e" for a b c d f e
      using fingerprint_ok [of "mg_canonical mg" "mg_nfc mg" "mg_sha256 mg" a b c d f] that \<open>surroundings_ok mg\<close>
      by (simp add: surroundings_ok_def raises_ok_def)
    have v: "exc_ok (LifecycleVerificationError ''fingerprint-canonicalization-failed''
        (or_text m ''verified environment fingerprint could not be canonicalized''))" for m
      by (simp add: verification_tokens or_text_def)
    show ?thesis unfolding errors_ok_def take_fingerprint_def
      by (auto split: sum.splits exc.splits simp: v dest: ok)
  qed
  show "provider_errors_ok pv \<Longrightarrow> errors_ok (call_acquire pv r)" "provider_errors_ok pv \<Longrightarrow> errors_ok (call_construct pv r)"
    "provider_errors_ok pv \<Longrightarrow> errors_ok (call_inspect pv r)" "provider_errors_ok pv \<Longrightarrow> errors_ok (call_smoke pv r)"
    by (auto simp: errors_ok_def call_defs act_bind_Inl provider_errors_ok_def raises_ok_def)
  show "errors_ok (\<lambda>l. act_return (l\<lparr>rl_handle := h l\<rparr>))" by (simp add: errors_ok_def)
  show "(\<And>l. raises_ok (v l)) \<Longrightarrow> errors_ok (\<lambda>l. act_bind (act_lift (v l)) (\<lambda>x. act_return (l\<lparr>rl_verified := x\<rparr>)))"
    by (auto simp: errors_ok_def act_bind_Inl raises_ok_def)
qed

lemma realize_block_errors_ok:
  assumes "surroundings_ok mg" and "provider_errors_ok pv"
  shows "\<forall>s \<in> set (realize_block mg pv r). errors_ok s"
proof -
  have "exc_ok (LifecycleVerificationError ''empty-provider-handle'' ''provider construction returned an empty handle'')"
    by (simp add: verification_tokens)
  then show ?thesis unfolding realize_block_def stage_defs
    by (simp add: statement_errors_ok assms verify_runtime_clean verify_smoke_clean verify_artifacts_ok)
qed

lemma run_block_error_ok:
  assumes "\<forall>s \<in> set ss. errors_ok s" and "run_block ss l w = (Inl (e, l'), w')"
  shows "exc_ok e"
  using assms
proof (induction ss arbitrary: l w)
  case (Cons s ss)
  obtain x w1 where "s l w = (x, w1)" by (cases "s l w")
  with Cons show ?case by (cases x) (fastforce simp: errors_ok_def)+
qed simp

text \<open>The states in which the handler of the block can find the record.\<close>

definition BUILDING_STATES :: "string list" where
  "BUILDING_STATES = [''acquiring'', ''verifying_artifacts'', ''artifacts_verified'', ''constructing'', ''constructed'',
     ''verifying_runtime'', ''runtime_verified'', ''verifying_smoke'', ''smoke_verified'', ''fingerprinting'']"

definition keeps_building :: "statement \<Rightarrow> bool" where
  "keeps_building s \<longleftrightarrow> (\<forall>l w l' w'. lr_state (rl_current l) \<in> set BUILDING_STATES \<longrightarrow> s l w = (Inr l', w') \<longrightarrow>
     lr_state (rl_current l') \<in> set BUILDING_STATES)"

lemma keeps_buildingI:
  "(\<And>l w l' w'. s l w = (Inr l', w') \<Longrightarrow> lr_state (rl_current l') = lr_state (rl_current l)) \<Longrightarrow> keeps_building s"
  by (auto simp: keeps_building_def)

lemma statement_keeps_building:
  "s \<in> set BUILDING_STATES \<Longrightarrow> keeps_building (to_state mg s d)"
  "(\<And>l. lr_state (f l) = lr_state (rl_current l)) \<Longrightarrow> keeps_building (set_current f)"
  "keeps_building (check c)" "keeps_building (take_fingerprint mg r)"
  "keeps_building (\<lambda>l. act_return (l\<lparr>rl_handle := h l\<rparr>))"
  "keeps_building (\<lambda>l. act_bind (act_lift (v l)) (\<lambda>x. act_return (l\<lparr>rl_verified := x\<rparr>)))"
proof -
  show "s \<in> set BUILDING_STATES \<Longrightarrow> keeps_building (to_state mg s d)"
    by (auto simp: keeps_building_def dest!: to_state_Inr)
  show "(\<And>l. lr_state (f l) = lr_state (rl_current l)) \<Longrightarrow> keeps_building (set_current f)"
    by (rule keeps_buildingI) (auto dest!: statement_Inr(1))
  show "keeps_building (check c)" by (rule keeps_buildingI) (auto dest!: statement_Inr(2))
  show "keeps_building (take_fingerprint mg r)" by (rule keeps_buildingI) (auto dest!: take_fingerprint_Inr)
  show "keeps_building (\<lambda>l. act_return (l\<lparr>rl_handle := h l\<rparr>))"
    "keeps_building (\<lambda>l. act_bind (act_lift (v l)) (\<lambda>x. act_return (l\<lparr>rl_verified := x\<rparr>)))"
    by (rule keeps_buildingI; auto)+
qed

lemma call_keeps_building:
  "keeps_building (call_acquire pv r)" "keeps_building (call_construct pv r)"
  "keeps_building (call_inspect pv r)" "keeps_building (call_smoke pv r)"
  by (rule keeps_buildingI; auto simp: call_defs)+

lemma run_block_building:
  assumes "\<forall>s \<in> set ss. keeps_building s" and "lr_state (rl_current l) \<in> set BUILDING_STATES"
    and "run_block (ss @ [fin]) l w = (Inl (e, l'), w')"
  shows "lr_state (rl_current l') \<in> set BUILDING_STATES"
  using assms
proof (induction ss arbitrary: l w)
  case Nil
  then show ?case by (auto split: prod.splits sum.splits)
next
  case (Cons s ss)
  obtain x w1 where s: "s l w = (x, w1)" by (cases "s l w")
  show ?case
  proof (cases x)
    case (Inl f)
    with s Cons.prems(2,3) show ?thesis by simp
  next
    case (Inr l1)
    from Cons.prems(1) have "keeps_building s" by simp
    with s Inr Cons.prems(2) have "lr_state (rl_current l1) \<in> set BUILDING_STATES" unfolding keeps_building_def by blast
    with Inr s Cons.prems(1,3) Cons.IH [of l1 w1] show ?thesis by simp
  qed
qed

lemma realize_block_building:
  assumes "lr_state (rl_current l) \<in> set BUILDING_STATES" and "run_block (realize_block mg pv r) l w = (Inl (e, l'), w')"
  shows "lr_state (rl_current l') \<in> set BUILDING_STATES"
proof -
  let ?ss = "acquire_stage mg pv r @ construct_stage mg pv r @ runtime_stage mg pv r @ smoke_stage mg pv r @ fingerprint_stage mg r"
  have "\<forall>s \<in> set ?ss. keeps_building s"
    unfolding acquire_stage_def construct_stage_def runtime_stage_def smoke_stage_def fingerprint_stage_def
    by (simp add: statement_keeps_building call_keeps_building BUILDING_STATES_def)
  from run_block_building [OF this assms(1)] assms(2) show ?thesis by (simp add: realize_block_def)
qed

section \<open>Realization returns\<close>

lemma transition_returns:
  assumes ok: "surroundings_ok mg" and s: "s \<in> set LIFECYCLE_STATES" "lr_state r \<in> set LIFECYCLE_STATES" "d \<noteq> []"
    and rec: "\<And>t. lt_sequence t = int (length (lr_transitions r)) + 1 \<Longrightarrow> lt_to_state t = s \<Longrightarrow>
      lifecycle_record_post_init (r\<lparr>lr_state := s, lr_transitions := lr_transitions r @ [t]\<rparr>) = None"
  shows "\<exists>r' w'. transition mg r s d w = (Inr r', w')"
proof -
  from ok obtain i where clock: "mg_clock mg (w_ticks w) = Aware i" unfolding surroundings_ok_def by blast
  let ?w = "w\<lparr>w_ticks := w_ticks w + 1\<rparr>"
  let ?t = "\<lparr>lt_sequence = int (length (lr_transitions r)) + 1, lt_from_state = Some (lr_state r), lt_to_state = s,
    lt_observed_at = Aware (i div 1000 * 1000), lt_detail = d\<rparr>"
  let ?r = "r\<lparr>lr_state := s, lr_transitions := lr_transitions r @ [?t]\<rparr>"
  have "lifecycle_transition_post_init ?t = None" using s by (simp add: lifecycle_transition_post_init_def validates)
  moreover have "lifecycle_record_post_init ?r = None" by (rule rec) simp_all
  moreover from emit_returns [OF ok] obtain w' where "emit_transition mg ?r ?t ?w = (Inr (), w')" by blast
  ultimately show ?thesis using clock
    by (auto simp: transition_def record_transition_def act_bind_def clock_now_def rfc3339_def act_lift_def act_return_def
        construct_def)
qed

text \<open>Moving a valid record on keeps it valid when the new state's own conditions hold.\<close>

lemma moved_record_valid:
  assumes "lifecycle_record_post_init r = None" and "s \<in> set LIFECYCLE_STATES" "s \<noteq> ''ready''"
    and "lt_sequence t = int (length (lr_transitions r)) + 1" "lt_to_state t = s"
    and "s \<in> {''rejected'', ''failed'', ''cancelled'', ''cleanup_required'', ''release_failed''} \<Longrightarrow> lr_failure r \<noteq> None"
    and "s \<in> {''cleanup_required'', ''release_failed''} \<Longrightarrow> \<exists>f. lr_failure r = Some f \<and> lf_cleanup_required f"
  shows "lifecycle_record_post_init (r\<lparr>lr_state := s, lr_transitions := lr_transitions r @ [t]\<rparr>) = None"
proof -
  have "map lt_sequence (lr_transitions r @ [t]) = map int [1..<length (lr_transitions r @ [t]) + 1]"
    using constructed_sequence [OF assms(1)] assms(4) by simp
  with assms show ?thesis
    by (auto simp: lifecycle_record_post_init_def lifecycle_fingerprint_check_def lifecycle_ready_check_def
        lifecycle_failure_check_def split: option.splits)
qed

text \<open>The edit a rollback makes is valid in the building states.\<close>

lemma building_state:
  "s \<in> set BUILDING_STATES \<Longrightarrow> s \<in> set LIFECYCLE_STATES"
  "s \<in> set BUILDING_STATES \<Longrightarrow> s \<notin> {''ready'', ''rejected'', ''failed'', ''cancelled'', ''cleanup_required'', ''release_failed''}"
  by (auto simp: BUILDING_STATES_def LIFECYCLE_STATES_def)

lemma rollback_edit_valid:
  assumes "lifecycle_record_post_init r = None" and "lr_state r \<in> set BUILDING_STATES"
  shows "lifecycle_record_post_init (r\<lparr>lr_provider_handle := h, lr_failure := Some f, lr_rollback := b, lr_diagnostics := ds\<rparr>) = None"
    and "lifecycle_record_post_init (r\<lparr>lr_diagnostics := ds\<rparr>) = None"
  using assms(1) building_state(2) [OF assms(2)]
  by (simp_all add: lifecycle_record_post_init_def lifecycle_fingerprint_check_def lifecycle_ready_check_def
      lifecycle_failure_check_def split: option.splits)

lemma rollback_returns:
  assumes ok: "surroundings_ok mg" and r: "lifecycle_record_post_init r = None" "lr_state r \<in> set BUILDING_STATES"
  shows "\<exists>r' w'. rollback mg r provider handle failure False w = (Inr r', w')"
proof -
  let ?tx = "lr_transaction_id r"
  let ?out = "outcome_of (pv_rollback provider (w_calls w) handle ?tx)"
  let ?w = "w\<lparr>w_calls := w_calls w @ [CallRollback handle ?tx]\<rparr>"
  let ?f = "if po_succeeded ?out then failure else failure\<lparr>lf_cleanup_required := True\<rparr>"
  let ?r = "r\<lparr>lr_provider_handle := or_handle handle (lr_provider_handle r), lr_failure := Some ?f,
     lr_rollback := Some ?out, lr_diagnostics := lr_diagnostics r @ po_diagnostics ?out\<rparr>"
  note valid = rollback_edit_valid [OF r]
  have t: "\<exists>r' w'. transition mg ?r s d ?w = (Inr r', w')"
    if "s = (if po_succeeded ?out then ''failed'' else ''cleanup_required'')" "d \<noteq> []" for s d
  proof (rule transition_returns [OF ok _ _ that(2)])
    show "s \<in> set LIFECYCLE_STATES" using that(1) by (simp add: LIFECYCLE_STATES_def)
    show "lr_state ?r \<in> set LIFECYCLE_STATES" using building_state(1) [OF r(2)] by simp
    fix t :: lifecycle_transition
    assume "lt_sequence t = int (length (lr_transitions ?r)) + 1" "lt_to_state t = s"
    then show "lifecycle_record_post_init (?r\<lparr>lr_state := s, lr_transitions := lr_transitions ?r @ [t]\<rparr>) = None"
      using that(1) valid(1) by (intro moved_record_valid) (auto simp: LIFECYCLE_STATES_def split: if_splits)
  qed
  show ?thesis
  proof (cases "po_succeeded ?out")
    case True
    with t [of "''failed''" "''provider rollback completed after failure''"] valid(1) show ?thesis
      by (auto simp: rollback_def act_bind_def provider_call_def Let_def replace_record_def act_lift_def construct_def)
  next
    case False
    with t [of "''cleanup_required''" "''rollback could not prove cleanup; reconciliation is required''"] valid(1) show ?thesis
      by (auto simp: rollback_def act_bind_def provider_call_def Let_def replace_record_def act_lift_def construct_def)
  qed
qed

lemma new_failure_returns:
  "c \<in> set FAILURE_CLASSES \<Longrightarrow> is_token k \<Longrightarrow> m \<noteq> [] \<Longrightarrow> \<exists>f. new_failure c k m b w = (Inr f, w)"
  by (auto simp: new_failure_def act_lift_def construct_def lifecycle_failure_post_init_def validates split: option.splits)

lemma fail_with_rollback_returns:
  assumes ok: "surroundings_ok mg" and r: "lifecycle_record_post_init r = None" "lr_state r \<in> set BUILDING_STATES"
    and e: "exc_ok e"
  shows "\<exists>r' w'. fail_with_rollback mg r provider e handle w = (Inr r', w')"
proof -
  have fc: "''verification'' \<in> set FAILURE_CLASSES" "''provider'' \<in> set FAILURE_CLASSES"
    by (simp_all add: FAILURE_CLASSES_def)
  have tok: "is_token ''provider-operation-failed''" by (simp add: verification_tokens)
  have other: "\<exists>r' w'. act_bind (new_failure ''provider'' ''provider-operation-failed'' (exc_text e) False)
      (\<lambda>f. rollback mg r provider handle f False) w = (Inr r', w')"
    using new_failure_returns [OF fc(2) tok exc_text_nonempty, of e False w] rollback_returns [OF ok r]
    unfolding act_bind_Inr by blast
  show ?thesis
  proof (cases e)
    case (LifecycleVerificationError c m)
    with e have "is_token c" "m \<noteq> []" by (simp_all add: exc_ok_def)
    from new_failure_returns [OF fc(1) this, of False w] rollback_returns [OF ok r] show ?thesis
      unfolding fail_with_rollback_def LifecycleVerificationError exc.case act_bind_Inr by blast
  next
    case (ProviderOperationError c m h ds)
    let ?r = "r\<lparr>lr_diagnostics := lr_diagnostics r @ ds\<rparr>"
    have r': "lifecycle_record_post_init ?r = None" "lr_state ?r \<in> set BUILDING_STATES"
      using rollback_edit_valid(2) [OF r] r(2) by simp_all
    from e ProviderOperationError have "is_token c" "m \<noteq> []" by (simp_all add: exc_ok_def)
    from new_failure_returns [OF fc(2) this, of False w] obtain f where
      nf: "new_failure ''provider'' c m False w = (Inr f, w)" by blast
    from rollback_returns [OF ok r'] obtain r2 w2 where
      rb: "rollback mg ?r provider (or_handle h handle) f False w = (Inr r2, w2)" by blast
    have re: "replace_record ?r w = (Inr ?r, w)" using r'(1) unfolding replace_record_Inr by blast
    from nf rb re show ?thesis
      unfolding fail_with_rollback_def ProviderOperationError exc.case act_bind_Inr by blast
  qed (use other in \<open>simp_all add: fail_with_rollback_def\<close>)
qed

lemma acquiring_returns:
  assumes ok: "surroundings_ok mg" and valid: "lifecycle_record_post_init r = None" and adm: "lr_state r = ''admitted''"
  obtains c w1 t where "transition mg r ''acquiring'' ''provider acquisition started'' w = (Inr c, w1)"
    "lifecycle_record_post_init c = None" "lr_state c \<in> set BUILDING_STATES"
    "c = r\<lparr>lr_state := ''acquiring'', lr_transitions := lr_transitions r @ [t]\<rparr>"
proof -
  have "\<exists>c w1. transition mg r ''acquiring'' ''provider acquisition started'' w = (Inr c, w1)"
  proof (rule transition_returns [OF ok])
    fix t :: lifecycle_transition
    assume "lt_sequence t = int (length (lr_transitions r)) + 1" "lt_to_state t = ''acquiring''"
    with valid show "lifecycle_record_post_init (r\<lparr>lr_state := ''acquiring'', lr_transitions := lr_transitions r @ [t]\<rparr>) = None"
      by (intro moved_record_valid) (simp_all add: LIFECYCLE_STATES_def)
  qed (simp_all add: adm LIFECYCLE_STATES_def)
  then obtain c w1 where c: "transition mg r ''acquiring'' ''provider acquisition started'' w = (Inr c, w1)" by blast
  from transition_Inr [OF c] obtain t where t: "lifecycle_record_post_init c = None"
    "c = r\<lparr>lr_state := ''acquiring'', lr_transitions := lr_transitions r @ [t]\<rparr>" by metis
  then have "lr_state c \<in> set BUILDING_STATES" by (simp add: BUILDING_STATES_def)
  from that [OF c t(1) this t(2)] show thesis .
qed

lemma returns_of_realize:
  assumes ok: "surroundings_ok mg" and valid: "lifecycle_record_post_init r = None"
    and adm: "lr_state r = ''admitted''" "lr_plan r \<noteq> None" "lr_admission r = Some d" "ad_admitted d"
    and reg: "registry_get (mg_providers mg) (pd_name (lr_provider r)) = Inr provider" and pv: "provider_errors_ok provider"
    and recipe: "environment_recipe_post_init (lr_recipe r) = None"
  shows "\<exists>r' w'. realize mg r w = (Inr r', w') \<and> lr_state r' \<in> {''ready'', ''failed'', ''cleanup_required''}"
proof -
  obtain c w1 t where c: "transition mg r ''acquiring'' ''provider acquisition started'' w = (Inr c, w1)"
    and cs: "lifecycle_record_post_init c = None" "lr_state c \<in> set BUILDING_STATES"
    by (rule acquiring_returns [OF ok valid adm(1)])
  obtain res w2 where b: "run_block (realize_block mg provider r) (initial_locals c) w1 = (res, w2)"
    by (cases "run_block (realize_block mg provider r) (initial_locals c) w1")
  have "\<exists>r' w'. realize mg r w = (Inr r', w')"
  proof (cases res)
    case (Inr l)
    with b c reg adm show ?thesis by (auto simp: realize_def act_bind_def require_state_def act_lift_def)
  next
    case (Inl p)
    obtain e l where p: "p = (e, l)" by (cases p)
    from run_block_advances [OF realize_block_log _ b] cs(1) Inl p have v: "lifecycle_record_post_init (rl_current l) = None"
      by (auto simp: initial_locals_def last_locals_def)
    have st: "lr_state (rl_current l) \<in> set BUILDING_STATES"
      by (rule realize_block_building) (use b Inl p cs(2) in \<open>auto simp: initial_locals_def\<close>)
    have "exc_ok e" using run_block_error_ok [OF realize_block_errors_ok [OF ok pv]] b Inl p by blast
    from fail_with_rollback_returns [OF ok v st this, of provider "rl_handle l" w2] Inl p b c reg adm show ?thesis
      by (auto simp: realize_def act_bind_def require_state_def act_lift_def)
  qed
  then obtain r' w' where run: "realize mg r w = (Inr r', w')" by blast
  have same: "same_identity r r'" using realize_advances [OF run] by (auto simp: advances_def)
  from run have "lr_state r' \<in> {''ready'', ''failed'', ''cleanup_required''}"
  proof (cases rule: realize_Inr)
    case (ready pv' cur v1 l)
    with realize_block_verified(1) [OF ready(3) recipe] same show ?thesis by simp
  next
    case (rolled_back pv' cur v1 e l v2)
    from fail_with_rollback_Inr [OF rolled_back(4)] show ?thesis by (metis insertI1 insertI2)
  qed
  with run show ?thesis by blast
qed

text \<open>
  C15. Realizing an admitted environment always returns a record: whatever the provider returns
  or raises at any point, whatever it reports about its artifacts, runtime or probes, and
  whether or not its rollback works, the caller gets a Ready record, a failed one or one that
  requires cleanup. This needs a clock with an offset, a journal that accepts events, and
  errors with a canonical code and a message.
\<close>

theorem realize_returns:
  assumes ok: "surroundings_ok mg" and valid: "lifecycle_record_post_init r = None"
    and adm: "lr_state r = ''admitted''" "lr_plan r \<noteq> None" "lr_admission r = Some d" "ad_admitted d"
    and reg: "registry_get (mg_providers mg) (pd_name (lr_provider r)) = Inr provider" and pv: "provider_errors_ok provider"
    and recipe: "environment_recipe_post_init (lr_recipe r) = None"
  shows "\<exists>r' w'. realize mg r w = (Inr r', w') \<and> lr_state r' \<in> {''ready'', ''failed'', ''cleanup_required''}"
  by (rule returns_of_realize [OF ok valid adm reg pv recipe])

section \<open>Final states, release and cancellation\<close>

text \<open>
  Rejected, failed, cancelled and released environments are final: every operation on
  them is refused with the lifecycle error, no event is published and no provider is called.
\<close>

theorem final_states_refuse:
  assumes "lr_state r \<in> {''rejected'', ''failed'', ''cancelled'', ''released''}" and "reason \<noteq> []"
  shows "\<exists>a b c d. admit mg r decision w = (Inl (InvalidLifecycleTransition a), w) \<and>
     realize mg r w = (Inl (InvalidLifecycleTransition b), w) \<and>
     cancel mg r reason w = (Inl (InvalidLifecycleTransition c), w) \<and>
     release mg r w = (Inl (InvalidLifecycleTransition d), w)"
proof -
  have "lr_state r \<notin> {''planned'', ''admitted'', ''ready''}" "lr_state r \<notin> set MUTATED_STATES"
    using assms(1) by (auto simp: MUTATED_STATES_def)
  then show ?thesis
    using assms(2) by (simp add: admit_def realize_def cancel_def release_def act_bind_def require_state_def act_lift_def)
qed

text \<open>
  An environment is reported as released only when its provider proved the release of the
  recorded handle; otherwise the record keeps the failure and asks for cleanup.
\<close>

theorem release_outcome:
  assumes "release mg r w = (Inr r', w')"
  shows "lr_state r = ''ready'' \<and> (\<exists>provider. registry_get (mg_providers mg) (pd_name (lr_provider r)) = Inr provider \<and>
     (lr_state r' = ''released'' \<longleftrightarrow> po_succeeded (outcome_of (pv_release provider (w_calls w)
        (case lr_provider_handle r of None \<Rightarrow> [] | Some s \<Rightarrow> s) (lr_transaction_id r))))) \<and>
     (lr_state r' \<noteq> ''released'' \<longrightarrow> lr_state r' = ''release_failed'' \<and>
        (\<exists>f. lr_failure r' = Some f \<and> lf_cleanup_required f))"
proof -
  note r = release_Inr [OF assms]
  have "\<exists>f. lr_failure r' = Some f \<and> lf_cleanup_required f" if "lr_state r' = ''release_failed''"
    using r(3) that by (auto simp: lifecycle_record_post_init_def lifecycle_failure_check_def split: option.splits)
  with r show ?thesis by auto
qed

text \<open>
  C18. Cancelling a Ready environment destroys it and then raises: the provider rolls the
  environment back, and building the cancelled record fails because a Ready record must not
  carry a failure. The caller gets a \<open>ValueError\<close> and no record, for every Ready environment and
  whatever the rollback returns, although the state is among those that \<open>cancel\<close> accepts.
\<close>

theorem cancel_ready_raises:
  assumes valid: "lifecycle_record_post_init r = None" and ready: "lr_state r = ''ready''" and reason: "reason \<noteq> []"
    and reg: "registry_get (mg_providers mg) (pd_name (lr_provider r)) = Inr provider"
  shows "''ready'' \<in> set MUTATED_STATES \<and>
     cancel mg r reason w =
       (Inl (ValueError ''Ready requires verified runtime, fingerprint, handle, and no failure''),
        w\<lparr>w_calls := w_calls w @ [CallRollback (lr_provider_handle r) (lr_transaction_id r)]\<rparr>)"
proof -
  have "lifecycle_failure_post_init \<lparr>lf_classification = ''cancelled'', lf_code = ''operation-cancelled'', lf_message = reason,
      lf_cleanup_required = False\<rparr> = None"
    using reason by (simp add: lifecycle_failure_post_init_def FAILURE_CLASSES_def validates is_lower_alnum_def is_lower_def is_digit_def)
  moreover have "lifecycle_record_post_init (r\<lparr>lr_provider_handle := h, lr_failure := Some f, lr_rollback := b, lr_diagnostics := ds\<rparr>) =
      Some (ValueError ''Ready requires verified runtime, fingerprint, handle, and no failure'')" for h f b ds
    using valid ready
    by (simp add: lifecycle_record_post_init_def lifecycle_fingerprint_check_def lifecycle_ready_check_def raise_if_def
        split: option.splits)
  ultimately show ?thesis using ready reason reg
    by (simp add: cancel_def MUTATED_STATES_def rollback_def act_bind_def new_failure_def act_lift_def construct_def
        provider_call_def Let_def replace_record_def)
qed

text \<open>
  Reconciling an environment that requires cleanup (or whose release failed) cannot
  succeed: when the provider's rollback works, building the cancelled record raises, because
  the record still is in the state that demands a cleanup failure and the new failure no
  longer asks for cleanup. Only a rollback that fails again yields a record.
\<close>

theorem cancel_after_cleanup_raises:
  assumes valid: "lifecycle_record_post_init r = None" and state: "lr_state r \<in> {''cleanup_required'', ''release_failed''}"
    and reason: "reason \<noteq> []" and reg: "registry_get (mg_providers mg) (pd_name (lr_provider r)) = Inr provider"
    and clean: "po_succeeded (outcome_of (pv_rollback provider (w_calls w) (lr_provider_handle r) (lr_transaction_id r)))"
  shows "cancel mg r reason w =
       (Inl (ValueError ''state requires cleanup_required failure evidence''),
        w\<lparr>w_calls := w_calls w @ [CallRollback (lr_provider_handle r) (lr_transaction_id r)]\<rparr>)"
proof -
  let ?f = "\<lparr>lf_classification = ''cancelled'', lf_code = ''operation-cancelled'', lf_message = reason,
      lf_cleanup_required = False\<rparr>"
  have "lifecycle_failure_post_init ?f = None"
    using reason by (simp add: lifecycle_failure_post_init_def FAILURE_CLASSES_def validates is_lower_alnum_def is_lower_def is_digit_def)
  moreover have "lifecycle_record_post_init (r\<lparr>lr_provider_handle := h, lr_failure := Some ?f, lr_rollback := b, lr_diagnostics := ds\<rparr>) =
      Some (ValueError ''state requires cleanup_required failure evidence'')" for h b ds
    using valid state
    by (auto simp: lifecycle_record_post_init_def lifecycle_fingerprint_check_def lifecycle_ready_check_def
        lifecycle_failure_check_def raise_if_def split: option.splits)
  moreover have "lr_state r \<notin> {''planned'', ''admitted''}" "lr_state r \<in> set MUTATED_STATES"
    using state by (auto simp: MUTATED_STATES_def)
  ultimately show ?thesis using reason reg clean
    by (simp add: cancel_def rollback_def act_bind_def new_failure_def act_lift_def construct_def
        provider_call_def Let_def replace_record_def)
qed

end
