(* ===== verification/Environment_Liveness.thy ===== *)
theory Environment_Liveness
  imports Environment_Totality
begin

text \<open>
  The statements of a realization return: when every check accepts what the provider answers,
  the realization returns a Ready record with this evidence. \<open>Environment_Honesty\<close> shows which
  answers the checks accept, in terms of the recipe.
\<close>

section \<open>Statements that return\<close>

definition building :: "realize_locals \<Rightarrow> bool" where
  "building l \<longleftrightarrow> lifecycle_record_post_init (rl_current l) = None \<and> lr_state (rl_current l) \<in> set BUILDING_STATES"

lemma run_block_step: "s l w = (Inr l1, w1) \<Longrightarrow> run_block (s # ss) l w = run_block ss l1 w1"
  by simp

lemma to_state_building:
  assumes ok: "surroundings_ok mg" and l: "building l" and s: "s \<in> set BUILDING_STATES" "d \<noteq> []"
  obtains l' w' where "to_state mg s d l w = (Inr l', w')" "building l'" "w_calls w' = w_calls w"
    "rl_handle l' = rl_handle l" "rl_acquisition l' = rl_acquisition l" "rl_verified l' = rl_verified l"
    "rl_runtime l' = rl_runtime l" "rl_smoke l' = rl_smoke l" "rl_fingerprint l' = rl_fingerprint l"
proof -
  have "\<exists>r' w'. transition mg (rl_current l) s d w = (Inr r', w')"
  proof (rule transition_returns [OF ok _ _ s(2)])
    show "s \<in> set LIFECYCLE_STATES" "lr_state (rl_current l) \<in> set LIFECYCLE_STATES"
      using s l building_state(1) by (auto simp: building_def)
    fix t :: lifecycle_transition
    assume "lt_sequence t = int (length (lr_transitions (rl_current l))) + 1" "lt_to_state t = s"
    then show "lifecycle_record_post_init ((rl_current l)\<lparr>lr_state := s, lr_transitions := lr_transitions (rl_current l) @ [t]\<rparr>) = None"
      using l building_state [OF s(1)] by (intro moved_record_valid) (auto simp: building_def)
  qed
  then obtain r' w' where r': "transition mg (rl_current l) s d w = (Inr r', w')" by blast
  let ?l = "l\<lparr>rl_current := r'\<rparr>"
  have t: "to_state mg s d l w = (Inr ?l, w')" using r' by (simp add: to_state_def act_bind_def act_return_def)
  from to_state_Inr [OF t] obtain u where "w_calls w' = w_calls w" "lifecycle_record_post_init r' = None"
    "r' = (rl_current l)\<lparr>lr_state := s, lr_transitions := lr_transitions (rl_current l) @ [u]\<rparr>"
    by (auto dest: arg_cong [of _ _ rl_current])
  with that [OF t] s show thesis by (simp add: building_def)
qed

lemma set_current_building:
  assumes "lifecycle_record_post_init (f l) = None" and "lr_state (f l) \<in> set BUILDING_STATES"
  shows "set_current f l w = (Inr (l\<lparr>rl_current := f l\<rparr>), w)" "building (l\<lparr>rl_current := f l\<rparr>)"
  using assms by (simp_all add: set_current_def act_bind_def replace_record_def act_lift_def construct_def act_return_def building_def)

text \<open>Edits of a record in a building state.\<close>

lemma building_edit:
  assumes "lifecycle_record_post_init r = None" and "lr_state r \<in> set BUILDING_STATES"
  shows "lifecycle_record_post_init (r\<lparr>lr_provider_handle := h\<rparr>) = None"
    and "distinct (map va_name vs) \<Longrightarrow> lifecycle_record_post_init (r\<lparr>lr_verified_artifacts := vs\<rparr>) = None"
    and "lifecycle_record_post_init (r\<lparr>lr_runtime_identity := rt\<rparr>) = None"
    and "distinct (map so_probe_id sm) \<Longrightarrow> lifecycle_record_post_init (r\<lparr>lr_smoke_observations := sm\<rparr>) = None"
    and "is_sha256 dg \<Longrightarrow> is_rcid fp \<Longrightarrow> occurs_in '':environment-fingerprint:h:'' fp \<Longrightarrow>
      lifecycle_record_post_init (r\<lparr>lr_verification_digest := Some dg, lr_environment_fingerprint_id := Some fp\<rparr>) = None"
  using assms(1) building_state(2) [OF assms(2)]
  by (simp_all add: lifecycle_record_post_init_def lifecycle_fingerprint_check_def lifecycle_ready_check_def
      lifecycle_failure_check_def validates split: option.splits)

lemma verify_artifacts_names:
  assumes "verify_artifacts mg reqs obs = Inr vs"
  shows "distinct (map va_name vs)"
proof -
  let ?f = "\<lambda>n. verify_artifact mg (the (last_named ar_name reqs n)) (the (last_named ao_name obs n))"
  let ?names = "sort (remdups (map ar_name reqs))"
  from assms have "mapE ?f ?names = Inr vs" by (auto simp: verify_artifacts_def Let_def split: if_splits)
  then have all: "list_all2 (\<lambda>n va. ?f n = Inr va) ?names vs" by (simp add: mapE_Inr_iff)
  have "va_name va = n" if "n \<in> set ?names" "?f n = Inr va" for n va
  proof -
    from that(1) obtain req where "last_named ar_name reqs n = Some req"
      by (cases "last_named ar_name reqs n") (auto simp: last_named_def find_None_iff)
    with last_named_SomeD [OF this] verify_artifact_Inr [OF that(2)] show ?thesis by simp
  qed
  with all have "list_all2 (\<lambda>n va. va_name va = n) ?names vs" by (rule list.rel_mono_strong) auto
  then have "map va_name vs = ?names" by (rule list_all2_map_back)
  then show ?thesis by simp
qed

section \<open>The stages return\<close>

lemma acquire_stage_returns:
  assumes ok: "surroundings_ok mg" and l: "building l"
    and acq: "pv_acquire pv (w_calls w) (lr_recipe r) (the (lr_plan r)) (lr_transaction_id r) = Inr acq"
    and ver: "verify_artifacts mg (rc_artifacts (lr_recipe r)) (aq_artifacts acq) = Inr vs"
  obtains l' w' where "run_block (acquire_stage mg pv r) l w = (Inr l', w')" "building l'"
proof -
  let ?l1 = "l\<lparr>rl_acquisition := acq\<rparr>" and ?w1 = "w\<lparr>w_calls := w_calls w @ [CallAcquire (lr_transaction_id r)]\<rparr>"
  let ?l2 = "?l1\<lparr>rl_handle := Some (aq_handle acq)\<rparr>"
  let ?l3 = "?l2\<lparr>rl_current := (rl_current l)\<lparr>lr_provider_handle := Some (aq_handle acq)\<rparr>\<rparr>"
  have s1: "call_acquire pv r l w = (Inr ?l1, ?w1)"
    using acq by (simp add: call_acquire_def act_bind_def provider_call_def act_return_def)
  have s3: "set_current (\<lambda>l. (rl_current l)\<lparr>lr_provider_handle := rl_handle l\<rparr>) ?l2 ?w1 = (Inr ?l3, ?w1)" and b3: "building ?l3"
    using set_current_building [where f = "\<lambda>l. (rl_current l)\<lparr>lr_provider_handle := rl_handle l\<rparr>" and l = ?l2] l
      building_edit(1) by (auto simp: building_def)
  obtain l4 w4 where s4: "to_state mg ''verifying_artifacts'' ''independent artifact verification started'' ?l3 ?w1 = (Inr l4, w4)"
    and b4: "building l4" and f4: "rl_acquisition l4 = acq"
    by (rule to_state_building [OF ok b3, of "''verifying_artifacts''"
          "''independent artifact verification started''" ?w1]) (simp_all add: BUILDING_STATES_def)
  let ?l5 = "l4\<lparr>rl_verified := vs\<rparr>"
  let ?l6 = "?l5\<lparr>rl_current := (rl_current l4)\<lparr>lr_verified_artifacts := vs\<rparr>\<rparr>"
  have s6: "set_current (\<lambda>l. (rl_current l)\<lparr>lr_verified_artifacts := rl_verified l\<rparr>) ?l5 w4 = (Inr ?l6, w4)" and b6: "building ?l6"
    using set_current_building [where f = "\<lambda>l. (rl_current l)\<lparr>lr_verified_artifacts := rl_verified l\<rparr>" and l = ?l5] b4
      building_edit(2) [OF _ _ verify_artifacts_names [OF ver]] by (auto simp: building_def)
  obtain l7 w7 where s7: "to_state mg ''artifacts_verified'' ''all acquired artifact bytes match the recipe'' ?l6 w4 = (Inr l7, w7)"
    and b7: "building l7"
    by (rule to_state_building [OF ok b6, of "''artifacts_verified''"
          "''all acquired artifact bytes match the recipe''" w4]) (simp_all add: BUILDING_STATES_def)
  show thesis
    by (rule that [OF _ b7])
      (simp add: acquire_stage_def s1 s3 s4 s6 s7 f4 ver act_bind_def act_lift_def act_return_def)
qed

lemma construct_stage_returns:
  assumes ok: "surroundings_ok mg" and l: "building l"
    and con: "pv_construct pv (w_calls w) (lr_recipe r) (rl_acquisition l) (lr_transaction_id r) = Inr h" and h: "h \<noteq> []"
  obtains l' w' where "run_block (construct_stage mg pv r) l w = (Inr l', w')" "building l'" "rl_handle l' = Some h"
proof -
  obtain l1 w1 where s1: "to_state mg ''constructing'' ''provider construction started'' l w = (Inr l1, w1)"
    and b1: "building l1" and f1: "w_calls w1 = w_calls w" "rl_acquisition l1 = rl_acquisition l"
    by (rule to_state_building [OF ok l, of "''constructing''" "''provider construction started''" w])
      (simp_all add: BUILDING_STATES_def)
  let ?l2 = "l1\<lparr>rl_handle := Some h\<rparr>" and ?w2 = "w1\<lparr>w_calls := w_calls w1 @ [CallConstruct (lr_transaction_id r)]\<rparr>"
  have s2: "call_construct pv r l1 w1 = (Inr ?l2, ?w2)"
    using con f1 by (simp add: call_construct_def act_bind_def provider_call_def act_return_def)
  let ?l3 = "?l2\<lparr>rl_current := (rl_current l1)\<lparr>lr_provider_handle := Some h\<rparr>\<rparr>"
  have s3: "set_current (\<lambda>l. (rl_current l)\<lparr>lr_provider_handle := rl_handle l\<rparr>) ?l2 ?w2 = (Inr ?l3, ?w2)" and b3: "building ?l3"
    using set_current_building [where f = "\<lambda>l. (rl_current l)\<lparr>lr_provider_handle := rl_handle l\<rparr>" and l = ?l2] b1
      building_edit(1) by (auto simp: building_def)
  obtain l4 w4 where s4: "to_state mg ''constructed'' ''provider construction completed'' ?l3 ?w2 = (Inr l4, w4)"
    and b4: "building l4" and f4: "rl_handle l4 = Some h"
    by (rule to_state_building [OF ok b3, of "''constructed''" "''provider construction completed''" ?w2])
      (simp_all add: BUILDING_STATES_def)
  show thesis
    by (rule that [OF _ b4 f4]) (simp add: construct_stage_def s1 s2 s3 s4 check_def act_lift_def raise_if_def h)
qed

lemma runtime_stage_returns:
  assumes ok: "surroundings_ok mg" and l: "building l" and h: "rl_handle l = Some h"
    and ins: "pv_inspect_runtime pv (w_calls w) (lr_recipe r) h (lr_transaction_id r) = Inr rt"
    and ver: "verify_runtime (lr_recipe r) (lr_provider r) rt = None"
  obtains l' w' where "run_block (runtime_stage mg pv r) l w = (Inr l', w')" "building l'" "rl_runtime l' = rt"
proof -
  obtain l1 w1 where s1: "to_state mg ''verifying_runtime'' ''runtime identity inspection started'' l w = (Inr l1, w1)"
    and b1: "building l1" and f1: "w_calls w1 = w_calls w" "rl_handle l1 = rl_handle l"
    by (rule to_state_building [OF ok l, of "''verifying_runtime''" "''runtime identity inspection started''" w])
      (simp_all add: BUILDING_STATES_def)
  let ?l2 = "l1\<lparr>rl_runtime := rt\<rparr>" and ?w2 = "w1\<lparr>w_calls := w_calls w1 @ [CallInspect h (lr_transaction_id r)]\<rparr>"
  have s2: "call_inspect pv r l1 w1 = (Inr ?l2, ?w2)"
    using ins f1 h by (simp add: call_inspect_def act_bind_def provider_call_def act_return_def)
  let ?l3 = "?l2\<lparr>rl_current := (rl_current l1)\<lparr>lr_runtime_identity := Some rt\<rparr>\<rparr>"
  have s3: "set_current (\<lambda>l. (rl_current l)\<lparr>lr_runtime_identity := Some (rl_runtime l)\<rparr>) ?l2 ?w2 = (Inr ?l3, ?w2)"
    and b3: "building ?l3"
    using set_current_building [where f = "\<lambda>l. (rl_current l)\<lparr>lr_runtime_identity := Some (rl_runtime l)\<rparr>" and l = ?l2] b1
      building_edit(3) by (auto simp: building_def)
  obtain l4 w4 where s4: "to_state mg ''runtime_verified'' ''runtime identity matches recipe requirements'' ?l3 ?w2 = (Inr l4, w4)"
    and b4: "building l4" and f4: "rl_runtime l4 = rt"
    by (rule to_state_building [OF ok b3, of "''runtime_verified''" "''runtime identity matches recipe requirements''" ?w2])
      (simp_all add: BUILDING_STATES_def)
  show thesis
    by (rule that [OF _ b4 f4]) (simp add: runtime_stage_def s1 s2 s3 s4 check_def act_lift_def ver)
qed

lemma smoke_stage_returns:
  assumes ok: "surroundings_ok mg" and l: "building l" and h: "rl_handle l = Some h"
    and smk: "pv_smoke_verify pv (w_calls w) (lr_recipe r) h (lr_transaction_id r) = Inr sm"
    and ver: "verify_smoke (lr_recipe r) sm = None"
  obtains l' w' where "run_block (smoke_stage mg pv r) l w = (Inr l', w')" "building l'" "rl_smoke l' = sm"
proof -
  obtain l1 w1 where s1: "to_state mg ''verifying_smoke'' ''identity smoke verification started'' l w = (Inr l1, w1)"
    and b1: "building l1" and f1: "w_calls w1 = w_calls w" "rl_handle l1 = rl_handle l"
    by (rule to_state_building [OF ok l, of "''verifying_smoke''" "''identity smoke verification started''" w])
      (simp_all add: BUILDING_STATES_def)
  let ?l2 = "l1\<lparr>rl_smoke := sm\<rparr>" and ?w2 = "w1\<lparr>w_calls := w_calls w1 @ [CallSmoke h (lr_transaction_id r)]\<rparr>"
  have s2: "call_smoke pv r l1 w1 = (Inr ?l2, ?w2)"
    using smk f1 h by (simp add: call_smoke_def act_bind_def provider_call_def act_return_def)
  have d: "distinct (map so_probe_id sm)"
    using ver length_remdups_distinct [of "map so_probe_id sm"] by (auto simp: verify_smoke_def)
  let ?l3 = "?l2\<lparr>rl_current := (rl_current l1)\<lparr>lr_smoke_observations := sm\<rparr>\<rparr>"
  have s3: "set_current (\<lambda>l. (rl_current l)\<lparr>lr_smoke_observations := rl_smoke l\<rparr>) ?l2 ?w2 = (Inr ?l3, ?w2)"
    and b3: "building ?l3"
    using set_current_building [where f = "\<lambda>l. (rl_current l)\<lparr>lr_smoke_observations := rl_smoke l\<rparr>" and l = ?l2] b1
      building_edit(4) [OF _ _ d] by (auto simp: building_def)
  obtain l4 w4 where s4: "to_state mg ''smoke_verified'' ''all required non-conformance smoke probes passed'' ?l3 ?w2 = (Inr l4, w4)"
    and b4: "building l4" and f4: "rl_smoke l4 = sm"
    by (rule to_state_building [OF ok b3, of "''smoke_verified''" "''all required non-conformance smoke probes passed''" ?w2])
      (simp_all add: BUILDING_STATES_def)
  show thesis
    by (rule that [OF _ b4 f4]) (simp add: smoke_stage_def s1 s2 s3 s4 check_def act_lift_def ver)
qed

lemma fingerprint_stage_returns:
  assumes ok: "surroundings_ok mg" and l: "building l"
    and fp: "fingerprint (mg_canonical mg) (mg_nfc mg) (mg_sha256 mg) (lr_recipe r) (lr_provider r)
       (rl_verified l) (rl_runtime l) (rl_smoke l) = Inr fr"
    and valid: "is_sha256 (fr_verification_digest fr)" "is_rcid (fr_environment_fingerprint_id fr)"
      "occurs_in '':environment-fingerprint:h:'' (fr_environment_fingerprint_id fr)"
  obtains l' w' where "run_block (fingerprint_stage mg r) l w = (Inr l', w')" "building l'"
    "lr_verification_digest (rl_current l') = Some (fr_verification_digest fr)"
    "lr_environment_fingerprint_id (rl_current l') = Some (fr_environment_fingerprint_id fr)"
proof -
  obtain l1 w1 where s1: "to_state mg ''fingerprinting'' ''verified realized fingerprint derivation started'' l w = (Inr l1, w1)"
    and b1: "building l1"
    and f1: "rl_verified l1 = rl_verified l" "rl_runtime l1 = rl_runtime l" "rl_smoke l1 = rl_smoke l"
    by (rule to_state_building [OF ok l, of "''fingerprinting''" "''verified realized fingerprint derivation started''" w])
      (simp_all add: BUILDING_STATES_def)
  let ?l2 = "l1\<lparr>rl_fingerprint := fr\<rparr>"
  let ?f = "\<lambda>l. (rl_current l)\<lparr>lr_verification_digest := Some (fr_verification_digest (rl_fingerprint l)),
        lr_environment_fingerprint_id := Some (fr_environment_fingerprint_id (rl_fingerprint l))\<rparr>"
  have s2: "take_fingerprint mg r l1 w1 = (Inr ?l2, w1)"
    using fp f1 by (simp add: take_fingerprint_def act_lift_def)
  have s3: "set_current ?f ?l2 w1 = (Inr (?l2\<lparr>rl_current := ?f ?l2\<rparr>), w1)" and b3: "building (?l2\<lparr>rl_current := ?f ?l2\<rparr>)"
    using set_current_building [where f = ?f and l = ?l2] b1 building_edit(5) [OF _ _ valid] by (auto simp: building_def)
  show thesis
    by (rule that [OF _ b3]) (simp_all add: fingerprint_stage_def s1 s2 s3)
qed

section \<open>Fingerprints pass the record's checks\<close>

lemma split_on_plain: "d \<notin> set s \<Longrightarrow> split_on d s = [s]"
  by (induction s) auto

lemma split_on_part: "d \<notin> set s \<Longrightarrow> split_on d (s @ d # t) = s # split_on d t"
proof (induction s)
  case Nil
  then show ?case by (cases "split_on d t") simp_all
qed auto

lemma sha256_no_colon: "is_sha256 d \<Longrightarrow> CHR '':'' \<notin> set d"
proof
  assume "is_sha256 d" "CHR '':'' \<in> set d"
  then have "is_hex (CHR '':'')" unfolding is_sha256_def is_hex_string_def list_all_iff by blast
  then show False by (simp add: is_hex_def is_digit_def)
qed

lemma fingerprint_id_valid:
  assumes "fingerprint canon nfc sha recipe provider artifacts runtime smoke = Inr fr" and "\<And>b. is_sha256 (sha b)"
  shows "is_sha256 (fr_verification_digest fr)" "is_rcid (fr_environment_fingerprint_id fr)"
    "occurs_in '':environment-fingerprint:h:'' (fr_environment_fingerprint_id fr)"
proof -
  from assms obtain d e where d: "fr_environment_fingerprint_id fr = ''rcid:v1:environment-fingerprint:h:jcs-sha256-v1:'' @ d"
      "is_sha256 d" and e: "fr_verification_digest fr = e" "is_sha256 e"
    by (auto simp: fingerprint_def Let_def HASH_POLICY_def)
  from e show "is_sha256 (fr_verification_digest fr)" by simp
  have "fr_environment_fingerprint_id fr = ''rcid'' @ CHR '':'' # ''v1'' @ CHR '':'' # ''environment-fingerprint'' @
      CHR '':'' # ''h'' @ CHR '':'' # ''jcs-sha256-v1'' @ CHR '':'' # d" using d(1) by simp
  moreover have "split_on (CHR '':'') (''rcid'' @ CHR '':'' # ''v1'' @ CHR '':'' # ''environment-fingerprint'' @
      CHR '':'' # ''h'' @ CHR '':'' # ''jcs-sha256-v1'' @ CHR '':'' # d) =
      [''rcid'', ''v1'', ''environment-fingerprint'', ''h'', ''jcs-sha256-v1'', d]"
    by (subst split_on_part, simp)+ (simp add: split_on_plain [OF sha256_no_colon [OF d(2)]])
  moreover have "is_token ''environment-fingerprint''" "is_token ''jcs-sha256-v1''"
    by (simp_all add: is_lower_alnum_def is_lower_def is_digit_def)
  ultimately show "is_rcid (fr_environment_fingerprint_id fr)"
    using d(2) by (simp only: is_rcid_def identity_syntax_def list.case) simp
  show "occurs_in '':environment-fingerprint:h:'' (fr_environment_fingerprint_id fr)" using d by simp
qed

section \<open>An honest realization ends Ready\<close>

text \<open>The part of the record the block never touches.\<close>

definition evidence :: "lifecycle_record \<Rightarrow> provider_plan option \<times> admission_decision option \<times> lifecycle_failure option \<times> provider_outcome option" where
  "evidence r = (lr_plan r, lr_admission r, lr_failure r, lr_rollback r)"

definition keeps_evidence :: "statement \<Rightarrow> bool" where
  "keeps_evidence s \<longleftrightarrow> (\<forall>l w l' w'. s l w = (Inr l', w') \<longrightarrow> evidence (rl_current l') = evidence (rl_current l))"

lemma keeps_evidenceI:
  "(\<And>l w l' w'. s l w = (Inr l', w') \<Longrightarrow> evidence (rl_current l') = evidence (rl_current l)) \<Longrightarrow> keeps_evidence s"
  by (auto simp: keeps_evidence_def)

lemma statement_keeps_evidence:
  "keeps_evidence (to_state mg s d)"
  "(\<And>l. evidence (f l) = evidence (rl_current l)) \<Longrightarrow> keeps_evidence (set_current f)"
  "keeps_evidence (check c)" "keeps_evidence (take_fingerprint mg r)"
  "keeps_evidence (\<lambda>l. act_return (l\<lparr>rl_handle := h l\<rparr>))"
  "keeps_evidence (\<lambda>l. act_bind (act_lift (v l)) (\<lambda>x. act_return (l\<lparr>rl_verified := x\<rparr>)))"
proof -
  show "keeps_evidence (to_state mg s d)" by (rule keeps_evidenceI) (auto simp: evidence_def dest!: to_state_Inr)
  show "(\<And>l. evidence (f l) = evidence (rl_current l)) \<Longrightarrow> keeps_evidence (set_current f)"
    by (rule keeps_evidenceI) (auto dest!: statement_Inr(1))
  show "keeps_evidence (check c)" by (rule keeps_evidenceI) (auto dest!: statement_Inr(2))
  show "keeps_evidence (take_fingerprint mg r)" by (rule keeps_evidenceI) (auto dest!: take_fingerprint_Inr)
  show "keeps_evidence (\<lambda>l. act_return (l\<lparr>rl_handle := h l\<rparr>))"
    "keeps_evidence (\<lambda>l. act_bind (act_lift (v l)) (\<lambda>x. act_return (l\<lparr>rl_verified := x\<rparr>)))"
    by (rule keeps_evidenceI; auto)+
qed

lemma call_keeps_evidence:
  "keeps_evidence (call_acquire pv r)" "keeps_evidence (call_construct pv r)"
  "keeps_evidence (call_inspect pv r)" "keeps_evidence (call_smoke pv r)"
  by (rule keeps_evidenceI; auto simp: call_defs)+

lemma run_block_evidence:
  assumes "\<forall>s \<in> set ss. keeps_evidence s" and "run_block ss l w = (Inr l', w')"
  shows "evidence (rl_current l') = evidence (rl_current l)"
  using assms
proof (induction ss arbitrary: l w)
  case (Cons s ss)
  then obtain l1 w1 where "s l w = (Inr l1, w1)" "run_block ss l1 w1 = (Inr l', w')"
    unfolding run_block_Cons_Inr by blast
  with Cons show ?case by (simp add: keeps_evidence_def) metis
qed simp

lemma stages_keep_evidence:
  "\<forall>s \<in> set (acquire_stage mg pv r @ construct_stage mg pv r @ runtime_stage mg pv r @ smoke_stage mg pv r @
     fingerprint_stage mg r). keeps_evidence s"
  unfolding acquire_stage_def construct_stage_def runtime_stage_def smoke_stage_def fingerprint_stage_def
  by (simp add: statement_keeps_evidence call_keeps_evidence evidence_def)

lemma ready_returns:
  assumes ok: "surroundings_ok mg" and l: "building l"
    and ev: "lr_provider_handle (rl_current l) \<noteq> None" "lr_runtime_identity (rl_current l) \<noteq> None"
      "lr_verification_digest (rl_current l) \<noteq> None" "lr_environment_fingerprint_id (rl_current l) \<noteq> None"
      "lr_failure (rl_current l) = None" "lr_plan (rl_current l) \<noteq> None" "lr_admission (rl_current l) = Some d" "ad_admitted d"
      "lr_verified_artifacts (rl_current l) \<noteq> []" "lr_smoke_observations (rl_current l) \<noteq> []"
      "\<forall>b \<in> set (lr_smoke_observations (rl_current l)). so_passed b" "lr_rollback (rl_current l) = None"
  obtains l' w' where "run_block [ready_statement mg] l w = (Inr l', w')"
proof -
  let ?r = "rl_current l" and ?d = "''artifact, runtime, smoke, and fingerprint verification passed''"
  have "\<exists>r' w'. transition mg ?r ''ready'' ?d w = (Inr r', w')"
  proof (rule transition_returns [OF ok])
    show "''ready'' \<in> set LIFECYCLE_STATES" by (simp add: LIFECYCLE_STATES_def)
    show "lr_state ?r \<in> set LIFECYCLE_STATES" using l building_state(1) by (auto simp: building_def)
    fix t :: lifecycle_transition
    assume t: "lt_sequence t = int (length (lr_transitions ?r)) + 1" "lt_to_state t = ''ready''"
    have v: "lifecycle_record_post_init ?r = None" using l by (simp add: building_def)
    from constructed_sequence [OF v] t
    have "map lt_sequence (lr_transitions ?r @ [t]) = map int [1..<length (lr_transitions ?r @ [t]) + 1]" by simp
    with v t ev show "lifecycle_record_post_init (?r\<lparr>lr_state := ''ready'', lr_transitions := lr_transitions ?r @ [t]\<rparr>) = None"
      by (simp add: lifecycle_record_post_init_def lifecycle_fingerprint_check_def lifecycle_ready_check_def
          lifecycle_failure_check_def LIFECYCLE_STATES_def split: option.splits)
  qed simp
  then obtain r' w' where "transition mg ?r ''ready'' ?d w = (Inr r', w')" by blast
  then have "run_block [ready_statement mg] l w = (Inr (l\<lparr>rl_current := r'\<rparr>), w')"
    by (simp add: ready_statement_def to_state_def act_bind_def act_return_def)
  then show thesis by (rule that)
qed

text \<open>
  Evidence that the checks of the code accept, as the stages use it. What an honest provider
  has to answer, in terms of the recipe alone, is the subject of \<open>Environment_Honesty\<close>.
\<close>

definition accepted_evidence :: "manager \<Rightarrow> provider \<Rightarrow> lifecycle_record \<Rightarrow> provider_acquisition \<Rightarrow> verified_artifact list \<Rightarrow> string \<Rightarrow>
    runtime_identity \<Rightarrow> smoke_observation list \<Rightarrow> fingerprint_result \<Rightarrow> bool" where
  "accepted_evidence mg pv r acq vs h rt sm fr \<longleftrightarrow>
     (\<forall>cs. pv_acquire pv cs (lr_recipe r) (the (lr_plan r)) (lr_transaction_id r) = Inr acq) \<and>
     verify_artifacts mg (rc_artifacts (lr_recipe r)) (aq_artifacts acq) = Inr vs \<and>
     (\<forall>cs. pv_construct pv cs (lr_recipe r) acq (lr_transaction_id r) = Inr h) \<and> h \<noteq> [] \<and>
     (\<forall>cs. pv_inspect_runtime pv cs (lr_recipe r) h (lr_transaction_id r) = Inr rt) \<and>
     verify_runtime (lr_recipe r) (lr_provider r) rt = None \<and>
     (\<forall>cs. pv_smoke_verify pv cs (lr_recipe r) h (lr_transaction_id r) = Inr sm) \<and>
     verify_smoke (lr_recipe r) sm = None \<and> (\<forall>b \<in> set sm. so_passed b) \<and>
     fingerprint (mg_canonical mg) (mg_nfc mg) (mg_sha256 mg) (lr_recipe r) (lr_provider r) vs rt sm = Inr fr"

lemma accepted_nonempty:
  assumes d: "accepted_evidence mg pv r acq vs h rt sm fr" and recipe: "environment_recipe_post_init (lr_recipe r) = None"
  shows "vs \<noteq> []" "sm \<noteq> []"
proof -
  have ne: "rc_artifacts (lr_recipe r) \<noteq> []" "rc_smoke_probe_ids (lr_recipe r) \<noteq> []"
    and names: "distinct (map ar_name (rc_artifacts (lr_recipe r)))"
    using recipe by (auto simp: environment_recipe_post_init_def validates)
  from d have va: "verify_artifacts mg (rc_artifacts (lr_recipe r)) (aq_artifacts acq) = Inr vs"
    and vs: "verify_smoke (lr_recipe r) sm = None" by (simp_all add: accepted_evidence_def)
  from ne(1) obtain req where "req \<in> set (rc_artifacts (lr_recipe r))" by (meson last_in_set)
  from verify_artifacts_Inr [OF va names this] show "vs \<noteq> []" by auto
  from ne(2) obtain n where "n \<in> set (rc_smoke_probe_ids (lr_recipe r))" by (meson last_in_set)
  with verify_smoke_None [OF vs] show "sm \<noteq> []" by auto
qed

lemma evidence_fields:
  assumes "evidence r = evidence r'"
  shows "lr_plan r = lr_plan r'" "lr_admission r = lr_admission r'" "lr_failure r = lr_failure r'" "lr_rollback r = lr_rollback r'"
  using assms by (simp_all add: evidence_def)

lemma honest_block_returns:
  assumes ok: "surroundings_ok mg" and l: "building l0" and d: "accepted_evidence mg pv r acq vs h rt sm fr"
    and recipe: "environment_recipe_post_init (lr_recipe r) = None" and sha: "\<And>b. is_sha256 (mg_sha256 mg b)"
    and ev: "lr_plan (rl_current l0) \<noteq> None" "lr_admission (rl_current l0) = Some dc" "ad_admitted dc"
      "lr_failure (rl_current l0) = None" "lr_rollback (rl_current l0) = None"
  obtains l w' where "run_block (realize_block mg pv r) l0 w = (Inr l, w')"
proof -
  note h = d [unfolded accepted_evidence_def]
  obtain l1 w1 where s1: "run_block (acquire_stage mg pv r) l0 w = (Inr l1, w1)" and b1: "building l1"
    using acquire_stage_returns [OF ok l] h by metis
  note a = acquire_stage_Inr [OF s1]
  have a1: "rl_acquisition l1 = acq" using a(1) h by simp
  with a(2) h have a2: "rl_verified l1 = vs" by simp
  obtain l2 w2 where s2: "run_block (construct_stage mg pv r) l1 w1 = (Inr l2, w2)" and b2: "building l2" and h2: "rl_handle l2 = Some h"
    using construct_stage_returns [OF ok b1] h a1 by metis
  note c = construct_stage_Inr [OF s2]
  obtain l3 w3 where s3: "run_block (runtime_stage mg pv r) l2 w2 = (Inr l3, w3)" and b3: "building l3" and r3: "rl_runtime l3 = rt"
    using runtime_stage_returns [OF ok b2 h2] h by metis
  note t = runtime_stage_Inr [OF s3]
  have h3: "rl_handle l3 = Some h" using t(3) h2 by simp
  obtain l4 w4 where s4: "run_block (smoke_stage mg pv r) l3 w3 = (Inr l4, w4)" and b4: "building l4" and m4: "rl_smoke l4 = sm"
    using smoke_stage_returns [OF ok b3 h3] h by metis
  note s = smoke_stage_Inr [OF s4]
  have fp: "fingerprint (mg_canonical mg) (mg_nfc mg) (mg_sha256 mg) (lr_recipe r) (lr_provider r)
      (rl_verified l4) (rl_runtime l4) (rl_smoke l4) = Inr fr" using h a2 c(3) t(6) s(6,7) r3 m4 by simp
  note id = fingerprint_id_valid [OF fp sha]
  obtain l5 w5 where s5: "run_block (fingerprint_stage mg r) l4 w4 = (Inr l5, w5)" and b5: "building l5"
    and f5: "lr_verification_digest (rl_current l5) \<noteq> None" "lr_environment_fingerprint_id (rl_current l5) \<noteq> None"
    using fingerprint_stage_returns [OF ok b4 fp id] by (metis option.distinct(1))
  have five: "run_block (acquire_stage mg pv r @ construct_stage mg pv r @ runtime_stage mg pv r @ smoke_stage mg pv r @
      fingerprint_stage mg r) l0 w = (Inr l5, w5)"
    unfolding run_block_append_Inr using s1 s2 s3 s4 s5 by blast
  note e = evidence_fields [OF run_block_evidence [OF stages_keep_evidence five]]
  have k: "lr_provider_handle (rl_current l5) = lr_provider_handle (rl_current l4)"
    "lr_verified_artifacts (rl_current l5) = lr_verified_artifacts (rl_current l4)"
    "lr_smoke_observations (rl_current l5) = lr_smoke_observations (rl_current l4)"
    "lr_runtime_identity (rl_current l5) = lr_runtime_identity (rl_current l4)"
    using s5 unfolding fingerprint_stage_def stage_unfold by (auto dest!: to_state_Inr statement_Inr take_fingerprint_Inr)
  obtain l6 w6 where s6: "run_block [ready_statement mg] l5 w5 = (Inr l6, w6)"
  proof (rule ready_returns [OF ok b5, of dc w5])
    show "lr_provider_handle (rl_current l5) \<noteq> None" using k(1) s(4) t(4) c(1) by auto
    show "lr_runtime_identity (rl_current l5) \<noteq> None" using k(4) s(8) t(2) by simp
    show "lr_verified_artifacts (rl_current l5) \<noteq> []" using k(2) s(5) t(5) c(2) a(3) a2 accepted_nonempty [OF d recipe] by simp
    show "lr_smoke_observations (rl_current l5) \<noteq> []" "\<forall>b \<in> set (lr_smoke_observations (rl_current l5)). so_passed b"
      using k(3) s(2) m4 accepted_nonempty [OF d recipe] h by simp_all
  qed (use f5 e ev in simp_all)
  have "run_block (realize_block mg pv r) l0 w = (Inr l6, w6)"
    unfolding realize_block_def run_block_append_Inr using s1 s2 s3 s4 s5 s6 by blast
  then show thesis by (rule that)
qed

lemma construct_stage_handle:
  assumes "run_block (construct_stage mg pv r) l w = (Inr l', w')"
  shows "\<exists>cs h. pv_construct pv cs (lr_recipe r) (rl_acquisition l) (lr_transaction_id r) = Inr h \<and> rl_handle l' = Some h \<and>
     lr_provider_handle (rl_current l') = Some h"
  using assms unfolding construct_stage_def stage_unfold by (auto simp: call_defs dest!: to_state_Inr statement_Inr)

lemma runtime_stage_answer:
  assumes "run_block (runtime_stage mg pv r) l w = (Inr l', w')"
  shows "\<exists>cs. pv_inspect_runtime pv cs (lr_recipe r) (the (rl_handle l)) (lr_transaction_id r) = Inr (rl_runtime l')"
  using assms unfolding runtime_stage_def stage_unfold by (auto simp: call_defs dest!: to_state_Inr statement_Inr)

lemma smoke_stage_answer:
  assumes "run_block (smoke_stage mg pv r) l w = (Inr l', w')"
  shows "\<exists>cs. pv_smoke_verify pv cs (lr_recipe r) (the (rl_handle l)) (lr_transaction_id r) = Inr (rl_smoke l')"
  using assms unfolding smoke_stage_def stage_unfold by (auto simp: call_defs dest!: to_state_Inr statement_Inr)

lemma delivered_fields:
  assumes d: "accepted_evidence mg pv r acq vs h rt sm fr"
    and st: "run_block (acquire_stage mg pv r) l0 w0 = (Inr l1, w1)" "run_block (construct_stage mg pv r) l1 w1 = (Inr l2, w2)"
      "run_block (runtime_stage mg pv r) l2 w2 = (Inr l3, w3)" "run_block (smoke_stage mg pv r) l3 w3 = (Inr l4, w4)"
      "run_block (fingerprint_stage mg r @ [ready_statement mg]) l4 w4 = (Inr l, w')"
  shows "lr_state (rl_current l) = ''ready'' \<and> lr_provider_handle (rl_current l) = Some h \<and>
     lr_verified_artifacts (rl_current l) = vs \<and> lr_runtime_identity (rl_current l) = Some rt \<and>
     lr_smoke_observations (rl_current l) = sm \<and>
     lr_verification_digest (rl_current l) = Some (fr_verification_digest fr) \<and>
     lr_environment_fingerprint_id (rl_current l) = Some (fr_environment_fingerprint_id fr)"
proof -
  note h = d [unfolded accepted_evidence_def]
  note a = acquire_stage_Inr [OF st(1)] and c = construct_stage_Inr [OF st(2)] and t = runtime_stage_Inr [OF st(3)]
    and s = smoke_stage_Inr [OF st(4)] and f = fingerprint_stage_Inr [OF st(5)]
  have a1: "rl_acquisition l1 = acq" using a(1) h by simp
  with a(2) h have a2: "rl_verified l1 = vs" by simp
  have h2: "rl_handle l2 = Some h \<and> lr_provider_handle (rl_current l2) = Some h" using construct_stage_handle [OF st(2)] h a1 by simp
  then have r3: "rl_runtime l3 = rt" "rl_handle l3 = Some h" using runtime_stage_answer [OF st(3)] h t(3) by simp_all
  then have m4: "rl_smoke l4 = sm" using smoke_stage_answer [OF st(4)] h by simp
  have "rl_fingerprint l = fr" using f(1) h a2 c(3) t(6) s(6,7) r3(1) m4 by simp
  with f h2 r3 m4 s t a(3) a2 c(2) show ?thesis by simp
qed

lemma honest_realization:
  assumes ok: "surroundings_ok mg" and valid: "lifecycle_record_post_init r = None"
    and adm: "lr_state r = ''admitted''" "lr_plan r \<noteq> None" "lr_admission r = Some dc" "ad_admitted dc"
    and fresh: "lr_failure r = None" "lr_rollback r = None"
    and reg: "registry_get (mg_providers mg) (pd_name (lr_provider r)) = Inr pv"
    and recipe: "environment_recipe_post_init (lr_recipe r) = None" and sha: "\<And>b. is_sha256 (mg_sha256 mg b)"
    and d: "accepted_evidence mg pv r acq vs h rt sm fr"
  shows "\<exists>r' w'. realize mg r w = (Inr r', w') \<and> lr_state r' = ''ready'' \<and> lr_provider_handle r' = Some h \<and>
     lr_verified_artifacts r' = vs \<and> lr_runtime_identity r' = Some rt \<and> lr_smoke_observations r' = sm \<and>
     lr_verification_digest r' = Some (fr_verification_digest fr) \<and>
     lr_environment_fingerprint_id r' = Some (fr_environment_fingerprint_id fr)"
proof -
  obtain c w1 t where c: "transition mg r ''acquiring'' ''provider acquisition started'' w = (Inr c, w1)"
    and cs: "lifecycle_record_post_init c = None" "lr_state c \<in> set BUILDING_STATES"
    and ct: "c = r\<lparr>lr_state := ''acquiring'', lr_transitions := lr_transitions r @ [t]\<rparr>"
    by (rule acquiring_returns [OF ok valid adm(1)])
  have b0: "building (initial_locals c)" using cs by (simp add: building_def initial_locals_def)
  obtain l w' where run: "run_block (realize_block mg pv r) (initial_locals c) w1 = (Inr l, w')"
    by (rule honest_block_returns [OF ok b0 d recipe sha, where dc = dc and w = w1])
      (use ct adm fresh in \<open>simp_all add: initial_locals_def\<close>)
  then obtain l1 v1 l2 v2 l3 v3 l4 v4 where
    st: "run_block (acquire_stage mg pv r) (initial_locals c) w1 = (Inr l1, v1)"
      "run_block (construct_stage mg pv r) l1 v1 = (Inr l2, v2)"
      "run_block (runtime_stage mg pv r) l2 v2 = (Inr l3, v3)"
      "run_block (smoke_stage mg pv r) l3 v3 = (Inr l4, v4)"
      "run_block (fingerprint_stage mg r @ [ready_statement mg]) l4 v4 = (Inr l, w')"
    unfolding realize_block_def run_block_append_Inr by blast
  have "realize mg r w = (Inr (rl_current l), w')"
    using run c reg adm by (auto simp: realize_def act_bind_def require_state_def act_lift_def)
  then show ?thesis using delivered_fields [OF d st] by blast
qed

text \<open>A compatible provider with a harmless plan is planned, and an accepted plan is admitted.\<close>

lemma plan_returns:
  assumes ok: "surroundings_ok mg" and reg: "registry_get (mg_providers mg) name = Inr pv"
    and tx: "mg_new_id mg (w_ticks w) = Inr tx" "is_opid ''environment'' tx"
    and compat: "provider_incompatibility recipe (pv_descriptor pv) = None"
    and p: "checked_plan (pv_descriptor pv) (pv_plan pv (w_calls w) recipe) = Inr p"
  obtains r w' where "plan mg recipe name w = (Inr r, w')" "lifecycle_record_post_init r = None" "lr_state r = ''planned''"
    "lr_plan r = Some p" "lr_recipe r = recipe" "lr_provider r = pv_descriptor pv" "lr_transaction_id r = tx"
    "lr_failure r = None" "lr_rollback r = None"
proof -
  from ok obtain i where clock: "mg_clock mg (w_ticks w) = Aware i" unfolding surroundings_ok_def by blast
  let ?w = "w\<lparr>w_calls := w_calls w @ [CallPlan], w_ticks := w_ticks w + 1\<rparr>"
  let ?t = "\<lparr>lt_sequence = 1, lt_from_state = None, lt_to_state = ''planned'',
    lt_observed_at = Aware (i div 1000 * 1000), lt_detail = ''environment planned''\<rparr>"
  let ?r = "\<lparr>lr_transaction_id = tx, lr_state = ''planned'', lr_recipe = recipe, lr_provider = pv_descriptor pv,
    lr_plan = None, lr_admission = None, lr_provider_handle = None, lr_verified_artifacts = [],
    lr_runtime_identity = None, lr_smoke_observations = [], lr_verification_digest = None,
    lr_environment_fingerprint_id = None, lr_transitions = [?t], lr_failure = None,
    lr_rollback = None, lr_diagnostics = []\<rparr>"
  let ?r' = "?r\<lparr>lr_plan := Some p, lr_diagnostics := pp_diagnostics p\<rparr>"
  have "lifecycle_transition_post_init ?t = None"
    by (simp add: lifecycle_transition_post_init_def validates LIFECYCLE_STATES_def)
  moreover have v: "lifecycle_record_post_init ?r = None" "lifecycle_record_post_init ?r' = None"
    using tx(2) by (simp_all add: lifecycle_record_post_init_def lifecycle_fingerprint_check_def
        lifecycle_ready_check_def lifecycle_failure_check_def validates LIFECYCLE_STATES_def)
  moreover from emit_returns [OF ok] obtain w' where "emit_transition mg ?r ?t ?w = (Inr (), w')" by blast
  ultimately have "plan mg recipe name w = (Inr ?r', w')"
    using clock reg tx(1) compat p
    by (simp add: plan_def initial_record_def record_transition_def act_bind_def clock_now_def rfc3339_def act_lift_def
        act_return_def construct_def provider_call_def replace_record_def Let_def)
  from that [OF this v(2)] show thesis by simp
qed

lemma admit_returns:
  assumes ok: "surroundings_ok mg" and v: "lifecycle_record_post_init r = None" and st: "lr_state r = ''planned''"
    and d: "ad_admitted d" "ad_reason d \<noteq> []"
  obtains r' w' t where "admit mg r d w = (Inr r', w')" "lifecycle_record_post_init r' = None"
    "r' = r\<lparr>lr_admission := Some d, lr_state := ''admitted'', lr_transitions := lr_transitions r @ [t]\<rparr>"
proof -
  let ?r = "r\<lparr>lr_admission := Some d\<rparr>"
  have v1: "lifecycle_record_post_init ?r = None" using v st
    by (simp add: lifecycle_record_post_init_def lifecycle_fingerprint_check_def
        lifecycle_ready_check_def lifecycle_failure_check_def)
  have "\<exists>r' w'. transition mg ?r ''admitted'' (ad_reason d) w = (Inr r', w')"
  proof (rule transition_returns [OF ok])
    fix t :: lifecycle_transition
    assume "lt_sequence t = int (length (lr_transitions ?r)) + 1" "lt_to_state t = ''admitted''"
    with v1 show "lifecycle_record_post_init (?r\<lparr>lr_state := ''admitted'', lr_transitions := lr_transitions ?r @ [t]\<rparr>) = None"
      by (intro moved_record_valid) (simp_all add: LIFECYCLE_STATES_def)
  qed (simp_all add: st d LIFECYCLE_STATES_def)
  then obtain r' w' where t: "transition mg ?r ''admitted'' (ad_reason d) w = (Inr r', w')" by blast
  from transition_Inr [OF t] obtain u where u: "lifecycle_record_post_init r' = None"
    "r' = ?r\<lparr>lr_state := ''admitted'', lr_transitions := lr_transitions ?r @ [u]\<rparr>" by metis
  have "admit mg r d w = (Inr r', w')"
    using t v1 d st by (simp add: admit_def act_bind_def require_state_def act_lift_def replace_record_def construct_def)
  from that [OF this u(1)] u(2) show thesis by simp
qed

lemma release_returns:
  assumes ok: "surroundings_ok mg" and v: "lifecycle_record_post_init r = None" and st: "lr_state r = ''ready''"
    and reg: "registry_get (mg_providers mg) (pd_name (lr_provider r)) = Inr pv"
    and rel: "\<And>cs h tx. po_succeeded (outcome_of (pv_release pv cs h tx))"
  obtains r' w' where "release mg r w = (Inr r', w')"
proof -
  have move: "\<exists>r' w'. transition mg r0 s d w0 = (Inr r', w') \<and> lifecycle_record_post_init r' = None \<and> lr_state r' = s"
    if "lifecycle_record_post_init r0 = None" "s = ''releasing'' \<or> s = ''released''"
      "lr_state r0 \<in> set LIFECYCLE_STATES" "d \<noteq> []" for r0 s d w0
  proof -
    have "\<exists>r' w'. transition mg r0 s d w0 = (Inr r', w')"
      by (rule transition_returns [OF ok _ that(3,4)]) (use that in \<open>auto simp: LIFECYCLE_STATES_def intro!: moved_record_valid\<close>)
    then obtain r' w' where t: "transition mg r0 s d w0 = (Inr r', w')" by blast
    from transition_Inr [OF t] obtain u where "lifecycle_record_post_init r' = None"
      "r' = r0\<lparr>lr_state := s, lr_transitions := lr_transitions r0 @ [u]\<rparr>" by metis
    with t show ?thesis by simp
  qed
  from move [OF v, of "''releasing''" "''provider release started''" w] st obtain c w1 where
    c: "transition mg r ''releasing'' ''provider release started'' w = (Inr c, w1)" "lifecycle_record_post_init c = None"
      "lr_state c = ''releasing''"
    by (auto simp: LIFECYCLE_STATES_def)
  let ?h = "case lr_provider_handle r of None \<Rightarrow> [] | Some s \<Rightarrow> s"
  let ?o = "outcome_of (pv_release pv (w_calls w1) ?h (lr_transaction_id r))"
  let ?w = "w1\<lparr>w_calls := w_calls w1 @ [CallRelease ?h (lr_transaction_id r)]\<rparr>"
  let ?c = "c\<lparr>lr_diagnostics := lr_diagnostics c @ po_diagnostics ?o\<rparr>"
  have "lifecycle_record_post_init ?c = lifecycle_record_post_init c"
    by (simp add: lifecycle_record_post_init_def lifecycle_fingerprint_check_def lifecycle_ready_check_def lifecycle_failure_check_def)
  with c(2) have vc: "lifecycle_record_post_init ?c = None" by simp
  from move [OF vc, of "''released''" "''provider release completed''" ?w] c(3) obtain r' w' where
    "transition mg ?c ''released'' ''provider release completed'' ?w = (Inr r', w')" by (auto simp: LIFECYCLE_STATES_def)
  then have "release mg r w = (Inr r', w')" using st reg c(1) vc rel
    by (simp add: release_def act_bind_def require_state_def act_lift_def provider_call_def replace_record_def construct_def Let_def)
  then show thesis by (rule that)
qed

end
