(* ===== verification/Environment_Honesty.thy ===== *)
theory Environment_Honesty
  imports Environment_Liveness
begin

text \<open>
  An honest provider reaches Ready. What the provider has to deliver is stated on the recipe and
  on the files, without the checks of the code: artifact files with the pinned content, a runtime
  as planned and passed probes. Each check is shown to accept it, so a check that asks for more
  than the recipe does would refute the theorem at the end.
\<close>

section \<open>Artifacts\<close>

text \<open>The whole file is what the recipe pins, seen as one unchanged regular file of that size.\<close>

definition artifact_intact :: "manager \<Rightarrow> artifact_requirement \<Rightarrow> string \<Rightarrow> bool" where
  "artifact_intact mg req path \<longleftrightarrow>
     (\<exists>before opened bytes. fv_lstat (mg_files mg path) = Some before \<and> fv_fstat (mg_files mg path) = Some opened \<and>
        st_regular before \<and> st_regular opened \<and> st_dev before = st_dev opened \<and> st_ino before = st_ino opened \<and>
        st_size opened = ar_size_bytes req \<and>
        stream_bytes (fv_chunks (mg_files mg path)) = Some bytes \<and> int (length bytes) = ar_size_bytes req \<and>
        mg_sha256 mg bytes = ar_sha256 req)"

definition verified_requirement :: "artifact_requirement \<Rightarrow> verified_artifact" where
  "verified_requirement req = \<lparr>va_name = ar_name req, va_sha256 = ar_sha256 req,
     va_size_bytes = ar_size_bytes req, va_media_type = ar_media_type req\<rparr>"

lemma read_chunks_complete:
  assumes "stream_bytes cs = Some rest" and "expected = n + int (length rest)"
  shows "read_chunks expected hashed n cs = Inr (hashed @ rest, expected)"
  using assms
proof (induction cs arbitrary: hashed n rest)
  case (Cons c cs)
  show ?case
  proof (cases "c = None \<or> c = Some []")
    case True
    with Cons.prems show ?thesis by auto
  next
    case False
    then obtain chunk where c: "c = Some chunk" "chunk \<noteq> []" by auto
    with Cons.prems(1) obtain bs where bs: "stream_bytes cs = Some bs" "rest = chunk @ bs" by auto
    have "read_chunks expected (hashed @ chunk) (n + int (length chunk)) cs = Inr ((hashed @ chunk) @ bs, expected)"
      by (rule Cons.IH [OF bs(1)]) (use Cons.prems(2) bs(2) in simp)
    with c bs Cons.prems(2) show ?thesis by simp
  qed
qed simp

lemma verify_artifact_complete:
  assumes "artifact_intact mg req (ao_path ob)" and "artifact_requirement_post_init req = None"
  shows "verify_artifact mg req ob = Inr (verified_requirement req)"
proof -
  let ?view = "mg_files mg (ao_path ob)"
  from assms(1) obtain bytes where b: "stream_bytes (fv_chunks ?view) = Some bytes" "int (length bytes) = ar_size_bytes req"
      "mg_sha256 mg bytes = ar_sha256 req" and f: "hash_regular_artifact (mg_sha256 mg) ?view (ar_size_bytes req) =
        ebind (read_chunks (ar_size_bytes req) [] 0 (fv_chunks ?view)) (\<lambda>(hashed, size). Inr (mg_sha256 mg hashed, size))"
    by (auto simp: artifact_intact_def hash_regular_artifact_def)
  from read_chunks_complete [OF b(1), of "ar_size_bytes req" 0 "[]"] b
  have h: "hash_regular_artifact (mg_sha256 mg) ?view (ar_size_bytes req) = Inr (ar_sha256 req, ar_size_bytes req)"
    unfolding f by simp
  have "verified_artifact_post_init (verified_requirement req) = None"
    using assms(2) by (simp add: verified_artifact_post_init_def artifact_requirement_post_init_def verified_requirement_def)
  with h show ?thesis by (simp add: verify_artifact_def construct_def verified_requirement_def)
qed

text \<open>The acquisition holds one intact file for every artifact of the recipe, and no other.\<close>

definition acquires :: "manager \<Rightarrow> environment_recipe \<Rightarrow> provider_acquisition \<Rightarrow> bool" where
  "acquires mg recipe acq \<longleftrightarrow>
     distinct (map ao_name (aq_artifacts acq)) \<and>
     set (map ao_name (aq_artifacts acq)) = set (map ar_name (rc_artifacts recipe)) \<and>
     (\<forall>req \<in> set (rc_artifacts recipe). \<forall>ob \<in> set (aq_artifacts acq).
        ao_name ob = ar_name req \<longrightarrow> artifact_intact mg req (ao_path ob))"

lemma sort_map_key: "sort (map f xs) = map f (sort_key f xs)"
  by (rule properties_for_sort) simp_all

lemma verify_artifacts_complete:
  assumes acq: "acquires mg recipe acq" and names: "distinct (map ar_name (rc_artifacts recipe))"
    and reqs: "\<forall>req \<in> set (rc_artifacts recipe). artifact_requirement_post_init req = None"
  shows "verify_artifacts mg (rc_artifacts recipe) (aq_artifacts acq) =
     Inr (map verified_requirement (sort_key ar_name (rc_artifacts recipe)))"
proof -
  let ?reqs = "rc_artifacts recipe" and ?obs = "aq_artifacts acq"
  let ?f = "\<lambda>n. verify_artifact mg (the (last_named ar_name ?reqs n)) (the (last_named ao_name ?obs n))"
  have each: "?f (ar_name req) = Inr (verified_requirement req)" if req: "req \<in> set ?reqs" for req
  proof -
    from req acq have "ar_name req \<in> set (map ao_name ?obs)" unfolding acquires_def by (metis image_eqI set_map)
    then obtain ob where ob: "ob \<in> set ?obs" "ao_name ob = ar_name req" by auto
    then have "last_named ao_name ?obs (ar_name req) = Some ob"
      using last_named_distinct [of ao_name ?obs ob] acq by (simp add: acquires_def)
    moreover have "verify_artifact mg req ob = Inr (verified_requirement req)"
      using verify_artifact_complete acq reqs req ob by (simp add: acquires_def)
    ultimately show ?thesis using last_named_distinct [OF names req] by simp
  qed
  have "mapE ?f (map ar_name (sort_key ar_name ?reqs)) = Inr (map verified_requirement (sort_key ar_name ?reqs))"
    using each by (auto simp: mapE_Inr_iff list_all2_map1 list_all2_map2 intro!: list.rel_refl_strong)
  moreover have "sort (remdups (map ar_name ?reqs)) = map ar_name (sort_key ar_name ?reqs)"
    using names by (simp add: distinct_remdups_id sort_map_key)
  ultimately show ?thesis
    using acq by (auto simp: verify_artifacts_def acquires_def Let_def distinct_remdups_id)
qed

section \<open>Runtime and probes\<close>

definition runtime_as_planned :: "environment_recipe \<Rightarrow> provider_descriptor \<Rightarrow> runtime_identity \<Rightarrow> bool" where
  "runtime_as_planned recipe descriptor rt \<longleftrightarrow>
     ri_strategy rt = rc_strategy recipe \<and> ri_strategy rt = pd_strategy descriptor \<and>
     ri_provider_implementation_digest rt = pd_implementation_digest descriptor \<and>
     ri_isolation_policy_digest rt = rc_isolation_policy_digest recipe \<and>
     ri_network_policy rt = rc_network_policy recipe \<and>
     distinct (map nv_name (ri_facts rt)) \<and> distinct (map nv_name (ri_relevant_configuration rt)) \<and>
     set (rc_expected_runtime_facts recipe) \<subseteq> set (ri_facts rt) \<and>
     set (rc_expected_configuration recipe) \<subseteq> set (ri_relevant_configuration rt)"

definition probes_passed :: "environment_recipe \<Rightarrow> smoke_observation list \<Rightarrow> bool" where
  "probes_passed recipe sm \<longleftrightarrow>
     distinct (map so_probe_id sm) \<and> (\<forall>b \<in> set sm. so_passed b) \<and>
     set (rc_smoke_probe_ids recipe) \<subseteq> set (map so_probe_id sm)"

lemma verify_named_values_complete:
  assumes "distinct (map nv_name actual)" "distinct (map nv_name expected)" "set expected \<subseteq> set actual"
  shows "verify_named_values label expected actual = None"
proof -
  have "last_named nv_name actual (nv_name v) = Some v" "last_named nv_name expected (nv_name v) = Some v"
    if "v \<in> set expected" for v
    using that assms last_named_distinct [OF assms(1)] last_named_distinct [OF assms(2)] by auto
  with assms(1) show ?thesis by (auto simp: verify_named_values_def distinct_remdups_id raise_if_def)
qed

lemma verify_runtime_complete:
  assumes "runtime_as_planned recipe descriptor rt" and "environment_recipe_post_init recipe = None"
  shows "verify_runtime recipe descriptor rt = None"
proof -
  have "distinct (map nv_name (rc_expected_runtime_facts recipe))" "distinct (map nv_name (rc_expected_configuration recipe))"
    using assms(2) by (auto simp: environment_recipe_post_init_def validates)
  with assms(1) have "verify_named_values ''runtime'' (rc_expected_runtime_facts recipe) (ri_facts rt) = None"
    "verify_named_values ''configuration'' (rc_expected_configuration recipe) (ri_relevant_configuration rt) = None"
    by (intro verify_named_values_complete; simp add: runtime_as_planned_def)+
  with assms(1) show ?thesis by (auto simp: verify_runtime_def runtime_as_planned_def raise_if_def)
qed

lemma verify_smoke_complete: "probes_passed recipe sm \<Longrightarrow> verify_smoke recipe sm = None"
  unfolding verify_smoke_def probes_passed_def
  by (auto simp: distinct_remdups_id raise_if_def last_named_def find_None_iff split: option.splits dest!: find_SomeD)

section \<open>The fingerprint\<close>

text \<open>Documents that RFC 8785 can encode: every integer is one a JSON number holds exactly.\<close>

fun encodable :: "json \<Rightarrow> bool" where
  "encodable (JInt n) \<longleftrightarrow> \<bar>n\<bar> \<le> SAFE_INTEGER_MAX"
| "encodable (JArr ds) \<longleftrightarrow> (\<forall>d \<in> set ds. encodable d)"
| "encodable (JObj ms) \<longleftrightarrow> (\<forall>m \<in> set ms. encodable (snd m))"
| "encodable _ \<longleftrightarrow> True"

definition encoder_total :: "manager \<Rightarrow> bool" where
  "encoder_total mg \<longleftrightarrow> (\<forall>d. encodable d \<longrightarrow> (\<exists>bytes. mg_canonical mg d = Inr bytes))"

lemma canonical_set_returns:
  assumes "encoder_total mg" and "\<forall>d \<in> set ds. encodable d"
  obtains es where "canonical_set (mg_canonical mg) ds = Inr es" "\<forall>d \<in> set es. encodable d"
proof -
  have "\<forall>d \<in> set ds. \<exists>k. mg_canonical mg d = Inr k \<and> True" using assms by (simp add: encoder_total_def)
  from mapE_all [OF this] obtain keys where keys: "mapE (mg_canonical mg) ds = Inr keys" by blast
  let ?es = "map (\<lambda>k. the (map_of (rev (zip keys ds)) k)) (sort (remdups keys))"
  have "encodable (the (map_of (rev (zip keys ds)) k))" if "k \<in> set keys" for k
  proof -
    have "list_all2 (\<lambda>v k. mg_canonical mg v = Inr k) ds keys" using keys by (simp add: mapE_Inr_iff)
    from map_of_rev_zip [OF this that] assms(2) show ?thesis by auto
  qed
  then have "\<forall>d \<in> set ?es. encodable d" by simp
  moreover have "canonical_set (mg_canonical mg) ds = Inr ?es" using keys by (simp add: canonical_set_def)
  ultimately show thesis using that by blast
qed

lemma fingerprint_returns:
  assumes enc: "encoder_total mg" and sizes: "\<forall>va \<in> set vs. \<bar>va_size_bytes va\<bar> \<le> SAFE_INTEGER_MAX"
  obtains fr where "fingerprint (mg_canonical mg) nfc sha recipe descriptor vs rt sm = Inr fr"
proof -
  have docs: "\<forall>d \<in> set (map artifact_doc vs). encodable d" "\<forall>d \<in> set (map (named_value_doc nfc) ps). encodable d"
    "\<forall>d \<in> set (map (smoke_doc nfc) sm). encodable d" "\<forall>d \<in> set (map capability_doc cs). encodable d" for ps cs
    using sizes by (auto simp: artifact_doc_def named_value_doc_def smoke_doc_def capability_doc_def JOpt_def split: option.splits)
  obtain arts where a: "canonical_set (mg_canonical mg) (map artifact_doc vs) = Inr arts" "\<forall>d \<in> set arts. encodable d"
    by (rule canonical_set_returns [OF enc docs(1)])
  obtain facts where f: "canonical_set (mg_canonical mg) (map (named_value_doc nfc) (ri_facts rt)) = Inr facts"
      "\<forall>d \<in> set facts. encodable d" by (rule canonical_set_returns [OF enc docs(2)])
  obtain probes where p: "canonical_set (mg_canonical mg) (map (smoke_doc nfc) sm) = Inr probes" "\<forall>d \<in> set probes. encodable d"
    by (rule canonical_set_returns [OF enc docs(3)])
  obtain caps where c: "canonical_set (mg_canonical mg) (map capability_doc (pd_capabilities descriptor)) = Inr caps"
      "\<forall>d \<in> set caps. encodable d" by (rule canonical_set_returns [OF enc docs(4)])
  obtain cfg where g: "canonical_set (mg_canonical mg) (map (named_value_doc nfc) (ri_relevant_configuration rt)) = Inr cfg"
      "\<forall>d \<in> set cfg. encodable d" by (rule canonical_set_returns [OF enc docs(2)])
  have total: "\<exists>b. mg_canonical mg d = Inr b" if "encodable d" for d using enc that by (simp add: encoder_total_def)
  let ?v = "JObj [(''domain'', JStr VERIFICATION_DOMAIN), (''verification'',
      JObj [(''artifacts'', JArr arts), (''runtime_facts'', JArr facts), (''smoke'', JArr probes)])]"
  have "encodable ?v" using a f p by simp
  then obtain vb where vb: "mg_canonical mg ?v = Inr vb" using total by blast
  let ?i = "JObj [(''artifacts'', JArr arts), (''isolation_policy_digest'', JStr (ri_isolation_policy_digest rt)),
      (''network_policy'', JStr (ri_network_policy rt)), (''provider_capabilities'', JArr caps),
      (''provider_implementation_digest'', JStr (ri_provider_implementation_digest rt)),
      (''provider_name'', JStr (pd_name descriptor)), (''provider_strategy'', JStr (ri_strategy rt)),
      (''recipe_revision'', JStr (rc_recipe_revision_id recipe)), (''relevant_configuration'', JArr cfg),
      (''runtime_facts'', JArr facts), (''target_profile'', JStr (rc_target_profile_id recipe)),
      (''target_release'', JStr (rc_target_release_id recipe)), (''verification_digest'', JStr (sha vb))]"
  let ?d = "JObj [(''domain'', JStr CONTENT_DOMAIN), (''hash_policy'', JStr HASH_POLICY), (''identity'', ?i),
      (''identity_schema_family_id'', JStr FINGERPRINT_SCHEMA_FAMILY_ID),
      (''identity_schema_version'', JStr FINGERPRINT_SCHEMA_VERSION), (''namespace'', JStr ''environment-fingerprint'')]"
  have "encodable ?d" using a f c g by simp
  then obtain ib where ib: "mg_canonical mg ?d = Inr ib" using total by blast
  have "\<exists>fr. fingerprint (mg_canonical mg) nfc sha recipe descriptor vs rt sm = Inr fr"
    by (simp add: fingerprint_def normalized_values_def Let_def a(1) f(1) p(1) vb c(1) g(1) ib)
  then show thesis using that by blast
qed

section \<open>Ready\<close>

text \<open>
  What an honest provider answers for a record, whatever calls came before: the artifacts of the
  recipe, a handle, a runtime as planned and passed probes.
\<close>

definition delivers :: "manager \<Rightarrow> provider \<Rightarrow> lifecycle_record \<Rightarrow> provider_acquisition \<Rightarrow> string \<Rightarrow> runtime_identity \<Rightarrow>
    smoke_observation list \<Rightarrow> bool" where
  "delivers mg pv r acq h rt sm \<longleftrightarrow>
     (\<forall>calls. pv_acquire pv calls (lr_recipe r) (the (lr_plan r)) (lr_transaction_id r) = Inr acq) \<and>
     (\<forall>calls. pv_construct pv calls (lr_recipe r) acq (lr_transaction_id r) = Inr h) \<and> h \<noteq> [] \<and>
     (\<forall>calls. pv_inspect_runtime pv calls (lr_recipe r) h (lr_transaction_id r) = Inr rt) \<and>
     (\<forall>calls. pv_smoke_verify pv calls (lr_recipe r) h (lr_transaction_id r) = Inr sm) \<and>
     acquires mg (lr_recipe r) acq \<and> runtime_as_planned (lr_recipe r) (lr_provider r) rt \<and> probes_passed (lr_recipe r) sm"

text \<open>A recipe whose parts passed their constructors.\<close>

definition recipe_constructed :: "environment_recipe \<Rightarrow> bool" where
  "recipe_constructed recipe \<longleftrightarrow> environment_recipe_post_init recipe = None \<and>
     (\<forall>req \<in> set (rc_artifacts recipe). artifact_requirement_post_init req = None)"

lemma delivered_accepted:
  assumes d: "delivers mg pv r acq h rt sm" and recipe: "recipe_constructed (lr_recipe r)" and enc: "encoder_total mg"
  obtains fr where "fingerprint (mg_canonical mg) (mg_nfc mg) (mg_sha256 mg) (lr_recipe r) (lr_provider r)
      (map verified_requirement (sort_key ar_name (rc_artifacts (lr_recipe r)))) rt sm = Inr fr"
    "accepted_evidence mg pv r acq (map verified_requirement (sort_key ar_name (rc_artifacts (lr_recipe r)))) h rt sm fr"
proof -
  let ?vs = "map verified_requirement (sort_key ar_name (rc_artifacts (lr_recipe r)))"
  have valid: "environment_recipe_post_init (lr_recipe r) = None"
    and reqs: "\<forall>req \<in> set (rc_artifacts (lr_recipe r)). artifact_requirement_post_init req = None"
    using recipe by (simp_all add: recipe_constructed_def)
  have names: "distinct (map ar_name (rc_artifacts (lr_recipe r)))"
    using valid by (auto simp: environment_recipe_post_init_def validates)
  have "\<forall>va \<in> set ?vs. \<bar>va_size_bytes va\<bar> \<le> SAFE_INTEGER_MAX"
    using reqs by (auto simp: verified_requirement_def artifact_requirement_post_init_def safe_integer_def validates)
  then obtain fr where fr: "fingerprint (mg_canonical mg) (mg_nfc mg) (mg_sha256 mg) (lr_recipe r) (lr_provider r) ?vs rt sm = Inr fr"
    using fingerprint_returns [OF enc] by blast
  moreover have "accepted_evidence mg pv r acq ?vs h rt sm fr"
    using d fr verify_artifacts_complete [OF _ names reqs] verify_runtime_complete [OF _ valid] verify_smoke_complete
    by (simp add: accepted_evidence_def delivers_def probes_passed_def)
  ultimately show thesis by (rule that)
qed

text \<open>
  C20. An honest realization reaches Ready: when the provider of an admitted environment answers
  every call, delivers for each artifact of the recipe one intact file with the pinned content,
  a handle, a runtime with the planned strategy, implementation and policies and all expected
  facts and configuration values (and any others), and passed observations of all required
  probes (and any others), then \<open>realize\<close> returns a Ready record. It holds exactly this
  evidence: the handle, each requirement as a verified artifact, the runtime, the observations,
  and the digest and the fingerprint of all of them.
\<close>

theorem honest_realization_ready:
  assumes ok: "surroundings_ok mg" and enc: "encoder_total mg" and sha: "\<And>b. is_sha256 (mg_sha256 mg b)"
    and valid: "lifecycle_record_post_init r = None" and recipe: "recipe_constructed (lr_recipe r)"
    and adm: "lr_state r = ''admitted''" "lr_plan r \<noteq> None" "lr_admission r = Some dc" "ad_admitted dc"
    and fresh: "lr_failure r = None" "lr_rollback r = None"
    and reg: "registry_get (mg_providers mg) (pd_name (lr_provider r)) = Inr pv"
    and d: "delivers mg pv r acq h rt sm"
  shows "\<exists>r' w' fr. realize mg r w = (Inr r', w') \<and> lr_state r' = ''ready'' \<and> lr_provider_handle r' = Some h \<and>
     lr_verified_artifacts r' = map verified_requirement (sort_key ar_name (rc_artifacts (lr_recipe r))) \<and>
     lr_runtime_identity r' = Some rt \<and> lr_smoke_observations r' = sm \<and>
     fingerprint (mg_canonical mg) (mg_nfc mg) (mg_sha256 mg) (lr_recipe r) (lr_provider r)
       (lr_verified_artifacts r') rt sm = Inr fr \<and>
     lr_verification_digest r' = Some (fr_verification_digest fr) \<and>
     lr_environment_fingerprint_id r' = Some (fr_environment_fingerprint_id fr)"
proof -
  have "environment_recipe_post_init (lr_recipe r) = None" using recipe by (simp add: recipe_constructed_def)
  from delivered_accepted [OF d recipe enc] honest_realization [OF ok valid adm fresh reg this sha] show ?thesis by metis
qed

end
