(* ===== verification/Environment_Witnesses.thy ===== *)
theory Environment_Witnesses
  imports Environment_Honesty "HOL-Library.Countable"
begin

text \<open>
  A small provider, recipe and machine on which the environment theorems are applied: one
  artifact of three bytes, one runtime fact and one smoke probe. The hash is a toy function; the
  theorems hold for any.
\<close>

definition evx_sha :: "nat list \<Rightarrow> string" where
  "evx_sha bytes = replicate 64 (if even (length bytes) then CHR ''a'' else CHR ''b'')"

definition evx_recipe :: environment_recipe where
  "evx_recipe = \<lparr>rc_recipe_revision_id = ''rcid:v1:recipe:u7:019ff82c-9517-76fb-a67d-c461e9145384'',
     rc_target_profile_id = ''rcid:v1:profile:u7:019ff82c-9517-76fb-a67d-c461e9145384'',
     rc_target_release_id = ''rcid:v1:release:u7:019ff82c-9517-76fb-a67d-c461e9145384'', rc_strategy = ''source-build'',
     rc_artifacts = [\<lparr>ar_name = ''archive'', ar_sha256 = replicate 64 (CHR ''b''), ar_size_bytes = 3,
       ar_media_type = ''tar'', ar_locators = [''a'']\<rparr>],
     rc_expected_runtime_facts = [\<lparr>nv_name = ''version'', nv_value = ''1''\<rparr>], rc_expected_configuration = [],
     rc_required_capabilities = [], rc_smoke_probe_ids = [''match''],
     rc_isolation_policy_digest = replicate 64 (CHR ''c''), rc_network_policy = ''none''\<rparr>"

definition evx_descriptor :: provider_descriptor where
  "evx_descriptor = \<lparr>pd_name = ''native'', pd_strategy = ''source-build'', pd_implementation_digest = replicate 64 (CHR ''d''),
     pd_capabilities = map (\<lambda>n. \<lparr>ec_name = n, ec_status = ''supported'', ec_diagnostic = None\<rparr>) BASE_READY_CAPABILITIES\<rparr>"

definition evx_runtime :: runtime_identity where
  "evx_runtime = \<lparr>ri_strategy = ''source-build'', ri_provider_implementation_digest = replicate 64 (CHR ''d''),
     ri_facts = [\<lparr>nv_name = ''version'', nv_value = ''1''\<rparr>], ri_relevant_configuration = [],
     ri_isolation_policy_digest = replicate 64 (CHR ''c''), ri_network_policy = ''none''\<rparr>"

definition evx_smoke :: "bool \<Rightarrow> smoke_observation" where
  "evx_smoke ok = \<lparr>so_probe_id = ''match'', so_passed = ok, so_diagnostic = Some ''probe''\<rparr>"

text \<open>The provider; the parameters say whether its smoke probe passes and its clean-up works.\<close>

definition evx_provider :: "bool \<Rightarrow> bool \<Rightarrow> provider" where
  "evx_provider smoke cleans = \<lparr>pv_descriptor = evx_descriptor,
     pv_plan = (\<lambda>h r. Inr \<lparr>pp_provider_name = ''native'', pp_plan_token = ''t'', pp_expected_download_bytes = 3,
       pp_expected_expanded_bytes = 3, pp_expected_scratch_bytes = 0, pp_diagnostics = [], pp_mutation_permitted = False\<rparr>),
     pv_acquire = (\<lambda>h r p tx. Inr \<lparr>aq_handle = ''h0'', aq_artifacts = [\<lparr>ao_name = ''archive'', ao_path = ''file''\<rparr>]\<rparr>),
     pv_construct = (\<lambda>h r a tx. Inr ''h1''),
     pv_inspect_runtime = (\<lambda>h r n tx. Inr evx_runtime),
     pv_smoke_verify = (\<lambda>h r n tx. Inr [evx_smoke smoke]),
     pv_release = (\<lambda>h n tx. Inr \<lparr>po_succeeded = cleans, po_diagnostics = [''release'']\<rparr>),
     pv_rollback = (\<lambda>h n tx. Inr \<lparr>po_succeeded = cleans, po_diagnostics = [''rollback'']\<rparr>),
     pv_diagnose = (\<lambda>h n tx. Inr \<lparr>pdg_status = ''healthy'', pdg_diagnostics = []\<rparr>)\<rparr>"

definition evx_stat :: file_stat where
  "evx_stat = \<lparr>st_regular = True, st_dev = 1, st_ino = 2, st_size = 3\<rparr>"

definition evx_manager :: "bool \<Rightarrow> bool \<Rightarrow> manager" where
  "evx_manager smoke cleans = \<lparr>mg_providers = [evx_provider smoke cleans], mg_clock = (\<lambda>n. Aware (int n * 1000)),
     mg_new_id = (\<lambda>n. Inr ''opid:v1:environment:u7:019ff82c-9517-76fb-a67d-c461e9145384''),
     mg_files = (\<lambda>path. \<lparr>fv_lstat = Some evx_stat, fv_fstat = Some evx_stat, fv_chunks = [Some [1, 2], Some [3], Some []]\<rparr>),
     mg_sha256 = evx_sha, mg_canonical = (\<lambda>d. Inr []), mg_nfc = (\<lambda>s. s), mg_publisher = Some (\<lambda>es d. None)\<rparr>"

definition evx_world :: world where
  "evx_world = \<lparr>w_ticks = 0, w_events = [], w_calls = []\<rparr>"

definition evx_decision :: admission_decision where
  "evx_decision = \<lparr>ad_admitted = True, ad_decision_id = ''d'', ad_reason = ''fits''\<rparr>"

definition evx_plan :: provider_plan where
  "evx_plan = \<lparr>pp_provider_name = ''native'', pp_plan_token = ''t'', pp_expected_download_bytes = 3,
       pp_expected_expanded_bytes = 3, pp_expected_scratch_bytes = 0, pp_diagnostics = [], pp_mutation_permitted = False\<rparr>"

definition evx_tx :: string where
  "evx_tx = ''opid:v1:environment:u7:019ff82c-9517-76fb-a67d-c461e9145384''"

text \<open>A record of the example in a given state.\<close>

definition evx_record :: "string \<Rightarrow> lifecycle_failure option \<Rightarrow> lifecycle_record" where
  "evx_record state failure = \<lparr>lr_transaction_id = evx_tx, lr_state = state, lr_recipe = evx_recipe, lr_provider = evx_descriptor,
     lr_plan = Some evx_plan, lr_admission = Some evx_decision, lr_provider_handle = Some ''h1'', lr_verified_artifacts = [],
     lr_runtime_identity = None, lr_smoke_observations = [], lr_verification_digest = None,
     lr_environment_fingerprint_id = None, lr_transitions = [], lr_failure = failure, lr_rollback = None,
     lr_diagnostics = []\<rparr>"

definition evx_acquisition :: provider_acquisition where
  "evx_acquisition = \<lparr>aq_handle = ''h0'', aq_artifacts = [\<lparr>ao_name = ''archive'', ao_path = ''file''\<rparr>]\<rparr>"

definition evx_verified :: "verified_artifact list" where
  "evx_verified = [\<lparr>va_name = ''archive'', va_sha256 = replicate 64 (CHR ''b''), va_size_bytes = 3, va_media_type = ''tar''\<rparr>]"

text \<open>An injective encoding of documents, as a canonical form that keeps all content.\<close>

instance timestamp :: countable
  by countable_datatype

instance json :: countable
  by countable_datatype

definition evx_canonical :: "json \<Rightarrow> nat list result" where
  "evx_canonical d = Inr [to_nat d]"

section \<open>The example satisfies the hypotheses\<close>

lemma evx_valid:
  "environment_recipe_post_init evx_recipe = None"
  "provider_incompatibility evx_recipe evx_descriptor = None"
  "is_opid ''environment'' evx_tx"
  "lifecycle_record_post_init (evx_record ''admitted'' None) = None"
  by code_simp+

lemma evx_surroundings: "surroundings_ok (evx_manager smoke cleans)"
  by (simp add: surroundings_ok_def evx_manager_def)

lemma evx_registered: "registry_get (mg_providers (evx_manager smoke cleans)) ''native'' = Inr (evx_provider smoke cleans)"
  by (simp add: registry_get_def evx_manager_def evx_provider_def evx_descriptor_def)

lemma evx_names: "pd_name evx_descriptor = ''native''"
  by (simp add: evx_descriptor_def)

lemma evx_sha_valid: "is_sha256 (mg_sha256 (evx_manager smoke cleans) b)"
  by (simp add: evx_manager_def evx_sha_def is_sha256_def is_hex_string_def is_hex_def list_all_iff)

lemma evx_provider_ok: "provider_errors_ok (evx_provider smoke cleans)"
  by (simp add: provider_errors_ok_def evx_provider_def)

lemma evx_requirements: "recipe_constructed evx_recipe"
proof -
  have "\<forall>req \<in> set (rc_artifacts evx_recipe). artifact_requirement_post_init req = None" by code_simp
  with evx_valid(1) show ?thesis by (simp add: recipe_constructed_def)
qed

lemma evx_encoder: "encoder_total (evx_manager smoke cleans)"
  by (simp add: encoder_total_def evx_manager_def)

text \<open>The provider with a passing probe is honest about the example.\<close>

lemma evx_delivers:
  assumes "lr_recipe r = evx_recipe" "lr_provider r = evx_descriptor" "lr_plan r = Some evx_plan"
  shows "delivers (evx_manager True cleans) (evx_provider True cleans) r evx_acquisition ''h1'' evx_runtime [evx_smoke True]"
  unfolding delivers_def assms
  by (simp add: evx_provider_def evx_acquisition_def acquires_def artifact_intact_def evx_manager_def evx_stat_def
      evx_recipe_def evx_sha_def runtime_as_planned_def probes_passed_def evx_runtime_def evx_descriptor_def evx_smoke_def)

text \<open>Planning, admission and realization of the example lead to a Ready environment.\<close>

lemma evx_ready:
  obtains r w where "env_reachable (evx_manager True True) evx_world r w" "lr_state r = ''ready''" "lr_recipe r = evx_recipe"
    "lr_provider r = evx_descriptor" "lifecycle_record_post_init r = None"
proof -
  let ?mg = "evx_manager True True"
  have d: "pv_descriptor (evx_provider True True) = evx_descriptor" by (simp add: evx_provider_def)
  have tx: "mg_new_id ?mg (w_ticks evx_world) = Inr evx_tx" by (simp add: evx_manager_def evx_tx_def)
  have p: "checked_plan (pv_descriptor (evx_provider True True)) (pv_plan (evx_provider True True) (w_calls evx_world) evx_recipe) = Inr evx_plan"
    by (simp add: evx_provider_def evx_plan_def checked_plan_def evx_names)
  have compat: "provider_incompatibility evx_recipe (pv_descriptor (evx_provider True True)) = None" unfolding d by (rule evx_valid)
  obtain r1 w1 where r1: "plan ?mg evx_recipe ''native'' evx_world = (Inr r1, w1)" "lifecycle_record_post_init r1 = None"
    "lr_state r1 = ''planned''" "lr_plan r1 = Some evx_plan" "lr_recipe r1 = evx_recipe"
    "lr_provider r1 = pv_descriptor (evx_provider True True)" "lr_failure r1 = None" "lr_rollback r1 = None"
    by (rule plan_returns [OF evx_surroundings evx_registered tx evx_valid(3) compat p])
  obtain r2 w2 t where r2: "admit ?mg r1 evx_decision w1 = (Inr r2, w2)" "lifecycle_record_post_init r2 = None"
    "r2 = r1\<lparr>lr_admission := Some evx_decision, lr_state := ''admitted'', lr_transitions := lr_transitions r1 @ [t]\<rparr>"
    by (rule admit_returns [OF evx_surroundings r1(2,3), where d = evx_decision and w = w1]) (simp_all add: evx_decision_def)
  have fields: "lr_recipe r2 = evx_recipe" "lr_provider r2 = evx_descriptor" "lr_plan r2 = Some evx_plan"
    using r1 r2(3) d by simp_all
  have recipe: "recipe_constructed (lr_recipe r2)" unfolding fields by (rule evx_requirements)
  obtain fr where dl: "accepted_evidence ?mg (evx_provider True True) r2 evx_acquisition
      (map verified_requirement (sort_key ar_name (rc_artifacts (lr_recipe r2)))) ''h1'' evx_runtime [evx_smoke True] fr"
    by (rule delivered_accepted [OF evx_delivers [OF fields] recipe evx_encoder])
  have "\<exists>r' w'. realize ?mg r2 w2 = (Inr r', w') \<and> lr_state r' = ''ready''"
    using honest_realization [OF evx_surroundings r2(2) _ _ _ _ _ _ _ _ evx_sha_valid dl, of evx_decision w2]
      r1 r2(3) d evx_registered evx_valid by (auto simp: evx_decision_def evx_names)
  then obtain r w where r: "realize ?mg r2 w2 = (Inr r, w)" "lr_state r = ''ready''" by blast
  have "env_reachable ?mg evx_world r w"
    by (rule env_reachable.realized [OF env_reachable.admitted [OF env_reachable.planned [OF r1(1)] r2(1)] r(1)])
  moreover have "lr_recipe r = lr_recipe r2" "lr_provider r = lr_provider r2" "lifecycle_record_post_init r = None"
    using realize_advances [OF r(1)] by (auto simp: advances_def same_identity_def)
  ultimately show thesis using that r(2) r1 r2(3) d by simp
qed

section \<open>Witnesses\<close>

lemma evx_canonical_faithful: "canonical_faithful evx_canonical"
  by (simp add: canonical_faithful_def evx_canonical_def)

lemma mapE_canonical: "mapE evx_canonical xs = Inr (map (\<lambda>d. [to_nat d]) xs)"
  by (induction xs) (simp_all add: evx_canonical_def)

lemma evx_canonical_fingerprint:
  "\<exists>fr. fingerprint evx_canonical id evx_sha evx_recipe evx_descriptor evx_verified evx_runtime [evx_smoke True] = Inr fr"
  unfolding fingerprint_def normalized_values_def canonical_set_def mapE_canonical Let_def
  by (simp add: evx_canonical_def)

theorem fingerprint_order_independent_witness:
  "\<exists>fr. fingerprint evx_canonical id evx_sha evx_recipe evx_descriptor evx_verified evx_runtime [evx_smoke True] = Inr fr \<and>
     fingerprint evx_canonical id evx_sha evx_recipe (evx_descriptor\<lparr>pd_capabilities := rev (pd_capabilities evx_descriptor)\<rparr>)
       evx_verified evx_runtime [evx_smoke True, evx_smoke True] = Inr fr"
proof -
  obtain fr where fr: "fingerprint evx_canonical id evx_sha evx_recipe evx_descriptor evx_verified evx_runtime [evx_smoke True] = Inr fr"
    using evx_canonical_fingerprint by blast
  have "evx_runtime\<lparr>ri_facts := ri_facts evx_runtime, ri_relevant_configuration := ri_relevant_configuration evx_runtime\<rparr> = evx_runtime"
    by simp
  with fr fingerprint_order_independent [OF evx_canonical_faithful fr, of evx_verified "ri_facts evx_runtime"
      "[evx_smoke True, evx_smoke True]" "ri_relevant_configuration evx_runtime" "rev (pd_capabilities evx_descriptor)"]
  show ?thesis by simp
qed

theorem reachable_log_and_events_witness:
  "\<exists>r w. env_reachable (evx_manager True True) evx_world r w \<and> lr_state r = ''ready'' \<and> log_ok r \<and>
     w_events w = published (evx_manager True True) r (lr_transitions r)"
proof -
  obtain r w where r: "env_reachable (evx_manager True True) evx_world r w" "lr_state r = ''ready''" by (rule evx_ready)
  moreover have "w_events evx_world = []" by (simp add: evx_world_def)
  ultimately show ?thesis using reachable_log_and_events [OF r(1)] by auto
qed

theorem reachable_ready_verified_witness:
  "\<exists>r w. env_reachable (evx_manager True True) evx_world r w \<and> lr_state r = ''ready'' \<and> env_verified (evx_manager True True) r"
proof -
  obtain r w where r: "env_reachable (evx_manager True True) evx_world r w" "lr_state r = ''ready''" "lr_recipe r = evx_recipe"
    by (rule evx_ready)
  with reachable_ready_verified [OF r(1,2)] evx_valid(1) show ?thesis by auto
qed

lemma evx_admitted_fields:
  "lr_state (evx_record s f) = s" "lr_plan (evx_record s f) = Some evx_plan" "lr_admission (evx_record s f) = Some evx_decision"
  "ad_admitted evx_decision" "lr_failure (evx_record s f) = f" "lr_rollback (evx_record s f) = None"
  "lr_recipe (evx_record s f) = evx_recipe" "lr_provider (evx_record s f) = evx_descriptor"
  by (simp_all add: evx_record_def evx_decision_def)

lemma evx_lookup: "registry_get (mg_providers (evx_manager smoke cleans)) (pd_name (lr_provider (evx_record s f))) = Inr (evx_provider smoke cleans)"
  unfolding evx_admitted_fields evx_names by (rule evx_registered)

lemma evx_recipe_of_record: "environment_recipe_post_init (lr_recipe (evx_record s f)) = None"
  unfolding evx_admitted_fields by (rule evx_valid)

lemma evx_plan_present: "lr_plan (evx_record s f) \<noteq> None"
  by (simp add: evx_admitted_fields)

text \<open>With a failing probe the realization returns but does not end Ready.\<close>

lemma evx_realizes:
  obtains r' w' where "realize (evx_manager False False) (evx_record ''admitted'' None) evx_world = (Inr r', w')"
  using returns_of_realize [OF evx_surroundings evx_valid(4) evx_admitted_fields(1) evx_plan_present evx_admitted_fields(3,4)
        evx_lookup evx_provider_ok evx_recipe_of_record] by blast

lemma evx_not_ready:
  assumes "realize (evx_manager False False) (evx_record ''admitted'' None) evx_world = (Inr r', w')"
  shows "lr_state r' \<noteq> ''ready''"
  using assms
proof (cases rule: realize_Inr)
  case (ready provider current w1 l)
  from ready(1) have "provider = evx_provider False False" unfolding evx_lookup by simp
  with ready(3) obtain l3 w3 l4 w4 where
    "run_block (smoke_stage (evx_manager False False) (evx_provider False False) (evx_record ''admitted'' None)) l3 w3 = (Inr l4, w4)"
    unfolding realize_block_def run_block_append_Inr by blast
  note st = smoke_stage_answer [OF this] smoke_stage_Inr(1) [OF this]
  from st(1) have "rl_smoke l4 = [evx_smoke False]" by (simp add: evx_provider_def)
  moreover have "verify_smoke evx_recipe [evx_smoke False] \<noteq> None" by code_simp
  ultimately show ?thesis using st(2) by (simp add: evx_admitted_fields)
next
  case (rolled_back provider current w1 e l w2)
  from fail_with_rollback_Inr [OF rolled_back(4)] have "lr_state r' \<in> {''failed'', ''cleanup_required''}" by (metis insertI1 insertI2)
  then show ?thesis by auto
qed

theorem realize_returns_witness:
  "\<exists>r' w'. realize (evx_manager False False) (evx_record ''admitted'' None) evx_world = (Inr r', w') \<and>
     lr_state r' \<in> {''ready'', ''failed'', ''cleanup_required''}"
  by (rule realize_returns [OF evx_surroundings evx_valid(4) evx_admitted_fields(1) evx_plan_present evx_admitted_fields(3,4)
        evx_lookup evx_provider_ok evx_recipe_of_record])

theorem realize_calls_witness:
  "\<exists>r' w' cs h. realize (evx_manager False False) (evx_record ''admitted'' None) evx_world = (Inr r', w') \<and>
     lr_state r' = ''cleanup_required'' \<and> w_calls w' = cs @ [CallRollback h evx_tx]"
proof -
  let ?mg = "evx_manager False False" and ?r = "evx_record ''admitted'' None"
  obtain r' w' where run: "realize ?mg ?r evx_world = (Inr r', w')" by (rule evx_realizes)
  have tx: "lr_transaction_id ?r = evx_tx" "w_calls evx_world = []" by (simp_all add: evx_record_def evx_world_def)
  have o: "\<not> po_succeeded (outcome_of (pv_rollback (evx_provider False False) cs h x))" for cs h x by (simp add: evx_provider_def)
  have "lr_state r' \<noteq> ''ready''" using evx_not_ready [OF run] .
  with realize_calls [OF run evx_recipe_of_record] obtain cs h f provider where
    c: "registry_get (mg_providers ?mg) (pd_name (lr_provider ?r)) = Inr provider"
      "w_calls w' = w_calls evx_world @ cs @ [CallRollback h (lr_transaction_id ?r)]"
      "lr_state r' = (if po_succeeded (outcome_of (pv_rollback provider (w_calls evx_world @ cs) h (lr_transaction_id ?r)))
        then ''failed'' else ''cleanup_required'')" by blast
  from c(1) have "provider = evx_provider False False" unfolding evx_lookup by simp
  with c o run show ?thesis unfolding tx by auto
qed

theorem final_states_refuse_witness:
  "\<exists>b. realize (evx_manager True True) (evx_record ''failed'' None) evx_world = (Inl (InvalidLifecycleTransition b), evx_world)"
  using final_states_refuse [of "evx_record ''failed'' None" "''stop''" "evx_manager True True" evx_decision evx_world]
  by (auto simp: evx_record_def)

theorem cancel_ready_raises_witness:
  "\<exists>r w e w'. lr_state r = ''ready'' \<and> cancel (evx_manager True True) r ''stop'' w = (Inl (ValueError e), w')"
proof -
  obtain r w where r: "env_reachable (evx_manager True True) evx_world r w" "lr_state r = ''ready''" "lr_provider r = evx_descriptor"
    "lifecycle_record_post_init r = None" by (rule evx_ready)
  have "registry_get (mg_providers (evx_manager True True)) (pd_name (lr_provider r)) = Inr (evx_provider True True)"
    unfolding r evx_names by (rule evx_registered)
  from cancel_ready_raises [OF r(4,2) _ this, of "''stop''" w] r(2) show ?thesis by auto
qed

definition evx_cleanup_failure :: lifecycle_failure where
  "evx_cleanup_failure = \<lparr>lf_classification = ''provider'', lf_code = ''provider-release-failed'', lf_message = ''busy'',
     lf_cleanup_required = True\<rparr>"

lemma evx_cleanup_valid: "lifecycle_record_post_init (evx_record ''cleanup_required'' (Some evx_cleanup_failure)) = None"
  by code_simp

theorem cancel_after_cleanup_raises_witness:
  "\<exists>w'. cancel (evx_manager True True) (evx_record ''cleanup_required'' (Some evx_cleanup_failure)) ''reconcile'' evx_world =
     (Inl (ValueError ''state requires cleanup_required failure evidence''), w')"
proof -
  let ?r = "evx_record ''cleanup_required'' (Some evx_cleanup_failure)"
  have "po_succeeded (outcome_of (pv_rollback (evx_provider True True) (w_calls evx_world) (lr_provider_handle ?r) (lr_transaction_id ?r)))"
    by (simp add: evx_provider_def)
  from cancel_after_cleanup_raises [OF evx_cleanup_valid _ _ evx_lookup this] show ?thesis by (simp add: evx_admitted_fields)
qed

lemma evx_requirement_record:
  "map verified_requirement (sort_key ar_name (rc_artifacts evx_recipe)) = evx_verified"
  by (simp add: evx_recipe_def evx_verified_def verified_requirement_def)

theorem honest_realization_ready_witness:
  "\<exists>r' w' digest. realize (evx_manager True True) (evx_record ''admitted'' None) evx_world = (Inr r', w') \<and>
     lr_state r' = ''ready'' \<and> lr_verified_artifacts r' = evx_verified \<and>
     lr_runtime_identity r' = Some evx_runtime \<and> lr_smoke_observations r' = [evx_smoke True] \<and>
     lr_verification_digest r' = Some digest"
proof -
  let ?r = "evx_record ''admitted'' None"
  have d: "delivers (evx_manager True True) (evx_provider True True) ?r evx_acquisition ''h1'' evx_runtime [evx_smoke True]"
    by (rule evx_delivers) (simp_all add: evx_admitted_fields)
  have recipe: "recipe_constructed (lr_recipe ?r)" unfolding evx_admitted_fields by (rule evx_requirements)
  from honest_realization_ready [OF evx_surroundings evx_encoder evx_sha_valid evx_valid(4) recipe evx_admitted_fields(1)
      evx_plan_present evx_admitted_fields(3-6) evx_lookup d, of evx_world]
  show ?thesis unfolding evx_admitted_fields evx_requirement_record by blast
qed

end
