(* ===== verification/Cache_Models.thy ===== *)
theory Cache_Models
  imports Prelude
begin

text \<open>
  The records of \<open>control-plane/.../cache_models.py\<close>: cache entries and inventories, the
  reality a provider observes, eviction policies, cleanup plans and reports, each with its
  validator and document. A timestamp is what its text parses to (\<^typ>\<open>timestamp\<close>); the
  fields \<open>schema_version\<close>, \<open>canonical_authority\<close>, \<open>registry_authority_mutated\<close> and
  \<open>mutation_permitted\<close> have one admissible value, the default, which the documents show.
\<close>

definition CACHE_KINDS :: "string list" where
  "CACHE_KINDS = [''artifact'', ''environment'', ''toolchain'', ''provider-cache'', ''analysis-cache'', ''protected-spool'']"

definition RETENTION_CLASSES :: "string list" where
  "RETENTION_CLASSES = [''reacquirable'', ''expensive-reconstruction'', ''rare-fragile'', ''registry-authority'', ''protected-spool'']"

definition VERIFICATION_STATES :: "string list" where
  "VERIFICATION_STATES = [''verified'', ''provisional'', ''missing'', ''mismatch'', ''unsafe'']"

definition REALITY_STATES :: "string list" where
  "REALITY_STATES = [''verified'', ''missing'', ''mismatch'', ''unsafe'', ''provider-error'']"

section \<open>Checks\<close>

definition require_positive :: "int \<Rightarrow> exc option" where
  "require_positive n = raise_if (\<not> (1 \<le> n \<and> n \<le> SAFE_INTEGER_MAX)) (ValueError ''must be a positive safe integer'')"

definition require_signed :: "int \<Rightarrow> exc option" where
  "require_signed n = raise_if (\<not> (- SAFE_INTEGER_MAX \<le> n \<and> n \<le> SAFE_INTEGER_MAX)) (ValueError ''must be a signed safe integer'')"

definition require_safe :: "int \<Rightarrow> exc option" where
  "require_safe n = raise_if (\<not> safe_integer n) (ValueError ''must be a non-negative safe integer'')"

text \<open>The checks of an optional field: \<open>None\<close> passes.\<close>

definition require_opt :: "('a \<Rightarrow> exc option) \<Rightarrow> 'a option \<Rightarrow> exc option" where
  "require_opt check v = (case v of None \<Rightarrow> None | Some x \<Rightarrow> check x)"

text \<open>\<open>PurePosixPath(value).parts\<close> and \<open>as_posix()\<close> of a path that is not absolute.\<close>

definition path_parts :: "string \<Rightarrow> string list" where
  "path_parts v = filter (\<lambda>p. p \<noteq> [] \<and> p \<noteq> ''.'') (split_on (CHR ''/'') v)"

definition as_posix :: "string \<Rightarrow> string" where
  "as_posix v = (if path_parts v = [] then ''.'' else join_with (CHR ''/'') (path_parts v))"

definition require_relative_path :: "string \<Rightarrow> exc option" where
  "require_relative_path v =
     raise_if (v = [] \<or> CHR 0x5C \<in> set v \<or> take 1 v = ''/'' \<or> as_posix v \<noteq> v \<or>
         (\<exists>p \<in> set (path_parts v). p = [] \<or> p = ''.'' \<or> p = ''..''))
       (ValueError ''cache paths must be normalized root-relative POSIX paths'')"

lemma require_cache_None [validates]:
  "require_positive n = None \<longleftrightarrow> 1 \<le> n \<and> n \<le> SAFE_INTEGER_MAX"
  "require_signed n = None \<longleftrightarrow> - SAFE_INTEGER_MAX \<le> n \<and> n \<le> SAFE_INTEGER_MAX"
  "require_safe n = None \<longleftrightarrow> safe_integer n"
  "require_opt check v = None \<longleftrightarrow> (\<forall>x. v = Some x \<longrightarrow> check x = None)"
  by (auto simp: require_positive_def require_signed_def require_safe_def require_opt_def split: option.splits)

section \<open>Cache entries and inventories\<close>

record cache_entry =
  ca_cache_key :: string
  ca_kind :: string
  ca_content_id :: "string option"
  ca_sha256 :: string
  ca_relative_path :: string
  ca_size_bytes :: int
  ca_reclaimable_bytes :: int
  ca_accounting_basis :: string
  ca_provider_name :: string
  ca_retention_class :: string
  ca_pinned :: bool
  ca_active_leases :: "string list"
  ca_future_dependencies :: "string list"
  ca_dependencies :: "string list"
  ca_last_used_at :: timestamp
  ca_reacquisition_time_seconds :: int
  ca_reacquisition_cost_microunits :: int
  ca_reconstruction_difficulty :: int
  ca_upstream_fragility :: int
  ca_verification_status :: string
  ca_verified_at :: "timestamp option"
  ca_observed_at :: timestamp
  ca_source :: string
  ca_staleness_seconds :: int
  ca_registry_authority :: bool

definition require_names :: "string list \<Rightarrow> exc option" where
  "require_names vs = first_exc (require_unique vs # map require_token vs)"

definition cache_entry_times :: "cache_entry \<Rightarrow> exc option" where
  "cache_entry_times e = first_exc [
     require_opt require_timestamp (ca_verified_at e),
     require_timestamp (ca_observed_at e),
     raise_if (ca_verification_status e = ''verified'' \<and> ca_verified_at e = None)
       (ValueError ''verified cache entries require a verification timestamp''),
     raise_if (ca_verification_status e \<noteq> ''verified'' \<and> ca_verified_at e \<noteq> None)
       (ValueError ''non-verified cache entries cannot claim a verification timestamp''),
     raise_if (instant (ca_last_used_at e) > instant (ca_observed_at e))
       (ValueError ''cache last-use time cannot follow its observation''),
     (case ca_verified_at e of None \<Rightarrow> None
      | Some v \<Rightarrow> raise_if (instant v > instant (ca_observed_at e))
          (ValueError ''cache verification time cannot follow its observation'')),
     raise_if (ca_source e = []) (ValueError ''cache inventory source is required'')]"

definition cache_entry_post_init :: "cache_entry \<Rightarrow> exc option" where
  "cache_entry_post_init e = first_exc [
     require_token (ca_cache_key e),
     raise_if (ca_kind e \<notin> set CACHE_KINDS) (ValueError ''invalid cache kind''),
     raise_if (case ca_content_id e of None \<Rightarrow> False | Some c \<Rightarrow> \<not> is_rcid c)
       (ValueError ''cache content ID must be a canonical rcid''),
     require_sha256 (ca_sha256 e),
     require_relative_path (ca_relative_path e),
     require_safe (ca_size_bytes e),
     require_safe (ca_reclaimable_bytes e),
     require_safe (ca_reacquisition_time_seconds e),
     require_safe (ca_reacquisition_cost_microunits e),
     require_safe (ca_staleness_seconds e),
     raise_if (ca_accounting_basis e \<notin> {''logical'', ''allocated''})
       (ValueError ''cache accounting basis must be logical or allocated''),
     require_token (ca_provider_name e),
     raise_if (ca_retention_class e \<notin> set RETENTION_CLASSES) (ValueError ''invalid cache retention class''),
     raise_if (ca_registry_authority e) (ValueError ''local cache entries can never claim registry authority''),
     require_names (ca_active_leases e),
     require_names (ca_future_dependencies e),
     require_names (ca_dependencies e),
     raise_if (ca_cache_key e \<in> set (ca_dependencies e)) (ValueError ''cache entries cannot depend on themselves''),
     require_timestamp (ca_last_used_at e),
     require_safe (ca_reconstruction_difficulty e),
     require_safe (ca_upstream_fragility e),
     raise_if (\<not> (0 \<le> ca_reconstruction_difficulty e \<and> ca_reconstruction_difficulty e \<le> 100))
       (ValueError ''reconstruction difficulty must be between 0 and 100''),
     raise_if (\<not> (0 \<le> ca_upstream_fragility e \<and> ca_upstream_fragility e \<le> 100))
       (ValueError ''upstream fragility must be between 0 and 100''),
     raise_if (ca_verification_status e \<notin> set VERIFICATION_STATES) (ValueError ''invalid cache verification state''),
     cache_entry_times e]"

definition hard_protection_reasons :: "cache_entry \<Rightarrow> string list" where
  "hard_protection_reasons e =
     (if ca_pinned e then [''pinned''] else []) @
     (if ca_active_leases e \<noteq> [] then [''active-lease''] else []) @
     (if ca_future_dependencies e \<noteq> [] then [''future-dependency''] else []) @
     (if ca_kind e = ''protected-spool'' \<or> ca_retention_class e = ''protected-spool'' then [''protected-spool''] else []) @
     (if ca_retention_class e = ''registry-authority'' then [''registry-authority''] else []) @
     (if ca_retention_class e = ''rare-fragile'' then [''rare-fragile''] else []) @
     (if ca_verification_status e \<noteq> ''verified'' then [''not-verified''] else [])"

definition cache_entry_to_dict :: "cache_entry \<Rightarrow> json" where
  "cache_entry_to_dict e = JObj [
     (''accounting_basis'', JStr (ca_accounting_basis e)),
     (''active_leases'', JArr (map JStr (sort (ca_active_leases e)))),
     (''cache_key'', JStr (ca_cache_key e)),
     (''content_id'', JOpt JStr (ca_content_id e)),
     (''dependencies'', JArr (map JStr (sort (ca_dependencies e)))),
     (''future_dependencies'', JArr (map JStr (sort (ca_future_dependencies e)))),
     (''kind'', JStr (ca_kind e)),
     (''last_used_at'', JTime (ca_last_used_at e)),
     (''observed_at'', JTime (ca_observed_at e)),
     (''pinned'', JBool (ca_pinned e)),
     (''provider_name'', JStr (ca_provider_name e)),
     (''reacquisition_cost_microunits'', JInt (ca_reacquisition_cost_microunits e)),
     (''reacquisition_time_seconds'', JInt (ca_reacquisition_time_seconds e)),
     (''reclaimable_bytes'', JInt (ca_reclaimable_bytes e)),
     (''reconstruction_difficulty'', JInt (ca_reconstruction_difficulty e)),
     (''registry_authority'', JBool (ca_registry_authority e)),
     (''relative_path'', JStr (ca_relative_path e)),
     (''retention_class'', JStr (ca_retention_class e)),
     (''sha256'', JStr (ca_sha256 e)),
     (''size_bytes'', JInt (ca_size_bytes e)),
     (''source'', JStr (ca_source e)),
     (''staleness_seconds'', JInt (ca_staleness_seconds e)),
     (''upstream_fragility'', JInt (ca_upstream_fragility e)),
     (''verification_status'', JStr (ca_verification_status e)),
     (''verified_at'', JOpt JTime (ca_verified_at e))]"

record cache_inventory =
  ci_observed_at :: timestamp
  ci_inventory_digest :: string
  ci_entries :: "cache_entry list"

definition cache_inventory_post_init :: "cache_inventory \<Rightarrow> exc option" where
  "cache_inventory_post_init i = first_exc [
     require_timestamp (ci_observed_at i),
     require_sha256 (ci_inventory_digest i),
     require_unique (map ca_cache_key (ci_entries i)),
     require_unique (map ca_relative_path (ci_entries i)),
     raise_if (\<exists>e \<in> set (ci_entries i). instant (ca_observed_at e) > instant (ci_observed_at i))
       (ValueError ''cache entry observations cannot follow the inventory observation'')]"

definition cache_inventory_to_dict :: "cache_inventory \<Rightarrow> json" where
  "cache_inventory_to_dict i = JObj [
     (''canonical_authority'', JBool False),
     (''entries'', JArr (map cache_entry_to_dict (sort_key ca_cache_key (ci_entries i)))),
     (''inventory_digest'', JStr (ci_inventory_digest i)),
     (''observed_at'', JTime (ci_observed_at i)),
     (''schema_version'', JStr ''cache-inventory.v1'')]"

section \<open>Observed reality\<close>

record cache_reality =
  cy_cache_key :: string
  cy_status :: string
  cy_actual_sha256 :: "string option"
  cy_actual_size_bytes :: "int option"
  cy_actual_reclaimable_bytes :: "int option"
  cy_accounting_basis :: "string option"
  cy_observed_at :: timestamp
  cy_source :: string
  cy_diagnostic :: "string option"

definition cache_reality_post_init :: "cache_reality \<Rightarrow> exc option" where
  "cache_reality_post_init r = first_exc [
     require_token (cy_cache_key r),
     raise_if (cy_status r \<notin> set REALITY_STATES) (ValueError ''invalid cache reality state''),
     require_opt require_sha256 (cy_actual_sha256 r),
     require_opt require_safe (cy_actual_size_bytes r),
     require_opt require_safe (cy_actual_reclaimable_bytes r),
     raise_if (cy_accounting_basis r \<notin> {None, Some ''logical'', Some ''allocated''})
       (ValueError ''invalid cache reality accounting basis''),
     require_timestamp (cy_observed_at r),
     raise_if (cy_source r = []) (ValueError ''cache reality source is required''),
     raise_if (cy_status r = ''verified'' \<and> (cy_actual_sha256 r = None \<or> cy_actual_size_bytes r = None \<or>
         cy_actual_reclaimable_bytes r = None \<or> cy_accounting_basis r = None))
       (ValueError ''verified cache reality requires digest, sizes, and accounting basis''),
     raise_if (cy_status r \<noteq> ''verified'' \<and> (cy_diagnostic r = None \<or> cy_diagnostic r = Some []))
       (ValueError ''unverified cache reality requires a diagnostic'')]"

definition cache_reality_to_dict :: "cache_reality \<Rightarrow> json" where
  "cache_reality_to_dict r = JObj [
     (''accounting_basis'', JOpt JStr (cy_accounting_basis r)),
     (''actual_reclaimable_bytes'', JOpt JInt (cy_actual_reclaimable_bytes r)),
     (''actual_sha256'', JOpt JStr (cy_actual_sha256 r)),
     (''actual_size_bytes'', JOpt JInt (cy_actual_size_bytes r)),
     (''cache_key'', JStr (cy_cache_key r)),
     (''diagnostic'', JOpt JStr (cy_diagnostic r)),
     (''observed_at'', JTime (cy_observed_at r)),
     (''source'', JStr (cy_source r)),
     (''status'', JStr (cy_status r))]"

record cache_reconciliation =
  cx_inventory_digest :: string
  cx_observed_at :: timestamp
  cx_observations :: "cache_reality list"

definition cache_reconciliation_post_init :: "cache_reconciliation \<Rightarrow> exc option" where
  "cache_reconciliation_post_init c = first_exc [
     require_sha256 (cx_inventory_digest c),
     require_timestamp (cx_observed_at c),
     require_unique (map cy_cache_key (cx_observations c)),
     raise_if (\<exists>r \<in> set (cx_observations c). instant (cy_observed_at r) > instant (cx_observed_at c))
       (ValueError ''cache reality observations cannot follow their reconciliation'')]"

definition cache_reconciliation_to_dict :: "cache_reconciliation \<Rightarrow> json" where
  "cache_reconciliation_to_dict c = JObj [
     (''inventory_digest'', JStr (cx_inventory_digest c)),
     (''observations'', JArr (map cache_reality_to_dict (sort_key cy_cache_key (cx_observations c)))),
     (''observed_at'', JTime (cx_observed_at c))]"

section \<open>Eviction policies, plans and reports\<close>

record eviction_policy =
  vp_bytes_weight :: int
  vp_age_weight :: int
  vp_reacquisition_time_penalty :: int
  vp_reacquisition_cost_penalty :: int
  vp_reconstruction_penalty :: int
  vp_fragility_penalty :: int
  vp_expensive_reconstruction_penalty :: int
  vp_maximum_inventory_age_seconds :: int

definition eviction_policy_post_init :: "eviction_policy \<Rightarrow> exc option" where
  "eviction_policy_post_init p = first_exc (map require_positive [
     vp_bytes_weight p, vp_age_weight p, vp_reacquisition_time_penalty p, vp_reacquisition_cost_penalty p,
     vp_reconstruction_penalty p, vp_fragility_penalty p, vp_expensive_reconstruction_penalty p,
     vp_maximum_inventory_age_seconds p])"

definition eviction_policy_to_dict :: "eviction_policy \<Rightarrow> json" where
  "eviction_policy_to_dict p = JObj [
     (''age_weight'', JInt (vp_age_weight p)),
     (''bytes_weight'', JInt (vp_bytes_weight p)),
     (''expensive_reconstruction_penalty'', JInt (vp_expensive_reconstruction_penalty p)),
     (''fragility_penalty'', JInt (vp_fragility_penalty p)),
     (''maximum_inventory_age_seconds'', JInt (vp_maximum_inventory_age_seconds p)),
     (''reacquisition_cost_penalty'', JInt (vp_reacquisition_cost_penalty p)),
     (''reacquisition_time_penalty'', JInt (vp_reacquisition_time_penalty p)),
     (''reconstruction_penalty'', JInt (vp_reconstruction_penalty p))]"

record eviction_candidate =
  vc_cache_key :: string
  vc_score :: int
  vc_expected_reclaim_bytes :: int
  vc_rank :: int

definition eviction_candidate_post_init :: "eviction_candidate \<Rightarrow> exc option" where
  "eviction_candidate_post_init c = first_exc [
     require_token (vc_cache_key c), require_signed (vc_score c),
     require_positive (vc_expected_reclaim_bytes c), require_positive (vc_rank c)]"

definition eviction_candidate_to_dict :: "eviction_candidate \<Rightarrow> json" where
  "eviction_candidate_to_dict c = JObj [
     (''cache_key'', JStr (vc_cache_key c)),
     (''expected_reclaim_bytes'', JInt (vc_expected_reclaim_bytes c)),
     (''rank'', JInt (vc_rank c)),
     (''score'', JInt (vc_score c))]"

record eviction_exclusion =
  vx_cache_key :: string
  vx_reasons :: "string list"

definition eviction_exclusion_post_init :: "eviction_exclusion \<Rightarrow> exc option" where
  "eviction_exclusion_post_init x = first_exc ([
     require_token (vx_cache_key x),
     raise_if (vx_reasons x = []) (ValueError ''cache exclusions require reasons''),
     require_unique (vx_reasons x)] @ map require_token (vx_reasons x))"

definition eviction_exclusion_to_dict :: "eviction_exclusion \<Rightarrow> json" where
  "eviction_exclusion_to_dict x = JObj [
     (''cache_key'', JStr (vx_cache_key x)), (''reasons'', JArr (map JStr (sort (vx_reasons x))))]"

record cleanup_plan =
  cp_cleanup_id :: string
  cp_inventory_digest :: string
  cp_created_at :: timestamp
  cp_target_reclaim_bytes :: int
  cp_expected_reclaim_bytes :: int
  cp_outcome :: string
  cp_policy :: eviction_policy
  cp_selected :: "eviction_candidate list"
  cp_exclusions :: "eviction_exclusion list"

definition cleanup_plan_post_init :: "cleanup_plan \<Rightarrow> exc option" where
  "cleanup_plan_post_init p = first_exc [
     raise_if (\<not> is_opid ''cache-cleanup'' (cp_cleanup_id p))
       (ValueError ''cleanup ID must be an operational cache-cleanup UUIDv7''),
     require_sha256 (cp_inventory_digest p),
     require_timestamp (cp_created_at p),
     require_positive (cp_target_reclaim_bytes p),
     require_safe (cp_expected_reclaim_bytes p),
     raise_if (cp_outcome p \<notin> {''ready'', ''refused''}) (ValueError ''cleanup plan outcome must be ready or refused''),
     require_unique (map vc_cache_key (cp_selected p)),
     require_unique (map vx_cache_key (cp_exclusions p)),
     raise_if (\<exists>k \<in> set (map vc_cache_key (cp_selected p)). k \<in> set (map vx_cache_key (cp_exclusions p)))
       (ValueError ''cache entries cannot be selected and excluded''),
     raise_if (map vc_rank (cp_selected p) \<noteq> map int [1..<length (cp_selected p) + 1])
       (ValueError ''selected cache candidates require contiguous ranks''),
     raise_if (cp_expected_reclaim_bytes p \<noteq> sum_list (map vc_expected_reclaim_bytes (cp_selected p)))
       (ValueError ''cleanup expected bytes must equal selected candidate bytes''),
     raise_if (cp_outcome p = ''ready'' \<and> cp_expected_reclaim_bytes p < cp_target_reclaim_bytes p)
       (ValueError ''ready cleanup plans must meet their reclaim target''),
     raise_if (cp_outcome p = ''refused'' \<and> cp_expected_reclaim_bytes p \<ge> cp_target_reclaim_bytes p)
       (ValueError ''refused cleanup plans cannot already meet their target'')]"

definition cleanup_plan_to_dict :: "cleanup_plan \<Rightarrow> json" where
  "cleanup_plan_to_dict p = JObj [
     (''cleanup_id'', JStr (cp_cleanup_id p)),
     (''created_at'', JTime (cp_created_at p)),
     (''exclusions'', JArr (map eviction_exclusion_to_dict (sort_key vx_cache_key (cp_exclusions p)))),
     (''expected_reclaim_bytes'', JInt (cp_expected_reclaim_bytes p)),
     (''inventory_digest'', JStr (cp_inventory_digest p)),
     (''mutation_permitted'', JBool False),
     (''outcome'', JStr (cp_outcome p)),
     (''policy'', eviction_policy_to_dict (cp_policy p)),
     (''selected'', JArr (map eviction_candidate_to_dict (cp_selected p))),
     (''target_reclaim_bytes'', JInt (cp_target_reclaim_bytes p))]"

record cleanup_mutation =
  mu_cache_key :: string
  mu_expected_reclaim_bytes :: int
  mu_actual_reclaim_bytes :: int
  mu_outcome :: string
  mu_code :: string
  mu_detail :: string

definition cleanup_mutation_post_init :: "cleanup_mutation \<Rightarrow> exc option" where
  "cleanup_mutation_post_init m = first_exc [
     require_token (mu_cache_key m),
     require_safe (mu_expected_reclaim_bytes m),
     require_safe (mu_actual_reclaim_bytes m),
     raise_if (mu_outcome m \<notin> {''deleted'', ''skipped'', ''failed''}) (ValueError ''invalid cleanup mutation outcome''),
     require_token (mu_code m),
     raise_if (mu_detail m = []) (ValueError ''cleanup mutations require detail''),
     raise_if (mu_outcome m \<noteq> ''deleted'' \<and> mu_actual_reclaim_bytes m \<noteq> 0)
       (ValueError ''only verified deletion may report actual reclaimed bytes'')]"

definition cleanup_mutation_to_dict :: "cleanup_mutation \<Rightarrow> json" where
  "cleanup_mutation_to_dict m = JObj [
     (''actual_reclaim_bytes'', JInt (mu_actual_reclaim_bytes m)),
     (''cache_key'', JStr (mu_cache_key m)),
     (''code'', JStr (mu_code m)),
     (''detail'', JStr (mu_detail m)),
     (''expected_reclaim_bytes'', JInt (mu_expected_reclaim_bytes m)),
     (''outcome'', JStr (mu_outcome m))]"

record cleanup_report =
  cu_plan :: cleanup_plan
  cu_state :: string
  cu_started_at :: timestamp
  cu_completed_at :: timestamp
  cu_actual_reclaim_bytes :: int
  cu_mutations :: "cleanup_mutation list"

definition cleanup_report_completion :: "cleanup_report \<Rightarrow> exc option" where
  "cleanup_report_completion r = first_exc [
     raise_if (cu_state r = ''refused'' \<and> (cp_outcome (cu_plan r) \<noteq> ''refused'' \<or> cu_mutations r \<noteq> []))
       (ValueError ''refused reports require a refused non-mutating plan''),
     raise_if (cu_state r \<in> {''partial'', ''cancelled''} \<and> cu_mutations r = [])
       (ValueError ''partial and cancelled cleanup reports require an attempted candidate''),
     raise_if (cu_state r = ''cancelled'' \<and>
         (mu_outcome (last (cu_mutations r)) \<noteq> ''skipped'' \<or> mu_code (last (cu_mutations r)) \<noteq> ''cancelled''))
       (ValueError ''cancelled cleanup reports require a final cancelled skip''),
     raise_if (cu_state r = ''completed'' \<and> (\<exists>m \<in> set (cu_mutations r). mu_outcome m \<noteq> ''deleted''))
       (ValueError ''completed cleanup reports require every selected deletion to succeed''),
     raise_if (cu_state r = ''completed'' \<and>
         map mu_cache_key (cu_mutations r) \<noteq> map vc_cache_key (cp_selected (cu_plan r)))
       (ValueError ''completed cleanup reports require every selected candidate''),
     raise_if (cu_state r = ''completed'' \<and> cu_actual_reclaim_bytes r \<noteq> cp_expected_reclaim_bytes (cu_plan r))
       (ValueError ''completed cleanup reports must reconcile every expected byte'')]"

definition cleanup_report_post_init :: "cleanup_report \<Rightarrow> exc option" where
  "cleanup_report_post_init r = first_exc [
     raise_if (cu_state r \<notin> {''completed'', ''partial'', ''refused'', ''cancelled''}) (ValueError ''invalid cleanup report state''),
     require_timestamp (cu_started_at r),
     require_timestamp (cu_completed_at r),
     raise_if (instant (cu_completed_at r) < instant (cu_started_at r))
       (ValueError ''cleanup reports cannot complete before they start''),
     require_safe (cu_actual_reclaim_bytes r),
     require_unique (map mu_cache_key (cu_mutations r)),
     raise_if (cu_actual_reclaim_bytes r \<noteq> sum_list (map mu_actual_reclaim_bytes (cu_mutations r)))
       (ValueError ''cleanup actual bytes must reconcile with mutations''),
     raise_if (map mu_cache_key (cu_mutations r) \<noteq>
         take (length (cu_mutations r)) (map vc_cache_key (cp_selected (cu_plan r))))
       (ValueError ''cleanup mutations must be an ordered prefix of selected candidates''),
     raise_if (\<exists>(m, c) \<in> set (zip (cu_mutations r) (cp_selected (cu_plan r))).
         mu_expected_reclaim_bytes m \<noteq> vc_expected_reclaim_bytes c)
       (ValueError ''cleanup mutation expectations must match the immutable plan''),
     cleanup_report_completion r]"

definition cleanup_report_to_dict :: "cleanup_report \<Rightarrow> json" where
  "cleanup_report_to_dict r = JObj [
     (''actual_reclaim_bytes'', JInt (cu_actual_reclaim_bytes r)),
     (''completed_at'', JTime (cu_completed_at r)),
     (''mutations'', JArr (map cleanup_mutation_to_dict (cu_mutations r))),
     (''plan'', cleanup_plan_to_dict (cu_plan r)),
     (''registry_authority_mutated'', JBool False),
     (''schema_version'', JStr ''cache-cleanup.v1''),
     (''started_at'', JTime (cu_started_at r)),
     (''state'', JStr (cu_state r))]"

section \<open>Facts of constructed entries\<close>

lemma cache_entry_valid:
  assumes "cache_entry_post_init e = None"
  shows "is_token (ca_cache_key e)" "safe_integer (ca_reclaimable_bytes e)" "ca_cache_key e \<notin> set (ca_dependencies e)"
    "\<exists>i. ca_last_used_at e = Aware i" "\<exists>i. ca_observed_at e = Aware i" "ca_provider_name e \<noteq> []"
proof -
  have "is_token (ca_provider_name e)" using assms by (simp add: cache_entry_post_init_def validates)
  then show "ca_provider_name e \<noteq> []" by auto
qed (use assms in \<open>simp_all add: cache_entry_post_init_def cache_entry_times_def validates\<close>)

end
