(* ===== verification/Operations.thy ===== *)
theory Operations
  imports Prelude
begin

text \<open>
  Operations on a world: an operation takes the world and returns a value or an error together
  with the world it leaves, also when it raises. The managers of caches and transfers and the
  recovery journal are written with these combinators.
\<close>

type_synonym ('w, 'e, 'a) operation = "'w \<Rightarrow> ('e + 'a) \<times> 'w"

definition op_return :: "'a \<Rightarrow> ('w, 'e, 'a) operation" where
  "op_return x w = (Inr x, w)"

definition op_lift :: "('e + 'a) \<Rightarrow> ('w, 'e, 'a) operation" where
  "op_lift r w = (r, w)"

definition op_bind :: "('w, 'e, 'a) operation \<Rightarrow> ('a \<Rightarrow> ('w, 'e, 'b) operation) \<Rightarrow> ('w, 'e, 'b) operation" where
  "op_bind m f w = (case m w of (Inl e, w') \<Rightarrow> (Inl e, w') | (Inr x, w') \<Rightarrow> f x w')"

fun op_map :: "('a \<Rightarrow> ('w, 'e, 'b) operation) \<Rightarrow> 'a list \<Rightarrow> ('w, 'e, 'b list) operation" where
  "op_map f [] = op_return []"
| "op_map f (x # xs) = op_bind (f x) (\<lambda>y. op_bind (op_map f xs) (\<lambda>ys. op_return (y # ys)))"

lemma op_bind_Inr [simp]:
  "op_bind m f w = (Inr y, w') \<longleftrightarrow> (\<exists>x v. m w = (Inr x, v) \<and> f x v = (Inr y, w'))"
  by (auto simp: op_bind_def split: prod.splits sum.splits)

lemma op_return_eq [simp]: "op_return x w = (r, w') \<longleftrightarrow> r = Inr x \<and> w' = w"
  by (auto simp: op_return_def)

lemma op_lift_eq [simp]: "op_lift m w = (r, w') \<longleftrightarrow> m = r \<and> w' = w"
  by (auto simp: op_lift_def)

lemma op_bind_run: "m w = (Inr x, v) \<Longrightarrow> op_bind m f w = f x v"
  by (simp add: op_bind_def)

lemma op_bind_raise: "m w = (Inl e, v) \<Longrightarrow> op_bind m f w = (Inl e, v)"
  by (simp add: op_bind_def)

lemma op_map_Inr_Cons:
  "op_map f (x # xs) w = (Inr zs, w') \<longleftrightarrow>
     (\<exists>y v ys. f x w = (Inr y, v) \<and> op_map f xs v = (Inr ys, w') \<and> zs = y # ys)"
  by auto

end
