(* ===== verification/Cache_World.thy ===== *)
theory Cache_World
  imports Cache_Models Operations
begin

text \<open>
  What the cache and transfer managers share: the world they act on, their event drafts, the
  cache provider and the parameters of the managers (\<open>cache_manager.py\<close>).

  The world counts the reads of the clock and the polls of the cancellation token and
  records the published events and the provider calls; a provider's answer may depend on all
  earlier calls.
\<close>

section \<open>Events, providers and the world\<close>

text \<open>The fields of \<open>EventDraft\<close> the managers set; the event type is \<open>progress\<close>.\<close>

record progress_event =
  pe_stream_id :: string
  pe_operation_kind :: string
  pe_phase :: string
  pe_status :: string
  pe_attempt :: int
  pe_current :: int
  pe_total :: int
  pe_unit :: string
  pe_message :: string
  pe_attributes :: "(string \<times> json) list"
  pe_terminal :: bool

datatype cache_call =
    Inspect string
  | Delete string string

record deletion_result =
  dr_succeeded :: bool
  dr_actual_reclaim_bytes :: int
  dr_code :: string
  dr_detail :: string

definition deletion_result_post_init :: "deletion_result \<Rightarrow> exc option" where
  "deletion_result_post_init d = first_exc [
     raise_if (\<not> safe_integer (dr_actual_reclaim_bytes d))
       (ValueError ''actual deleted bytes must be a non-negative safe integer''),
     raise_if (\<not> dr_succeeded d \<and> dr_actual_reclaim_bytes d \<noteq> 0)
       (ValueError ''failed deletion cannot report reclaimed bytes''),
     raise_if (\<not> is_token (dr_code d) \<or> dr_detail d = [])
       (ValueError ''deletion results require a code and detail'')]"

record cache_provider =
  cv_inspect :: "cache_call list \<Rightarrow> cache_entry \<Rightarrow> cache_reality result"
  cv_delete_verified :: "cache_call list \<Rightarrow> cache_entry \<Rightarrow> string \<Rightarrow> deletion_result result"

record cache_world =
  cw_ticks :: nat
  cw_polls :: nat
  cw_events :: "progress_event list"
  cw_calls :: "cache_call list"

text \<open>
  The manager: the clock's successive values, the identifier generator, the canonical encoder
  (\<open>None\<close> when it refuses a document), SHA-256, and the publisher, which may refuse an event
  depending on those already published.
\<close>

record cache_manager =
  cg_clock :: "nat \<Rightarrow> timestamp"
  cg_new_cleanup_id :: "nat \<Rightarrow> string result"
  cg_canonical :: "json \<Rightarrow> nat list option"
  cg_sha256 :: "nat list \<Rightarrow> string"
  cg_publisher :: "(progress_event list \<Rightarrow> progress_event \<Rightarrow> exc option) option"

type_synonym 'a cache_action = "(cache_world, exc, 'a) operation"

text \<open>\<open>_now(clock)\<close>, as an instant, and \<open>_rfc3339\<close> of an instant.\<close>

definition cache_now :: "cache_manager \<Rightarrow> int cache_action" where
  "cache_now mg w =
     (case cg_clock mg (cw_ticks w) of
        Aware i \<Rightarrow> (Inr i, w\<lparr>cw_ticks := cw_ticks w + 1\<rparr>)
      | _ \<Rightarrow> (Inl (ValueError ''cache manager clock must be timezone-aware''), w\<lparr>cw_ticks := cw_ticks w + 1\<rparr>))"

definition cache_stamp :: "int \<Rightarrow> timestamp" where
  "cache_stamp i = Aware (i div 1000 * 1000)"

definition stamp_now :: "cache_manager \<Rightarrow> timestamp cache_action" where
  "stamp_now mg = op_bind (cache_now mg) (\<lambda>i. op_return (cache_stamp i))"

definition publish_event :: "cache_manager \<Rightarrow> progress_event \<Rightarrow> unit cache_action" where
  "publish_event mg d w =
     (case cg_publisher mg of
        None \<Rightarrow> (Inr (), w)
      | Some publish \<Rightarrow>
          (case publish (cw_events w) d of
             Some e \<Rightarrow> (Inl e, w)
           | None \<Rightarrow> (Inr (), w\<lparr>cw_events := cw_events w @ [d]\<rparr>)))"

definition call_inspect_entry :: "cache_provider \<Rightarrow> cache_entry \<Rightarrow> cache_world \<Rightarrow> cache_reality result \<times> cache_world" where
  "call_inspect_entry pv e w =
     (cv_inspect pv (cw_calls w) e, w\<lparr>cw_calls := cw_calls w @ [Inspect (ca_cache_key e)]\<rparr>)"

definition call_delete :: "cache_provider \<Rightarrow> cache_entry \<Rightarrow> string \<Rightarrow> cache_world \<Rightarrow> deletion_result result \<times> cache_world" where
  "call_delete pv e cleanup_id w =
     (cv_delete_verified pv (cw_calls w) e cleanup_id, w\<lparr>cw_calls := cw_calls w @ [Delete (ca_cache_key e) cleanup_id]\<rparr>)"

text \<open>The dictionary \<open>{key(item): item}\<close>: the last item of a key wins.\<close>

definition lookup_last :: "('a \<Rightarrow> 'k) \<Rightarrow> 'a list \<Rightarrow> 'k \<Rightarrow> 'a option" where
  "lookup_last key xs k = find (\<lambda>x. key x = k) (rev xs)"

lemma lookup_last_SomeD: "lookup_last key xs k = Some x \<Longrightarrow> x \<in> set xs \<and> key x = k"
  by (auto simp: lookup_last_def dest: find_SomeD)

lemma lookup_last_distinct: "distinct (map key xs) \<Longrightarrow> x \<in> set xs \<Longrightarrow> lookup_last key xs (key x) = Some x"
  using find_Some_iff_distinct [of key "rev xs"] by (simp add: lookup_last_def rev_map [symmetric])

lemma lookup_last_iff:
  "distinct (map key xs) \<Longrightarrow> lookup_last key xs k = Some x \<longleftrightarrow> x \<in> set xs \<and> key x = k"
  using lookup_last_SomeD lookup_last_distinct by metis

section \<open>What the elementary actions do\<close>

definition cache_clock_ok :: "cache_manager \<Rightarrow> bool" where
  "cache_clock_ok mg \<longleftrightarrow> (\<forall>n. \<exists>i. cg_clock mg n = Aware i)"

definition publisher_ok :: "cache_manager \<Rightarrow> bool" where
  "publisher_ok mg \<longleftrightarrow> (\<forall>publish. cg_publisher mg = Some publish \<longrightarrow> (\<forall>es d. publish es d = None))"

lemma cache_now_Inr:
  "cache_now mg w = (Inr i, w') \<longleftrightarrow> cg_clock mg (cw_ticks w) = Aware i \<and> w' = w\<lparr>cw_ticks := cw_ticks w + 1\<rparr>"
  by (auto simp: cache_now_def split: timestamp.splits)

lemma stamp_now_Inr:
  "stamp_now mg w = (Inr t, w') \<longleftrightarrow>
     (\<exists>i. cg_clock mg (cw_ticks w) = Aware i \<and> t = cache_stamp i \<and> w' = w\<lparr>cw_ticks := cw_ticks w + 1\<rparr>)"
  by (auto simp: stamp_now_def cache_now_Inr)

lemma publish_event_Inr:
  assumes "publish_event mg d w = (Inr u, w')"
  shows "cw_calls w' = cw_calls w \<and> cw_ticks w' = cw_ticks w \<and> cw_polls w' = cw_polls w"
  using assms by (auto simp: publish_event_def split: option.splits)

lemma publish_event_returns: "publisher_ok mg \<Longrightarrow> \<exists>w'. publish_event mg d w = (Inr (), w')"
  by (auto simp: publisher_ok_def publish_event_def split: option.splits)

lemma cache_now_returns: "cache_clock_ok mg \<Longrightarrow> \<exists>i. cache_now mg w = (Inr i, w\<lparr>cw_ticks := cw_ticks w + 1\<rparr>)"
  by (simp add: cache_clock_ok_def cache_now_Inr)

lemma stamp_now_returns:
  "cache_clock_ok mg \<Longrightarrow> \<exists>i. stamp_now mg w = (Inr (cache_stamp i), w\<lparr>cw_ticks := cw_ticks w + 1\<rparr>)"
  unfolding cache_clock_ok_def stamp_now_Inr by metis

end
