(* ===== verification/Cache_Planning.thy ===== *)
theory Cache_Planning
  imports Cache_World "HOL-Library.Product_Lexorder"
begin

text \<open>
  \<open>CacheManager\<close> of \<open>cache_manager.py\<close> up to the cleanup plan: inventories and their digest,
  reconciliation with a provider, and \<open>plan_cleanup\<close>, which excludes what must not be evicted,
  scores the rest and selects until the target is met.

  Ages are compared in microseconds, as in the resource planner.
\<close>

section \<open>Inventories\<close>

definition inventory_payload :: "timestamp \<Rightarrow> cache_entry list \<Rightarrow> json" where
  "inventory_payload observed_at entries = JObj [
     (''canonical_authority'', JBool False),
     (''entries'', JArr (map cache_entry_to_dict (sort_key ca_cache_key entries))),
     (''observed_at'', JTime observed_at),
     (''schema_version'', JStr ''cache-inventory.v1'')]"

definition inventory_digest :: "cache_manager \<Rightarrow> timestamp \<Rightarrow> cache_entry list \<Rightarrow> string result" where
  "inventory_digest mg observed_at entries =
     (case cg_canonical mg (inventory_payload observed_at entries) of
        None \<Rightarrow> Inl (ValueError ''cache inventory is not RFC 8785 canonicalizable'')
      | Some bytes \<Rightarrow> Inr (cg_sha256 mg bytes))"

definition inventory :: "cache_manager \<Rightarrow> cache_entry list \<Rightarrow> timestamp option \<Rightarrow> cache_inventory cache_action" where
  "inventory mg entries observed_at =
     op_bind (case observed_at of Some t \<Rightarrow> op_return t | None \<Rightarrow> stamp_now mg) (\<lambda>stamp.
     op_bind (op_lift (inventory_digest mg stamp entries)) (\<lambda>digest.
     op_lift (construct cache_inventory_post_init
       \<lparr>ci_observed_at = stamp, ci_inventory_digest = digest, ci_entries = entries\<rparr>)))"

definition verify_inventory :: "cache_manager \<Rightarrow> cache_inventory \<Rightarrow> unit result" where
  "verify_inventory mg i =
     ebind (inventory_digest mg (ci_observed_at i) (ci_entries i)) (\<lambda>expected.
       if expected \<noteq> ci_inventory_digest i
       then Inl (ValueError ''cache inventory digest does not match its canonical contents'')
       else Inr ())"

section \<open>Reconciliation\<close>

definition reconcile_entry :: "cache_manager \<Rightarrow> cache_provider \<Rightarrow> cache_entry \<Rightarrow> cache_reality cache_action" where
  "reconcile_entry mg pv e =
     op_bind (\<lambda>w. case call_inspect_entry pv e w of
         (Inr reality, w') \<Rightarrow> (Inr reality, w')
       | (Inl _, w') \<Rightarrow> op_bind (stamp_now mg) (\<lambda>stamp. op_lift (construct cache_reality_post_init
           \<lparr>cy_cache_key = ca_cache_key e, cy_status = ''provider-error'', cy_actual_sha256 = None,
            cy_actual_size_bytes = None, cy_actual_reclaimable_bytes = None, cy_accounting_basis = None,
            cy_observed_at = stamp, cy_source = ca_provider_name e,
            cy_diagnostic = Some ''provider inspection failed''\<rparr>)) w') (\<lambda>reality.
     if cy_cache_key reality \<noteq> ca_cache_key e
     then op_lift (Inl (ValueError ''cache provider returned reality for a different cache key''))
     else if cy_source reality \<noteq> ca_provider_name e
     then op_lift (Inl (ValueError ''cache provider returned reality under a different provider identity''))
     else op_return reality)"

definition reconcile :: "cache_manager \<Rightarrow> cache_inventory \<Rightarrow> cache_provider \<Rightarrow> cache_reconciliation cache_action" where
  "reconcile mg i pv =
     op_bind (op_lift (verify_inventory mg i)) (\<lambda>_.
     op_bind (op_map (reconcile_entry mg pv) (sort_key ca_cache_key (ci_entries i))) (\<lambda>observations.
     op_bind (stamp_now mg) (\<lambda>stamp.
     op_lift (construct cache_reconciliation_post_init
       \<lparr>cx_inventory_digest = ci_inventory_digest i, cx_observed_at = stamp, cx_observations = observations\<rparr>))))"

section \<open>Exclusion and scores\<close>

definition reality_matches :: "cache_entry \<Rightarrow> cache_reality \<Rightarrow> bool" where
  "reality_matches e r \<longleftrightarrow> cy_actual_sha256 r = Some (ca_sha256 e) \<and> cy_actual_size_bytes r = Some (ca_size_bytes e) \<and>
     cy_actual_reclaimable_bytes r = Some (ca_reclaimable_bytes e) \<and> cy_accounting_basis r = Some (ca_accounting_basis e)"

text \<open>The reasons of the loop, in its order; \<open>dependents\<close> says whether another entry depends on the key.\<close>

definition exclusion_reasons ::
    "int \<Rightarrow> eviction_policy \<Rightarrow> bool \<Rightarrow> cache_entry \<Rightarrow> cache_reality \<Rightarrow> string list" where
  "exclusion_reasons now policy dependents e r =
     (let entry_age = now - instant (ca_observed_at e); reality_age = now - instant (cy_observed_at r);
          limit = vp_maximum_inventory_age_seconds policy in
      hard_protection_reasons e @
      (if dependents then [''dependency-protected''] else []) @
      (if entry_age < 0 \<or> reality_age < 0 then [''observation-in-future''] else []) @
      (if entry_age > limit * 1000000 \<or> reality_age > limit * 1000000 \<or> ca_staleness_seconds e > limit
       then [''inventory-stale''] else []) @
      (if cy_status r \<noteq> ''verified'' then [''reconciliation-'' @ cy_status r]
       else if \<not> reality_matches e r then [''reconciliation-mismatch''] else []) @
      (if ca_reclaimable_bytes e = 0 then [''no-reclaimable-space''] else []) @
      (if instant (ca_last_used_at e) > now then [''last-use-in-future''] else []))"

definition eviction_score :: "int \<Rightarrow> eviction_policy \<Rightarrow> cache_entry \<Rightarrow> int" where
  "eviction_score now policy e =
     (let last_use_age_hours = max 0 ((now - instant (ca_last_used_at e)) div 1000000 div 3600) in
      (ca_reclaimable_bytes e div 1024) * vp_bytes_weight policy
      + last_use_age_hours * vp_age_weight policy
      - (ca_reacquisition_time_seconds e div 60) * vp_reacquisition_time_penalty policy
      - (ca_reacquisition_cost_microunits e div 1000) * vp_reacquisition_cost_penalty policy
      - ca_reconstruction_difficulty e * vp_reconstruction_penalty policy
      - ca_upstream_fragility e * vp_fragility_penalty policy
      - (if ca_retention_class e = ''expensive-reconstruction'' then vp_expensive_reconstruction_penalty policy else 0))"

definition safe_score :: "int \<Rightarrow> int result" where
  "safe_score value =
     (if - SAFE_INTEGER_MAX \<le> value \<and> value \<le> SAFE_INTEGER_MAX then Inr value
      else Inl (OverflowError ''eviction score exceeds the signed safe-integer domain''))"

text \<open>One turn of the loop over the entries: an exclusion or a scored candidate.\<close>

definition classify_entry ::
    "int \<Rightarrow> eviction_policy \<Rightarrow> cache_inventory \<Rightarrow> cache_reconciliation \<Rightarrow> cache_entry \<Rightarrow>
     (eviction_exclusion + int \<times> cache_entry) result" where
  "classify_entry now policy i c e =
     (case lookup_last cy_cache_key (cx_observations c) (ca_cache_key e) of
        None \<Rightarrow> Inl (KeyError (ca_cache_key e))
      | Some r \<Rightarrow>
          let reasons = exclusion_reasons now policy (\<exists>d \<in> set (ci_entries i). ca_cache_key e \<in> set (ca_dependencies d)) e r in
          if reasons \<noteq> []
          then ebind (construct eviction_exclusion_post_init
                 \<lparr>vx_cache_key = ca_cache_key e, vx_reasons = sort (remdups reasons)\<rparr>) (\<lambda>x. Inr (Inl x))
          else (case safe_score (eviction_score now policy e) of
                  Inr s \<Rightarrow> Inr (Inr (s, e))
                | Inl (OverflowError _) \<Rightarrow>
                    ebind (construct eviction_exclusion_post_init
                      \<lparr>vx_cache_key = ca_cache_key e, vx_reasons = [''score-overflow'']\<rparr>) (\<lambda>x. Inr (Inl x))
                | Inl other \<Rightarrow> Inl other))"

fun exclusions_of :: "('x + 'c) list \<Rightarrow> 'x list" where
  "exclusions_of [] = []"
| "exclusions_of (Inl x # cs) = x # exclusions_of cs"
| "exclusions_of (Inr c # cs) = exclusions_of cs"

fun candidates_of :: "('x + 'c) list \<Rightarrow> 'c list" where
  "candidates_of [] = []"
| "candidates_of (Inl x # cs) = candidates_of cs"
| "candidates_of (Inr c # cs) = c # candidates_of cs"

definition candidate_key :: "int \<times> cache_entry \<Rightarrow> int \<times> int \<times> string" where
  "candidate_key c = (- fst c, - ca_reclaimable_bytes (snd c), ca_cache_key (snd c))"

section \<open>Selection and the plan\<close>

fun select_candidates :: "int \<Rightarrow> int \<Rightarrow> int \<Rightarrow> (int \<times> cache_entry) list \<Rightarrow> (eviction_candidate list \<times> int) result" where
  "select_candidates target reclaimed n [] = Inr ([], reclaimed)"
| "select_candidates target reclaimed n ((score, e) # cs) =
     (if reclaimed \<ge> target then Inr ([], reclaimed)
      else if reclaimed + ca_reclaimable_bytes e > SAFE_INTEGER_MAX
      then Inl (OverflowError ''cleanup reclaim plan exceeds the safe-integer domain'')
      else ebind (construct eviction_candidate_post_init
             \<lparr>vc_cache_key = ca_cache_key e, vc_score = score, vc_expected_reclaim_bytes = ca_reclaimable_bytes e,
              vc_rank = n + 1\<rparr>) (\<lambda>c.
           ebind (select_candidates target (reclaimed + ca_reclaimable_bytes e) (n + 1) cs) (\<lambda>(selected, total).
             Inr (c # selected, total))))"

definition check_dependencies :: "cache_inventory \<Rightarrow> unit result" where
  "check_dependencies i =
     (if \<exists>e \<in> set (ci_entries i). \<exists>d \<in> set (ca_dependencies e). d \<notin> set (map ca_cache_key (ci_entries i))
      then Inl (ValueError ''cache dependency is absent from inventory'') else Inr ())"

definition plan_event :: "cleanup_plan \<Rightarrow> progress_event" where
  "plan_event p =
     (let refused = (cp_outcome p = ''refused'') in
      \<lparr>pe_stream_id = cp_cleanup_id p, pe_operation_kind = ''cache-cleanup'', pe_phase = ''planning'',
       pe_status = (if refused then ''refused'' else ''planned''), pe_attempt = 1, pe_current = 0,
       pe_total = int (length (cp_selected p)), pe_unit = ''items'',
       pe_message = (if refused then ''cache cleanup plan refused'' else ''cache cleanup plan ready''),
       pe_attributes = [(''expected_reclaim_bytes'', JInt (cp_expected_reclaim_bytes p)),
         (''target_reclaim_bytes'', JInt (cp_target_reclaim_bytes p))],
       pe_terminal = refused\<rparr>)"

definition plan_checks :: "cache_manager \<Rightarrow> cache_inventory \<Rightarrow> cache_reconciliation \<Rightarrow> int \<Rightarrow> unit result" where
  "plan_checks mg i c target =
     ebind (verify_inventory mg i) (\<lambda>_.
     if cx_inventory_digest c \<noteq> ci_inventory_digest i
     then Inl (ValueError ''cache reconciliation belongs to a different inventory'')
     else if target < 1 \<or> target > SAFE_INTEGER_MAX
     then Inl (ValueError ''cleanup target must be a positive safe integer'')
     else if set (map cy_cache_key (cx_observations c)) \<noteq> set (map ca_cache_key (ci_entries i))
     then Inl (ValueError ''cache reconciliation must inspect every and only inventory entry'')
     else Inr ())"

definition plan_selection ::
    "int \<Rightarrow> eviction_policy \<Rightarrow> cache_inventory \<Rightarrow> cache_reconciliation \<Rightarrow> int \<Rightarrow>
     (eviction_exclusion list \<times> eviction_candidate list \<times> int) result" where
  "plan_selection now policy i c target =
     ebind (check_dependencies i) (\<lambda>_.
     ebind (mapE (classify_entry now policy i c) (sort_key ca_cache_key (ci_entries i))) (\<lambda>classes.
     ebind (select_candidates target 0 0 (sort_key candidate_key (candidates_of classes))) (\<lambda>(selected, total).
       Inr (exclusions_of classes, selected, total))))"

definition plan_cleanup ::
    "cache_manager \<Rightarrow> cache_inventory \<Rightarrow> cache_reconciliation \<Rightarrow> int \<Rightarrow> eviction_policy \<Rightarrow> cleanup_plan cache_action" where
  "plan_cleanup mg i c target policy =
     op_bind (op_lift (plan_checks mg i c target)) (\<lambda>_.
     op_bind (cache_now mg) (\<lambda>now.
     op_bind (op_lift (plan_selection now policy i c target)) (\<lambda>(exclusions, selected, total).
     op_bind (\<lambda>w. (cg_new_cleanup_id mg (cw_ticks w), w)) (\<lambda>cleanup_id.
     op_bind (op_lift (construct cleanup_plan_post_init
       \<lparr>cp_cleanup_id = cleanup_id, cp_inventory_digest = ci_inventory_digest i, cp_created_at = cache_stamp now,
        cp_target_reclaim_bytes = target, cp_expected_reclaim_bytes = total,
        cp_outcome = (if total \<ge> target then ''ready'' else ''refused''), cp_policy = policy,
        cp_selected = selected, cp_exclusions = exclusions\<rparr>)) (\<lambda>p.
     op_bind (publish_event mg (plan_event p)) (\<lambda>_. op_return p))))))"

end
