(* ===== verification/Cache_Selection.thy ===== *)
theory Cache_Selection
  imports Cache_Planning
begin

text \<open>
  What a cleanup plan promises: it selects evictable entries only, it is the shortest prefix of
  the ranked evictable entries that reaches the target, it is refused exactly when all of them
  together do not reach it, and planning always answers.
\<close>

section \<open>The specification\<close>

text \<open>An entry that may be evicted, without reference to the loop that finds out.\<close>

definition evictable :: "int \<Rightarrow> eviction_policy \<Rightarrow> cache_inventory \<Rightarrow> cache_reconciliation \<Rightarrow> cache_entry \<Rightarrow> bool" where
  "evictable now policy i c e \<longleftrightarrow>
     (let limit = vp_maximum_inventory_age_seconds policy in
     \<not> ca_pinned e \<and> ca_active_leases e = [] \<and> ca_future_dependencies e = [] \<and> ca_kind e \<noteq> ''protected-spool'' \<and>
     ca_retention_class e \<notin> {''protected-spool'', ''registry-authority'', ''rare-fragile''} \<and>
     ca_verification_status e = ''verified'' \<and>
     (\<forall>d \<in> set (ci_entries i). ca_cache_key e \<notin> set (ca_dependencies d)) \<and>
     0 \<le> now - instant (ca_observed_at e) \<and> now - instant (ca_observed_at e) \<le> limit * 1000000 \<and>
     ca_staleness_seconds e \<le> limit \<and> 0 < ca_reclaimable_bytes e \<and> instant (ca_last_used_at e) \<le> now \<and>
     (\<exists>r \<in> set (cx_observations c). cy_cache_key r = ca_cache_key e \<and> cy_status r = ''verified'' \<and>
        cy_actual_sha256 r = Some (ca_sha256 e) \<and> cy_actual_size_bytes r = Some (ca_size_bytes e) \<and>
        cy_actual_reclaimable_bytes r = Some (ca_reclaimable_bytes e) \<and> cy_accounting_basis r = Some (ca_accounting_basis e) \<and>
        0 \<le> now - instant (cy_observed_at r) \<and> now - instant (cy_observed_at r) \<le> limit * 1000000) \<and>
     \<bar>eviction_score now policy e\<bar> \<le> SAFE_INTEGER_MAX)"

text \<open>The evictable entries with their scores, best first.\<close>

definition ranked_entries :: "int \<Rightarrow> eviction_policy \<Rightarrow> cache_inventory \<Rightarrow> cache_reconciliation \<Rightarrow> (int \<times> cache_entry) list" where
  "ranked_entries now policy i c =
     sort_key candidate_key (map (\<lambda>e. (eviction_score now policy e, e)) (filter (evictable now policy i c) (ci_entries i)))"

definition candidate_bytes :: "int \<times> cache_entry \<Rightarrow> int" where
  "candidate_bytes c = ca_reclaimable_bytes (snd c)"

lemma candidate_bytes_pair: "candidate_bytes (s, e) = ca_reclaimable_bytes e"
  by (simp add: candidate_bytes_def)

text \<open>The shortest prefix whose weight reaches the target, or the whole list.\<close>

fun shortest_prefix :: "('c \<Rightarrow> int) \<Rightarrow> int \<Rightarrow> 'c list \<Rightarrow> 'c list" where
  "shortest_prefix weight target [] = []"
| "shortest_prefix weight target (c # cs) =
     (if target \<le> 0 then [] else c # shortest_prefix weight (target - weight c) cs)"

fun number_candidates :: "int \<Rightarrow> (int \<times> cache_entry) list \<Rightarrow> eviction_candidate list" where
  "number_candidates n [] = []"
| "number_candidates n ((score, e) # cs) =
     \<lparr>vc_cache_key = ca_cache_key e, vc_score = score, vc_expected_reclaim_bytes = ca_reclaimable_bytes e,
      vc_rank = n + 1\<rparr> # number_candidates (n + 1) cs"

section \<open>Shortest prefixes of a ranking\<close>

text \<open>The interface of a ranking: the weight of a member is positive.\<close>

locale weighted_ranking =
  fixes weight :: "'c \<Rightarrow> int" and eligible :: "'c \<Rightarrow> bool"
  assumes weight_positive: "eligible c \<Longrightarrow> 0 < weight c"
begin

lemma prefix_split: "\<exists>rest. cs = shortest_prefix weight target cs @ rest"
  by (induction cs arbitrary: target) auto

lemma prefix_all: "list_all eligible cs \<Longrightarrow> sum_list (map weight cs) < target \<Longrightarrow> shortest_prefix weight target cs = cs"
proof (induction cs arbitrary: target)
  case (Cons c cs)
  have "0 \<le> sum_list (map weight cs)"
    using Cons.prems(1) weight_positive by (intro sum_list_nonneg) (auto simp: list_all_iff intro: less_imp_le)
  with Cons weight_positive [of c] show ?case by simp
qed simp

lemma prefix_reaches: "target \<le> sum_list (map weight cs) \<Longrightarrow> target \<le> sum_list (map weight (shortest_prefix weight target cs))"
proof (induction cs arbitrary: target)
  case (Cons c cs)
  from Cons.prems have "target - weight c \<le> sum_list (map weight cs)" by simp
  from Cons.IH [OF this] show ?case by simp
qed simp

lemma prefix_minimal:
  "shortest_prefix weight target cs \<noteq> [] \<Longrightarrow> sum_list (map weight (butlast (shortest_prefix weight target cs))) < target"
proof (induction cs arbitrary: target)
  case (Cons c cs)
  from Cons.prems have t: "0 < target" by (auto split: if_splits)
  show ?case
  proof (cases "shortest_prefix weight (target - weight c) cs")
    case Nil
    with t show ?thesis by simp
  next
    case (Cons d ds)
    with Cons.IH [of "target - weight c"] t show ?thesis by simp
  qed
qed simp

lemma prefix_short: "sum_list (map weight (shortest_prefix weight target cs)) < target \<Longrightarrow> shortest_prefix weight target cs = cs"
proof (induction cs arbitrary: target)
  case (Cons c cs)
  then show ?case using Cons.IH [of "target - weight c"] by (auto split: if_splits)
qed simp

end

definition candidate_evictable ::
    "int \<Rightarrow> eviction_policy \<Rightarrow> cache_inventory \<Rightarrow> cache_reconciliation \<Rightarrow> int \<times> cache_entry \<Rightarrow> bool" where
  "candidate_evictable now policy i c s \<longleftrightarrow> evictable now policy i c (snd s)"

interpretation eviction: weighted_ranking candidate_bytes "candidate_evictable now policy i c" for now policy i c
  by unfold_locales (auto simp: candidate_evictable_def evictable_def candidate_bytes_def Let_def)

section \<open>The loops meet the specification\<close>

definition inputs_valid :: "cache_inventory \<Rightarrow> cache_reconciliation \<Rightarrow> bool" where
  "inputs_valid i c \<longleftrightarrow> cache_inventory_post_init i = None \<and> (\<forall>e \<in> set (ci_entries i). cache_entry_post_init e = None) \<and>
     cache_reconciliation_post_init c = None"

lemma inputs_valid_keys:
  assumes "inputs_valid i c"
  shows "distinct (map ca_cache_key (ci_entries i))" "distinct (map cy_cache_key (cx_observations c))"
  using assms by (simp_all add: inputs_valid_def cache_inventory_post_init_def cache_reconciliation_post_init_def validates)

lemma no_hard_reasons:
  "hard_protection_reasons e = [] \<longleftrightarrow> \<not> ca_pinned e \<and> ca_active_leases e = [] \<and> ca_future_dependencies e = [] \<and>
     ca_kind e \<noteq> ''protected-spool'' \<and> ca_retention_class e \<notin> {''protected-spool'', ''registry-authority'', ''rare-fragile''} \<and>
     ca_verification_status e = ''verified''"
  by (simp add: hard_protection_reasons_def)

lemma no_exclusion_reasons:
  "exclusion_reasons now policy dependents e r = [] \<longleftrightarrow>
     hard_protection_reasons e = [] \<and> \<not> dependents \<and> 0 \<le> now - instant (ca_observed_at e) \<and> 0 \<le> now - instant (cy_observed_at r) \<and>
     now - instant (ca_observed_at e) \<le> vp_maximum_inventory_age_seconds policy * 1000000 \<and>
     now - instant (cy_observed_at r) \<le> vp_maximum_inventory_age_seconds policy * 1000000 \<and>
     ca_staleness_seconds e \<le> vp_maximum_inventory_age_seconds policy \<and> cy_status r = ''verified'' \<and> reality_matches e r \<and>
     ca_reclaimable_bytes e \<noteq> 0 \<and> instant (ca_last_used_at e) \<le> now"
  unfolding exclusion_reasons_def Let_def append_is_Nil_conv by (auto simp: not_less split: if_splits)

lemma evictable_iff:
  assumes v: "inputs_valid i c" and e: "e \<in> set (ci_entries i)"
    and r: "lookup_last cy_cache_key (cx_observations c) (ca_cache_key e) = Some r"
  shows "evictable now policy i c e \<longleftrightarrow>
    exclusion_reasons now policy (\<exists>d \<in> set (ci_entries i). ca_cache_key e \<in> set (ca_dependencies d)) e r = [] \<and>
    \<bar>eviction_score now policy e\<bar> \<le> SAFE_INTEGER_MAX"
proof -
  have uniq: "r' = r" if "r' \<in> set (cx_observations c)" "cy_cache_key r' = ca_cache_key e" for r'
    using lookup_last_distinct [OF inputs_valid_keys(2) [OF v] that(1)] that(2) r by simp
  have r': "r \<in> set (cx_observations c)" "cy_cache_key r = ca_cache_key e" using lookup_last_SomeD [OF r] by auto
  have ex: "(\<exists>x \<in> set (cx_observations c). cy_cache_key x = ca_cache_key e \<and> P x) \<longleftrightarrow> P r" for P
    using uniq r' by blast
  have "cache_entry_post_init e = None" using v e by (simp add: inputs_valid_def)
  then have "0 \<le> ca_reclaimable_bytes e" using cache_entry_valid(2) by (simp add: safe_integer_def)
  then show ?thesis unfolding no_exclusion_reasons no_hard_reasons evictable_def ex Let_def reality_matches_def by auto
qed

lemma classify_entry_Inr:
  assumes v: "inputs_valid i c" and e: "e \<in> set (ci_entries i)" and run: "classify_entry now policy i c e = Inr x"
  shows "if evictable now policy i c e then x = Inr (eviction_score now policy e, e)
     else \<exists>ex. x = Inl ex \<and> vx_cache_key ex = ca_cache_key e"
proof -
  from run obtain r where r: "lookup_last cy_cache_key (cx_observations c) (ca_cache_key e) = Some r"
    by (auto simp: classify_entry_def split: option.splits)
  show ?thesis using run unfolding evictable_iff [OF v e r] classify_entry_def r
    by (auto simp: safe_score_def Let_def abs_le_iff split: if_splits)
qed

lemma candidates_of_classes:
  assumes "list_all2 (\<lambda>e x. if evictable now policy i c e then x = Inr (eviction_score now policy e, e)
     else \<exists>ex. x = Inl ex \<and> vx_cache_key ex = ca_cache_key e) es classes"
  shows "candidates_of classes = map (\<lambda>e. (eviction_score now policy e, e)) (filter (evictable now policy i c) es)"
    and "map vx_cache_key (exclusions_of classes) = map ca_cache_key (filter (\<lambda>e. \<not> evictable now policy i c e) es)"
  using assms by (induction rule: list_all2_induct) (auto split: if_splits)

lemma candidate_key_distinct:
  assumes "distinct (map ca_cache_key es)"
  shows "distinct (map candidate_key (map (\<lambda>e. (s e, e)) es))"
proof -
  have "map (snd \<circ> snd) (map candidate_key (map (\<lambda>e. (s e, e)) es)) = map ca_cache_key es"
    by (simp add: candidate_key_def)
  with assms have "distinct (map (snd \<circ> snd) (map candidate_key (map (\<lambda>e. (s e, e)) es)))" by (simp only:)
  then show ?thesis using distinct_map [of "snd \<circ> snd" "map candidate_key (map (\<lambda>e. (s e, e)) es)"] by blast
qed

lemma ranked_candidates:
  assumes v: "inputs_valid i c"
    and run: "mapE (classify_entry now policy i c) (sort_key ca_cache_key (ci_entries i)) = Inr classes"
  shows "sort_key candidate_key (candidates_of classes) = ranked_entries now policy i c"
    "map vx_cache_key (exclusions_of classes) =
       map ca_cache_key (filter (\<lambda>e. \<not> evictable now policy i c e) (sort_key ca_cache_key (ci_entries i)))"
proof -
  let ?es = "sort_key ca_cache_key (ci_entries i)"
  from run have all: "list_all2 (\<lambda>e x. if evictable now policy i c e then x = Inr (eviction_score now policy e, e)
     else \<exists>ex. x = Inl ex \<and> vx_cache_key ex = ca_cache_key e) ?es classes"
    unfolding mapE_Inr_iff by (rule list.rel_mono_strong) (rule classify_entry_Inr [OF v], simp_all)
  note cs = candidates_of_classes [OF all]
  have m: "mset (filter P (sort_key ca_cache_key es)) = mset (filter P es)" for P es by (simp add: mset_filter)
  have "distinct (map ca_cache_key (filter (evictable now policy i c) ?es))"
    using inputs_valid_keys(1) [OF v] by (intro distinct_map_filter) (simp add: distinct_map)
  from candidate_key_distinct [OF this, of "eviction_score now policy"]
  show "sort_key candidate_key (candidates_of classes) = ranked_entries now policy i c"
    unfolding ranked_entries_def cs(1) by (intro sort_key_canonical) (simp_all add: m)
  show "map vx_cache_key (exclusions_of classes) = map ca_cache_key (filter (\<lambda>e. \<not> evictable now policy i c e) ?es)"
    by (rule cs(2))
qed

lemma select_candidates_Inr:
  assumes "select_candidates target reclaimed n cs = Inr (selected, bytes)"
  shows "selected = number_candidates n (shortest_prefix candidate_bytes (target - reclaimed) cs) \<and>
     bytes = reclaimed + sum_list (map candidate_bytes (shortest_prefix candidate_bytes (target - reclaimed) cs))"
  using assms
proof (induction target reclaimed n cs arbitrary: selected bytes rule: select_candidates.induct)
  case (2 target reclaimed n score e cs)
  show ?case
  proof (cases "reclaimed \<ge> target")
    case False
    with 2(2) obtain sel where s: "select_candidates target (reclaimed + ca_reclaimable_bytes e) (n + 1) cs = Inr (sel, bytes)"
      "selected = \<lparr>vc_cache_key = ca_cache_key e, vc_score = score, vc_expected_reclaim_bytes = ca_reclaimable_bytes e,
      vc_rank = n + 1\<rparr> # sel" "\<not> reclaimed + ca_reclaimable_bytes e > SAFE_INTEGER_MAX"
      "construct eviction_candidate_post_init \<lparr>vc_cache_key = ca_cache_key e, vc_score = score,
         vc_expected_reclaim_bytes = ca_reclaimable_bytes e, vc_rank = n + 1\<rparr> =
       Inr \<lparr>vc_cache_key = ca_cache_key e, vc_score = score, vc_expected_reclaim_bytes = ca_reclaimable_bytes e, vc_rank = n + 1\<rparr>"
      by (auto split: if_splits)
    have eq: "target - (reclaimed + ca_reclaimable_bytes e) = target - reclaimed - ca_reclaimable_bytes e" by simp
    from 2(1) [OF False s(3,4,1)] False s(2) show ?thesis by (auto simp: candidate_bytes_pair eq)
  qed (use 2(2) in simp)
qed simp

lemma plan_cleanup_Inr:
  assumes "plan_cleanup mg i c target policy w = (Inr p, w')"
  obtains now where "cg_clock mg (cw_ticks w) = Aware now"
    "plan_selection now policy i c target = Inr (cp_exclusions p, cp_selected p, cp_expected_reclaim_bytes p)"
    "cleanup_plan_post_init p = None" "cp_target_reclaim_bytes p = target"
    "cp_outcome p = (if cp_expected_reclaim_bytes p \<ge> target then ''ready'' else ''refused'')"
    "plan_checks mg i c target = Inr ()" "cp_policy p = policy" "cp_inventory_digest p = ci_inventory_digest i"
    "cw_calls w' = cw_calls w"
  using assms by (auto simp: plan_cleanup_def cache_now_Inr dest!: publish_event_Inr)

lemma plan_selection_Inr:
  assumes v: "inputs_valid i c" and run: "plan_selection now policy i c target = Inr (exclusions, selected, bytes)"
  shows "selected = number_candidates 0 (shortest_prefix candidate_bytes target (ranked_entries now policy i c))"
    "bytes = sum_list (map candidate_bytes (shortest_prefix candidate_bytes target (ranked_entries now policy i c)))"
    "map vx_cache_key exclusions =
       map ca_cache_key (filter (\<lambda>e. \<not> evictable now policy i c e) (sort_key ca_cache_key (ci_entries i)))"
proof -
  from run obtain classes where
    c: "mapE (classify_entry now policy i c) (sort_key ca_cache_key (ci_entries i)) = Inr classes"
      "select_candidates target 0 0 (sort_key candidate_key (candidates_of classes)) = Inr (selected, bytes)"
      "exclusions = exclusions_of classes"
    by (auto simp: plan_selection_def)
  note r = ranked_candidates [OF v c(1)]
  from select_candidates_Inr [OF c(2)] r c(3) show
    "selected = number_candidates 0 (shortest_prefix candidate_bytes target (ranked_entries now policy i c))"
    "bytes = sum_list (map candidate_bytes (shortest_prefix candidate_bytes target (ranked_entries now policy i c)))"
    "map vx_cache_key exclusions =
       map ca_cache_key (filter (\<lambda>e. \<not> evictable now policy i c e) (sort_key ca_cache_key (ci_entries i)))"
    by simp_all
qed

section \<open>Planning answers\<close>

lemma tokens_of_reasons:
  "is_token ''pinned''" "is_token ''active-lease''" "is_token ''future-dependency''" "is_token ''protected-spool''"
  "is_token ''registry-authority''" "is_token ''rare-fragile''" "is_token ''not-verified''" "is_token ''dependency-protected''"
  "is_token ''observation-in-future''" "is_token ''inventory-stale''" "is_token ''reconciliation-mismatch''"
  "is_token ''no-reclaimable-space''" "is_token ''last-use-in-future''" "is_token ''score-overflow''"
  by (simp_all add: is_lower_alnum_def is_lower_def is_digit_def)

lemma reality_status_token: "st \<in> set REALITY_STATES \<Longrightarrow> is_token (''reconciliation-'' @ st)"
  by (auto simp: REALITY_STATES_def is_lower_alnum_def is_lower_def is_digit_def)

lemma reasons_tokens:
  assumes "cy_status r \<in> set REALITY_STATES" and "x \<in> set (exclusion_reasons now policy dependents e r)"
  shows "is_token x"
proof -
  have "x = ''reconciliation-'' @ cy_status r \<or> x \<in> {''pinned'', ''active-lease'', ''future-dependency'', ''protected-spool'',
      ''registry-authority'', ''rare-fragile'', ''not-verified'', ''dependency-protected'', ''observation-in-future'',
      ''inventory-stale'', ''reconciliation-mismatch'', ''no-reclaimable-space'', ''last-use-in-future''}"
    using assms(2) unfolding exclusion_reasons_def hard_protection_reasons_def Let_def set_append
    by (auto split: if_splits)
  then show ?thesis using reality_status_token [OF assms(1)] tokens_of_reasons by (elim disjE insertE emptyE) (simp_all del: is_token.simps)
qed

lemma exclusion_constructed:
  assumes "is_token k" and "xs \<noteq> []" and "\<And>x. x \<in> set xs \<Longrightarrow> is_token x"
  shows "eviction_exclusion_post_init \<lparr>vx_cache_key = k, vx_reasons = sort (remdups xs)\<rparr> = None"
proof -
  have "sort (remdups xs) \<noteq> []" using assms(2) by (metis length_0_conv length_sort remdups_eq_nil_iff)
  with assms show ?thesis by (auto simp: eviction_exclusion_post_init_def validates)
qed

lemma classify_returns:
  assumes e: "cache_entry_post_init e = None" and obs: "\<And>r. r \<in> set (cx_observations c) \<Longrightarrow> cache_reality_post_init r = None"
    and key: "ca_cache_key e \<in> set (map cy_cache_key (cx_observations c))"
  shows "returns (classify_entry now policy i c e)"
proof -
  obtain r where r: "lookup_last cy_cache_key (cx_observations c) (ca_cache_key e) = Some r"
    using key by (cases "lookup_last cy_cache_key (cx_observations c) (ca_cache_key e)") (auto simp: lookup_last_def find_None_iff)
  have st: "cy_status r \<in> set REALITY_STATES"
    using obs [of r] lookup_last_SomeD [OF r] by (simp add: cache_reality_post_init_def)
  let ?rs = "exclusion_reasons now policy (\<exists>d \<in> set (ci_entries i). ca_cache_key e \<in> set (ca_dependencies d)) e r"
  have "?rs \<noteq> [] \<Longrightarrow> eviction_exclusion_post_init \<lparr>vx_cache_key = ca_cache_key e, vx_reasons = sort (remdups ?rs)\<rparr> = None"
    by (rule exclusion_constructed [OF cache_entry_valid(1) [OF e]]) (auto intro: reasons_tokens [OF st])
  moreover have "eviction_exclusion_post_init \<lparr>vx_cache_key = ca_cache_key e, vx_reasons = [''score-overflow'']\<rparr> = None"
    using cache_entry_valid(1) [OF e] tokens_of_reasons(14)
    by (simp del: is_token.simps add: eviction_exclusion_post_init_def validates)
  ultimately show ?thesis unfolding classify_entry_def r Let_def
    by (simp add: safe_score_def returns_ebind)
qed

text \<open>Selection raises only when the sum of the selected bytes leaves the safe domain.\<close>

lemma select_candidates_returns:
  assumes "\<forall>(s, e) \<in> set cs. is_token (ca_cache_key e) \<and> 0 < ca_reclaimable_bytes e \<and> \<bar>s\<bar> \<le> SAFE_INTEGER_MAX"
    and "0 \<le> n" "n \<le> reclaimed"
  shows "returns (select_candidates target reclaimed n cs) \<or> (\<exists>m. select_candidates target reclaimed n cs = Inl (OverflowError m))"
  using assms
proof (induction target reclaimed n cs rule: select_candidates.induct)
  case (2 target reclaimed n score e cs)
  show ?case
  proof (cases "reclaimed \<ge> target \<or> reclaimed + ca_reclaimable_bytes e > SAFE_INTEGER_MAX")
    case False
    let ?c = "\<lparr>vc_cache_key = ca_cache_key e, vc_score = score, vc_expected_reclaim_bytes = ca_reclaimable_bytes e,
      vc_rank = n + 1\<rparr>"
    have "eviction_candidate_post_init ?c = None" using 2(2-4) False
      by (auto simp: eviction_candidate_post_init_def validates)
    moreover have "returns (select_candidates target (reclaimed + ca_reclaimable_bytes e) (n + 1) cs) \<or>
        (\<exists>m. select_candidates target (reclaimed + ca_reclaimable_bytes e) (n + 1) cs = Inl (OverflowError m))"
      by (rule 2(1)) (use 2(2-4) False calculation in auto)
    ultimately show ?thesis using False by (auto simp: returns_def ebind_eq_Inl)
  qed auto
qed simp

lemma number_candidates_ranks: "map vc_rank (number_candidates n cs) = map (\<lambda>k. n + int k) [1..<length cs + 1]"
proof (induction n cs rule: number_candidates.induct)
  case (2 n score e cs)
  have "[1..<Suc (Suc (length cs))] = 1 # map Suc [1..<Suc (length cs)]"
    by (simp add: upt_conv_Cons map_Suc_upt del: upt_Suc)
  with 2 show ?case by (simp add: comp_def del: upt_Suc)
qed simp

lemma number_candidates_fields:
  "map vc_cache_key (number_candidates n cs) = map (\<lambda>c. ca_cache_key (snd c)) cs"
  "map vc_expected_reclaim_bytes (number_candidates n cs) = map candidate_bytes cs"
  "length (number_candidates n cs) = length cs"
  by (induction n cs rule: number_candidates.induct) (simp_all add: candidate_bytes_pair)

end
