(* ===== verification/Cache_Plan_Properties.thy ===== *)
theory Cache_Plan_Properties
  imports Cache_Selection
begin

text \<open>
  The properties of \<open>CacheManager.plan_cleanup\<close>: what it selects, when it refuses, that it
  answers, and in which bounds its scores stay.
\<close>

section \<open>Safety\<close>

lemma number_candidates_memberD:
  "s \<in> set (number_candidates n cs) \<Longrightarrow> \<exists>(sc, e) \<in> set cs. vc_cache_key s = ca_cache_key e \<and> vc_score s = sc \<and>
     vc_expected_reclaim_bytes s = ca_reclaimable_bytes e"
  by (induction n cs rule: number_candidates.induct) auto

lemma shortest_prefix_subset: "set (shortest_prefix weight target cs) \<subseteq> set cs"
  by (induction cs arbitrary: target) auto

lemma ranked_entries_memberD:
  "(s, e) \<in> set (ranked_entries now policy i c) \<Longrightarrow>
     e \<in> set (ci_entries i) \<and> evictable now policy i c e \<and> s = eviction_score now policy e"
  by (auto simp: ranked_entries_def)

text \<open>
  C21. A cleanup plan selects only entries that may be evicted: not pinned, not leased, not
  needed by a future run or by another entry, of no protected kind or retention class, verified
  by the inventory and by a provider observation that agrees in digest, sizes and accounting,
  both fresh and not in the future; and it promises exactly the entry's reclaimable bytes.
\<close>

theorem plan_selects_evictable:
  assumes run: "plan_cleanup mg i c target policy w = (Inr p, w')" and valid: "inputs_valid i c"
    and sel: "s \<in> set (cp_selected p)"
  shows "\<exists>now e. cg_clock mg (cw_ticks w) = Aware now \<and> e \<in> set (ci_entries i) \<and> vc_cache_key s = ca_cache_key e \<and>
     vc_expected_reclaim_bytes s = ca_reclaimable_bytes e \<and> vc_score s = eviction_score now policy e \<and> evictable now policy i c e"
proof -
  obtain now where now: "cg_clock mg (cw_ticks w) = Aware now"
    "plan_selection now policy i c target = Inr (cp_exclusions p, cp_selected p, cp_expected_reclaim_bytes p)"
    using plan_cleanup_Inr [OF run] by metis
  from sel have "s \<in> set (number_candidates 0 (shortest_prefix candidate_bytes target (ranked_entries now policy i c)))"
    using plan_selection_Inr(1) [OF valid now(2)] by simp
  then obtain sc e where e: "(sc, e) \<in> set (ranked_entries now policy i c)" "vc_cache_key s = ca_cache_key e" "vc_score s = sc"
    "vc_expected_reclaim_bytes s = ca_reclaimable_bytes e"
    using number_candidates_memberD shortest_prefix_subset by fast
  with ranked_entries_memberD [OF e(1)] now(1) show ?thesis by blast
qed

section \<open>Refinement\<close>

text \<open>
  C22. The loops of \<open>plan_cleanup\<close> implement the specification: the plan selects the shortest
  prefix of the evictable entries, ranked by score, then size, then key, that reaches the
  target (all of them when none does), numbers it from 1, expects the sum of its bytes, and
  excludes exactly the other entries, in key order.
\<close>

theorem plan_refines_ranking:
  assumes run: "plan_cleanup mg i c target policy w = (Inr p, w')" and valid: "inputs_valid i c"
  shows "\<exists>now. cg_clock mg (cw_ticks w) = Aware now \<and>
     (let chosen = shortest_prefix candidate_bytes target (ranked_entries now policy i c) in
      cp_selected p = number_candidates 0 chosen \<and>
      cp_expected_reclaim_bytes p = sum_list (map candidate_bytes chosen) \<and>
      map vx_cache_key (cp_exclusions p) =
        map ca_cache_key (filter (\<lambda>e. \<not> evictable now policy i c e) (sort_key ca_cache_key (ci_entries i))))"
proof -
  obtain now where now: "cg_clock mg (cw_ticks w) = Aware now"
    "plan_selection now policy i c target = Inr (cp_exclusions p, cp_selected p, cp_expected_reclaim_bytes p)"
    using plan_cleanup_Inr [OF run] by metis
  with plan_selection_Inr [OF valid now(2)] show ?thesis by (auto simp: Let_def)
qed

section \<open>Outcome\<close>

definition evictable_bytes :: "int \<Rightarrow> eviction_policy \<Rightarrow> cache_inventory \<Rightarrow> cache_reconciliation \<Rightarrow> int" where
  "evictable_bytes now policy i c = sum_list (map ca_reclaimable_bytes (filter (evictable now policy i c) (ci_entries i)))"

lemma ranked_bytes: "sum_list (map candidate_bytes (ranked_entries now policy i c)) = evictable_bytes now policy i c"
proof -
  have "mset (map candidate_bytes (ranked_entries now policy i c)) =
      mset (map ca_reclaimable_bytes (filter (evictable now policy i c) (ci_entries i)))"
    by (simp add: ranked_entries_def comp_def candidate_bytes_def image_mset.compositionality)
  then have "sum_mset (mset (map candidate_bytes (ranked_entries now policy i c))) =
      sum_mset (mset (map ca_reclaimable_bytes (filter (evictable now policy i c) (ci_entries i))))" by (rule arg_cong)
  then show ?thesis unfolding sum_mset_sum_list evictable_bytes_def .
qed

lemma sum_list_last: "xs \<noteq> [] \<Longrightarrow> sum_list (map f xs) = sum_list (map f (butlast xs)) + (f (last xs) :: int)"
  by (cases xs rule: rev_cases) simp_all

lemma last_number_candidates:
  "cs \<noteq> [] \<Longrightarrow> vc_expected_reclaim_bytes (last (number_candidates n cs)) = candidate_bytes (last cs)"
proof (induction n cs rule: number_candidates.induct)
  case (2 n score e cs)
  then show ?case using number_candidates_fields(3) [of "n + 1" cs] by (cases cs) (auto simp: candidate_bytes_pair)
qed simp

lemma ranked_eligible: "list_all (candidate_evictable now policy i c) (ranked_entries now policy i c)"
  by (auto simp: list_all_iff ranked_entries_def candidate_evictable_def)

text \<open>
  A plan is refused exactly when all evictable entries together do not reach the target,
  and then it lists all of them; a ready plan reaches the target and does not without its last
  entry, so nothing is evicted that the target does not need.
\<close>

theorem plan_outcome_exact:
  assumes run: "plan_cleanup mg i c target policy w = (Inr p, w')" and valid: "inputs_valid i c"
  shows "\<exists>now. cg_clock mg (cw_ticks w) = Aware now \<and>
     (cp_outcome p = ''refused'' \<longleftrightarrow> evictable_bytes now policy i c < target) \<and>
     (cp_outcome p = ''refused'' \<longrightarrow> cp_selected p = number_candidates 0 (ranked_entries now policy i c)) \<and>
     (cp_outcome p = ''ready'' \<longrightarrow> target \<le> cp_expected_reclaim_bytes p \<and> cp_selected p \<noteq> [] \<and>
        cp_expected_reclaim_bytes p - vc_expected_reclaim_bytes (last (cp_selected p)) < target)"
proof -
  obtain now where now: "cg_clock mg (cw_ticks w) = Aware now"
    "plan_selection now policy i c target = Inr (cp_exclusions p, cp_selected p, cp_expected_reclaim_bytes p)"
    "cp_outcome p = (if cp_expected_reclaim_bytes p \<ge> target then ''ready'' else ''refused'')" "plan_checks mg i c target = Inr ()"
    using plan_cleanup_Inr [OF run] by metis
  let ?r = "ranked_entries now policy i c" and ?sp = "shortest_prefix candidate_bytes target (ranked_entries now policy i c)"
  note sel = plan_selection_Inr [OF valid now(2)]
  have pos: "0 < target" using now(4) by (auto simp: plan_checks_def split: if_splits)
  have refused: "cp_outcome p = ''refused'' \<longleftrightarrow> evictable_bytes now policy i c < target"
  proof
    assume "cp_outcome p = ''refused''"
    with now(3) have "sum_list (map candidate_bytes ?sp) < target" using sel(2) by (simp split: if_splits)
    with eviction.prefix_reaches [of target ?r] show "evictable_bytes now policy i c < target" by (metis not_le ranked_bytes)
  next
    assume "evictable_bytes now policy i c < target"
    with eviction.prefix_all [OF ranked_eligible] have "sum_list (map candidate_bytes ?sp) < target" by (simp add: ranked_bytes)
    with now(3) sel(2) show "cp_outcome p = ''refused''" by simp
  qed
  moreover have "cp_outcome p = ''refused'' \<longrightarrow> cp_selected p = number_candidates 0 ?r"
    using refused eviction.prefix_all [OF ranked_eligible] sel(1) by (simp add: ranked_bytes)
  moreover have "target \<le> cp_expected_reclaim_bytes p \<and> cp_selected p \<noteq> [] \<and>
      cp_expected_reclaim_bytes p - vc_expected_reclaim_bytes (last (cp_selected p)) < target" if "cp_outcome p = ''ready''"
  proof -
    have t: "target \<le> cp_expected_reclaim_bytes p" using that now(3) by (simp split: if_splits)
    with sel(2) pos have ne: "?sp \<noteq> []" by auto
    from number_candidates_fields(3) [of 0 ?sp] sel(1) ne have ns: "cp_selected p \<noteq> []" by auto
    have "vc_expected_reclaim_bytes (last (cp_selected p)) = candidate_bytes (last ?sp)"
      using last_number_candidates [OF ne] sel(1) by simp
    moreover have "sum_list (map candidate_bytes ?sp) = sum_list (map candidate_bytes (butlast ?sp)) + candidate_bytes (last ?sp)"
      by (rule sum_list_last [OF ne])
    ultimately show ?thesis using t ns eviction.prefix_minimal [OF ne] sel(2) by simp
  qed
  ultimately show ?thesis using now(1) by blast
qed

section \<open>Planning answers\<close>

definition plan_inputs_ok :: "cache_manager \<Rightarrow> cache_inventory \<Rightarrow> cache_reconciliation \<Rightarrow> int \<Rightarrow> bool" where
  "plan_inputs_ok mg i c target \<longleftrightarrow> inputs_valid i c \<and> (\<forall>r \<in> set (cx_observations c). cache_reality_post_init r = None) \<and>
     plan_checks mg i c target = Inr () \<and> check_dependencies i = Inr ()"

lemma plan_selection_returns:
  assumes ok: "plan_inputs_ok mg i c target"
  shows "returns (plan_selection now policy i c target) \<or> (\<exists>m. plan_selection now policy i c target = Inl (OverflowError m))"
proof -
  have v: "inputs_valid i c" and obs: "\<And>r. r \<in> set (cx_observations c) \<Longrightarrow> cache_reality_post_init r = None"
    and keys: "set (map cy_cache_key (cx_observations c)) = set (map ca_cache_key (ci_entries i))"
    and dep: "check_dependencies i = Inr ()"
    using ok by (auto simp: plan_inputs_ok_def plan_checks_def split: if_splits)
  have entry: "cache_entry_post_init e = None" if "e \<in> set (ci_entries i)" for e using v that by (simp add: inputs_valid_def)
  have "returns (mapE (classify_entry now policy i c) (sort_key ca_cache_key (ci_entries i)))"
    unfolding returns_mapE using entry keys by (auto intro!: classify_returns obs)
  then obtain classes where cl: "mapE (classify_entry now policy i c) (sort_key ca_cache_key (ci_entries i)) = Inr classes"
    by (auto simp: returns_def)
  have "is_token (ca_cache_key e) \<and> 0 < ca_reclaimable_bytes e \<and> \<bar>s\<bar> \<le> SAFE_INTEGER_MAX"
    if "(s, e) \<in> set (ranked_entries now policy i c)" for s e
    using ranked_entries_memberD [OF that] cache_entry_valid(1) [OF entry [of e]] by (simp add: evictable_def Let_def)
  then have "returns (select_candidates target 0 0 (ranked_entries now policy i c)) \<or>
      (\<exists>m. select_candidates target 0 0 (ranked_entries now policy i c) = Inl (OverflowError m))"
    by (intro select_candidates_returns) auto
  with dep cl ranked_candidates(1) [OF v cl] show ?thesis
    by (auto simp: plan_selection_def returns_def)
qed

lemma plan_constructed:
  assumes ok: "plan_inputs_ok mg i c target" and sel: "plan_selection now policy i c target = Inr (xs, selected, bytes)"
    and id: "is_opid ''cache-cleanup'' cleanup_id"
  shows "bytes \<le> SAFE_INTEGER_MAX \<Longrightarrow> cleanup_plan_post_init
    \<lparr>cp_cleanup_id = cleanup_id, cp_inventory_digest = ci_inventory_digest i, cp_created_at = cache_stamp now,
     cp_target_reclaim_bytes = target, cp_expected_reclaim_bytes = bytes,
     cp_outcome = (if bytes \<ge> target then ''ready'' else ''refused''), cp_policy = policy,
     cp_selected = selected, cp_exclusions = xs\<rparr> = None"
proof -
  assume small: "bytes \<le> SAFE_INTEGER_MAX"
  let ?r = "ranked_entries now policy i c" and ?sp = "shortest_prefix candidate_bytes target (ranked_entries now policy i c)"
  have v: "inputs_valid i c" and t: "1 \<le> target" "target \<le> SAFE_INTEGER_MAX"
    using ok by (auto simp: plan_inputs_ok_def plan_checks_def split: if_splits)
  note s = plan_selection_Inr [OF v sel]
  have sha: "is_sha256 (ci_inventory_digest i)" and dist: "distinct (map ca_cache_key (ci_entries i))"
    using v by (simp_all add: inputs_valid_def cache_inventory_post_init_def validates)
  obtain rest where split: "?r = ?sp @ rest" using eviction.prefix_split by metis
  have nn: "0 \<le> bytes" unfolding s(2) using shortest_prefix_subset ranked_entries_memberD
    by (intro sum_list_nonneg) (fastforce simp: candidate_bytes_def evictable_def Let_def)
  have mk: "mset (map (\<lambda>c. ca_cache_key (snd c)) ?r) = mset (map ca_cache_key (filter (evictable now policy i c) (ci_entries i)))"
    by (simp add: ranked_entries_def image_mset.compositionality comp_def)
  then have dr: "distinct (map (\<lambda>c. ca_cache_key (snd c)) ?r)"
    using mset_eq_imp_distinct_iff [OF mk] distinct_map_filter [OF dist] by simp
  then have ds: "distinct (map vc_cache_key selected)"
    unfolding s(1) number_candidates_fields(1) by (metis split map_append distinct_append)
  have dx: "distinct (map vx_cache_key xs)" unfolding s(3)
    by (intro distinct_map_filter) (use dist in \<open>simp add: distinct_map\<close>)
  have disj: "k \<notin> set (map vx_cache_key xs)" if "k \<in> set (map vc_cache_key selected)" for k
  proof -
    from that obtain sc e where e: "(sc, e) \<in> set ?r" "k = ca_cache_key e"
      unfolding s(1) number_candidates_fields(1) using shortest_prefix_subset by fastforce
    show ?thesis
    proof
      assume "k \<in> set (map vx_cache_key xs)"
      then obtain e' where e': "e' \<in> set (ci_entries i)" "\<not> evictable now policy i c e'" "ca_cache_key e' = k"
        unfolding s(3) by auto
      with e ranked_entries_memberD [OF e(1)] dist have "e' = e" by (metis (no_types, lifting) distinct_map inj_onD)
      with e' ranked_entries_memberD [OF e(1)] show False by simp
    qed
  qed
  have ranks: "map vc_rank selected = map int [1..<length selected + 1]"
    unfolding s(1) number_candidates_fields(3) number_candidates_ranks by simp
  have sums: "bytes = sum_list (map vc_expected_reclaim_bytes selected)" unfolding s(1,2) number_candidates_fields(2) ..
  show ?thesis unfolding cleanup_plan_post_init_def using id sha t small nn ds dx disj ranks sums
    by (auto simp: validates safe_integer_def cache_stamp_def simp del: upt_Suc)
qed

lemma select_candidates_bounded:
  "select_candidates target reclaimed n cs = Inr (selected, bytes) \<Longrightarrow> reclaimed \<le> SAFE_INTEGER_MAX \<Longrightarrow> bytes \<le> SAFE_INTEGER_MAX"
  by (induction target reclaimed n cs arbitrary: selected bytes rule: select_candidates.induct) (auto split: if_splits)

lemma plan_selection_bounded:
  assumes "plan_selection now policy i c target = Inr (xs, selected, bytes)"
  shows "bytes \<le> SAFE_INTEGER_MAX"
  using assms by (auto simp: plan_selection_def SAFE_INTEGER_MAX_def dest!: select_candidates_bounded)

text \<open>
  C24. Planning always answers: with constructed inputs that pass the initial checks, a clock
  with an offset, a valid identifier and a publisher that accepts, \<open>plan_cleanup\<close> returns a
  plan, unless the bytes it would select leave the safe-integer domain, which raises
  \<open>OverflowError\<close>. No other exception is possible, and no provider is called.
\<close>

theorem plan_cleanup_answers:
  assumes ok: "plan_inputs_ok mg i c target" and clock: "cache_clock_ok mg" and pub: "publisher_ok mg"
    and id: "\<And>n. \<exists>x. cg_new_cleanup_id mg n = Inr x \<and> is_opid ''cache-cleanup'' x"
  shows "\<exists>w'. cw_calls w' = cw_calls w \<and>
     ((\<exists>p. plan_cleanup mg i c target policy w = (Inr p, w')) \<or> (\<exists>m. plan_cleanup mg i c target policy w = (Inl (OverflowError m), w')))"
proof -
  obtain now where now: "cache_now mg w = (Inr now, w\<lparr>cw_ticks := cw_ticks w + 1\<rparr>)" using cache_now_returns [OF clock] by blast
  let ?w = "w\<lparr>cw_ticks := cw_ticks w + 1\<rparr>"
  have checks: "plan_checks mg i c target = Inr ()" using ok by (simp add: plan_inputs_ok_def)
  from plan_selection_returns [OF ok, of now policy] show ?thesis
  proof
    assume "returns (plan_selection now policy i c target)"
    then obtain xs selected bytes where sel: "plan_selection now policy i c target = Inr (xs, selected, bytes)"
      by (metis returns_def prod_cases3)
    obtain cleanup_id where x: "cg_new_cleanup_id mg (cw_ticks ?w) = Inr cleanup_id" "is_opid ''cache-cleanup'' cleanup_id"
      using id by blast
    note p = plan_constructed [OF ok sel x(2) plan_selection_bounded [OF sel]]
    from publish_event_returns [OF pub] obtain w' where
      w': "publish_event mg (plan_event \<lparr>cp_cleanup_id = cleanup_id, cp_inventory_digest = ci_inventory_digest i,
       cp_created_at = cache_stamp now, cp_target_reclaim_bytes = target, cp_expected_reclaim_bytes = bytes,
       cp_outcome = (if bytes \<ge> target then ''ready'' else ''refused''), cp_policy = policy,
       cp_selected = selected, cp_exclusions = xs\<rparr>) ?w = (Inr (), w')" by blast
    have "plan_cleanup mg i c target policy w = (Inr \<lparr>cp_cleanup_id = cleanup_id, cp_inventory_digest = ci_inventory_digest i,
       cp_created_at = cache_stamp now, cp_target_reclaim_bytes = target, cp_expected_reclaim_bytes = bytes,
       cp_outcome = (if bytes \<ge> target then ''ready'' else ''refused''), cp_policy = policy,
       cp_selected = selected, cp_exclusions = xs\<rparr>, w')"
      using checks now sel x(1) p w' by (simp add: plan_cleanup_def op_bind_def op_lift_def op_return_def construct_def)
    moreover have "cw_calls w' = cw_calls w" using publish_event_Inr [OF w'] by simp
    ultimately show ?thesis by blast
  next
    assume "\<exists>m. plan_selection now policy i c target = Inl (OverflowError m)"
    then obtain m where "plan_selection now policy i c target = Inl (OverflowError m)" by blast
    then have "plan_cleanup mg i c target policy w = (Inl (OverflowError m), ?w)"
      using checks now by (simp add: plan_cleanup_def op_bind_def op_lift_def)
    then show ?thesis by (intro exI [of _ ?w]) simp
  qed
qed

section \<open>Bounds\<close>

lemma weighted_part:
  fixes v k d b :: int
  assumes "0 \<le> v" "v \<le> b" "0 \<le> k" "k \<le> m" "0 < d"
  shows "0 \<le> v div d * k" "v div d * k \<le> b div d * m"
proof -
  have "0 \<le> v div d" "v div d \<le> b div d" using assms by (simp_all add: pos_imp_zdiv_nonneg_iff zdiv_mono1)
  with assms show "0 \<le> v div d * k" "v div d * k \<le> b div d * m" by (simp, intro mult_mono) auto
qed

text \<open>
  With policy weights up to 16 (a penalty for expensive reconstruction up to one million)
  and a last use at most a million years ago, the score of every constructed entry stays inside
  the signed safe-integer domain: no entry is excluded for a score overflow.
\<close>

theorem moderate_scores_are_safe:
  assumes e: "cache_entry_post_init e = None" and p: "eviction_policy_post_init policy = None"
    and weights: "\<forall>k \<in> {vp_bytes_weight policy, vp_age_weight policy, vp_reacquisition_time_penalty policy,
      vp_reacquisition_cost_penalty policy, vp_reconstruction_penalty policy, vp_fragility_penalty policy}. k \<le> 16"
      "vp_expensive_reconstruction_penalty policy \<le> 1000000"
    and age: "now - instant (ca_last_used_at e) \<le> 1000000 * 366 * 24 * 3600 * 1000000"
  shows "safe_score (eviction_score now policy e) = Inr (eviction_score now policy e)"
proof -
  define hours where "hours = max 0 ((now - instant (ca_last_used_at e)) div 1000000 div 3600)"
  have f: "0 \<le> ca_reclaimable_bytes e" "ca_reclaimable_bytes e \<le> SAFE_INTEGER_MAX"
    "0 \<le> ca_reacquisition_time_seconds e" "ca_reacquisition_time_seconds e \<le> SAFE_INTEGER_MAX"
    "0 \<le> ca_reacquisition_cost_microunits e" "ca_reacquisition_cost_microunits e \<le> SAFE_INTEGER_MAX"
    "0 \<le> ca_reconstruction_difficulty e" "ca_reconstruction_difficulty e \<le> 100"
    "0 \<le> ca_upstream_fragility e" "ca_upstream_fragility e \<le> 100"
    using e by (simp_all add: cache_entry_post_init_def validates safe_integer_def)
  have k: "0 \<le> vp_bytes_weight policy" "0 \<le> vp_age_weight policy" "0 \<le> vp_reacquisition_time_penalty policy"
    "0 \<le> vp_reacquisition_cost_penalty policy" "0 \<le> vp_reconstruction_penalty policy" "0 \<le> vp_fragility_penalty policy"
    "0 \<le> vp_expensive_reconstruction_penalty policy"
    using p by (simp_all add: eviction_policy_post_init_def validates)
  have "(now - instant (ca_last_used_at e)) div 1000000 \<le> (1000000 * 366 * 24 * 3600 * 1000000) div 1000000"
    using age by (rule zdiv_mono1) simp
  then have "(now - instant (ca_last_used_at e)) div 1000000 div 3600 \<le> (1000000 * 366 * 24 * 3600 * 1000000) div 1000000 div 3600"
    by (rule zdiv_mono1) simp
  then have h: "0 \<le> hours" "hours \<le> 8784000000" by (simp_all add: hours_def)
  have w: "vp_bytes_weight policy \<le> 16" "vp_age_weight policy \<le> 16" "vp_reacquisition_time_penalty policy \<le> 16"
    "vp_reacquisition_cost_penalty policy \<le> 16" "vp_reconstruction_penalty policy \<le> 16" "vp_fragility_penalty policy \<le> 16"
    using weights(1) by simp_all
  note b = weighted_part [OF f(1,2) k(1) w(1), of 1024, simplified] weighted_part [OF h k(2) w(2), of 1, simplified]
    weighted_part [OF f(3,4) k(3) w(3), of 60, simplified] weighted_part [OF f(5,6) k(4) w(4), of 1000, simplified]
    weighted_part [OF f(7,8) k(5) w(5), of 1, simplified] weighted_part [OF f(9,10) k(6) w(6), of 1, simplified]
  show ?thesis using b k(7) weights(2)
    unfolding safe_score_def eviction_score_def Let_def hours_def [symmetric] SAFE_INTEGER_MAX_def by simp
qed

end
