(* ===== verification/Cache_Cleanup.thy ===== *)
theory Cache_Cleanup
  imports Cache_Planning
begin

text \<open>
  \<open>CacheManager.execute_cleanup\<close>: the loop over the selected candidates with its guards, the
  provider calls it makes, the accounting of each candidate and the final report. The texts of
  details that quote names or numbers are their constant parts. A cancellation token is the
  sequence of its answers; \<open>NeverCancel\<close> is constantly false.
\<close>

definition new_mutation :: "cache_entry \<Rightarrow> eviction_candidate \<Rightarrow> int \<Rightarrow> string \<Rightarrow> string \<Rightarrow> string \<Rightarrow> cleanup_mutation result" where
  "new_mutation e c actual outcome code detail =
     construct cleanup_mutation_post_init
       \<lparr>mu_cache_key = ca_cache_key e, mu_expected_reclaim_bytes = vc_expected_reclaim_bytes c,
        mu_actual_reclaim_bytes = actual, mu_outcome = outcome, mu_code = code, mu_detail = detail\<rparr>"

definition protection_changed :: "cache_inventory \<Rightarrow> cache_entry \<Rightarrow> bool" where
  "protection_changed i e \<longleftrightarrow> hard_protection_reasons e \<noteq> [] \<or>
     (\<exists>d \<in> set (ci_entries i). ca_cache_key e \<in> set (ca_dependencies d))"

definition reality_changed :: "int \<Rightarrow> eviction_policy \<Rightarrow> cache_entry \<Rightarrow> cache_reality \<Rightarrow> bool" where
  "reality_changed execution_now policy e r \<longleftrightarrow>
     (let reality_age = execution_now - instant (cy_observed_at r) in
      cy_cache_key r \<noteq> ca_cache_key e \<or> cy_source r \<noteq> ca_provider_name e \<or> reality_age < 0 \<or>
      reality_age > vp_maximum_inventory_age_seconds policy * 1000000 \<or> cy_status r \<noteq> ''verified'' \<or> \<not> reality_matches e r)"

text \<open>What becomes of a provider's answer to a deletion: a raised exception is a failed deletion.\<close>

definition deletion_of :: "deletion_result result \<Rightarrow> deletion_result" where
  "deletion_of r =
     (case r of
        Inr d \<Rightarrow> d
      | Inl _ \<Rightarrow> \<lparr>dr_succeeded = False, dr_actual_reclaim_bytes = 0, dr_code = ''provider-delete-error'',
          dr_detail = ''cache provider deletion raised''\<rparr>)"

definition deletion_mutation :: "cache_entry \<Rightarrow> eviction_candidate \<Rightarrow> deletion_result \<Rightarrow> cleanup_mutation result" where
  "deletion_mutation e c d =
     (let diverged = (dr_succeeded d \<and> dr_actual_reclaim_bytes d \<noteq> vc_expected_reclaim_bytes c) in
      new_mutation e c (dr_actual_reclaim_bytes d) (if dr_succeeded d then ''deleted'' else ''failed'')
        (if diverged then ''reclaim-diverged'' else dr_code d)
        (if diverged then ''provider deleted the entry but reclaimed other bytes than planned'' else dr_detail d))"

text \<open>
  A candidate that is not cancelled: its mutation, and whether the report becomes partial.
\<close>

definition clean_candidate ::
    "cache_provider \<Rightarrow> cleanup_plan \<Rightarrow> cache_inventory \<Rightarrow> int \<Rightarrow> eviction_candidate \<Rightarrow> cache_entry \<Rightarrow>
     (cleanup_mutation \<times> bool) cache_action" where
  "clean_candidate pv plan i execution_now c e =
     (if protection_changed i e
      then op_bind (op_lift (new_mutation e c 0 ''failed'' ''protection-changed'' ''entry became protected''))
             (\<lambda>m. op_return (m, True))
      else (\<lambda>w. case call_inspect_entry pv e w of
         (Inl _, w') \<Rightarrow>
           op_bind (op_lift (new_mutation e c 0 ''failed'' ''provider-inspection-error'' ''cache provider inspection raised''))
             (\<lambda>m. op_return (m, True)) w'
       | (Inr r, w') \<Rightarrow>
           if reality_changed execution_now (cp_policy plan) e r
           then op_bind (op_lift (new_mutation e c 0 ''failed'' ''reconciliation-changed''
                  ''provider reality changed after cleanup planning; no deletion attempted'')) (\<lambda>m. op_return (m, True)) w'
           else (case call_delete pv e (cp_cleanup_id plan) w' of
             (answer, w'') \<Rightarrow>
               let d = deletion_of answer in
               op_bind (op_lift (deletion_mutation e c d))
                 (\<lambda>m. op_return (m, \<not> dr_succeeded d \<or> dr_actual_reclaim_bytes d \<noteq> vc_expected_reclaim_bytes c)) w'')))"

definition cleanup_event :: "cleanup_plan \<Rightarrow> string \<Rightarrow> int \<Rightarrow> string \<Rightarrow> (string \<times> json) list \<Rightarrow> bool \<Rightarrow> progress_event" where
  "cleanup_event plan status current message attributes terminal =
     \<lparr>pe_stream_id = cp_cleanup_id plan, pe_operation_kind = ''cache-cleanup'', pe_phase = ''cleanup'', pe_status = status,
      pe_attempt = 1, pe_current = current, pe_total = int (length (cp_selected plan)), pe_unit = ''items'',
      pe_message = message, pe_attributes = attributes, pe_terminal = terminal\<rparr>"

definition actual_bytes :: "cleanup_mutation list \<Rightarrow> int" where
  "actual_bytes ms = sum_list (map mu_actual_reclaim_bytes ms)"

definition publish_accounted :: "cache_manager \<Rightarrow> cleanup_plan \<Rightarrow> cleanup_mutation list \<Rightarrow> unit cache_action" where
  "publish_accounted mg plan ms =
     publish_event mg (cleanup_event plan ''running'' (int (length ms)) ''cache cleanup candidate accounted''
       [(''actual_reclaim_bytes'', JInt (actual_bytes ms))] False)"

definition poll_cancelled :: "(nat \<Rightarrow> bool) \<Rightarrow> bool cache_action" where
  "poll_cancelled token w = (Inr (token (cw_polls w)), w\<lparr>cw_polls := cw_polls w + 1\<rparr>)"

fun cleanup_loop ::
    "cache_manager \<Rightarrow> cache_provider \<Rightarrow> cleanup_plan \<Rightarrow> cache_inventory \<Rightarrow> int \<Rightarrow> (nat \<Rightarrow> bool) \<Rightarrow>
     eviction_candidate list \<Rightarrow> cleanup_mutation list \<Rightarrow> string \<Rightarrow> (cleanup_mutation list \<times> string) cache_action" where
  "cleanup_loop mg pv plan i now token [] ms state = op_return (ms, state)"
| "cleanup_loop mg pv plan i now token (c # cs) ms state =
     (case lookup_last ca_cache_key (ci_entries i) (vc_cache_key c) of
        None \<Rightarrow> op_lift (Inl (KeyError (vc_cache_key c)))
      | Some e \<Rightarrow>
          if vc_expected_reclaim_bytes c \<noteq> ca_reclaimable_bytes e
          then op_lift (Inl (ValueError ''cleanup candidate expectation diverges from inventory''))
          else op_bind (poll_cancelled token) (\<lambda>stop.
            if stop
            then op_bind (op_lift (new_mutation e c 0 ''skipped'' ''cancelled'' ''cleanup cancelled before mutation'')) (\<lambda>m.
                 op_bind (publish_accounted mg plan (ms @ [m])) (\<lambda>_. op_return (ms @ [m], ''cancelled'')))
            else op_bind (clean_candidate pv plan i now c e) (\<lambda>(m, partial).
                 op_bind (publish_accounted mg plan (ms @ [m])) (\<lambda>_.
                 cleanup_loop mg pv plan i now token cs (ms @ [m]) (if partial then ''partial'' else state)))))"

definition cleanup_fresh :: "cleanup_plan \<Rightarrow> cache_inventory \<Rightarrow> int \<Rightarrow> unit result" where
  "cleanup_fresh plan i now =
     (let plan_age = now - instant (cp_created_at plan); inventory_age = now - instant (ci_observed_at i);
          limit = vp_maximum_inventory_age_seconds (cp_policy plan) in
      if plan_age < 0 \<or> inventory_age < 0
      then Inl (ValueError ''cleanup plan and inventory timestamps cannot be in the future'')
      else if plan_age > limit * 1000000 \<or> inventory_age > limit * 1000000
      then Inl (ValueError ''cleanup plan or inventory is stale; fresh reconciliation is required'')
      else Inr ())"

definition cleanup_report_of :: "cleanup_plan \<Rightarrow> string \<Rightarrow> timestamp \<Rightarrow> timestamp \<Rightarrow> cleanup_mutation list \<Rightarrow> cleanup_report result" where
  "cleanup_report_of plan state started completed ms =
     construct cleanup_report_post_init
       \<lparr>cu_plan = plan, cu_state = state, cu_started_at = started, cu_completed_at = completed,
        cu_actual_reclaim_bytes = actual_bytes ms, cu_mutations = ms\<rparr>"

definition run_cleanup ::
    "cache_manager \<Rightarrow> cleanup_plan \<Rightarrow> cache_inventory \<Rightarrow> cache_provider \<Rightarrow> (nat \<Rightarrow> bool) \<Rightarrow> timestamp \<Rightarrow> int \<Rightarrow>
     cleanup_report cache_action" where
  "run_cleanup mg plan i pv token start now =
     op_bind (publish_event mg (cleanup_event plan ''running'' 0 ''cache cleanup execution started''
       [(''expected_reclaim_bytes'', JInt (cp_expected_reclaim_bytes plan))] False)) (\<lambda>_.
     if \<exists>c \<in> set (cp_selected plan). vc_cache_key c \<notin> set (map ca_cache_key (ci_entries i))
     then op_lift (Inl (ValueError ''cleanup plan selects an entry absent from inventory''))
     else op_bind (cleanup_loop mg pv plan i now token (cp_selected plan) [] ''completed'') (\<lambda>(ms, state).
       let state' = (if length ms < length (cp_selected plan) \<and> state \<noteq> ''cancelled'' then ''partial'' else state) in
       if actual_bytes ms > SAFE_INTEGER_MAX
       then op_lift (Inl (OverflowError ''actual cleanup reconciliation exceeds the safe-integer domain''))
       else op_bind (stamp_now mg) (\<lambda>completed.
         op_bind (op_lift (cleanup_report_of plan state' start completed ms)) (\<lambda>report.
         op_bind (publish_event mg (cleanup_event plan state' (int (length ms)) (''cache cleanup '' @ state')
           [(''actual_reclaim_bytes'', JInt (actual_bytes ms)), (''outcome'', JStr state')] True)) (\<lambda>_.
         op_return report)))))"

definition execute_cleanup ::
    "cache_manager \<Rightarrow> cleanup_plan \<Rightarrow> cache_inventory \<Rightarrow> cache_provider \<Rightarrow> (nat \<Rightarrow> bool) \<Rightarrow> cleanup_report cache_action" where
  "execute_cleanup mg plan i pv token =
     op_bind (op_lift (verify_inventory mg i)) (\<lambda>_.
     if cp_inventory_digest plan \<noteq> ci_inventory_digest i
     then op_lift (Inl (ValueError ''cleanup plan belongs to a different cache inventory''))
     else op_bind (stamp_now mg) (\<lambda>start.
     op_bind (cache_now mg) (\<lambda>now.
     op_bind (op_lift (cleanup_fresh plan i now)) (\<lambda>_.
     if cp_outcome plan = ''refused''
     then op_bind (stamp_now mg) (\<lambda>completed. op_lift (cleanup_report_of plan ''refused'' start completed []))
     else run_cleanup mg plan i pv token start now))))"

section \<open>The trace of provider calls\<close>

text \<open>
  The calls a clean-up may make after a history: every deletion directly follows an inspection
  of the same entry, made for this plan, the recorded entry is unprotected, and the inspection
  confirmed the record. Both conditions are stated on the members of the entry and of the
  observation, without the guards of the loop; the two lemmas below relate them to the guards.
\<close>

definition unprotected :: "cache_inventory \<Rightarrow> cache_entry \<Rightarrow> bool" where
  "unprotected i e \<longleftrightarrow>
     \<not> ca_pinned e \<and> ca_active_leases e = [] \<and> ca_future_dependencies e = [] \<and>
     ca_kind e \<noteq> ''protected-spool'' \<and>
     ca_retention_class e \<notin> {''protected-spool'', ''registry-authority'', ''rare-fragile''} \<and>
     ca_verification_status e = ''verified'' \<and>
     (\<forall>d \<in> set (ci_entries i). ca_cache_key e \<notin> set (ca_dependencies d))"

definition confirms :: "int \<Rightarrow> int \<Rightarrow> cache_entry \<Rightarrow> cache_reality \<Rightarrow> bool" where
  "confirms now limit e r \<longleftrightarrow>
     cy_cache_key r = ca_cache_key e \<and> cy_source r = ca_provider_name e \<and> cy_status r = ''verified'' \<and>
     cy_actual_sha256 r = Some (ca_sha256 e) \<and> cy_actual_size_bytes r = Some (ca_size_bytes e) \<and>
     cy_actual_reclaimable_bytes r = Some (ca_reclaimable_bytes e) \<and>
     cy_accounting_basis r = Some (ca_accounting_basis e) \<and>
     instant (cy_observed_at r) \<le> now \<and> now \<le> instant (cy_observed_at r) + limit * 1000000"

lemma protection_changed_iff: "protection_changed i e \<longleftrightarrow> \<not> unprotected i e"
  by (auto simp: protection_changed_def unprotected_def hard_protection_reasons_def)

lemma reality_changed_iff:
  "reality_changed now policy e r \<longleftrightarrow> \<not> confirms now (vp_maximum_inventory_age_seconds policy) e r"
  by (auto simp: reality_changed_def confirms_def reality_matches_def Let_def)

definition may_delete :: "cache_provider \<Rightarrow> cleanup_plan \<Rightarrow> cache_inventory \<Rightarrow> int \<Rightarrow> cache_call list \<Rightarrow> string \<Rightarrow> bool" where
  "may_delete pv plan i now h k \<longleftrightarrow>
     (case lookup_last ca_cache_key (ci_entries i) k of
        None \<Rightarrow> False
      | Some e \<Rightarrow> unprotected i e \<and>
          (case cv_inspect pv h e of
             Inl _ \<Rightarrow> False
           | Inr r \<Rightarrow> confirms now (vp_maximum_inventory_age_seconds (cp_policy plan)) e r))"

fun supervised :: "cache_provider \<Rightarrow> cleanup_plan \<Rightarrow> cache_inventory \<Rightarrow> int \<Rightarrow> cache_call list \<Rightarrow> cache_call list \<Rightarrow> bool" where
  "supervised pv plan i now h [] \<longleftrightarrow> True"
| "supervised pv plan i now h (Inspect k # Delete k' x # cs) \<longleftrightarrow>
     k = k' \<and> x = cp_cleanup_id plan \<and> may_delete pv plan i now h k \<and>
     supervised pv plan i now (h @ [Inspect k, Delete k' x]) cs"
| "supervised pv plan i now h (Inspect k # cs) \<longleftrightarrow> supervised pv plan i now (h @ [Inspect k]) cs"
| "supervised pv plan i now h (Delete k x # cs) \<longleftrightarrow> False"

fun deleted_keys :: "cache_call list \<Rightarrow> string list" where
  "deleted_keys [] = []"
| "deleted_keys (Delete k x # cs) = k # deleted_keys cs"
| "deleted_keys (Inspect k # cs) = deleted_keys cs"

text \<open>The deletions of a trace that the provider confirmed, with the bytes it reported.\<close>

fun confirmed_deletions :: "cache_provider \<Rightarrow> cache_inventory \<Rightarrow> cache_call list \<Rightarrow> cache_call list \<Rightarrow> (string \<times> int) list" where
  "confirmed_deletions pv i h [] = []"
| "confirmed_deletions pv i h (Inspect k # cs) = confirmed_deletions pv i (h @ [Inspect k]) cs"
| "confirmed_deletions pv i h (Delete k x # cs) =
     (case lookup_last ca_cache_key (ci_entries i) k of
        None \<Rightarrow> []
      | Some e \<Rightarrow> let d = deletion_of (cv_delete_verified pv h e x) in
          if dr_succeeded d then [(k, dr_actual_reclaim_bytes d)] else []) @
     confirmed_deletions pv i (h @ [Delete k x]) cs"

end
