(* ===== verification/Cache_Cleanup_Properties.thy ===== *)
theory Cache_Cleanup_Properties
  imports Cache_Cleanup "HOL-Library.Sublist"
begin

text \<open>
  The properties of \<open>CacheManager.execute_cleanup\<close>: which deletions it may request, that the
  report accounts for exactly the confirmed ones, that it answers, and what a provider with a
  running clock makes of it.
\<close>

section \<open>Traces\<close>

lemma supervised_append:
  "supervised pv plan i now h ts \<Longrightarrow> supervised pv plan i now (h @ ts) us \<Longrightarrow> supervised pv plan i now h (ts @ us)"
proof (induction pv plan i now h ts rule: supervised.induct)
  case "3_1"
  then show ?case by (cases us rule: supervised.cases [of "(pv, plan, i, now, h, us)" for us]) auto
qed auto

lemma confirmed_append:
  "confirmed_deletions pv i h (ts @ us) = confirmed_deletions pv i h ts @ confirmed_deletions pv i (h @ ts) us"
  by (induction pv i h ts rule: confirmed_deletions.induct) simp_all

lemma deleted_keys_append: "deleted_keys (ts @ us) = deleted_keys ts @ deleted_keys us"
  by (induction ts rule: deleted_keys.induct) simp_all

text \<open>The calls of one candidate: none, an inspection, or an inspection and a deletion.\<close>

definition candidate_trace ::
    "cache_provider \<Rightarrow> cleanup_plan \<Rightarrow> cache_inventory \<Rightarrow> int \<Rightarrow> cache_call list \<Rightarrow> string \<Rightarrow> cache_call list \<Rightarrow> bool" where
  "candidate_trace pv plan i now h k ts \<longleftrightarrow> ts = [] \<or> ts = [Inspect k] \<or>
     (ts = [Inspect k, Delete k (cp_cleanup_id plan)] \<and> may_delete pv plan i now h k)"

lemma candidate_trace_supervised:
  assumes "candidate_trace pv plan i now h k ts"
  shows "supervised pv plan i now h ts" "subseq (deleted_keys ts) [k]"
  using assms by (auto simp: candidate_trace_def)

definition deleted_pairs :: "cleanup_mutation list \<Rightarrow> (string \<times> int) list" where
  "deleted_pairs ms = map (\<lambda>m. (mu_cache_key m, mu_actual_reclaim_bytes m)) (filter (\<lambda>m. mu_outcome m = ''deleted'') ms)"

lemma new_mutation_Inr:
  "new_mutation e c actual outcome code detail = Inr m \<Longrightarrow>
     mu_cache_key m = ca_cache_key e \<and> mu_expected_reclaim_bytes m = vc_expected_reclaim_bytes c \<and>
     mu_actual_reclaim_bytes m = actual \<and> mu_outcome m = outcome \<and> mu_code m = code \<and> (outcome \<noteq> ''deleted'' \<longrightarrow> actual = 0)"
  by (auto simp: new_mutation_def cleanup_mutation_post_init_def)

text \<open>One candidate: its calls, and the mutation as an account of them.\<close>

lemma clean_candidate_trace:
  assumes e: "lookup_last ca_cache_key (ci_entries i) k = Some e"
    and run: "clean_candidate pv plan i now c e w = (res, w')"
  obtains ts where "cw_calls w' = cw_calls w @ ts" "candidate_trace pv plan i now (cw_calls w) k ts"
    "\<And>m partial. res = Inr (m, partial) \<Longrightarrow> mu_cache_key m = k \<and> mu_expected_reclaim_bytes m = vc_expected_reclaim_bytes c \<and>
       deleted_pairs [m] = confirmed_deletions pv i (cw_calls w) ts \<and>
       (\<not> partial \<longleftrightarrow> deleted_pairs [m] = [(k, vc_expected_reclaim_bytes c)]) \<and> (mu_outcome m \<noteq> ''deleted'' \<longrightarrow> mu_actual_reclaim_bytes m = 0)"
proof -
  have k: "ca_cache_key e = k" using lookup_last_SomeD [OF e] by simp
  have simple: "mu_cache_key m = k \<and> mu_expected_reclaim_bytes m = vc_expected_reclaim_bytes c \<and> deleted_pairs [m] = [] \<and>
      mu_actual_reclaim_bytes m = 0" if "new_mutation e c 0 ''failed'' code detail = Inr m" for m code detail
    using new_mutation_Inr [OF that] k by (simp add: deleted_pairs_def)
  consider (protected) "protection_changed i e"
    | (unread) x where "\<not> protection_changed i e" "cv_inspect pv (cw_calls w) e = Inl x"
    | (changed) r where "\<not> protection_changed i e" "cv_inspect pv (cw_calls w) e = Inr r" "reality_changed now (cp_policy plan) e r"
    | (delete) r where "\<not> protection_changed i e" "cv_inspect pv (cw_calls w) e = Inr r" "\<not> reality_changed now (cp_policy plan) e r"
    by (cases "cv_inspect pv (cw_calls w) e") auto
  then show thesis
  proof cases
    case protected
    with run have r: "res = ebind (new_mutation e c 0 ''failed'' ''protection-changed'' ''entry became protected'') (\<lambda>m. Inr (m, True))" "w' = w"
      by (cases "new_mutation e c 0 ''failed'' ''protection-changed'' ''entry became protected''";
          simp add: clean_candidate_def op_bind_def op_lift_def op_return_def)+
    show ?thesis by (rule that [of "[]"]) (use r simple in \<open>auto simp: candidate_trace_def\<close>)
  next
    case unread
    let ?m = "new_mutation e c 0 ''failed'' ''provider-inspection-error'' ''cache provider inspection raised''"
    from unread run have r: "res = ebind ?m (\<lambda>m. Inr (m, True))" "cw_calls w' = cw_calls w @ [Inspect k]"
      using k by (cases ?m; auto simp: clean_candidate_def call_inspect_entry_def op_bind_def op_lift_def op_return_def)+
    show ?thesis by (rule that [of "[Inspect k]"]) (use r simple in \<open>auto simp: candidate_trace_def\<close>)
  next
    case changed
    let ?m = "new_mutation e c 0 ''failed'' ''reconciliation-changed'' ''provider reality changed after cleanup planning; no deletion attempted''"
    from changed run have r: "res = ebind ?m (\<lambda>m. Inr (m, True))" "cw_calls w' = cw_calls w @ [Inspect k]"
      using k by (cases ?m; auto simp: clean_candidate_def call_inspect_entry_def op_bind_def op_lift_def op_return_def)+
    show ?thesis by (rule that [of "[Inspect k]"]) (use r simple in \<open>auto simp: candidate_trace_def\<close>)
  next
    case delete
    define d where "d = deletion_of (cv_delete_verified pv (cw_calls w @ [Inspect k]) e (cp_cleanup_id plan))"
    let ?p = "\<not> dr_succeeded d \<or> dr_actual_reclaim_bytes d \<noteq> vc_expected_reclaim_bytes c"
    from delete run have r: "res = ebind (deletion_mutation e c d) (\<lambda>m. Inr (m, ?p))"
        "cw_calls w' = cw_calls w @ [Inspect k, Delete k (cp_cleanup_id plan)]"
      using k by (cases "deletion_mutation e c d";
          auto simp: clean_candidate_def call_inspect_entry_def call_delete_def d_def Let_def op_bind_def op_lift_def op_return_def)+
    have conf: "confirmed_deletions pv i (cw_calls w) [Inspect k, Delete k (cp_cleanup_id plan)] =
        (if dr_succeeded d then [(k, dr_actual_reclaim_bytes d)] else [])" using e by (simp add: d_def Let_def)
    have m: "mu_cache_key m = k \<and> mu_expected_reclaim_bytes m = vc_expected_reclaim_bytes c \<and>
        deleted_pairs [m] = (if dr_succeeded d then [(k, dr_actual_reclaim_bytes d)] else []) \<and>
        (mu_outcome m \<noteq> ''deleted'' \<longrightarrow> mu_actual_reclaim_bytes m = 0)"
      if "deletion_mutation e c d = Inr m" for m
      using new_mutation_Inr [OF that [unfolded deletion_mutation_def Let_def]] k by (auto simp: deleted_pairs_def)
    show ?thesis
    proof (rule that [OF r(2)])
      show "candidate_trace pv plan i now (cw_calls w) k [Inspect k, Delete k (cp_cleanup_id plan)]"
        using delete e by (simp add: candidate_trace_def may_delete_def protection_changed_iff reality_changed_iff)
      fix x partial assume "res = Inr (x, partial)"
      with r(1) have x: "deletion_mutation e c d = Inr x" "partial \<longleftrightarrow> ?p" by auto
      from m [OF x(1)] x(2) show "mu_cache_key x = k \<and> mu_expected_reclaim_bytes x = vc_expected_reclaim_bytes c \<and>
        deleted_pairs [x] = confirmed_deletions pv i (cw_calls w) [Inspect k, Delete k (cp_cleanup_id plan)] \<and>
        (\<not> partial \<longleftrightarrow> deleted_pairs [x] = [(k, vc_expected_reclaim_bytes c)]) \<and>
        (mu_outcome x \<noteq> ''deleted'' \<longrightarrow> mu_actual_reclaim_bytes x = 0)" unfolding conf by auto
    qed
  qed
qed

section \<open>The loop\<close>

lemma op_bindE:
  assumes "op_bind m f w = (res, w')"
  obtains e where "m w = (Inl e, w')" "res = Inl e"
    | x v where "m w = (Inr x, v)" "f x v = (res, w')"
  using assms by (auto simp: op_bind_def split: prod.splits sum.splits)

lemma publish_event_calls: "publish_event mg d w = (res, w') \<Longrightarrow> cw_calls w' = cw_calls w"
  by (auto simp: publish_event_def split: option.splits)

text \<open>What the mutations of a loop say about its calls, and when it stays completed.\<close>

definition loop_account ::
    "cache_provider \<Rightarrow> cache_inventory \<Rightarrow> cache_call list \<Rightarrow> eviction_candidate list \<Rightarrow> string \<Rightarrow> cache_call list \<Rightarrow>
     cleanup_mutation list \<Rightarrow> string \<Rightarrow> bool" where
  "loop_account pv i h cs state ts new st \<longleftrightarrow>
     deleted_pairs new = confirmed_deletions pv i h ts \<and> (\<forall>m \<in> set new. mu_outcome m \<noteq> ''deleted'' \<longrightarrow> mu_actual_reclaim_bytes m = 0) \<and>
     length (deleted_pairs new) \<le> length cs \<and>
     (st = ''completed'' \<longleftrightarrow> state = ''completed'' \<and> deleted_pairs new = map (\<lambda>c. (vc_cache_key c, vc_expected_reclaim_bytes c)) cs)"

lemma deleted_pairs_Cons: "deleted_pairs (m # ms) = deleted_pairs [m] @ deleted_pairs ms"
  by (simp add: deleted_pairs_def)

lemma deleted_pairs_single: "length (deleted_pairs [m]) \<le> 1"
  by (simp add: deleted_pairs_def)

lemma loop_account_step:
  assumes rest: "loop_account pv i (h @ ts) cs (if partial then ''partial'' else state) us new st"
    and m: "deleted_pairs [m] = confirmed_deletions pv i h ts" "\<not> partial \<longleftrightarrow> deleted_pairs [m] = [(vc_cache_key c, vc_expected_reclaim_bytes c)]"
      "mu_outcome m \<noteq> ''deleted'' \<longrightarrow> mu_actual_reclaim_bytes m = 0"
  shows "loop_account pv i h (c # cs) state (ts @ us) (m # new) st"
proof -
  let ?all = "map (\<lambda>c. (vc_cache_key c, vc_expected_reclaim_bytes c)) cs"
  have len: "length (deleted_pairs new) \<le> length cs" using rest unfolding loop_account_def by blast
  have "deleted_pairs [m] @ deleted_pairs new = (vc_cache_key c, vc_expected_reclaim_bytes c) # ?all \<longleftrightarrow>
      deleted_pairs [m] = [(vc_cache_key c, vc_expected_reclaim_bytes c)] \<and> deleted_pairs new = ?all"
  proof (cases "deleted_pairs [m]")
    case Nil
    have "length (deleted_pairs new) \<noteq> length ((vc_cache_key c, vc_expected_reclaim_bytes c) # ?all)" using len by simp
    then have "deleted_pairs new \<noteq> (vc_cache_key c, vc_expected_reclaim_bytes c) # ?all" by (metis (no_types))
    with Nil show ?thesis by simp
  next
    case (Cons p ps)
    with deleted_pairs_single [of m] have "ps = []" by simp
    with Cons show ?thesis by auto
  qed
  with rest m len deleted_pairs_single [of m] show ?thesis
    unfolding loop_account_def confirmed_append deleted_pairs_Cons [of m new] by (auto split: if_splits)
qed

lemma cleanup_loop_trace:
  assumes "cleanup_loop mg pv plan i now token cs ms state w = (res, w')"
  shows "\<exists>ts. cw_calls w' = cw_calls w @ ts \<and> supervised pv plan i now (cw_calls w) ts \<and>
     subseq (deleted_keys ts) (map vc_cache_key cs) \<and>
     (\<forall>ms' st. res = Inr (ms', st) \<longrightarrow> (\<exists>new. ms' = ms @ new \<and> loop_account pv i (cw_calls w) cs state ts new st))"
  using assms
proof (induction cs arbitrary: ms state w)
  case Nil
  then show ?case by (auto simp: loop_account_def deleted_pairs_def)
next
  case (Cons c cs)
  have quiet: ?case if "cw_calls w' = cw_calls w" "res = Inl x" for x
    using that by (intro exI [of _ "[]"]) simp
  show ?case
  proof (cases "lookup_last ca_cache_key (ci_entries i) (vc_cache_key c)")
    case None
    with Cons.prems have "cw_calls w' = cw_calls w" "res = Inl (KeyError (vc_cache_key c))" by auto
    with quiet show ?thesis by blast
  next
    case (Some e)
    show ?thesis
    proof (cases "vc_expected_reclaim_bytes c \<noteq> ca_reclaimable_bytes e")
      case True
      with Cons.prems Some have "cw_calls w' = cw_calls w"
        "res = Inl (ValueError ''cleanup candidate expectation diverges from inventory'')" by auto
      with quiet show ?thesis by blast
    next
      case False
      let ?w = "w\<lparr>cw_polls := cw_polls w + 1\<rparr>"
      show ?thesis
      proof (cases "token (cw_polls w)")
        case stop: True
        with Cons.prems Some False have "op_bind (op_lift (new_mutation e c 0 ''skipped'' ''cancelled'' ''cleanup cancelled before mutation''))
            (\<lambda>m. op_bind (publish_accounted mg plan (ms @ [m])) (\<lambda>_. op_return (ms @ [m], ''cancelled''))) ?w = (res, w')"
          by (simp add: op_bind_run [of "poll_cancelled token"] poll_cancelled_def)
        then show ?thesis
        proof (cases rule: op_bindE)
          case (1 x)
          then have "cw_calls w' = cw_calls w" by auto
          with 1(2) quiet show ?thesis by blast
        next
          case (2 m v)
          then have m: "new_mutation e c 0 ''skipped'' ''cancelled'' ''cleanup cancelled before mutation'' = Inr m" "v = ?w" by auto
          from 2(2) have calls: "cw_calls w' = cw_calls w"
            unfolding m(2) by (auto simp: publish_accounted_def op_bind_def op_return_def dest: publish_event_calls split: prod.splits sum.splits)
          have res: "ms' = ms @ [m] \<and> st = ''cancelled''" if "res = Inr (ms', st)" for ms' st using 2(2) that by auto
          have "loop_account pv i (cw_calls w) (c # cs) state [] [m] ''cancelled''"
            using new_mutation_Inr [OF m(1)] by (simp add: loop_account_def deleted_pairs_def)
          with calls res show ?thesis by (intro exI [of _ "[]"]) auto
        qed
      next
        case go: False
        with Cons.prems Some False have "op_bind (clean_candidate pv plan i now c e) (\<lambda>(m, partial).
             op_bind (publish_accounted mg plan (ms @ [m])) (\<lambda>_.
             cleanup_loop mg pv plan i now token cs (ms @ [m]) (if partial then ''partial'' else state))) ?w = (res, w')"
          by (simp add: op_bind_run [of "poll_cancelled token"] poll_cancelled_def)
        then show ?thesis
        proof (cases rule: op_bindE)
          case (1 x)
          obtain ts where ts: "cw_calls w' = cw_calls w @ ts" "candidate_trace pv plan i now (cw_calls w) (vc_cache_key c) ts"
            using clean_candidate_trace [OF Some 1(1)] by (metis cache_world.select_convs(4) cache_world.surjective cache_world.update_convs(2))
          have "subseq (deleted_keys ts) (map vc_cache_key (c # cs))"
            using candidate_trace_supervised(2) [OF ts(2)] by (metis list.simps(9) append_Cons append_Nil list_emb_append2 subseq_order.trans subseq_rev_drop_many)
          with ts candidate_trace_supervised(1) [OF ts(2)] 1(2) show ?thesis by blast
        next
          case (2 x v)
          obtain m partial where x: "x = (m, partial)" by (cases x)
          obtain ts where ts: "cw_calls v = cw_calls w @ ts" "candidate_trace pv plan i now (cw_calls w) (vc_cache_key c) ts"
            and acc: "deleted_pairs [m] = confirmed_deletions pv i (cw_calls w) ts"
              "\<not> partial \<longleftrightarrow> deleted_pairs [m] = [(vc_cache_key c, vc_expected_reclaim_bytes c)]"
              "mu_outcome m \<noteq> ''deleted'' \<longrightarrow> mu_actual_reclaim_bytes m = 0"
            by (rule clean_candidate_trace [OF Some 2(1)]) (simp add: x)
          note sup = candidate_trace_supervised [OF ts(2)]
          have one: "subseq (deleted_keys ts @ ks) (vc_cache_key c # map vc_cache_key cs)" if "subseq ks (map vc_cache_key cs)" for ks
            using list_emb_append_mono [OF sup(2) that] by simp
          from 2(2) have "op_bind (publish_accounted mg plan (ms @ [m])) (\<lambda>_.
             cleanup_loop mg pv plan i now token cs (ms @ [m]) (if partial then ''partial'' else state)) v = (res, w')"
            by (simp add: x)
          then show ?thesis
          proof (cases rule: op_bindE)
            case (1 y)
            then have "cw_calls w' = cw_calls w @ ts" using ts(1) publish_event_calls by (metis publish_accounted_def)
            with 1(2) sup(1) one [of "[]"] show ?thesis by auto
          next
            case (2 u v')
            then have v': "cw_calls v' = cw_calls w @ ts" using ts(1) publish_event_calls by (metis publish_accounted_def)
            from Cons.IH [OF 2(2)] obtain us where us: "cw_calls w' = cw_calls v' @ us" "supervised pv plan i now (cw_calls v') us"
              "subseq (deleted_keys us) (map vc_cache_key cs)"
              "\<And>ms' st. res = Inr (ms', st) \<Longrightarrow> \<exists>new. ms' = (ms @ [m]) @ new \<and>
                 loop_account pv i (cw_calls v') cs (if partial then ''partial'' else state) us new st" by blast
            have "\<exists>new. ms' = ms @ new \<and> loop_account pv i (cw_calls w) (c # cs) state (ts @ us) new st"
              if "res = Inr (ms', st)" for ms' st
              using us(4) [OF that] loop_account_step [OF _ acc] unfolding v' by (metis append.assoc append_Cons append_Nil)
            with us v' supervised_append [OF sup(1)] one [OF us(3)] show ?thesis
              by (intro exI [of _ "ts @ us"]) (simp add: deleted_keys_append)
          qed
        qed
      qed
    qed
  qed
qed

section \<open>Deletions and accounts\<close>

lemma subseq_distinct: "subseq xs ys \<Longrightarrow> distinct ys \<Longrightarrow> distinct xs"
  unfolding subseq_conv_nths by (auto intro: distinct_nthsI)

lemma actual_of_pairs:
  "\<forall>m \<in> set ms. mu_outcome m \<noteq> ''deleted'' \<longrightarrow> mu_actual_reclaim_bytes m = 0 \<Longrightarrow> actual_bytes ms = sum_list (map snd (deleted_pairs ms))"
  by (induction ms) (auto simp: actual_bytes_def deleted_pairs_def)

text \<open>The outcomes of \<open>execute_cleanup\<close>: it stops before any provider call, or runs the loop.\<close>

lemma execute_cleanup_cases:
  assumes "execute_cleanup mg plan i pv token w = (res, w')"
  obtains (stopped) "cw_calls w' = cw_calls w" "\<And>r. res = Inr r \<Longrightarrow> cp_outcome plan = ''refused'' \<and> cu_state r = ''refused'' \<and> cu_mutations r = [] \<and> cu_actual_reclaim_bytes r = 0"
    | (ran) start now v where "cw_calls v = cw_calls w" "cg_clock mg (cw_ticks w + 1) = Aware now" "cp_outcome plan \<noteq> ''refused''"
      "run_cleanup mg plan i pv token start now v = (res, w')"
proof -
  have now_calls: "cw_calls v = cw_calls u" if "cache_now mg u = (x, v)" for u v x
    using that by (auto simp: cache_now_def split: timestamp.splits)
  have stamp_calls: "cw_calls v = cw_calls u" if "stamp_now mg u = (x, v)" for u v x
    using that now_calls by (auto simp: stamp_now_def elim!: op_bindE)
  from assms show thesis unfolding execute_cleanup_def
  proof (cases rule: op_bindE)
    case (1 e)
    then show ?thesis using stopped by simp
  next
    case (2 u v0)
    then have v0: "v0 = w" by simp
    show ?thesis
    proof (cases "cp_inventory_digest plan \<noteq> ci_inventory_digest i")
      case True
      with 2(2) v0 stopped show ?thesis by auto
    next
      case False
      with 2(2) v0 have "op_bind (stamp_now mg) (\<lambda>start. op_bind (cache_now mg) (\<lambda>now. op_bind (op_lift (cleanup_fresh plan i now)) (\<lambda>_.
         if cp_outcome plan = ''refused''
         then op_bind (stamp_now mg) (\<lambda>completed. op_lift (cleanup_report_of plan ''refused'' start completed []))
         else run_cleanup mg plan i pv token start now))) w = (res, w')" by simp
      then show ?thesis
      proof (cases rule: op_bindE)
        case (1 e)
        then show ?thesis using stopped stamp_calls by blast
      next
        case (2 start v1)
        then have v1: "cw_calls v1 = cw_calls w" "cw_ticks v1 = cw_ticks w + 1" by (auto simp: stamp_now_Inr)
        from 2(2) show ?thesis
        proof (cases rule: op_bindE)
          case (1 e)
          then show ?thesis using stopped now_calls v1(1) by (metis Inr_Inl_False)
        next
          case (2 now v2)
          then have v2: "cw_calls v2 = cw_calls w" "cg_clock mg (cw_ticks w + 1) = Aware now" using v1 by (auto simp: cache_now_Inr)
          from 2(2) show ?thesis
          proof (cases rule: op_bindE)
            case (1 e)
            then show ?thesis using stopped v2(1) by auto
          next
            case (2 u v3)
            then have v3: "v3 = v2" by simp
            show ?thesis
            proof (cases "cp_outcome plan = ''refused''")
              case refused: True
              with 2(2) v3 have "op_bind (stamp_now mg) (\<lambda>completed. op_lift (cleanup_report_of plan ''refused'' start completed [])) v2 = (res, w')"
                by simp
              then show ?thesis
              proof (cases rule: op_bindE)
                case (1 e)
                then show ?thesis using stopped stamp_calls v2(1) by (metis Inr_Inl_False)
              next
                case (2 completed v4)
                then have "cw_calls w' = cw_calls w" "res = cleanup_report_of plan ''refused'' start completed []"
                  using stamp_calls [OF 2(1)] v2(1) by auto
                with stopped refused show ?thesis by (auto simp: cleanup_report_of_def actual_bytes_def)
              qed
            next
              case False
              with ran [OF v2 False] 2(2) v3 show ?thesis by auto
            qed
          qed
        qed
      qed
    qed
  qed
qed

lemma stamp_now_calls: "stamp_now mg u = (x, v) \<Longrightarrow> cw_calls v = cw_calls u"
  by (auto simp: stamp_now_def cache_now_def op_bind_def op_return_def split: timestamp.splits prod.splits sum.splits)

lemma run_cleanup_trace:
  assumes "run_cleanup mg plan i pv token start now w = (res, w')"
  shows "\<exists>ts. cw_calls w' = cw_calls w @ ts \<and> supervised pv plan i now (cw_calls w) ts \<and>
     subseq (deleted_keys ts) (map vc_cache_key (cp_selected plan)) \<and>
     (\<forall>r. res = Inr r \<longrightarrow> cleanup_report_post_init r = None \<and> cu_plan r = plan \<and> (\<exists>st.
        loop_account pv i (cw_calls w) (cp_selected plan) ''completed'' ts (cu_mutations r) st \<and>
        cu_actual_reclaim_bytes r = actual_bytes (cu_mutations r) \<and>
        cu_state r = (if length (cu_mutations r) < length (cp_selected plan) \<and> st \<noteq> ''cancelled'' then ''partial'' else st)))"
proof -
  let ?goal = "\<lambda>ts. cw_calls w' = cw_calls w @ ts \<and> supervised pv plan i now (cw_calls w) ts \<and>
     subseq (deleted_keys ts) (map vc_cache_key (cp_selected plan))"
  have quiet: ?thesis if "cw_calls w' = cw_calls w" "res = Inl x" for x
    using that by (intro exI [of _ "[]"]) simp
  from assms show ?thesis unfolding run_cleanup_def
  proof (cases rule: op_bindE)
    case (1 e)
    with quiet show ?thesis by (blast dest: publish_event_calls)
  next
    case (2 u v)
    then have v: "cw_calls v = cw_calls w" by (blast dest: publish_event_calls)
    show ?thesis
    proof (cases "\<exists>c \<in> set (cp_selected plan). vc_cache_key c \<notin> set (map ca_cache_key (ci_entries i))")
      case True
      with 2(2) have "cw_calls w' = cw_calls w" "res = Inl (ValueError ''cleanup plan selects an entry absent from inventory'')" using v by auto
      with quiet show ?thesis by blast
    next
      case False
      with 2(2) have "op_bind (cleanup_loop mg pv plan i now token (cp_selected plan) [] ''completed'') (\<lambda>(ms, state).
         let state' = (if length ms < length (cp_selected plan) \<and> state \<noteq> ''cancelled'' then ''partial'' else state) in
         if actual_bytes ms > SAFE_INTEGER_MAX
         then op_lift (Inl (OverflowError ''actual cleanup reconciliation exceeds the safe-integer domain''))
         else op_bind (stamp_now mg) (\<lambda>completed.
           op_bind (op_lift (cleanup_report_of plan state' start completed ms)) (\<lambda>report.
           op_bind (publish_event mg (cleanup_event plan state' (int (length ms)) (''cache cleanup '' @ state')
             [(''actual_reclaim_bytes'', JInt (actual_bytes ms)), (''outcome'', JStr state')] True)) (\<lambda>_.
           op_return report)))) v = (res, w')" by simp
      then show ?thesis
      proof (cases rule: op_bindE)
        case (1 e)
        from cleanup_loop_trace [OF 1(1)] 1(2) v show ?thesis by auto
      next
        case (2 x v')
        obtain ms st where x: "x = (ms, st)" by (cases x)
        from cleanup_loop_trace [OF 2(1) [unfolded x]] v obtain ts where
          ts: "cw_calls v' = cw_calls w @ ts" "supervised pv plan i now (cw_calls w) ts"
            "subseq (deleted_keys ts) (map vc_cache_key (cp_selected plan))"
            "loop_account pv i (cw_calls w) (cp_selected plan) ''completed'' ts ms st" by auto
        let ?st = "if length ms < length (cp_selected plan) \<and> st \<noteq> ''cancelled'' then ''partial'' else st"
        show ?thesis
        proof (cases "actual_bytes ms > SAFE_INTEGER_MAX")
          case True
          with 2(2) x have "res = Inl (OverflowError ''actual cleanup reconciliation exceeds the safe-integer domain'')" "w' = v'"
            by (simp_all add: Let_def)
          with ts show ?thesis by auto
        next
          case False
          with 2(2) x have tail: "op_bind (stamp_now mg) (\<lambda>completed.
             op_bind (op_lift (cleanup_report_of plan ?st start completed ms)) (\<lambda>report.
             op_bind (publish_event mg (cleanup_event plan ?st (int (length ms)) (''cache cleanup '' @ ?st)
               [(''actual_reclaim_bytes'', JInt (actual_bytes ms)), (''outcome'', JStr ?st)] True)) (\<lambda>_.
             op_return report))) v' = (res, w')" by (simp add: Let_def)
          then have "cw_calls w' = cw_calls v'"
            by (auto elim!: op_bindE dest!: stamp_now_calls publish_event_calls)
          moreover have "cleanup_report_post_init r = None \<and> cu_plan r = plan \<and> cu_mutations r = ms \<and>
              cu_actual_reclaim_bytes r = actual_bytes ms \<and> cu_state r = ?st" if "res = Inr r" for r
            using tail that by (auto simp: cleanup_report_of_def)
          ultimately show ?thesis using ts by (intro exI [of _ ts]) auto
        qed
      qed
    qed
  qed
qed

text \<open>
  C26. Whatever happens, a clean-up deletes nothing it has not just verified: in the calls of
  \<open>execute_cleanup\<close>, also when it raises, every deletion directly follows an inspection of the
  same entry that confirmed digest, sizes, accounting and freshness, carries the plan's
  identifier, and the entry is unprotected; the deleted entries are selected ones, in plan
  order, each at most once.
\<close>

theorem cleanup_deletes_verified:
  assumes run: "execute_cleanup mg plan i pv token w = (res, w')" and plan: "cleanup_plan_post_init plan = None"
  shows "\<exists>ts now. cw_calls w' = cw_calls w @ ts \<and> (ts \<noteq> [] \<longrightarrow> cg_clock mg (cw_ticks w + 1) = Aware now) \<and>
     supervised pv plan i now (cw_calls w) ts \<and> subseq (deleted_keys ts) (map vc_cache_key (cp_selected plan)) \<and>
     distinct (deleted_keys ts)"
  using run
proof (cases rule: execute_cleanup_cases)
  case stopped
  then show ?thesis by (intro exI [of _ "[]"]) simp
next
  case (ran start now v)
  have "distinct (map vc_cache_key (cp_selected plan))" using plan by (simp add: cleanup_plan_post_init_def validates)
  with run_cleanup_trace [OF ran(4)] ran(1,2) show ?thesis using subseq_distinct by (metis (no_types, lifting))
qed

text \<open>
  C27. The report is an exact account of the provider calls: its deleted mutations are the
  deletions the provider confirmed, with the bytes it reported, in order; the reclaimed total is
  their sum; and the clean-up is completed exactly when every selected entry was deleted and
  freed what the plan expected. A refused plan makes no call.
\<close>

theorem cleanup_report_accounts:
  assumes run: "execute_cleanup mg plan i pv token w = (Inr r, w')"
  shows "\<exists>ts. cw_calls w' = cw_calls w @ ts \<and> deleted_pairs (cu_mutations r) = confirmed_deletions pv i (cw_calls w) ts \<and>
     cu_actual_reclaim_bytes r = sum_list (map snd (confirmed_deletions pv i (cw_calls w) ts)) \<and>
     (cu_state r = ''completed'' \<longleftrightarrow> cp_outcome plan \<noteq> ''refused'' \<and> confirmed_deletions pv i (cw_calls w) ts =
        map (\<lambda>c. (vc_cache_key c, vc_expected_reclaim_bytes c)) (cp_selected plan)) \<and>
     (cp_outcome plan = ''refused'' \<longrightarrow> cu_state r = ''refused'' \<and> ts = [])"
proof -
  have valid: "cu_actual_reclaim_bytes r = actual_bytes (cu_mutations r)" if "cleanup_report_post_init r = None"
    using that by (simp add: cleanup_report_post_init_def actual_bytes_def)
  from run show ?thesis
  proof (cases rule: execute_cleanup_cases)
    case stopped
    then have r: "cp_outcome plan = ''refused''" "cu_state r = ''refused''" "cu_mutations r = []" "cu_actual_reclaim_bytes r = 0" by auto
    with stopped(1) show ?thesis by (intro exI [of _ "[]"]) (simp add: deleted_pairs_def)
  next
    case (ran start now v)
    from run_cleanup_trace [OF ran(4)] ran(1) obtain ts st where
      ts: "cw_calls w' = cw_calls w @ ts" "loop_account pv i (cw_calls w) (cp_selected plan) ''completed'' ts (cu_mutations r) st"
        "cu_actual_reclaim_bytes r = actual_bytes (cu_mutations r)"
        "cu_state r = (if length (cu_mutations r) < length (cp_selected plan) \<and> st \<noteq> ''cancelled'' then ''partial'' else st)" by auto
    let ?all = "map (\<lambda>c. (vc_cache_key c, vc_expected_reclaim_bytes c)) (cp_selected plan)"
    have acc: "deleted_pairs (cu_mutations r) = confirmed_deletions pv i (cw_calls w) ts"
      "\<forall>m \<in> set (cu_mutations r). mu_outcome m \<noteq> ''deleted'' \<longrightarrow> mu_actual_reclaim_bytes m = 0"
      "st = ''completed'' \<longleftrightarrow> deleted_pairs (cu_mutations r) = ?all" using ts(2) unfolding loop_account_def by blast+
    have "length (deleted_pairs (cu_mutations r)) \<le> length (cu_mutations r)" by (simp add: deleted_pairs_def)
    then have "deleted_pairs (cu_mutations r) = ?all \<Longrightarrow> \<not> length (cu_mutations r) < length (cp_selected plan)"
      by (metis length_map not_less)
    with ts(4) acc(3) have "cu_state r = ''completed'' \<longleftrightarrow> deleted_pairs (cu_mutations r) = ?all" by auto
    with ts(1,3) acc(1) actual_of_pairs [OF acc(2)] ran(3) show ?thesis by auto
  qed
qed

end
