(* ===== verification/Cache_Cleanup_Answers.thy ===== *)
theory Cache_Cleanup_Answers
  imports Cache_Cleanup_Properties
begin

text \<open>
  \<open>execute_cleanup\<close> answers: a plan of this inventory is executed to a report whatever the
  provider does, if its clock does not run backwards. And what a running clock does to it.
\<close>

section \<open>A provider whose observations are later than the start\<close>

lemma supervised_deletes:
  "supervised pv plan i now h ts \<Longrightarrow> k \<in> set (deleted_keys ts) \<Longrightarrow> \<exists>h'. may_delete pv plan i now h' k"
  by (induction pv plan i now h ts rule: supervised.induct) auto

lemma no_deletes_confirmed: "deleted_keys ts = [] \<Longrightarrow> confirmed_deletions pv i h ts = []"
  by (induction pv i h ts rule: confirmed_deletions.induct) auto

text \<open>
  C28. The freshness guard of the loop compares every inspection with the time at which the
  execution started: when each observation is stamped later than that, as a provider with a
  running clock stamps it, the clean-up deletes nothing, reclaims nothing and is never
  completed, although the plan is ready and the observations are current.
\<close>

theorem later_observations_block_cleanup:
  assumes run: "execute_cleanup mg plan i pv token w = (res, w')" and plan: "cleanup_plan_post_init plan = None"
    and start: "cg_clock mg (cw_ticks w + 1) = Aware now"
    and later: "\<And>h e r. cv_inspect pv h e = Inr r \<Longrightarrow> now < instant (cy_observed_at r)"
  shows "\<exists>ts. cw_calls w' = cw_calls w @ ts \<and> deleted_keys ts = [] \<and>
     (\<forall>r. res = Inr r \<longrightarrow> cu_actual_reclaim_bytes r = 0 \<and> cu_state r \<noteq> ''completed'')"
  using run
proof (cases rule: execute_cleanup_cases)
  case stopped
  then show ?thesis by (intro exI [of _ "[]"]) auto
next
  case (ran s now' v)
  with start have now': "now' = now" by simp
  from run_cleanup_trace [OF ran(4)] ran(1) obtain ts where ts: "cw_calls w' = cw_calls w @ ts"
      "supervised pv plan i now (cw_calls w) ts"
      "\<And>r. res = Inr r \<Longrightarrow> \<exists>st. loop_account pv i (cw_calls w) (cp_selected plan) ''completed'' ts (cu_mutations r) st \<and>
        cu_actual_reclaim_bytes r = actual_bytes (cu_mutations r) \<and>
        cu_state r = (if length (cu_mutations r) < length (cp_selected plan) \<and> st \<noteq> ''cancelled'' then ''partial'' else st)"
    unfolding now' by auto
  have "\<not> may_delete pv plan i now h k" for h k
    by (auto simp: may_delete_def confirms_def split: option.splits sum.splits dest: later)
  with supervised_deletes [OF ts(2)] have none: "deleted_keys ts = []" by (metis list.set_intros(1) neq_Nil_conv)
  have "cp_selected plan \<noteq> []"
    using plan ran(3) by (auto simp: cleanup_plan_post_init_def validates)
  then have "cu_actual_reclaim_bytes r = 0 \<and> cu_state r \<noteq> ''completed''" if r: "res = Inr r" for r
  proof -
    from ts(3) [OF r] obtain st where st: "loop_account pv i (cw_calls w) (cp_selected plan) ''completed'' ts (cu_mutations r) st"
      "cu_actual_reclaim_bytes r = actual_bytes (cu_mutations r)"
      "cu_state r = (if length (cu_mutations r) < length (cp_selected plan) \<and> st \<noteq> ''cancelled'' then ''partial'' else st)" by blast
    have acc: "deleted_pairs (cu_mutations r) = []" "\<forall>m \<in> set (cu_mutations r). mu_outcome m \<noteq> ''deleted'' \<longrightarrow> mu_actual_reclaim_bytes m = 0"
      "st \<noteq> ''completed''"
      using st(1) no_deletes_confirmed [OF none] \<open>cp_selected plan \<noteq> []\<close> unfolding loop_account_def by auto
    with st actual_of_pairs [OF acc(2)] show ?thesis by auto
  qed
  with ts(1) none show ?thesis by blast
qed

section \<open>Execution answers\<close>

text \<open>A plan whose candidates are entries of the inventory with the expected bytes.\<close>

definition plan_of_inventory :: "cleanup_plan \<Rightarrow> cache_inventory \<Rightarrow> bool" where
  "plan_of_inventory plan i \<longleftrightarrow> cleanup_plan_post_init plan = None \<and> cp_inventory_digest plan = ci_inventory_digest i \<and>
     (\<forall>e \<in> set (ci_entries i). cache_entry_post_init e = None) \<and>
     (\<forall>c \<in> set (cp_selected plan). case lookup_last ca_cache_key (ci_entries i) (vc_cache_key c) of
        None \<Rightarrow> False | Some e \<Rightarrow> vc_expected_reclaim_bytes c = ca_reclaimable_bytes e)"

lemma plan_of_inventoryD:
  assumes "plan_of_inventory plan i" and "c \<in> set (cp_selected plan)"
  shows "\<exists>e. lookup_last ca_cache_key (ci_entries i) (vc_cache_key c) = Some e \<and> cache_entry_post_init e = None \<and>
     vc_expected_reclaim_bytes c = ca_reclaimable_bytes e"
proof -
  have all: "\<forall>e \<in> set (ci_entries i). cache_entry_post_init e = None" using assms(1) by (simp add: plan_of_inventory_def)
  have "case lookup_last ca_cache_key (ci_entries i) (vc_cache_key c) of
        None \<Rightarrow> False | Some e \<Rightarrow> vc_expected_reclaim_bytes c = ca_reclaimable_bytes e"
    using assms unfolding plan_of_inventory_def by blast
  then obtain e where e: "lookup_last ca_cache_key (ci_entries i) (vc_cache_key c) = Some e"
    "vc_expected_reclaim_bytes c = ca_reclaimable_bytes e" by (auto split: option.splits)
  with all lookup_last_SomeD [OF e(1)] show ?thesis by blast
qed

definition deletions_valid :: "cache_provider \<Rightarrow> bool" where
  "deletions_valid pv \<longleftrightarrow> (\<forall>h e x d. cv_delete_verified pv h e x = Inr d \<longrightarrow> deletion_result_post_init d = None)"

definition clock_forward :: "cache_manager \<Rightarrow> bool" where
  "clock_forward mg \<longleftrightarrow> cache_clock_ok mg \<and> (\<forall>m n. m \<le> n \<longrightarrow> instant (cg_clock mg m) \<le> instant (cg_clock mg n))"

lemma mutation_tokens:
  "is_token ''cancelled''" "is_token ''protection-changed''" "is_token ''provider-inspection-error''"
  "is_token ''reconciliation-changed''" "is_token ''reclaim-diverged''" "is_token ''provider-delete-error''"
  by (simp_all add: is_lower_alnum_def is_lower_def is_digit_def)

lemma new_mutation_returns:
  assumes "cache_entry_post_init e = None" and "vc_expected_reclaim_bytes c = ca_reclaimable_bytes e"
    and "safe_integer actual" "outcome \<in> {''deleted'', ''skipped'', ''failed''}" "is_token code" "detail \<noteq> []"
      "outcome \<noteq> ''deleted'' \<longrightarrow> actual = 0"
  shows "\<exists>m. new_mutation e c actual outcome code detail = Inr m"
  using assms cache_entry_valid(1,2) [OF assms(1)]
  by (auto simp: new_mutation_def cleanup_mutation_post_init_def validates)

lemma deletion_of_valid: "deletions_valid pv \<Longrightarrow> deletion_result_post_init (deletion_of (cv_delete_verified pv h e x)) = None"
  using mutation_tokens(6)
  by (auto simp: deletion_of_def deletions_valid_def deletion_result_post_init_def safe_integer_def SAFE_INTEGER_MAX_def
      simp del: is_token.simps split: sum.splits)

lemma deletion_mutation_returns:
  assumes e: "cache_entry_post_init e = None" "vc_expected_reclaim_bytes c = ca_reclaimable_bytes e"
    and d: "deletion_result_post_init d = None"
  shows "\<exists>m. deletion_mutation e c d = Inr m"
proof -
  have f: "safe_integer (dr_actual_reclaim_bytes d)" "is_token (dr_code d)" "dr_detail d \<noteq> []"
    "\<not> dr_succeeded d \<longrightarrow> dr_actual_reclaim_bytes d = 0" using d by (auto simp: deletion_result_post_init_def)
  show ?thesis unfolding deletion_mutation_def Let_def
    by (rule new_mutation_returns [OF e f(1)])
      (use f mutation_tokens(5) in \<open>auto simp del: is_token.simps\<close>)
qed

lemma clean_candidate_returns:
  assumes e: "cache_entry_post_init e = None" "vc_expected_reclaim_bytes c = ca_reclaimable_bytes e" and d: "deletions_valid pv"
  shows "\<exists>m partial w'. clean_candidate pv plan i now c e w = (Inr (m, partial), w') \<and> cw_ticks w' = cw_ticks w"
proof -
  have fails: "\<exists>m. new_mutation e c 0 ''failed'' code detail = Inr m" if "is_token code" "detail \<noteq> []" for code detail
    by (rule new_mutation_returns [OF e])
      (use that in \<open>auto simp: safe_integer_def SAFE_INTEGER_MAX_def simp del: is_token.simps\<close>)
  obtain m1 m2 m3 where m: "new_mutation e c 0 ''failed'' ''protection-changed'' ''entry became protected'' = Inr m1"
    "new_mutation e c 0 ''failed'' ''provider-inspection-error'' ''cache provider inspection raised'' = Inr m2"
    "new_mutation e c 0 ''failed'' ''reconciliation-changed''
       ''provider reality changed after cleanup planning; no deletion attempted'' = Inr m3"
    using fails [OF mutation_tokens(2)] fails [OF mutation_tokens(3)] fails [OF mutation_tokens(4)] by blast
  let ?w1 = "w\<lparr>cw_calls := cw_calls w @ [Inspect (ca_cache_key e)]\<rparr>"
  let ?d = "deletion_of (cv_delete_verified pv (cw_calls ?w1) e (cp_cleanup_id plan))"
  obtain m4 where m4: "deletion_mutation e c ?d = Inr m4" using deletion_mutation_returns [OF e deletion_of_valid [OF d]] by blast
  show ?thesis using m m4
    by (cases "cv_inspect pv (cw_calls w) e") (auto simp: clean_candidate_def call_inspect_entry_def call_delete_def op_bind_def
        op_lift_def op_return_def Let_def)
qed

text \<open>What the loop leaves: a mutation per candidate, in order, or a final cancelled skip.\<close>

definition loop_result :: "eviction_candidate list \<Rightarrow> string \<Rightarrow> cleanup_mutation list \<Rightarrow> string \<Rightarrow> bool" where
  "loop_result cs state new st \<longleftrightarrow>
     map mu_cache_key new = take (length new) (map vc_cache_key cs) \<and>
     map mu_expected_reclaim_bytes new = take (length new) (map vc_expected_reclaim_bytes cs) \<and>
     (if st = ''cancelled'' then new \<noteq> [] \<and> mu_outcome (last new) = ''skipped'' \<and> mu_code (last new) = ''cancelled''
      else length new = length cs \<and> (st = state \<or> st = ''partial''))"

lemma cleanup_loop_returns:
  assumes ok: "publisher_ok mg" "deletions_valid pv" and state: "state \<noteq> ''cancelled''"
    and cs: "\<And>c. c \<in> set cs \<Longrightarrow> \<exists>e. lookup_last ca_cache_key (ci_entries i) (vc_cache_key c) = Some e \<and>
        cache_entry_post_init e = None \<and> vc_expected_reclaim_bytes c = ca_reclaimable_bytes e"
  shows "\<exists>new st w'. cleanup_loop mg pv plan i now token cs ms state w = (Inr (ms @ new, st), w') \<and>
     loop_result cs state new st \<and> cw_ticks w' = cw_ticks w"
  using state cs
proof (induction cs arbitrary: ms state w)
  case Nil
  then show ?case by (auto simp: loop_result_def op_return_def)
next
  case (Cons c cs)
  from Cons.prems(2) [of c] obtain e where e: "lookup_last ca_cache_key (ci_entries i) (vc_cache_key c) = Some e"
    "cache_entry_post_init e = None" "vc_expected_reclaim_bytes c = ca_reclaimable_bytes e" by auto
  have key: "ca_cache_key e = vc_cache_key c" using lookup_last_SomeD [OF e(1)] by simp
  have accounted: "\<exists>v'. publish_accounted mg plan xs v = (Inr (), v') \<and> cw_ticks v' = cw_ticks v" for xs v
    using publish_event_returns [OF ok(1)] publish_event_Inr unfolding publish_accounted_def by metis
  let ?w = "w\<lparr>cw_polls := cw_polls w + 1\<rparr>"
  show ?case
  proof (cases "token (cw_polls w)")
    case True
    have "\<exists>m. new_mutation e c 0 ''skipped'' ''cancelled'' ''cleanup cancelled before mutation'' = Inr m"
      by (rule new_mutation_returns [OF e(2,3)])
        (use mutation_tokens(1) in \<open>auto simp: safe_integer_def SAFE_INTEGER_MAX_def simp del: is_token.simps\<close>)
    then obtain m where m: "new_mutation e c 0 ''skipped'' ''cancelled'' ''cleanup cancelled before mutation'' = Inr m" by blast
    obtain v where v: "publish_accounted mg plan (ms @ [m]) ?w = (Inr (), v)" "cw_ticks v = cw_ticks w" using accounted [of "ms @ [m]" ?w] by auto
    have "cleanup_loop mg pv plan i now token (c # cs) ms state w = (Inr (ms @ [m], ''cancelled''), v)"
      using e True m v by (simp add: op_bind_def poll_cancelled_def op_lift_def op_return_def)
    moreover have "loop_result (c # cs) state [m] ''cancelled''" using new_mutation_Inr [OF m] key by (simp add: loop_result_def)
    ultimately show ?thesis using v(2) by blast
  next
    case False
    obtain m partial v where m: "clean_candidate pv plan i now c e ?w = (Inr (m, partial), v)" "cw_ticks v = cw_ticks w"
      using clean_candidate_returns [OF e(2,3) ok(2), of plan i now ?w] by auto
    have mk: "mu_cache_key m = vc_cache_key c" "mu_expected_reclaim_bytes m = vc_expected_reclaim_bytes c"
      using clean_candidate_trace [OF e(1) m(1)] by metis+
    obtain v' where v': "publish_accounted mg plan (ms @ [m]) v = (Inr (), v')" "cw_ticks v' = cw_ticks w" using accounted [of "ms @ [m]" v] m(2) by auto
    let ?st = "if partial then ''partial'' else state"
    have st: "?st \<noteq> ''cancelled''" using Cons.prems(1) by simp
    from Cons.IH [OF st Cons.prems(2), of "ms @ [m]" v'] obtain new st w' where
      r: "cleanup_loop mg pv plan i now token cs (ms @ [m]) ?st v' = (Inr ((ms @ [m]) @ new, st), w')" "loop_result cs ?st new st"
        "cw_ticks w' = cw_ticks v'" by (auto simp del: append_assoc)
    have "cleanup_loop mg pv plan i now token (c # cs) ms state w = (Inr (ms @ m # new, st), w')"
      using e False m(1) v'(1) r(1) by (simp add: op_bind_def poll_cancelled_def)
    moreover have "loop_result (c # cs) state (m # new) st" using r(2) mk by (auto simp: loop_result_def split: if_splits)
    ultimately show ?thesis using r(3) v'(2) by auto
  qed
qed

lemma prefix_zip_equal:
  "map f xs = take (length xs) (map g ys) \<Longrightarrow> (x, y) \<in> set (zip xs ys) \<Longrightarrow> f x = g y"
proof (induction xs arbitrary: ys)
  case (Cons a xs)
  then show ?case by (cases ys) auto
qed simp

lemma cleanup_report_constructed:
  assumes plan: "cleanup_plan_post_init plan = None" "cp_outcome plan \<noteq> ''refused''"
    and res: "loop_result (cp_selected plan) ''completed'' ms st"
    and acc: "loop_account pv i h (cp_selected plan) ''completed'' ts ms st"
    and small: "actual_bytes ms \<le> SAFE_INTEGER_MAX" "\<And>m. m \<in> set ms \<Longrightarrow> 0 \<le> mu_actual_reclaim_bytes m"
    and times: "start = Aware a" "completed = Aware b" "a \<le> b"
  shows "cleanup_report_post_init \<lparr>cu_plan = plan,
     cu_state = (if length ms < length (cp_selected plan) \<and> st \<noteq> ''cancelled'' then ''partial'' else st),
     cu_started_at = start, cu_completed_at = completed, cu_actual_reclaim_bytes = actual_bytes ms, cu_mutations = ms\<rparr> = None"
proof -
  have p: "distinct (map vc_cache_key (cp_selected plan))" "cp_selected plan \<noteq> []"
    "cp_expected_reclaim_bytes plan = sum_list (map vc_expected_reclaim_bytes (cp_selected plan))"
    using plan by (auto simp: cleanup_plan_post_init_def validates)
  have keys: "map mu_cache_key ms = take (length ms) (map vc_cache_key (cp_selected plan))"
    "map mu_expected_reclaim_bytes ms = take (length ms) (map vc_expected_reclaim_bytes (cp_selected plan))"
    using res by (simp_all add: loop_result_def)
  have "distinct (map mu_cache_key ms)" unfolding keys(1) using p(1) by (rule distinct_take)
  moreover have "0 \<le> actual_bytes ms" unfolding actual_bytes_def using small(2) by (intro sum_list_nonneg) auto
  moreover have "\<not> (\<exists>(m, c) \<in> set (zip ms (cp_selected plan)). mu_expected_reclaim_bytes m \<noteq> vc_expected_reclaim_bytes c)"
    using prefix_zip_equal [OF keys(2)] by blast
  moreover have "cleanup_report_completion \<lparr>cu_plan = plan, cu_state = st, cu_started_at = start, cu_completed_at = completed,
      cu_actual_reclaim_bytes = actual_bytes ms, cu_mutations = ms\<rparr> = None" and st: "st \<in> {''completed'', ''partial'', ''cancelled''}"
    and all: "st \<noteq> ''cancelled'' \<longrightarrow> length ms = length (cp_selected plan)"
  proof -
    show all: "st \<noteq> ''cancelled'' \<longrightarrow> length ms = length (cp_selected plan)" and "st \<in> {''completed'', ''partial'', ''cancelled''}"
      using res by (auto simp: loop_result_def split: if_splits)
    have fin: "(\<forall>m \<in> set ms. mu_outcome m = ''deleted'') \<and> map mu_cache_key ms = map vc_cache_key (cp_selected plan) \<and>
        actual_bytes ms = cp_expected_reclaim_bytes plan" if c: "st = ''completed''"
    proof -
      have pairs: "deleted_pairs ms = map (\<lambda>c. (vc_cache_key c, vc_expected_reclaim_bytes c)) (cp_selected plan)"
        and zero: "\<forall>m \<in> set ms. mu_outcome m \<noteq> ''deleted'' \<longrightarrow> mu_actual_reclaim_bytes m = 0"
        using acc c unfolding loop_account_def by blast+
      have len: "length ms = length (cp_selected plan)" using all c by simp
      have "length (filter (\<lambda>m. mu_outcome m = ''deleted'') ms) = length ms"
        using arg_cong [OF pairs, of length] len by (simp add: deleted_pairs_def)
      then have "\<forall>m \<in> set ms. mu_outcome m = ''deleted''"
        by (intro ballI) (rule ccontr, drule (1) length_filter_less [of _ _ "\<lambda>m. mu_outcome m = ''deleted''"], simp)
      moreover have "map mu_cache_key ms = map vc_cache_key (cp_selected plan)" unfolding keys(1) len by simp
      moreover have "actual_bytes ms = cp_expected_reclaim_bytes plan"
        unfolding actual_of_pairs [OF zero] pairs p(3) by (simp add: comp_def)
      ultimately show ?thesis by blast
    qed
    show "cleanup_report_completion \<lparr>cu_plan = plan, cu_state = st, cu_started_at = start, cu_completed_at = completed,
        cu_actual_reclaim_bytes = actual_bytes ms, cu_mutations = ms\<rparr> = None"
      using fin res p(2) by (auto simp: cleanup_report_completion_def loop_result_def split: if_splits)
  qed
  moreover have eq: "(if length ms < length (cp_selected plan) \<and> st \<noteq> ''cancelled'' then ''partial'' else st) = st"
    using all by auto
  moreover have "(st \<notin> {''completed'', ''partial'', ''refused'', ''cancelled''}) = False" using st by blast
  ultimately show ?thesis using small(1) times keys(1)
    by (simp only: eq cleanup_report_post_init_def first_exc_None list.set ball_simps insert_iff cleanup_report.select_convs)
      (simp add: validates safe_integer_def actual_bytes_def)
qed

lemma stamp_mono: "a \<le> b \<Longrightarrow> a div 1000 * 1000 \<le> b div (1000 :: int) * 1000"
  by (simp add: zdiv_mono1)

text \<open>Mutations that were constructed report no negative amount.\<close>

lemma cleanup_loop_nonnegative:
  assumes "cleanup_loop mg pv plan i now token cs ms state w = (Inr (ms', st), w')" and "\<And>m. m \<in> set ms \<Longrightarrow> 0 \<le> mu_actual_reclaim_bytes m"
    and "m \<in> set ms'"
  shows "0 \<le> mu_actual_reclaim_bytes m"
  using assms
proof (induction cs arbitrary: ms state w)
  case (Cons c cs)
  have new: "0 \<le> mu_actual_reclaim_bytes m" if "new_mutation e c x y z d = Inr m" for e c x y z d m
    using that by (auto simp: new_mutation_def cleanup_mutation_post_init_def validates safe_integer_def)
  have cand: "0 \<le> mu_actual_reclaim_bytes m" if "clean_candidate pv plan i now c e u = (Inr (m, p), v)" for e u v m p
    using that new by (auto simp: clean_candidate_def deletion_mutation_def Let_def split: if_splits prod.splits sum.splits)
  from Cons.prems(1) obtain e where e: "lookup_last ca_cache_key (ci_entries i) (vc_cache_key c) = Some e"
    "vc_expected_reclaim_bytes c = ca_reclaimable_bytes e" by (auto split: option.splits if_splits)
  show ?case
  proof (cases "token (cw_polls w)")
    case True
    with Cons.prems e show ?thesis using new by (auto simp: poll_cancelled_def)
  next
    case False
    with Cons.prems(1) e obtain m1 p v v' where r: "clean_candidate pv plan i now c e (w\<lparr>cw_polls := cw_polls w + 1\<rparr>) = (Inr (m1, p), v)"
      "cleanup_loop mg pv plan i now token cs (ms @ [m1]) (if p then ''partial'' else state) v' = (Inr (ms', st), w')"
      by (auto simp: poll_cancelled_def)
    from Cons.IH [OF r(2) _ Cons.prems(3)] Cons.prems(2) cand [OF r(1)] show ?thesis by auto
  qed
qed auto

lemma stamp_now_forward:
  assumes "clock_forward mg" and "cg_clock mg n = Aware a" "n \<le> cw_ticks w"
  obtains b where "stamp_now mg w = (Inr (cache_stamp b), w\<lparr>cw_ticks := cw_ticks w + 1\<rparr>)" "a \<le> b"
proof -
  from assms(1) obtain b where b: "cg_clock mg (cw_ticks w) = Aware b" unfolding clock_forward_def cache_clock_ok_def by blast
  have "instant (cg_clock mg n) \<le> instant (cg_clock mg (cw_ticks w))" using assms(1,3) unfolding clock_forward_def by blast
  with assms(2) b that show thesis by (simp add: stamp_now_Inr)
qed

lemma run_cleanup_returns:
  assumes plan: "plan_of_inventory plan i" "cp_outcome plan \<noteq> ''refused''"
    and ok: "clock_forward mg" "publisher_ok mg" "deletions_valid pv" and start: "cg_clock mg n = Aware a" "n \<le> cw_ticks w"
  shows "(\<exists>r w'. run_cleanup mg plan i pv token (cache_stamp a) now w = (Inr r, w')) \<or>
     (\<exists>m w'. run_cleanup mg plan i pv token (cache_stamp a) now w = (Inl (OverflowError m), w'))"
proof -
  have valid: "cleanup_plan_post_init plan = None" and entries: "\<And>c. c \<in> set (cp_selected plan) \<Longrightarrow>
      \<exists>e. lookup_last ca_cache_key (ci_entries i) (vc_cache_key c) = Some e \<and> cache_entry_post_init e = None \<and>
        vc_expected_reclaim_bytes c = ca_reclaimable_bytes e"
    using plan_of_inventoryD [OF plan(1)] plan(1) by (simp_all add: plan_of_inventory_def)
  have present: "\<not> (\<exists>c \<in> set (cp_selected plan). vc_cache_key c \<notin> set (map ca_cache_key (ci_entries i)))"
    using entries lookup_last_SomeD by (metis (no_types, lifting) image_eqI list.set_map)
  let ?ev = "cleanup_event plan ''running'' 0 ''cache cleanup execution started''
       [(''expected_reclaim_bytes'', JInt (cp_expected_reclaim_bytes plan))] False"
  obtain v where v: "publish_event mg ?ev w = (Inr (), v)" "cw_ticks v = cw_ticks w"
    using publish_event_returns [OF ok(2)] publish_event_Inr by metis
  obtain ms st u where l: "cleanup_loop mg pv plan i now token (cp_selected plan) [] ''completed'' v = (Inr (ms, st), u)"
    "loop_result (cp_selected plan) ''completed'' ms st" "cw_ticks u = cw_ticks v"
    using cleanup_loop_returns [OF ok(2,3) _ entries, where cs = "cp_selected plan" and state = "''completed''" and plan = plan and now = now and token = token
        and ms = "[]" and w = v] by auto
  from cleanup_loop_trace [OF l(1)] obtain ts where acc: "loop_account pv i (cw_calls v) (cp_selected plan) ''completed'' ts ms st" by auto
  let ?st = "if length ms < length (cp_selected plan) \<and> st \<noteq> ''cancelled'' then ''partial'' else st"
  show ?thesis
  proof (cases "actual_bytes ms > SAFE_INTEGER_MAX")
    case True
    then have "run_cleanup mg plan i pv token (cache_stamp a) now w =
        (Inl (OverflowError ''actual cleanup reconciliation exceeds the safe-integer domain''), u)"
      using v(1) present l(1) by (simp add: run_cleanup_def op_bind_def op_lift_def Let_def)
    then show ?thesis by blast
  next
    case False
    obtain b where b: "stamp_now mg u = (Inr (cache_stamp b), u\<lparr>cw_ticks := cw_ticks u + 1\<rparr>)" "a \<le> b"
      by (rule stamp_now_forward [OF ok(1) start(1), of u]) (use start(2) l(3) v(2) in auto)
    let ?u = "u\<lparr>cw_ticks := cw_ticks u + 1\<rparr>"
    let ?r = "\<lparr>cu_plan = plan, cu_state = ?st, cu_started_at = cache_stamp a, cu_completed_at = cache_stamp b,
       cu_actual_reclaim_bytes = actual_bytes ms, cu_mutations = ms\<rparr>"
    have "cleanup_report_post_init ?r = None"
      by (rule cleanup_report_constructed [OF valid plan(2) l(2) acc _ _ cache_stamp_def cache_stamp_def stamp_mono [OF b(2)]])
        (use False cleanup_loop_nonnegative [OF l(1)] in auto)
    then have "cleanup_report_of plan ?st (cache_stamp a) (cache_stamp b) ms = Inr ?r"
      unfolding cleanup_report_of_def by simp
    moreover obtain w' where "publish_event mg (cleanup_event plan ?st (int (length ms)) (''cache cleanup '' @ ?st)
           [(''actual_reclaim_bytes'', JInt (actual_bytes ms)), (''outcome'', JStr ?st)] True) ?u = (Inr (), w')"
      using publish_event_returns [OF ok(2)] by blast
    ultimately have "run_cleanup mg plan i pv token (cache_stamp a) now w = (Inr ?r, w')"
      using v(1) present l(1) b(1) False by (simp add: run_cleanup_def op_bind_def op_lift_def op_return_def Let_def del: split_paired_All)
    then show ?thesis by blast
  qed
qed

text \<open>
  C29. Executing a plan of this inventory always answers: with a clock that does not run
  backwards, a fresh plan and a publisher that accepts, \<open>execute_cleanup\<close> returns a report,
  whatever the provider answers or raises and whenever the clean-up is cancelled, unless the
  reported bytes leave the safe-integer domain.
\<close>

theorem execute_cleanup_answers:
  assumes plan: "plan_of_inventory plan i" "verify_inventory mg i = Inr ()"
    and ok: "clock_forward mg" "publisher_ok mg" "deletions_valid pv"
    and fresh: "cg_clock mg (cw_ticks w + 1) = Aware now" "cleanup_fresh plan i now = Inr ()"
  shows "(\<exists>r w'. execute_cleanup mg plan i pv token w = (Inr r, w')) \<or>
     (\<exists>m w'. execute_cleanup mg plan i pv token w = (Inl (OverflowError m), w'))"
proof -
  have valid: "cp_inventory_digest plan = ci_inventory_digest i" using plan(1) by (simp add: plan_of_inventory_def)
  from ok(1) obtain a where a: "cg_clock mg (cw_ticks w) = Aware a" unfolding clock_forward_def cache_clock_ok_def by blast
  let ?w1 = "w\<lparr>cw_ticks := cw_ticks w + 1\<rparr>" and ?w2 = "w\<lparr>cw_ticks := cw_ticks w + 2\<rparr>"
  have s: "stamp_now mg w = (Inr (cache_stamp a), ?w1)" using a by (simp add: stamp_now_Inr)
  have n: "cache_now mg ?w1 = (Inr now, ?w2)" using fresh(1) by (simp add: cache_now_Inr)
  have run: "execute_cleanup mg plan i pv token w = (if cp_outcome plan = ''refused''
       then op_bind (stamp_now mg) (\<lambda>completed. op_lift (cleanup_report_of plan ''refused'' (cache_stamp a) completed []))
       else run_cleanup mg plan i pv token (cache_stamp a) now) ?w2"
    using plan(2) valid s n fresh(2) by (simp add: execute_cleanup_def op_bind_def op_lift_def)
  show ?thesis
  proof (cases "cp_outcome plan = ''refused''")
    case True
    obtain b where b: "stamp_now mg ?w2 = (Inr (cache_stamp b), ?w2\<lparr>cw_ticks := cw_ticks ?w2 + 1\<rparr>)" "a \<le> b"
      by (rule stamp_now_forward [OF ok(1) a, of ?w2]) auto
    have "returns (cleanup_report_of plan ''refused'' (cache_stamp a) (cache_stamp b) [])"
      using True stamp_mono [OF b(2)]
      by (simp add: cleanup_report_of_def cleanup_report_post_init_def cleanup_report_completion_def validates actual_bytes_def
          cache_stamp_def safe_integer_def SAFE_INTEGER_MAX_def)
    then show ?thesis using run True b(1) by (auto simp: returns_def op_bind_def op_lift_def)
  next
    case False
    with run run_cleanup_returns [OF plan(1) False ok a, of ?w2 token now] show ?thesis by simp
  qed
qed

end
