(* ===== verification/Cache_Witnesses.thy ===== *)
theory Cache_Witnesses
  imports Cache_Plan_Properties Cache_Cleanup_Answers
begin

text \<open>
  A small cache on which the cache theorems are applied: one evictable artifact and one pinned
  one, a provider that confirms what the inventory says and deletes exactly, and a clock that
  advances by a second. The digest is a toy function; the theorems hold for any.
\<close>

definition kx_entry :: "string \<Rightarrow> bool \<Rightarrow> cache_entry" where
  "kx_entry key pinned = \<lparr>ca_cache_key = key, ca_kind = ''artifact'', ca_content_id = None, ca_sha256 = replicate 64 (CHR ''a''),
     ca_relative_path = key, ca_size_bytes = 4096, ca_reclaimable_bytes = 4096, ca_accounting_basis = ''logical'',
     ca_provider_name = ''disk'', ca_retention_class = ''reacquirable'', ca_pinned = pinned, ca_active_leases = [],
     ca_future_dependencies = [], ca_dependencies = [], ca_last_used_at = Aware 0, ca_reacquisition_time_seconds = 60,
     ca_reacquisition_cost_microunits = 0, ca_reconstruction_difficulty = 1, ca_upstream_fragility = 1,
     ca_verification_status = ''verified'', ca_verified_at = Some (Aware 0), ca_observed_at = Aware 1000,
     ca_source = ''scan'', ca_staleness_seconds = 0, ca_registry_authority = False\<rparr>"

definition kx_reality :: "cache_entry \<Rightarrow> timestamp \<Rightarrow> cache_reality" where
  "kx_reality e t = \<lparr>cy_cache_key = ca_cache_key e, cy_status = ''verified'', cy_actual_sha256 = Some (ca_sha256 e),
     cy_actual_size_bytes = Some (ca_size_bytes e), cy_actual_reclaimable_bytes = Some (ca_reclaimable_bytes e),
     cy_accounting_basis = Some (ca_accounting_basis e), cy_observed_at = t, cy_source = ca_provider_name e,
     cy_diagnostic = None\<rparr>"

definition kx_inventory :: cache_inventory where
  "kx_inventory = \<lparr>ci_observed_at = Aware 1000, ci_inventory_digest = replicate 64 (CHR ''d''),
     ci_entries = [kx_entry ''old'' False, kx_entry ''kept'' True]\<rparr>"

definition kx_reconciliation :: cache_reconciliation where
  "kx_reconciliation = \<lparr>cx_inventory_digest = replicate 64 (CHR ''d''), cx_observed_at = Aware 2000,
     cx_observations = [kx_reality (kx_entry ''kept'' True) (Aware 2000), kx_reality (kx_entry ''old'' False) (Aware 2000)]\<rparr>"

definition kx_policy :: eviction_policy where
  "kx_policy = \<lparr>vp_bytes_weight = 1, vp_age_weight = 1, vp_reacquisition_time_penalty = 1, vp_reacquisition_cost_penalty = 1,
     vp_reconstruction_penalty = 1, vp_fragility_penalty = 1, vp_expensive_reconstruction_penalty = 1,
     vp_maximum_inventory_age_seconds = 3600\<rparr>"

definition kx_cleanup_id :: string where
  "kx_cleanup_id = ''opid:v1:cache-cleanup:u7:019ff82c-9517-76fb-a67d-c461e9145384''"

definition kx_manager :: cache_manager where
  "kx_manager = \<lparr>cg_clock = (\<lambda>n. Aware (1000000 * (int n + 1))), cg_new_cleanup_id = (\<lambda>n. Inr kx_cleanup_id),
     cg_canonical = (\<lambda>d. Some []), cg_sha256 = (\<lambda>b. replicate 64 (CHR ''d'')), cg_publisher = Some (\<lambda>es d. None)\<rparr>"

text \<open>The provider; the parameter is the time stamp of its observations.\<close>

definition kx_provider :: "timestamp \<Rightarrow> cache_provider" where
  "kx_provider t = \<lparr>cv_inspect = (\<lambda>h e. Inr (kx_reality e t)),
     cv_delete_verified = (\<lambda>h e x. Inr \<lparr>dr_succeeded = True, dr_actual_reclaim_bytes = 4096,
       dr_code = ''deleted'', dr_detail = ''unlinked''\<rparr>)\<rparr>"

definition kx_world :: cache_world where
  "kx_world = \<lparr>cw_ticks = 0, cw_polls = 0, cw_events = [], cw_calls = []\<rparr>"

definition kx_plan :: cleanup_plan where
  "kx_plan = \<lparr>cp_cleanup_id = kx_cleanup_id, cp_inventory_digest = replicate 64 (CHR ''d''), cp_created_at = Aware 1000000,
     cp_target_reclaim_bytes = 1000, cp_expected_reclaim_bytes = 4096, cp_outcome = ''ready'', cp_policy = kx_policy,
     cp_selected = [\<lparr>vc_cache_key = ''old'', vc_score = 1, vc_expected_reclaim_bytes = 4096, vc_rank = 1\<rparr>],
     cp_exclusions = [\<lparr>vx_cache_key = ''kept'', vx_reasons = [''pinned'']\<rparr>]\<rparr>"

section \<open>The example satisfies the hypotheses\<close>

lemma kx_valid:
  "inputs_valid kx_inventory kx_reconciliation" "eviction_policy_post_init kx_policy = None"
  "cleanup_plan_post_init kx_plan = None" "plan_of_inventory kx_plan kx_inventory"
  "plan_checks kx_manager kx_inventory kx_reconciliation 1000 = Inr ()" "verify_inventory kx_manager kx_inventory = Inr ()"
  by code_simp+

lemma kx_selection: "plan_selection 1000000 kx_policy kx_inventory kx_reconciliation 1000 =
    Inr (cp_exclusions kx_plan, cp_selected kx_plan, 4096)"
  by code_simp

lemma kx_manager_ok: "cache_clock_ok kx_manager" "publisher_ok kx_manager" "clock_forward kx_manager"
  by (auto simp: cache_clock_ok_def publisher_ok_def clock_forward_def kx_manager_def)

lemma kx_deletions: "deletions_valid (kx_provider t)"
proof -
  have "deletion_result_post_init \<lparr>dr_succeeded = True, dr_actual_reclaim_bytes = 4096, dr_code = ''deleted'', dr_detail = ''unlinked''\<rparr> = None"
    by code_simp
  then show ?thesis by (auto simp: deletions_valid_def kx_provider_def)
qed

lemma kx_planned: obtains w' where "plan_cleanup kx_manager kx_inventory kx_reconciliation 1000 kx_policy kx_world = (Inr kx_plan, w')"
proof -
  have "fst (plan_cleanup kx_manager kx_inventory kx_reconciliation 1000 kx_policy kx_world) = Inr kx_plan" by code_simp
  then show thesis using that by (cases "plan_cleanup kx_manager kx_inventory kx_reconciliation 1000 kx_policy kx_world") simp
qed

lemma kx_executed:
  obtains r w' where "execute_cleanup kx_manager kx_plan kx_inventory (kx_provider (Aware 2000000)) (\<lambda>n. False) kx_world = (Inr r, w')"
    "cu_state r = ''completed''" "cw_calls w' = [Inspect ''old'', Delete ''old'' kx_cleanup_id]"
proof -
  have "case execute_cleanup kx_manager kx_plan kx_inventory (kx_provider (Aware 2000000)) (\<lambda>n. False) kx_world of
      (Inl e, w') \<Rightarrow> False | (Inr r, w') \<Rightarrow> cu_state r = ''completed'' \<and> cw_calls w' = [Inspect ''old'', Delete ''old'' kx_cleanup_id]"
    by code_simp
  then show thesis using that
    by (cases "execute_cleanup kx_manager kx_plan kx_inventory (kx_provider (Aware 2000000)) (\<lambda>n. False) kx_world") (auto split: sum.splits)
qed

section \<open>Witnesses\<close>

theorem plan_selects_evictable_witness:
  "\<exists>e \<in> set (ci_entries kx_inventory). ca_cache_key e = ''old'' \<and> evictable 1000000 kx_policy kx_inventory kx_reconciliation e"
proof -
  obtain w' where run: "plan_cleanup kx_manager kx_inventory kx_reconciliation 1000 kx_policy kx_world = (Inr kx_plan, w')" by (rule kx_planned)
  have "hd (cp_selected kx_plan) \<in> set (cp_selected kx_plan)" "vc_cache_key (hd (cp_selected kx_plan)) = ''old''"
    "cg_clock kx_manager (cw_ticks kx_world) = Aware 1000000" by (simp_all add: kx_plan_def kx_manager_def kx_world_def)
  with plan_selects_evictable [OF run kx_valid(1)] show ?thesis by fastforce
qed

theorem plan_refines_ranking_witness:
  "cp_selected kx_plan = number_candidates 0 (shortest_prefix candidate_bytes 1000 (ranked_entries 1000000 kx_policy kx_inventory kx_reconciliation))"
proof -
  obtain w' where run: "plan_cleanup kx_manager kx_inventory kx_reconciliation 1000 kx_policy kx_world = (Inr kx_plan, w')" by (rule kx_planned)
  have "cg_clock kx_manager (cw_ticks kx_world) = Aware 1000000" by (simp add: kx_manager_def kx_world_def)
  with plan_refines_ranking [OF run kx_valid(1)] show ?thesis by (auto simp: Let_def)
qed

theorem plan_outcome_exact_witness:
  "cp_outcome kx_plan = ''ready'' \<and> \<not> evictable_bytes 1000000 kx_policy kx_inventory kx_reconciliation < 1000"
proof -
  obtain w' where run: "plan_cleanup kx_manager kx_inventory kx_reconciliation 1000 kx_policy kx_world = (Inr kx_plan, w')" by (rule kx_planned)
  have "cg_clock kx_manager (cw_ticks kx_world) = Aware 1000000" "cp_outcome kx_plan = ''ready''"
    by (simp_all add: kx_manager_def kx_world_def kx_plan_def)
  with plan_outcome_exact [OF run kx_valid(1)] show ?thesis by auto
qed

theorem plan_cleanup_answers_witness:
  "\<exists>w'. (\<exists>p. plan_cleanup kx_manager kx_inventory kx_reconciliation 1000 kx_policy kx_world = (Inr p, w')) \<or>
     (\<exists>m. plan_cleanup kx_manager kx_inventory kx_reconciliation 1000 kx_policy kx_world = (Inl (OverflowError m), w'))"
proof -
  have ok: "plan_inputs_ok kx_manager kx_inventory kx_reconciliation 1000" by code_simp
  have id: "\<exists>x. cg_new_cleanup_id kx_manager n = Inr x \<and> is_opid ''cache-cleanup'' x" for n
  proof -
    have "is_opid ''cache-cleanup'' kx_cleanup_id" by code_simp
    then show ?thesis by (simp add: kx_manager_def)
  qed
  from plan_cleanup_answers [OF ok kx_manager_ok(1,2) id, where policy = kx_policy and w = kx_world] show ?thesis by blast
qed

theorem moderate_scores_are_safe_witness:
  "safe_score (eviction_score 1000000 kx_policy (kx_entry ''old'' False)) = Inr (eviction_score 1000000 kx_policy (kx_entry ''old'' False))"
proof -
  have "cache_entry_post_init (kx_entry ''old'' False) = None" by code_simp
  from moderate_scores_are_safe [OF this kx_valid(2), of 1000000] show ?thesis by (simp add: kx_policy_def kx_entry_def)
qed

theorem cleanup_deletes_verified_witness:
  "\<exists>ts now. ts = [Inspect ''old'', Delete ''old'' kx_cleanup_id] \<and>
     supervised (kx_provider (Aware 2000000)) kx_plan kx_inventory now [] ts"
proof -
  obtain r w' where run: "execute_cleanup kx_manager kx_plan kx_inventory (kx_provider (Aware 2000000)) (\<lambda>n. False) kx_world = (Inr r, w')"
    "cw_calls w' = [Inspect ''old'', Delete ''old'' kx_cleanup_id]" by (rule kx_executed)
  have "cw_calls kx_world = []" by (simp add: kx_world_def)
  with cleanup_deletes_verified [OF run(1) kx_valid(3)] run(2) show ?thesis by auto
qed

theorem cleanup_report_accounts_witness:
  "\<exists>r w'. execute_cleanup kx_manager kx_plan kx_inventory (kx_provider (Aware 2000000)) (\<lambda>n. False) kx_world = (Inr r, w') \<and>
     cu_actual_reclaim_bytes r = sum_list (map snd (confirmed_deletions (kx_provider (Aware 2000000)) kx_inventory [] (cw_calls w')))"
proof -
  obtain r w' where run: "execute_cleanup kx_manager kx_plan kx_inventory (kx_provider (Aware 2000000)) (\<lambda>n. False) kx_world = (Inr r, w')"
    by (rule kx_executed)
  have "cw_calls kx_world = []" by (simp add: kx_world_def)
  with cleanup_report_accounts [OF run] run show ?thesis by auto
qed

theorem later_observations_block_cleanup_witness:
  "\<exists>r w'. execute_cleanup kx_manager kx_plan kx_inventory (kx_provider (Aware 2001000)) (\<lambda>n. False) kx_world = (r, w') \<and>
     deleted_keys (cw_calls w') = []"
proof -
  obtain r w' where run: "execute_cleanup kx_manager kx_plan kx_inventory (kx_provider (Aware 2001000)) (\<lambda>n. False) kx_world = (r, w')"
    by (cases "execute_cleanup kx_manager kx_plan kx_inventory (kx_provider (Aware 2001000)) (\<lambda>n. False) kx_world")
  have now: "cg_clock kx_manager (cw_ticks kx_world + 1) = Aware 2000000" by (simp add: kx_manager_def kx_world_def)
  have later: "(2000000 :: int) < instant (cy_observed_at x)" if "cv_inspect (kx_provider (Aware 2001000)) h e = Inr x" for h e x
    using that by (auto simp: kx_provider_def kx_reality_def)
  have "cw_calls kx_world = []" by (simp add: kx_world_def)
  with later_observations_block_cleanup [OF run kx_valid(3) now later] run show ?thesis by auto
qed

theorem execute_cleanup_answers_witness:
  "(\<exists>r w'. execute_cleanup kx_manager kx_plan kx_inventory (kx_provider (Aware 0)) (\<lambda>n. n = 0) kx_world = (Inr r, w')) \<or>
     (\<exists>m w'. execute_cleanup kx_manager kx_plan kx_inventory (kx_provider (Aware 0)) (\<lambda>n. n = 0) kx_world = (Inl (OverflowError m), w'))"
proof -
  have fresh: "cg_clock kx_manager (cw_ticks kx_world + 1) = Aware 2000000" by (simp add: kx_manager_def kx_world_def)
  have ages: "cleanup_fresh kx_plan kx_inventory 2000000 = Inr ()" by code_simp
  from execute_cleanup_answers [OF kx_valid(4,6) kx_manager_ok(3,2) kx_deletions fresh ages] show ?thesis .
qed

end
