(* ===== verification/Transfer_Models.thy ===== *)
theory Transfer_Models
  imports Cache_Models
begin

text \<open>
  The transfer records of \<open>control-plane/.../cache_models.py\<close>: what a transfer requires, its
  physical attempts and its record, each with its validator and document.
\<close>

definition TRANSFER_OPERATIONS :: "string list" where
  "TRANSFER_OPERATIONS = [''acquire'', ''download'', ''upload'']"

definition EMPTY_SHA256 :: string where
  "EMPTY_SHA256 = ''e3b0c44298fc1c149afbf4c8996fb92427ae41e4649b934ca495991b7852b855''"

section \<open>Locators without credentials\<close>

fun tails :: "'a list \<Rightarrow> 'a list list" where
  "tails [] = [[]]"
| "tails (x # xs) = (x # xs) # tails xs"

definition lower_char :: "char \<Rightarrow> char" where
  "lower_char c = (if c \<in> set ''ABCDEFGHIJKLMNOPQRSTUVWXYZ'' then char_of (of_char c + 32 :: nat) else c)"

definition SECRET_NAMES :: "string list" where
  "SECRET_NAMES = [''access_token'', ''access-token'', ''accesstoken'', ''api_key'', ''api-key'', ''apikey'', ''credential'',
     ''password'', ''secret'', ''token'']"

text \<open>The two searches of the validator: user information, and a secret query parameter.\<close>

definition has_userinfo :: "string \<Rightarrow> bool" where
  "has_userinfo v \<longleftrightarrow> (\<exists>t \<in> set (tails v). take 3 t = ''://'' \<and> CHR ''@'' \<in> set (takeWhile (\<lambda>c. c \<notin> set ''/?#'') (drop 3 t)))"

definition has_secret_parameter :: "string \<Rightarrow> bool" where
  "has_secret_parameter v \<longleftrightarrow> (\<exists>t \<in> set (tails v). t \<noteq> [] \<and> hd t \<in> set ''?&'' \<and>
     (\<exists>n \<in> set SECRET_NAMES. take (length n + 1) (map lower_char (tl t)) = n @ ''=''))"

section \<open>Requirements\<close>

record transfer_requirement =
  tq_transfer_id :: string
  tq_operation :: string
  tq_locator :: string
  tq_expected_sha256 :: string
  tq_expected_size_bytes :: int
  tq_relative_path :: string
  tq_cache_key :: "string option"

definition transfer_requirement_post_init :: "transfer_requirement \<Rightarrow> exc option" where
  "transfer_requirement_post_init q = first_exc [
     raise_if (\<not> is_opid ''transfer'' (tq_transfer_id q)) (ValueError ''transfer ID must be an operational transfer UUIDv7''),
     raise_if (tq_operation q \<notin> set TRANSFER_OPERATIONS) (ValueError ''invalid transfer operation''),
     raise_if (tq_locator q = [] \<or> CHR 0x0D \<in> set (tq_locator q) \<or> CHR 0x0A \<in> set (tq_locator q) \<or> CHR 0x00 \<in> set (tq_locator q))
       (ValueError ''transfer locator must be a non-empty single-line value''),
     raise_if (has_userinfo (tq_locator q) \<or> has_secret_parameter (tq_locator q))
       (ValueError ''transfer locators cannot embed credentials or secret query parameters''),
     require_sha256 (tq_expected_sha256 q),
     require_safe (tq_expected_size_bytes q),
     require_relative_path (tq_relative_path q),
     require_opt require_token (tq_cache_key q)]"

definition transfer_requirement_to_dict :: "transfer_requirement \<Rightarrow> json" where
  "transfer_requirement_to_dict q = JObj [
     (''cache_key'', JOpt JStr (tq_cache_key q)),
     (''expected_sha256'', JStr (tq_expected_sha256 q)),
     (''expected_size_bytes'', JInt (tq_expected_size_bytes q)),
     (''locator'', JStr (tq_locator q)),
     (''operation'', JStr (tq_operation q)),
     (''relative_path'', JStr (tq_relative_path q)),
     (''transfer_id'', JStr (tq_transfer_id q))]"

section \<open>Attempts\<close>

record transfer_attempt =
  tp_sequence :: int
  tp_started_at :: timestamp
  tp_completed_at :: timestamp
  tp_offset_start :: int
  tp_offset_end :: int
  tp_outcome :: string
  tp_code :: string
  tp_detail :: string

definition transfer_attempt_post_init :: "transfer_attempt \<Rightarrow> exc option" where
  "transfer_attempt_post_init a = first_exc [
     require_positive (tp_sequence a),
     require_timestamp (tp_started_at a),
     require_timestamp (tp_completed_at a),
     raise_if (instant (tp_completed_at a) < instant (tp_started_at a))
       (ValueError ''transfer attempts cannot complete before they start''),
     require_safe (tp_offset_start a),
     require_safe (tp_offset_end a),
     raise_if (tp_offset_end a < tp_offset_start a) (ValueError ''transfer attempts cannot move checkpoints backward''),
     raise_if (tp_outcome a \<notin> {''interrupted'', ''failed'', ''completed''}) (ValueError ''invalid transfer attempt outcome''),
     require_token (tp_code a),
     raise_if (tp_detail a = []) (ValueError ''transfer attempts require detail'')]"

definition transfer_attempt_to_dict :: "transfer_attempt \<Rightarrow> json" where
  "transfer_attempt_to_dict a = JObj [
     (''code'', JStr (tp_code a)),
     (''completed_at'', JTime (tp_completed_at a)),
     (''detail'', JStr (tp_detail a)),
     (''offset_end'', JInt (tp_offset_end a)),
     (''offset_start'', JInt (tp_offset_start a)),
     (''outcome'', JStr (tp_outcome a)),
     (''sequence'', JInt (tp_sequence a)),
     (''started_at'', JTime (tp_started_at a))]"

section \<open>Records\<close>

record transfer_record =
  tr_requirement :: transfer_requirement
  tr_state :: string
  tr_bytes_completed :: int
  tr_checkpoint_sha256 :: string
  tr_attempts :: "transfer_attempt list"
  tr_verified_sha256 :: "string option"
  tr_verified_size_bytes :: "int option"
  tr_resumable :: bool

text \<open>The attempts form a contiguous history from an offset.\<close>

fun contiguous_from :: "int \<Rightarrow> transfer_attempt list \<Rightarrow> bool" where
  "contiguous_from n [] \<longleftrightarrow> True"
| "contiguous_from n (a # as) \<longleftrightarrow> tp_offset_start a = n \<and> contiguous_from (tp_offset_end a) as"

definition planned_checks :: "transfer_record \<Rightarrow> exc option" where
  "planned_checks r = first_exc [
     raise_if (tr_bytes_completed r \<noteq> 0 \<or> tr_attempts r \<noteq> []) (ValueError ''planned transfers cannot contain physical attempts''),
     raise_if (tr_checkpoint_sha256 r \<noteq> EMPTY_SHA256) (ValueError ''planned transfers require the empty-byte checkpoint digest'')]"

definition completed_checks :: "transfer_record \<Rightarrow> exc option" where
  "completed_checks r = first_exc [
     raise_if (tr_attempts r = [] \<or> tp_outcome (last (tr_attempts r)) \<noteq> ''completed'')
       (ValueError ''completed transfer requires a completed physical attempt''),
     raise_if (tr_verified_sha256 r \<noteq> Some (tq_expected_sha256 (tr_requirement r)))
       (ValueError ''completed transfer digest must match the immutable requirement''),
     raise_if (tr_verified_size_bytes r \<noteq> Some (tq_expected_size_bytes (tr_requirement r)))
       (ValueError ''completed transfer size must match the immutable requirement''),
     raise_if (tr_bytes_completed r \<noteq> tq_expected_size_bytes (tr_requirement r))
       (ValueError ''completed transfer checkpoint must reach the expected size''),
     raise_if (tr_checkpoint_sha256 r \<noteq> tq_expected_sha256 (tr_requirement r))
       (ValueError ''completed transfer checkpoint must match the expected digest'')]"

definition incomplete_checks :: "transfer_record \<Rightarrow> exc option" where
  "incomplete_checks r = first_exc [
     raise_if (tr_state r \<in> {''interrupted'', ''failed''} \<and> (tr_attempts r = [] \<or> tp_outcome (last (tr_attempts r)) \<noteq> tr_state r))
       (ValueError ''incomplete transfer state must match its latest physical attempt''),
     raise_if (tr_verified_sha256 r \<noteq> None \<or> tr_verified_size_bytes r \<noteq> None)
       (ValueError ''incomplete transfers cannot claim final verification'')]"

definition transfer_record_post_init :: "transfer_record \<Rightarrow> exc option" where
  "transfer_record_post_init r = first_exc [
     raise_if (tr_state r \<notin> {''planned'', ''interrupted'', ''failed'', ''completed''}) (ValueError ''invalid transfer state''),
     require_safe (tr_bytes_completed r),
     require_sha256 (tr_checkpoint_sha256 r),
     raise_if (\<not> distinct (map tp_sequence (tr_attempts r))) (ValueError ''must not contain duplicates''),
     raise_if (map tp_sequence (tr_attempts r) \<noteq> [1..int (length (tr_attempts r))])
       (ValueError ''transfer attempts require contiguous sequence numbers''),
     raise_if (tr_attempts r \<noteq> [] \<and> tr_bytes_completed r \<noteq> tp_offset_end (last (tr_attempts r)))
       (ValueError ''transfer checkpoint must equal the last physical attempt offset''),
     raise_if (\<not> contiguous_from 0 (tr_attempts r)) (ValueError ''transfer attempts must form a contiguous checkpoint history''),
     raise_if (tr_bytes_completed r > tq_expected_size_bytes (tr_requirement r))
       (ValueError ''transfer checkpoint cannot exceed expected size''),
     require_opt require_sha256 (tr_verified_sha256 r),
     require_opt require_safe (tr_verified_size_bytes r),
     (if tr_state r = ''planned'' then planned_checks r else None),
     (if tr_state r = ''completed'' then completed_checks r else incomplete_checks r)]"

definition transfer_record_to_dict :: "transfer_record \<Rightarrow> json" where
  "transfer_record_to_dict r = JObj [
     (''attempts'', JArr (map transfer_attempt_to_dict (tr_attempts r))),
     (''bytes_completed'', JInt (tr_bytes_completed r)),
     (''checkpoint_sha256'', JStr (tr_checkpoint_sha256 r)),
     (''requirement'', transfer_requirement_to_dict (tr_requirement r)),
     (''resumable'', JBool (tr_resumable r)),
     (''schema_version'', JStr ''transfer-record.v1''),
     (''state'', JStr (tr_state r)),
     (''verified_sha256'', JOpt JStr (tr_verified_sha256 r)),
     (''verified_size_bytes'', JOpt JInt (tr_verified_size_bytes r))]"

section \<open>Valid records\<close>

definition valid_transfer :: "transfer_record \<Rightarrow> bool" where
  "valid_transfer r \<longleftrightarrow> transfer_record_post_init r = None \<and> transfer_requirement_post_init (tr_requirement r) = None \<and>
     (\<forall>a \<in> set (tr_attempts r). transfer_attempt_post_init a = None)"

end
