(* ===== verification/Transfer_World.thy ===== *)
theory Transfer_World
  imports Transfer_Models Cache_World
begin

text \<open>
  What the transfer manager acts on: the files of the transfer root. A directory entry names an
  inode, a symbolic link or a special file; a hard link is a second entry of the same inode.
  Other processes may change the files before every system call (\<open>tg_interfere\<close>), and a call
  may fail (\<open>tg_fault\<close>), a write after part of its bytes. Reading a file to its end is one step.
\<close>

section \<open>Files\<close>

datatype file_entry =
    Inode nat
  | SymbolicLink
  | SpecialFile

record files =
  fl_entries :: "string list \<Rightarrow> file_entry option"
  fl_data :: "nat \<Rightarrow> nat list"
  fl_fresh :: nat

datatype transfer_error =
    Raised exc
  | TransferIntegrityError string
  | FileExists
  | OsError
  | SourceError

record transfer_world =
  tw_base :: cache_world
  tw_files :: files
  tw_syscalls :: nat
  tw_reads :: "(string \<times> int \<times> int) list"

text \<open>
  The manager: the clock, the publisher and SHA-256 of the cache manager, the identifier
  generator, the checks of a destination's directory and the behaviour of the operating system.
\<close>

record transfer_manager =
  tg_base :: cache_manager
  tg_new_transfer_id :: "nat \<Rightarrow> string result"
  tg_parent :: "string list \<Rightarrow> transfer_error option"
  tg_interfere :: "nat \<Rightarrow> files \<Rightarrow> files"
  tg_fault :: "nat \<Rightarrow> nat option"

text \<open>A source of chunks: it raises, returns something that is not \<open>bytes\<close>, or returns bytes.\<close>

record chunk_source =
  so_read :: "(string \<times> int \<times> int) list \<Rightarrow> string \<Rightarrow> int \<Rightarrow> int \<Rightarrow> unit + nat list option"

type_synonym 'a transfer_action = "(transfer_world, transfer_error, 'a) operation"

section \<open>Elementary actions\<close>

text \<open>The actions on clock, events and cancellation token of the cache manager.\<close>

definition on_base :: "'a cache_action \<Rightarrow> 'a transfer_action" where
  "on_base m w =
     (case m (tw_base w) of
        (Inl e, b) \<Rightarrow> (Inl (Raised e), w\<lparr>tw_base := b\<rparr>)
      | (Inr x, b) \<Rightarrow> (Inr x, w\<lparr>tw_base := b\<rparr>))"

definition checked :: "'a result \<Rightarrow> 'a transfer_action" where
  "checked r = op_lift (case r of Inl e \<Rightarrow> Inl (Raised e) | Inr x \<Rightarrow> Inr x)"

text \<open>A step that cannot raise.\<close>

definition always :: "(transfer_world \<Rightarrow> 'a \<times> transfer_world) \<Rightarrow> (transfer_world, 'e, 'a) operation" where
  "always m w = (case m w of (x, w') \<Rightarrow> (Inr x, w'))"

lemma always_Inr [simp]: "always m w = (Inr x, w') \<longleftrightarrow> m w = (x, w')"
  by (auto simp: always_def split: prod.splits)

definition syscall :: "transfer_manager \<Rightarrow> (nat option \<Rightarrow> files \<Rightarrow> (transfer_error + 'a) \<times> files) \<Rightarrow> 'a transfer_action" where
  "syscall tg f w =
     (case f (tg_fault tg (tw_syscalls w)) (tg_interfere tg (tw_syscalls w) (tw_files w)) of
        (r, fs) \<Rightarrow> (r, w\<lparr>tw_files := fs, tw_syscalls := tw_syscalls w + 1\<rparr>))"

text \<open>\<open>path.exists() or path.is_symlink()\<close>.\<close>

definition entry_present :: "transfer_manager \<Rightarrow> string list \<Rightarrow> bool transfer_action" where
  "entry_present tg p = syscall tg (\<lambda>_ fs. (Inr (fl_entries fs p \<noteq> None), fs))"

definition lstat :: "transfer_manager \<Rightarrow> string list \<Rightarrow> file_entry transfer_action" where
  "lstat tg p = syscall tg (\<lambda>fault fs.
     (case (fault, fl_entries fs p) of (None, Some e) \<Rightarrow> Inr e | _ \<Rightarrow> Inl OsError, fs))"

text \<open>\<open>os.open\<close> for reading without following links; the reading itself is \<open>read_file\<close>.\<close>

definition open_read :: "transfer_manager \<Rightarrow> string list \<Rightarrow> nat transfer_action" where
  "open_read tg p = syscall tg (\<lambda>fault fs.
     (case (fault, fl_entries fs p) of (None, Some (Inode i)) \<Rightarrow> Inr i | _ \<Rightarrow> Inl OsError, fs))"

definition read_file :: "transfer_manager \<Rightarrow> nat \<Rightarrow> nat list transfer_action" where
  "read_file tg i = syscall tg (\<lambda>fault fs. (case fault of None \<Rightarrow> Inr (fl_data fs i) | Some _ \<Rightarrow> Inl OsError, fs))"

text \<open>\<open>os.open\<close> of the partial file: exclusive creation at offset 0, else appending.\<close>

definition create_file :: "string list \<Rightarrow> files \<Rightarrow> files" where
  "create_file p fs = fs\<lparr>fl_entries := (fl_entries fs)(p \<mapsto> Inode (fl_fresh fs)),
     fl_data := (fl_data fs)(fl_fresh fs := []), fl_fresh := fl_fresh fs + 1\<rparr>"

definition open_partial :: "transfer_manager \<Rightarrow> string list \<Rightarrow> int \<Rightarrow> file_entry transfer_action" where
  "open_partial tg p offset = syscall tg (\<lambda>fault fs.
     if fault \<noteq> None then (Inl OsError, fs)
     else if offset = 0
     then (if fl_entries fs p \<noteq> None then (Inl OsError, fs) else (Inr (Inode (fl_fresh fs)), create_file p fs))
     else (case fl_entries fs p of
             Some (Inode i) \<Rightarrow> (Inr (Inode i), fs)
           | Some SpecialFile \<Rightarrow> (Inr SpecialFile, fs)
           | _ \<Rightarrow> (Inl OsError, fs)))"

text \<open>Writing, flushing and \<open>fsync\<close>; a failure may leave the first bytes in the file.\<close>

definition append_data :: "nat \<Rightarrow> nat list \<Rightarrow> files \<Rightarrow> files" where
  "append_data i bytes fs = fs\<lparr>fl_data := (fl_data fs)(i := fl_data fs i @ bytes)\<rparr>"

definition write_block :: "transfer_manager \<Rightarrow> nat \<Rightarrow> nat list \<Rightarrow> unit transfer_action" where
  "write_block tg i bytes = syscall tg (\<lambda>fault fs.
     case fault of
       None \<Rightarrow> (Inr (), append_data i bytes fs)
     | Some k \<Rightarrow> (Inl OsError, append_data i (take k bytes) fs))"

definition link_file :: "transfer_manager \<Rightarrow> string list \<Rightarrow> string list \<Rightarrow> unit transfer_action" where
  "link_file tg old new = syscall tg (\<lambda>fault fs.
     if fault \<noteq> None then (Inl OsError, fs)
     else if fl_entries fs new \<noteq> None then (Inl FileExists, fs)
     else if fl_entries fs old = None then (Inl OsError, fs)
     else (Inr (), fs\<lparr>fl_entries := (fl_entries fs)(new := fl_entries fs old)\<rparr>))"

definition unlink_file :: "transfer_manager \<Rightarrow> string list \<Rightarrow> unit transfer_action" where
  "unlink_file tg p = syscall tg (\<lambda>fault fs.
     if fault \<noteq> None \<or> fl_entries fs p = None then (Inl OsError, fs)
     else (Inr (), fs\<lparr>fl_entries := (fl_entries fs)(p := None)\<rparr>))"

definition read_source :: "chunk_source \<Rightarrow> string \<Rightarrow> int \<Rightarrow> int \<Rightarrow> nat list option transfer_action" where
  "read_source src locator offset limit w =
     (case so_read src (tw_reads w) locator offset limit of Inl _ \<Rightarrow> Inl SourceError | Inr block \<Rightarrow> Inr block,
      w\<lparr>tw_reads := tw_reads w @ [(locator, offset, limit)]\<rparr>)"

end
