(* ===== verification/Transfer_Manager.thy ===== *)
theory Transfer_Manager
  imports Transfer_World Cache_Cleanup
begin

text \<open>
  The class \<open>TransferManager\<close> of \<open>cache_manager.py\<close>: planning, recording an external attempt, and
  resuming a download into a partial file that is published by a hard link once its bytes have
  the required digest.
\<close>

section \<open>Events\<close>

definition transfer_event :: "transfer_record \<Rightarrow> string \<Rightarrow> string \<Rightarrow> int \<Rightarrow> string \<Rightarrow> bool \<Rightarrow> int option \<Rightarrow> progress_event" where
  "transfer_event r status phase attempt message terminal current =
     \<lparr>pe_stream_id = tq_transfer_id (tr_requirement r), pe_operation_kind = ''transfer'', pe_phase = phase,
      pe_status = status, pe_attempt = attempt,
      pe_current = (case current of None \<Rightarrow> tr_bytes_completed r | Some n \<Rightarrow> n),
      pe_total = tq_expected_size_bytes (tr_requirement r), pe_unit = ''bytes'', pe_message = message,
      pe_attributes = [(''operation'', JStr (tq_operation (tr_requirement r))), (''resumable'', JBool (tr_resumable r))],
      pe_terminal = terminal\<rparr>"

definition emit_transfer ::
    "transfer_manager \<Rightarrow> transfer_record \<Rightarrow> string \<Rightarrow> string \<Rightarrow> int \<Rightarrow> string \<Rightarrow> bool \<Rightarrow> int option \<Rightarrow> unit transfer_action" where
  "emit_transfer tg r status phase attempt message terminal current =
     on_base (publish_event (tg_base tg) (transfer_event r status phase attempt message terminal current))"

section \<open>Planning and external attempts\<close>

definition transfer_digest :: "transfer_manager \<Rightarrow> nat list \<Rightarrow> string" where
  "transfer_digest tg bytes = cg_sha256 (tg_base tg) bytes"

definition plan_transfer ::
    "transfer_manager \<Rightarrow> nat \<Rightarrow> string \<Rightarrow> string \<Rightarrow> string \<Rightarrow> int \<Rightarrow> string \<Rightarrow> string option \<Rightarrow> transfer_record transfer_action" where
  "plan_transfer tg n operation locator sha len path key =
     op_bind (checked (tg_new_transfer_id tg n)) (\<lambda>transfer_id.
     op_bind (checked (construct transfer_requirement_post_init
       \<lparr>tq_transfer_id = transfer_id, tq_operation = operation, tq_locator = locator, tq_expected_sha256 = sha,
        tq_expected_size_bytes = len, tq_relative_path = path, tq_cache_key = key\<rparr>)) (\<lambda>q.
     op_bind (checked (construct transfer_record_post_init
       \<lparr>tr_requirement = q, tr_state = ''planned'', tr_bytes_completed = 0, tr_checkpoint_sha256 = transfer_digest tg [],
        tr_attempts = [], tr_verified_sha256 = None, tr_verified_size_bytes = None, tr_resumable = True\<rparr>)) (\<lambda>r.
     op_bind (emit_transfer tg r ''planned'' ''planning'' 1 ''transfer planned'' False None) (\<lambda>_.
     op_return r))))"

text \<open>The record after one more attempt.\<close>

definition next_record :: "transfer_record \<Rightarrow> transfer_attempt \<Rightarrow> string \<Rightarrow> transfer_record" where
  "next_record r a checkpoint =
     \<lparr>tr_requirement = tr_requirement r, tr_state = tp_outcome a, tr_bytes_completed = tp_offset_end a,
      tr_checkpoint_sha256 = checkpoint, tr_attempts = tr_attempts r @ [a],
      tr_verified_sha256 = (if tp_outcome a = ''completed'' then Some (tq_expected_sha256 (tr_requirement r)) else None),
      tr_verified_size_bytes = (if tp_outcome a = ''completed'' then Some (tq_expected_size_bytes (tr_requirement r)) else None),
      tr_resumable = tr_resumable r\<rparr>"

definition next_attempt :: "transfer_record \<Rightarrow> timestamp \<Rightarrow> timestamp \<Rightarrow> int \<Rightarrow> string \<Rightarrow> string \<Rightarrow> string \<Rightarrow> transfer_attempt" where
  "next_attempt r started completed offset outcome code detail =
     \<lparr>tp_sequence = int (length (tr_attempts r)) + 1, tp_started_at = started, tp_completed_at = completed,
      tp_offset_start = tr_bytes_completed r, tp_offset_end = offset, tp_outcome = outcome, tp_code = code,
      tp_detail = detail\<rparr>"

definition record_external_attempt ::
    "transfer_manager \<Rightarrow> transfer_record \<Rightarrow> int \<Rightarrow> string \<Rightarrow> string \<Rightarrow> string \<Rightarrow> string \<Rightarrow> transfer_record transfer_action" where
  "record_external_attempt tg r bytes checkpoint outcome code detail =
     (let q = tr_requirement r; completed = (outcome = ''completed'') in
      if tr_state r \<in> {''completed'', ''failed''} then checked (Inl (ValueError ''completed or failed transfers are immutable''))
      else if bytes < tr_bytes_completed r \<or> bytes > tq_expected_size_bytes q
      then checked (Inl (ValueError ''transfer progress must be monotonic and bounded''))
      else op_bind (on_base (stamp_now (tg_base tg))) (\<lambda>started.
        op_bind (on_base (stamp_now (tg_base tg))) (\<lambda>ended.
        op_bind (checked (construct transfer_attempt_post_init (next_attempt r started ended bytes outcome code detail))) (\<lambda>a.
        if completed \<and> bytes \<noteq> tq_expected_size_bytes q
        then checked (Inl (ValueError ''completed attempts must reach the expected byte count''))
        else if completed \<and> checkpoint \<noteq> tq_expected_sha256 q
        then checked (Inl (ValueError ''completed attempts must prove the immutable expected digest''))
        else op_bind (checked (construct transfer_record_post_init (next_record r a checkpoint))) (\<lambda>updated.
          op_bind (if tp_sequence a > 1
            then emit_transfer tg r ''resumed'' ''transfer'' (tp_sequence a) ''external transfer attempt resumed'' False None
            else op_return ()) (\<lambda>_.
          op_bind (emit_transfer tg updated outcome ''transfer'' (tp_sequence a) (''external transfer attempt '' @ outcome)
            (completed \<or> outcome = ''failed'') None) (\<lambda>_.
          op_return updated)))))))"

section \<open>Destinations and digests of files\<close>

text \<open>
  The path below the root, the partial one with \<open>.part\<close> added to its last component. The checks
  of the directory, and its creation, are \<open>tg_parent\<close>; a path without components escapes.
\<close>

definition transfer_destination :: "transfer_manager \<Rightarrow> transfer_requirement \<Rightarrow> bool \<Rightarrow> transfer_error + string list" where
  "transfer_destination tg q partial =
     (let parts = path_parts (tq_relative_path q) in
      if parts = [] then Inl (TransferIntegrityError ''transfer path escapes the configured root'')
      else (case tg_parent tg (butlast parts) of
              Some e \<Rightarrow> Inl e
            | None \<Rightarrow> Inr (if partial then butlast parts @ [last parts @ ''.part''] else parts)))"

definition hash_path :: "transfer_manager \<Rightarrow> string list \<Rightarrow> (int \<times> string \<times> nat) transfer_action" where
  "hash_path tg p w =
     (case lstat tg p w of
        (Inl _, w') \<Rightarrow> (Inl (TransferIntegrityError ''transfer checkpoint cannot be inspected''), w')
      | (Inr (Inode before), w') \<Rightarrow>
          op_bind (open_read tg p) (\<lambda>opened.
          op_bind (read_file tg opened) (\<lambda>bytes.
          op_bind (lstat tg p) (\<lambda>after.
          if opened \<noteq> before \<or> after \<noteq> Inode opened
          then op_lift (Inl (TransferIntegrityError ''transfer checkpoint changed identity during verification''))
          else op_return (int (length bytes), transfer_digest tg bytes, opened)))) w'
      | (Inr _, w') \<Rightarrow> (Inl (TransferIntegrityError ''transfer checkpoint is not a regular non-symlink file''), w'))"

section \<open>The loop over the chunks\<close>

text \<open>How the block of an attempt ends: the offset reached, and why.\<close>

datatype loop_end = Paused | Cancelled | Reached | Broke

definition stops_at :: "int \<Rightarrow> 'a transfer_action \<Rightarrow> (transfer_world, int \<times> loop_end, 'a) operation" where
  "stops_at offset m w = (case m w of (Inl _, w') \<Rightarrow> (Inl (offset, Broke), w') | (Inr x, w') \<Rightarrow> (Inr x, w'))"

record chunk_limits =
  cl_chunk_size :: int
  cl_maximum_chunks :: "int option"
  cl_cancelled :: "nat \<Rightarrow> bool"

definition read_chunk ::
    "chunk_source \<Rightarrow> transfer_record \<Rightarrow> chunk_limits \<Rightarrow> int \<Rightarrow> int \<Rightarrow> (transfer_world, int \<times> loop_end, nat list) operation" where
  "read_chunk src r limits chunks offset =
     (let q = tr_requirement r; request = min (cl_chunk_size limits) (tq_expected_size_bytes q - offset) in
      op_bind (stops_at offset (on_base (poll_cancelled (cl_cancelled limits)))) (\<lambda>cancelled.
      if cancelled then op_lift (Inl (offset, Cancelled))
      else if (case cl_maximum_chunks limits of None \<Rightarrow> False | Some n \<Rightarrow> chunks \<ge> n) then op_lift (Inl (offset, Paused))
      else op_bind (stops_at offset (read_source src (tq_locator q) offset request)) (\<lambda>block.
        op_lift (case block of
           None \<Rightarrow> Inl (offset, Broke)
         | Some bytes \<Rightarrow> if bytes = [] \<or> int (length bytes) > request then Inl (offset, Broke) else Inr bytes))))"

definition transfer_chunk ::
    "transfer_manager \<Rightarrow> chunk_source \<Rightarrow> transfer_record \<Rightarrow> chunk_limits \<Rightarrow> nat \<Rightarrow> int \<Rightarrow> int \<Rightarrow>
     (transfer_world, int \<times> loop_end, nat) operation" where
  "transfer_chunk tg src r limits i chunks offset =
     op_bind (read_chunk src r limits chunks offset) (\<lambda>bytes.
     op_bind (stops_at offset (write_block tg i bytes)) (\<lambda>_.
     op_bind (stops_at (offset + int (length bytes))
       (emit_transfer tg r ''running'' ''transfer'' (int (length (tr_attempts r)) + 1) ''transfer checkpoint persisted''
         False (Some (offset + int (length bytes))))) (\<lambda>_.
     op_return (length bytes))))"

lemma read_chunk_Inr:
  assumes "read_chunk src r limits chunks offset w = (Inr bytes, w')"
  shows "0 < length bytes \<and> int (length bytes) \<le> min (cl_chunk_size limits) (tq_expected_size_bytes (tr_requirement r) - offset)"
  using assms unfolding read_chunk_def Let_def op_bind_Inr
  by (fastforce split: if_splits option.splits)

lemma transfer_chunk_Inr:
  assumes "transfer_chunk tg src r limits i chunks offset w = (Inr n, w')"
  shows "0 < n \<and> int n \<le> tq_expected_size_bytes (tr_requirement r) - offset"
proof -
  from assms obtain bytes v where "read_chunk src r limits chunks offset w = (Inr bytes, v)" "n = length bytes"
    unfolding transfer_chunk_def op_bind_Inr op_return_eq by auto
  with read_chunk_Inr show ?thesis by fastforce
qed

function transfer_loop ::
    "transfer_manager \<Rightarrow> chunk_source \<Rightarrow> transfer_record \<Rightarrow> chunk_limits \<Rightarrow> nat \<Rightarrow> int \<Rightarrow> int \<Rightarrow> transfer_world \<Rightarrow>
     (int \<times> loop_end) \<times> transfer_world" where
  "transfer_loop tg src r limits i chunks offset w =
     (if offset < tq_expected_size_bytes (tr_requirement r)
      then (case transfer_chunk tg src r limits i chunks offset w of
              (Inl stop, w') \<Rightarrow> (stop, w')
            | (Inr n, w') \<Rightarrow> transfer_loop tg src r limits i (chunks + 1) (offset + int n) w')
      else ((offset, if offset = tq_expected_size_bytes (tr_requirement r) then Reached else Paused), w))"
  by pat_completeness auto
termination
proof (relation "measure (\<lambda>(tg, src, r, limits, i, chunks, offset, w). nat (tq_expected_size_bytes (tr_requirement r) - offset))", goal_cases)
  case (2 tg src r limits i chunks offset w y z n)
  from transfer_chunk_Inr [OF 2(2) [unfolded 2(3), symmetric]] 2(1) show ?case by simp
qed simp

declare transfer_loop.simps [simp del]

text \<open>The \<open>try\<close> block: every exception in it ends the attempt at the offset reached.\<close>

definition transfer_block ::
    "transfer_manager \<Rightarrow> chunk_source \<Rightarrow> transfer_record \<Rightarrow> chunk_limits \<Rightarrow> string list \<Rightarrow> nat option \<Rightarrow> transfer_world \<Rightarrow>
     (int \<times> loop_end) \<times> transfer_world" where
  "transfer_block tg src r limits partial identity w =
     (let offset = tr_bytes_completed r in
      case open_partial tg partial offset w of
        (Inr (Inode i), w') \<Rightarrow>
          if identity \<noteq> None \<and> identity \<noteq> Some i then ((offset, Broke), w')
          else transfer_loop tg src r limits i 0 offset w'
      | (_, w') \<Rightarrow> ((offset, Broke), w'))"

definition block_outcome :: "loop_end \<Rightarrow> string \<times> string \<times> string" where
  "block_outcome e =
     (case e of
        Paused \<Rightarrow> (''interrupted'', ''chunk-budget-reached'', ''transfer paused at the configured chunk budget'')
      | Cancelled \<Rightarrow> (''interrupted'', ''cancelled'', ''transfer cancelled at a durable checkpoint'')
      | Reached \<Rightarrow> (''completed'', ''verified'', ''transfer reached expected size and digest'')
      | Broke \<Rightarrow> (''interrupted'', ''source-or-write-failed'', ''transfer source or local write raised''))"

section \<open>Resuming a download\<close>

text \<open>The len, digest and identity of the partial file after the block.\<close>

definition partial_state :: "transfer_manager \<Rightarrow> string list \<Rightarrow> int \<Rightarrow> (int \<times> string \<times> nat option) transfer_action" where
  "partial_state tg partial offset =
     op_bind (if offset = 0 then entry_present tg partial else op_return True) (\<lambda>present.
       if \<not> present then op_return (0, transfer_digest tg [], None)
       else op_bind (hash_path tg partial) (\<lambda>(len, digest, i). op_return (len, digest, Some i)))"

definition publish_partial :: "transfer_manager \<Rightarrow> string list \<Rightarrow> string list \<Rightarrow> nat option \<Rightarrow> transfer_world \<Rightarrow>
    (string \<times> string \<times> string) \<times> transfer_world" where
  "publish_partial tg partial final identity w =
     (case op_bind (link_file tg partial final) (\<lambda>_. op_bind (lstat tg final) (\<lambda>published.
         op_bind (lstat tg partial) (\<lambda>current. op_return (published, current)))) w of
        (Inl FileExists, w') \<Rightarrow>
          ((''failed'', ''publication-destination-race'', ''transfer destination appeared before atomic publication''), w')
      | (Inl _, w') \<Rightarrow> ((''failed'', ''publication-failed'', ''atomic transfer publication failed''), w')
      | (Inr (published, current), w') \<Rightarrow>
          if identity = None \<or> published \<noteq> Inode (the identity) \<or> current \<noteq> Inode (the identity)
          then ((''failed'', ''publication-identity-mismatch'', ''filesystem identity changed during atomic transfer publication''), w')
          else (case unlink_file tg partial w' of
                  (Inl _, w'') \<Rightarrow>
                    ((''completed'', ''verified-partial-retained'',
                      ''transfer published exactly; verified partial cleanup is still required''), w'')
                | (Inr _, w'') \<Rightarrow> (block_outcome Reached, w'')))"

text \<open>The checks before an attempt, with the identity of the partial file it continues.\<close>

definition check_resume ::
    "transfer_manager \<Rightarrow> transfer_record \<Rightarrow> string list \<Rightarrow> string list \<Rightarrow> nat option transfer_action" where
  "check_resume tg r partial final =
     op_bind (entry_present tg final) (\<lambda>taken.
     if taken then op_lift (Inl (TransferIntegrityError ''transfer destination already exists''))
     else if tr_bytes_completed r = 0
     then op_bind (entry_present tg partial) (\<lambda>present.
       if present then op_lift (Inl (TransferIntegrityError ''unexpected partial transfer exists for a new plan''))
       else op_return None)
     else op_bind (hash_path tg partial) (\<lambda>(len, digest, i).
       if len \<noteq> tr_bytes_completed r \<or> digest \<noteq> tr_checkpoint_sha256 r
       then op_lift (Inl (TransferIntegrityError ''partial transfer does not match its durable checkpoint''))
       else op_return (Some i)))"

definition finish_block ::
    "transfer_manager \<Rightarrow> transfer_record \<Rightarrow> string list \<Rightarrow> string list \<Rightarrow> int \<Rightarrow> loop_end \<Rightarrow>
     (string \<times> string \<times> string \<times> string) transfer_action" where
  "finish_block tg r partial final offset ending =
     op_bind (partial_state tg partial offset) (\<lambda>(len, digest, identity).
     if len \<noteq> offset then op_lift (Inl (TransferIntegrityError ''physical partial size diverged from transfer checkpoint''))
     else op_bind (if ending \<noteq> Reached then op_return (block_outcome ending)
       else if digest \<noteq> tq_expected_sha256 (tr_requirement r)
       then op_return (''failed'', ''digest-mismatch'', ''completed transfer bytes do not match the immutable digest'')
       else always (publish_partial tg partial final identity))
       (\<lambda>(outcome, code, detail). op_return (outcome, code, detail, digest)))"

definition check_limits :: "transfer_record \<Rightarrow> chunk_limits \<Rightarrow> unit result" where
  "check_limits r limits =
     (if tq_operation (tr_requirement r) \<notin> {''acquire'', ''download''}
      then Inl (ValueError ''local resumable download only supports acquire/download requirements'')
      else if tr_state r \<in> {''completed'', ''failed''} then Inl (ValueError ''completed or failed transfers cannot be resumed'')
      else if cl_chunk_size limits < 1 \<or> cl_chunk_size limits > 64 * 1024 * 1024
      then Inl (ValueError ''transfer chunk size must be between 1 and 64 MiB'')
      else if (case cl_maximum_chunks limits of None \<Rightarrow> False | Some n \<Rightarrow> n < 1)
      then Inl (ValueError ''maximum chunks must be positive when supplied'')
      else Inr ())"

text \<open>The record of the attempt, and its final event.\<close>

definition finish_attempt ::
    "transfer_manager \<Rightarrow> transfer_record \<Rightarrow> timestamp \<Rightarrow> int \<Rightarrow> string \<times> string \<times> string \<times> string \<Rightarrow> transfer_record transfer_action" where
  "finish_attempt tg r started offset result =
     (case result of (outcome, code, detail, digest) \<Rightarrow>
       op_bind (on_base (stamp_now (tg_base tg))) (\<lambda>ended.
       op_bind (checked (construct transfer_attempt_post_init (next_attempt r started ended offset outcome code detail))) (\<lambda>a.
       op_bind (checked (construct transfer_record_post_init (next_record r a digest))) (\<lambda>updated.
       op_bind (emit_transfer tg updated outcome ''transfer'' (int (length (tr_attempts r)) + 1) (''transfer attempt '' @ outcome)
         (outcome \<in> {''completed'', ''failed''}) None) (\<lambda>_.
       op_return updated)))))"

text \<open>The attempt itself: its first event, the block, the inspection of the partial file, the record.\<close>

definition run_attempt ::
    "transfer_manager \<Rightarrow> transfer_record \<Rightarrow> chunk_source \<Rightarrow> chunk_limits \<Rightarrow> string list \<Rightarrow> string list \<Rightarrow> nat option \<Rightarrow>
     timestamp \<Rightarrow> transfer_record transfer_action" where
  "run_attempt tg r src limits partial final identity started =
     op_bind (emit_transfer tg r (if tr_attempts r \<noteq> [] then ''resumed'' else ''running'') ''transfer''
       (int (length (tr_attempts r)) + 1)
       (if tr_attempts r \<noteq> [] then ''transfer attempt resumed'' else ''transfer attempt started'') False None) (\<lambda>_.
     op_bind (always (transfer_block tg src r limits partial identity)) (\<lambda>(offset, ending).
     op_bind (finish_block tg r partial final offset ending) (finish_attempt tg r started offset)))"

definition resume_download ::
    "transfer_manager \<Rightarrow> transfer_record \<Rightarrow> chunk_source \<Rightarrow> chunk_limits \<Rightarrow> transfer_record transfer_action" where
  "resume_download tg r src limits =
     op_bind (checked (check_limits r limits)) (\<lambda>_.
     op_bind (op_lift (transfer_destination tg (tr_requirement r) True)) (\<lambda>partial.
     op_bind (op_lift (transfer_destination tg (tr_requirement r) False)) (\<lambda>final.
     op_bind (check_resume tg r partial final) (\<lambda>identity.
     op_bind (on_base (stamp_now (tg_base tg))) (\<lambda>started.
     run_attempt tg r src limits partial final identity started)))))"

end
