(* ===== verification/Transfer_Files.thy ===== *)
theory Transfer_Files
  imports Transfer_Manager
begin

text \<open>
  What the system calls of the transfer manager do to the files when no other process interferes,
  and what a record returned by one of its operations consists of.
\<close>

section \<open>Calls without interference\<close>

definition undisturbed :: "transfer_manager \<Rightarrow> bool" where
  "undisturbed tg \<longleftrightarrow> (\<forall>n fs. tg_interfere tg n fs = fs)"

lemma syscall_files:
  "undisturbed tg \<Longrightarrow> syscall tg f w = (r, w') \<Longrightarrow>
     f (tg_fault tg (tw_syscalls w)) (tw_files w) = (r, tw_files w')"
  by (auto simp: undisturbed_def syscall_def split: prod.splits)

lemma syscall_rest:
  "syscall tg f w = (r, w') \<Longrightarrow> tw_base w' = tw_base w \<and> tw_reads w' = tw_reads w \<and> tw_syscalls w' = tw_syscalls w + 1"
  by (auto simp: syscall_def split: prod.splits)

lemma entry_present_quiet:
  assumes "undisturbed tg" "entry_present tg p w = (r, w')"
  shows "r = Inr (fl_entries (tw_files w) p \<noteq> None) \<and> tw_files w' = tw_files w"
  using syscall_files [OF assms(1) assms(2) [unfolded entry_present_def]] by (auto simp del: not_None_eq)

lemma lstat_quiet:
  assumes "undisturbed tg" "lstat tg p w = (r, w')"
  shows "tw_files w' = tw_files w \<and> (\<forall>e. r = Inr e \<longrightarrow> fl_entries (tw_files w) p = Some e)"
  using syscall_files [OF assms(1) assms(2) [unfolded lstat_def]] by (auto split: option.splits)

lemma open_read_quiet:
  assumes "undisturbed tg" "open_read tg p w = (r, w')"
  shows "tw_files w' = tw_files w \<and> (\<forall>i. r = Inr i \<longrightarrow> fl_entries (tw_files w) p = Some (Inode i))"
  using syscall_files [OF assms(1) assms(2) [unfolded open_read_def]] by (auto split: option.splits file_entry.splits)

lemma read_file_quiet:
  assumes "undisturbed tg" "read_file tg i w = (r, w')"
  shows "tw_files w' = tw_files w \<and> (\<forall>bytes. r = Inr bytes \<longrightarrow> bytes = fl_data (tw_files w) i)"
  using syscall_files [OF assms(1) assms(2) [unfolded read_file_def]] by (auto split: option.splits)

lemma hash_path_quiet:
  assumes quiet: "undisturbed tg" and run: "hash_path tg p w = (Inr (len, digest, i), w')"
  shows "fl_entries (tw_files w) p = Some (Inode i) \<and> len = int (length (fl_data (tw_files w) i)) \<and>
    digest = transfer_digest tg (fl_data (tw_files w) i) \<and> tw_files w' = tw_files w"
proof -
  obtain before v1 where l1: "lstat tg p w = (Inr (Inode before), v1)"
    using run by (auto simp: hash_path_def split: prod.splits sum.splits file_entry.splits)
  with run obtain opened v2 bytes v3 after where calls: "open_read tg p v1 = (Inr opened, v2)" "read_file tg opened v2 = (Inr bytes, v3)"
      "lstat tg p v3 = (Inr after, w')" and result: "opened = before" "len = int (length bytes)"
      "digest = transfer_digest tg bytes" "i = opened"
    by (auto simp: hash_path_def split: if_splits)
  with lstat_quiet [OF quiet l1] open_read_quiet [OF quiet calls(1)] read_file_quiet [OF quiet calls(2)]
    lstat_quiet [OF quiet calls(3)]
  show ?thesis by auto
qed

definition hashed_at :: "transfer_manager \<Rightarrow> files \<Rightarrow> string list \<Rightarrow> nat \<Rightarrow> int \<Rightarrow> string \<Rightarrow> bool" where
  "hashed_at tg fs p i len digest \<longleftrightarrow> fl_entries fs p = Some (Inode i) \<and> len = int (length (fl_data fs i)) \<and>
     digest = transfer_digest tg (fl_data fs i)"

lemma partial_state_quiet:
  assumes quiet: "undisturbed tg" and run: "partial_state tg p offset w = (Inr (len, digest, identity), w')"
  shows "tw_files w' = tw_files w \<and>
    (if offset = 0 \<and> fl_entries (tw_files w) p = None then len = 0 \<and> digest = transfer_digest tg [] \<and> identity = None
     else \<exists>i. identity = Some i \<and> hashed_at tg (tw_files w) p i len digest)"
proof -
  obtain present v where present: "(if offset = 0 then entry_present tg p else op_return True) w = (Inr present, v)"
    and rest: "if \<not> present then len = 0 \<and> digest = transfer_digest tg [] \<and> identity = None \<and> w' = v
       else \<exists>i. hash_path tg p v = (Inr (len, digest, i), w') \<and> identity = Some i"
    using run by (auto simp: partial_state_def split: if_splits)
  have v: "tw_files v = tw_files w" and known: "present \<longleftrightarrow> \<not> (offset = 0 \<and> fl_entries (tw_files w) p = None)"
    using present entry_present_quiet [OF quiet, of p w "Inr present" v] by (auto split: if_splits)
  show ?thesis
  proof (cases present)
    case True
    with rest obtain i where i: "hash_path tg p v = (Inr (len, digest, i), w')" "identity = Some i" by auto
    from hash_path_quiet [OF quiet i(1)] i(2) known True v show ?thesis by (simp add: hashed_at_def)
  next
    case False
    with rest known v show ?thesis by simp
  qed
qed

text \<open>A successful publication: the final path names the inode that was hashed.\<close>

lemma publish_partial_quiet:
  assumes quiet: "undisturbed tg" and paths: "p \<noteq> q"
    and run: "publish_partial tg p q identity w = ((''completed'', code, detail), w')"
  shows "\<exists>i. identity = Some i \<and> fl_entries (tw_files w') q = Some (Inode i) \<and> fl_data (tw_files w') = fl_data (tw_files w) \<and>
    fl_entries (tw_files w) q = None"
proof -
  obtain published current v where link: "op_bind (link_file tg p q) (\<lambda>_. op_bind (lstat tg q) (\<lambda>published.
         op_bind (lstat tg p) (\<lambda>current. op_return (published, current)))) w = (Inr (published, current), v)"
    and same: "identity \<noteq> None" "published = Inode (the identity)"
    and rest: "\<exists>x. unlink_file tg p v = (x, w')"
    using run by (auto simp: publish_partial_def split: prod.splits sum.splits transfer_error.splits if_splits)
  from link obtain v1 v2 where calls: "link_file tg p q w = (Inr (), v1)" "lstat tg q v1 = (Inr published, v2)"
    "lstat tg p v2 = (Inr current, v)" by auto
  have f1: "tw_files v1 = (tw_files w)\<lparr>fl_entries := (fl_entries (tw_files w))(q := fl_entries (tw_files w) p)\<rparr>"
    "fl_entries (tw_files w) q = None"
    using syscall_files [OF quiet calls(1) [unfolded link_file_def]] by (auto split: if_splits)
  have f2: "tw_files v = tw_files v1" "fl_entries (tw_files v1) q = Some published"
    using lstat_quiet [OF quiet calls(2)] lstat_quiet [OF quiet calls(3)] by simp_all
  from rest obtain x where "unlink_file tg p v = (x, w')" ..
  then have "tw_files w' = tw_files v \<or> tw_files w' = (tw_files v)\<lparr>fl_entries := (fl_entries (tw_files v))(p := None)\<rparr>"
    using syscall_files [OF quiet, of _ v x w'] unfolding unlink_file_def by (fastforce split: if_splits)
  with f1 f2 same paths show ?thesis by auto
qed

section \<open>The parts of a successful call\<close>

lemma on_base_files: "on_base m w = (r, w') \<Longrightarrow> tw_files w' = tw_files w \<and> tw_syscalls w' = tw_syscalls w \<and> tw_reads w' = tw_reads w"
  by (auto simp: on_base_def split: prod.splits sum.splits)

lemma checked_eq [simp]: "checked r w = (Inr x, w') \<longleftrightarrow> r = Inr x \<and> w' = w"
  by (auto simp: checked_def split: sum.splits)

lemma destinations_differ:
  "transfer_destination tg q True = Inr partial \<Longrightarrow> transfer_destination tg q False = Inr final \<Longrightarrow> partial \<noteq> final"
  by (auto simp: transfer_destination_def Let_def split: if_splits option.splits)
    (metis append_butlast_last_id last_snoc list.distinct(1) self_append_conv)

end
