(* ===== verification/Transfer_History.thy ===== *)
theory Transfer_History
  imports Transfer_Files
begin

text \<open>
  The records a planned transfer can become by external attempts and resumed downloads: they are
  valid, belong to the planned requirement, and hold the complete history of the attempts.
\<close>

section \<open>Successful operations\<close>

lemma record_external_attempt_Inr:
  assumes "record_external_attempt tg r bytes checkpoint outcome code detail w = (Inr r', w')"
  obtains started ended a where "a = next_attempt r started ended bytes outcome code detail"
    "transfer_attempt_post_init a = None" "r' = next_record r a checkpoint" "transfer_record_post_init r' = None"
    "tr_state r \<notin> {''completed'', ''failed''}"
  using assms by (auto simp: record_external_attempt_def Let_def split: if_splits)

lemma finish_attempt_Inr:
  assumes "finish_attempt tg r started offset (outcome, code, detail, digest) w = (Inr r', w')"
  obtains ended where "transfer_attempt_post_init (next_attempt r started ended offset outcome code detail) = None"
    "r' = next_record r (next_attempt r started ended offset outcome code detail) digest"
    "transfer_record_post_init r' = None" "tw_files w' = tw_files w"
  using assms by (auto simp: finish_attempt_def emit_transfer_def dest!: on_base_files)

lemma run_attempt_Inr:
  assumes "run_attempt tg r src limits partial final identity started w = (Inr r', w')"
  obtains w1 offset ending w2 result w3 where "tw_files w1 = tw_files w"
    "transfer_block tg src r limits partial identity w1 = ((offset, ending), w2)"
    "finish_block tg r partial final offset ending w2 = (Inr result, w3)"
    "finish_attempt tg r started offset result w3 = (Inr r', w')"
  using assms by (auto simp: run_attempt_def emit_transfer_def dest!: on_base_files)

lemma resume_download_Inr:
  assumes "resume_download tg r src limits w = (Inr r', w')"
  obtains partial final identity w1 started w2 where "check_limits r limits = Inr ()"
    "transfer_destination tg (tr_requirement r) True = Inr partial" "transfer_destination tg (tr_requirement r) False = Inr final"
    "check_resume tg r partial final w = (Inr identity, w1)" "tw_files w2 = tw_files w1"
    "run_attempt tg r src limits partial final identity started w2 = (Inr r', w')"
  using assms by (auto simp: resume_download_def dest!: on_base_files)

lemma resume_download_next:
  assumes "resume_download tg r src limits w = (Inr r', w')"
  obtains started ended offset outcome code detail digest where "check_limits r limits = Inr ()"
    "r' = next_record r (next_attempt r started ended offset outcome code detail) digest" "transfer_record_post_init r' = None"
    "transfer_attempt_post_init (next_attempt r started ended offset outcome code detail) = None"
proof -
  from assms obtain partial final identity w1 started w2 where limits: "check_limits r limits = Inr ()"
    and run: "run_attempt tg r src limits partial final identity started w2 = (Inr r', w')" by (rule resume_download_Inr)
  from run obtain offset result w3 where "finish_attempt tg r started offset result w3 = (Inr r', w')"
    by (rule run_attempt_Inr)
  with limits that show thesis by (cases result) (auto elim!: finish_attempt_Inr)
qed

text \<open>Both operations append an attempt to a record that is not final.\<close>

lemma next_recordI:
  assumes "r' = next_record r (next_attempt r started ended offset outcome code detail) digest" "transfer_record_post_init r' = None"
    "transfer_attempt_post_init (next_attempt r started ended offset outcome code detail) = None" "valid_transfer r"
  shows "valid_transfer r'" "tr_requirement r' = tr_requirement r" "tr_resumable r' = tr_resumable r"
    "\<exists>a. tr_attempts r' = tr_attempts r @ [a] \<and> tp_outcome a = tr_state r'"
  using assms by (auto simp: valid_transfer_def next_record_def)

section \<open>Histories\<close>

inductive transfer_step :: "transfer_manager \<Rightarrow> transfer_record \<Rightarrow> transfer_record \<Rightarrow> bool" for tg where
  external: "record_external_attempt tg r bytes checkpoint outcome code detail w = (Inr r', w') \<Longrightarrow> transfer_step tg r r'"
| resumed: "resume_download tg r src limits w = (Inr r', w') \<Longrightarrow> transfer_step tg r r'"

lemma transfer_step_next:
  assumes "transfer_step tg r r'" "valid_transfer r"
  shows "tr_state r \<notin> {''completed'', ''failed''} \<and> valid_transfer r' \<and> tr_requirement r' = tr_requirement r \<and>
    tr_resumable r' = tr_resumable r \<and> (\<exists>a. tr_attempts r' = tr_attempts r @ [a] \<and> tp_outcome a = tr_state r')"
  using assms(1)
proof cases
  case (external bytes checkpoint outcome code detail w w')
  from external obtain started ended where "r' = next_record r (next_attempt r started ended bytes outcome code detail) checkpoint"
      "transfer_record_post_init r' = None"
      "transfer_attempt_post_init (next_attempt r started ended bytes outcome code detail) = None"
      and state: "tr_state r \<notin> {''completed'', ''failed''}"
    by (metis record_external_attempt_Inr)
  from next_recordI [OF this(1-3) assms(2)] state show ?thesis by blast
next
  case (resumed src limits w w')
  from resumed obtain started ended offset outcome code detail digest where
      "r' = next_record r (next_attempt r started ended offset outcome code detail) digest"
      "transfer_record_post_init r' = None"
      "transfer_attempt_post_init (next_attempt r started ended offset outcome code detail) = None"
      and limits: "check_limits r limits = Inr ()"
    by (metis resume_download_next)
  from next_recordI [OF this(1-3) assms(2)] limits show ?thesis by (auto simp: check_limits_def split: if_splits)
qed

definition history_ok :: "transfer_record \<Rightarrow> bool" where
  "history_ok r \<longleftrightarrow> valid_transfer r \<and>
     tr_state r = (if tr_attempts r = [] then ''planned'' else tp_outcome (last (tr_attempts r))) \<and>
     (\<forall>a \<in> set (butlast (tr_attempts r)). tp_outcome a = ''interrupted'')"

lemma planned_ok:
  "plan_transfer tg n operation locator sha bytes path key w = (Inr r, w') \<Longrightarrow> history_ok r \<and> tr_resumable r"
  by (auto simp: plan_transfer_def history_ok_def valid_transfer_def)

lemma valid_state:
  assumes "valid_transfer r" "tr_attempts r = as @ [a]" "tr_state r = tp_outcome a" "tr_state r \<notin> {''completed'', ''failed''}"
  shows "tp_outcome a = ''interrupted''"
proof -
  have "transfer_attempt_post_init a = None" using assms(1,2) by (simp add: valid_transfer_def)
  then show ?thesis using assms(3,4) by (auto simp: transfer_attempt_post_init_def validates)
qed

lemma history_step: "transfer_step tg r r' \<Longrightarrow> history_ok r \<Longrightarrow> history_ok r'"
proof -
  assume step: "transfer_step tg r r'" and ok: "history_ok r"
  then have valid: "valid_transfer r" by (simp add: history_ok_def)
  from transfer_step_next [OF step valid] obtain a where a: "tr_state r \<notin> {''completed'', ''failed''}" "valid_transfer r'"
    "tr_attempts r' = tr_attempts r @ [a]" "tp_outcome a = tr_state r'" by blast
  have "tp_outcome b = ''interrupted''" if b: "b \<in> set (tr_attempts r)" for b
  proof (cases "b \<in> set (butlast (tr_attempts r))")
    case True
    with ok show ?thesis by (simp add: history_ok_def)
  next
    case False
    with b have "b = last (tr_attempts r)" "tr_attempts r = butlast (tr_attempts r) @ [last (tr_attempts r)]"
      by (metis append_butlast_last_id in_set_butlast_appendI list.set_cases append_Nil Un_iff empty_iff empty_set set_append set_ConsD)+
    with valid_state [OF valid _ _ a(1)] ok b show ?thesis by (auto simp: history_ok_def split: if_splits)
  qed
  with a ok show "history_ok r'" by (simp add: history_ok_def)
qed

text \<open>The offsets of a valid history increase up to the bytes completed.\<close>

lemma contiguous_offsets:
  assumes "contiguous_from n as" "\<forall>a \<in> set as. transfer_attempt_post_init a = None"
  shows "sorted (n # map tp_offset_end as)"
  using assms
proof (induction as arbitrary: n)
  case (Cons a as)
  then have "n \<le> tp_offset_end a" "sorted (tp_offset_end a # map tp_offset_end as)"
    by (auto simp: transfer_attempt_post_init_def validates)
  then show ?case by auto
qed simp

text \<open>
  C40. The record of a planned transfer, after any sequence of external attempts and resumed
  downloads, is valid: the requirement is the planned one, the state is that of the last
  attempt, all earlier attempts were interruptions, their offsets increase within the required
  size, and a completed record proves digest and size of its requirement.
\<close>

theorem transfer_records_valid:
  assumes "plan_transfer tg n operation locator sha bytes path key w = (Inr p, w')" "(transfer_step tg)\<^sup>*\<^sup>* p r"
  shows "valid_transfer r \<and> tr_requirement r = tr_requirement p \<and>
    tr_state r = (if tr_attempts r = [] then ''planned'' else tp_outcome (last (tr_attempts r))) \<and>
    (\<forall>a \<in> set (butlast (tr_attempts r)). tp_outcome a = ''interrupted'') \<and>
    sorted (map tp_offset_end (tr_attempts r)) \<and> tr_bytes_completed r \<le> tq_expected_size_bytes (tr_requirement r) \<and>
    (tr_state r = ''completed'' \<longrightarrow> tr_verified_sha256 r = Some sha \<and> tr_verified_size_bytes r = Some bytes)"
proof -
  have ok: "history_ok r \<and> tr_requirement r = tr_requirement p"
    using assms(2)
  proof (induction rule: rtranclp_induct)
    case base
    show ?case using planned_ok [OF assms(1)] by simp
  next
    case (step r r')
    with history_step transfer_step_next show ?case by (metis history_ok_def)
  qed
  then have valid: "transfer_record_post_init r = None" "\<forall>a \<in> set (tr_attempts r). transfer_attempt_post_init a = None"
    by (simp_all add: history_ok_def valid_transfer_def)
  then have "contiguous_from 0 (tr_attempts r)" "tr_bytes_completed r \<le> tq_expected_size_bytes (tr_requirement r)"
    "tr_state r = ''completed'' \<longrightarrow> tr_verified_sha256 r = Some (tq_expected_sha256 (tr_requirement r)) \<and>
       tr_verified_size_bytes r = Some (tq_expected_size_bytes (tr_requirement r))"
    by (auto simp: transfer_record_post_init_def validates completed_checks_def split: if_splits)
  moreover have "tq_expected_sha256 (tr_requirement p) = sha" "tq_expected_size_bytes (tr_requirement p) = bytes"
    using assms(1) by (auto simp: plan_transfer_def)
  ultimately show ?thesis using ok contiguous_offsets [OF _ valid(2), of 0] by (auto simp: history_ok_def)
qed

end
