(* ===== verification/Transfer_Properties.thy ===== *)
theory Transfer_Properties
  imports Transfer_History
begin

text \<open>
  What a download leaves in the file system: a completed one has published exactly the required
  bytes, and one that is interrupted before its first byte cannot be resumed.
\<close>

section \<open>Publication\<close>

lemma finish_block_completed:
  assumes quiet: "undisturbed tg" and paths: "p \<noteq> q"
    and run: "finish_block tg r p q offset ending w = (Inr (''completed'', code, detail, digest), w')"
  shows "\<exists>i. fl_entries (tw_files w) q = None \<and> hashed_at tg (tw_files w') q i offset (tq_expected_sha256 (tr_requirement r))"
proof -
  obtain len identity v where state: "partial_state tg p offset w = (Inr (len, digest, identity), v)" "len = offset"
    and rest: "op_bind (if ending \<noteq> Reached then op_return (block_outcome ending)
       else if digest \<noteq> tq_expected_sha256 (tr_requirement r)
       then op_return (''failed'', ''digest-mismatch'', ''completed transfer bytes do not match the immutable digest'')
       else always (publish_partial tg p q identity))
       (\<lambda>(outcome, code, detail). op_return (outcome, code, detail, digest)) v =
      (Inr (''completed'', code, detail, digest), w')"
    using run by (auto simp: finish_block_def split: if_splits)
  from rest have digest: "digest = tq_expected_sha256 (tr_requirement r)"
    and publish: "publish_partial tg p q identity v = ((''completed'', code, detail), w')"
    by (auto simp: block_outcome_def split: if_splits loop_end.splits prod.splits)
  from publish_partial_quiet [OF quiet paths publish] obtain i where i: "identity = Some i"
      "fl_entries (tw_files w') q = Some (Inode i)" "fl_data (tw_files w') = fl_data (tw_files v)" "fl_entries (tw_files v) q = None"
    by auto
  from partial_state_quiet [OF quiet state(1)] i(1) have "tw_files v = tw_files w" "hashed_at tg (tw_files w) p i len digest"
    by (auto split: if_splits)
  with i digest state(2) show ?thesis by (auto simp: hashed_at_def)
qed

text \<open>
  C9. When no other process interferes, a completed download has published what was required: at
  the start its destination was free, and now the destination is a regular file whose bytes have
  the required number and digest, whatever the source delivered and whichever calls failed.
\<close>

theorem completed_download_published:
  assumes "undisturbed tg" "resume_download tg r src limits w = (Inr r', w')" "tr_state r' = ''completed''"
  shows "\<exists>final i. transfer_destination tg (tr_requirement r) False = Inr final \<and> fl_entries (tw_files w) final = None \<and>
    fl_entries (tw_files w') final = Some (Inode i) \<and>
    transfer_digest tg (fl_data (tw_files w') i) = tq_expected_sha256 (tr_requirement r) \<and>
    int (length (fl_data (tw_files w') i)) = tq_expected_size_bytes (tr_requirement r)"
proof -
  from assms(2) obtain partial final identity w1 started w2 where
    start: "transfer_destination tg (tr_requirement r) True = Inr partial" "transfer_destination tg (tr_requirement r) False = Inr final"
      "check_resume tg r partial final w = (Inr identity, w1)" "run_attempt tg r src limits partial final identity started w2 = (Inr r', w')"
    by (rule resume_download_Inr)
  from start(4) obtain w3 offset ending w4 result w5 where block: "finish_block tg r partial final offset ending w4 = (Inr result, w5)"
    "finish_attempt tg r started offset result w5 = (Inr r', w')" by (rule run_attempt_Inr)
  obtain outcome code detail digest where result: "result = (outcome, code, detail, digest)" by (cases result)
  from block(2) [unfolded result] obtain ended where new: "r' = next_record r (next_attempt r started ended offset outcome code detail) digest"
    "transfer_record_post_init r' = None" "tw_files w' = tw_files w5" by (rule finish_attempt_Inr)
  then have "outcome = ''completed''" "offset = tq_expected_size_bytes (tr_requirement r)"
    using assms(3) by (auto simp: next_record_def next_attempt_def transfer_record_post_init_def completed_checks_def validates)
  with finish_block_completed [OF assms(1) destinations_differ [OF start(1,2)]] block(1) result new(3)
  have "\<exists>i. hashed_at tg (tw_files w') final i (tq_expected_size_bytes (tr_requirement r)) (tq_expected_sha256 (tr_requirement r))"
    by fastforce
  moreover have "fl_entries (tw_files w) final = None"
    using start(3) by (auto simp: check_resume_def split: if_splits dest!: entry_present_quiet [OF assms(1)])
  ultimately show ?thesis using start(2) by (auto simp: hashed_at_def)
qed

section \<open>Interruption before the first byte\<close>

definition keeps_entries :: "(transfer_world, 'e, 'a) operation \<Rightarrow> bool" where
  "keeps_entries m \<longleftrightarrow> (\<forall>w x w'. m w = (x, w') \<longrightarrow> fl_entries (tw_files w') = fl_entries (tw_files w))"

lemma keeps_entries_bind [intro]:
  assumes "keeps_entries m" "\<And>x. keeps_entries (f x)"
  shows "keeps_entries (op_bind m f)"
  using assms unfolding keeps_entries_def by (auto simp: op_bind_def split: prod.splits sum.splits)

lemma keeps_entries_simps [simp]: "keeps_entries (op_lift r)" "keeps_entries (op_return y)" "keeps_entries (on_base b)"
  "keeps_entries (read_source src locator offset limit)" "keeps_entries (checked c)"
  by (auto simp: keeps_entries_def read_source_def checked_def dest!: on_base_files)

lemma keeps_entries_stops [simp]: "keeps_entries m \<Longrightarrow> keeps_entries (stops_at offset m)"
  by (auto simp: keeps_entries_def stops_at_def split: prod.splits sum.splits)

lemma keeps_entries_syscall:
  assumes "undisturbed tg" "\<And>fault fs. fl_entries (snd (f fault fs)) = fl_entries fs"
  shows "keeps_entries (syscall tg f)"
  unfolding keeps_entries_def using syscall_files [OF assms(1)] assms(2) by (metis snd_conv)

lemma keeps_entries_calls [simp]:
  "undisturbed tg \<Longrightarrow> keeps_entries (write_block tg i bytes)"
  "undisturbed tg \<Longrightarrow> keeps_entries (entry_present tg p)"
  "undisturbed tg \<Longrightarrow> keeps_entries (lstat tg p)"
  "undisturbed tg \<Longrightarrow> keeps_entries (open_read tg p)"
  "undisturbed tg \<Longrightarrow> keeps_entries (read_file tg i)"
  unfolding write_block_def entry_present_def lstat_def open_read_def read_file_def
  by (rule keeps_entries_syscall; simp add: append_data_def split: option.splits)+

lemma keeps_entries_chunk: "undisturbed tg \<Longrightarrow> keeps_entries (transfer_chunk tg src r limits i chunks offset)"
  unfolding transfer_chunk_def read_chunk_def Let_def emit_transfer_def
  by (intro keeps_entries_bind) (auto split: if_splits intro!: keeps_entries_bind)

lemma transfer_loop_entries:
  "undisturbed tg \<Longrightarrow> transfer_loop tg src r limits i chunks offset w = (x, w') \<Longrightarrow>
     fl_entries (tw_files w') = fl_entries (tw_files w)"
proof (induction tg src r limits i chunks offset w arbitrary: x w' rule: transfer_loop.induct)
  case (1 tg src r limits i chunks offset w)
  obtain stop v where step: "transfer_chunk tg src r limits i chunks offset w = (stop, v)" by (metis surj_pair)
  have v: "fl_entries (tw_files v) = fl_entries (tw_files w)"
    using keeps_entries_chunk [OF 1(2)] step by (simp add: keeps_entries_def)
  show ?case
  proof (cases "offset < tq_expected_size_bytes (tr_requirement r)")
    case True
    show ?thesis
    proof (cases stop)
      case (Inl y)
      with True 1(3) step v show ?thesis by (subst (asm) transfer_loop.simps) simp
    next
      case (Inr n)
      with True 1(3) step have "transfer_loop tg src r limits i (chunks + 1) (offset + int n) v = (x, w')"
        by (subst (asm) transfer_loop.simps) simp
      with 1(1) [OF True step [symmetric] Inr 1(2)] v show ?thesis by simp
    qed
  next
    case False
    with 1(3) show ?thesis by (subst (asm) transfer_loop.simps) simp
  qed
qed

lemma keeps_entries_hash [simp]: "undisturbed tg \<Longrightarrow> keeps_entries (hash_path tg p)"
proof -
  assume quiet: "undisturbed tg"
  have "keeps_entries (op_bind (open_read tg p) (\<lambda>opened. op_bind (read_file tg opened) (\<lambda>bytes. op_bind (lstat tg p) (\<lambda>after.
      if opened \<noteq> before \<or> after \<noteq> Inode opened
      then op_lift (Inl (TransferIntegrityError ''transfer checkpoint changed identity during verification''))
      else op_return (int (length bytes), transfer_digest tg bytes, opened)))))" for before
    using quiet by (auto intro!: keeps_entries_bind)
  with keeps_entries_calls(3) [OF quiet, of p] show ?thesis
    unfolding keeps_entries_def hash_path_def by (fastforce split: prod.splits sum.splits file_entry.splits)
qed

text \<open>An attempt that ends before the first byte leaves the partial file it has created.\<close>

lemma finish_block_entries:
  assumes quiet: "undisturbed tg"
    and run: "finish_block tg r p q offset ending w = (Inr (''interrupted'', code, detail, digest), w')"
  shows "fl_entries (tw_files w') = fl_entries (tw_files w)"
proof -
  have "keeps_entries (partial_state tg p offset)"
    unfolding partial_state_def using quiet by (auto intro!: keeps_entries_bind)
  then have state: "fl_entries (tw_files v) = fl_entries (tw_files w)" if "partial_state tg p offset w = (x, v)" for x v
    using that by (simp add: keeps_entries_def)
  have "publish_partial tg p q identity v \<noteq> ((''interrupted'', code, detail), v')" for identity v v' code detail
    by (auto simp: publish_partial_def block_outcome_def split: prod.splits sum.splits transfer_error.splits if_splits)
  with run state show ?thesis
    by (auto simp: finish_block_def split: if_splits prod.splits)
qed

lemma check_resume_new:
  assumes "undisturbed tg" "check_resume tg r p q w = (Inr identity, w')" "tr_bytes_completed r = 0"
  shows "identity = None \<and> fl_entries (tw_files w) p = None \<and> fl_entries (tw_files w) q = None \<and> tw_files w' = tw_files w"
  using assms(2,3) by (auto simp: check_resume_def split: if_splits dest!: entry_present_quiet [OF assms(1)])

lemma created_block:
  assumes quiet: "undisturbed tg" and faults: "\<forall>n. tg_fault tg n = None" and free: "fl_entries (tw_files w) p = None"
    and new: "tr_bytes_completed r = 0" and run: "transfer_block tg src r limits p None w = (x, w')"
  shows "fl_entries (tw_files w') = (fl_entries (tw_files w))(p \<mapsto> Inode (fl_fresh (tw_files w)))"
proof -
  obtain res v where opened: "open_partial tg p 0 w = (res, v)" by (metis surj_pair)
  with syscall_files [OF quiet opened [unfolded open_partial_def]] free faults
  have v: "res = Inr (Inode (fl_fresh (tw_files w)))" "tw_files v = create_file p (tw_files w)" by auto
  with run opened new have "transfer_loop tg src r limits (fl_fresh (tw_files w)) 0 0 v = (x, w')"
    by (simp add: transfer_block_def)
  from transfer_loop_entries [OF quiet this] v show ?thesis by (simp add: create_file_def)
qed

text \<open>An attempt that ends before the first byte leaves the partial file it has created.\<close>

lemma stalled_attempt:
  assumes quiet: "undisturbed tg" and faults: "\<forall>n. tg_fault tg n = None"
    and run: "resume_download tg r src limits w = (Inr r', w')" and stalled: "tr_bytes_completed r' = 0" "tr_state r' = ''interrupted''"
    and bytes: "0 \<le> tr_bytes_completed r"
  obtains partial final where "transfer_destination tg (tr_requirement r) True = Inr partial"
    "transfer_destination tg (tr_requirement r) False = Inr final"
    "fl_entries (tw_files w') partial \<noteq> None" "fl_entries (tw_files w') final = None" "tr_requirement r' = tr_requirement r"
proof -
  from run obtain partial final identity w1 started w2 where paths: "transfer_destination tg (tr_requirement r) True = Inr partial"
      "transfer_destination tg (tr_requirement r) False = Inr final"
    and start: "check_resume tg r partial final w = (Inr identity, w1)" "tw_files w2 = tw_files w1"
      "run_attempt tg r src limits partial final identity started w2 = (Inr r', w')"
    by (rule resume_download_Inr)
  from start(3) obtain w3 offset ending w4 result w5 where attempt: "tw_files w3 = tw_files w2"
      "transfer_block tg src r limits partial identity w3 = ((offset, ending), w4)"
      "finish_block tg r partial final offset ending w4 = (Inr result, w5)"
      "finish_attempt tg r started offset result w5 = (Inr r', w')" by (rule run_attempt_Inr)
  obtain outcome code detail digest where result: "result = (outcome, code, detail, digest)" by (cases result)
  from attempt(4) [unfolded result] obtain ended where
      new: "transfer_attempt_post_init (next_attempt r started ended offset outcome code detail) = None"
      "r' = next_record r (next_attempt r started ended offset outcome code detail) digest" "tw_files w' = tw_files w5"
    by (rule finish_attempt_Inr)
  then have r: "outcome = ''interrupted''" "tr_bytes_completed r = 0" "tr_requirement r' = tr_requirement r"
    using stalled bytes by (auto simp: next_record_def next_attempt_def transfer_attempt_post_init_def validates)
  note free = check_resume_new [OF quiet start(1) r(2)]
  have "fl_entries (tw_files w4) = (fl_entries (tw_files w3))(partial \<mapsto> Inode (fl_fresh (tw_files w3)))"
    using free start(2) attempt(1) attempt(2) by (intro created_block [OF quiet faults _ r(2)]) auto
  then have "fl_entries (tw_files w') partial \<noteq> None" "fl_entries (tw_files w') final = None"
    using finish_block_entries [OF quiet attempt(3) [unfolded result r(1)]] new(3) free start(2) attempt(1)
      destinations_differ [OF paths] by auto
  with paths r(3) that show thesis by blast
qed

text \<open>
  C17. A download that is interrupted before its first byte, by its source or by a cancellation,
  cannot be resumed: its own empty partial file is taken for that of another transfer, and every
  further attempt raises, with any source and limits, until the file is removed by hand.
\<close>

theorem stalled_download_stuck:
  assumes "undisturbed tg" "\<forall>n. tg_fault tg n = None" "valid_transfer r"
    and "resume_download tg r src limits w = (Inr r', w')" "tr_bytes_completed r' = 0" "tr_state r' = ''interrupted''"
    and "check_limits r' limits' = Inr ()" "tw_files v = tw_files w'"
  shows "fst (resume_download tg r' src' limits' v) =
    Inl (TransferIntegrityError ''unexpected partial transfer exists for a new plan'')"
proof -
  have "0 \<le> tr_bytes_completed r"
    using assms(3) by (auto simp: valid_transfer_def transfer_record_post_init_def validates safe_integer_def)
  from stalled_attempt [OF assms(1,2,4,5,6) this] obtain partial final where
    paths: "transfer_destination tg (tr_requirement r') True = Inr partial" "transfer_destination tg (tr_requirement r') False = Inr final"
    and files: "fl_entries (tw_files v) partial \<noteq> None" "fl_entries (tw_files v) final = None"
    using assms(8) by metis
  obtain a v1 where final: "entry_present tg final v = (a, v1)" by (metis surj_pair)
  obtain b v2 where partial: "entry_present tg partial v1 = (b, v2)" by (metis surj_pair)
  from entry_present_quiet [OF assms(1) final] entry_present_quiet [OF assms(1) partial] files
  have "a = Inr False" "b = Inr True" by auto
  with final partial assms(5,7) paths show ?thesis
    by (simp add: resume_download_def check_resume_def op_bind_def checked_def op_lift_def)
qed

end
