(* ===== verification/Transfer_Liveness.thy ===== *)
theory Transfer_Liveness
  imports Transfer_Properties
begin

text \<open>
  Downloads that come to an end: with a source that delivers the required content and an
  operating system that does what it is asked, every attempt extends the partial file by what its
  chunk budget allows, and the attempt that reaches the end publishes the content.
\<close>

section \<open>A working environment\<close>

definition honest_source :: "chunk_source \<Rightarrow> string \<Rightarrow> nat list \<Rightarrow> bool" where
  "honest_source src locator content \<longleftrightarrow> (\<forall>h offset limit. 0 \<le> offset \<longrightarrow>
     so_read src h locator offset limit = Inr (Some (take (nat limit) (drop (nat offset) content))))"

definition working :: "transfer_manager \<Rightarrow> bool" where
  "working tg \<longleftrightarrow> undisturbed tg \<and> (\<forall>n. tg_fault tg n = None) \<and> publisher_ok (tg_base tg) \<and>
     (\<exists>f. mono f \<and> (\<forall>n. cg_clock (tg_base tg) n = Aware (f n))) \<and> (\<forall>bytes. is_sha256 (transfer_digest tg bytes))"

lemma workingD:
  assumes "working tg"
  shows "undisturbed tg" "tg_fault tg n = None" "publisher_ok (tg_base tg)" "is_sha256 (transfer_digest tg bytes)"
  using assms by (simp_all add: working_def)

definition world_ticks :: "transfer_world \<Rightarrow> nat" where
  "world_ticks w = cw_ticks (tw_base w)"

text \<open>A call that works returns the value and leaves the files that its definition says.\<close>

lemma working_syscall:
  assumes "working tg" "f None (tw_files w) = (r, fs)"
  shows "\<exists>w'. syscall tg f w = (r, w') \<and> tw_files w' = fs \<and> world_ticks w' = world_ticks w"
  using assms by (auto simp: working_def undisturbed_def syscall_def world_ticks_def)

lemma working_entry_present:
  "working tg \<Longrightarrow> \<exists>w'. entry_present tg p w = (Inr (fl_entries (tw_files w) p \<noteq> None), w') \<and> tw_files w' = tw_files w \<and>
     world_ticks w' = world_ticks w"
  unfolding entry_present_def by (rule working_syscall) simp_all

lemma working_lstat:
  "working tg \<Longrightarrow> fl_entries (tw_files w) p = Some e \<Longrightarrow>
     \<exists>w'. lstat tg p w = (Inr e, w') \<and> tw_files w' = tw_files w \<and> world_ticks w' = world_ticks w"
  unfolding lstat_def by (rule working_syscall) simp_all

lemma working_open_read:
  "working tg \<Longrightarrow> fl_entries (tw_files w) p = Some (Inode i) \<Longrightarrow>
     \<exists>w'. open_read tg p w = (Inr i, w') \<and> tw_files w' = tw_files w \<and> world_ticks w' = world_ticks w"
  unfolding open_read_def by (rule working_syscall) simp_all

lemma working_read_file:
  "working tg \<Longrightarrow> \<exists>w'. read_file tg i w = (Inr (fl_data (tw_files w) i), w') \<and> tw_files w' = tw_files w \<and>
     world_ticks w' = world_ticks w"
  unfolding read_file_def by (rule working_syscall) simp_all

lemma working_write:
  "working tg \<Longrightarrow> \<exists>w'. write_block tg i bytes w = (Inr (), w') \<and> tw_files w' = append_data i bytes (tw_files w) \<and>
     world_ticks w' = world_ticks w"
  unfolding write_block_def by (rule working_syscall) simp_all

lemma working_hash:
  assumes "working tg" "fl_entries (tw_files w) p = Some (Inode i)"
  shows "\<exists>w'. hash_path tg p w = (Inr (int (length (fl_data (tw_files w) i)), transfer_digest tg (fl_data (tw_files w) i), i), w') \<and>
    tw_files w' = tw_files w \<and> world_ticks w' = world_ticks w"
proof -
  obtain w1 where 1: "lstat tg p w = (Inr (Inode i), w1)" "tw_files w1 = tw_files w" "world_ticks w1 = world_ticks w"
    using working_lstat [OF assms] by blast
  obtain w2 where 2: "open_read tg p w1 = (Inr i, w2)" "tw_files w2 = tw_files w" "world_ticks w2 = world_ticks w"
    using working_open_read [OF assms(1), of w1 p i] assms(2) 1 by auto
  obtain w3 where 3: "read_file tg i w2 = (Inr (fl_data (tw_files w) i), w3)" "tw_files w3 = tw_files w" "world_ticks w3 = world_ticks w"
    using working_read_file [OF assms(1), of i w2] 2 by auto
  obtain w4 where "lstat tg p w3 = (Inr (Inode i), w4)" "tw_files w4 = tw_files w" "world_ticks w4 = world_ticks w"
    using working_lstat [OF assms(1), of w3 p "Inode i"] assms(2) 3 by auto
  with 1 2 3 show ?thesis by (simp add: hash_path_def op_bind_def)
qed

lemma working_emit:
  assumes "working tg"
  shows "\<exists>w'. emit_transfer tg r status phase attempt message terminal current w = (Inr (), w') \<and> tw_files w' = tw_files w \<and>
    world_ticks w' = world_ticks w"
proof -
  obtain b where "publish_event (tg_base tg) (transfer_event r status phase attempt message terminal current) (tw_base w) = (Inr (), b)"
    using publish_event_returns workingD(3) [OF assms] by blast
  with publish_event_Inr [OF this] show ?thesis by (simp add: emit_transfer_def on_base_def world_ticks_def)
qed

lemma working_stamp:
  assumes "cg_clock (tg_base tg) (world_ticks w) = Aware t"
  shows "\<exists>w'. on_base (stamp_now (tg_base tg)) w = (Inr (cache_stamp t), w') \<and> tw_files w' = tw_files w \<and>
    world_ticks w' = world_ticks w + 1"
  using assms by (simp add: on_base_def stamp_now_def cache_now_def op_bind_def op_return_def world_ticks_def)

section \<open>One chunk\<close>

text \<open>How far an attempt gets from an offset with the chunks that are left to it.\<close>

definition reachable_offset :: "chunk_limits \<Rightarrow> int \<Rightarrow> int \<Rightarrow> int \<Rightarrow> int" where
  "reachable_offset limits total_bytes chunks offset =
     (case cl_maximum_chunks limits of
        None \<Rightarrow> total_bytes
      | Some m \<Rightarrow> min total_bytes (offset + (m - chunks) * cl_chunk_size limits))"

lemma honest_chunk:
  assumes ok: "working tg" and src: "honest_source src (tq_locator (tr_requirement r)) content"
    and content: "tq_expected_size_bytes (tr_requirement r) = int (length content)"
    and offset: "0 \<le> offset" "offset < int (length content)" and chunk: "1 \<le> cl_chunk_size limits"
    and going: "cl_cancelled limits = (\<lambda>_. False)" "\<forall>m. cl_maximum_chunks limits = Some m \<longrightarrow> chunks < m"
    and n: "n = nat (min (cl_chunk_size limits) (int (length content) - offset))"
  shows "\<exists>w'. transfer_chunk tg src r limits i chunks offset w = (Inr n, w') \<and>
    tw_files w' = append_data i (take n (drop (nat offset) content)) (tw_files w) \<and> world_ticks w' = world_ticks w"
proof -
  let ?bytes = "take n (drop (nat offset) content)"
  have len: "length ?bytes = n" "0 < n" using offset chunk n by auto
  define w1 where "w1 = w\<lparr>tw_base := (tw_base w)\<lparr>cw_polls := cw_polls (tw_base w) + 1\<rparr>\<rparr>"
  define w2 where "w2 = w1\<lparr>tw_reads := tw_reads w1 @ [(tq_locator (tr_requirement r), offset,
      min (cl_chunk_size limits) (int (length content) - offset))]\<rparr>"
  have poll: "stops_at offset (on_base (poll_cancelled (cl_cancelled limits))) w = (Inr False, w1)"
    by (simp add: stops_at_def on_base_def poll_cancelled_def going(1) w1_def)
  have read: "stops_at offset (read_source src (tq_locator (tr_requirement r)) offset
      (min (cl_chunk_size limits) (int (length content) - offset))) w1 = (Inr (Some ?bytes), w2)"
    using src offset(1) by (simp add: stops_at_def read_source_def honest_source_def w2_def n)
  have budget: "(case cl_maximum_chunks limits of None \<Rightarrow> False | Some m \<Rightarrow> chunks \<ge> m) = False"
    using going(2) by (auto split: option.split)
  have fits: "(?bytes = [] \<or> int (length ?bytes) > min (cl_chunk_size limits) (int (length content) - offset)) = False"
    using len n offset chunk by auto
  have "read_chunk src r limits chunks offset w = (Inr ?bytes, w2)"
    by (simp only: read_chunk_def Let_def content op_bind_def poll budget read fits op_lift_def prod.case sum.case option.case if_False)
  moreover obtain w3 where w3: "write_block tg i ?bytes w2 = (Inr (), w3)" "tw_files w3 = append_data i ?bytes (tw_files w2)"
      "world_ticks w3 = world_ticks w2" using working_write [OF ok] by blast
  moreover obtain w4 where "emit_transfer tg r ''running'' ''transfer'' (int (length (tr_attempts r)) + 1) ''transfer checkpoint persisted''
       False (Some (offset + int n)) w3 = (Inr (), w4)" "tw_files w4 = tw_files w3" "world_ticks w4 = world_ticks w3"
    using working_emit [OF ok] by blast
  moreover have "tw_files w2 = tw_files w" "world_ticks w2 = world_ticks w" by (simp_all add: w2_def w1_def world_ticks_def)
  ultimately show ?thesis using len(1) by (simp add: transfer_chunk_def op_bind_def stops_at_def op_return_def)
qed

lemma paused_chunk:
  assumes "cl_cancelled limits = (\<lambda>_. False)" "cl_maximum_chunks limits = Some chunks"
  shows "\<exists>w'. transfer_chunk tg src r limits i chunks offset w = (Inl (offset, Paused), w') \<and> tw_files w' = tw_files w \<and>
    world_ticks w' = world_ticks w"
  using assms by (simp add: transfer_chunk_def read_chunk_def Let_def op_bind_def stops_at_def on_base_def poll_cancelled_def
      op_lift_def world_ticks_def)

section \<open>One attempt\<close>

lemma reachable_offset_step:
  assumes "1 \<le> cl_chunk_size limits" "\<forall>m. cl_maximum_chunks limits = Some m \<longrightarrow> chunks < m" "offset < bytes"
  shows "reachable_offset limits bytes (chunks + 1) (offset + min (cl_chunk_size limits) (bytes - offset)) =
    reachable_offset limits bytes chunks offset"
proof (cases "cl_maximum_chunks limits")
  case (Some m)
  with assms have m: "1 \<le> m - chunks" by simp
  show ?thesis
  proof (cases "cl_chunk_size limits \<le> bytes - offset")
    case True
    then show ?thesis using Some by (simp add: reachable_offset_def min_def algebra_simps)
  next
    case False
    have "cl_chunk_size limits \<le> (m - chunks) * cl_chunk_size limits" "0 \<le> (m - (chunks + 1)) * cl_chunk_size limits"
      using m assms(1) by (simp_all add: mult_le_cancel_right1)
    with False Some show ?thesis by (simp add: reachable_offset_def)
  qed
qed (simp add: reachable_offset_def)

lemma honest_loop:
  assumes ok: "working tg" and src: "honest_source src (tq_locator (tr_requirement r)) content"
    and content: "tq_expected_size_bytes (tr_requirement r) = int (length content)"
    and chunk: "1 \<le> cl_chunk_size limits" and going: "cl_cancelled limits = (\<lambda>_. False)"
  shows "0 \<le> offset \<Longrightarrow> offset \<le> int (length content) \<Longrightarrow> \<forall>m. cl_maximum_chunks limits = Some m \<longrightarrow> chunks \<le> m \<Longrightarrow>
    fl_data (tw_files w) i = take (nat offset) content \<Longrightarrow> target = reachable_offset limits (int (length content)) chunks offset \<Longrightarrow>
    \<exists>w'. transfer_loop tg src r limits i chunks offset w = ((target, if target = int (length content) then Reached else Paused), w') \<and>
      tw_files w' = (tw_files w)\<lparr>fl_data := (fl_data (tw_files w))(i := take (nat target) content)\<rparr> \<and>
      world_ticks w' = world_ticks w"
proof (induction "nat (int (length content) - offset)" arbitrary: offset chunks w rule: less_induct)
  case less
  have same: "(tw_files w)\<lparr>fl_data := (fl_data (tw_files w))(i := take (nat offset) content)\<rparr> = tw_files w"
    by (simp flip: less.prems(4))
  consider (ended) "offset = int (length content)"
    | (paused) "offset < int (length content)" "cl_maximum_chunks limits = Some chunks"
    | (step) "offset < int (length content)" "\<forall>m. cl_maximum_chunks limits = Some m \<longrightarrow> chunks < m"
    using less.prems(2,3) by fastforce
  then show ?case
  proof cases
    case ended
    with less.prems(3,5) chunk have "target = offset" by (auto simp: reachable_offset_def split: option.splits)
    with ended same show ?thesis by (subst transfer_loop.simps) (simp add: content)
  next
    case paused
    then have "target = offset" using less.prems(5) by (simp add: reachable_offset_def)
    moreover obtain v where "transfer_chunk tg src r limits i chunks offset w = (Inl (offset, Paused), v)" "tw_files v = tw_files w"
      "world_ticks v = world_ticks w" using paused_chunk [OF going paused(2)] by blast
    ultimately show ?thesis using paused same by (subst transfer_loop.simps) (simp add: content)
  next
    case step
    define n where "n = nat (min (cl_chunk_size limits) (int (length content) - offset))"
    have n: "0 < n" "offset + int n = offset + min (cl_chunk_size limits) (int (length content) - offset)"
      "offset + int n \<le> int (length content)" using chunk step(1) by (auto simp: n_def)
    obtain v where v: "transfer_chunk tg src r limits i chunks offset w = (Inr n, v)"
      "tw_files v = append_data i (take n (drop (nat offset) content)) (tw_files w)" "world_ticks v = world_ticks w"
      using honest_chunk [OF ok src content less.prems(1) step(1) chunk going step(2) n_def] by blast
    have data: "fl_data (tw_files v) i = take (nat (offset + int n)) content"
      using v(2) less.prems(1,4) by (simp add: append_data_def take_add nat_add_distrib)
    have target: "target = reachable_offset limits (int (length content)) (chunks + 1) (offset + int n)"
      using reachable_offset_step [OF chunk step(2,1)] less.prems(5) n(2) by simp
    have "\<exists>w'. transfer_loop tg src r limits i (chunks + 1) (offset + int n) v =
        ((target, if target = int (length content) then Reached else Paused), w') \<and>
        tw_files w' = (tw_files v)\<lparr>fl_data := (fl_data (tw_files v))(i := take (nat target) content)\<rparr> \<and> world_ticks w' = world_ticks v"
      by (rule less.hyps) (use n step less.prems(1) data target in auto)
    with v step(1) show ?thesis by (subst transfer_loop.simps) (auto simp: content append_data_def)
  qed
qed

text \<open>The files from which an attempt can go on: the destination is free, the partial file holds the bytes so far.\<close>

definition continues :: "transfer_manager \<Rightarrow> transfer_record \<Rightarrow> nat list \<Rightarrow> string list \<Rightarrow> string list \<Rightarrow> files \<Rightarrow> bool" where
  "continues tg r content partial final fs \<longleftrightarrow> fl_entries fs final = None \<and>
     (if tr_bytes_completed r = 0 then fl_entries fs partial = None
      else \<exists>i. fl_entries fs partial = Some (Inode i) \<and> fl_data fs i = take (nat (tr_bytes_completed r)) content \<and>
        tr_checkpoint_sha256 r = transfer_digest tg (take (nat (tr_bytes_completed r)) content))"

lemma working_check:
  assumes ok: "working tg" and files: "continues tg r content partial final (tw_files w)"
    and bytes: "0 \<le> tr_bytes_completed r" "tr_bytes_completed r \<le> int (length content)"
  shows "\<exists>w'. check_resume tg r partial final w = (Inr (if tr_bytes_completed r = 0 then None
      else (case fl_entries (tw_files w) partial of Some (Inode i) \<Rightarrow> Some i | _ \<Rightarrow> None)), w') \<and>
    tw_files w' = tw_files w \<and> world_ticks w' = world_ticks w"
proof -
  obtain v where v: "entry_present tg final w = (Inr False, v)" "tw_files v = tw_files w" "world_ticks v = world_ticks w"
    using working_entry_present [OF ok, of final w] files by (auto simp: continues_def)
  show ?thesis
  proof (cases "tr_bytes_completed r = 0")
    case True
    with files have "fl_entries (tw_files v) partial = None" by (simp add: continues_def v(2))
    with working_entry_present [OF ok, of partial v] obtain u where "entry_present tg partial v = (Inr False, u)" "tw_files u = tw_files v"
      "world_ticks u = world_ticks v" by auto
    with v True show ?thesis by (simp add: check_resume_def op_bind_def op_return_def)
  next
    case False
    with files obtain i where i: "fl_entries (tw_files v) partial = Some (Inode i)"
      "fl_data (tw_files v) i = take (nat (tr_bytes_completed r)) content"
      "tr_checkpoint_sha256 r = transfer_digest tg (take (nat (tr_bytes_completed r)) content)"
      unfolding v(2) by (auto simp: continues_def)
    from working_hash [OF ok i(1)] obtain u where "hash_path tg partial v =
        (Inr (int (length (fl_data (tw_files v) i)), transfer_digest tg (fl_data (tw_files v) i), i), u)"
      "tw_files u = tw_files v" "world_ticks u = world_ticks v" by blast
    with v i False bytes show ?thesis by (simp add: check_resume_def op_bind_def op_return_def)
  qed
qed

lemma honest_block:
  assumes ok: "working tg" and src: "honest_source src (tq_locator (tr_requirement r)) content"
    and content: "tq_expected_size_bytes (tr_requirement r) = int (length content)"
    and chunk: "1 \<le> cl_chunk_size limits" and going: "cl_cancelled limits = (\<lambda>_. False)"
    and budget: "\<forall>m. cl_maximum_chunks limits = Some m \<longrightarrow> 1 \<le> m"
    and bytes: "0 \<le> tr_bytes_completed r" "tr_bytes_completed r \<le> int (length content)"
    and files: "continues tg r content partial final (tw_files w)" and paths: "partial \<noteq> final"
    and target: "target = reachable_offset limits (int (length content)) 0 (tr_bytes_completed r)"
  shows "\<exists>w' i. transfer_block tg src r limits partial (if tr_bytes_completed r = 0 then None
      else (case fl_entries (tw_files w) partial of Some (Inode i) \<Rightarrow> Some i | _ \<Rightarrow> None)) w =
      ((target, if target = int (length content) then Reached else Paused), w') \<and>
    fl_entries (tw_files w') partial = Some (Inode i) \<and> fl_entries (tw_files w') final = None \<and>
    fl_data (tw_files w') i = take (nat target) content \<and> world_ticks w' = world_ticks w"
proof -
  have max: "\<forall>m. cl_maximum_chunks limits = Some m \<longrightarrow> 0 \<le> m" using budget by fastforce
  obtain i v where v: "open_partial tg partial (tr_bytes_completed r) w = (Inr (Inode i), v)" "world_ticks v = world_ticks w"
    "fl_entries (tw_files v) partial = Some (Inode i)" "fl_entries (tw_files v) final = None"
    "fl_data (tw_files v) i = take (nat (tr_bytes_completed r)) content"
    and i: "tr_bytes_completed r \<noteq> 0 \<longrightarrow> fl_entries (tw_files w) partial = Some (Inode i)"
  proof (cases "tr_bytes_completed r = 0")
    case True
    have "\<exists>v. open_partial tg partial 0 w = (Inr (Inode (fl_fresh (tw_files w))), v) \<and> tw_files v = create_file partial (tw_files w) \<and>
        world_ticks v = world_ticks w"
      unfolding open_partial_def by (rule working_syscall [OF ok]) (use files True in \<open>simp add: continues_def\<close>)
    with True files paths that show thesis by (auto simp: create_file_def continues_def)
  next
    case False
    with files obtain i where i: "fl_entries (tw_files w) partial = Some (Inode i)" "fl_entries (tw_files w) final = None"
      "fl_data (tw_files w) i = take (nat (tr_bytes_completed r)) content" by (auto simp: continues_def)
    have "\<exists>v. open_partial tg partial (tr_bytes_completed r) w = (Inr (Inode i), v) \<and> tw_files v = tw_files w \<and>
        world_ticks v = world_ticks w"
      unfolding open_partial_def by (rule working_syscall [OF ok]) (use i False in simp)
    with i that show thesis by auto
  qed
  obtain w' where "transfer_loop tg src r limits i 0 (tr_bytes_completed r) v =
      ((target, if target = int (length content) then Reached else Paused), w')"
    "tw_files w' = (tw_files v)\<lparr>fl_data := (fl_data (tw_files v))(i := take (nat target) content)\<rparr>" "world_ticks w' = world_ticks v"
    using honest_loop [OF ok src content chunk going bytes max v(5) target] by blast
  with v i show ?thesis by (auto simp: transfer_block_def Let_def)
qed

lemma working_link:
  "working tg \<Longrightarrow> fl_entries (tw_files w) q = None \<Longrightarrow> fl_entries (tw_files w) p = Some e \<Longrightarrow>
     \<exists>w'. link_file tg p q w = (Inr (), w') \<and>
       tw_files w' = (tw_files w)\<lparr>fl_entries := (fl_entries (tw_files w))(q := Some e)\<rparr> \<and> world_ticks w' = world_ticks w"
  unfolding link_file_def by (rule working_syscall) simp_all

lemma working_unlink:
  "working tg \<Longrightarrow> fl_entries (tw_files w) p = Some e \<Longrightarrow>
     \<exists>w'. unlink_file tg p w = (Inr (), w') \<and>
       tw_files w' = (tw_files w)\<lparr>fl_entries := (fl_entries (tw_files w))(p := None)\<rparr> \<and> world_ticks w' = world_ticks w"
  unfolding unlink_file_def by (rule working_syscall) simp_all

lemma working_publish:
  assumes ok: "working tg" and files: "fl_entries (tw_files w) p = Some (Inode i)" "fl_entries (tw_files w) q = None" and paths: "p \<noteq> q"
  shows "\<exists>w'. publish_partial tg p q (Some i) w = (block_outcome Reached, w') \<and> fl_entries (tw_files w') q = Some (Inode i) \<and>
    fl_data (tw_files w') = fl_data (tw_files w) \<and> world_ticks w' = world_ticks w"
proof -
  obtain w1 where 1: "link_file tg p q w = (Inr (), w1)"
    "tw_files w1 = (tw_files w)\<lparr>fl_entries := (fl_entries (tw_files w))(q := Some (Inode i))\<rparr>" "world_ticks w1 = world_ticks w"
    using working_link [OF ok files(2,1)] by blast
  obtain w2 where 2: "lstat tg q w1 = (Inr (Inode i), w2)" "tw_files w2 = tw_files w1" "world_ticks w2 = world_ticks w1"
    using working_lstat [OF ok, of w1 q "Inode i"] 1(2) by auto
  obtain w3 where 3: "lstat tg p w2 = (Inr (Inode i), w3)" "tw_files w3 = tw_files w1" "world_ticks w3 = world_ticks w1"
    using working_lstat [OF ok, of w2 p "Inode i"] 1(2) 2(2,3) files(1) paths by auto
  obtain w4 where 4: "unlink_file tg p w3 = (Inr (), w4)"
    "tw_files w4 = (tw_files w3)\<lparr>fl_entries := (fl_entries (tw_files w3))(p := None)\<rparr>" "world_ticks w4 = world_ticks w3"
    using working_unlink [OF ok, of w3 p "Inode i"] 1(2) 3(2) files(1) paths by auto
  from 1(1) 2(1) 3(1) 4(1) have "publish_partial tg p q (Some i) w = (block_outcome Reached, w4)"
    by (simp add: publish_partial_def op_bind_def op_return_def)
  with 1 3 4 paths show ?thesis by auto
qed

lemma honest_finish:
  assumes ok: "working tg" and files: "fl_entries (tw_files w) p = Some (Inode i)" "fl_entries (tw_files w) q = None"
      "fl_data (tw_files w) i = take (nat target) content" and paths: "p \<noteq> q"
    and target: "0 \<le> target" "target \<le> int (length content)"
    and digest: "tq_expected_sha256 (tr_requirement r) = transfer_digest tg content"
    and ending: "ending = (if target = int (length content) then Reached else Paused)"
  shows "\<exists>w' outcome code detail. finish_block tg r p q target ending w =
      (Inr (outcome, code, detail, transfer_digest tg (take (nat target) content)), w') \<and>
    (outcome, code, detail) = block_outcome ending \<and> world_ticks w' = world_ticks w \<and>
    fl_data (tw_files w') i = take (nat target) content \<and>
    (if ending = Reached then fl_entries (tw_files w') q = Some (Inode i) else tw_files w' = tw_files w)"
proof -
  obtain v where v: "(if target = 0 then entry_present tg p else op_return True) w = (Inr True, v)" "tw_files v = tw_files w"
      "world_ticks v = world_ticks w"
  proof (cases "target = 0")
    case True
    with working_entry_present [OF ok, of p w] files(1) that show thesis by auto
  qed (simp add: op_return_def)
  have "fl_entries (tw_files v) p = Some (Inode i)" using v(2) files(1) by simp
  from working_hash [OF ok this] v target files(3) obtain u where u:
    "hash_path tg p v = (Inr (target, transfer_digest tg (take (nat target) content), i), u)"
    "tw_files u = tw_files w" "world_ticks u = world_ticks w" by auto
  have state: "partial_state tg p target w = (Inr (target, transfer_digest tg (take (nat target) content), Some i), u)"
    unfolding partial_state_def op_bind_run [of "if target = 0 then entry_present tg p else op_return True", OF v(1)]
    using u(1) by (simp add: op_bind_def op_return_def)
  show ?thesis
  proof (cases "ending = Reached")
    case True
    then have reached: "target = int (length content)" using ending by (auto split: if_splits)
    have "fl_entries (tw_files u) p = Some (Inode i)" "fl_entries (tw_files u) q = None" using u(2) files by simp_all
    from working_publish [OF ok this paths] obtain w' where "publish_partial tg p q (Some i) u = (block_outcome Reached, w')"
      "fl_entries (tw_files w') q = Some (Inode i)" "fl_data (tw_files w') = fl_data (tw_files u)" "world_ticks w' = world_ticks u" by blast
    with state u True reached digest files(3) show ?thesis
      by (simp add: finish_block_def op_bind_def always_def op_return_def block_outcome_def)
  next
    case False
    with state u files(3) ending show ?thesis
      by (simp add: finish_block_def op_bind_def op_return_def block_outcome_def)
  qed
qed

section \<open>The record of an attempt\<close>

lemma contiguous_snoc:
  "contiguous_from n (as @ [a]) \<longleftrightarrow> contiguous_from n as \<and> tp_offset_start a = (if as = [] then n else tp_offset_end (last as))"
  by (induction as arbitrary: n) auto

lemma valid_bytes:
  assumes "valid_transfer r" "tr_state r \<notin> {''completed'', ''failed''}"
  shows "0 \<le> tr_bytes_completed r \<and> tr_bytes_completed r \<le> tq_expected_size_bytes (tr_requirement r) \<and>
    tr_bytes_completed r = (if tr_attempts r = [] then 0 else tp_offset_end (last (tr_attempts r)))"
  using assms by (auto simp: valid_transfer_def transfer_record_post_init_def validates safe_integer_def planned_checks_def
      incomplete_checks_def split: if_splits)

lemma next_record_valid:
  assumes valid: "valid_transfer r" "tr_state r \<notin> {''completed'', ''failed''}"
    and offset: "tr_bytes_completed r \<le> offset" "offset \<le> tq_expected_size_bytes (tr_requirement r)"
    and outcome: "outcome \<in> {''interrupted'', ''failed'', ''completed''}"
      "outcome = ''completed'' \<longrightarrow> offset = tq_expected_size_bytes (tr_requirement r) \<and> digest = tq_expected_sha256 (tr_requirement r)"
    and digest: "is_sha256 digest"
  shows "transfer_record_post_init (next_record r (next_attempt r started ended offset outcome code detail) digest) = None"
proof -
  let ?a = "next_attempt r started ended offset outcome code detail"
  have old: "map tp_sequence (tr_attempts r) = [1..int (length (tr_attempts r))]" "contiguous_from 0 (tr_attempts r)"
    "safe_integer (tq_expected_size_bytes (tr_requirement r))"
    using valid(1) by (auto simp: valid_transfer_def transfer_record_post_init_def transfer_requirement_post_init_def validates)
  note bytes = valid_bytes [OF valid]
  have size_ok: "safe_integer offset" using old(3) bytes offset by (auto simp: safe_integer_def)
  have seq: "map tp_sequence (tr_attempts r @ [?a]) = [1..int (length (tr_attempts r @ [?a]))]"
    using old(1) by (simp add: next_attempt_def upto_rec2 add.commute)
  have contiguous: "contiguous_from 0 (tr_attempts r @ [?a])"
    using old(2) bytes by (simp add: contiguous_snoc next_attempt_def)
  have "distinct (map tp_sequence (tr_attempts r @ [?a]))" unfolding seq by (rule distinct_upto)
  then show ?thesis
    using seq contiguous size_ok offset outcome digest old(3)
    by (auto simp: transfer_record_post_init_def next_record_def validates planned_checks_def completed_checks_def
        incomplete_checks_def next_attempt_def)
qed

lemma attempt_code_ok: "is_token (fst (snd (block_outcome e))) \<and> snd (snd (block_outcome e)) \<noteq> []"
proof -
  have "list_all (\<lambda>e. is_token (fst (snd (block_outcome e))) \<and> snd (snd (block_outcome e)) \<noteq> []) [Paused, Cancelled, Reached, Broke]"
    by code_simp
  then show ?thesis by (cases e) (simp_all only: list.pred_inject simp_thms)
qed

lemma next_attempt_valid:
  assumes "valid_transfer r" "tr_state r \<notin> {''completed'', ''failed''}" "int (length (tr_attempts r)) < SAFE_INTEGER_MAX"
    and "s \<le> t" "tr_bytes_completed r \<le> offset" "offset \<le> tq_expected_size_bytes (tr_requirement r)"
    and "(outcome, code, detail) = block_outcome e"
  shows "transfer_attempt_post_init (next_attempt r (cache_stamp s) (cache_stamp t) offset outcome code detail) = None"
proof -
  have "safe_integer (tq_expected_size_bytes (tr_requirement r))"
    using assms(1) by (auto simp: valid_transfer_def transfer_requirement_post_init_def validates)
  moreover have "outcome \<in> {''interrupted'', ''failed'', ''completed''}"
    using assms(7) by (cases e) (auto simp: block_outcome_def)
  moreover have "is_token code" "detail \<noteq> []" using attempt_code_ok [of e] assms(7) by (metis fst_conv snd_conv)+
  ultimately show ?thesis
    using assms(3-6) valid_bytes [OF assms(1,2)]
    by (auto simp: transfer_attempt_post_init_def next_attempt_def validates cache_stamp_def safe_integer_def
        intro!: mult_right_mono zdiv_mono1)
qed

lemma reachable_offset_bounds:
  assumes "1 \<le> cl_chunk_size limits" "\<forall>m. cl_maximum_chunks limits = Some m \<longrightarrow> 1 \<le> m" "offset \<le> bytes"
  shows "offset \<le> reachable_offset limits bytes 0 offset" "reachable_offset limits bytes 0 offset \<le> bytes"
    "reachable_offset limits bytes 0 offset \<noteq> bytes \<Longrightarrow> offset < reachable_offset limits bytes 0 offset"
proof -
  have "0 < m * cl_chunk_size limits" if "cl_maximum_chunks limits = Some m" for m
    using assms(1,2) that by (metis less_le_trans mult_pos_pos zero_less_one)
  with assms(3) show "offset \<le> reachable_offset limits bytes 0 offset" "reachable_offset limits bytes 0 offset \<le> bytes"
    "reachable_offset limits bytes 0 offset \<noteq> bytes \<Longrightarrow> offset < reachable_offset limits bytes 0 offset"
    by (fastforce simp: reachable_offset_def split: option.splits)+
qed

lemma honest_finish_attempt:
  assumes ok: "working tg" and valid: "valid_transfer r" "tr_state r \<notin> {''completed'', ''failed''}"
      "int (length (tr_attempts r)) < SAFE_INTEGER_MAX"
    and target: "tr_bytes_completed r \<le> target" "target \<le> tq_expected_size_bytes (tr_requirement r)"
    and e: "(outcome, code, detail) = block_outcome e"
      "e = Reached \<Longrightarrow> target = tq_expected_size_bytes (tr_requirement r) \<and> transfer_digest tg bytes = tq_expected_sha256 (tr_requirement r)"
    and started: "cg_clock (tg_base tg) n = Aware s" "n \<le> world_ticks w"
  shows "\<exists>w' ended. finish_attempt tg r (cache_stamp s) target (outcome, code, detail, transfer_digest tg bytes) w =
      (Inr (next_record r (next_attempt r (cache_stamp s) ended target outcome code detail) (transfer_digest tg bytes)), w') \<and>
    tw_files w' = tw_files w"
proof -
  obtain f where f: "mono f" "\<And>n. cg_clock (tg_base tg) n = Aware (f n)" using ok by (auto simp: working_def)
  then have later: "s \<le> f (world_ticks w)" using started by (auto dest: monoD)
  let ?a = "next_attempt r (cache_stamp s) (cache_stamp (f (world_ticks w))) target outcome code detail"
  have a: "transfer_attempt_post_init ?a = None" by (rule next_attempt_valid [OF valid later target e(1)])
  have outcome: "outcome \<in> {''interrupted'', ''failed'', ''completed''}" "outcome = ''completed'' \<longrightarrow> e = Reached"
    using e(1) by (cases e; simp add: block_outcome_def)+
  have new: "transfer_record_post_init (next_record r ?a (transfer_digest tg bytes)) = None"
    by (intro next_record_valid [OF valid(1,2) target outcome(1)] workingD(4) [OF ok]) (use outcome(2) e(2) in blast)
  obtain v where v: "on_base (stamp_now (tg_base tg)) w = (Inr (cache_stamp (f (world_ticks w))), v)" "tw_files v = tw_files w"
    using working_stamp f(2) by blast
  obtain u where "emit_transfer tg (next_record r ?a (transfer_digest tg bytes)) outcome ''transfer'' (int (length (tr_attempts r)) + 1)
      (''transfer attempt '' @ outcome) (outcome \<in> {''completed'', ''failed''}) None v = (Inr (), u)" "tw_files u = tw_files v"
    using working_emit [OF ok] by blast
  with v a new show ?thesis
    by (auto simp: finish_attempt_def op_bind_def checked_def op_lift_def op_return_def construct_def)
qed

section \<open>Progress\<close>

text \<open>The steps of an attempt before its first chunk, and those from its first chunk to the end of its files.\<close>

definition resumed_inode :: "transfer_record \<Rightarrow> string list \<Rightarrow> files \<Rightarrow> nat option" where
  "resumed_inode r partial fs = (if tr_bytes_completed r = 0 then None
     else (case fl_entries fs partial of Some (Inode i) \<Rightarrow> Some i | _ \<Rightarrow> None))"

lemma honest_opening:
  assumes ok: "working tg" and files: "continues tg r content partial final (tw_files w)"
    and bytes: "0 \<le> tr_bytes_completed r" "tr_bytes_completed r \<le> int (length content)"
  shows "\<exists>w1 w2 w3 s. check_resume tg r partial final w = (Inr (resumed_inode r partial (tw_files w)), w1) \<and>
    on_base (stamp_now (tg_base tg)) w1 = (Inr (cache_stamp s), w2) \<and>
    emit_transfer tg r (if tr_attempts r \<noteq> [] then ''resumed'' else ''running'') ''transfer'' (int (length (tr_attempts r)) + 1)
      (if tr_attempts r \<noteq> [] then ''transfer attempt resumed'' else ''transfer attempt started'') False None w2 = (Inr (), w3) \<and>
    cg_clock (tg_base tg) (world_ticks w) = Aware s \<and> tw_files w3 = tw_files w \<and> world_ticks w3 = world_ticks w + 1"
proof -
  obtain f where f: "\<And>n. cg_clock (tg_base tg) n = Aware (f n)" using ok by (auto simp: working_def)
  obtain w1 where 1: "check_resume tg r partial final w = (Inr (resumed_inode r partial (tw_files w)), w1)"
      "tw_files w1 = tw_files w" "world_ticks w1 = world_ticks w"
    using working_check [OF ok files bytes] unfolding resumed_inode_def by blast
  obtain w2 where 2: "on_base (stamp_now (tg_base tg)) w1 = (Inr (cache_stamp (f (world_ticks w))), w2)" "tw_files w2 = tw_files w"
      "world_ticks w2 = world_ticks w + 1"
    using working_stamp [OF f, of w1] 1 by auto
  from 1(1) 2 f working_emit [OF ok] show ?thesis by metis
qed

lemma honest_transfer:
  assumes ok: "working tg" and src: "honest_source src (tq_locator (tr_requirement r)) content"
    and content: "tq_expected_size_bytes (tr_requirement r) = int (length content)"
      "tq_expected_sha256 (tr_requirement r) = transfer_digest tg content"
    and chunk: "1 \<le> cl_chunk_size limits" and going: "cl_cancelled limits = (\<lambda>_. False)"
    and budget: "\<forall>m. cl_maximum_chunks limits = Some m \<longrightarrow> 1 \<le> m"
    and bytes: "0 \<le> tr_bytes_completed r" "tr_bytes_completed r \<le> int (length content)"
    and files: "continues tg r content partial final (tw_files w)" and paths: "partial \<noteq> final"
    and target: "target = reachable_offset limits (int (length content)) 0 (tr_bytes_completed r)"
    and ending: "ending = (if target = int (length content) then Reached else Paused)"
  shows "\<exists>w1 w2 i outcome code detail.
    transfer_block tg src r limits partial (resumed_inode r partial (tw_files w)) w = ((target, ending), w1) \<and>
    finish_block tg r partial final target ending w1 =
      (Inr (outcome, code, detail, transfer_digest tg (take (nat target) content)), w2) \<and>
    (outcome, code, detail) = block_outcome ending \<and> world_ticks w2 = world_ticks w \<and>
    fl_data (tw_files w2) i = take (nat target) content \<and>
    (if ending = Reached then fl_entries (tw_files w2) final = Some (Inode i)
     else fl_entries (tw_files w2) partial = Some (Inode i) \<and> fl_entries (tw_files w2) final = None)"
proof -
  note bounds = reachable_offset_bounds [OF chunk budget bytes(2), folded target]
  obtain w1 i where 1: "transfer_block tg src r limits partial (resumed_inode r partial (tw_files w)) w = ((target, ending), w1)"
      "fl_entries (tw_files w1) partial = Some (Inode i)" "fl_entries (tw_files w1) final = None"
      "fl_data (tw_files w1) i = take (nat target) content" "world_ticks w1 = world_ticks w"
    using honest_block [OF ok src content(1) chunk going budget bytes files paths target]
    unfolding resumed_inode_def ending by metis
  have range: "0 \<le> target" "target \<le> int (length content)" using bounds bytes by linarith+
  obtain w2 outcome code detail where 2: "finish_block tg r partial final target ending w1 =
      (Inr (outcome, code, detail, transfer_digest tg (take (nat target) content)), w2)" "(outcome, code, detail) = block_outcome ending"
      "world_ticks w2 = world_ticks w1" "fl_data (tw_files w2) i = take (nat target) content"
      "if ending = Reached then fl_entries (tw_files w2) final = Some (Inode i) else tw_files w2 = tw_files w1"
    using honest_finish [OF ok 1(2-4) paths range content(2) ending] by blast
  with 1 show ?thesis by (intro exI conjI) (assumption | simp)+
qed

text \<open>
  C33. With an honest source and a working system, every attempt at a valid download makes its
  progress: it returns a record whose bytes are all that the chunk budget allows. When that is
  the whole content, the download is completed and published; otherwise it is interrupted in a
  state from which the next attempt goes on in the same way.
\<close>

theorem honest_download_progresses:
  assumes ok: "working tg" and src: "honest_source src (tq_locator (tr_requirement r)) content"
    and content: "tq_expected_size_bytes (tr_requirement r) = int (length content)"
      "tq_expected_sha256 (tr_requirement r) = transfer_digest tg content"
    and valid: "valid_transfer r" "int (length (tr_attempts r)) < SAFE_INTEGER_MAX"
    and limits: "check_limits r limits = Inr ()" "cl_cancelled limits = (\<lambda>_. False)"
    and paths: "transfer_destination tg (tr_requirement r) True = Inr partial"
      "transfer_destination tg (tr_requirement r) False = Inr final"
    and files: "continues tg r content partial final (tw_files w)"
  shows "\<exists>r' w'. resume_download tg r src limits w = (Inr r', w') \<and>
    tr_bytes_completed r' = reachable_offset limits (int (length content)) 0 (tr_bytes_completed r) \<and>
    (if tr_bytes_completed r' = int (length content)
     then tr_state r' = ''completed'' \<and>
       (\<exists>i. fl_entries (tw_files w') final = Some (Inode i) \<and> fl_data (tw_files w') i = content)
     else tr_state r' = ''interrupted'' \<and> continues tg r' content partial final (tw_files w'))"
proof -
  define target where "target = reachable_offset limits (int (length content)) 0 (tr_bytes_completed r)"
  define ending where "ending = (if target = int (length content) then Reached else Paused)"
  let ?digest = "transfer_digest tg (take (nat target) content)"
  have state: "tr_state r \<notin> {''completed'', ''failed''}" and chunk: "1 \<le> cl_chunk_size limits"
    and budget: "\<forall>m. cl_maximum_chunks limits = Some m \<longrightarrow> 1 \<le> m"
    using limits(1) by (auto simp: check_limits_def split: if_splits option.splits)
  have bytes: "0 \<le> tr_bytes_completed r" "tr_bytes_completed r \<le> int (length content)"
    using valid_bytes [OF valid(1) state] content(1) by simp_all
  note bounds = reachable_offset_bounds [OF chunk budget bytes(2), folded target_def]
  obtain w1 w2 w3 s where start: "check_resume tg r partial final w = (Inr (resumed_inode r partial (tw_files w)), w1)"
      "on_base (stamp_now (tg_base tg)) w1 = (Inr (cache_stamp s), w2)"
      "emit_transfer tg r (if tr_attempts r \<noteq> [] then ''resumed'' else ''running'') ''transfer'' (int (length (tr_attempts r)) + 1)
        (if tr_attempts r \<noteq> [] then ''transfer attempt resumed'' else ''transfer attempt started'') False None w2 = (Inr (), w3)"
      and s: "cg_clock (tg_base tg) (world_ticks w) = Aware s" and w3: "tw_files w3 = tw_files w" "world_ticks w3 = world_ticks w + 1"
    using honest_opening [OF ok files bytes] by blast
  obtain w4 w5 i outcome code detail where
    moved: "transfer_block tg src r limits partial (resumed_inode r partial (tw_files w)) w3 = ((target, ending), w4)"
      "finish_block tg r partial final target ending w4 = (Inr (outcome, code, detail, ?digest), w5)"
    and e: "(outcome, code, detail) = block_outcome ending" and w5: "world_ticks w5 = world_ticks w + 1"
      "fl_data (tw_files w5) i = take (nat target) content"
      "if ending = Reached then fl_entries (tw_files w5) final = Some (Inode i)
       else fl_entries (tw_files w5) partial = Some (Inode i) \<and> fl_entries (tw_files w5) final = None"
    using honest_transfer [OF ok src content chunk limits(2) budget bytes files [folded w3(1)] destinations_differ [OF paths]
        target_def ending_def] unfolding w3 by blast
  have reached: "target = tq_expected_size_bytes (tr_requirement r) \<and> ?digest = tq_expected_sha256 (tr_requirement r)" if "ending = Reached"
    using that content by (auto simp: ending_def split: if_splits)
  obtain w6 ended where finished: "finish_attempt tg r (cache_stamp s) target (outcome, code, detail, ?digest) w5 =
      (Inr (next_record r (next_attempt r (cache_stamp s) ended target outcome code detail) ?digest), w6)" "tw_files w6 = tw_files w5"
    using honest_finish_attempt [OF ok valid(1) state valid(2) bounds(1) _ e reached s, of w5] bounds(2) content(1) w5(1) by auto
  define r' where "r' = next_record r (next_attempt r (cache_stamp s) ended target outcome code detail) ?digest"
  have run: "resume_download tg r src limits w = (Inr r', w6)"
    using limits(1) paths start moved finished(1)
    by (simp add: resume_download_def run_attempt_def op_bind_def checked_def op_lift_def always_def r'_def)
  have r': "tr_bytes_completed r' = target" "tr_state r' = outcome" "tr_checkpoint_sha256 r' = ?digest"
    by (simp_all add: r'_def next_record_def next_attempt_def)
  have "target \<noteq> 0" if "target \<noteq> int (length content)" using bounds(3) bytes that by linarith
  with w5(2,3) finished(2) e r' have "if target = int (length content)
     then outcome = ''completed'' \<and> fl_entries (tw_files w6) final = Some (Inode i) \<and> fl_data (tw_files w6) i = content
     else outcome = ''interrupted'' \<and> continues tg r' content partial final (tw_files w6)"
    by (auto simp: ending_def block_outcome_def continues_def)
  with run r' show ?thesis unfolding target_def [symmetric] by (intro exI [of _ r'] exI [of _ w6]) (auto split: if_splits)
qed

end
