(* ===== verification/Transfer_Witnesses.thy ===== *)
theory Transfer_Witnesses
  imports Transfer_Liveness
begin

text \<open>
  A download of three bytes, with a small stand-in for SHA-256: planned, completed from an honest
  source, and stalled by a source that fails at once; the properties of transfers at these runs.
\<close>

section \<open>The transfer\<close>

definition sample_digest :: "nat list \<Rightarrow> string" where
  "sample_digest bytes = (if bytes = [] then EMPTY_SHA256 else replicate 64 (if even (length bytes) then CHR ''a'' else CHR ''b''))"

definition sample_manager :: transfer_manager where
  "sample_manager = \<lparr>tg_base = \<lparr>cg_clock = (\<lambda>n. Aware (int n * 1000000)), cg_new_cleanup_id = (\<lambda>_. Inl StopIteration),
       cg_canonical = (\<lambda>_. None), cg_sha256 = sample_digest, cg_publisher = None\<rparr>,
     tg_new_transfer_id = (\<lambda>_. Inr ''opid:v1:transfer:u7:00000000-0000-7000-8000-000000000000''),
     tg_parent = (\<lambda>_. None), tg_interfere = (\<lambda>_ fs. fs), tg_fault = (\<lambda>_. None)\<rparr>"

definition sample_content :: "nat list" where
  "sample_content = [7, 8, 9]"

definition sample_world :: transfer_world where
  "sample_world = \<lparr>tw_base = \<lparr>cw_ticks = 0, cw_polls = 0, cw_events = [], cw_calls = []\<rparr>,
     tw_files = \<lparr>fl_entries = (\<lambda>_. None), fl_data = (\<lambda>_. []), fl_fresh = 0\<rparr>, tw_syscalls = 0, tw_reads = []\<rparr>"

definition sample_requirement :: transfer_requirement where
  "sample_requirement = \<lparr>tq_transfer_id = ''opid:v1:transfer:u7:00000000-0000-7000-8000-000000000000'',
     tq_operation = ''download'', tq_locator = ''https://example.org/x'', tq_expected_sha256 = sample_digest sample_content,
     tq_expected_size_bytes = 3, tq_relative_path = ''d/x'', tq_cache_key = None\<rparr>"

definition sample_planned :: transfer_record where
  "sample_planned = \<lparr>tr_requirement = sample_requirement, tr_state = ''planned'', tr_bytes_completed = 0,
     tr_checkpoint_sha256 = EMPTY_SHA256, tr_attempts = [], tr_verified_sha256 = None, tr_verified_size_bytes = None,
     tr_resumable = True\<rparr>"

definition sample_source :: chunk_source where
  "sample_source = \<lparr>so_read = (\<lambda>_ _ offset limit. Inr (Some (take (nat limit) (drop (nat offset) sample_content))))\<rparr>"

definition failing_source :: chunk_source where
  "failing_source = \<lparr>so_read = (\<lambda>_ _ _ _. Inl ())\<rparr>"

definition sample_limits :: chunk_limits where
  "sample_limits = \<lparr>cl_chunk_size = 2, cl_maximum_chunks = None, cl_cancelled = (\<lambda>_. False)\<rparr>"

lemma sample_digest_ok [simp]: "is_sha256 (sample_digest bytes)"
proof -
  have "is_sha256 EMPTY_SHA256" "is_sha256 (replicate 64 (CHR ''a''))" "is_sha256 (replicate 64 (CHR ''b''))" by code_simp+
  then show ?thesis by (simp add: sample_digest_def)
qed

lemma sample_working [simp]: "working sample_manager"
  by (auto simp: working_def undisturbed_def sample_manager_def publisher_ok_def transfer_digest_def mono_def
      intro!: exI [of _ "\<lambda>n. int n * 1000000"])

lemma sample_faultless [simp]: "undisturbed sample_manager" "tg_fault sample_manager n = None"
  by (simp_all add: undisturbed_def sample_manager_def)

lemma sample_honest [simp]: "honest_source sample_source locator sample_content"
  by (simp add: honest_source_def sample_source_def)

lemma sample_valid [simp]: "valid_transfer sample_planned"
proof -
  have "transfer_record_post_init sample_planned = None" "transfer_requirement_post_init (tr_requirement sample_planned) = None"
    by code_simp+
  then show ?thesis by (simp add: valid_transfer_def sample_planned_def)
qed

section \<open>Its runs\<close>

lemma sample_plan: "fst (plan_transfer sample_manager 0 ''download'' ''https://example.org/x'' (sample_digest sample_content) 3 ''d/x'' None
    sample_world) = Inr sample_planned"
  by code_simp

definition sample_completed :: transfer_record where
  "sample_completed = next_record sample_planned
     (next_attempt sample_planned (Aware 0) (Aware 1000000) 3 ''completed'' ''verified'' ''transfer reached expected size and digest'')
     (sample_digest sample_content)"

definition sample_after :: transfer_world where
  "sample_after = snd (resume_download sample_manager sample_planned sample_source sample_limits sample_world)"

lemma sample_completes: "fst (resume_download sample_manager sample_planned sample_source sample_limits sample_world) = Inr sample_completed"
  by code_simp

lemma sample_run: "resume_download sample_manager sample_planned sample_source sample_limits sample_world = (Inr sample_completed, sample_after)"
  using sample_completes by (simp add: sample_after_def prod_eq_iff)

definition sample_stalled :: transfer_record where
  "sample_stalled = next_record sample_planned
     (next_attempt sample_planned (Aware 0) (Aware 1000000) 0 ''interrupted'' ''source-or-write-failed'' ''transfer source or local write raised'')
     EMPTY_SHA256"

definition stalled_after :: transfer_world where
  "stalled_after = snd (resume_download sample_manager sample_planned failing_source sample_limits sample_world)"

lemma sample_stalls: "fst (resume_download sample_manager sample_planned failing_source sample_limits sample_world) = Inr sample_stalled"
  by code_simp

lemma stalled_run: "resume_download sample_manager sample_planned failing_source sample_limits sample_world = (Inr sample_stalled, stalled_after)"
  using sample_stalls by (simp add: stalled_after_def prod_eq_iff)

lemma sample_paths: "transfer_destination sample_manager sample_requirement True = Inr [''d'', ''x.part'']"
  "transfer_destination sample_manager sample_requirement False = Inr [''d'', ''x'']"
  by code_simp+

lemma sample_fields [simp]: "tr_requirement sample_planned = sample_requirement" "tr_bytes_completed sample_planned = 0"
  "tr_attempts sample_planned = []" "tq_expected_sha256 sample_requirement = sample_digest sample_content"
  "tq_expected_size_bytes sample_requirement = 3" "transfer_digest sample_manager = sample_digest"
  by (simp_all add: sample_planned_def sample_requirement_def transfer_digest_def [abs_def] sample_manager_def)

lemma completed_fields: "tr_state sample_completed = ''completed''" "tr_requirement sample_completed = sample_requirement"
  "tr_verified_sha256 sample_completed = Some (sample_digest sample_content)" "tr_verified_size_bytes sample_completed = Some 3"
  by (simp_all add: sample_completed_def next_record_def next_attempt_def)

section \<open>Witnesses\<close>

lemma transfer_records_valid_witness:
  "valid_transfer sample_completed \<and> tr_requirement sample_completed = sample_requirement \<and>
     tr_verified_sha256 sample_completed = Some (sample_digest sample_content) \<and> tr_verified_size_bytes sample_completed = Some 3"
proof -
  obtain w where plan: "plan_transfer sample_manager 0 ''download'' ''https://example.org/x'' (sample_digest sample_content) 3 ''d/x'' None
      sample_world = (Inr sample_planned, w)" using sample_plan by (metis prod.collapse)
  have "(transfer_step sample_manager)\<^sup>*\<^sup>* sample_planned sample_completed"
    using sample_run by (intro r_into_rtranclp transfer_step.resumed)
  from transfer_records_valid [OF plan this] show ?thesis by (simp add: completed_fields)
qed

lemma completed_download_published_witness:
  "\<exists>i. fl_entries (tw_files sample_after) [''d'', ''x''] = Some (Inode i) \<and>
     sample_digest (fl_data (tw_files sample_after) i) = sample_digest sample_content \<and> length (fl_data (tw_files sample_after) i) = 3"
proof -
  from completed_download_published [OF sample_faultless(1) sample_run completed_fields(1)] show ?thesis
    by (auto simp: sample_paths)
qed

lemma stalled_download_stuck_witness:
  "fst (resume_download sample_manager sample_stalled sample_source sample_limits stalled_after) =
     Inl (TransferIntegrityError ''unexpected partial transfer exists for a new plan'')"
proof -
  have "check_limits sample_stalled sample_limits = Inr ()" by code_simp
  moreover have "tr_bytes_completed sample_stalled = 0" "tr_state sample_stalled = ''interrupted''"
    by (simp_all add: sample_stalled_def next_record_def next_attempt_def)
  ultimately show ?thesis
    using stalled_download_stuck [OF sample_faultless(1) _ sample_valid stalled_run] by simp
qed

lemma honest_download_progresses_witness:
  "\<exists>r' w'. resume_download sample_manager sample_planned sample_source sample_limits sample_world = (Inr r', w') \<and>
     tr_state r' = ''completed'' \<and> (\<exists>i. fl_entries (tw_files w') [''d'', ''x''] = Some (Inode i) \<and> fl_data (tw_files w') i = sample_content)"
proof -
  let ?paths = "[''d'', ''x.part'']" and ?final = "[''d'', ''x'']"
  have limits: "check_limits sample_planned sample_limits = Inr ()" by code_simp
  have more: "cl_cancelled sample_limits = (\<lambda>_. False)" "int (length (tr_attempts sample_planned)) < SAFE_INTEGER_MAX"
    "int (length sample_content) = 3" "reachable_offset sample_limits 3 0 0 = 3"
    by (simp_all add: sample_limits_def SAFE_INTEGER_MAX_def sample_content_def reachable_offset_def)
  have files: "continues sample_manager sample_planned sample_content ?paths ?final (tw_files sample_world)"
    by (simp add: continues_def sample_planned_def sample_world_def)
  have content: "tq_expected_size_bytes (tr_requirement sample_planned) = int (length sample_content)"
    "tq_expected_sha256 (tr_requirement sample_planned) = transfer_digest sample_manager sample_content" by (simp_all add: more)
  have paths: "transfer_destination sample_manager (tr_requirement sample_planned) True = Inr ?paths"
    "transfer_destination sample_manager (tr_requirement sample_planned) False = Inr ?final" by (simp_all add: sample_paths)
  from honest_download_progresses [OF sample_working sample_honest content sample_valid more(2) limits more(1) paths files] more(3,4)
  obtain r' w' where "resume_download sample_manager sample_planned sample_source sample_limits sample_world = (Inr r', w')"
    "tr_bytes_completed r' = 3" "if tr_bytes_completed r' = 3 then tr_state r' = ''completed'' \<and>
       (\<exists>i. fl_entries (tw_files w') ?final = Some (Inode i) \<and> fl_data (tw_files w') i = sample_content)
     else tr_state r' = ''interrupted'' \<and> continues sample_manager r' sample_content ?paths ?final (tw_files w')"
    by (simp del: sample_fields(4,6)) (metis sample_fields(2))
  then show ?thesis by auto
qed

end
