(* ===== verification/Recovery_Payload.thy ===== *)
theory Recovery_Payload
  imports Prelude "HOL-Library.Sublist"
begin

text \<open>
  \<open>scheduler/.../safe_payload.py\<close>: the rejection of credentials in checkpoint payloads. Unicode
  case folding and character classes, the search for an authorization value, URL splitting and
  query parsing (which may raise) belong to Python's library and are parameters.
\<close>

definition FORBIDDEN_NAMES :: "string list" where
  "FORBIDDEN_NAMES = [''accesstoken'', ''apikey'', ''authorization'', ''bearertoken'', ''clientsecret'', ''cookie'',
     ''credential'', ''credentials'', ''password'', ''passwd'', ''privatekey'', ''refreshtoken'', ''secret'', ''secretkey'',
     ''sessioncookie'', ''token'']"

definition FORBIDDEN_QUERY_NAMES :: "string list" where
  "FORBIDDEN_QUERY_NAMES = FORBIDDEN_NAMES @ [''awsaccesskeyid'', ''sig'', ''signature'', ''sharedaccesssignature'',
     ''xamzsignature'', ''xgoogsignature'']"

record split_url =
  su_username :: "string option"
  su_password :: "string option"
  su_query :: string

record text_library =
  tl_casefold :: "string \<Rightarrow> string"
  tl_isalnum :: "char \<Rightarrow> bool"
  tl_authorization_search :: "string \<Rightarrow> bool"
  tl_urlsplit :: "string \<Rightarrow> split_url option"
  tl_parse_qsl :: "string \<Rightarrow> (string \<times> string) list option"

definition normalized :: "text_library \<Rightarrow> string \<Rightarrow> string" where
  "normalized lib v = filter (tl_isalnum lib) (tl_casefold lib v)"

definition unsafe_string :: "text_library \<Rightarrow> string \<Rightarrow> bool" where
  "unsafe_string lib v =
     (if sublist ''-----BEGIN '' v \<and> sublist ''PRIVATE KEY-----'' v then True
      else if tl_authorization_search lib v then True
      else if \<not> sublist ''://'' v then False
      else (case tl_urlsplit lib v of
              None \<Rightarrow> True
            | Some u \<Rightarrow>
                if su_username u \<noteq> None \<or> su_password u \<noteq> None then True
                else (case tl_parse_qsl lib (su_query u) of
                        None \<Rightarrow> True
                      | Some items \<Rightarrow> \<exists>item \<in> set items. normalized lib (fst item) \<in> set FORBIDDEN_QUERY_NAMES)))"

text \<open>The message of \<open>UnsafeCheckpointPayloadError\<close>, or \<open>None\<close> when the payload is safe.\<close>

definition forbidden_field :: "text_library \<Rightarrow> string option \<Rightarrow> bool" where
  "forbidden_field lib field_name = (case field_name of None \<Rightarrow> False | Some n \<Rightarrow> normalized lib n \<in> set FORBIDDEN_NAMES)"

fun first_some :: "'a option list \<Rightarrow> 'a option" where
  "first_some [] = None"
| "first_some (None # xs) = first_some xs"
| "first_some (Some x # xs) = Some x"

lemma first_some_cong [fundef_cong]:
  "xs = ys \<Longrightarrow> (\<And>x. x \<in> set ys \<Longrightarrow> f x = g x) \<Longrightarrow> first_some (map f xs) = first_some (map g ys)"
  by (metis map_cong)

lemma first_some_None [simp]: "first_some xs = None \<longleftrightarrow> (\<forall>x \<in> set xs. x = None)"
  by (induction xs rule: first_some.induct) auto

lemma json_member_size:
  "x \<in> set xs \<Longrightarrow> size x < size (JArr xs)"
  "p \<in> set fs \<Longrightarrow> size (snd p) < size (JObj fs)"
proof -
  show "size x < size (JArr xs)" if "x \<in> set xs" using that by (induction xs) auto
  show "size (snd p) < size (JObj fs)" if "p \<in> set fs" using that by (induction fs) (auto simp: prod.size)
qed

function validate_checkpoint_payload :: "text_library \<Rightarrow> string option \<Rightarrow> json \<Rightarrow> string option" where
  "validate_checkpoint_payload lib field_name v =
     (if forbidden_field lib field_name then Some ''scheduler checkpoints cannot persist credential-bearing fields''
      else (case v of
          JStr s \<Rightarrow> (if unsafe_string lib s then Some ''scheduler checkpoints cannot persist credential-bearing values'' else None)
        | JObj fs \<Rightarrow> first_some (map (\<lambda>p. validate_checkpoint_payload lib (Some (fst p)) (snd p)) fs)
        | JArr xs \<Rightarrow> first_some (map (validate_checkpoint_payload lib None) xs)
        | _ \<Rightarrow> None))"
  by pat_completeness auto
termination
  by (relation "measure (\<lambda>(lib, n, v). size v)") (auto dest: json_member_size)

declare validate_checkpoint_payload.simps [simp del]

text \<open>What a safe document contains: no forbidden field name and no unsafe text at any depth.\<close>

inductive occurs_in :: "json \<Rightarrow> string option \<Rightarrow> json \<Rightarrow> bool" for root where
  whole: "occurs_in root None root"
| field: "occurs_in root n (JObj fs) \<Longrightarrow> p \<in> set fs \<Longrightarrow> occurs_in root (Some (fst p)) (snd p)"
| item: "occurs_in root n (JArr xs) \<Longrightarrow> x \<in> set xs \<Longrightarrow> occurs_in root None x"

lemma validated_occurrences:
  assumes "occurs_in root n v" "validate_checkpoint_payload lib None root = None"
  shows "validate_checkpoint_payload lib n v = None"
  using assms
proof (induction rule: occurs_in.induct)
  case (field n fs p)
  then have "validate_checkpoint_payload lib n (JObj fs) = None" by blast
  with field.hyps(2) show ?case by (subst (asm) validate_checkpoint_payload.simps) (auto split: if_splits)
next
  case (item n xs x)
  then have "validate_checkpoint_payload lib n (JArr xs) = None" by blast
  with item.hyps(2) show ?case by (subst (asm) validate_checkpoint_payload.simps) (auto split: if_splits)
qed

lemma validated_leaf:
  assumes "validate_checkpoint_payload lib n v = None"
  shows "\<not> forbidden_field lib n" "v = JStr s \<Longrightarrow> \<not> unsafe_string lib s"
  using assms by (subst (asm) validate_checkpoint_payload.simps; auto split: if_splits)+

end
