(* ===== verification/Recovery_Journal.thy ===== *)
theory Recovery_Journal
  imports Operations Recovery_Payload "HOL-Library.Product_Lexorder"
begin

text \<open>
  \<open>scheduler/.../recovery.py\<close>: the durable journal of execution attempts. Its SQL tables are
  lists of rows in the order of insertion, with the keys and references of the schema checked
  by every insertion; a transaction that raises leaves the tables as they were. The clock, the
  factory of run identifiers, the canonical encoder, \<open>json.loads\<close>, UTF-8 decoding and SHA-256
  are parameters. A session is one \<open>RecoveryJournal\<close> object; the tables outlive it.
\<close>

section \<open>Vocabulary\<close>

datatype journal_error =
    RecoveryConflict string
  | RecoveryIntegrity string
  | SqlIntegrity
  | AssertionFailed
  | IndexFailed

definition CHECKPOINT_STATES :: "string list" where
  "CHECKPOINT_STATES = [''leased'', ''environment-ready'', ''running'', ''observation-finalized'', ''spooled'',
     ''segment-finalized'', ''uploaded'', ''verified'', ''manifest-committed'', ''acknowledged'']"

definition COMMITTED_STATES :: "string list" where
  "COMMITTED_STATES = [''manifest-committed'', ''acknowledged'']"

definition is_alnum :: "char \<Rightarrow> bool" where
  "is_alnum c \<longleftrightarrow> is_lower_alnum c \<or> c \<in> set ''ABCDEFGHIJKLMNOPQRSTUVWXYZ''"

text \<open>\<open>SAFE_IDENTIFIER_PATTERN\<close>.\<close>

fun is_safe_identifier :: "string \<Rightarrow> bool" where
  "is_safe_identifier [] \<longleftrightarrow> False"
| "is_safe_identifier (c # cs) \<longleftrightarrow>
     is_alnum c \<and> length cs \<le> 2047 \<and> list_all (\<lambda>d. is_alnum d \<or> d \<in> set ''._:/@+-'') cs"

definition is_hash_id :: "string \<Rightarrow> string \<Rightarrow> bool" where
  "is_hash_id ns s \<longleftrightarrow>
     (case split_on (CHR '':'') s of
        [scheme, version, n, kind, policy, digest] \<Rightarrow>
          scheme = ''rcid'' \<and> version = ''v1'' \<and> n = ns \<and> kind = ''h'' \<and> policy = ''jcs-sha256-v1'' \<and> is_sha256 digest
      | _ \<Rightarrow> False)"

definition is_run_id :: "string \<Rightarrow> bool" where
  "is_run_id s \<longleftrightarrow>
     (case split_on (CHR '':'') s of
        [scheme, version, n, kind, u] \<Rightarrow>
          scheme = ''rcid'' \<and> version = ''v1'' \<and> n = ''physical-run'' \<and> kind = ''u7'' \<and> is_uuid7 u
      | _ \<Rightarrow> False)"

definition typed_id_pattern :: "string \<Rightarrow> (string \<Rightarrow> bool) option" where
  "typed_id_pattern p =
     (if p = ''rcid:v1:campaign-manifest:h:'' then Some (is_hash_id ''campaign-manifest'')
      else if p = ''rcid:v1:logical-execution:h:'' then Some (is_hash_id ''logical-execution'')
      else if p = ''rcid:v1:physical-run:u7:'' then Some is_run_id
      else None)"

definition require_identifier :: "string \<Rightarrow> string \<Rightarrow> journal_error + unit" where
  "require_identifier label v =
     refuse (\<not> is_safe_identifier v) (RecoveryConflict (label @ '' must be a bounded safe identifier''))"

definition require_digest :: "string \<Rightarrow> string \<Rightarrow> journal_error + unit" where
  "require_digest label v = refuse (\<not> is_sha256 v) (RecoveryConflict (label @ '' must be a lowercase SHA-256 digest''))"

definition require_typed_prefix :: "string \<Rightarrow> string \<Rightarrow> string \<Rightarrow> journal_error + unit" where
  "require_typed_prefix label v p =
     ebind (require_identifier label v) (\<lambda>_.
       refuse (case typed_id_pattern p of None \<Rightarrow> True | Some matches \<Rightarrow> \<not> matches v)
         (RecoveryConflict (label @ '' has the wrong typed identity namespace'')))"

definition recovery_action_for_stage :: "string \<Rightarrow> bool \<Rightarrow> string" where
  "recovery_action_for_stage stage same_session =
     (if stage \<notin> set CHECKPOINT_STATES then ''quarantine''
      else if same_session then (if stage \<in> set COMMITTED_STATES then ''committed'' else ''continue'')
      else if stage = ''running'' then ''retry''
      else if stage \<in> set COMMITTED_STATES then ''committed''
      else ''continue'')"

section \<open>Tables and sessions\<close>

record attempt_row =
  at_physical_run_id :: string
  at_logical_execution_id :: string
  at_attempt_number :: int
  at_purpose :: string
  at_disposition :: string
  at_owner_session_id :: string
  at_created_at :: timestamp

record checkpoint_row =
  ck_physical_run_id :: string
  ck_ordinal :: int
  ck_state :: string
  ck_payload_json :: string
  ck_payload_sha256 :: string
  ck_manifest_sha256 :: "string option"
  ck_commit_receipt_sha256 :: "string option"
  ck_previous_checkpoint_sha256 :: "string option"
  ck_checkpoint_sha256 :: string
  ck_controller_session_id :: string
  ck_recorded_at :: timestamp

record commit_row =
  lc_logical_execution_id :: string
  lc_physical_run_id :: string
  lc_manifest_sha256 :: string
  lc_commit_receipt_sha256 :: string

record journal_db =
  jd_metadata :: "(string \<times> string) list"
  jd_attempts :: "attempt_row list"
  jd_checkpoints :: "checkpoint_row list"
  jd_commits :: "commit_row list"

record journal =
  jn_campaign_manifest_id :: string
  jn_logical_execution_ids :: "string list"
  jn_controller_session_id :: string
  jn_run_ids :: "nat \<Rightarrow> string"
  jn_now :: "nat \<Rightarrow> int"
  jn_canonical :: "json \<Rightarrow> nat list option"
  jn_decode :: "nat list \<Rightarrow> string"
  jn_loads :: "string \<Rightarrow> json option"
  jn_sha256 :: "nat list \<Rightarrow> string"
  jn_text :: text_library

record recovery_decision =
  rd_action :: string
  rd_logical_execution_id :: string
  rd_physical_run_id :: "string option"
  rd_attempt_number :: "int option"
  rd_resume_state :: "string option"
  rd_reason_code :: string

record attempt_record =
  ar_logical_id :: string
  ar_run_id :: string
  ar_number :: int
  ar_purpose :: string
  ar_disposition :: string
  ar_owner :: string
  ar_latest_state :: string
  ar_manifest :: "string option"
  ar_receipt :: "string option"

text \<open>The world: the tables, and how often the factory of run identifiers and the clock were asked.\<close>

record journal_world =
  jw_db :: journal_db
  jw_runs :: nat
  jw_ticks :: nat

type_synonym 'a journal_action = "(journal_world, journal_error, 'a) operation"

definition read_db :: "(journal_db \<Rightarrow> journal_error + 'a) \<Rightarrow> 'a journal_action" where
  "read_db f w = (f (jw_db w), w)"

definition change_db :: "(journal_db \<Rightarrow> journal_error + journal_db) \<Rightarrow> unit journal_action" where
  "change_db f w = (case f (jw_db w) of Inl e \<Rightarrow> (Inl e, w) | Inr d \<Rightarrow> (Inr (), w\<lparr>jw_db := d\<rparr>))"

text \<open>\<open>BEGIN IMMEDIATE\<close> ... \<open>COMMIT\<close>, with the \<open>ROLLBACK\<close> of the exception handler.\<close>

definition transaction :: "'a journal_action \<Rightarrow> 'a journal_action" where
  "transaction m w = (case m w of (Inl e, w') \<Rightarrow> (Inl e, w'\<lparr>jw_db := jw_db w\<rparr>) | (Inr x, w') \<Rightarrow> (Inr x, w'))"

definition next_run_id :: "journal \<Rightarrow> string journal_action" where
  "next_run_id j w = (Inr (jn_run_ids j (jw_runs w)), w\<lparr>jw_runs := jw_runs w + 1\<rparr>)"

definition journal_stamp :: "journal \<Rightarrow> timestamp journal_action" where
  "journal_stamp j w = (Inr (Aware (jn_now j (jw_ticks w) div 1000 * 1000)), w\<lparr>jw_ticks := jw_ticks w + 1\<rparr>)"

section \<open>Statements\<close>

definition insert_attempt_row :: "attempt_row \<Rightarrow> journal_db \<Rightarrow> journal_error + journal_db" where
  "insert_attempt_row a db =
     (if at_attempt_number a < 1 \<or> at_purpose a \<notin> {''initial'', ''retry''} \<or>
         at_disposition a \<notin> {''active'', ''interrupted'', ''committed''} \<or>
         (\<exists>b \<in> set (jd_attempts db). at_physical_run_id b = at_physical_run_id a \<or>
          at_logical_execution_id b = at_logical_execution_id a \<and> at_attempt_number b = at_attempt_number a)
      then Inl SqlIntegrity else Inr (db\<lparr>jd_attempts := jd_attempts db @ [a]\<rparr>))"

definition insert_checkpoint_row :: "checkpoint_row \<Rightarrow> journal_db \<Rightarrow> journal_error + journal_db" where
  "insert_checkpoint_row c db =
     (if ck_ordinal c < 1 \<or> (\<forall>a \<in> set (jd_attempts db). at_physical_run_id a \<noteq> ck_physical_run_id c) \<or>
         (\<exists>d \<in> set (jd_checkpoints db). ck_checkpoint_sha256 d = ck_checkpoint_sha256 c \<or>
            ck_physical_run_id d = ck_physical_run_id c \<and> ck_ordinal d = ck_ordinal c)
      then Inl SqlIntegrity else Inr (db\<lparr>jd_checkpoints := jd_checkpoints db @ [c]\<rparr>))"

definition insert_commit_row :: "commit_row \<Rightarrow> journal_db \<Rightarrow> journal_error + journal_db" where
  "insert_commit_row l db =
     (if (\<forall>a \<in> set (jd_attempts db). at_physical_run_id a \<noteq> lc_physical_run_id l) \<or>
         (\<exists>m \<in> set (jd_commits db). lc_logical_execution_id m = lc_logical_execution_id l \<or>
            lc_physical_run_id m = lc_physical_run_id l \<or> lc_commit_receipt_sha256 m = lc_commit_receipt_sha256 l)
      then Inl SqlIntegrity else Inr (db\<lparr>jd_commits := jd_commits db @ [l]\<rparr>))"

text \<open>\<open>UPDATE attempts SET ... WHERE physical_run_id = ?\<close>.\<close>

definition update_attempt :: "string \<Rightarrow> (attempt_row \<Rightarrow> attempt_row) \<Rightarrow> journal_db \<Rightarrow> journal_error + journal_db" where
  "update_attempt run f db =
     Inr (db\<lparr>jd_attempts := map (\<lambda>a. if at_physical_run_id a = run then f a else a) (jd_attempts db)\<rparr>)"

definition attempt_of :: "journal_db \<Rightarrow> string \<Rightarrow> attempt_row option" where
  "attempt_of db run = find (\<lambda>a. at_physical_run_id a = run) (jd_attempts db)"

definition checkpoints_of :: "journal_db \<Rightarrow> string \<Rightarrow> checkpoint_row list" where
  "checkpoints_of db run = sort_key ck_ordinal (filter (\<lambda>c. ck_physical_run_id c = run) (jd_checkpoints db))"

definition latest_checkpoint :: "journal_db \<Rightarrow> string \<Rightarrow> checkpoint_row option" where
  "latest_checkpoint db run = (if checkpoints_of db run = [] then None else Some (last (checkpoints_of db run)))"

definition commit_of :: "journal_db \<Rightarrow> string \<Rightarrow> commit_row option" where
  "commit_of db logical = find (\<lambda>l. lc_logical_execution_id l = logical) (jd_commits db)"

definition attempts_of :: "journal_db \<Rightarrow> string \<Rightarrow> attempt_row list" where
  "attempts_of db logical = sort_key at_attempt_number (filter (\<lambda>a. at_logical_execution_id a = logical) (jd_attempts db))"

text \<open>\<open>_latest_attempt_row\<close>: the last attempt that has a checkpoint, with its latest one.\<close>

definition latest_attempt_row :: "journal_db \<Rightarrow> string \<Rightarrow> (attempt_row \<times> checkpoint_row) option" where
  "latest_attempt_row db logical =
     (let rows = filter (\<lambda>a. latest_checkpoint db (at_physical_run_id a) \<noteq> None) (attempts_of db logical) in
      if rows = [] then None
      else (case latest_checkpoint db (at_physical_run_id (last rows)) of
              None \<Rightarrow> None
            | Some c \<Rightarrow> Some (last rows, c)))"

definition canonical_bytes :: "journal \<Rightarrow> json \<Rightarrow> journal_error + nat list" where
  "canonical_bytes j v =
     (case jn_canonical j v of
        None \<Rightarrow> Inl (RecoveryConflict ''recovery material is not RFC 8785 canonicalizable'')
      | Some bytes \<Rightarrow> Inr bytes)"

definition json_sha256 :: "journal \<Rightarrow> json \<Rightarrow> journal_error + string" where
  "json_sha256 j v = ebind (canonical_bytes j v) (\<lambda>bytes. Inr (jn_sha256 j bytes))"

section \<open>Documents\<close>

definition commit_receipt_body :: "journal \<Rightarrow> string \<Rightarrow> string \<Rightarrow> string \<Rightarrow> json" where
  "commit_receipt_body j logical manifest run = JObj [
     (''campaign_manifest_id'', JStr (jn_campaign_manifest_id j)),
     (''logical_execution_id'', JStr logical),
     (''manifest_sha256'', JStr manifest),
     (''physical_run_id'', JStr run),
     (''schema_version'', JStr ''campaign-commit-receipt.v1'')]"

definition checkpoint_body :: "journal \<Rightarrow> attempt_row \<Rightarrow> string option \<Rightarrow> checkpoint_row \<Rightarrow> json" where
  "checkpoint_body j a previous c = JObj [
     (''attempt_number'', JInt (at_attempt_number a)),
     (''campaign_manifest_id'', JStr (jn_campaign_manifest_id j)),
     (''checkpoint_ordinal'', JInt (ck_ordinal c)),
     (''commit_receipt_sha256'', JOpt JStr (ck_commit_receipt_sha256 c)),
     (''controller_session_id'', JStr (ck_controller_session_id c)),
     (''logical_execution_id'', JStr (at_logical_execution_id a)),
     (''manifest_sha256'', JOpt JStr (ck_manifest_sha256 c)),
     (''payload_sha256'', JStr (ck_payload_sha256 c)),
     (''physical_run_id'', JStr (at_physical_run_id a)),
     (''previous_checkpoint_sha256'', JOpt JStr previous),
     (''schema_version'', JStr ''attempt-checkpoint.v1''),
     (''state'', JStr (ck_state c)),
     (''recorded_at'', JTime (ck_recorded_at c))]"

section \<open>The audit\<close>

definition expected_metadata :: "journal \<Rightarrow> journal_error + (string \<times> string) list" where
  "expected_metadata j =
     ebind (json_sha256 j (JArr (map JStr (jn_logical_execution_ids j)))) (\<lambda>plan.
       Inr [(''campaign_manifest_id'', jn_campaign_manifest_id j), (''logical_plan_sha256'', plan), (''schema_version'', ''1'')])"

definition audit_metadata :: "journal \<Rightarrow> journal_db \<Rightarrow> journal_error + unit" where
  "audit_metadata j db =
     ebind (expected_metadata j) (\<lambda>expected.
       refuse (set (jd_metadata db) \<noteq> set expected) (RecoveryIntegrity ''recovery metadata failed exact reconciliation''))"

text \<open>The stored payload must be the canonical text of an object, with its digest.\<close>

definition audit_payload :: "journal \<Rightarrow> checkpoint_row \<Rightarrow> journal_error + unit" where
  "audit_payload j c =
     (case jn_loads j (ck_payload_json c) of
        None \<Rightarrow> Inl (RecoveryIntegrity ''attempt checkpoint payload is not strict canonical JSON'')
      | Some stored \<Rightarrow>
          (case jn_canonical j stored of
             None \<Rightarrow> Inl (RecoveryIntegrity ''attempt checkpoint payload is not strict canonical JSON'')
           | Some bytes \<Rightarrow>
               refuse ((case stored of JObj _ \<Rightarrow> False | _ \<Rightarrow> True) \<or> jn_decode j bytes \<noteq> ck_payload_json c \<or>
                   jn_sha256 j bytes \<noteq> ck_payload_sha256 c)
                 (RecoveryIntegrity ''attempt checkpoint payload failed canonical digest verification'')))"

fun audit_chain :: "journal \<Rightarrow> attempt_row \<Rightarrow> string option \<Rightarrow> checkpoint_row list \<Rightarrow> journal_error + unit" where
  "audit_chain j a previous [] = Inr ()"
| "audit_chain j a previous (c # cs) =
     ebind (audit_payload j c) (\<lambda>_.
     ebind (json_sha256 j (checkpoint_body j a previous c)) (\<lambda>digest.
     ebind (refuse (ck_previous_checkpoint_sha256 c \<noteq> previous \<or> ck_checkpoint_sha256 c \<noteq> digest)
       (RecoveryIntegrity ''attempt checkpoint hash chain failed verification'')) (\<lambda>_.
     audit_chain j a (Some (ck_checkpoint_sha256 c)) cs)))"

definition audit_disposition :: "attempt_row \<Rightarrow> string \<Rightarrow> journal_error + unit" where
  "audit_disposition a latest_state =
     ebind (refuse (at_disposition a = ''interrupted'' \<and> latest_state \<noteq> ''running'')
       (RecoveryIntegrity ''only a running attempt may become interrupted'')) (\<lambda>_.
     ebind (refuse (at_disposition a = ''committed'' \<and> latest_state \<notin> set COMMITTED_STATES)
       (RecoveryIntegrity ''committed attempt lacks its durable commit checkpoint'')) (\<lambda>_.
     refuse (at_disposition a = ''active'' \<and> latest_state \<in> set COMMITTED_STATES)
       (RecoveryIntegrity ''committed checkpoint cannot remain active'')))"

definition audit_attempt :: "journal \<Rightarrow> journal_db \<Rightarrow> attempt_row \<Rightarrow> journal_error + unit" where
  "audit_attempt j db a =
     (let cs = checkpoints_of db (at_physical_run_id a) in
      ebind (refuse (at_logical_execution_id a \<notin> set (jn_logical_execution_ids j))
        (RecoveryIntegrity ''attempt references unplanned logical execution'')) (\<lambda>_.
      ebind (refuse (cs = []) (RecoveryIntegrity ''attempt lacks its leased checkpoint'')) (\<lambda>_.
      ebind (refuse (map ck_ordinal cs \<noteq> [1..int (length cs)])
        (RecoveryIntegrity ''attempt checkpoint ordinals are not contiguous'')) (\<lambda>_.
      ebind (refuse (map ck_state cs \<noteq> take (length cs) CHECKPOINT_STATES)
        (RecoveryIntegrity ''attempt checkpoints are not an exact D090 prefix'')) (\<lambda>_.
      ebind (audit_chain j a None cs) (\<lambda>_.
      audit_disposition a (ck_state (last cs))))))))"

definition audit_logical :: "attempt_row list \<Rightarrow> journal_error + unit" where
  "audit_logical rows =
     ebind (refuse (map at_attempt_number rows \<noteq> [1..int (length rows)])
       (RecoveryIntegrity ''physical attempt ordinals are not contiguous'')) (\<lambda>_.
     ebind (refuse (rows = [] \<or> at_purpose (hd rows) \<noteq> ''initial'' \<or> (\<exists>a \<in> set (tl rows). at_purpose a \<noteq> ''retry''))
       (RecoveryIntegrity ''physical attempt purposes contradict their ordinals'')) (\<lambda>_.
     refuse (length (filter (\<lambda>a. at_disposition a \<in> {''active'', ''committed''}) rows) \<noteq> 1)
       (RecoveryIntegrity ''logical execution has ambiguous active or committed attempts'')))"

definition audit_commit :: "journal \<Rightarrow> journal_db \<Rightarrow> commit_row \<Rightarrow> journal_error + unit" where
  "audit_commit j db l =
     (let checkpoint = find (\<lambda>c. ck_physical_run_id c = lc_physical_run_id l \<and> ck_state c = ''manifest-committed'')
            (jd_checkpoints db) in
      ebind (refuse (case (attempt_of db (lc_physical_run_id l), checkpoint) of
             (Some a, Some c) \<Rightarrow>
               at_logical_execution_id a \<noteq> lc_logical_execution_id l \<or> at_disposition a \<noteq> ''committed'' \<or>
               ck_manifest_sha256 c \<noteq> Some (lc_manifest_sha256 l) \<or>
               ck_commit_receipt_sha256 c \<noteq> Some (lc_commit_receipt_sha256 l)
           | _ \<Rightarrow> True) (RecoveryIntegrity ''logical commit does not reconcile its physical attempt'')) (\<lambda>_.
      ebind (json_sha256 j (commit_receipt_body j (lc_logical_execution_id l) (lc_manifest_sha256 l) (lc_physical_run_id l)))
        (\<lambda>expected_receipt.
      refuse (lc_commit_receipt_sha256 l \<noteq> expected_receipt)
        (RecoveryIntegrity ''logical commit receipt digest failed verification''))))"

definition sorted_attempts :: "journal_db \<Rightarrow> attempt_row list" where
  "sorted_attempts db = sort_key (\<lambda>a. (at_logical_execution_id a, at_attempt_number a)) (jd_attempts db)"

text \<open>\<open>_audit_in_transaction\<close>; \<open>by_logical\<close> lists the logical executions in the order of their first attempt.\<close>

definition audit_in_transaction :: "journal \<Rightarrow> journal_db \<Rightarrow> journal_error + unit" where
  "audit_in_transaction j db =
     (let rows = sorted_attempts db;
          by_logical = map (\<lambda>l. filter (\<lambda>a. at_logical_execution_id a = l) rows)
            (rev (remdups (rev (map at_logical_execution_id rows)))) in
      ebind (audit_metadata j db) (\<lambda>_.
      ebind (mapE (audit_attempt j db) rows) (\<lambda>_.
      ebind (mapE audit_logical by_logical) (\<lambda>_.
      ebind (refuse (set (map at_physical_run_id (filter (\<lambda>a. at_disposition a = ''committed'') (concat by_logical))) \<noteq>
                     set (map lc_physical_run_id (jd_commits db)))
        (RecoveryIntegrity ''committed attempts and logical commit receipts do not reconcile'')) (\<lambda>_.
      ebind (mapE (audit_commit j db) (jd_commits db)) (\<lambda>_. Inr ()))))))"

definition audit :: "journal \<Rightarrow> unit journal_action" where
  "audit j = read_db (audit_in_transaction j)"

section \<open>Checkpoints and attempts\<close>

text \<open>\<open>except sqlite3.IntegrityError as error: raise RecoveryConflictError(...)\<close>.\<close>

definition conflict_on_integrity :: "string \<Rightarrow> journal_error + 'a \<Rightarrow> journal_error + 'a" where
  "conflict_on_integrity message r = (case r of Inl SqlIntegrity \<Rightarrow> Inl (RecoveryConflict message) | _ \<Rightarrow> r)"

definition commit_receipt :: "journal \<Rightarrow> attempt_row \<Rightarrow> string \<Rightarrow> string option \<Rightarrow> journal_error + string option" where
  "commit_receipt j a state manifest =
     (if state = ''manifest-committed''
      then (case manifest of
              None \<Rightarrow> Inl AssertionFailed
            | Some m \<Rightarrow> ebind (json_sha256 j (commit_receipt_body j (at_logical_execution_id a) m (at_physical_run_id a)))
                (\<lambda>r. Inr (Some r)))
      else Inr None)"

text \<open>The row that \<open>_append_checkpoint\<close> inserts, with its place in the hash chain.\<close>

definition new_checkpoint ::
    "journal \<Rightarrow> attempt_row \<Rightarrow> checkpoint_row option \<Rightarrow> string \<Rightarrow> nat list \<Rightarrow> string option \<Rightarrow> string option \<Rightarrow> timestamp \<Rightarrow>
     journal_error + checkpoint_row" where
  "new_checkpoint j a previous state payload_bytes manifest receipt recorded_at =
     (let c = \<lparr>ck_physical_run_id = at_physical_run_id a,
            ck_ordinal = (case previous of None \<Rightarrow> 1 | Some p \<Rightarrow> ck_ordinal p + 1), ck_state = state,
            ck_payload_json = jn_decode j payload_bytes, ck_payload_sha256 = jn_sha256 j payload_bytes,
            ck_manifest_sha256 = manifest, ck_commit_receipt_sha256 = receipt,
            ck_previous_checkpoint_sha256 = map_option ck_checkpoint_sha256 previous, ck_checkpoint_sha256 = [],
            ck_controller_session_id = jn_controller_session_id j, ck_recorded_at = recorded_at\<rparr> in
      ebind (json_sha256 j (checkpoint_body j a (map_option ck_checkpoint_sha256 previous) c)) (\<lambda>digest.
        Inr (c\<lparr>ck_checkpoint_sha256 := digest\<rparr>)))"

definition insert_commit :: "attempt_row \<Rightarrow> string option \<Rightarrow> string option \<Rightarrow> journal_db \<Rightarrow> journal_error + journal_db" where
  "insert_commit a manifest receipt db =
     (case (manifest, receipt) of
        (Some m, Some r) \<Rightarrow> conflict_on_integrity ''logical execution already has a different commit''
          (insert_commit_row \<lparr>lc_logical_execution_id = at_logical_execution_id a, lc_physical_run_id = at_physical_run_id a,
             lc_manifest_sha256 = m, lc_commit_receipt_sha256 = r\<rparr> db)
      | _ \<Rightarrow> Inl SqlIntegrity)"

definition append_checkpoint ::
    "journal \<Rightarrow> string \<Rightarrow> string \<Rightarrow> (string \<times> json) list \<Rightarrow> string option \<Rightarrow> string journal_action" where
  "append_checkpoint j run state payload manifest =
     op_bind (op_lift (case validate_checkpoint_payload (jn_text j) None (JObj payload) of
         Some message \<Rightarrow> Inl (RecoveryConflict message) | None \<Rightarrow> Inr ())) (\<lambda>_.
     op_bind (op_lift (canonical_bytes j (JObj payload))) (\<lambda>payload_bytes.
     op_bind (read_db (\<lambda>db. Inr (latest_checkpoint db run))) (\<lambda>previous.
     op_bind (read_db (\<lambda>db. case attempt_of db run of None \<Rightarrow> Inl AssertionFailed | Some a \<Rightarrow> Inr a)) (\<lambda>a.
     op_bind (op_lift (commit_receipt j a state manifest)) (\<lambda>receipt.
     op_bind (journal_stamp j) (\<lambda>recorded_at.
     op_bind (op_lift (new_checkpoint j a previous state payload_bytes manifest receipt recorded_at)) (\<lambda>c.
     op_bind (change_db (insert_checkpoint_row c)) (\<lambda>_.
     op_bind (if state = ''manifest-committed'' then change_db (insert_commit a manifest receipt) else op_return ()) (\<lambda>_.
     op_return (ck_checkpoint_sha256 c))))))))))"

definition insert_attempt :: "journal \<Rightarrow> string \<Rightarrow> int \<Rightarrow> string \<Rightarrow> string journal_action" where
  "insert_attempt j logical number purpose =
     op_bind (next_run_id j) (\<lambda>run.
     op_bind (op_lift (require_typed_prefix ''physical run ID'' run ''rcid:v1:physical-run:u7:'')) (\<lambda>_.
     op_bind (journal_stamp j) (\<lambda>created_at.
     op_bind (change_db (\<lambda>db. conflict_on_integrity ''physical run identity or attempt ordinal collided''
       (insert_attempt_row \<lparr>at_physical_run_id = run, at_logical_execution_id = logical, at_attempt_number = number,
          at_purpose = purpose, at_disposition = ''active'', at_owner_session_id = jn_controller_session_id j,
          at_created_at = created_at\<rparr> db))) (\<lambda>_.
     op_bind (append_checkpoint j run ''leased'' [(''attempt_number'', JInt number), (''purpose'', JStr purpose)] None) (\<lambda>_.
     op_return run)))))"

section \<open>The operations of a session\<close>

definition decision :: "string \<Rightarrow> string \<Rightarrow> string \<Rightarrow> int \<Rightarrow> string \<Rightarrow> string \<Rightarrow> recovery_decision" where
  "decision action logical run number state reason =
     \<lparr>rd_action = action, rd_logical_execution_id = logical, rd_physical_run_id = Some run, rd_attempt_number = Some number,
      rd_resume_state = Some state, rd_reason_code = reason\<rparr>"

definition claim_attempt :: "journal \<Rightarrow> string \<Rightarrow> unit journal_action" where
  "claim_attempt j run = change_db (update_attempt run (\<lambda>a. a\<lparr>at_owner_session_id := jn_controller_session_id j\<rparr>))"

definition resume_attempt :: "journal \<Rightarrow> string \<Rightarrow> attempt_row \<Rightarrow> checkpoint_row \<Rightarrow> recovery_decision journal_action" where
  "resume_attempt j logical a c =
     (let stage = ck_state c; same_session = (at_owner_session_id a = jn_controller_session_id j);
          action = recovery_action_for_stage stage same_session; run = at_physical_run_id a in
      if action = ''quarantine'' then op_lift (Inl (RecoveryIntegrity ''latest attempt checkpoint has an unknown state''))
      else if action = ''retry''
      then (if at_disposition a \<noteq> ''active''
            then op_lift (Inl (RecoveryIntegrity ''retry source attempt is not active''))
            else op_bind (change_db (update_attempt run (\<lambda>a. a\<lparr>at_disposition := ''interrupted''\<rparr>))) (\<lambda>_.
              op_bind (insert_attempt j logical (at_attempt_number a + 1) ''retry'') (\<lambda>new_run.
              op_return (decision ''retry'' logical new_run (at_attempt_number a + 1) ''leased'' ''interrupted-target-invocation''))))
      else op_bind (claim_attempt j run) (\<lambda>_.
        op_return (decision action logical run (at_attempt_number a) stage
          (if same_session then ''duplicate-delivery'' else ''durable-checkpoint''))))"

definition start_or_resume :: "journal \<Rightarrow> string \<Rightarrow> recovery_decision journal_action" where
  "start_or_resume j logical =
     (if logical \<notin> set (jn_logical_execution_ids j)
      then op_lift (Inl (RecoveryConflict ''logical execution is outside the frozen campaign plan''))
      else transaction (op_bind (read_db (audit_in_transaction j)) (\<lambda>_.
        op_bind (read_db (\<lambda>db. Inr (commit_of db logical, latest_attempt_row db logical))) (\<lambda>found.
        case found of
          (Some _, None) \<Rightarrow> op_lift (Inl AssertionFailed)
        | (Some _, Some (a, c)) \<Rightarrow> op_bind (claim_attempt j (at_physical_run_id a)) (\<lambda>_.
            op_return (decision ''committed'' logical (at_physical_run_id a) (at_attempt_number a) (ck_state c)
              ''verified-manifest-commit''))
        | (None, None) \<Rightarrow> op_bind (insert_attempt j logical 1 ''initial'') (\<lambda>run.
            op_return (decision ''start'' logical run 1 ''leased'' ''initial-attempt''))
        | (None, Some (a, c)) \<Rightarrow> resume_attempt j logical a c))))"

text \<open>The place of a state in \<open>CHECKPOINT_STATES\<close> (\<open>list.index\<close>; \<open>None\<close> where it raises).\<close>

definition stage_index :: "string \<Rightarrow> nat option" where
  "stage_index s = find (\<lambda>i. CHECKPOINT_STATES ! i = s) [0..<length CHECKPOINT_STATES]"

definition check_transition :: "string \<Rightarrow> string \<Rightarrow> string option \<Rightarrow> journal_error + unit" where
  "check_transition latest_state state manifest =
     (case stage_index latest_state of
        None \<Rightarrow> Inl IndexFailed
      | Some i \<Rightarrow>
          ebind (refuse (i + 1 \<ge> length CHECKPOINT_STATES \<or> state \<noteq> CHECKPOINT_STATES ! (i + 1))
            (RecoveryConflict ''checkpoint transition is not the exact next D090 state'')) (\<lambda>_.
          if state = ''manifest-committed''
          then (case manifest of
                  None \<Rightarrow> Inl (RecoveryConflict ''manifest commit requires a verified manifest digest'')
                | Some m \<Rightarrow> require_digest ''manifest digest'' m)
          else refuse (manifest \<noteq> None) (RecoveryConflict ''manifest digest is permitted only at manifest commit'')))"

definition checkpoint ::
    "journal \<Rightarrow> string \<Rightarrow> string \<Rightarrow> (string \<times> json) list option \<Rightarrow> string option \<Rightarrow> string journal_action" where
  "checkpoint j run state payload manifest =
     op_bind (op_lift (require_typed_prefix ''physical run ID'' run ''rcid:v1:physical-run:u7:'')) (\<lambda>_.
     transaction (op_bind (read_db (audit_in_transaction j)) (\<lambda>_.
       op_bind (read_db (\<lambda>db. Inr (attempt_of db run, latest_checkpoint db run))) (\<lambda>found.
       case found of
         (None, _) \<Rightarrow> op_lift (Inl (RecoveryConflict ''physical run is unknown''))
       | (Some a, latest) \<Rightarrow>
           if at_owner_session_id a \<noteq> jn_controller_session_id j
           then op_lift (Inl (RecoveryConflict ''physical run is owned by another controller session''))
           else if at_disposition a \<noteq> ''active''
           then op_lift (Inl (RecoveryConflict ''only an active physical run can advance''))
           else (case latest of
                   None \<Rightarrow> op_lift (Inl AssertionFailed)
                 | Some c \<Rightarrow>
                     op_bind (op_lift (check_transition (ck_state c) state manifest)) (\<lambda>_.
                     op_bind (append_checkpoint j run state (case payload of None \<Rightarrow> [] | Some p \<Rightarrow> p) manifest) (\<lambda>digest.
                     op_bind (if state = ''manifest-committed''
                       then change_db (update_attempt run (\<lambda>a. a\<lparr>at_disposition := ''committed''\<rparr>)) else op_return ()) (\<lambda>_.
                     op_return digest))))))))"

definition acknowledge :: "journal \<Rightarrow> string \<Rightarrow> string journal_action" where
  "acknowledge j run =
     op_bind (op_lift (require_typed_prefix ''physical run ID'' run ''rcid:v1:physical-run:u7:'')) (\<lambda>_.
     transaction (op_bind (read_db (audit_in_transaction j)) (\<lambda>_.
       op_bind (read_db (\<lambda>db. Inr (attempt_of db run, latest_checkpoint db run))) (\<lambda>found.
       case found of
         (None, _) \<Rightarrow> op_lift (Inl (RecoveryConflict ''committed physical run is unknown or not reclaimed''))
       | (Some a, latest) \<Rightarrow>
           if at_owner_session_id a \<noteq> jn_controller_session_id j
           then op_lift (Inl (RecoveryConflict ''committed physical run is unknown or not reclaimed''))
           else if at_disposition a \<noteq> ''committed''
           then op_lift (Inl (RecoveryConflict ''acknowledgment requires a committed physical run''))
           else (case latest of
                   None \<Rightarrow> op_lift (Inl AssertionFailed)
                 | Some c \<Rightarrow>
                     if ck_state c = ''acknowledged'' then op_return (ck_checkpoint_sha256 c)
                     else if ck_state c \<noteq> ''manifest-committed''
                     then op_lift (Inl (RecoveryIntegrity ''committed attempt lacks a manifest checkpoint''))
                     else append_checkpoint j run ''acknowledged'' [] None)))))"

section \<open>Reading the journal\<close>

definition latest_checkpoint_payload :: "journal \<Rightarrow> string \<Rightarrow> json journal_action" where
  "latest_checkpoint_payload j run =
     op_bind (op_lift (require_typed_prefix ''physical run ID'' run ''rcid:v1:physical-run:u7:'')) (\<lambda>_.
     op_bind (audit j) (\<lambda>_.
     read_db (\<lambda>db. case latest_checkpoint db run of
         None \<Rightarrow> Inl (RecoveryConflict ''physical run is unknown'')
       | Some c \<Rightarrow> (case jn_loads j (ck_payload_json c) of
             Some (JObj fs) \<Rightarrow> Inr (JObj fs) | _ \<Rightarrow> Inl AssertionFailed))))"

definition coalesce :: "'a option \<Rightarrow> 'a option \<Rightarrow> 'a option" where
  "coalesce x y = (case x of None \<Rightarrow> y | Some _ \<Rightarrow> x)"

definition attempt_record_of :: "journal_db \<Rightarrow> attempt_row \<Rightarrow> checkpoint_row \<Rightarrow> attempt_record" where
  "attempt_record_of db a c =
     (let l = find (\<lambda>l. lc_physical_run_id l = at_physical_run_id a) (jd_commits db) in
      \<lparr>ar_logical_id = at_logical_execution_id a, ar_run_id = at_physical_run_id a, ar_number = at_attempt_number a,
       ar_purpose = at_purpose a, ar_disposition = at_disposition a, ar_owner = at_owner_session_id a,
       ar_latest_state = ck_state c,
       ar_manifest = coalesce (ck_manifest_sha256 c) (map_option lc_manifest_sha256 l),
       ar_receipt = coalesce (ck_commit_receipt_sha256 c) (map_option lc_commit_receipt_sha256 l)\<rparr>)"

definition attempts :: "journal_db \<Rightarrow> string option \<Rightarrow> attempt_record list" where
  "attempts db logical =
     List.map_filter (\<lambda>a. map_option (attempt_record_of db a) (latest_checkpoint db (at_physical_run_id a)))
       (filter (\<lambda>a. case logical of None \<Rightarrow> True | Some l \<Rightarrow> at_logical_execution_id a = l) (sorted_attempts db))"

definition recovery_decision_to_dict :: "recovery_decision \<Rightarrow> json" where
  "recovery_decision_to_dict d = JObj [
     (''action'', JStr (rd_action d)),
     (''attempt_number'', JOpt JInt (rd_attempt_number d)),
     (''logical_execution_id'', JStr (rd_logical_execution_id d)),
     (''physical_run_id'', JOpt JStr (rd_physical_run_id d)),
     (''reason_code'', JStr (rd_reason_code d)),
     (''resume_state'', JOpt JStr (rd_resume_state d))]"

definition attempt_record_to_dict :: "attempt_record \<Rightarrow> json" where
  "attempt_record_to_dict r = JObj [
     (''attempt_number'', JInt (ar_number r)),
     (''commit_receipt_sha256'', JOpt JStr (ar_receipt r)),
     (''disposition'', JStr (ar_disposition r)),
     (''latest_state'', JStr (ar_latest_state r)),
     (''logical_execution_id'', JStr (ar_logical_id r)),
     (''manifest_sha256'', JOpt JStr (ar_manifest r)),
     (''owner_session_id'', JStr (ar_owner r)),
     (''physical_run_id'', JStr (ar_run_id r)),
     (''purpose'', JStr (ar_purpose r))]"

section \<open>Opening the journal\<close>

text \<open>The checks of \<open>__init__\<close> on its arguments; the path checks and SQLite's own are not modelled.\<close>

definition check_journal :: "journal \<Rightarrow> journal_error + unit" where
  "check_journal j =
     ebind (require_typed_prefix ''campaign manifest ID'' (jn_campaign_manifest_id j) ''rcid:v1:campaign-manifest:h:'') (\<lambda>_.
     ebind (require_identifier ''controller session ID'' (jn_controller_session_id j)) (\<lambda>_.
     ebind (refuse (jn_logical_execution_ids j = [])
       (RecoveryConflict ''recovery plan requires at least one logical execution'')) (\<lambda>_.
     ebind (mapE (\<lambda>l. require_typed_prefix ''logical execution ID'' l ''rcid:v1:logical-execution:h:'')
       (jn_logical_execution_ids j)) (\<lambda>_.
     refuse (sort (jn_logical_execution_ids j) \<noteq> jn_logical_execution_ids j \<or> \<not> distinct (jn_logical_execution_ids j))
       (RecoveryConflict ''logical execution IDs must be unique and code-point ordered'')))))"

definition initialize :: "journal \<Rightarrow> unit journal_action" where
  "initialize j =
     op_bind (op_lift (expected_metadata j)) (\<lambda>expected.
     change_db (\<lambda>db.
       if jd_metadata db \<noteq> [] \<and> set (jd_metadata db) \<noteq> set expected
       then Inl (RecoveryIntegrity ''recovery journal metadata contradicts the campaign plan'')
       else if jd_metadata db = [] then Inr (db\<lparr>jd_metadata := expected\<rparr>)
       else Inr db))"

definition open_journal :: "journal \<Rightarrow> unit journal_action" where
  "open_journal j =
     op_bind (op_lift (check_journal j)) (\<lambda>_. op_bind (initialize j) (\<lambda>_. audit j))"

definition empty_db :: journal_db where
  "empty_db = \<lparr>jd_metadata = [], jd_attempts = [], jd_checkpoints = [], jd_commits = []\<rparr>"

section \<open>The qualification report\<close>

definition report_case :: "string \<Rightarrow> string \<Rightarrow> string option \<Rightarrow> bool \<Rightarrow> bool \<Rightarrow> json" where
  "report_case key action latest preserve requires_new = JObj [
     (''case_key'', JStr key),
     (''expected_action'', JStr action),
     (''latest_checkpoint'', JOpt JStr latest),
     (''preserve_physical_run'', JBool preserve),
     (''requires_new_physical_run'', JBool requires_new)]"

text \<open>The cases as tuples: key, expected action, latest checkpoint, and the two flags.\<close>

definition stage_case :: "string \<Rightarrow> string \<times> string \<times> string option \<times> bool \<times> bool" where
  "stage_case stage =
     (let action = recovery_action_for_stage stage False in
      (''restart-after-'' @ stage, action, Some stage, action \<noteq> ''retry'', action = ''retry''))"

definition report_cases :: "(string \<times> string \<times> string option \<times> bool \<times> bool) list" where
  "report_cases = sort_key fst (map stage_case CHECKPOINT_STATES @ [
     (''corrupt-checkpoint-chain'', ''quarantine'', None, False, False),
     (''duplicate-active-delivery'', ''continue'', Some ''running'', True, False),
     (''repeated-running-restarts'', ''retry'', Some ''running'', False, True),
     (''uncommitted-transaction'', ''continue'', Some ''leased'', True, False)])"

definition count_action :: "string \<Rightarrow> json" where
  "count_action action = JInt (int (length (filter (\<lambda>c. fst (snd c) = action) report_cases)))"

definition build_restart_resume_reference_report :: json where
  "build_restart_resume_reference_report = JObj [
     (''cases'', JArr (map (\<lambda>(k, a, l, p, r). report_case k a l p r) report_cases)),
     (''classification'', JObj [(''canonical_authority'', JBool False), (''normative_authority'', JBool False),
        (''operational_qualification_only'', JBool True), (''semantic_authority'', JBool False)]),
     (''schema_version'', JStr ''restart-resume-qualification.v1''),
     (''summary'', JObj [
        (''case_count'', JInt (int (length report_cases))),
        (''committed_case_count'', count_action ''committed''),
        (''continue_case_count'', count_action ''continue''),
        (''quarantine_case_count'', count_action ''quarantine''),
        (''retry_case_count'', count_action ''retry'')])]"

end
