(* ===== verification/Recovery_Audit.thy ===== *)
theory Recovery_Audit
  imports Recovery_Journal
begin

text \<open>
  What a passing audit says, as a conjunction of conditions on the rows of one attempt, of one
  logical execution and of one commit, and how the queries change when rows are inserted or
  updated.
\<close>

section \<open>Sorting rows\<close>

lemma insort_key_last: "f x < f y \<Longrightarrow> insort_key f x (xs @ [y]) = insort_key f x xs @ [y]"
  by (induction xs) auto

lemma sort_key_snoc: "\<forall>y \<in> set xs. f y < f x \<Longrightarrow> sort_key f (xs @ [x]) = sort_key f xs @ [x]"
  by (induction xs) (auto simp: insort_key_last)

lemma insort_key_map: "(\<And>y. f (u y) = f y) \<Longrightarrow> insort_key f (u x) (map u xs) = map u (insort_key f x xs)"
  by (induction xs) auto

lemma sort_key_map: "(\<And>y. f (u y) = f y) \<Longrightarrow> sort_key f (map u xs) = map u (sort_key f xs)"
  by (induction xs) (simp_all add: insort_key_map)

lemma insort_key_pair: "\<forall>y \<in> set (x # xs). g y = l \<Longrightarrow> insort_key (\<lambda>a. (g a, f a)) x xs = insort_key f x xs"
  by (induction xs) (auto simp: less_eq_prod_def)

lemma sort_key_pair: "\<forall>y \<in> set xs. g y = l \<Longrightarrow> sort_key (\<lambda>a. (g a, f a)) xs = sort_key f xs"
proof (induction xs)
  case (Cons x xs)
  then have "\<forall>y \<in> set (x # sort_key f xs). g y = l" by simp
  with Cons show ?case by (simp add: insort_key_pair [of x "sort_key f xs" g l f])
qed simp

section \<open>The audit as conditions\<close>

lemma attempts_of_sorted: "filter (\<lambda>a. at_logical_execution_id a = l) (sorted_attempts db) = attempts_of db l"
  by (simp add: sorted_attempts_def attempts_of_def filter_sort sort_key_pair [where l = l])

lemma set_attempts_of [simp]: "set (attempts_of db l) = {a \<in> set (jd_attempts db). at_logical_execution_id a = l}"
  by (auto simp: attempts_of_def)

lemma set_sorted_attempts [simp]: "set (sorted_attempts db) = set (jd_attempts db)"
  by (simp add: sorted_attempts_def)

lemma set_checkpoints_of [simp]: "set (checkpoints_of db r) = {c \<in> set (jd_checkpoints db). ck_physical_run_id c = r}"
  by (auto simp: checkpoints_of_def)

definition planned_logicals :: "journal_db \<Rightarrow> string set" where
  "planned_logicals db = at_logical_execution_id ` set (jd_attempts db)"

lemma mapE_unit: "(\<exists>us. mapE f xs = Inr us) \<longleftrightarrow> (\<forall>x \<in> set xs. \<exists>u. f x = Inr u)"
  using returns_mapE [of f xs] by (auto simp: returns_def)

lemma audit_iff:
  "audit_in_transaction j db = Inr () \<longleftrightarrow>
     audit_metadata j db = Inr () \<and>
     (\<forall>a \<in> set (jd_attempts db). audit_attempt j db a = Inr ()) \<and>
     (\<forall>l \<in> planned_logicals db. audit_logical (attempts_of db l) = Inr ()) \<and>
     at_physical_run_id ` {a \<in> set (jd_attempts db). at_disposition a = ''committed''} = lc_physical_run_id ` set (jd_commits db) \<and>
     (\<forall>l \<in> set (jd_commits db). audit_commit j db l = Inr ())"
proof -
  have rows: "set (concat (map (\<lambda>l. filter (\<lambda>a. at_logical_execution_id a = l) (sorted_attempts db))
       (rev (remdups (rev (map at_logical_execution_id (sorted_attempts db))))))) = set (jd_attempts db)"
    by (auto simp: attempts_of_sorted)
  have committed: "set (map at_physical_run_id (filter (\<lambda>a. at_disposition a = ''committed'')
       (concat (map (\<lambda>l. filter (\<lambda>a. at_logical_execution_id a = l) (sorted_attempts db))
       (rev (remdups (rev (map at_logical_execution_id (sorted_attempts db))))))))) =
     at_physical_run_id ` {a \<in> set (jd_attempts db). at_disposition a = ''committed''}"
    unfolding set_map set_filter rows by simp
  have unit: "(\<exists>u. r = Inr u) \<longleftrightarrow> r = Inr ()" for r :: "journal_error + unit" by auto
  show ?thesis
    unfolding audit_in_transaction_def Let_def committed
    by (simp add: mapE_unit unit attempts_of_sorted planned_logicals_def)
qed

definition live :: "attempt_row \<Rightarrow> bool" where
  "live a \<longleftrightarrow> at_disposition a \<in> {''active'', ''committed''}"

lemma audit_logical_iff:
  "audit_logical rows = Inr () \<longleftrightarrow>
     map at_attempt_number rows = [1..int (length rows)] \<and> rows \<noteq> [] \<and> at_purpose (hd rows) = ''initial'' \<and>
     (\<forall>a \<in> set (tl rows). at_purpose a = ''retry'') \<and>
     length (filter live rows) = 1"
  unfolding audit_logical_def live_def [abs_def] by auto

definition disposition_fits :: "attempt_row \<Rightarrow> string \<Rightarrow> bool" where
  "disposition_fits a state \<longleftrightarrow>
     (at_disposition a = ''interrupted'' \<longrightarrow> state = ''running'') \<and>
     (at_disposition a = ''committed'' \<longrightarrow> state \<in> set COMMITTED_STATES) \<and>
     (at_disposition a = ''active'' \<longrightarrow> state \<notin> set COMMITTED_STATES)"

definition run_ok :: "journal \<Rightarrow> attempt_row \<Rightarrow> checkpoint_row list \<Rightarrow> bool" where
  "run_ok j a cs \<longleftrightarrow> at_logical_execution_id a \<in> set (jn_logical_execution_ids j) \<and> cs \<noteq> [] \<and>
     map ck_ordinal cs = [1..int (length cs)] \<and> map ck_state cs = take (length cs) CHECKPOINT_STATES \<and>
     audit_chain j a None cs = Inr () \<and> disposition_fits a (ck_state (last cs))"

lemma audit_attempt_iff: "audit_attempt j db a = Inr () \<longleftrightarrow> run_ok j a (checkpoints_of db (at_physical_run_id a))"
  by (auto simp: audit_attempt_def Let_def run_ok_def audit_disposition_def disposition_fits_def)

lemma audit_chain_snoc:
  "audit_chain j a p (cs @ [c]) = Inr () \<longleftrightarrow>
     audit_chain j a p cs = Inr () \<and>
     audit_chain j a (if cs = [] then p else Some (ck_checkpoint_sha256 (last cs))) [c] = Inr ()"
  by (induction cs arbitrary: p) auto

text \<open>The chain does not depend on owner and disposition.\<close>

lemma audit_chain_cong:
  assumes "at_logical_execution_id a' = at_logical_execution_id a" "at_attempt_number a' = at_attempt_number a"
    "at_physical_run_id a' = at_physical_run_id a"
  shows "audit_chain j a' p cs = audit_chain j a p cs"
proof (induction cs arbitrary: p)
  case (Cons c cs)
  have "checkpoint_body j a' p c = checkpoint_body j a p c" using assms by (simp add: checkpoint_body_def)
  with Cons show ?case by simp
qed simp

lemma run_ok_length: "run_ok j a cs \<Longrightarrow> length cs \<le> 10"
proof -
  assume "run_ok j a cs"
  then have "length (map ck_state cs) = length (take (length cs) CHECKPOINT_STATES)" by (simp add: run_ok_def)
  then show ?thesis by (simp add: CHECKPOINT_STATES_def)
qed

lemma run_ok_state:
  assumes "run_ok j a cs" "i < length cs"
  shows "ck_state (cs ! i) = CHECKPOINT_STATES ! i"
proof -
  from assms(1) have "map ck_state cs = take (length cs) CHECKPOINT_STATES" by (simp add: run_ok_def)
  then have "map ck_state cs ! i = take (length cs) CHECKPOINT_STATES ! i" by simp
  with assms(2) show ?thesis by simp
qed

lemma run_ok_last_state: "run_ok j a cs \<Longrightarrow> ck_state (last cs) = CHECKPOINT_STATES ! (length cs - 1)"
proof -
  assume ok: "run_ok j a cs"
  then have "cs \<noteq> []" by (simp add: run_ok_def)
  with run_ok_state [OF ok, of "length cs - 1"] show ?thesis by (simp add: last_conv_nth)
qed

lemma run_ok_last_ordinal: "run_ok j a cs \<Longrightarrow> ck_ordinal (last cs) = int (length cs)"
proof -
  assume ok: "run_ok j a cs"
  then have "last (map ck_ordinal cs) = last [1..int (length cs)]" "cs \<noteq> []" by (simp_all add: run_ok_def)
  moreover from this have "last [1..int (length cs)] = int (length cs)" by (subst upto_rec2) (auto simp: Suc_leI)
  ultimately show ?thesis by (simp add: last_map)
qed

end
