(* ===== verification/Recovery_Invariant.thy ===== *)
theory Recovery_Invariant
  imports Recovery_Audit
begin

text \<open>
  The invariant of the recovery journal: the keys and references of the schema hold, the audit
  passes, and the last attempt of every logical execution is its live one. The changes a
  successful operation makes (\<open>journal_effect\<close>) preserve it.
\<close>

section \<open>The invariant\<close>

definition keys_ok :: "journal_db \<Rightarrow> bool" where
  "keys_ok db \<longleftrightarrow> distinct (map at_physical_run_id (jd_attempts db)) \<and>
     distinct (map lc_logical_execution_id (jd_commits db)) \<and>
     (\<forall>c \<in> set (jd_checkpoints db). \<exists>a \<in> set (jd_attempts db). at_physical_run_id a = ck_physical_run_id c)"

definition live_last :: "journal_db \<Rightarrow> bool" where
  "live_last db \<longleftrightarrow> (\<forall>l. attempts_of db l \<noteq> [] \<longrightarrow> live (last (attempts_of db l)))"

definition journal_ok :: "journal \<Rightarrow> journal_db \<Rightarrow> bool" where
  "journal_ok j db \<longleftrightarrow> keys_ok db \<and> audit_in_transaction j db = Inr () \<and> live_last db"

text \<open>What the audit uses of a session: its campaign, its plan and the library functions.\<close>

definition same_campaign :: "journal \<Rightarrow> journal \<Rightarrow> bool" where
  "same_campaign j j' \<longleftrightarrow>
     jn_campaign_manifest_id j' = jn_campaign_manifest_id j \<and> jn_logical_execution_ids j' = jn_logical_execution_ids j \<and>
     jn_canonical j' = jn_canonical j \<and> jn_decode j' = jn_decode j \<and> jn_loads j' = jn_loads j \<and>
     jn_sha256 j' = jn_sha256 j \<and> jn_text j' = jn_text j"

lemma same_campaign_refl [simp]: "same_campaign j j"
  by (simp add: same_campaign_def)

lemma json_sha256_cong: "same_campaign j j' \<Longrightarrow> json_sha256 j' v = json_sha256 j v"
  by (simp add: same_campaign_def json_sha256_def canonical_bytes_def)

lemma audit_chain_session: "same_campaign j j' \<Longrightarrow> audit_chain j' a p cs = audit_chain j a p cs"
proof (induction cs arbitrary: p)
  case (Cons c cs)
  have "audit_payload j' c = audit_payload j c" "checkpoint_body j' a p c = checkpoint_body j a p c"
    using Cons.prems by (simp_all add: same_campaign_def audit_payload_def checkpoint_body_def cong: option.case_cong)
  with Cons json_sha256_cong [OF Cons.prems] show ?case by simp
qed simp

lemma audit_session: "same_campaign j j' \<Longrightarrow> audit_in_transaction j' db = audit_in_transaction j db"
proof -
  assume same: "same_campaign j j'"
  then have "audit_metadata j' db = audit_metadata j db"
    by (simp add: audit_metadata_def expected_metadata_def json_sha256_cong) (simp add: same_campaign_def)
  moreover have "audit_attempt j' db = audit_attempt j db"
    using same by (auto simp: fun_eq_iff audit_attempt_def Let_def audit_chain_session) (simp_all add: same_campaign_def)
  moreover have "audit_commit j' db = audit_commit j db"
    using same by (simp add: fun_eq_iff audit_commit_def Let_def json_sha256_cong)
      (simp add: commit_receipt_body_def same_campaign_def)
  ultimately show ?thesis by (simp add: audit_in_transaction_def)
qed

text \<open>
  The law of the encoder the journal relies on: parsing the canonical text of an object gives
  an object with the same canonical text.
\<close>

definition encoder_ok :: "journal \<Rightarrow> bool" where
  "encoder_ok j \<longleftrightarrow> (\<forall>fs bytes. jn_canonical j (JObj fs) = Some bytes \<longrightarrow>
     (\<exists>gs. jn_loads j (jn_decode j bytes) = Some (JObj gs) \<and> jn_canonical j (JObj gs) = Some bytes))"

section \<open>Facts about a good journal\<close>

lemma journal_ok_run:
  "journal_ok j db \<Longrightarrow> a \<in> set (jd_attempts db) \<Longrightarrow> run_ok j a (checkpoints_of db (at_physical_run_id a))"
  by (simp add: journal_ok_def audit_iff audit_attempt_iff)

lemma journal_ok_logical:
  "journal_ok j db \<Longrightarrow> attempts_of db l \<noteq> [] \<Longrightarrow> audit_logical (attempts_of db l) = Inr ()"
proof -
  assume ok: "journal_ok j db" and "attempts_of db l \<noteq> []"
  then have "hd (attempts_of db l) \<in> set (attempts_of db l)" by (intro hd_in_set)
  then have "l \<in> planned_logicals db" unfolding set_attempts_of planned_logicals_def by force
  with ok show ?thesis by (simp add: journal_ok_def audit_iff)
qed

lemma keys_attempt:
  "keys_ok db \<Longrightarrow> a \<in> set (jd_attempts db) \<Longrightarrow> attempt_of db (at_physical_run_id a) = Some a"
  unfolding keys_ok_def attempt_of_def by (simp add: find_Some_iff_distinct)

lemma attempt_of_SomeD: "attempt_of db r = Some a \<Longrightarrow> a \<in> set (jd_attempts db) \<and> at_physical_run_id a = r"
  by (auto simp: attempt_of_def dest: find_SomeD)

lemma attempt_of_NoneD: "attempt_of db r = None \<Longrightarrow> a \<in> set (jd_attempts db) \<Longrightarrow> at_physical_run_id a \<noteq> r"
  by (auto simp: attempt_of_def dest: find_NoneD)

lemma latest_checkpoint_ok:
  "journal_ok j db \<Longrightarrow> a \<in> set (jd_attempts db) \<Longrightarrow>
     latest_checkpoint db (at_physical_run_id a) = Some (last (checkpoints_of db (at_physical_run_id a)))"
  using journal_ok_run [of j db a] by (simp add: latest_checkpoint_def run_ok_def)

lemma latest_attempt_row_ok:
  assumes "journal_ok j db"
  shows "latest_attempt_row db l =
     (if attempts_of db l = [] then None
      else Some (last (attempts_of db l), last (checkpoints_of db (at_physical_run_id (last (attempts_of db l))))))"
proof -
  have mem: "a \<in> set (jd_attempts db)" if "a \<in> set (attempts_of db l)" for a using that by simp
  have "filter (\<lambda>a. latest_checkpoint db (at_physical_run_id a) \<noteq> None) (attempts_of db l) = attempts_of db l"
    using latest_checkpoint_ok [OF assms mem] by (intro filter_True) auto
  moreover have "latest_checkpoint db (at_physical_run_id (last (attempts_of db l))) =
      Some (last (checkpoints_of db (at_physical_run_id (last (attempts_of db l)))))" if "attempts_of db l \<noteq> []"
    using latest_checkpoint_ok [OF assms mem [OF last_in_set [OF that]]] .
  ultimately show ?thesis by (simp add: latest_attempt_row_def Let_def)
qed

text \<open>The numbers of the attempts at one logical execution are below that of the next one.\<close>

lemma attempt_numbers:
  assumes "journal_ok j db" "attempts_of db l \<noteq> []"
  shows "at_attempt_number (last (attempts_of db l)) = int (length (attempts_of db l))"
    and "a \<in> set (attempts_of db l) \<Longrightarrow> at_attempt_number a \<le> int (length (attempts_of db l))"
proof -
  have n: "map at_attempt_number (attempts_of db l) = [1..int (length (attempts_of db l))]"
    using journal_ok_logical [OF assms] by (simp add: audit_logical_iff)
  have len: "1 \<le> int (length (attempts_of db l))" using assms(2) by (cases "attempts_of db l") auto
  have "last (map at_attempt_number (attempts_of db l)) = int (length (attempts_of db l))"
    unfolding n by (subst upto_rec2 [OF len]) simp
  then show "at_attempt_number (last (attempts_of db l)) = int (length (attempts_of db l))"
    using assms(2) by (simp add: last_map)
  show "at_attempt_number a \<le> int (length (attempts_of db l))" if "a \<in> set (attempts_of db l)"
  proof -
    from that have "at_attempt_number a \<in> set (map at_attempt_number (attempts_of db l))" by (simp del: set_attempts_of)
    then show ?thesis unfolding n by simp
  qed
qed

text \<open>Exactly the last attempt is live.\<close>

lemma only_last_live:
  assumes "journal_ok j db" "attempts_of db l = as @ [a]"
  shows "live a" "\<forall>b \<in> set as. \<not> live b"
proof -
  from assms show "live a" by (auto simp: journal_ok_def live_last_def dest!: spec [of _ l])
  have "length (filter live (as @ [a])) = 1"
    using journal_ok_logical [OF assms(1), of l] assms(2) by (simp add: audit_logical_iff)
  with \<open>live a\<close> show "\<forall>b \<in> set as. \<not> live b" by (simp add: filter_empty_conv)
qed

end
