(* ===== verification/Recovery_Effects.thy ===== *)
theory Recovery_Effects
  imports Recovery_Invariant
begin

text \<open>
  The changes of the tables that successful operations make, as a relation between the tables
  before and after, and the proof that each of them preserves the invariant.
\<close>

section \<open>Queries after a change\<close>

definition mark :: "string \<Rightarrow> (attempt_row \<Rightarrow> attempt_row) \<Rightarrow> attempt_row \<Rightarrow> attempt_row" where
  "mark run f a = (if at_physical_run_id a = run then f a else a)"

text \<open>An update of an attempt's owner or disposition.\<close>

definition plain_update :: "(attempt_row \<Rightarrow> attempt_row) \<Rightarrow> bool" where
  "plain_update f \<longleftrightarrow> (\<forall>a. at_physical_run_id (f a) = at_physical_run_id a \<and>
     at_logical_execution_id (f a) = at_logical_execution_id a \<and> at_attempt_number (f a) = at_attempt_number a \<and>
     at_purpose (f a) = at_purpose a)"

lemma plain_updates [simp]:
  "plain_update (\<lambda>a. a\<lparr>at_owner_session_id := s\<rparr>)" "plain_update (\<lambda>a. a\<lparr>at_disposition := d\<rparr>)"
  by (simp_all add: plain_update_def)

lemma mark_fields [simp]:
  assumes "plain_update f"
  shows "at_physical_run_id (mark run f a) = at_physical_run_id a" "at_logical_execution_id (mark run f a) = at_logical_execution_id a"
    "at_attempt_number (mark run f a) = at_attempt_number a" "at_purpose (mark run f a) = at_purpose a"
  using assms by (simp_all add: mark_def plain_update_def)

lemma checkpoints_of_attempts [simp]:
  "checkpoints_of (db\<lparr>jd_attempts := x\<rparr>) r = checkpoints_of db r"
  "checkpoints_of (db\<lparr>jd_commits := y\<rparr>) r = checkpoints_of db r"
  by (simp_all add: checkpoints_of_def)

lemma attempts_of_checkpoints [simp]:
  "attempts_of (db\<lparr>jd_checkpoints := x\<rparr>) l = attempts_of db l"
  "attempts_of (db\<lparr>jd_commits := y\<rparr>) l = attempts_of db l"
  by (simp_all add: attempts_of_def)

lemma checkpoints_of_append:
  assumes "\<And>d. d \<in> set (checkpoints_of db (ck_physical_run_id c)) \<Longrightarrow> ck_ordinal d < ck_ordinal c"
  shows "checkpoints_of (db\<lparr>jd_checkpoints := jd_checkpoints db @ [c]\<rparr>) r =
     (if ck_physical_run_id c = r then checkpoints_of db r @ [c] else checkpoints_of db r)"
  using assms by (simp add: checkpoints_of_def sort_key_snoc)

lemma attempts_of_mark:
  assumes "plain_update f"
  shows "attempts_of (db\<lparr>jd_attempts := map (mark run f) (jd_attempts db)\<rparr>) l = map (mark run f) (attempts_of db l)"
proof -
  have "filter (\<lambda>a. at_logical_execution_id a = l) (map (mark run f) (jd_attempts db)) =
      map (mark run f) (filter (\<lambda>a. at_logical_execution_id a = l) (jd_attempts db))"
    using assms by (simp add: filter_map comp_def)
  then show ?thesis using assms by (simp add: attempts_of_def sort_key_map)
qed

lemma attempts_of_append:
  assumes "\<And>b. b \<in> set (attempts_of db (at_logical_execution_id a)) \<Longrightarrow> at_attempt_number b < at_attempt_number a"
  shows "attempts_of (db\<lparr>jd_attempts := jd_attempts db @ [a]\<rparr>) l =
     (if at_logical_execution_id a = l then attempts_of db l @ [a] else attempts_of db l)"
  using assms by (simp add: attempts_of_def sort_key_snoc)

lemma find_mapped: "find P (map f xs) = map_option f (find (P \<circ> f) xs)"
  by (induction xs) auto

lemma find_append: "find P (xs @ ys) = (case find P xs of None \<Rightarrow> find P ys | Some x \<Rightarrow> Some x)"
  by (induction xs) auto

lemma attempt_of_mark:
  assumes "plain_update f"
  shows "attempt_of (db\<lparr>jd_attempts := map (mark run f) (jd_attempts db)\<rparr>) r = map_option (mark run f) (attempt_of db r)"
  using assms by (simp add: attempt_of_def find_mapped comp_def)

section \<open>The next checkpoint of a run\<close>

definition next_checkpoint :: "journal \<Rightarrow> attempt_row \<Rightarrow> checkpoint_row list \<Rightarrow> checkpoint_row \<Rightarrow> bool" where
  "next_checkpoint j a cs c \<longleftrightarrow> length cs < 10 \<and> ck_physical_run_id c = at_physical_run_id a \<and>
     ck_ordinal c = int (length cs) + 1 \<and> ck_state c = CHECKPOINT_STATES ! length cs \<and>
     audit_chain j a (if cs = [] then None else Some (ck_checkpoint_sha256 (last cs))) [c] = Inr ()"

lemma run_ok_append:
  assumes nxt: "next_checkpoint j a cs c" and run: "cs = [] \<or> run_ok j a cs"
    and a': "at_logical_execution_id a' = at_logical_execution_id a" "at_attempt_number a' = at_attempt_number a"
      "at_physical_run_id a' = at_physical_run_id a" "at_logical_execution_id a \<in> set (jn_logical_execution_ids j)"
    and fits: "disposition_fits a' (ck_state c)"
  shows "run_ok j a' (cs @ [c])"
proof -
  have len: "length cs < length CHECKPOINT_STATES" using nxt by (simp add: next_checkpoint_def CHECKPOINT_STATES_def)
  have "map ck_ordinal cs = [1..int (length cs)]" "map ck_state cs = take (length cs) CHECKPOINT_STATES" "audit_chain j a None cs = Inr ()"
    using run by (auto simp: run_ok_def)
  moreover have "[1..1 + int (length cs)] = [1..int (length cs)] @ [1 + int (length cs)]"
    using upto_rec2 [of 1 "1 + int (length cs)"] by simp
  moreover have "take (Suc (length cs)) CHECKPOINT_STATES = take (length cs) CHECKPOINT_STATES @ [CHECKPOINT_STATES ! length cs]"
    using len by (rule take_Suc_conv_app_nth)
  moreover have "audit_chain j a None (cs @ [c]) = Inr ()"
    using nxt calculation(3) unfolding audit_chain_snoc next_checkpoint_def by simp
  ultimately show ?thesis
    using nxt a' fits unfolding run_ok_def audit_chain_cong [OF a'(1-3)] by (simp add: next_checkpoint_def add.commute)
qed

lemma next_checkpoint_ordinals:
  assumes "run_ok j a cs" "next_checkpoint j a cs c" "d \<in> set cs"
  shows "ck_ordinal d < ck_ordinal c"
proof -
  from assms(3) have "ck_ordinal d \<in> set (map ck_ordinal cs)" by simp
  also have "map ck_ordinal cs = [1..int (length cs)]" using assms(1) by (simp add: run_ok_def)
  finally show ?thesis using assms(2) by (simp add: next_checkpoint_def)
qed

section \<open>Assembling the invariant\<close>

lemma journal_okI:
  assumes "keys_ok db" "audit_metadata j db = Inr ()"
    "\<And>a. a \<in> set (jd_attempts db) \<Longrightarrow> run_ok j a (checkpoints_of db (at_physical_run_id a))"
    "\<And>l. attempts_of db l \<noteq> [] \<Longrightarrow> audit_logical (attempts_of db l) = Inr () \<and> live (last (attempts_of db l))"
    "at_physical_run_id ` {a \<in> set (jd_attempts db). at_disposition a = ''committed''} = lc_physical_run_id ` set (jd_commits db)"
    "\<And>l. l \<in> set (jd_commits db) \<Longrightarrow> audit_commit j db l = Inr ()"
  shows "journal_ok j db"
proof -
  have "attempts_of db l \<noteq> []" if "l \<in> planned_logicals db" for l
  proof
    assume "attempts_of db l = []"
    then have "set (attempts_of db l) = {}" by simp
    with that show False unfolding set_attempts_of planned_logicals_def by auto
  qed
  then show ?thesis using assms by (simp add: journal_ok_def live_last_def audit_iff audit_attempt_iff)
qed

lemma audit_metadata_cong: "jd_metadata db' = jd_metadata db \<Longrightarrow> audit_metadata j db' = audit_metadata j db"
  by (simp add: audit_metadata_def)

lemma audit_logical_mark:
  assumes "plain_update f" "\<And>a. a \<in> set rows \<Longrightarrow> live (mark run f a) = live a"
  shows "audit_logical (map (mark run f) rows) = Inr () \<longleftrightarrow> audit_logical rows = Inr ()"
proof -
  have "filter (live \<circ> mark run f) rows = filter live rows"
    using assms(2) by (intro filter_cong) auto
  then have "length (filter live (map (mark run f) rows)) = length (filter live rows)" by (simp add: filter_map)
  moreover have "rows \<noteq> [] \<Longrightarrow> at_purpose (hd (map (mark run f) rows)) = at_purpose (hd rows)"
    using assms(1) by (cases rows) simp_all
  moreover have "(\<forall>a \<in> set (tl (map (mark run f) rows)). at_purpose a = ''retry'') \<longleftrightarrow> (\<forall>a \<in> set (tl rows). at_purpose a = ''retry'')"
    using assms(1) by (cases rows) simp_all
  ultimately show ?thesis using assms(1) unfolding audit_logical_iff by (auto simp: comp_def)
qed

section \<open>Changes that preserve the invariant\<close>

text \<open>A change of the owner.\<close>

lemma claimed_ok:
  assumes ok: "journal_ok j db" and f: "f = (\<lambda>a. a\<lparr>at_owner_session_id := s\<rparr>)"
  shows "journal_ok j (db\<lparr>jd_attempts := map (mark run f) (jd_attempts db)\<rparr>)" (is "journal_ok j ?db")
proof (rule journal_okI)
  have plain: "plain_update f" by (simp add: f)
  have disposition: "at_disposition (mark run f a) = at_disposition a" "live (mark run f a) = live a" for a
    by (simp_all add: mark_def f live_def)
  show "keys_ok ?db" using ok plain by (simp add: journal_ok_def keys_ok_def comp_def)
  show "audit_metadata j ?db = Inr ()" using ok audit_metadata_cong [of ?db db j] by (simp add: journal_ok_def audit_iff)
  show "run_ok j a (checkpoints_of ?db (at_physical_run_id a))" if "a \<in> set (jd_attempts ?db)" for a
  proof -
    from that obtain b where b: "b \<in> set (jd_attempts db)" "a = mark run f b" by auto
    with journal_ok_run [OF ok b(1)] plain show ?thesis
      by (simp add: run_ok_def disposition_fits_def disposition audit_chain_cong [of "mark run f b" b])
  qed
  show "audit_logical (attempts_of ?db l) = Inr () \<and> live (last (attempts_of ?db l))" if "attempts_of ?db l \<noteq> []" for l
  proof -
    have rows: "attempts_of ?db l = map (mark run f) (attempts_of db l)" by (rule attempts_of_mark [OF plain])
    with that have ne: "attempts_of db l \<noteq> []" by (metis map_is_Nil_conv)
    have "audit_logical (map (mark run f) (attempts_of db l)) = Inr ()"
      using audit_logical_mark [OF plain, of "attempts_of db l" run] journal_ok_logical [OF ok ne] disposition by simp
    moreover have "live (last (attempts_of db l))" using ok ne unfolding journal_ok_def live_last_def by blast
    moreover have "last (map (mark run f) (attempts_of db l)) = mark run f (last (attempts_of db l))" using ne by (rule last_map)
    ultimately show ?thesis unfolding rows by (simp only: disposition simp_thms)
  qed
  show "at_physical_run_id ` {a \<in> set (jd_attempts ?db). at_disposition a = ''committed''} = lc_physical_run_id ` set (jd_commits ?db)"
  proof -
    have "{a \<in> set (jd_attempts ?db). at_disposition a = ''committed''} =
        mark run f ` {a \<in> set (jd_attempts db). at_disposition a = ''committed''}" using disposition by auto
    then show ?thesis using ok plain by (simp add: journal_ok_def audit_iff image_image)
  qed
  show "audit_commit j ?db l = Inr ()" if "l \<in> set (jd_commits ?db)" for l
  proof -
    have "audit_commit j db l = Inr ()" using that ok by (simp add: journal_ok_def audit_iff)
    then show ?thesis using plain
      by (auto simp: audit_commit_def Let_def attempt_of_mark [OF plain] disposition split: option.splits)
  qed
qed

text \<open>A further checkpoint of a live run, without a commit.\<close>

lemma appended_ok:
  assumes ok: "journal_ok j db" and a: "a \<in> set (jd_attempts db)"
    and c: "next_checkpoint j a (checkpoints_of db (at_physical_run_id a)) c" and fits: "disposition_fits a (ck_state c)"
  shows "journal_ok j (db\<lparr>jd_checkpoints := jd_checkpoints db @ [c]\<rparr>)" (is "journal_ok j ?db")
proof (rule journal_okI)
  have run: "ck_physical_run_id c = at_physical_run_id a" using c by (simp add: next_checkpoint_def)
  have ckpts: "checkpoints_of ?db r = (if at_physical_run_id a = r then checkpoints_of db r @ [c] else checkpoints_of db r)" for r
    using next_checkpoint_ordinals [OF journal_ok_run [OF ok a] c] by (subst checkpoints_of_append) (simp_all add: run)
  show "keys_ok ?db" using ok a by (auto simp: journal_ok_def keys_ok_def run)
  show "audit_metadata j ?db = Inr ()" using ok audit_metadata_cong [of ?db db j] by (simp add: journal_ok_def audit_iff)
  show "run_ok j b (checkpoints_of ?db (at_physical_run_id b))" if "b \<in> set (jd_attempts ?db)" for b
  proof (cases "at_physical_run_id a = at_physical_run_id b")
    case True
    have "attempt_of db (at_physical_run_id a) = Some a" "attempt_of db (at_physical_run_id b) = Some b"
      using ok a that by (simp_all add: journal_ok_def keys_attempt)
    with True have "b = a" by (metis option.inject)
    moreover have "run_ok j a (checkpoints_of db (at_physical_run_id a) @ [c])"
      using run_ok_append [OF c disjI2 [OF journal_ok_run [OF ok a]] refl refl refl _ fits] journal_ok_run [OF ok a]
      by (simp add: run_ok_def)
    ultimately show ?thesis by (simp add: ckpts)
  next
    case False
    then show ?thesis using journal_ok_run [OF ok] that by (simp add: ckpts)
  qed
  show "audit_logical (attempts_of ?db l) = Inr () \<and> live (last (attempts_of ?db l))" if "attempts_of ?db l \<noteq> []" for l
    using that journal_ok_logical [OF ok, of l] ok by (simp add: journal_ok_def live_last_def)
  show "at_physical_run_id ` {a \<in> set (jd_attempts ?db). at_disposition a = ''committed''} = lc_physical_run_id ` set (jd_commits ?db)"
    using ok by (simp add: journal_ok_def audit_iff)
  show "audit_commit j ?db l = Inr ()" if "l \<in> set (jd_commits ?db)" for l
  proof -
    have "audit_commit j db l = Inr ()" using that ok by (simp add: journal_ok_def audit_iff)
    then show ?thesis by (auto simp: audit_commit_def Let_def attempt_of_def find_append split: option.splits)
  qed
qed

text \<open>The commit of an active run.\<close>

lemma stage_of_commit: "i < 10 \<Longrightarrow> CHECKPOINT_STATES ! i = ''manifest-committed'' \<longleftrightarrow> i = 8"
proof -
  assume "i < 10"
  then have "i \<in> {0, 1, 2, 3, 4, 5, 6, 7, 8, 9}" by auto
  then show ?thesis by (auto simp: CHECKPOINT_STATES_def)
qed

lemma audit_commit_kept:
  assumes "audit_commit j db l = Inr ()" "attempt_of db' (lc_physical_run_id l) = attempt_of db (lc_physical_run_id l)"
    "jd_checkpoints db' = jd_checkpoints db @ cs"
  shows "audit_commit j db' l = Inr ()"
  using assms by (auto simp: audit_commit_def Let_def find_append split: option.splits)

lemma same_run: "keys_ok db \<Longrightarrow> a \<in> set (jd_attempts db) \<Longrightarrow> b \<in> set (jd_attempts db) \<Longrightarrow>
    at_physical_run_id a = at_physical_run_id b \<Longrightarrow> a = b"
  using keys_attempt by (metis option.inject)

lemma mark_same_run:
  assumes "keys_ok db" "a \<in> set (jd_attempts db)" "b \<in> set (jd_attempts db)"
  shows "mark (at_physical_run_id a) f b = (if b = a then f a else b)"
  using same_run [OF assms] by (auto simp: mark_def)

lemma committed_ok:
  assumes ok: "journal_ok j db" and a: "a \<in> set (jd_attempts db)" "at_disposition a = ''active''"
    and c: "next_checkpoint j a (checkpoints_of db (at_physical_run_id a)) c" "ck_state c = ''manifest-committed''"
      "ck_manifest_sha256 c = Some m" "ck_commit_receipt_sha256 c = Some r"
    and receipt: "json_sha256 j (commit_receipt_body j (at_logical_execution_id a) m (at_physical_run_id a)) = Inr r"
    and row: "row = \<lparr>lc_logical_execution_id = at_logical_execution_id a, lc_physical_run_id = at_physical_run_id a,
        lc_manifest_sha256 = m, lc_commit_receipt_sha256 = r\<rparr>"
    and new: "at_logical_execution_id a \<notin> lc_logical_execution_id ` set (jd_commits db)"
    and f: "f = (\<lambda>a. a\<lparr>at_disposition := ''committed''\<rparr>)"
    and db': "jd_metadata db' = jd_metadata db" "jd_attempts db' = map (mark (at_physical_run_id a) f) (jd_attempts db)"
      "jd_checkpoints db' = jd_checkpoints db @ [c]" "jd_commits db' = jd_commits db @ [row]"
  shows "journal_ok j db'"
proof -
  let ?run = "at_physical_run_id a"
  have keys: "keys_ok db" using ok by (simp add: journal_ok_def)
  have plain: "plain_update f" by (simp add: f)
  have run: "ck_physical_run_id c = ?run" using c by (simp add: next_checkpoint_def)
  have ckpts: "checkpoints_of db' r = (if ?run = r then checkpoints_of db r @ [c] else checkpoints_of db r)" for r
    using next_checkpoint_ordinals [OF journal_ok_run [OF ok a(1)] c(1)] checkpoints_of_append [of db c r]
    by (simp add: run checkpoints_of_def db')
  have rows: "attempts_of db' l = map (mark ?run f) (attempts_of db l)" for l
    using attempts_of_mark [OF plain, where db = db and run = ?run and l = l] by (simp add: attempts_of_def db')
  have marked: "mark ?run f b = (if b = a then f a else b)" if "b \<in> set (jd_attempts db)" for b
    using mark_same_run [OF keys a(1) that] .
  have live: "live (mark ?run f b) = live b" if "b \<in> set (jd_attempts db)" for b
    using marked [OF that] a(2) by (auto simp: live_def f)
  show ?thesis
  proof (rule journal_okI)
    show "keys_ok db'" using keys new a(1) plain by (auto simp: keys_ok_def db' comp_def row run)
    show "audit_metadata j db' = Inr ()" using ok audit_metadata_cong [of db' db j] by (simp add: db' journal_ok_def audit_iff)
    show "run_ok j b (checkpoints_of db' (at_physical_run_id b))" if "b \<in> set (jd_attempts db')" for b
    proof -
      from that obtain d where d: "d \<in> set (jd_attempts db)" "b = mark ?run f d" by (auto simp: db')
      show ?thesis
      proof (cases "d = a")
        case True
        have fits: "disposition_fits (f a) (ck_state c)" by (simp add: f disposition_fits_def c(2) COMMITTED_STATES_def)
        have "at_logical_execution_id a \<in> set (jn_logical_execution_ids j)" using journal_ok_run [OF ok a(1)] by (simp add: run_ok_def)
        then have "run_ok j (f a) (checkpoints_of db ?run @ [c])"
          by (intro run_ok_append [OF c(1) disjI2 [OF journal_ok_run [OF ok a(1)]] _ _ _ _ fits]) (simp_all add: f)
        moreover have "b = f a" using d(2) True marked [OF a(1)] by simp
        moreover have "at_physical_run_id (f a) = ?run" by (simp add: f)
        ultimately show ?thesis by (simp only: ckpts if_True refl)
      next
        case False
        with d same_run [OF keys a(1) d(1)] journal_ok_run [OF ok d(1)] show ?thesis by (auto simp: ckpts marked)
      qed
    qed
    show "audit_logical (attempts_of db' l) = Inr () \<and> live (last (attempts_of db' l))" if "attempts_of db' l \<noteq> []" for l
    proof -
      from that have ne: "attempts_of db l \<noteq> []" unfolding rows by (metis map_is_Nil_conv)
      have live': "live (mark ?run f b) = live b" if "b \<in> set (attempts_of db l)" for b using live that by simp
      have "audit_logical (map (mark ?run f) (attempts_of db l)) = Inr ()"
        using audit_logical_mark [OF plain, of "attempts_of db l" ?run] journal_ok_logical [OF ok ne] live' by blast
      moreover have "live (last (attempts_of db l))" using ok ne unfolding journal_ok_def live_last_def by blast
      moreover have "last (map (mark ?run f) (attempts_of db l)) = mark ?run f (last (attempts_of db l))" using ne by (rule last_map)
      ultimately show ?thesis unfolding rows using live' [OF last_in_set [OF ne]] by (simp only: simp_thms)
    qed
    show "at_physical_run_id ` {a \<in> set (jd_attempts db'). at_disposition a = ''committed''} = lc_physical_run_id ` set (jd_commits db')"
    proof -
      have "{b \<in> set (jd_attempts db'). at_disposition b = ''committed''} =
          insert (f a) {b \<in> set (jd_attempts db). at_disposition b = ''committed''}"
        using a marked by (auto simp: db' f)
      moreover have "at_physical_run_id (f a) = ?run" by (simp add: f)
      ultimately show ?thesis using ok by (simp add: db' row journal_ok_def audit_iff)
    qed
    show "audit_commit j db' l = Inr ()" if "l \<in> set (jd_commits db')" for l
    proof (cases "l = row")
      case False
      with that have old: "l \<in> set (jd_commits db)" by (simp add: db')
      with ok have commit: "audit_commit j db l = Inr ()" by (simp add: journal_ok_def audit_iff)
      then obtain b where b: "attempt_of db (lc_physical_run_id l) = Some b" "at_disposition b = ''committed''"
        by (auto simp: audit_commit_def Let_def split: option.splits)
      have "attempt_of db' (lc_physical_run_id l) = map_option (mark ?run f) (attempt_of db (lc_physical_run_id l))"
        using attempt_of_mark [OF plain, where db = db and run = ?run] by (simp add: attempt_of_def db')
      with b a(2) marked attempt_of_SomeD [OF b(1)] have "attempt_of db' (lc_physical_run_id l) = attempt_of db (lc_physical_run_id l)"
        by auto
      with audit_commit_kept [OF commit] db'(3) show ?thesis by blast
    next
      case True
      let ?cs = "checkpoints_of db ?run"
      have "attempt_of db' ?run = Some (f a)"
        using attempt_of_mark [OF plain, where db = db and run = ?run and r = ?run] keys_attempt [OF keys a(1)] marked [OF a(1)] by (simp add: attempt_of_def db')
      moreover have "find (\<lambda>d. ck_physical_run_id d = ?run \<and> ck_state d = ''manifest-committed'') (jd_checkpoints db) = None"
      proof -
        have "length ?cs < 10" "CHECKPOINT_STATES ! length ?cs = ''manifest-committed''"
          using c(1,2) unfolding next_checkpoint_def by simp_all
        then have len: "length ?cs = 8" using stage_of_commit by blast
        have "ck_state d \<noteq> ''manifest-committed''" if "d \<in> set (jd_checkpoints db)" "ck_physical_run_id d = ?run" for d
        proof -
          from that have "d \<in> set ?cs" by simp
          then obtain i where "i < length ?cs" "d = ?cs ! i" by (metis in_set_conv_nth)
          with run_ok_state [OF journal_ok_run [OF ok a(1)]] len show ?thesis by (simp add: stage_of_commit)
        qed
        then show ?thesis by (auto simp: find_None_iff)
      qed
      ultimately show ?thesis using receipt c
        by (simp add: True row audit_commit_def Let_def db' find_append run) (simp add: f)
    qed
  qed
qed

text \<open>A new attempt with its first checkpoint; a retry interrupts the attempt before it.\<close>

definition retry_source :: "journal_db \<Rightarrow> string \<Rightarrow> attempt_row \<Rightarrow> bool" where
  "retry_source db l a \<longleftrightarrow> attempts_of db l \<noteq> [] \<and> last (attempts_of db l) = a \<and> at_disposition a = ''active'' \<and>
     ck_state (last (checkpoints_of db (at_physical_run_id a))) = ''running''"

lemma new_run_checkpoints:
  assumes "keys_ok db" "\<forall>a \<in> set (jd_attempts db). at_physical_run_id a \<noteq> run" "ck_physical_run_id c = run"
    "jd_checkpoints db' = jd_checkpoints db @ [c]"
  shows "checkpoints_of db' r = (if run = r then [c] else checkpoints_of db r)"
proof -
  have "filter (\<lambda>d. ck_physical_run_id d = run) (jd_checkpoints db) = []"
    using assms(1,2) by (force simp: filter_empty_conv keys_ok_def)
  then show ?thesis by (cases "r = run") (simp_all add: checkpoints_of_def assms(3,4))
qed

lemma new_attempt_rows:
  assumes ok: "journal_ok j db" and plain: "plain_update f"
    and b: "at_attempt_number b = int (length (attempts_of db (at_logical_execution_id b))) + 1"
    and db': "jd_attempts db' = map (mark old f) (jd_attempts db) @ [b]"
  shows "attempts_of db' l = map (mark old f) (attempts_of db l) @ (if l = at_logical_execution_id b then [b] else [])"
proof -
  let ?db = "db\<lparr>jd_attempts := map (mark old f) (jd_attempts db)\<rparr>" and ?l = "at_logical_execution_id b"
  have old_rows: "attempts_of ?db l = map (mark old f) (attempts_of db l)" for l by (rule attempts_of_mark [OF plain])
  have "at_attempt_number x < at_attempt_number b" if "x \<in> set (attempts_of ?db ?l)" for x
  proof -
    from that obtain y where y: "y \<in> set (attempts_of db ?l)" "x = mark old f y" unfolding old_rows by auto
    then have "attempts_of db ?l \<noteq> []" by (metis empty_iff empty_set)
    from attempt_numbers(2) [OF ok this y(1)] y(2) b plain show ?thesis by simp
  qed
  from attempts_of_append [of ?db b l] this
  have "attempts_of (?db\<lparr>jd_attempts := jd_attempts ?db @ [b]\<rparr>) l =
      (if ?l = l then attempts_of ?db l @ [b] else attempts_of ?db l)" by blast
  moreover have "attempts_of (?db\<lparr>jd_attempts := jd_attempts ?db @ [b]\<rparr>) l = attempts_of db' l"
    by (simp add: attempts_of_def db')
  ultimately show ?thesis by (auto simp: old_rows)
qed

lemma new_attempt_ok:
  assumes ok: "journal_ok j db" and plan: "at_logical_execution_id b \<in> set (jn_logical_execution_ids j)"
    and rows: "rows = attempts_of db (at_logical_execution_id b)"
    and source: "rows = [] \<and> (\<forall>a \<in> set (jd_attempts db). at_physical_run_id a \<noteq> old) \<or>
      (\<exists>a. retry_source db (at_logical_execution_id b) a \<and> old = at_physical_run_id a)"
    and b: "at_attempt_number b = int (length rows) + 1" "at_purpose b = (if rows = [] then ''initial'' else ''retry'')"
      "at_disposition b = ''active''" and fresh: "\<forall>a \<in> set (jd_attempts db). at_physical_run_id a \<noteq> at_physical_run_id b"
    and c: "next_checkpoint j b [] c"
    and f: "f = (\<lambda>a. a\<lparr>at_disposition := ''interrupted''\<rparr>)"
    and db': "jd_metadata db' = jd_metadata db" "jd_attempts db' = map (mark old f) (jd_attempts db) @ [b]"
      "jd_checkpoints db' = jd_checkpoints db @ [c]" "jd_commits db' = jd_commits db"
  shows "journal_ok j db'"
proof -
  let ?l = "at_logical_execution_id b" and ?run = "at_physical_run_id b"
  have keys: "keys_ok db" using ok by (simp add: journal_ok_def)
  have plain: "plain_update f" by (simp add: f)
  have run: "ck_physical_run_id c = ?run" and leased: "ck_state c = ''leased''" using c by (simp_all add: next_checkpoint_def CHECKPOINT_STATES_def)
  have ckpts: "checkpoints_of db' r = (if ?run = r then [c] else checkpoints_of db r)" for r
    using new_run_checkpoints [OF keys fresh run db'(3)] .
  have last_row: "last rows \<in> set (jd_attempts db) \<and> at_logical_execution_id (last rows) = ?l" if "rows \<noteq> []"
    using last_in_set [OF that] unfolding rows by simp
  text \<open>The update changes the source of the retry, and nothing without one.\<close>
  have marked: "mark old f x = (if rows \<noteq> [] \<and> x = last rows then f x else x)" if x: "x \<in> set (jd_attempts db)" for x
  proof (cases "rows = []")
    case True
    with source x rows show ?thesis by (auto simp: mark_def retry_source_def)
  next
    case False
    with source rows have "old = at_physical_run_id (last rows)" by (auto simp: retry_source_def)
    with False mark_same_run [OF keys conjunct1 [OF last_row [OF False]] x] show ?thesis by simp
  qed
  have source_state: "at_disposition (last rows) = ''active''"
      "ck_state (last (checkpoints_of db (at_physical_run_id (last rows)))) = ''running''" if "rows \<noteq> []"
    using source rows that by (auto simp: retry_source_def)
  have new_rows: "attempts_of db' l = map (mark old f) (attempts_of db l) @ (if l = ?l then [b] else [])" for l
    using new_attempt_rows [OF ok plain _ db'(2)] b(1) by (simp add: rows)
  show ?thesis
  proof (rule journal_okI)
    show "keys_ok db'" using keys fresh plain by (auto simp: keys_ok_def db' comp_def run)
    show "audit_metadata j db' = Inr ()" using ok audit_metadata_cong [of db' db j] by (simp add: db' journal_ok_def audit_iff)
    show "run_ok j x (checkpoints_of db' (at_physical_run_id x))" if "x \<in> set (jd_attempts db')" for x
    proof (cases "x = b")
      case True
      have "disposition_fits b (ck_state c)" by (simp add: disposition_fits_def b leased COMMITTED_STATES_def)
      with run_ok_append [OF c disjI1 [OF refl] refl refl refl plan] True show ?thesis by (simp add: ckpts)
    next
      case False
      with that obtain y where y: "y \<in> set (jd_attempts db)" "x = mark old f y" by (auto simp: db')
      have same: "checkpoints_of db' (at_physical_run_id x) = checkpoints_of db (at_physical_run_id y)"
        using fresh y plain by (auto simp: ckpts)
      show ?thesis
      proof (cases "rows \<noteq> [] \<and> y = last rows")
        case True
        then have "x = f y" "ck_state (last (checkpoints_of db (at_physical_run_id y))) = ''running''"
          using y marked source_state by auto
        with journal_ok_run [OF ok y(1)] show ?thesis unfolding same
          by (simp add: run_ok_def f disposition_fits_def audit_chain_cong [of "y\<lparr>at_disposition := ''interrupted''\<rparr>" y])
      next
        case False
        then have "x = y" using y marked by auto
        with journal_ok_run [OF ok y(1)] show ?thesis unfolding same by simp
      qed
    qed
    show "audit_logical (attempts_of db' l) = Inr () \<and> live (last (attempts_of db' l))" if "attempts_of db' l \<noteq> []" for l
    proof (cases "l = ?l")
      case True
      have live_b: "live b" by (simp add: live_def b)
      show ?thesis
      proof (cases "rows = []")
        case True
        with \<open>l = ?l\<close> live_b b rows show ?thesis by (simp add: new_rows audit_logical_iff)
      next
        case False
        then obtain as a where as: "rows = as @ [a]" by (metis rev_exhaust)
        have dead: "\<not> live (mark old f x)" if "x \<in> set rows" for x
        proof (cases "x = a")
          case True
          have "x \<in> set (jd_attempts db)" using that unfolding rows by simp
          then have "mark old f x = f x" using marked as True by simp
          then show ?thesis by (simp add: live_def f)
        next
          case False
          with that as have "x \<in> set as" by auto
          moreover have "attempts_of db ?l = as @ [a]" using as rows by simp
          ultimately have "\<not> live x" using only_last_live(2) [OF ok] by blast
          moreover have "x \<in> set (jd_attempts db)" using that unfolding rows by simp
          then have "mark old f x = x" using marked [of x] False as by simp
          ultimately show ?thesis by simp
        qed
        have facts: "map at_attempt_number rows = [1..int (length rows)]" "at_purpose (hd rows) = ''initial''"
            "\<forall>a \<in> set (tl rows). at_purpose a = ''retry''"
          using journal_ok_logical [OF ok, of ?l] False rows by (simp_all add: audit_logical_iff)
        have upto: "[1..1 + int (length rows)] = [1..int (length rows)] @ [1 + int (length rows)]"
          using upto_rec2 [of 1 "1 + int (length rows)"] by simp
        have "audit_logical (map (mark old f) rows @ [b]) = Inr ()"
          unfolding audit_logical_iff using facts dead live_b b False upto plain
          by (cases rows) (simp_all add: comp_def add.commute filter_map filter_empty_conv)
        with \<open>l = ?l\<close> live_b show ?thesis by (simp add: new_rows rows)
      qed
    next
      case False
      have "mark old f x = x" if "x \<in> set (attempts_of db l)" for x
        using that marked [of x] last_row False by auto
      then have "map (mark old f) (attempts_of db l) = attempts_of db l" by (intro map_idI)
      then have "attempts_of db' l = attempts_of db l" using False by (simp add: new_rows)
      with that journal_ok_logical [OF ok, of l] ok show ?thesis by (simp add: journal_ok_def live_last_def)
    qed
    show "at_physical_run_id ` {a \<in> set (jd_attempts db'). at_disposition a = ''committed''} = lc_physical_run_id ` set (jd_commits db')"
    proof -
      have "{x \<in> set (jd_attempts db'). at_disposition x = ''committed''} = {x \<in> set (jd_attempts db). at_disposition x = ''committed''}"
        using marked source_state b by (auto simp: db' f image_iff split: if_splits)
      then show ?thesis using ok by (simp add: db' journal_ok_def audit_iff)
    qed
    show "audit_commit j db' l = Inr ()" if "l \<in> set (jd_commits db')" for l
    proof -
      have commit: "audit_commit j db l = Inr ()" using that ok by (simp add: db' journal_ok_def audit_iff)
      then obtain x where x: "attempt_of db (lc_physical_run_id l) = Some x" "at_disposition x = ''committed''"
        by (auto simp: audit_commit_def Let_def split: option.splits)
      then have "mark old f x = x" using marked [of x] source_state attempt_of_SomeD by force
      moreover have "attempt_of db' (lc_physical_run_id l) = map_option (mark old f) (attempt_of db (lc_physical_run_id l))"
        using attempt_of_mark [OF plain, where db = db and run = old] x(1) by (simp add: attempt_of_def db' find_append)
      ultimately have "attempt_of db' (lc_physical_run_id l) = attempt_of db (lc_physical_run_id l)" using x by simp
      with audit_commit_kept [OF commit] db'(3) show ?thesis by blast
    qed
  qed
qed

end
