(* ===== verification/Recovery_Steps.thy ===== *)
theory Recovery_Steps
  imports Recovery_Effects
begin

text \<open>
  Every successful operation of a session on a good journal makes one of the changes of
  \<open>journal_effect\<close>, and an operation that raises makes none. Hence the invariant holds on all
  journals that sessions of one campaign can produce, crashes included.
\<close>

section \<open>The changes\<close>

inductive journal_effect :: "journal \<Rightarrow> journal_db \<Rightarrow> journal_db \<Rightarrow> bool" for j db where
  unchanged: "journal_effect j db db"
| claimed: "attempts_of db l \<noteq> [] \<Longrightarrow> a = last (attempts_of db l) \<Longrightarrow>
    at_owner_session_id a = jn_controller_session_id j \<or>
      ck_state (last (checkpoints_of db (at_physical_run_id a))) \<noteq> ''running'' \<Longrightarrow>
    journal_effect j db (db\<lparr>jd_attempts :=
      map (mark (at_physical_run_id a) (\<lambda>a. a\<lparr>at_owner_session_id := jn_controller_session_id j\<rparr>)) (jd_attempts db)\<rparr>)"
| appended: "a \<in> set (jd_attempts db) \<Longrightarrow> at_owner_session_id a = jn_controller_session_id j \<Longrightarrow>
    at_disposition a = (if ck_state c = ''acknowledged'' then ''committed'' else ''active'') \<Longrightarrow>
    next_checkpoint j a (checkpoints_of db (at_physical_run_id a)) c \<Longrightarrow> ck_state c \<noteq> ''manifest-committed'' \<Longrightarrow>
    journal_effect j db (db\<lparr>jd_checkpoints := jd_checkpoints db @ [c]\<rparr>)"
| committed: "a \<in> set (jd_attempts db) \<Longrightarrow> at_owner_session_id a = jn_controller_session_id j \<Longrightarrow> at_disposition a = ''active'' \<Longrightarrow>
    next_checkpoint j a (checkpoints_of db (at_physical_run_id a)) c \<Longrightarrow> ck_state c = ''manifest-committed'' \<Longrightarrow>
    ck_manifest_sha256 c = Some m \<Longrightarrow> ck_commit_receipt_sha256 c = Some r \<Longrightarrow>
    json_sha256 j (commit_receipt_body j (at_logical_execution_id a) m (at_physical_run_id a)) = Inr r \<Longrightarrow>
    at_logical_execution_id a \<notin> lc_logical_execution_id ` set (jd_commits db) \<Longrightarrow>
    journal_effect j db (db\<lparr>jd_attempts := map (mark (at_physical_run_id a) (\<lambda>a. a\<lparr>at_disposition := ''committed''\<rparr>)) (jd_attempts db),
      jd_checkpoints := jd_checkpoints db @ [c],
      jd_commits := jd_commits db @ [\<lparr>lc_logical_execution_id = at_logical_execution_id a, lc_physical_run_id = at_physical_run_id a,
        lc_manifest_sha256 = m, lc_commit_receipt_sha256 = r\<rparr>]\<rparr>)"
| started: "at_logical_execution_id b \<in> set (jn_logical_execution_ids j) \<Longrightarrow> attempts_of db (at_logical_execution_id b) = [] \<Longrightarrow>
    at_attempt_number b = 1 \<Longrightarrow> at_purpose b = ''initial'' \<Longrightarrow> at_disposition b = ''active'' \<Longrightarrow>
    at_owner_session_id b = jn_controller_session_id j \<Longrightarrow>
    \<forall>a \<in> set (jd_attempts db). at_physical_run_id a \<noteq> at_physical_run_id b \<Longrightarrow> next_checkpoint j b [] c \<Longrightarrow>
    journal_effect j db (db\<lparr>jd_attempts := jd_attempts db @ [b], jd_checkpoints := jd_checkpoints db @ [c]\<rparr>)"
| retried: "at_logical_execution_id b \<in> set (jn_logical_execution_ids j) \<Longrightarrow> retry_source db (at_logical_execution_id b) a \<Longrightarrow>
    at_owner_session_id a \<noteq> jn_controller_session_id j \<Longrightarrow>
    at_attempt_number b = int (length (attempts_of db (at_logical_execution_id b))) + 1 \<Longrightarrow> at_purpose b = ''retry'' \<Longrightarrow>
    at_disposition b = ''active'' \<Longrightarrow> at_owner_session_id b = jn_controller_session_id j \<Longrightarrow>
    \<forall>a \<in> set (jd_attempts db). at_physical_run_id a \<noteq> at_physical_run_id b \<Longrightarrow> next_checkpoint j b [] c \<Longrightarrow>
    journal_effect j db (db\<lparr>jd_attempts :=
      map (mark (at_physical_run_id a) (\<lambda>a. a\<lparr>at_disposition := ''interrupted''\<rparr>)) (jd_attempts db) @ [b],
      jd_checkpoints := jd_checkpoints db @ [c]\<rparr>)"

lemma effect_ok:
  assumes "journal_effect j db db'" "journal_ok j db"
  shows "journal_ok j db'"
  using assms
proof (induction rule: journal_effect.induct)
  case (claimed l a)
  then show ?case by (intro claimed_ok) simp_all
next
  case (appended a c)
  have "length (checkpoints_of db (at_physical_run_id a)) < 10" "ck_state c = CHECKPOINT_STATES ! length (checkpoints_of db (at_physical_run_id a))"
    using appended.hyps by (simp_all add: next_checkpoint_def)
  with appended show ?case
    by (intro appended_ok [of j db a]) (auto simp: disposition_fits_def COMMITTED_STATES_def split: if_splits)
next
  case (committed a c m r)
  show ?case by (rule committed_ok [OF committed.prems committed.hyps(1,3-8) refl committed.hyps(9) refl]) simp_all
next
  case (started b c)
  have "map (mark (at_physical_run_id b) (\<lambda>a. a\<lparr>at_disposition := ''interrupted''\<rparr>)) (jd_attempts db) = jd_attempts db"
    using started.hyps(7) by (intro map_idI) (auto simp: mark_def)
  with started show ?case by (intro new_attempt_ok [where old = "at_physical_run_id b" and b = b and c = c, OF started.prems _ refl]) auto
next
  case (retried b a c)
  then have "attempts_of db (at_logical_execution_id b) \<noteq> []" by (simp add: retry_source_def)
  with retried show ?case by (intro new_attempt_ok [where old = "at_physical_run_id a" and b = b and c = c, OF retried.prems _ refl]) auto
qed

section \<open>Success of the elementary operations\<close>

lemma read_db_eq [simp]: "read_db f w = (r, w') \<longleftrightarrow> f (jw_db w) = r \<and> w' = w"
  by (auto simp: read_db_def)

lemma change_db_Inr [simp]: "change_db f w = (Inr u, w') \<longleftrightarrow> (\<exists>d. f (jw_db w) = Inr d \<and> w' = w\<lparr>jw_db := d\<rparr>)"
  by (auto simp: change_db_def split: sum.splits)

lemma journal_stamp_eq [simp]:
  "journal_stamp j w = (Inr t, w') \<longleftrightarrow> t = Aware (jn_now j (jw_ticks w) div 1000 * 1000) \<and> w' = w\<lparr>jw_ticks := jw_ticks w + 1\<rparr>"
  by (auto simp: journal_stamp_def)

lemma next_run_id_eq [simp]: "next_run_id j w = (Inr r, w') \<longleftrightarrow> r = jn_run_ids j (jw_runs w) \<and> w' = w\<lparr>jw_runs := jw_runs w + 1\<rparr>"
  by (auto simp: next_run_id_def)

lemma transaction_Inr [simp]: "transaction m w = (Inr x, w') \<longleftrightarrow> m w = (Inr x, w')"
  by (auto simp: transaction_def split: prod.splits sum.splits)

lemma transaction_Inl: "transaction m w = (Inl e, w') \<Longrightarrow> jw_db w' = jw_db w"
  by (auto simp: transaction_def split: prod.splits sum.splits)

lemma canonical_bytes_Inr [simp]: "canonical_bytes j v = Inr b \<longleftrightarrow> jn_canonical j v = Some b"
  by (auto simp: canonical_bytes_def split: option.splits)

lemma insert_checkpoint_row_Inr:
  "insert_checkpoint_row c db = Inr db' \<Longrightarrow> db' = db\<lparr>jd_checkpoints := jd_checkpoints db @ [c]\<rparr>"
  by (auto simp: insert_checkpoint_row_def split: if_splits)

lemma insert_commit_Inr:
  assumes "insert_commit a manifest receipt db = Inr db'"
  obtains m r where "manifest = Some m" "receipt = Some r" "at_logical_execution_id a \<notin> lc_logical_execution_id ` set (jd_commits db)"
    "db' = db\<lparr>jd_commits := jd_commits db @ [\<lparr>lc_logical_execution_id = at_logical_execution_id a,
       lc_physical_run_id = at_physical_run_id a, lc_manifest_sha256 = m, lc_commit_receipt_sha256 = r\<rparr>]\<rparr>"
  using assms
  by (fastforce simp: insert_commit_def conflict_on_integrity_def insert_commit_row_def
      split: option.splits sum.splits journal_error.splits if_splits)

lemma insert_attempt_row_Inr:
  "conflict_on_integrity msg (insert_attempt_row b db) = Inr db' \<Longrightarrow>
     (\<forall>a \<in> set (jd_attempts db). at_physical_run_id a \<noteq> at_physical_run_id b) \<and> db' = db\<lparr>jd_attempts := jd_attempts db @ [b]\<rparr>"
  by (auto simp: conflict_on_integrity_def insert_attempt_row_def split: if_splits sum.splits journal_error.splits)

lemma append_checkpoint_Inr:
  assumes "append_checkpoint j run state payload manifest w = (Inr h, w')"
  obtains a bytes receipt t c where "attempt_of (jw_db w) run = Some a" "jn_canonical j (JObj payload) = Some bytes"
    "commit_receipt j a state manifest = Inr receipt"
    "new_checkpoint j a (latest_checkpoint (jw_db w) run) state bytes manifest receipt t = Inr c" "h = ck_checkpoint_sha256 c"
    "if state = ''manifest-committed''
     then insert_commit a manifest receipt ((jw_db w)\<lparr>jd_checkpoints := jd_checkpoints (jw_db w) @ [c]\<rparr>) = Inr (jw_db w')
     else jw_db w' = (jw_db w)\<lparr>jd_checkpoints := jd_checkpoints (jw_db w) @ [c]\<rparr>"
proof (cases "state = ''manifest-committed''")
  case True
  with assms show thesis
    by (auto simp: append_checkpoint_def split: option.splits dest!: insert_checkpoint_row_Inr intro: that)
next
  case False
  with assms show thesis
    by (auto simp: append_checkpoint_def split: option.splits dest!: insert_checkpoint_row_Inr intro: that)
qed

lemma new_checkpoint_next:
  assumes enc: "encoder_ok j" and bytes: "jn_canonical j (JObj payload) = Some bytes"
    and new: "new_checkpoint j a (if cs = [] then None else Some (last cs)) state bytes manifest receipt t = Inr c"
    and cs: "cs = [] \<or> ck_ordinal (last cs) = int (length cs)" "length cs < 10" "state = CHECKPOINT_STATES ! length cs"
  shows "next_checkpoint j a cs c" "ck_state c = state" "ck_manifest_sha256 c = manifest" "ck_commit_receipt_sha256 c = receipt"
proof -
  obtain gs where gs: "jn_loads j (jn_decode j bytes) = Some (JObj gs)" "jn_canonical j (JObj gs) = Some bytes"
    using enc bytes unfolding encoder_ok_def by blast
  have c: "json_sha256 j (checkpoint_body j a (if cs = [] then None else Some (ck_checkpoint_sha256 (last cs))) c) =
        Inr (ck_checkpoint_sha256 c)"
      "ck_physical_run_id c = at_physical_run_id a" "ck_ordinal c = int (length cs) + 1" "ck_state c = state"
      "ck_payload_json c = jn_decode j bytes" "ck_payload_sha256 c = jn_sha256 j bytes"
      "ck_previous_checkpoint_sha256 c = (if cs = [] then None else Some (ck_checkpoint_sha256 (last cs)))"
      "ck_manifest_sha256 c = manifest" "ck_commit_receipt_sha256 c = receipt"
    using new cs(1) by (cases "cs = []"; auto simp: new_checkpoint_def Let_def checkpoint_body_def)+
  have "audit_payload j c = Inr ()" using gs c by (simp add: audit_payload_def)
  then show "next_checkpoint j a cs c" using c cs by (simp add: next_checkpoint_def)
  show "ck_state c = state" "ck_manifest_sha256 c = manifest" "ck_commit_receipt_sha256 c = receipt" using c by simp_all
qed

section \<open>Commits and live attempts\<close>

lemma commit_of_SomeD:
  assumes ok: "journal_ok j db" and l: "commit_of db l = Some x"
  shows "attempts_of db l \<noteq> []" "at_disposition (last (attempts_of db l)) = ''committed''"
    "at_physical_run_id (last (attempts_of db l)) = lc_physical_run_id x"
proof -
  from l have x: "x \<in> set (jd_commits db)" "lc_logical_execution_id x = l" by (auto simp: commit_of_def dest: find_SomeD)
  with ok have "audit_commit j db x = Inr ()" by (simp add: journal_ok_def audit_iff)
  then obtain a where a: "attempt_of db (lc_physical_run_id x) = Some a" "at_logical_execution_id a = l" "at_disposition a = ''committed''"
    using x by (auto simp: audit_commit_def Let_def split: option.splits)
  then have mem: "a \<in> set (attempts_of db l)" by (auto dest: attempt_of_SomeD)
  then show ne: "attempts_of db l \<noteq> []" by (metis empty_iff empty_set)
  then obtain as b where as: "attempts_of db l = as @ [b]" by (metis rev_exhaust)
  have "live a" using a by (simp add: live_def)
  with only_last_live(2) [OF ok as] mem have "a = b" unfolding as by auto
  with as a show "at_disposition (last (attempts_of db l)) = ''committed''"
    "at_physical_run_id (last (attempts_of db l)) = lc_physical_run_id x" by (auto dest: attempt_of_SomeD)
qed

lemma commit_of_NoneD:
  assumes ok: "journal_ok j db" and l: "commit_of db l = None" and ne: "attempts_of db l \<noteq> []"
  shows "at_disposition (last (attempts_of db l)) = ''active''"
proof -
  let ?a = "last (attempts_of db l)"
  have a: "?a \<in> set (jd_attempts db)" "at_logical_execution_id ?a = l" using last_in_set [OF ne] by simp_all
  have "at_disposition ?a \<noteq> ''committed''"
  proof
    assume "at_disposition ?a = ''committed''"
    with a ok have "at_physical_run_id ?a \<in> lc_physical_run_id ` set (jd_commits db)" unfolding journal_ok_def audit_iff by blast
    then obtain x where x: "x \<in> set (jd_commits db)" "lc_physical_run_id x = at_physical_run_id ?a" by auto
    with ok have "audit_commit j db x = Inr ()" by (simp add: journal_ok_def audit_iff)
    moreover have "attempt_of db (at_physical_run_id ?a) = Some ?a" using ok a by (simp add: journal_ok_def keys_attempt)
    ultimately have "lc_logical_execution_id x = l" using x a by (auto simp: audit_commit_def Let_def split: option.splits)
    with l x show False by (auto simp: commit_of_def find_None_iff)
  qed
  moreover have "live ?a" using ok ne by (simp add: journal_ok_def live_last_def)
  ultimately show ?thesis by (simp add: live_def)
qed

section \<open>Attempts\<close>

lemma insert_attempt_Inr:
  assumes run: "insert_attempt j l n purpose w = (Inr run, w')" and enc: "encoder_ok j"
    and fk: "\<forall>c \<in> set (jd_checkpoints (jw_db w)). \<exists>a \<in> set (jd_attempts (jw_db w)). at_physical_run_id a = ck_physical_run_id c"
  obtains b c where "at_physical_run_id b = run" "at_logical_execution_id b = l" "at_attempt_number b = n" "at_purpose b = purpose"
    "at_disposition b = ''active''" "at_owner_session_id b = jn_controller_session_id j"
    "\<forall>a \<in> set (jd_attempts (jw_db w)). at_physical_run_id a \<noteq> at_physical_run_id b" "next_checkpoint j b [] c"
    "jw_db w' = (jw_db w)\<lparr>jd_attempts := jd_attempts (jw_db w) @ [b], jd_checkpoints := jd_checkpoints (jw_db w) @ [c]\<rparr>"
proof -
  let ?db = "jw_db w"
  from run obtain t h v where app: "append_checkpoint j run ''leased'' [(''attempt_number'', JInt n), (''purpose'', JStr purpose)] None v = (Inr h, w')"
    and b: "(\<forall>a \<in> set (jd_attempts ?db). at_physical_run_id a \<noteq> run)"
      "jw_db v = ?db\<lparr>jd_attempts := jd_attempts ?db @ [\<lparr>at_physical_run_id = run, at_logical_execution_id = l, at_attempt_number = n,
          at_purpose = purpose, at_disposition = ''active'', at_owner_session_id = jn_controller_session_id j, at_created_at = t\<rparr>]\<rparr>"
    by (fastforce simp: insert_attempt_def dest!: insert_attempt_row_Inr)
  let ?b = "\<lparr>at_physical_run_id = run, at_logical_execution_id = l, at_attempt_number = n, at_purpose = purpose,
      at_disposition = ''active'', at_owner_session_id = jn_controller_session_id j, at_created_at = t\<rparr>"
  have none: "find (\<lambda>a. at_physical_run_id a = run) (jd_attempts ?db) = None" using b(1) by (auto simp: find_None_iff)
  have a: "attempt_of (jw_db v) run = Some ?b" by (simp add: attempt_of_def b(2) find_append none)
  have "filter (\<lambda>c. ck_physical_run_id c = run) (jd_checkpoints ?db) = []" using b(1) fk by (force simp: filter_empty_conv)
  then have no_ckpt: "latest_checkpoint (jw_db v) run = None" by (simp add: latest_checkpoint_def checkpoints_of_def b(2))
  obtain c bytes receipt s where c:
      "jn_canonical j (JObj [(''attempt_number'', JInt n), (''purpose'', JStr purpose)]) = Some bytes"
      "new_checkpoint j ?b None ''leased'' bytes None receipt s = Inr c"
      "jw_db w' = (jw_db v)\<lparr>jd_checkpoints := jd_checkpoints (jw_db v) @ [c]\<rparr>"
  proof (rule append_checkpoint_Inr [OF app])
    fix x bytes receipt s c
    assume *: "attempt_of (jw_db v) run = Some x" "jn_canonical j (JObj [(''attempt_number'', JInt n), (''purpose'', JStr purpose)]) = Some bytes"
      "new_checkpoint j x (latest_checkpoint (jw_db v) run) ''leased'' bytes None receipt s = Inr c"
      "if ''leased'' = ''manifest-committed''
       then insert_commit x None receipt ((jw_db v)\<lparr>jd_checkpoints := jd_checkpoints (jw_db v) @ [c]\<rparr>) = Inr (jw_db w')
       else jw_db w' = (jw_db v)\<lparr>jd_checkpoints := jd_checkpoints (jw_db v) @ [c]\<rparr>"
    have "x = ?b" using *(1) a by simp
    moreover have "jw_db w' = (jw_db v)\<lparr>jd_checkpoints := jd_checkpoints (jw_db v) @ [c]\<rparr>" using *(4) by simp
    ultimately show thesis using * no_ckpt that by metis
  qed
  have "next_checkpoint j ?b [] c"
  proof (rule new_checkpoint_next(1) [OF enc c(1)])
    show "new_checkpoint j ?b (if [] = [] then None else Some (last [])) ''leased'' bytes None receipt s = Inr c"
      unfolding if_P [OF refl] by (rule c(2))
  qed (simp_all add: CHECKPOINT_STATES_def)
  moreover have "jw_db w' = (jw_db w)\<lparr>jd_attempts := jd_attempts (jw_db w) @ [?b], jd_checkpoints := jd_checkpoints (jw_db w) @ [c]\<rparr>"
    unfolding c(3) b(2) by simp
  ultimately show thesis using b(1) by (intro that [of ?b c]) simp_all
qed

section \<open>Success of the operations\<close>

text \<open>
  The decision table of \<open>start_or_resume\<close>: what a session is told about a logical execution,
  from the journal before the call and the run of the last attempt after it.
\<close>

definition expected_decision :: "journal \<Rightarrow> journal_db \<Rightarrow> string \<Rightarrow> string \<Rightarrow> recovery_decision" where
  "expected_decision j db l new_run =
     (if attempts_of db l = [] then decision ''start'' l new_run 1 ''leased'' ''initial-attempt''
      else
        let a = last (attempts_of db l); state = ck_state (last (checkpoints_of db (at_physical_run_id a)));
            same = (at_owner_session_id a = jn_controller_session_id j)
        in if commit_of db l \<noteq> None
           then decision ''committed'' l (at_physical_run_id a) (at_attempt_number a) state ''verified-manifest-commit''
           else if state = ''running'' \<and> \<not> same
           then decision ''retry'' l new_run (at_attempt_number a + 1) ''leased'' ''interrupted-target-invocation''
           else decision ''continue'' l (at_physical_run_id a) (at_attempt_number a) state
             (if same then ''duplicate-delivery'' else ''durable-checkpoint''))"

definition last_run :: "journal_db \<Rightarrow> string \<Rightarrow> string" where
  "last_run db l = at_physical_run_id (last (attempts_of db l))"

lemma attempts_of_appended:
  assumes "\<And>x. x \<in> set (attempts_of db (at_logical_execution_id b)) \<Longrightarrow> at_attempt_number x < at_attempt_number b"
  shows "attempts_of (db\<lparr>jd_attempts := jd_attempts db @ [b], jd_checkpoints := cs\<rparr>) (at_logical_execution_id b) =
     attempts_of db (at_logical_execution_id b) @ [b]"
proof -
  have "attempts_of (db\<lparr>jd_attempts := jd_attempts db @ [b], jd_checkpoints := cs\<rparr>) (at_logical_execution_id b) =
      attempts_of (db\<lparr>jd_attempts := jd_attempts db @ [b]\<rparr>) (at_logical_execution_id b)" by (simp add: attempts_of_def)
  with attempts_of_append [of db b "at_logical_execution_id b"] assms show ?thesis by simp
qed

lemma update_attempt_mark: "update_attempt run f db = Inr (db\<lparr>jd_attempts := map (mark run f) (jd_attempts db)\<rparr>)"
  by (simp add: update_attempt_def mark_def [abs_def])

lemma claim_attempt_Inr:
  "claim_attempt j run w = (Inr u, w') \<longleftrightarrow> w' = w\<lparr>jw_db := (jw_db w)\<lparr>jd_attempts :=
     map (mark run (\<lambda>a. a\<lparr>at_owner_session_id := jn_controller_session_id j\<rparr>)) (jd_attempts (jw_db w))\<rparr>\<rparr>"
  by (auto simp: claim_attempt_def update_attempt_mark)

lemma first_attempt_Inr:
  assumes ok: "journal_ok j (jw_db w)" and enc: "encoder_ok j" and plan: "l \<in> set (jn_logical_execution_ids j)"
    and none: "attempts_of (jw_db w) l = []" and ins: "insert_attempt j l 1 ''initial'' w = (Inr r, w')"
  shows "journal_effect j (jw_db w) (jw_db w') \<and> last_run (jw_db w') l = r"
proof -
  have fk: "\<forall>c \<in> set (jd_checkpoints (jw_db w)). \<exists>a \<in> set (jd_attempts (jw_db w)). at_physical_run_id a = ck_physical_run_id c"
    using ok by (simp add: journal_ok_def keys_ok_def)
  obtain b c where b: "at_physical_run_id b = r" "at_logical_execution_id b = l" "at_attempt_number b = 1" "at_purpose b = ''initial''"
      "at_disposition b = ''active''" "at_owner_session_id b = jn_controller_session_id j"
      "\<forall>a \<in> set (jd_attempts (jw_db w)). at_physical_run_id a \<noteq> at_physical_run_id b" "next_checkpoint j b [] c"
      and db': "jw_db w' = (jw_db w)\<lparr>jd_attempts := jd_attempts (jw_db w) @ [b], jd_checkpoints := jd_checkpoints (jw_db w) @ [c]\<rparr>"
    by (rule insert_attempt_Inr [OF ins enc fk])
  have "\<And>x. x \<in> set (attempts_of (jw_db w) (at_logical_execution_id b)) \<Longrightarrow> at_attempt_number x < at_attempt_number b"
    unfolding b(2) none by simp
  then have "attempts_of (jw_db w') l = [b]" using attempts_of_appended [of "jw_db w" b] none unfolding db' b(2) by simp
  moreover have "journal_effect j (jw_db w) (jw_db w')" unfolding db'
    by (rule journal_effect.started) (use b plan none in simp_all)
  ultimately show ?thesis using b(1) by (simp add: last_run_def)
qed

lemma retry_attempt_Inr:
  assumes ok: "journal_ok j (jw_db w)" and enc: "encoder_ok j" and plan: "l \<in> set (jn_logical_execution_ids j)"
    and source: "retry_source (jw_db w) l a" and owner: "at_owner_session_id a \<noteq> jn_controller_session_id j"
    and v: "jw_db v = (jw_db w)\<lparr>jd_attempts :=
      map (mark (at_physical_run_id a) (\<lambda>a. a\<lparr>at_disposition := ''interrupted''\<rparr>)) (jd_attempts (jw_db w))\<rparr>"
    and ins: "insert_attempt j l (at_attempt_number a + 1) ''retry'' v = (Inr r, w')"
  shows "journal_effect j (jw_db w) (jw_db w') \<and> last_run (jw_db w') l = r \<and> r \<notin> at_physical_run_id ` set (jd_attempts (jw_db w))"
proof -
  have fk: "\<forall>c \<in> set (jd_checkpoints (jw_db v)). \<exists>a \<in> set (jd_attempts (jw_db v)). at_physical_run_id a = ck_physical_run_id c"
    using ok by (simp add: journal_ok_def keys_ok_def v)
  obtain b c where b: "at_physical_run_id b = r" "at_logical_execution_id b = l" "at_attempt_number b = at_attempt_number a + 1"
      "at_purpose b = ''retry''" "at_disposition b = ''active''" "at_owner_session_id b = jn_controller_session_id j"
      "\<forall>a \<in> set (jd_attempts (jw_db v)). at_physical_run_id a \<noteq> at_physical_run_id b" "next_checkpoint j b [] c"
      and db': "jw_db w' = (jw_db v)\<lparr>jd_attempts := jd_attempts (jw_db v) @ [b], jd_checkpoints := jd_checkpoints (jw_db v) @ [c]\<rparr>"
    by (rule insert_attempt_Inr [OF ins enc fk])
  have ne: "attempts_of (jw_db w) l \<noteq> []" "a = last (attempts_of (jw_db w) l)" using source by (simp_all add: retry_source_def)
  have number: "at_attempt_number b = int (length (attempts_of (jw_db w) l)) + 1" using attempt_numbers(1) [OF ok ne(1)] b(3) ne(2) by simp
  have rows: "attempts_of (jw_db v) l = map (mark (at_physical_run_id a) (\<lambda>a. a\<lparr>at_disposition := ''interrupted''\<rparr>)) (attempts_of (jw_db w) l)"
    unfolding v by (rule attempts_of_mark) simp
  have "at_attempt_number x < at_attempt_number b" if x: "x \<in> set (attempts_of (jw_db v) (at_logical_execution_id b))" for x
  proof -
    from x obtain y where "y \<in> set (attempts_of (jw_db w) l)" "at_attempt_number x = at_attempt_number y"
      unfolding b(2) rows by auto
    with attempt_numbers(2) [OF ok ne(1)] number show ?thesis by fastforce
  qed
  from attempts_of_appended [OF this] have "attempts_of (jw_db w') l = attempts_of (jw_db v) l @ [b]" unfolding db' b(2) .
  moreover have "journal_effect j (jw_db w) (jw_db w')"
  proof -
    have "jw_db w' = (jw_db w)\<lparr>jd_attempts :=
        map (mark (at_physical_run_id a) (\<lambda>a. a\<lparr>at_disposition := ''interrupted''\<rparr>)) (jd_attempts (jw_db w)) @ [b],
        jd_checkpoints := jd_checkpoints (jw_db w) @ [c]\<rparr>" by (simp add: db' v)
    then show ?thesis by (simp only:) (rule journal_effect.retried [where a = a]; use b plan source owner number v in simp)
  qed
  moreover have "r \<notin> at_physical_run_id ` set (jd_attempts (jw_db w))" using b(1,7) by (auto simp: v)
  ultimately show ?thesis using b(1) by (simp add: last_run_def)
qed

lemma checkpoint_state_known: "run_ok j a cs \<Longrightarrow> ck_state (last cs) \<in> set CHECKPOINT_STATES"
proof -
  assume ok: "run_ok j a cs"
  then have "length cs - 1 < length CHECKPOINT_STATES"
    using run_ok_length [OF ok] by (auto simp: CHECKPOINT_STATES_def run_ok_def neq_Nil_conv)
  then show ?thesis unfolding run_ok_last_state [OF ok] by (rule nth_mem)
qed

lemma resume_attempt_Inr:
  assumes ok: "journal_ok j (jw_db w)" and enc: "encoder_ok j" and plan: "l \<in> set (jn_logical_execution_ids j)"
    and ne: "attempts_of (jw_db w) l \<noteq> []" and none: "commit_of (jw_db w) l = None" and a: "a = last (attempts_of (jw_db w) l)"
    and run: "resume_attempt j l a (last (checkpoints_of (jw_db w) (at_physical_run_id a))) w = (Inr d, w')"
  shows "journal_effect j (jw_db w) (jw_db w') \<and> d = expected_decision j (jw_db w) l (last_run (jw_db w') l) \<and>
    (rd_action d = ''retry'' \<longrightarrow> last_run (jw_db w') l \<notin> at_physical_run_id ` set (jd_attempts (jw_db w)))"
proof -
  let ?c = "last (checkpoints_of (jw_db w) (at_physical_run_id a))"
  have mem: "a \<in> set (jd_attempts (jw_db w))" using last_in_set [OF ne] unfolding a by simp
  note rok = journal_ok_run [OF ok mem]
  have active: "at_disposition a = ''active''" using commit_of_NoneD [OF ok none ne] a by simp
  have state: "ck_state ?c \<in> set CHECKPOINT_STATES" "ck_state ?c \<notin> set COMMITTED_STATES"
    using checkpoint_state_known [OF rok] rok active by (simp_all add: run_ok_def disposition_fits_def)
  show ?thesis
  proof (cases "ck_state ?c = ''running'' \<and> at_owner_session_id a \<noteq> jn_controller_session_id j")
    case True
    let ?v = "w\<lparr>jw_db := (jw_db w)\<lparr>jd_attempts :=
        map (mark (at_physical_run_id a) (\<lambda>a. a\<lparr>at_disposition := ''interrupted''\<rparr>)) (jd_attempts (jw_db w))\<rparr>\<rparr>"
    from run True state active obtain r where ins: "insert_attempt j l (at_attempt_number a + 1) ''retry'' ?v = (Inr r, w')"
        and d: "d = decision ''retry'' l r (at_attempt_number a + 1) ''leased'' ''interrupted-target-invocation''"
      by (auto simp: resume_attempt_def Let_def recovery_action_for_stage_def update_attempt_mark)
    have "retry_source (jw_db w) l a" using ne a active True by (simp add: retry_source_def)
    from retry_attempt_Inr [OF ok enc plan this conjunct2 [OF True] _ ins] True ne none d a
    show ?thesis by (simp add: expected_decision_def Let_def)
  next
    case False
    then have "recovery_action_for_stage (ck_state ?c) (at_owner_session_id a = jn_controller_session_id j) = ''continue''"
      using state by (auto simp: recovery_action_for_stage_def)
    with run have claim: "claim_attempt j (at_physical_run_id a) w = (Inr (), w')"
        and d: "d = decision ''continue'' l (at_physical_run_id a) (at_attempt_number a) (ck_state ?c)
          (if at_owner_session_id a = jn_controller_session_id j then ''duplicate-delivery'' else ''durable-checkpoint'')"
      by (auto simp: resume_attempt_def Let_def)
    have "journal_effect j (jw_db w) (jw_db w')"
      using journal_effect.claimed [OF ne a] False claim by (auto simp: claim_attempt_Inr)
    moreover have "expected_decision j (jw_db w) l (last_run (jw_db w') l) = d"
      unfolding d expected_decision_def Let_def a [symmetric] using ne none False by auto
    moreover have "rd_action d \<noteq> ''retry''" by (simp add: d decision_def)
    ultimately show ?thesis by simp
  qed
qed

lemma start_or_resume_Inr:
  assumes ok: "journal_ok j (jw_db w)" and enc: "encoder_ok j" and run: "start_or_resume j l w = (Inr d, w')"
  shows "journal_effect j (jw_db w) (jw_db w') \<and> d = expected_decision j (jw_db w) l (last_run (jw_db w') l) \<and>
    (rd_action d = ''retry'' \<longrightarrow> last_run (jw_db w') l \<notin> at_physical_run_id ` set (jd_attempts (jw_db w)))"
proof -
  have plan: "l \<in> set (jn_logical_execution_ids j)" using run by (auto simp: start_or_resume_def split: if_splits)
  note latest = latest_attempt_row_ok [OF ok, of l]
  let ?a = "last (attempts_of (jw_db w) l)"
  show ?thesis
  proof (cases "commit_of (jw_db w) l")
    case (Some x)
    note ne = commit_of_SomeD(1) [OF ok Some]
    have mem: "?a \<in> set (jd_attempts (jw_db w))" using last_in_set [OF ne] by simp
    have "ck_state (last (checkpoints_of (jw_db w) (at_physical_run_id ?a))) \<noteq> ''running''"
      using journal_ok_run [OF ok mem] commit_of_SomeD(2) [OF ok Some] by (auto simp: run_ok_def disposition_fits_def COMMITTED_STATES_def)
    then have "journal_effect j (jw_db w) (jw_db w')"
      using journal_effect.claimed [OF ne refl] run plan Some latest ne by (auto simp: start_or_resume_def claim_attempt_Inr)
    moreover have "d = expected_decision j (jw_db w) l (last_run (jw_db w') l)"
      using run plan Some latest ne by (auto simp: start_or_resume_def expected_decision_def Let_def)
    moreover have "rd_action d \<noteq> ''retry''"
      using run plan Some latest ne by (auto simp: start_or_resume_def decision_def)
    ultimately show ?thesis by simp
  next
    case None
    show ?thesis
    proof (cases "attempts_of (jw_db w) l = []")
      case True
      with run plan None latest obtain r where "insert_attempt j l 1 ''initial'' w = (Inr r, w')"
          and "d = decision ''start'' l r 1 ''leased'' ''initial-attempt''"
        by (auto simp: start_or_resume_def)
      with first_attempt_Inr [OF ok enc plan True] True show ?thesis by (simp add: expected_decision_def decision_def)
    next
      case False
      have "resume_attempt j l ?a (last (checkpoints_of (jw_db w) (at_physical_run_id ?a))) w = (Inr d, w')"
        using run plan None latest False by (auto simp: start_or_resume_def)
      from resume_attempt_Inr [OF ok enc plan False None refl this] show ?thesis .
    qed
  qed
qed

text \<open>A checkpoint appended to a run of the journal is the next of its chain.\<close>

lemma append_next:
  assumes ok: "journal_ok j db" and enc: "encoder_ok j" and a: "a \<in> set (jd_attempts db)"
    and bytes: "jn_canonical j (JObj payload) = Some bytes"
    and new: "new_checkpoint j a (latest_checkpoint db (at_physical_run_id a)) state bytes manifest receipt t = Inr c"
    and state: "length (checkpoints_of db (at_physical_run_id a)) < 10"
      "state = CHECKPOINT_STATES ! length (checkpoints_of db (at_physical_run_id a))"
  shows "next_checkpoint j a (checkpoints_of db (at_physical_run_id a)) c" "ck_state c = state"
    "ck_manifest_sha256 c = manifest" "ck_commit_receipt_sha256 c = receipt"
proof -
  let ?cs = "checkpoints_of db (at_physical_run_id a)"
  note rok = journal_ok_run [OF ok a]
  have "?cs \<noteq> []" using rok by (simp add: run_ok_def)
  then have "new_checkpoint j a (if ?cs = [] then None else Some (last ?cs)) state bytes manifest receipt t = Inr c"
    using new latest_checkpoint_ok [OF ok a] by simp
  from new_checkpoint_next [OF enc bytes this disjI2 [OF run_ok_last_ordinal [OF rok]] state]
  show "next_checkpoint j a ?cs c" "ck_state c = state" "ck_manifest_sha256 c = manifest" "ck_commit_receipt_sha256 c = receipt" .
qed

lemma stages_distinct: "distinct CHECKPOINT_STATES" "length CHECKPOINT_STATES = 10"
  by (simp_all add: CHECKPOINT_STATES_def)

lemma stage_indexD: "stage_index s = Some i \<Longrightarrow> i < 10 \<and> CHECKPOINT_STATES ! i = s"
proof -
  assume "stage_index s = Some i"
  then have "i \<in> set [0..<length CHECKPOINT_STATES] \<and> CHECKPOINT_STATES ! i = s" unfolding stage_index_def by (rule find_SomeD)
  then show ?thesis by (auto simp: stages_distinct)
qed

lemma check_transition_Inr:
  assumes rok: "run_ok j a cs" and run: "check_transition (ck_state (last cs)) state manifest = Inr ()"
  shows "length cs < 10" "state = CHECKPOINT_STATES ! length cs" "state \<noteq> ''manifest-committed'' \<Longrightarrow> manifest = None"
proof -
  from run obtain i where i: "stage_index (ck_state (last cs)) = Some i" "i + 1 < 10" "state = CHECKPOINT_STATES ! (i + 1)"
      "state \<noteq> ''manifest-committed'' \<Longrightarrow> manifest = None"
    by (auto simp: check_transition_def stages_distinct split: option.splits if_splits)
  have "i = length cs - 1"
  proof -
    have "CHECKPOINT_STATES ! i = CHECKPOINT_STATES ! (length cs - 1)" using stage_indexD [OF i(1)] run_ok_last_state [OF rok] by simp
    moreover have "length cs - 1 < 10" using run_ok_length [OF rok] rok by (cases cs) (auto simp: run_ok_def)
    ultimately show ?thesis using stage_indexD [OF i(1)] stages_distinct nth_eq_iff_index_eq by metis
  qed
  moreover have "cs \<noteq> []" using rok by (simp add: run_ok_def)
  ultimately have "i + 1 = length cs" by (cases cs) simp_all
  with i show "length cs < 10" "state = CHECKPOINT_STATES ! length cs" "state \<noteq> ''manifest-committed'' \<Longrightarrow> manifest = None" by simp_all
qed

lemma checkpoint_Inr:
  assumes ok: "journal_ok j (jw_db w)" and enc: "encoder_ok j" and run: "checkpoint j run state payload manifest w = (Inr h, w')"
  shows "journal_effect j (jw_db w) (jw_db w')"
proof -
  let ?db = "jw_db w"
  from run obtain a c0 v where a: "attempt_of ?db run = Some a" and owner: "at_owner_session_id a = jn_controller_session_id j"
    and active: "at_disposition a = ''active''" and latest: "latest_checkpoint ?db run = Some c0"
    and trans: "check_transition (ck_state c0) state manifest = Inr ()"
    and app: "append_checkpoint j run state (case payload of None \<Rightarrow> [] | Some p \<Rightarrow> p) manifest w = (Inr h, v)"
    and final: "jw_db w' = (if state = ''manifest-committed'' then (jw_db v)\<lparr>jd_attempts :=
        map (mark run (\<lambda>a. a\<lparr>at_disposition := ''committed''\<rparr>)) (jd_attempts (jw_db v))\<rparr> else jw_db v)"
    by (auto simp: checkpoint_def update_attempt_mark split: option.splits if_splits)
  have mem: "a \<in> set (jd_attempts ?db)" "at_physical_run_id a = run" using attempt_of_SomeD [OF a] by simp_all
  note rok = journal_ok_run [OF ok mem(1), unfolded mem(2)]
  have "c0 = last (checkpoints_of ?db run)" using latest by (auto simp: latest_checkpoint_def split: if_splits)
  from check_transition_Inr [OF rok, of state manifest] trans this
  have len: "length (checkpoints_of ?db run) < 10" "state = CHECKPOINT_STATES ! length (checkpoints_of ?db run)" by simp_all
  obtain bytes receipt t c where bytes: "jn_canonical j (JObj (case payload of None \<Rightarrow> [] | Some p \<Rightarrow> p)) = Some bytes"
      and receipt: "commit_receipt j a state manifest = Inr receipt"
      and new: "new_checkpoint j a (latest_checkpoint ?db (at_physical_run_id a)) state bytes manifest receipt t = Inr c"
      and db': "if state = ''manifest-committed''
        then insert_commit a manifest receipt (?db\<lparr>jd_checkpoints := jd_checkpoints ?db @ [c]\<rparr>) = Inr (jw_db v)
        else jw_db v = ?db\<lparr>jd_checkpoints := jd_checkpoints ?db @ [c]\<rparr>"
    using a mem(2) by (rule_tac append_checkpoint_Inr [OF app]) (metis option.inject)
  note c = append_next [OF ok enc mem(1) bytes new, unfolded mem(2), OF len]
  show ?thesis
  proof (cases "state = ''manifest-committed''")
    case False
    have "state \<noteq> ''acknowledged''"
    proof
      assume "state = ''acknowledged''"
      then have "length (checkpoints_of ?db run) = 9"
        using len stages_distinct nth_eq_iff_index_eq [of CHECKPOINT_STATES _ 9] by (simp add: CHECKPOINT_STATES_def)
      then have "ck_state (last (checkpoints_of ?db run)) \<in> set COMMITTED_STATES"
        using run_ok_last_state [OF rok] by (simp add: CHECKPOINT_STATES_def COMMITTED_STATES_def)
      with rok active show False by (simp add: run_ok_def disposition_fits_def)
    qed
    with False journal_effect.appended [OF mem(1) owner _ c(1) [folded mem(2)]] db' final c(2) active show ?thesis by simp
  next
    case True
    obtain m r where m: "manifest = Some m" "receipt = Some r" "at_logical_execution_id a \<notin> lc_logical_execution_id ` set (jd_commits ?db)"
        "jw_db v = ?db\<lparr>jd_checkpoints := jd_checkpoints ?db @ [c], jd_commits := jd_commits ?db @ [\<lparr>lc_logical_execution_id = at_logical_execution_id a,
           lc_physical_run_id = at_physical_run_id a, lc_manifest_sha256 = m, lc_commit_receipt_sha256 = r\<rparr>]\<rparr>"
      using db' True by (auto elim!: insert_commit_Inr)
    have digest: "json_sha256 j (commit_receipt_body j (at_logical_execution_id a) m (at_physical_run_id a)) = Inr r"
      using receipt True m by (auto simp: commit_receipt_def)
    have reorder: "db\<lparr>jd_checkpoints := x, jd_commits := y, jd_attempts := z\<rparr> =
        db\<lparr>jd_attempts := z, jd_checkpoints := x, jd_commits := y\<rparr>" for db :: journal_db and x y z by simp
    from journal_effect.committed [OF mem(1) owner active c(1) [folded mem(2)] _ _ _ digest m(3)] c(2-4) True m final mem(2)
    show ?thesis by (simp add: reorder)
  qed
qed

lemma acknowledge_Inr:
  assumes ok: "journal_ok j (jw_db w)" and enc: "encoder_ok j" and run: "acknowledge j run w = (Inr h, w')"
  shows "journal_effect j (jw_db w) (jw_db w')"
proof -
  let ?db = "jw_db w"
  from run obtain a c0 where a: "attempt_of ?db run = Some a" and owner: "at_owner_session_id a = jn_controller_session_id j"
    and committed: "at_disposition a = ''committed''" and latest: "latest_checkpoint ?db run = Some c0"
    and cases: "ck_state c0 = ''acknowledged'' \<and> w' = w \<or>
      ck_state c0 = ''manifest-committed'' \<and> append_checkpoint j run ''acknowledged'' [] None w = (Inr h, w')"
    by (auto simp: acknowledge_def split: option.splits if_splits)
  from cases show ?thesis
  proof
    assume "ck_state c0 = ''acknowledged'' \<and> w' = w"
    then show ?thesis by (simp add: journal_effect.unchanged)
  next
    assume last: "ck_state c0 = ''manifest-committed'' \<and> append_checkpoint j run ''acknowledged'' [] None w = (Inr h, w')"
    have mem: "a \<in> set (jd_attempts ?db)" "at_physical_run_id a = run" using attempt_of_SomeD [OF a] by simp_all
    note rok = journal_ok_run [OF ok mem(1), unfolded mem(2)]
    have "c0 = last (checkpoints_of ?db run)" using latest by (auto simp: latest_checkpoint_def split: if_splits)
    with last run_ok_last_state [OF rok] have "CHECKPOINT_STATES ! (length (checkpoints_of ?db run) - 1) = ''manifest-committed''" by simp
    moreover have size: "length (checkpoints_of ?db run) \<noteq> 0" "length (checkpoints_of ?db run) \<le> 10"
      using rok run_ok_length [OF rok] by (simp_all add: run_ok_def)
    then have "length (checkpoints_of ?db run) - 1 < 10" by linarith
    ultimately have "length (checkpoints_of ?db run) - 1 = 8" using stage_of_commit by blast
    with size have len: "length (checkpoints_of ?db run) = 9" by linarith
    obtain bytes receipt t c where bytes: "jn_canonical j (JObj []) = Some bytes"
      and new: "new_checkpoint j a (latest_checkpoint ?db (at_physical_run_id a)) ''acknowledged'' bytes None receipt t = Inr c"
      and db': "jw_db w' = ?db\<lparr>jd_checkpoints := jd_checkpoints ?db @ [c]\<rparr>"
    proof (rule append_checkpoint_Inr [OF conjunct2 [OF last]])
      fix x bytes receipt t c
      assume *: "attempt_of ?db run = Some x" "jn_canonical j (JObj []) = Some bytes"
        "new_checkpoint j x (latest_checkpoint ?db run) ''acknowledged'' bytes None receipt t = Inr c"
        "if ''acknowledged'' = ''manifest-committed''
         then insert_commit x None receipt (?db\<lparr>jd_checkpoints := jd_checkpoints ?db @ [c]\<rparr>) = Inr (jw_db w')
         else jw_db w' = ?db\<lparr>jd_checkpoints := jd_checkpoints ?db @ [c]\<rparr>"
      have "x = a" using *(1) a by simp
      moreover have "jw_db w' = ?db\<lparr>jd_checkpoints := jd_checkpoints ?db @ [c]\<rparr>" using *(4) by simp
      ultimately show thesis using *(2,3) that mem(2) by metis
    qed
    have "length (checkpoints_of ?db run) < 10" "''acknowledged'' = CHECKPOINT_STATES ! length (checkpoints_of ?db run)"
      by (simp_all add: len CHECKPOINT_STATES_def)
    note c = append_next [OF ok enc mem(1) bytes new, unfolded mem(2), OF this]
    from journal_effect.appended [OF mem(1) owner _ c(1) [folded mem(2)]] c(2) committed show ?thesis by (simp add: db')
  qed
qed

end
