(* ===== verification/Recovery_Reach.thy ===== *)
theory Recovery_Reach
  imports Recovery_Steps
begin

text \<open>
  The journals that the sessions of one campaign can produce: calls of any of them, in any order
  and whether they succeed or raise, and crashes, which lose an open transaction. The invariant,
  the finality of commits and the errors that remain possible.
\<close>

section \<open>Calls and reachability\<close>

datatype journal_call =
    OpenJournal
  | StartOrResume string
  | Checkpoint string string "(string \<times> json) list option" "string option"
  | Acknowledge string

fun run_call :: "journal \<Rightarrow> journal_call \<Rightarrow> (journal_world, journal_error, unit) operation" where
  "run_call s OpenJournal = open_journal s"
| "run_call s (StartOrResume l) = op_bind (start_or_resume s l) (\<lambda>_. op_return ())"
| "run_call s (Checkpoint run state payload manifest) = op_bind (checkpoint s run state payload manifest) (\<lambda>_. op_return ())"
| "run_call s (Acknowledge run) = op_bind (acknowledge s run) (\<lambda>_. op_return ())"

inductive journal_step :: "journal \<Rightarrow> journal_world \<Rightarrow> journal_world \<Rightarrow> bool" for j w where
  called: "same_campaign j s \<Longrightarrow> run_call s call w = (r, w') \<Longrightarrow> journal_step j w w'"
| crashed: "journal_step j w (w\<lparr>jw_runs := m, jw_ticks := n\<rparr>)"

inductive journal_reachable :: "journal \<Rightarrow> journal_world \<Rightarrow> bool" for j where
  opened: "jw_db w0 = empty_db \<Longrightarrow> open_journal j w0 = (Inr (), w) \<Longrightarrow> journal_reachable j w"
| stepped: "journal_reachable j w \<Longrightarrow> journal_step j w w' \<Longrightarrow> journal_reachable j w'"

section \<open>The invariant holds on reachable journals\<close>

lemma same_campaign_sym: "same_campaign j s \<Longrightarrow> same_campaign s j"
  by (simp add: same_campaign_def)

lemma journal_ok_session: "same_campaign j s \<Longrightarrow> journal_ok s db = journal_ok j db"
  by (simp add: journal_ok_def audit_session)

lemma encoder_ok_session: "same_campaign j s \<Longrightarrow> encoder_ok s = encoder_ok j"
  by (simp add: encoder_ok_def same_campaign_def)

lemma empty_journal_ok:
  assumes "open_journal j w0 = (Inr (), w)" "jw_db w0 = empty_db"
  shows "journal_ok j (jw_db w)"
proof -
  from assms have "jd_attempts (jw_db w) = []" "jd_commits (jw_db w) = []" "jd_checkpoints (jw_db w) = []"
    and "audit_in_transaction j (jw_db w) = Inr ()"
    by (auto simp: open_journal_def initialize_def audit_def empty_db_def split: if_splits)
  then show ?thesis by (simp add: journal_ok_def keys_ok_def live_last_def attempts_of_def)
qed

text \<open>A session that opens an existing journal leaves its tables alone.\<close>

lemma reopen_unchanged:
  assumes ok: "journal_ok s (jw_db w)" and run: "open_journal s w = (r, w')"
  shows "jw_db w' = jw_db w"
proof -
  have "audit_metadata s (jw_db w) = Inr ()" using ok by (simp add: journal_ok_def audit_iff)
  then obtain expected where expected: "expected_metadata s = Inr expected" "set (jd_metadata (jw_db w)) = set expected"
    by (auto simp: audit_metadata_def)
  then have "jd_metadata (jw_db w) \<noteq> []" by (auto simp: expected_metadata_def)
  with run expected show ?thesis
    by (auto simp: open_journal_def initialize_def audit_def op_bind_def op_lift_def change_db_def read_db_def
        split: prod.splits sum.splits if_splits)
qed

text \<open>An operation that raises has no effect on the tables.\<close>

lemma raised_unchanged:
  "start_or_resume s l w = (Inl e, w') \<Longrightarrow> jw_db w' = jw_db w"
  "checkpoint s run state payload manifest w = (Inl e, w') \<Longrightarrow> jw_db w' = jw_db w"
  "acknowledge s run w = (Inl e, w') \<Longrightarrow> jw_db w' = jw_db w"
  by (auto simp: start_or_resume_def checkpoint_def acknowledge_def op_bind_def op_lift_def
      dest: transaction_Inl split: if_splits prod.splits sum.splits)

lemma op_ignore_eq: "op_bind m (\<lambda>_. op_return ()) w = (r, w') \<longleftrightarrow>
    (\<exists>e. m w = (Inl e, w') \<and> r = Inl e) \<or> (\<exists>x. m w = (Inr x, w') \<and> r = Inr ())"
  by (auto simp: op_bind_def op_return_def split: prod.splits sum.splits)

lemma call_effect:
  assumes same: "same_campaign j s" and ok: "journal_ok j (jw_db w)" and enc: "encoder_ok j" and run: "run_call s call w = (r, w')"
  shows "journal_effect s (jw_db w) (jw_db w')"
proof -
  have ok': "journal_ok s (jw_db w)" and enc': "encoder_ok s"
    using ok enc journal_ok_session [OF same] encoder_ok_session [OF same] by simp_all
  show ?thesis
  proof (cases call)
    case OpenJournal
    with reopen_unchanged [OF ok'] run show ?thesis by (simp add: journal_effect.unchanged)
  next
    case (StartOrResume l)
    with run raised_unchanged(1) start_or_resume_Inr [OF ok' enc'] show ?thesis
      by (auto simp: op_ignore_eq journal_effect.unchanged)
  next
    case (Checkpoint run state payload manifest)
    with run raised_unchanged(2) checkpoint_Inr [OF ok' enc'] show ?thesis
      by (auto simp: op_ignore_eq journal_effect.unchanged)
  next
    case (Acknowledge run)
    with run raised_unchanged(3) acknowledge_Inr [OF ok' enc'] show ?thesis
      by (auto simp: op_ignore_eq journal_effect.unchanged)
  qed
qed

lemma step_effect:
  assumes "journal_step j w w'" "journal_ok j (jw_db w)" "encoder_ok j"
  obtains s where "same_campaign j s" "journal_effect s (jw_db w) (jw_db w')"
  using assms
proof (cases rule: journal_step.cases)
  case (called s call r)
  with call_effect [OF _ assms(2,3)] that show ?thesis by blast
next
  case (crashed m n)
  then have "journal_effect j (jw_db w) (jw_db w')" by (simp add: journal_effect.unchanged)
  with that same_campaign_refl show ?thesis by blast
qed

lemma step_ok: "journal_step j w w' \<Longrightarrow> journal_ok j (jw_db w) \<Longrightarrow> encoder_ok j \<Longrightarrow> journal_ok j (jw_db w')"
  by (erule step_effect) (use effect_ok journal_ok_session in blast)+

lemma reachable_ok: "journal_reachable j w \<Longrightarrow> encoder_ok j \<Longrightarrow> journal_ok j (jw_db w)"
proof (induction rule: journal_reachable.induct)
  case (opened w0 w)
  then show ?case by (simp add: empty_journal_ok)
next
  case (stepped w w')
  then show ?case by (simp add: step_ok)
qed

text \<open>
  C34. However the sessions of a campaign start, resume, advance and acknowledge executions, in
  whatever order, with refused calls and crashes in between, the journal they leave passes the
  audit of every session: its checkpoint chains are intact and each follows the prescribed
  states, attempts are numbered without gaps, every execution has exactly one live attempt, and
  the commits agree with the committed attempts.
\<close>

theorem reachable_journal_audits:
  assumes "journal_reachable j w" "encoder_ok j" "same_campaign j s"
  shows "audit s w = (Inr (), w)"
  using reachable_ok [OF assms(1,2)] by (simp add: audit_def journal_ok_def audit_session [OF assms(3)])

end
