(* ===== verification/Recovery_Refinement.thy ===== *)
theory Recovery_Refinement
  imports Recovery_Reach
begin

text \<open>
  The abstract contract of the journal: per logical execution a list of runs, each with an owner,
  a stage and a status, on whose last element six kinds of steps act. The tables refine it.
\<close>

section \<open>The abstract machine\<close>

datatype run_status = Run_Active | Run_Interrupted | Run_Committed

record run_view =
  rv_run :: string
  rv_owner :: string
  rv_stage :: nat
  rv_status :: run_status

text \<open>
  Stages count \<open>CHECKPOINT_STATES\<close>: 0 is \<open>leased\<close>, 2 \<open>running\<close>, 7 \<open>verified\<close>, 8
  \<open>manifest-committed\<close> and 9 \<open>acknowledged\<close>. Only the owner of the last run advances it; a run
  found running by another session is interrupted and replaced.
\<close>

inductive attempt_step :: "string \<Rightarrow> run_view list \<Rightarrow> run_view list \<Rightarrow> bool" for s where
  start: "attempt_step s [] [\<lparr>rv_run = r, rv_owner = s, rv_stage = 0, rv_status = Run_Active\<rparr>]"
| claim: "rv_owner v = s \<or> rv_stage v \<noteq> 2 \<Longrightarrow> attempt_step s (vs @ [v]) (vs @ [v\<lparr>rv_owner := s\<rparr>])"
| retry: "rv_status v = Run_Active \<Longrightarrow> rv_stage v = 2 \<Longrightarrow> rv_owner v \<noteq> s \<Longrightarrow> r \<notin> rv_run ` set (vs @ [v]) \<Longrightarrow>
    attempt_step s (vs @ [v]) (vs @ [v\<lparr>rv_status := Run_Interrupted\<rparr>, \<lparr>rv_run = r, rv_owner = s, rv_stage = 0, rv_status = Run_Active\<rparr>])"
| advance: "rv_status v = Run_Active \<Longrightarrow> rv_owner v = s \<Longrightarrow> rv_stage v < 7 \<Longrightarrow>
    attempt_step s (vs @ [v]) (vs @ [v\<lparr>rv_stage := rv_stage v + 1\<rparr>])"
| commit: "rv_status v = Run_Active \<Longrightarrow> rv_owner v = s \<Longrightarrow> rv_stage v = 7 \<Longrightarrow>
    attempt_step s (vs @ [v]) (vs @ [v\<lparr>rv_stage := 8, rv_status := Run_Committed\<rparr>])"
| acknowledge: "rv_status v = Run_Committed \<Longrightarrow> rv_owner v = s \<Longrightarrow> rv_stage v = 8 \<Longrightarrow>
    attempt_step s (vs @ [v]) (vs @ [v\<lparr>rv_stage := 9\<rparr>])"

inductive_cases attempt_stepE: "attempt_step s vs ws"

section \<open>The abstraction\<close>

definition status_of :: "string \<Rightarrow> run_status" where
  "status_of d = (if d = ''active'' then Run_Active else if d = ''committed'' then Run_Committed else Run_Interrupted)"

definition view :: "journal_db \<Rightarrow> attempt_row \<Rightarrow> run_view" where
  "view db a = \<lparr>rv_run = at_physical_run_id a, rv_owner = at_owner_session_id a,
     rv_stage = length (checkpoints_of db (at_physical_run_id a)) - 1, rv_status = status_of (at_disposition a)\<rparr>"

definition runs_of :: "journal_db \<Rightarrow> string \<Rightarrow> run_view list" where
  "runs_of db l = map (view db) (attempts_of db l)"

text \<open>Marking the last run of one execution changes no other run.\<close>

lemma mark_last_rows:
  assumes keys: "keys_ok db" and rows: "attempts_of db l = as @ [a]"
  shows "map (mark (at_physical_run_id a) f) (attempts_of db l') = (if l' = l then as @ [f a] else attempts_of db l')"
proof -
  have a: "a \<in> set (jd_attempts db)" "at_logical_execution_id a = l"
    using rows set_attempts_of [of db l] by auto
  have marked: "mark (at_physical_run_id a) f x = (if x = a then f a else x)" if "x \<in> set (attempts_of db l')" for x l'
    using mark_same_run [OF keys a(1)] that by simp
  have distinct: "a \<notin> set as"
  proof -
    have "distinct (jd_attempts db)" using keys by (auto simp: keys_ok_def distinct_map)
    then have "distinct (attempts_of db l)" by (simp add: attempts_of_def)
    then show ?thesis by (simp add: rows)
  qed
  show ?thesis
  proof (cases "l' = l")
    case True
    have "map (mark (at_physical_run_id a) f) (as @ [a]) = as @ [f a]"
      using marked [of _ l] distinct unfolding rows by (auto intro!: map_idI)
    with True rows show ?thesis by simp
  next
    case False
    with a(2) have "a \<notin> set (attempts_of db l')" by simp
    with marked [of _ l'] have "map (mark (at_physical_run_id a) f) (attempts_of db l') = attempts_of db l'"
      by (intro map_idI) auto
    with False show ?thesis by simp
  qed
qed

lemma view_kept:
  "checkpoints_of db' (at_physical_run_id a) = checkpoints_of db (at_physical_run_id a) \<Longrightarrow> view db' a = view db a"
  by (simp add: view_def)

lemma live_is_last:
  assumes ok: "journal_ok j db" and a: "a \<in> set (jd_attempts db)" "live a"
  obtains as where "attempts_of db (at_logical_execution_id a) = as @ [a]"
proof -
  have mem: "a \<in> set (attempts_of db (at_logical_execution_id a))" using a by simp
  then obtain as b where as: "attempts_of db (at_logical_execution_id a) = as @ [b]" by (metis empty_iff empty_set rev_exhaust)
  with only_last_live [OF ok as] a mem have "b = a" unfolding as by auto
  with as that show thesis by simp
qed

text \<open>After a change of the checkpoints of one run, the views of all other runs are the same.\<close>

lemma runs_after:
  assumes keys: "keys_ok db" and rows: "attempts_of db l = as @ [a]" and plain: "plain_update f"
    and rows': "\<And>l'. attempts_of db' l' = map (mark (at_physical_run_id a) f) (attempts_of db l')"
    and ckpts: "\<And>r. r \<noteq> at_physical_run_id a \<Longrightarrow> checkpoints_of db' r = checkpoints_of db r"
  shows "runs_of db' l = map (view db) as @ [view db' (f a)]" "l' \<noteq> l \<Longrightarrow> runs_of db' l' = runs_of db l'"
proof -
  have a: "a \<in> set (jd_attempts db)" "at_logical_execution_id a = l" using rows set_attempts_of [of db l] by auto
  have distinct: "a \<notin> set as"
  proof -
    have "distinct (jd_attempts db)" using keys by (auto simp: keys_ok_def distinct_map)
    then have "distinct (attempts_of db l)" by (simp add: attempts_of_def)
    then show ?thesis by (simp add: rows)
  qed
  have other: "view db' x = view db x" if "x \<in> set (jd_attempts db)" "x \<noteq> a" for x
    using same_run [OF keys that(1) a(1)] that(2) by (intro view_kept ckpts) auto
  have "set as \<subseteq> set (jd_attempts db)" using rows set_attempts_of [of db l] by auto
  then have "map (view db') as = map (view db) as" using distinct other by (intro map_cong refl) auto
  then show "runs_of db' l = map (view db) as @ [view db' (f a)]"
    by (simp add: runs_of_def rows' mark_last_rows [OF keys rows])
  assume "l' \<noteq> l"
  then have "\<And>x. x \<in> set (attempts_of db l') \<Longrightarrow> x \<noteq> a" using a by auto
  then have "map (view db') (attempts_of db l') = map (view db) (attempts_of db l')" using other by (intro map_cong refl) auto
  with \<open>l' \<noteq> l\<close> show "runs_of db' l' = runs_of db l'" by (simp add: runs_of_def rows' mark_last_rows [OF keys rows])
qed

lemma stage_state:
  assumes ok: "journal_ok j db" and a: "a \<in> set (jd_attempts db)"
  shows "ck_state (last (checkpoints_of db (at_physical_run_id a))) = CHECKPOINT_STATES ! rv_stage (view db a)"
    "rv_stage (view db a) < 10" "length (checkpoints_of db (at_physical_run_id a)) = Suc (rv_stage (view db a))"
proof -
  note rok = journal_ok_run [OF ok a]
  show "ck_state (last (checkpoints_of db (at_physical_run_id a))) = CHECKPOINT_STATES ! rv_stage (view db a)"
    using run_ok_last_state [OF rok] by (simp add: view_def)
  have "checkpoints_of db (at_physical_run_id a) \<noteq> []" using rok by (simp add: run_ok_def)
  then show "length (checkpoints_of db (at_physical_run_id a)) = Suc (rv_stage (view db a))" by (simp add: view_def)
  with run_ok_length [OF rok] show "rv_stage (view db a) < 10" by simp
qed

lemma stage_iff: "i < 10 \<Longrightarrow> k < 10 \<Longrightarrow> CHECKPOINT_STATES ! i = CHECKPOINT_STATES ! k \<longleftrightarrow> i = k"
  using stages_distinct by (simp add: nth_eq_iff_index_eq)

section \<open>The simulation\<close>

text \<open>What a change of the tables is on the abstract lists: a step on one of them, or nothing.\<close>

definition runs_step :: "string \<Rightarrow> journal_db \<Rightarrow> journal_db \<Rightarrow> bool" where
  "runs_step s db db' \<longleftrightarrow> (\<forall>l. runs_of db' l = runs_of db l) \<or>
     (\<exists>l. attempt_step s (runs_of db l) (runs_of db' l) \<and> (\<forall>l'. l' \<noteq> l \<longrightarrow> runs_of db' l' = runs_of db l'))"

lemma runs_stepI:
  "runs_of db l = vs \<Longrightarrow> runs_of db' l = ws \<Longrightarrow> attempt_step s vs ws \<Longrightarrow>
     (\<And>l'. l' \<noteq> l \<Longrightarrow> runs_of db' l' = runs_of db l') \<Longrightarrow> runs_step s db db'"
  unfolding runs_step_def by blast

lemma runs_of_snoc: "attempts_of db l = as @ [a] \<Longrightarrow> runs_of db l = map (view db) as @ [view db a]"
  by (simp add: runs_of_def)

lemma claimed_refines:
  assumes ok: "journal_ok j db" and ne: "attempts_of db l \<noteq> []" and a: "a = last (attempts_of db l)"
    and free: "at_owner_session_id a = s \<or> ck_state (last (checkpoints_of db (at_physical_run_id a))) \<noteq> ''running''"
  shows "runs_step s db (db\<lparr>jd_attempts := map (mark (at_physical_run_id a) (\<lambda>a. a\<lparr>at_owner_session_id := s\<rparr>)) (jd_attempts db)\<rparr>)"
    (is "runs_step s db ?db")
proof -
  obtain as where rows: "attempts_of db l = as @ [a]" using ne a by (metis append_butlast_last_id)
  have keys: "keys_ok db" using ok by (simp add: journal_ok_def)
  have mem: "a \<in> set (jd_attempts db)" using rows set_attempts_of [of db l] by auto
  have rows': "attempts_of ?db l' = map (mark (at_physical_run_id a) (\<lambda>a. a\<lparr>at_owner_session_id := s\<rparr>)) (attempts_of db l')" for l'
    by (rule attempts_of_mark) simp
  note after = runs_after [OF keys rows plain_updates(1) rows', simplified]
  have "view ?db (a\<lparr>at_owner_session_id := s\<rparr>) = (view db a)\<lparr>rv_owner := s\<rparr>" by (simp add: view_def)
  moreover have "rv_owner (view db a) = s \<or> rv_stage (view db a) \<noteq> 2"
  proof -
    have "CHECKPOINT_STATES ! 2 = ''running''" by (simp add: CHECKPOINT_STATES_def)
    with free stage_state(1) [OF ok mem] show ?thesis by (auto simp: view_def)
  qed
  ultimately have "attempt_step s (map (view db) as @ [view db a]) (map (view db) as @ [view ?db (a\<lparr>at_owner_session_id := s\<rparr>)])"
    by (simp add: attempt_step.claim)
  then show ?thesis using after by (intro runs_stepI [OF runs_of_snoc [OF rows]]) simp_all
qed

lemma appended_refines:
  assumes ok: "journal_ok j db" and mem: "a \<in> set (jd_attempts db)" and owner: "at_owner_session_id a = s"
    and live: "at_disposition a = (if ck_state c = ''acknowledged'' then ''committed'' else ''active'')"
    and c: "next_checkpoint j a (checkpoints_of db (at_physical_run_id a)) c" "ck_state c \<noteq> ''manifest-committed''"
  shows "runs_step s db (db\<lparr>jd_checkpoints := jd_checkpoints db @ [c]\<rparr>)" (is "runs_step s db ?db")
proof -
  let ?l = "at_logical_execution_id a" and ?n = "rv_stage (view db a)"
  have keys: "keys_ok db" using ok by (simp add: journal_ok_def)
  have "live a" using live by (simp add: live_def split: if_splits)
  then obtain as where rows: "attempts_of db ?l = as @ [a]" using live_is_last [OF ok mem] by blast
  have run: "ck_physical_run_id c = at_physical_run_id a" using c by (simp add: next_checkpoint_def)
  have ckpts: "checkpoints_of ?db r = (if at_physical_run_id a = r then checkpoints_of db r @ [c] else checkpoints_of db r)" for r
    using next_checkpoint_ordinals [OF journal_ok_run [OF ok mem] c(1)] by (subst checkpoints_of_append) (simp_all add: run)
  have "map (mark (at_physical_run_id a) (\<lambda>a. a)) xs = xs" for xs by (intro map_idI) (simp add: mark_def)
  moreover have "plain_update (\<lambda>a. a)" by (simp add: plain_update_def)
  ultimately have after: "runs_of ?db ?l = map (view db) as @ [view ?db a]" "l' \<noteq> ?l \<Longrightarrow> runs_of ?db l' = runs_of db l'" for l'
    using runs_after [OF keys rows, of "\<lambda>a. a" ?db] ckpts by simp_all
  note stage = stage_state [OF ok mem]
  have n: "?n + 1 < 10" "ck_state c = CHECKPOINT_STATES ! (?n + 1)"
    using c(1) stage(3) by (simp_all add: next_checkpoint_def)
  have view': "view ?db a = (view db a)\<lparr>rv_stage := ?n + 1\<rparr>" using ckpts stage(3) by (simp add: view_def)
  have "attempt_step s (map (view db) as @ [view db a]) (map (view db) as @ [view ?db a])"
  proof (cases "ck_state c = ''acknowledged''")
    case True
    then have "CHECKPOINT_STATES ! (?n + 1) = CHECKPOINT_STATES ! 9" using n by (simp add: CHECKPOINT_STATES_def)
    then have "?n + 1 = 9" using stage_iff [OF n(1), of 9] by simp
    then show ?thesis unfolding view' using attempt_step.acknowledge [of "view db a" s] owner live True
      by (simp add: view_def status_of_def)
  next
    case False
    then have "CHECKPOINT_STATES ! (?n + 1) \<noteq> CHECKPOINT_STATES ! 9" "CHECKPOINT_STATES ! (?n + 1) \<noteq> CHECKPOINT_STATES ! 8"
      using n c(2) by (simp_all add: CHECKPOINT_STATES_def)
    then have "?n + 1 \<noteq> 9" "?n + 1 \<noteq> 8" by metis+
    with n(1) have "?n < 7" by linarith
    then show ?thesis unfolding view' using attempt_step.advance [of "view db a" s] owner live False
      by (simp add: view_def status_of_def)
  qed
  with after show ?thesis by (intro runs_stepI [OF runs_of_snoc [OF rows]])
qed

lemma committed_refines:
  assumes ok: "journal_ok j db" and mem: "a \<in> set (jd_attempts db)" and owner: "at_owner_session_id a = s"
    and active: "at_disposition a = ''active''"
    and c: "next_checkpoint j a (checkpoints_of db (at_physical_run_id a)) c" "ck_state c = ''manifest-committed''"
    and db': "db' = db\<lparr>jd_attempts := map (mark (at_physical_run_id a) (\<lambda>a. a\<lparr>at_disposition := ''committed''\<rparr>)) (jd_attempts db),
      jd_checkpoints := jd_checkpoints db @ [c], jd_commits := ls\<rparr>"
  shows "runs_step s db db'"
proof -
  let ?l = "at_logical_execution_id a" and ?n = "rv_stage (view db a)" and ?f = "\<lambda>a. a\<lparr>at_disposition := ''committed''\<rparr>"
  have keys: "keys_ok db" using ok by (simp add: journal_ok_def)
  have "live a" using active by (simp add: live_def)
  then obtain as where rows: "attempts_of db ?l = as @ [a]" using live_is_last [OF ok mem] by blast
  have run: "ck_physical_run_id c = at_physical_run_id a" using c by (simp add: next_checkpoint_def)
  have ckpts: "checkpoints_of db' r = (if at_physical_run_id a = r then checkpoints_of db r @ [c] else checkpoints_of db r)" for r
    using next_checkpoint_ordinals [OF journal_ok_run [OF ok mem] c(1)] checkpoints_of_append [of db c r]
    by (simp add: run checkpoints_of_def db')
  have rows': "attempts_of db' l' = map (mark (at_physical_run_id a) ?f) (attempts_of db l')" for l'
    using attempts_of_mark [OF plain_updates(2), where db = db and run = "at_physical_run_id a" and l = l']
    by (simp add: attempts_of_def db')
  have after: "runs_of db' ?l = map (view db) as @ [view db' (?f a)]" "l' \<noteq> ?l \<Longrightarrow> runs_of db' l' = runs_of db l'" for l'
    using runs_after [OF keys rows plain_updates(2) rows'] ckpts by simp_all
  note stage = stage_state [OF ok mem]
  have n: "?n + 1 < 10" "CHECKPOINT_STATES ! (?n + 1) = ''manifest-committed''"
    using c stage(3) by (simp_all add: next_checkpoint_def)
  then have seven: "?n = 7" using stage_of_commit [of "?n + 1"] by simp
  have "view db' (?f a) = (view db a)\<lparr>rv_stage := 8, rv_status := Run_Committed\<rparr>"
    using ckpts stage(3) seven by (simp add: view_def status_of_def)
  moreover have "rv_status (view db a) = Run_Active" "rv_owner (view db a) = s" using active owner by (simp_all add: view_def status_of_def)
  ultimately show ?thesis using after attempt_step.commit [of "view db a" s, OF _ _ seven]
    by (intro runs_stepI [OF runs_of_snoc [OF rows]]) simp_all
qed

lemma attempted_refines:
  assumes ok: "journal_ok j db" and b: "at_attempt_number b = int (length (attempts_of db (at_logical_execution_id b))) + 1"
      "at_disposition b = ''active''" "at_owner_session_id b = s"
    and fresh: "\<forall>a \<in> set (jd_attempts db). at_physical_run_id a \<noteq> at_physical_run_id b" and c: "next_checkpoint j b [] c"
    and source: "attempts_of db (at_logical_execution_id b) = [] \<and> old = at_physical_run_id b \<or>
      (\<exists>a. retry_source db (at_logical_execution_id b) a \<and> at_owner_session_id a \<noteq> s \<and> old = at_physical_run_id a)"
    and db': "db' = db\<lparr>jd_attempts := map (mark old (\<lambda>a. a\<lparr>at_disposition := ''interrupted''\<rparr>)) (jd_attempts db) @ [b],
      jd_checkpoints := jd_checkpoints db @ [c]\<rparr>"
  shows "runs_step s db db'"
proof -
  let ?l = "at_logical_execution_id b" and ?f = "\<lambda>a. a\<lparr>at_disposition := ''interrupted''\<rparr>"
  let ?new = "\<lparr>rv_run = at_physical_run_id b, rv_owner = s, rv_stage = 0, rv_status = Run_Active\<rparr>"
  have keys: "keys_ok db" using ok by (simp add: journal_ok_def)
  have ckpts: "checkpoints_of db' r = (if at_physical_run_id b = r then [c] else checkpoints_of db r)" for r
    using c by (intro new_run_checkpoints [OF keys fresh]) (simp_all add: next_checkpoint_def db')
  have rows: "attempts_of db' l = map (mark old ?f) (attempts_of db l) @ (if l = ?l then [b] else [])" for l
    by (rule new_attempt_rows [OF ok plain_updates(2) b(1)]) (simp add: db')
  have view_b: "view db' b = ?new" using ckpts b by (simp add: view_def status_of_def)
  have kept: "view db' x = view db x" if "x \<in> set (jd_attempts db)" for x
    using fresh that ckpts by (intro view_kept) auto
  from source show ?thesis
  proof
    assume start: "attempts_of db ?l = [] \<and> old = at_physical_run_id b"
    have "map (mark old ?f) (attempts_of db l) = attempts_of db l" for l
      using start fresh by (intro map_idI) (auto simp: mark_def)
    then have "runs_of db' l = (if l = ?l then [?new] else runs_of db l)" for l
      using start kept by (auto simp: runs_of_def rows view_b)
    then show ?thesis using start attempt_step.start [of s "at_physical_run_id b"]
      by (intro runs_stepI [of db ?l "[]"]) (simp_all add: runs_of_def)
  next
    assume "\<exists>a. retry_source db ?l a \<and> at_owner_session_id a \<noteq> s \<and> old = at_physical_run_id a"
    then obtain a where a: "retry_source db ?l a" "at_owner_session_id a \<noteq> s" "old = at_physical_run_id a" by blast
    then obtain as where as: "attempts_of db ?l = as @ [a]" by (metis append_butlast_last_id retry_source_def)
    have mem: "a \<in> set (jd_attempts db)" using as set_attempts_of [of db ?l] by auto
    have marked: "map (mark old ?f) (attempts_of db l) = (if l = ?l then as @ [?f a] else attempts_of db l)" for l
      unfolding a(3) by (rule mark_last_rows [OF keys as])
    have "set as \<subseteq> set (jd_attempts db)" using as set_attempts_of [of db ?l] by auto
    then have as': "map (view db') as = map (view db) as" using kept by (intro map_cong refl) auto
    have "at_physical_run_id a \<noteq> at_physical_run_id b" using fresh mem by blast
    then have view_a: "view db' (?f a) = (view db a)\<lparr>rv_status := Run_Interrupted\<rparr>" using ckpts by (auto simp: view_def status_of_def)
    have "runs_of db' ?l = map (view db) as @ [(view db a)\<lparr>rv_status := Run_Interrupted\<rparr>, ?new]"
      by (simp add: runs_of_def rows marked as' view_a view_b)
    moreover have "runs_of db' l = runs_of db l" if "l \<noteq> ?l" for l
      using that kept by (simp add: runs_of_def rows marked)
    moreover have "rv_stage (view db a) = 2"
    proof -
      have "CHECKPOINT_STATES ! rv_stage (view db a) = CHECKPOINT_STATES ! 2"
        using stage_state(1) [OF ok mem] a(1) by (simp add: retry_source_def CHECKPOINT_STATES_def)
      with stage_state(2) [OF ok mem] stage_iff show ?thesis by simp
    qed
    moreover have "at_physical_run_id b \<notin> rv_run ` set (map (view db) as @ [view db a])"
      using fresh mem \<open>set as \<subseteq> set (jd_attempts db)\<close> by (auto simp: view_def)
    ultimately show ?thesis using a(1,2) attempt_step.retry [of "view db a" s "at_physical_run_id b" "map (view db) as"]
      by (intro runs_stepI [OF runs_of_snoc [OF as]]) (simp_all add: retry_source_def view_def status_of_def)
  qed
qed

lemma effect_refines:
  assumes "journal_effect j db db'" "journal_ok j db"
  shows "runs_step (jn_controller_session_id j) db db'"
  using assms
proof (induction rule: journal_effect.induct)
  case unchanged
  then show ?case by (simp add: runs_step_def)
next
  case (claimed l a)
  then show ?case by (intro claimed_refines)
next
  case (appended a c)
  then show ?case by (intro appended_refines)
next
  case (committed a c m r)
  show ?case by (rule committed_refines [OF committed.prems committed.hyps(1-5) refl])
next
  case (started b c)
  have "map (mark (at_physical_run_id b) (\<lambda>a. a\<lparr>at_disposition := ''interrupted''\<rparr>)) (jd_attempts db) = jd_attempts db"
    using started.hyps(7) by (intro map_idI) (auto simp: mark_def)
  with started show ?case by (intro attempted_refines [where old = "at_physical_run_id b" and b = b and c = c]) simp_all
next
  case (retried b a c)
  then show ?case by (intro attempted_refines [where old = "at_physical_run_id a" and b = b and c = c]) auto
qed

end
