(* ===== verification/Recovery_Properties.thy ===== *)
theory Recovery_Properties
  imports Recovery_Refinement
begin

text \<open>
  What clients of the recovery journal rely on: refinement of the abstract machine, finality of
  commits, the restart decisions of the qualification report, tamper evidence of the checkpoint
  chains and the errors that remain possible.
\<close>

section \<open>Refinement\<close>

text \<open>
  C35. The journal refines the abstract machine of runs: a call of a session is a step of that
  session on the runs of one execution (start, claim, retry, advance, commit or acknowledge,
  each under its guard), or leaves the runs of all executions as they are; a call that raises
  leaves all tables as they are.
\<close>

theorem journal_refines_attempts:
  assumes "journal_reachable j w" "encoder_ok j" "same_campaign j s" "run_call s call w = (r, w')"
  shows "((\<forall>l. runs_of (jw_db w') l = runs_of (jw_db w) l) \<or>
      (\<exists>l. attempt_step (jn_controller_session_id s) (runs_of (jw_db w) l) (runs_of (jw_db w') l) \<and>
        (\<forall>l'. l' \<noteq> l \<longrightarrow> runs_of (jw_db w') l' = runs_of (jw_db w) l'))) \<and>
    ((\<exists>e. r = Inl e) \<longrightarrow> jw_db w' = jw_db w)"
proof -
  note ok = reachable_ok [OF assms(1,2)]
  have "journal_ok s (jw_db w)" using ok journal_ok_session [OF assms(3)] by simp
  then have "runs_step (jn_controller_session_id s) (jw_db w) (jw_db w')"
    by (rule effect_refines [OF call_effect [OF assms(3) ok assms(2,4)]])
  moreover have "jw_db w' = jw_db w" if "r = Inl e" for e
    using assms(4) that reopen_unchanged [OF \<open>journal_ok s (jw_db w)\<close>]
    by (cases call) (auto simp: op_ignore_eq dest: raised_unchanged)
  ultimately show ?thesis unfolding runs_step_def by blast
qed

section \<open>Commits are final\<close>

lemma effect_commits: "journal_effect j db db' \<Longrightarrow> \<exists>ls. jd_commits db' = jd_commits db @ ls"
  by (cases rule: journal_effect.cases) auto

lemma commit_kept: "jd_commits db' = jd_commits db @ ls \<Longrightarrow> commit_of db l = Some x \<Longrightarrow> commit_of db' l = Some x"
  by (simp add: commit_of_def find_append)

text \<open>A committed last run stays the last run.\<close>

lemma committed_step:
  assumes "attempt_step s vs ws" "vs = us @ [v]" "rv_status v = Run_Committed"
  shows "map rv_run ws = map rv_run vs"
  using assms by (cases rule: attempt_step.cases) auto

lemma effect_keeps_runs:
  assumes ok: "journal_ok j db" and effect: "journal_effect j db db'" and l: "commit_of db l = Some x"
  shows "map rv_run (runs_of db' l) = map rv_run (runs_of db l)"
proof -
  note a = commit_of_SomeD [OF ok l]
  then obtain as where as: "attempts_of db l = as @ [last (attempts_of db l)]" by (metis append_butlast_last_id)
  have "rv_status (view db (last (attempts_of db l))) = Run_Committed" using a(2) by (simp add: view_def status_of_def)
  with effect_refines [OF effect ok] runs_of_snoc [OF as] committed_step show ?thesis unfolding runs_step_def by metis
qed

lemma step_keeps_commit:
  assumes "journal_step j w w'" "journal_ok j (jw_db w)" "encoder_ok j" "commit_of (jw_db w) l = Some x"
  shows "commit_of (jw_db w') l = Some x \<and> map rv_run (runs_of (jw_db w') l) = map rv_run (runs_of (jw_db w) l)"
proof -
  obtain s where s: "same_campaign j s" "journal_effect s (jw_db w) (jw_db w')" by (rule step_effect [OF assms(1-3)])
  have "journal_ok s (jw_db w)" using assms(2) journal_ok_session [OF s(1)] by simp
  with effect_keeps_runs [OF _ s(2) assms(4)] effect_commits [OF s(2)] commit_kept [OF _ assms(4)] show ?thesis by blast
qed

lemma map_rv_run: "map rv_run (runs_of db l) = map at_physical_run_id (attempts_of db l)"
  by (simp add: runs_of_def view_def comp_def)

text \<open>
  C36. A logical execution is committed at most once and for good: after any further calls and
  crashes the same commit, with its manifest and receipt, is still there, no further run has
  been started for the execution, and a session that asks for it is told that the committed run
  is committed.
\<close>

theorem commits_are_final:
  assumes reach: "journal_reachable j w" and enc: "encoder_ok j" and commit: "commit_of (jw_db w) l = Some x"
    and later: "(journal_step j)\<^sup>*\<^sup>* w w'"
  shows "commit_of (jw_db w') l = Some x \<and>
    map at_physical_run_id (attempts_of (jw_db w') l) = map at_physical_run_id (attempts_of (jw_db w) l) \<and>
    (\<forall>s d w''. same_campaign j s \<longrightarrow> start_or_resume s l w' = (Inr d, w'') \<longrightarrow>
       rd_action d = ''committed'' \<and> rd_physical_run_id d = Some (lc_physical_run_id x))"
proof -
  have kept: "journal_ok j (jw_db w') \<and> commit_of (jw_db w') l = Some x \<and>
      map rv_run (runs_of (jw_db w') l) = map rv_run (runs_of (jw_db w) l)"
    using later
  proof (induction rule: rtranclp_induct)
    case base
    then show ?case using reachable_ok [OF reach enc] commit by simp
  next
    case (step w1 w2)
    with step_keeps_commit [OF step.hyps(2) _ enc] step_ok [OF step.hyps(2) _ enc] show ?case by simp
  qed
  have "rd_action d = ''committed'' \<and> rd_physical_run_id d = Some (lc_physical_run_id x)"
    if s: "same_campaign j s" and run: "start_or_resume s l w' = (Inr d, w'')" for s d w''
  proof -
    have ok: "journal_ok s (jw_db w')" "encoder_ok s"
      using kept enc journal_ok_session [OF s] encoder_ok_session [OF s] by simp_all
    have c: "commit_of (jw_db w') l = Some x" using kept by simp
    with start_or_resume_Inr [OF ok run] commit_of_SomeD(1,3) [OF ok(1) c] show ?thesis
      by (simp add: expected_decision_def Let_def decision_def)
  qed
  with kept show ?thesis by (simp add: map_rv_run)
qed

section \<open>Restart decisions\<close>

text \<open>
  C37. Every restart goes as the qualification report says: when a session finds an execution
  whose last run belongs to another session, it is told the action that the report lists for the
  stage of the latest checkpoint, and it gets a new run exactly where the report requires one;
  in all other cases it continues with the run and the stage recorded in the journal.
\<close>

theorem restart_follows_report:
  assumes reach: "journal_reachable j w" and enc: "encoder_ok j" and same: "same_campaign j s"
    and last: "attempts_of (jw_db w) l \<noteq> []" "a = last (attempts_of (jw_db w) l)"
      "at_owner_session_id a \<noteq> jn_controller_session_id s"
    and stage: "stage = ck_state (last (checkpoints_of (jw_db w) (at_physical_run_id a)))"
    and run: "start_or_resume s l w = (Inr d, w')"
  shows "\<exists>requires_new. (''restart-after-'' @ stage, rd_action d, Some stage, \<not> requires_new, requires_new) \<in> set report_cases \<and>
    (if requires_new then rd_physical_run_id d \<noteq> Some (at_physical_run_id a) \<and> rd_resume_state d = Some ''leased''
     else rd_physical_run_id d = Some (at_physical_run_id a) \<and> rd_resume_state d = Some stage)"
proof -
  have ok: "journal_ok s (jw_db w)" "encoder_ok s"
    using reachable_ok [OF reach enc] enc journal_ok_session [OF same] encoder_ok_session [OF same] by simp_all
  note answer = start_or_resume_Inr [OF ok run]
  have mem: "a \<in> set (jd_attempts (jw_db w))" using last_in_set [OF last(1)] unfolding last(2) by simp
  note rok = journal_ok_run [OF ok(1) mem]
  have state: "stage \<in> set CHECKPOINT_STATES" using checkpoint_state_known [OF rok] stage by simp
  have committed: "commit_of (jw_db w) l \<noteq> None \<longleftrightarrow> stage \<in> set COMMITTED_STATES"
  proof (cases "commit_of (jw_db w) l")
    case None
    with commit_of_NoneD [OF ok(1) None last(1)] rok show ?thesis using last(2) stage by (simp add: run_ok_def disposition_fits_def)
  next
    case (Some x)
    with commit_of_SomeD(2) [OF ok(1) Some] rok show ?thesis using last(2) stage by (simp add: run_ok_def disposition_fits_def)
  qed
  have action: "rd_action d = recovery_action_for_stage stage False"
    using answer last committed state stage
    by (auto simp: expected_decision_def Let_def decision_def recovery_action_for_stage_def COMMITTED_STATES_def)
  have mem_case: "stage_case stage \<in> set report_cases" using state by (simp add: report_cases_def)
  show ?thesis
  proof (cases "stage = ''running''")
    case True
    then have "commit_of (jw_db w) l = None" using committed by (simp add: COMMITTED_STATES_def)
    then have retry: "d = decision ''retry'' l (last_run (jw_db w') l) (at_attempt_number a + 1) ''leased'' ''interrupted-target-invocation''"
      using answer last True stage by (simp add: expected_decision_def Let_def)
    have "last_run (jw_db w') l \<noteq> at_physical_run_id a"
      using answer retry mem by (auto simp: decision_def)
    with retry mem_case True action show ?thesis by (intro exI [of _ True]) (simp add: stage_case_def Let_def decision_def)
  next
    case False
    then have "recovery_action_for_stage stage False \<noteq> ''retry''"
      by (auto simp: recovery_action_for_stage_def COMMITTED_STATES_def)
    moreover have "rd_physical_run_id d = Some (at_physical_run_id a)" "rd_resume_state d = Some stage"
      using answer last False stage by (auto simp: expected_decision_def Let_def decision_def)
    ultimately show ?thesis using mem_case action by (intro exI [of _ False]) (simp add: stage_case_def Let_def)
  qed
qed

end
