(* ===== verification/Recovery_Chain.thy ===== *)
theory Recovery_Chain
  imports Recovery_Reach
begin

text \<open>
  Tamper evidence of the checkpoint chains: an audited chain is determined by the digest of its
  last checkpoint, as long as no two of the documents involved have the same digest.
\<close>

text \<open>The documents whose digests a journal stores: checkpoint bodies and parsed payloads.\<close>

definition journal_documents :: "journal \<Rightarrow> journal_db \<Rightarrow> json set" where
  "journal_documents j db =
     {checkpoint_body j a (ck_previous_checkpoint_sha256 c) c | a c.
        a \<in> set (jd_attempts db) \<and> c \<in> set (checkpoints_of db (at_physical_run_id a))} \<union>
     {v. \<exists>c \<in> set (jd_checkpoints db). jn_loads j (ck_payload_json c) = Some v}"

definition collision_free :: "journal \<Rightarrow> json set \<Rightarrow> bool" where
  "collision_free j docs \<longleftrightarrow> (\<forall>u \<in> docs. \<forall>v \<in> docs. \<forall>d. json_sha256 j u = Inr d \<longrightarrow> json_sha256 j v = Inr d \<longrightarrow> u = v)"

lemma JOpt_JStr_eq [simp]: "JOpt JStr x = JOpt JStr y \<longleftrightarrow> x = y"
  by (auto simp: JOpt_def split: option.splits)

lemma checkpoint_body_eq:
  "checkpoint_body j a p c = checkpoint_body j a' p' c' \<longleftrightarrow>
     at_attempt_number a = at_attempt_number a' \<and> at_logical_execution_id a = at_logical_execution_id a' \<and>
     at_physical_run_id a = at_physical_run_id a' \<and> p = p' \<and> ck_ordinal c = ck_ordinal c' \<and> ck_state c = ck_state c' \<and>
     ck_payload_sha256 c = ck_payload_sha256 c' \<and> ck_manifest_sha256 c = ck_manifest_sha256 c' \<and>
     ck_commit_receipt_sha256 c = ck_commit_receipt_sha256 c' \<and>
     ck_controller_session_id c = ck_controller_session_id c' \<and> ck_recorded_at c = ck_recorded_at c'"
  by (auto simp: checkpoint_body_def)

lemma audit_payload_Inr:
  "audit_payload j c = Inr () \<longleftrightarrow> (\<exists>fs. jn_loads j (ck_payload_json c) = Some (JObj fs) \<and>
     (\<exists>bytes. jn_canonical j (JObj fs) = Some bytes \<and> jn_decode j bytes = ck_payload_json c \<and>
        jn_sha256 j bytes = ck_payload_sha256 c))"
  by (auto simp: audit_payload_def split: option.splits json.splits)

lemma audit_link:
  "audit_chain j a p [c] = Inr () \<longleftrightarrow> audit_payload j c = Inr () \<and> ck_previous_checkpoint_sha256 c = p \<and>
     json_sha256 j (checkpoint_body j a p c) = Inr (ck_checkpoint_sha256 c)"
  by auto

definition link_documents :: "journal \<Rightarrow> attempt_row \<Rightarrow> checkpoint_row \<Rightarrow> json set" where
  "link_documents j a c =
     insert (checkpoint_body j a (ck_previous_checkpoint_sha256 c) c) {v. jn_loads j (ck_payload_json c) = Some v}"

definition same_attempt :: "attempt_row \<Rightarrow> attempt_row \<Rightarrow> bool" where
  "same_attempt a a' \<longleftrightarrow> at_physical_run_id a = at_physical_run_id a' \<and>
     at_logical_execution_id a = at_logical_execution_id a' \<and> at_attempt_number a = at_attempt_number a'"

text \<open>Equal digests of two audited links: the links are equal.\<close>

lemma same_link:
  assumes c: "audit_chain j a p [c] = Inr ()" "audit_chain j a' p' [c'] = Inr ()"
    and digest: "ck_checkpoint_sha256 c = ck_checkpoint_sha256 c'"
    and run: "ck_physical_run_id c = at_physical_run_id a" "ck_physical_run_id c' = at_physical_run_id a'"
    and docs: "collision_free j docs" "link_documents j a c \<subseteq> docs" "link_documents j a' c' \<subseteq> docs"
  shows "c = c' \<and> p = p' \<and> same_attempt a a'"
proof -
  have body: "checkpoint_body j a p c = checkpoint_body j a' p' c'"
    using docs c digest unfolding collision_free_def audit_link link_documents_def by (metis insert_subset)
  obtain fs fs' where fs: "jn_loads j (ck_payload_json c) = Some (JObj fs)" "jn_loads j (ck_payload_json c') = Some (JObj fs')"
    and sha: "json_sha256 j (JObj fs) = Inr (ck_payload_sha256 c)" "json_sha256 j (JObj fs') = Inr (ck_payload_sha256 c')"
    and stored: "map_option (jn_decode j) (jn_canonical j (JObj fs)) = Some (ck_payload_json c)"
      "map_option (jn_decode j) (jn_canonical j (JObj fs')) = Some (ck_payload_json c')"
    using c unfolding audit_link audit_payload_Inr by (auto simp: json_sha256_def canonical_bytes_def)
  have "JObj fs \<in> docs" "JObj fs' \<in> docs" using docs(2,3) fs by (auto simp: link_documents_def)
  with docs(1) sha body have "JObj fs = JObj fs'" unfolding collision_free_def checkpoint_body_eq by metis
  with stored have "ck_payload_json c = ck_payload_json c'" by simp
  with body c digest run show ?thesis by (simp add: checkpoint_body_eq audit_link same_attempt_def)
qed

text \<open>Two audited chains with the same last digest are equal, from the last link backwards.\<close>

definition chain_ok :: "journal \<Rightarrow> json set \<Rightarrow> attempt_row \<Rightarrow> checkpoint_row list \<Rightarrow> bool" where
  "chain_ok j docs a cs \<longleftrightarrow> audit_chain j a None cs = Inr () \<and>
     (\<forall>c \<in> set cs. ck_physical_run_id c = at_physical_run_id a \<and> link_documents j a c \<subseteq> docs)"

lemma chain_ok_snoc: "chain_ok j docs a (cs @ [c]) \<longleftrightarrow> chain_ok j docs a cs \<and>
    audit_chain j a (if cs = [] then None else Some (ck_checkpoint_sha256 (last cs))) [c] = Inr () \<and>
    ck_physical_run_id c = at_physical_run_id a \<and> link_documents j a c \<subseteq> docs"
  unfolding chain_ok_def audit_chain_snoc [of j a None cs c] by auto

lemma same_chain:
  assumes "collision_free j docs"
  shows "chain_ok j docs a cs \<Longrightarrow> chain_ok j docs a' cs' \<Longrightarrow> cs \<noteq> [] \<Longrightarrow> cs' \<noteq> [] \<Longrightarrow>
    ck_checkpoint_sha256 (last cs) = ck_checkpoint_sha256 (last cs') \<Longrightarrow> cs = cs' \<and> same_attempt a a'"
proof (induction cs arbitrary: cs' rule: rev_induct)
  case (snoc c xs)
  then obtain c' ys where cs': "cs' = ys @ [c']" by (cases cs' rule: rev_cases) auto
  note ok = snoc.prems(1,2) [unfolded cs' chain_ok_snoc]
  have "c = c' \<and> (if xs = [] then None else Some (ck_checkpoint_sha256 (last xs))) =
      (if ys = [] then None else Some (ck_checkpoint_sha256 (last ys))) \<and> same_attempt a a'"
    by (rule same_link [where docs = docs and j = j]) (use ok snoc.prems(5) cs' assms in simp_all)
  moreover from this have "xs = ys" if "xs \<noteq> []" using snoc.IH [of ys] that ok by (auto split: if_splits)
  ultimately show ?case using cs' by (auto split: if_splits)
qed simp

lemma audited_chain:
  assumes "audit j w = (Inr (), w)" "a \<in> set (jd_attempts (jw_db w))" "journal_documents j (jw_db w) \<subseteq> docs"
  shows "chain_ok j docs a (checkpoints_of (jw_db w) (at_physical_run_id a))"
    and "checkpoints_of (jw_db w) (at_physical_run_id a) \<noteq> []"
proof -
  have ok: "run_ok j a (checkpoints_of (jw_db w) (at_physical_run_id a))"
    using assms(1,2) by (simp add: audit_def read_db_def audit_iff audit_attempt_iff)
  then show "checkpoints_of (jw_db w) (at_physical_run_id a) \<noteq> []" by (simp add: run_ok_def)
  from ok assms(2,3) show "chain_ok j docs a (checkpoints_of (jw_db w) (at_physical_run_id a))"
    by (auto simp: chain_ok_def run_ok_def link_documents_def journal_documents_def)
qed

text \<open>
  C38. The digest of a run's last checkpoint fixes its history: if two journals, however they came
  about, pass the audit and agree on the last digest of a run, then they agree on the identity of
  the run and on every checkpoint of it with its payload, author and time, unless two different
  stored documents have the same digest.
\<close>

theorem last_digest_fixes_history:
  assumes "audit j w = (Inr (), w)" "audit j w' = (Inr (), w')"
    and "a \<in> set (jd_attempts (jw_db w))" "a' \<in> set (jd_attempts (jw_db w'))"
    and "map_option ck_checkpoint_sha256 (latest_checkpoint (jw_db w) (at_physical_run_id a)) =
         map_option ck_checkpoint_sha256 (latest_checkpoint (jw_db w') (at_physical_run_id a'))"
    and "collision_free j (journal_documents j (jw_db w) \<union> journal_documents j (jw_db w'))"
  shows "at_physical_run_id a = at_physical_run_id a' \<and> at_logical_execution_id a = at_logical_execution_id a' \<and>
    at_attempt_number a = at_attempt_number a' \<and>
    checkpoints_of (jw_db w) (at_physical_run_id a) = checkpoints_of (jw_db w') (at_physical_run_id a')"
proof -
  note chains = audited_chain [OF assms(1,3) Un_upper1] audited_chain [OF assms(2,4) Un_upper2]
  with assms(5) have "ck_checkpoint_sha256 (last (checkpoints_of (jw_db w) (at_physical_run_id a))) =
      ck_checkpoint_sha256 (last (checkpoints_of (jw_db w') (at_physical_run_id a')))"
    by (simp add: latest_checkpoint_def)
  from same_chain [OF assms(6) chains(1,3,2,4) this] show ?thesis unfolding same_attempt_def by blast
qed

end
