(* ===== verification/Recovery_Errors.thy ===== *)
theory Recovery_Errors
  imports Recovery_Reach
begin

text \<open>
  The errors that the operations of a session can raise on a reachable journal: refusals of the
  request and collisions of digests or run identifiers, never a failed audit, a failed assertion
  or an index out of range.
\<close>

definition raises_only :: "('e \<Rightarrow> bool) \<Rightarrow> ('w, 'e, 'a) operation \<Rightarrow> 'w \<Rightarrow> bool" where
  "raises_only P m w \<longleftrightarrow> (\<forall>e. fst (m w) = Inl e \<longrightarrow> P e)"

fun is_refusal :: "journal_error \<Rightarrow> bool" where
  "is_refusal (RecoveryConflict _) \<longleftrightarrow> True"
| "is_refusal SqlIntegrity \<longleftrightarrow> True"
| "is_refusal _ \<longleftrightarrow> False"

section \<open>Rules\<close>

lemma raises_only_bind [intro]:
  "raises_only P m w \<Longrightarrow> (\<And>x v. m w = (Inr x, v) \<Longrightarrow> raises_only P (f x) v) \<Longrightarrow> raises_only P (op_bind m f) w"
  by (auto simp: raises_only_def op_bind_def split: prod.splits sum.splits)

lemma raises_only_return [simp]: "raises_only P (op_return x) w"
  by (simp add: raises_only_def op_return_def)

lemma raises_only_lift [simp]: "raises_only P (op_lift r) w \<longleftrightarrow> (\<forall>e. r = Inl e \<longrightarrow> P e)"
  by (simp add: raises_only_def op_lift_def)

lemma raises_only_read [simp]: "raises_only P (read_db f) w \<longleftrightarrow> (\<forall>e. f (jw_db w) = Inl e \<longrightarrow> P e)"
  by (simp add: raises_only_def read_db_def)

lemma raises_only_change [simp]: "raises_only P (change_db f) w \<longleftrightarrow> (\<forall>e. f (jw_db w) = Inl e \<longrightarrow> P e)"
  by (auto simp: raises_only_def change_db_def split: sum.splits)

lemma raises_only_transaction [simp]: "raises_only P (transaction m) w \<longleftrightarrow> raises_only P m w"
  by (auto simp: raises_only_def transaction_def split: prod.splits sum.splits)

lemma raises_only_counters [simp]: "raises_only P (next_run_id j) w" "raises_only P (journal_stamp j) w"
  by (simp_all add: raises_only_def next_run_id_def journal_stamp_def)

section \<open>Errors of the parts\<close>

lemma ebind_raises: "ebind m f = Inl e \<longleftrightarrow> m = Inl e \<or> (\<exists>x. m = Inr x \<and> f x = Inl e)"
  by (cases m) simp_all

lemma refusals [simp]:
  "require_typed_prefix label v p = Inl e \<Longrightarrow> is_refusal e"
  "require_digest label v = Inl e \<Longrightarrow> is_refusal e"
  "canonical_bytes j doc = Inl e \<Longrightarrow> is_refusal e"
  "json_sha256 j doc = Inl e \<Longrightarrow> is_refusal e"
  "insert_checkpoint_row c db = Inl e \<Longrightarrow> is_refusal e"
  "insert_commit a manifest receipt db = Inl e \<Longrightarrow> is_refusal e"
  "conflict_on_integrity msg (insert_attempt_row b db) = Inl e \<Longrightarrow> is_refusal e"
  by (auto simp: require_typed_prefix_def require_identifier_def require_digest_def canonical_bytes_def json_sha256_def
      insert_checkpoint_row_def insert_commit_def insert_commit_row_def insert_attempt_row_def conflict_on_integrity_def
      ebind_raises       split: option.splits if_splits)

lemma commit_receipt_refusal:
  "commit_receipt j a state manifest = Inl e \<Longrightarrow> state = ''manifest-committed'' \<longrightarrow> manifest \<noteq> None \<Longrightarrow> is_refusal e"
  by (auto simp: commit_receipt_def ebind_raises split: if_splits option.splits)

lemma new_checkpoint_refusal:
  "new_checkpoint j a previous state bytes manifest receipt t = Inl e \<Longrightarrow> is_refusal e"
  by (auto simp: new_checkpoint_def Let_def ebind_raises)

lemma append_checkpoint_refusals:
  assumes "attempt_of (jw_db w) run = Some a" "state = ''manifest-committed'' \<longrightarrow> manifest \<noteq> None"
  shows "raises_only is_refusal (append_checkpoint j run state payload manifest) w"
  unfolding append_checkpoint_def
  using assms by (intro raises_only_bind)
    (auto split: option.splits simp: journal_stamp_def dest: commit_receipt_refusal new_checkpoint_refusal)

lemma inserted_attempt:
  "conflict_on_integrity msg (insert_attempt_row b db) = Inr db' \<Longrightarrow> attempt_of db' (at_physical_run_id b) = Some b"
  by (drule insert_attempt_row_Inr) (auto simp: attempt_of_def find_append find_None_iff [THEN iffD2])

lemma insert_attempt_refusals: "raises_only is_refusal (insert_attempt j l n purpose) w"
  unfolding insert_attempt_def
  by (intro raises_only_bind) (auto intro!: append_checkpoint_refusals dest!: inserted_attempt)

section \<open>Errors of the operations\<close>

lemma resume_attempt_refusals:
  assumes ok: "journal_ok j (jw_db w)" and ne: "attempts_of (jw_db w) l \<noteq> []" and none: "commit_of (jw_db w) l = None"
    and a: "a = last (attempts_of (jw_db w) l)"
  shows "raises_only is_refusal (resume_attempt j l a (last (checkpoints_of (jw_db w) (at_physical_run_id a)))) w"
proof -
  have rok: "run_ok j a (checkpoints_of (jw_db w) (at_physical_run_id a))"
    using journal_ok_run [OF ok] last_in_set [OF ne] a by simp
  have active: "at_disposition a = ''active''" using commit_of_NoneD [OF ok none ne] a by simp
  show ?thesis
    using checkpoint_state_known [OF rok] active
    by (auto simp: resume_attempt_def Let_def claim_attempt_def update_attempt_def recovery_action_for_stage_def
        intro!: raises_only_bind insert_attempt_refusals)
qed

lemma start_or_resume_refusals:
  assumes ok: "journal_ok j (jw_db w)"
  shows "raises_only is_refusal (start_or_resume j l) w"
proof -
  have audit: "audit_in_transaction j (jw_db w) = Inr ()" using ok by (simp add: journal_ok_def)
  show ?thesis
    using audit commit_of_SomeD(1) [OF ok, of l] resume_attempt_refusals [OF ok _ _ refl, of l]
    by (auto simp: start_or_resume_def latest_attempt_row_ok [OF ok] claim_attempt_def update_attempt_def
        split: option.splits if_splits intro!: raises_only_bind insert_attempt_refusals)
qed

lemma audited_payload: "audit_chain j a p cs = Inr () \<Longrightarrow> c \<in> set cs \<Longrightarrow> audit_payload j c = Inr ()"
  by (induction cs arbitrary: p) auto

lemma check_transition_refusal:
  assumes "check_transition latest state manifest = Inl e" "latest \<in> set CHECKPOINT_STATES"
  shows "is_refusal e"
proof -
  obtain i where "stage_index latest = Some i"
  proof (cases "stage_index latest")
    case None
    then have "\<forall>i < length CHECKPOINT_STATES. CHECKPOINT_STATES ! i \<noteq> latest" unfolding stage_index_def find_None_iff by auto
    with assms(2) show ?thesis by (auto simp: in_set_conv_nth)
  qed
  with assms(1) show ?thesis by (auto simp: check_transition_def ebind_raises split: if_splits option.splits)
qed

lemma check_transition_manifest:
  "check_transition latest state manifest = Inr () \<Longrightarrow> state = ''manifest-committed'' \<Longrightarrow> manifest \<noteq> None"
  by (auto simp: check_transition_def split: option.splits)

lemma checkpoint_refusals:
  assumes ok: "journal_ok s (jw_db w)"
  shows "raises_only is_refusal (checkpoint s run state payload manifest) w"
proof -
  have audit: "audit_in_transaction s (jw_db w) = Inr ()" using ok by (simp add: journal_ok_def)
  show ?thesis
  proof (cases "attempt_of (jw_db w) run")
    case None
    then show ?thesis using audit by (auto simp: checkpoint_def intro!: raises_only_bind)
  next
    case (Some a)
    note a = attempt_of_SomeD [OF Some]
    note rok = journal_ok_run [OF ok conjunct1 [OF a]] latest_checkpoint_ok [OF ok conjunct1 [OF a]]
    have "raises_only is_refusal (append_checkpoint s run state p manifest) w"
      if "check_transition (ck_state (last (checkpoints_of (jw_db w) run))) state manifest = Inr ()" for p
      using append_checkpoint_refusals [where j = s, OF Some] check_transition_manifest [OF that] by blast
    moreover have "is_refusal e"
      if "check_transition (ck_state (last (checkpoints_of (jw_db w) run))) state manifest = Inl e" for e
      using check_transition_refusal [OF that] checkpoint_state_known [OF rok(1)] a by simp
    ultimately show ?thesis
      using audit Some a rok(2)
      by (auto simp: checkpoint_def update_attempt_def intro!: raises_only_bind split: option.splits)
  qed
qed

lemma acknowledge_refusals:
  assumes ok: "journal_ok s (jw_db w)"
  shows "raises_only is_refusal (acknowledge s run) w"
proof -
  have audit: "audit_in_transaction s (jw_db w) = Inr ()" using ok by (simp add: journal_ok_def)
  show ?thesis
  proof (cases "attempt_of (jw_db w) run")
    case None
    then show ?thesis using audit by (auto simp: acknowledge_def intro!: raises_only_bind)
  next
    case (Some a)
    note a = attempt_of_SomeD [OF Some]
    note rok = journal_ok_run [OF ok conjunct1 [OF a]] latest_checkpoint_ok [OF ok conjunct1 [OF a]]
    have "at_disposition a = ''committed'' \<longrightarrow> ck_state (last (checkpoints_of (jw_db w) run)) \<in> set COMMITTED_STATES"
      using rok(1) a by (simp add: run_ok_def disposition_fits_def)
    with audit Some a rok(2) append_checkpoint_refusals [where j = s, OF Some] show ?thesis
      by (auto simp: acknowledge_def COMMITTED_STATES_def intro!: raises_only_bind split: option.splits)
  qed
qed

lemma latest_checkpoint_payload_refusals:
  assumes ok: "journal_ok s (jw_db w)"
  shows "raises_only is_refusal (latest_checkpoint_payload s run) w"
proof -
  have audit: "audit_in_transaction s (jw_db w) = Inr ()" using ok by (simp add: journal_ok_def)
  have "\<exists>fs. jn_loads s (ck_payload_json c) = Some (JObj fs)" if c: "latest_checkpoint (jw_db w) run = Some c" for c
  proof -
    from c have mem: "c \<in> set (checkpoints_of (jw_db w) run)" by (auto simp: latest_checkpoint_def simp del: set_checkpoints_of split: if_splits)
    then obtain a where a: "a \<in> set (jd_attempts (jw_db w))" "at_physical_run_id a = run"
      using ok by (auto simp: journal_ok_def keys_ok_def)
    have "audit_chain s a None (checkpoints_of (jw_db w) run) = Inr ()"
      using journal_ok_run [OF ok a(1)] a(2) by (simp add: run_ok_def)
    then have "audit_payload s c = Inr ()" using mem by (rule audited_payload)
    then show ?thesis by (auto simp: audit_payload_def split: option.splits json.splits)
  qed
  with audit show ?thesis
    by (fastforce simp: latest_checkpoint_payload_def audit_def intro!: raises_only_bind split: option.splits json.splits)
qed

text \<open>What a caller may meet: an answer, a named conflict, or a key collision from SQLite.\<close>

definition answers_or_refuses :: "(journal_error + 'a) \<Rightarrow> bool" where
  "answers_or_refuses r =
     (case r of
        Inr _ \<Rightarrow> True
      | Inl e \<Rightarrow> e = SqlIntegrity \<or> (\<exists>message. e = RecoveryConflict message))"

lemma raises_only_answers: "raises_only is_refusal m w \<Longrightarrow> answers_or_refuses (fst (m w))"
  unfolding raises_only_def answers_or_refuses_def
  by (cases "fst (m w)") (auto elim!: is_refusal.elims(2))

lemma payload_answer:
  assumes ok: "journal_ok s (jw_db w)"
  shows "case fst (latest_checkpoint_payload s run w) of
     Inr d \<Rightarrow> (\<exists>fs. d = JObj fs) \<and> run \<in> at_physical_run_id ` set (jd_attempts (jw_db w))
   | Inl e \<Rightarrow> (\<exists>message. e = RecoveryConflict message) \<and>
       (run \<in> at_physical_run_id ` set (jd_attempts (jw_db w)) \<longrightarrow>
          require_typed_prefix ''physical run ID'' run ''rcid:v1:physical-run:u7:'' = Inl e)"
proof (cases "require_typed_prefix ''physical run ID'' run ''rcid:v1:physical-run:u7:''")
  case (Inl e)
  then have "\<exists>message. e = RecoveryConflict message"
    by (auto simp: require_typed_prefix_def require_identifier_def ebind_raises split: if_splits)
  with Inl show ?thesis by (simp add: latest_checkpoint_payload_def op_bind_def op_lift_def)
next
  case (Inr u)
  have audit: "audit_in_transaction s (jw_db w) = Inr ()" using ok by (simp add: journal_ok_def)
  have run: "fst (latest_checkpoint_payload s run w) =
      (case latest_checkpoint (jw_db w) run of
         None \<Rightarrow> Inl (RecoveryConflict ''physical run is unknown'')
       | Some c \<Rightarrow> (case jn_loads s (ck_payload_json c) of Some (JObj fs) \<Rightarrow> Inr (JObj fs) | _ \<Rightarrow> Inl AssertionFailed))"
    using Inr audit by (simp add: latest_checkpoint_payload_def audit_def read_db_def op_bind_def op_lift_def)
  show ?thesis
  proof (cases "latest_checkpoint (jw_db w) run")
    case None
    then have "run \<notin> at_physical_run_id ` set (jd_attempts (jw_db w))"
      using latest_checkpoint_ok [OF ok] by auto
    with None run show ?thesis by auto
  next
    case (Some c)
    then have mem: "c \<in> set (checkpoints_of (jw_db w) run)"
      by (auto simp: latest_checkpoint_def simp del: set_checkpoints_of split: if_splits)
    then obtain a where a: "a \<in> set (jd_attempts (jw_db w))" "at_physical_run_id a = run"
      using ok by (auto simp: journal_ok_def keys_ok_def)
    have "raises_only is_refusal (latest_checkpoint_payload s run) w" by (rule latest_checkpoint_payload_refusals [OF ok])
    with run Some have "\<exists>fs. jn_loads s (ck_payload_json c) = Some (JObj fs)"
      by (auto simp: raises_only_def split: option.splits json.splits)
    with run Some a show ?thesis by auto
  qed
qed

text \<open>
  C39. On every journal that the sessions of a campaign can leave, with an encoder whose texts
  can be parsed and encoded again (\<open>encoder_ok\<close>, which payloads of this model's float-free
  documents obey; a float can break it), the operations of a session answer, refuse the request
  with a conflict named to the caller, or meet the collision of a key that SQLite reports: none
  meets a failed audit, an unknown state, an attempt without checkpoint or an index out of range.
  Reading the payload of a run answers an object for every run of the journal with a well-formed
  identifier, and refuses only an unknown run or a malformed identifier.
\<close>

theorem only_refusals:
  assumes "journal_reachable j w" "encoder_ok j" "same_campaign j s"
  shows "answers_or_refuses (fst (run_call s (StartOrResume l) w)) \<and>
     answers_or_refuses (fst (run_call s (Checkpoint run state payload manifest) w)) \<and>
     answers_or_refuses (fst (run_call s (Acknowledge run) w)) \<and>
     (case fst (latest_checkpoint_payload s run w) of
        Inr d \<Rightarrow> (\<exists>fs. d = JObj fs) \<and> run \<in> at_physical_run_id ` set (jd_attempts (jw_db w))
      | Inl e \<Rightarrow> (\<exists>message. e = RecoveryConflict message) \<and>
          (run \<in> at_physical_run_id ` set (jd_attempts (jw_db w)) \<longrightarrow>
             require_typed_prefix ''physical run ID'' run ''rcid:v1:physical-run:u7:'' = Inl e))"
proof -
  have ok: "journal_ok s (jw_db w)"
    using reachable_ok [OF assms(1,2)] journal_ok_session [OF assms(3)] by simp
  have "raises_only is_refusal (run_call s (StartOrResume l)) w"
    "raises_only is_refusal (run_call s (Checkpoint run state payload manifest)) w"
    "raises_only is_refusal (run_call s (Acknowledge run)) w"
    using start_or_resume_refusals [OF ok] checkpoint_refusals [OF ok] acknowledge_refusals [OF ok]
    by (auto intro!: raises_only_bind)
  from this [THEN raises_only_answers] payload_answer [OF ok] show ?thesis by (intro conjI)
qed

section \<open>Payloads outside the law of the encoder\<close>

lemma marked_run: "at_physical_run_id (mark run (\<lambda>a. a\<lparr>at_disposition := d\<rparr>) a) = at_physical_run_id a"
  by (simp add: mark_def)

lemma checkpoint_appended:
  assumes "checkpoint s run state (Some payload) manifest w = (Inr h, w')"
  obtains a c bytes where "a \<in> set (jd_attempts (jw_db w'))" "at_physical_run_id a = run"
    "c \<in> set (checkpoints_of (jw_db w') run)" "jn_canonical s (JObj payload) = Some bytes" "ck_payload_json c = jn_decode s bytes"
proof -
  obtain w1 where append: "append_checkpoint s run state payload manifest w = (Inr h, w1)"
    and after: "jd_checkpoints (jw_db w') = jd_checkpoints (jw_db w1)"
      "map at_physical_run_id (jd_attempts (jw_db w')) = map at_physical_run_id (jd_attempts (jw_db w1))"
    using assms by (auto simp: checkpoint_def update_attempt_mark marked_run split: option.splits if_splits)
  from append obtain a bytes receipt t c where new: "attempt_of (jw_db w) run = Some a" "jn_canonical s (JObj payload) = Some bytes"
    "new_checkpoint s a (latest_checkpoint (jw_db w) run) state bytes manifest receipt t = Inr c"
    and db: "if state = ''manifest-committed''
     then insert_commit a manifest receipt ((jw_db w)\<lparr>jd_checkpoints := jd_checkpoints (jw_db w) @ [c]\<rparr>) = Inr (jw_db w1)
     else jw_db w1 = (jw_db w)\<lparr>jd_checkpoints := jd_checkpoints (jw_db w) @ [c]\<rparr>" by (rule append_checkpoint_Inr)
  note a = attempt_of_SomeD [OF new(1)]
  have rows: "jd_checkpoints (jw_db w1) = jd_checkpoints (jw_db w) @ [c]" "jd_attempts (jw_db w1) = jd_attempts (jw_db w)"
    using db by (auto split: if_splits elim: insert_commit_Inr)
  have c: "ck_physical_run_id c = run" "ck_payload_json c = jn_decode s bytes"
    using new(3) a by (auto simp: new_checkpoint_def Let_def)
  have "run \<in> at_physical_run_id ` set (jd_attempts (jw_db w'))" using arg_cong [OF after(2), of set] rows(2) a by auto
  then obtain b where "b \<in> set (jd_attempts (jw_db w'))" "at_physical_run_id b = run" by auto
  moreover have "c \<in> set (checkpoints_of (jw_db w') run)" using after(1) rows(1) c(1) by simp
  ultimately show thesis using that new(2) c(2) by blast
qed

text \<open>
  A payload whose canonical text cannot be encoded again after parsing is accepted and committed,
  and from then on no session gets past the audit. RFC 8785 writes the float \<open>1e20\<close> as the
  integer \<open>100000000000000000000\<close>, which \<open>json.loads\<close> reads as an \<open>int\<close> beyond the safe range.
\<close>

lemma unencodable_payload_blocks:
  assumes "checkpoint s run state (Some payload) manifest w = (Inr h, w')"
    and "\<And>bytes v. jn_canonical s (JObj payload) = Some bytes \<Longrightarrow> jn_loads s (jn_decode s bytes) = Some v \<Longrightarrow> jn_canonical s v = None"
    and "same_campaign s t"
  shows "fst (audit t w') \<noteq> Inr () \<and> fst (start_or_resume t l w') \<noteq> Inr d"
proof -
  obtain a c bytes where c: "a \<in> set (jd_attempts (jw_db w'))" "at_physical_run_id a = run"
    "c \<in> set (checkpoints_of (jw_db w') run)" "jn_canonical s (JObj payload) = Some bytes" "ck_payload_json c = jn_decode s bytes"
    by (rule checkpoint_appended [OF assms(1)])
  have "audit_in_transaction s (jw_db w') \<noteq> Inr ()"
  proof
    assume "audit_in_transaction s (jw_db w') = Inr ()"
    with c(1,2) have "audit_chain s a None (checkpoints_of (jw_db w') run) = Inr ()"
      by (auto simp: audit_iff audit_attempt_iff run_ok_def)
    from audited_payload [OF this c(3)] c(4,5) assms(2) show False
      by (auto simp: audit_payload_def split: option.splits)
  qed
  then have "audit_in_transaction t (jw_db w') \<noteq> Inr ()" using audit_session [OF assms(3)] by simp
  then obtain e where "audit_in_transaction t (jw_db w') = Inl e" by (cases "audit_in_transaction t (jw_db w')") auto
  then show ?thesis by (simp add: audit_def read_db_def start_or_resume_def transaction_def op_bind_def op_lift_def)
qed

end
