(* ===== verification/Recovery_Witnesses.thy ===== *)
theory Recovery_Witnesses
  imports Recovery_Properties Recovery_Chain Recovery_Errors
begin

text \<open>
  A campaign of one logical execution, with small stand-ins for the encoder, SHA-256 and the
  text library that satisfy the laws, and the properties of the journal at concrete sequences of
  calls by two sessions: the first starts the execution, the second takes it over up to
  \<open>running\<close>, the first retries it and brings the new run to its commit.
\<close>

section \<open>The campaign\<close>

definition demo_number :: "string \<Rightarrow> (string \<times> json) list \<Rightarrow> nat" where
  "demo_number n fs = (case map_of fs n of Some (JInt i) \<Rightarrow> nat i | _ \<Rightarrow> 0)"

definition demo_canonical :: "json \<Rightarrow> nat list option" where
  "demo_canonical v =
     (case v of JObj fs \<Rightarrow> Some [demo_number ''checkpoint_ordinal'' fs, demo_number ''attempt_number'' fs] | _ \<Rightarrow> Some [])"

definition demo_text :: "nat list \<Rightarrow> string" where
  "demo_text ns = concat (map (\<lambda>n. replicate n (CHR ''x'') @ ''.'') ns)"

definition demo_loads :: "string \<Rightarrow> json option" where
  "demo_loads s =
     (let a = takeWhile (\<lambda>c. c = CHR ''x'') s; b = takeWhile (\<lambda>c. c = CHR ''x'') (drop (length a + 1) s) in
      Some (JObj [(''checkpoint_ordinal'', JInt (int (length a))), (''attempt_number'', JInt (int (length b)))]))"

definition demo_library :: text_library where
  "demo_library = \<lparr>tl_casefold = (\<lambda>s. s), tl_isalnum = is_alnum, tl_authorization_search = (\<lambda>_. False),
     tl_urlsplit = (\<lambda>_. None), tl_parse_qsl = (\<lambda>_. None)\<rparr>"

definition demo_hex :: string where
  "demo_hex = replicate 64 (CHR ''0'')"

definition demo_logical :: string where
  "demo_logical = ''rcid:v1:logical-execution:h:jcs-sha256-v1:'' @ demo_hex"

definition demo_run :: "nat \<Rightarrow> string" where
  "demo_run n = ''rcid:v1:physical-run:u7:00000000-0000-7000-8000-00000000000'' @ [''0123456789'' ! n]"

definition demo_session :: "string \<Rightarrow> journal" where
  "demo_session name = \<lparr>jn_campaign_manifest_id = ''rcid:v1:campaign-manifest:h:jcs-sha256-v1:'' @ demo_hex,
     jn_logical_execution_ids = [demo_logical], jn_controller_session_id = name, jn_run_ids = demo_run,
     jn_now = (\<lambda>n. int n * 1000000), jn_canonical = demo_canonical, jn_decode = demo_text, jn_loads = demo_loads,
     jn_sha256 = demo_text, jn_text = demo_library\<rparr>"

text \<open>The journal after \<open>k\<close> checkpoints of the first run.\<close>

definition demo_digest :: "nat \<Rightarrow> string" where
  "demo_digest k = demo_text [k, 1]"

definition demo_receipt :: string where
  "demo_receipt = demo_text [0, 0]"

definition demo_manifest :: "nat \<Rightarrow> string option" where
  "demo_manifest k = (if k = 9 then Some demo_hex else None)"

definition demo_row :: "nat \<Rightarrow> checkpoint_row" where
  "demo_row k = \<lparr>ck_physical_run_id = demo_run 0, ck_ordinal = int k, ck_state = CHECKPOINT_STATES ! (k - 1),
     ck_payload_json = demo_text [0, if k = 1 then 1 else 0], ck_payload_sha256 = demo_text [0, if k = 1 then 1 else 0],
     ck_manifest_sha256 = demo_manifest k, ck_commit_receipt_sha256 = (if k = 9 then Some demo_receipt else None),
     ck_previous_checkpoint_sha256 = (if k = 1 then None else Some (demo_digest (k - 1))),
     ck_checkpoint_sha256 = demo_digest k, ck_controller_session_id = ''first'', ck_recorded_at = Aware (int k * 1000000)\<rparr>"

definition demo_attempt :: "nat \<Rightarrow> attempt_row" where
  "demo_attempt k = \<lparr>at_physical_run_id = demo_run 0, at_logical_execution_id = demo_logical, at_attempt_number = 1,
     at_purpose = ''initial'', at_disposition = (if k < 9 then ''active'' else ''committed''),
     at_owner_session_id = ''first'', at_created_at = Aware 0\<rparr>"

definition demo_commit :: commit_row where
  "demo_commit = \<lparr>lc_logical_execution_id = demo_logical, lc_physical_run_id = demo_run 0,
     lc_manifest_sha256 = demo_hex, lc_commit_receipt_sha256 = demo_receipt\<rparr>"

definition demo_world :: "nat \<Rightarrow> journal_world" where
  "demo_world k = \<lparr>jw_db = \<lparr>
       jd_metadata = [(''campaign_manifest_id'', ''rcid:v1:campaign-manifest:h:jcs-sha256-v1:'' @ demo_hex),
         (''logical_plan_sha256'', []), (''schema_version'', ''1'')],
       jd_attempts = (if k = 0 then [] else [demo_attempt k]), jd_checkpoints = map demo_row [1..<k + 1],
       jd_commits = (if k < 9 then [] else [demo_commit])\<rparr>,
     jw_runs = (if k = 0 then 0 else 1), jw_ticks = (if k = 0 then 0 else k + 1)\<rparr>"

section \<open>Its laws\<close>

lemma demo_campaign [simp]: "same_campaign (demo_session s) (demo_session t)"
  by (simp add: same_campaign_def demo_session_def)

lemma demo_encoder [simp]: "encoder_ok (demo_session s)"
  by (simp add: encoder_ok_def demo_session_def demo_canonical_def demo_loads_def demo_text_def demo_number_def Let_def
      takeWhile_tail takeWhile_append)

section \<open>The calls\<close>

lemma demo_opened:
  "open_journal (demo_session ''first'') \<lparr>jw_db = empty_db, jw_runs = 0, jw_ticks = 0\<rparr> = (Inr (), demo_world 0)"
  by code_simp

lemma demo_started: "run_call (demo_session ''first'') (StartOrResume demo_logical) (demo_world 0) = (Inr (), demo_world 1)"
  by code_simp

lemma demo_appended:
  "list_all (\<lambda>k. append_checkpoint (demo_session ''first'') (demo_run 0) (CHECKPOINT_STATES ! k) [] None (demo_world k) =
     (Inr (demo_digest (k + 1)), demo_world (k + 1))) [1..<8]"
  by code_simp

lemma demo_appended_commit:
  "append_checkpoint (demo_session ''first'') (demo_run 0) ''manifest-committed'' [] (Some demo_hex) (demo_world 8) =
     (Inr (demo_digest 9), (demo_world 9)\<lparr>jw_db := (jw_db (demo_world 9))\<lparr>jd_attempts := [demo_attempt 8]\<rparr>\<rparr>)"
  by code_simp

text \<open>A checkpoint by the owner of a live run goes through when the row can be appended.\<close>

lemma checkpoint_goes_through:
  assumes "journal_ok s (jw_db w)" "require_typed_prefix ''physical run ID'' run ''rcid:v1:physical-run:u7:'' = Inr ()"
    and "attempt_of (jw_db w) run = Some a" "at_owner_session_id a = jn_controller_session_id s" "at_disposition a = ''active''"
    and "latest_checkpoint (jw_db w) run = Some c" "check_transition (ck_state c) state manifest = Inr ()"
    and "append_checkpoint s run state [] manifest w = (Inr h, w1)"
  shows "run_call s (Checkpoint run state None manifest) w = (Inr (),
    if state = ''manifest-committed''
    then w1\<lparr>jw_db := (jw_db w1)\<lparr>jd_attempts := map (mark run (\<lambda>a. a\<lparr>at_disposition := ''committed''\<rparr>)) (jd_attempts (jw_db w1))\<rparr>\<rparr>
    else w1)"
  using assms by (auto simp: op_ignore_eq checkpoint_def journal_ok_def update_attempt_mark)

lemma demo_run_valid: "require_typed_prefix ''physical run ID'' (demo_run 0) ''rcid:v1:physical-run:u7:'' = Inr ()"
  by code_simp

lemma demo_transitions:
  "list_all (\<lambda>k. check_transition (CHECKPOINT_STATES ! (k - 1)) (CHECKPOINT_STATES ! k) (demo_manifest (k + 1)) = Inr ()) [1..<9]"
  by code_simp

lemma demo_rows: "1 \<le> k \<Longrightarrow> checkpoints_of (jw_db (demo_world k)) (demo_run 0) = map demo_row [1..<k + 1]"
proof -
  have "filter (\<lambda>c. ck_physical_run_id c = demo_run 0) (map demo_row [1..<k + 1]) = map demo_row [1..<k + 1]"
    by (auto simp: filter_id_conv demo_row_def simp del: upt_Suc)
  moreover have "sort_key ck_ordinal (map demo_row [1..<k + 1]) = map demo_row [1..<k + 1]"
    by (intro sort_key_id_if_sorted) (simp add: comp_def demo_row_def sorted_wrt_map del: upt_Suc)
  ultimately show ?thesis by (simp add: checkpoints_of_def demo_world_def del: upt_Suc)
qed

lemma demo_latest: "1 \<le> k \<Longrightarrow> latest_checkpoint (jw_db (demo_world k)) (demo_run 0) = Some (demo_row k)"
  by (simp add: latest_checkpoint_def demo_rows)

lemma demo_attempt_of: "1 \<le> k \<Longrightarrow> attempt_of (jw_db (demo_world k)) (demo_run 0) = Some (demo_attempt k)"
  by (simp add: attempt_of_def demo_world_def demo_attempt_def)

lemma demo_states: "list_all (\<lambda>k. CHECKPOINT_STATES ! k \<noteq> ''manifest-committed'') [1..<8]"
    "CHECKPOINT_STATES ! 8 = ''manifest-committed''"
  by code_simp+

lemma demo_checkpoint:
  assumes ok: "journal_ok (demo_session ''first'') (jw_db (demo_world k))" and k: "1 \<le> k" "k \<le> 8"
  shows "run_call (demo_session ''first'') (Checkpoint (demo_run 0) (CHECKPOINT_STATES ! k) None (demo_manifest (k + 1)))
    (demo_world k) = (Inr (), demo_world (k + 1))"
proof -
  let ?s = "demo_session ''first''"
  have owner: "at_owner_session_id (demo_attempt k) = jn_controller_session_id ?s" "at_disposition (demo_attempt k) = ''active''"
    using k by (simp_all add: demo_attempt_def demo_session_def)
  have transition: "check_transition (ck_state (demo_row k)) (CHECKPOINT_STATES ! k) (demo_manifest (k + 1)) = Inr ()"
    using k demo_transitions by (simp add: list_all_iff demo_row_def)
  note goes_through = checkpoint_goes_through [OF ok demo_run_valid demo_attempt_of [OF k(1)] owner demo_latest [OF k(1)] transition]
  show ?thesis
  proof (cases "k = 8")
    case False
    with k demo_appended have "append_checkpoint ?s (demo_run 0) (CHECKPOINT_STATES ! k) [] (demo_manifest (k + 1)) (demo_world k) =
        (Inr (demo_digest (k + 1)), demo_world (k + 1))"
      by (simp add: list_all_iff demo_manifest_def)
    from goes_through [OF this] k False demo_states(1) show ?thesis by (simp add: list_all_iff)
  next
    case True
    have "append_checkpoint ?s (demo_run 0) (CHECKPOINT_STATES ! k) [] (demo_manifest (k + 1)) (demo_world k) =
        (Inr (demo_digest 9), (demo_world 9)\<lparr>jw_db := (jw_db (demo_world 9))\<lparr>jd_attempts := [demo_attempt 8]\<rparr>\<rparr>)"
      using demo_appended_commit by (simp add: True demo_states(2) demo_manifest_def)
    from goes_through [OF this] show ?thesis
      by (simp add: True demo_states(2) demo_world_def mark_def demo_attempt_def del: upt_Suc)
  qed
qed

lemma demo_reachable: "k \<le> 9 \<Longrightarrow> journal_reachable (demo_session ''first'') (demo_world k)"
proof (induction k)
  case 0
  show ?case by (rule journal_reachable.opened [OF _ demo_opened]) simp
next
  case (Suc k)
  then have reach: "journal_reachable (demo_session ''first'') (demo_world k)" by simp
  show ?case
  proof (cases k)
    case 0
    with demo_started journal_step.called [OF demo_campaign] journal_reachable.stepped [OF reach] show ?thesis by fastforce
  next
    case (Suc m)
    with demo_checkpoint [OF reachable_ok [OF reach demo_encoder]] \<open>Suc k \<le> 9\<close>
      journal_step.called [OF demo_campaign] journal_reachable.stepped [OF reach] show ?thesis by fastforce
  qed
qed

section \<open>Witnesses\<close>

lemma demo_ok: "k \<le> 9 \<Longrightarrow> journal_ok (demo_session ''first'') (jw_db (demo_world k))"
  using reachable_ok [OF demo_reachable demo_encoder] .

lemma reachable_journal_audits_witness:
  "audit (demo_session ''second'') (demo_world 9) = (Inr (), demo_world 9) \<and> length (jd_checkpoints (jw_db (demo_world 9))) = 9 \<and>
     jd_commits (jw_db (demo_world 9)) = [demo_commit]"
  using reachable_journal_audits [of "demo_session ''first''" "demo_world 9" "demo_session ''second''", OF demo_reachable demo_encoder demo_campaign]
  by (simp add: demo_world_def)

text \<open>The second session restarts after \<open>running\<close>.\<close>

definition demo_retry :: recovery_decision where
  "demo_retry = decision ''retry'' demo_logical (demo_run 1) 2 ''leased'' ''interrupted-target-invocation''"

definition demo_retried :: journal_world where
  "demo_retried = snd (start_or_resume (demo_session ''second'') demo_logical (demo_world 3))"

lemma demo_retries: "fst (start_or_resume (demo_session ''second'') demo_logical (demo_world 3)) = Inr demo_retry"
  by code_simp

lemma demo_restart: "start_or_resume (demo_session ''second'') demo_logical (demo_world 3) = (Inr demo_retry, demo_retried)"
  using demo_retries by (simp add: demo_retried_def prod_eq_iff)

lemma demo_attempts: "attempts_of (jw_db (demo_world 3)) demo_logical = [demo_attempt 3]"
  by (simp add: attempts_of_def demo_world_def demo_attempt_def)

lemma journal_refines_attempts_witness:
  "attempt_step ''second'' (runs_of (jw_db (demo_world 3)) demo_logical) (runs_of (jw_db demo_retried) demo_logical) \<or>
     runs_of (jw_db demo_retried) demo_logical = runs_of (jw_db (demo_world 3)) demo_logical"
proof -
  have "run_call (demo_session ''second'') (StartOrResume demo_logical) (demo_world 3) = (Inr (), demo_retried)"
    using demo_restart by (auto simp: op_ignore_eq)
  from journal_refines_attempts [OF demo_reachable demo_encoder demo_campaign this] show ?thesis
    by (simp add: demo_session_def) metis
qed

lemma restart_follows_report_witness:
  "\<exists>requires_new. (''restart-after-'' @ ''running'', rd_action demo_retry, Some ''running'', \<not> requires_new, requires_new) \<in> set report_cases \<and>
    (if requires_new then rd_physical_run_id demo_retry \<noteq> Some (at_physical_run_id (demo_attempt 3)) \<and> rd_resume_state demo_retry = Some ''leased''
     else rd_physical_run_id demo_retry = Some (at_physical_run_id (demo_attempt 3)) \<and> rd_resume_state demo_retry = Some ''running'')"
proof (rule restart_follows_report [OF demo_reachable demo_encoder demo_campaign _ _ _ _ demo_restart])
  show "''running'' = ck_state (last (checkpoints_of (jw_db (demo_world 3)) (at_physical_run_id (demo_attempt 3))))"
    using demo_rows [of 3] by (simp add: demo_attempt_def demo_row_def CHECKPOINT_STATES_def upt_rec)
qed (simp_all add: demo_attempts demo_attempt_def demo_session_def)

lemma commits_are_final_witness:
  "commit_of (jw_db (snd (run_call (demo_session ''second'') (StartOrResume demo_logical) (demo_world 9)))) demo_logical = Some demo_commit"
proof -
  have "(journal_step (demo_session ''first''))\<^sup>*\<^sup>* (demo_world 9)
      (snd (run_call (demo_session ''second'') (StartOrResume demo_logical) (demo_world 9)))"
    using journal_step.called [OF demo_campaign surjective_pairing] by (intro r_into_rtranclp)
  moreover have "commit_of (jw_db (demo_world 9)) demo_logical = Some demo_commit"
    by (simp add: commit_of_def demo_world_def demo_commit_def)
  ultimately show ?thesis using commits_are_final [OF demo_reachable [OF order_refl] demo_encoder] by blast
qed

text \<open>A skipped state is refused.\<close>

lemma demo_refused:
  "fst (run_call (demo_session ''first'') (Checkpoint (demo_run 0) ''running'' None None) (demo_world 1)) =
     Inl (RecoveryConflict ''checkpoint transition is not the exact next D090 state'')"
  by code_simp

text \<open>
  Whatever payload and manifest the caller gives, the next checkpoint of the first run is taken or
  refused; a skipped state is refused; the payload of the committed run is read by another session.
\<close>

lemma only_refusals_witness:
  "(\<forall>payload manifest. answers_or_refuses
      (fst (run_call (demo_session ''first'') (Checkpoint (demo_run 0) ''environment-ready'' payload manifest) (demo_world 1)))) \<and>
   (\<exists>message. fst (run_call (demo_session ''first'') (Checkpoint (demo_run 0) ''running'' None None) (demo_world 1)) =
      Inl (RecoveryConflict message)) \<and>
   (\<exists>fs. fst (latest_checkpoint_payload (demo_session ''second'') (demo_run 0) (demo_world 9)) = Inr (JObj fs))"
proof (intro conjI allI)
  fix payload manifest
  show "answers_or_refuses
      (fst (run_call (demo_session ''first'') (Checkpoint (demo_run 0) ''environment-ready'' payload manifest) (demo_world 1)))"
    using only_refusals [OF demo_reachable demo_encoder demo_campaign] by simp
next
  show "\<exists>message. fst (run_call (demo_session ''first'') (Checkpoint (demo_run 0) ''running'' None None) (demo_world 1)) =
      Inl (RecoveryConflict message)"
    using demo_refused by blast
next
  have "demo_run 0 \<in> at_physical_run_id ` set (jd_attempts (jw_db (demo_world 9)))"
    by (simp add: demo_world_def demo_attempt_def)
  moreover have "case fst (latest_checkpoint_payload (demo_session ''second'') (demo_run 0) (demo_world 9)) of
        Inr d \<Rightarrow> (\<exists>fs. d = JObj fs) \<and> demo_run 0 \<in> at_physical_run_id ` set (jd_attempts (jw_db (demo_world 9)))
      | Inl e \<Rightarrow> (\<exists>message. e = RecoveryConflict message) \<and>
          (demo_run 0 \<in> at_physical_run_id ` set (jd_attempts (jw_db (demo_world 9))) \<longrightarrow>
             require_typed_prefix ''physical run ID'' (demo_run 0) ''rcid:v1:physical-run:u7:'' = Inl e)"
    using only_refusals [OF demo_reachable [OF order_refl] demo_encoder demo_campaign] by blast
  ultimately show "\<exists>fs. fst (latest_checkpoint_payload (demo_session ''second'') (demo_run 0) (demo_world 9)) = Inr (JObj fs)"
    using demo_run_valid by (auto split: sum.splits)
qed

text \<open>The second session has claimed the run of the same journal.\<close>

definition demo_claimed :: journal_world where
  "demo_claimed = (demo_world 1)\<lparr>jw_db := (jw_db (demo_world 1))\<lparr>jd_attempts :=
     [(demo_attempt 1)\<lparr>at_owner_session_id := ''second''\<rparr>]\<rparr>\<rparr>"

lemma demo_claimed_audit: "fst (audit (demo_session ''first'') demo_claimed) = Inr ()"
  by code_simp

definition demo_documents :: "json list" where
  "demo_documents = [checkpoint_body (demo_session ''first'') (demo_attempt 1) None (demo_row 1), the (demo_loads (demo_text [0, 1]))]"

lemma demo_documents:
  "journal_documents (demo_session ''first'') (jw_db (demo_world 1)) = set demo_documents"
  "journal_documents (demo_session ''first'') (jw_db demo_claimed) = set demo_documents"
  by (auto simp: journal_documents_def demo_documents_def demo_claimed_def demo_world_def demo_attempt_def demo_row_def
      checkpoints_of_def checkpoint_body_def demo_session_def demo_loads_def Let_def)

lemma demo_digests: "map (json_sha256 (demo_session ''first'')) demo_documents = [Inr (demo_text [1, 1]), Inr (demo_text [0, 1])]"
  "demo_text [1, 1] \<noteq> demo_text [0, 1]"
  by code_simp+

lemma demo_collisions: "collision_free (demo_session ''first'') (set demo_documents)"
  using demo_digests by (auto simp: collision_free_def demo_documents_def)

lemma last_digest_fixes_history_witness:
  "checkpoints_of (jw_db (demo_world 1)) (demo_run 0) = checkpoints_of (jw_db demo_claimed) (demo_run 0) \<and>
     attempts_of (jw_db (demo_world 1)) demo_logical \<noteq> attempts_of (jw_db demo_claimed) demo_logical"
proof -
  let ?s = "demo_session ''first''" and ?b = "(demo_attempt 1)\<lparr>at_owner_session_id := ''second''\<rparr>"
  have audits: "audit ?s (demo_world 1) = (Inr (), demo_world 1)" "audit ?s demo_claimed = (Inr (), demo_claimed)"
    using demo_ok [of 1] demo_claimed_audit by (simp_all add: audit_def journal_ok_def read_db_def)
  have rows: "demo_attempt 1 \<in> set (jd_attempts (jw_db (demo_world 1)))" "?b \<in> set (jd_attempts (jw_db demo_claimed))"
    by (simp_all add: demo_claimed_def demo_world_def)
  have last: "map_option ck_checkpoint_sha256 (latest_checkpoint (jw_db (demo_world 1)) (at_physical_run_id (demo_attempt 1))) =
      map_option ck_checkpoint_sha256 (latest_checkpoint (jw_db demo_claimed) (at_physical_run_id ?b))"
    by (simp add: latest_checkpoint_def checkpoints_of_def demo_claimed_def demo_attempt_def)
  have "checkpoints_of (jw_db (demo_world 1)) (demo_run 0) = checkpoints_of (jw_db demo_claimed) (demo_run 0)"
    using last_digest_fixes_history [OF audits rows last] demo_collisions demo_documents by (simp add: demo_attempt_def)
  then show ?thesis by (simp add: attempts_of_def demo_claimed_def demo_world_def demo_attempt_def)
qed

end
