(* ===== verification/Sharding.thy ===== *)
theory Sharding
  imports Prelude
begin

text \<open>
  \<open>shard_by_selection_locality\<close> of \<open>scheduler/.../sharding.py\<close>: logical executions are grouped
  by selection key, cut into slices of bounded size and identified by a hash of their content.
  The identity function is a parameter.
\<close>

section \<open>The code\<close>

record logical_item =
  li_logical_execution_id :: string
  li_selection_key :: string

record shard =
  sh_shard_id :: string
  sh_logical_execution_ids :: "string list"
  sh_selection_key :: string

text \<open>The slices \<open>members[offset : offset + width]\<close> for \<open>offset in range(0, len(members), width)\<close>.\<close>

function slices :: "nat \<Rightarrow> 'a list \<Rightarrow> 'a list list" where
  "slices width xs = (if xs = [] \<or> width = 0 then [] else take width xs # slices width (drop width xs))"
  by pat_completeness auto
termination by (relation "measure (\<lambda>(width, xs). length xs)") auto

declare slices.simps [simp del]

definition shard_body :: "string \<Rightarrow> string list \<Rightarrow> json" where
  "shard_body selection_key ids = JObj [(''logical_execution_ids'', JArr (map JStr ids)), (''selection_key'', JStr selection_key)]"

definition selection_members :: "logical_item list \<Rightarrow> string \<Rightarrow> string list" where
  "selection_members items key = sort (map li_logical_execution_id (filter (\<lambda>i. li_selection_key i = key) items))"

definition selection_shards :: "(json \<Rightarrow> string) \<Rightarrow> nat \<Rightarrow> logical_item list \<Rightarrow> string \<Rightarrow> shard list" where
  "selection_shards identity width items key =
     map (\<lambda>ids. \<lparr>sh_shard_id = identity (shard_body key ids), sh_logical_execution_ids = ids, sh_selection_key = key\<rparr>)
       (slices width (selection_members items key))"

definition shard_by_selection_locality :: "logical_item list \<Rightarrow> int \<Rightarrow> (json \<Rightarrow> string) \<Rightarrow> shard list result" where
  "shard_by_selection_locality items maximum_size identity =
     (if maximum_size < 1 then Inl (ValueError ''maximum shard size must be a positive integer'')
      else Inr (sort_key sh_shard_id (concat (map (selection_shards identity (nat maximum_size) items)
             (sort (remdups (map li_selection_key items)))))))"

section \<open>Slices\<close>

lemma slices_nonempty: "width > 0 \<Longrightarrow> xs \<noteq> [] \<Longrightarrow> slices width xs = take width xs # slices width (drop width xs)"
  by (subst slices.simps) simp

lemma slices_empty [simp]: "slices width [] = []"
  by (subst slices.simps) simp

lemma concat_slices: "width > 0 \<Longrightarrow> concat (slices width xs) = xs"
proof (induction width xs rule: slices.induct)
  case (1 width xs)
  then show ?case by (cases "xs = []") (simp_all add: slices_nonempty)
qed

lemma slices_sizes: "ys \<in> set (slices width xs) \<Longrightarrow> ys \<noteq> [] \<and> length ys \<le> width"
proof (induction width xs rule: slices.induct)
  case (1 width xs)
  then show ?case by (subst (asm) (2) slices.simps) (auto split: if_splits)
qed

lemma div_step: "0 < (d :: nat) \<Longrightarrow> (n + d) div d = Suc (n div d)"
  by (metis add.commute div_add_self1 Suc_eq_plus1 less_numeral_extra(3))

lemma slices_count:
  assumes "width > 0"
  shows "length (slices width xs) = (length xs + width - 1) div width"
  using assms
proof (induction width xs rule: slices.induct)
  case (1 width xs)
  show ?case
  proof (cases "xs = []")
    case False
    have step: "length (slices width xs) = Suc ((length xs - width + width - 1) div width)"
      using 1 False by (subst slices_nonempty) simp_all
    have ne: "0 < length xs" using False by simp
    show ?thesis
    proof (cases "length xs \<le> width")
      case True
      have e: "length xs + width - 1 = (length xs - 1) + width" using ne by linarith
      have "((length xs - 1) + width) div width = Suc ((length xs - 1) div width)" by (rule div_step [OF 1(2)])
      moreover have "(length xs - 1) div width = 0" "(length xs - width + width - 1) div width = 0" using True ne 1(2) by simp_all
      ultimately show ?thesis using step e by (simp only:)
    next
      case False
      have e: "length xs + width - 1 = (length xs - width + width - 1) + width" using False 1(2) by linarith
      have "((length xs - width + width - 1) + width) div width = Suc ((length xs - width + width - 1) div width)"
        by (rule div_step [OF 1(2)])
      with step e show ?thesis by (simp only:)
    qed
  qed (use 1(2) in simp)
qed

lemma slices_sorted: "sorted xs \<Longrightarrow> ys \<in> set (slices width xs) \<Longrightarrow> sorted ys"
proof (induction width xs rule: slices.induct)
  case (1 width xs)
  then show ?case by (subst (asm) (2) slices.simps) (auto simp: sorted_wrt_take sorted_wrt_drop split: if_splits)
qed

section \<open>Properties\<close>

text \<open>The executions of a shard, as pairs of selection key and identifier.\<close>

definition shard_members :: "shard \<Rightarrow> (string \<times> string) list" where
  "shard_members s = map (Pair (sh_selection_key s)) (sh_logical_execution_ids s)"

lemma selection_shards_members:
  assumes "width > 0"
  shows "mset (concat (map shard_members (selection_shards identity width items key))) =
     mset (map (\<lambda>i. (li_selection_key i, li_logical_execution_id i)) (filter (\<lambda>i. li_selection_key i = key) items))"
proof -
  have "concat (map shard_members (selection_shards identity width items key)) =
      map (Pair key) (concat (slices width (selection_members items key)))"
    by (simp add: selection_shards_def shard_members_def comp_def map_concat)
  also have "\<dots> = map (Pair key) (selection_members items key)" by (simp only: concat_slices [OF assms])
  finally have "mset (concat (map shard_members (selection_shards identity width items key))) =
      image_mset (Pair key) (mset (map li_logical_execution_id (filter (\<lambda>i. li_selection_key i = key) items)))"
    by (simp add: selection_members_def)
  also have "\<dots> = mset (map (Pair key \<circ> li_logical_execution_id) (filter (\<lambda>i. li_selection_key i = key) items))" by (simp add: multiset.map_comp)
  also have "map (Pair key \<circ> li_logical_execution_id) (filter (\<lambda>i. li_selection_key i = key) items) =
      map (\<lambda>i. (li_selection_key i, li_logical_execution_id i)) (filter (\<lambda>i. li_selection_key i = key) items)" by simp
  finally show ?thesis .
qed

lemma sum_list_none: "k' \<notin> set ks \<Longrightarrow> (\<Sum>k \<leftarrow> ks. if k' = k then {#y#} else {#}) = {#}"
  by (induction ks) auto

lemma sum_list_single: "distinct ks \<Longrightarrow> k' \<in> set ks \<Longrightarrow> (\<Sum>k \<leftarrow> ks. if k' = k then {#y#} else {#}) = {#y#}"
proof (induction ks)
  case (Cons k ks)
  then show ?case using sum_list_none [of k' ks y] by (cases "k' = k") simp_all
qed simp

lemma mset_by_key:
  assumes "distinct ks" and "\<forall>x \<in> set xs. f x \<in> set ks"
  shows "(\<Sum>k \<leftarrow> ks. mset (map g (filter (\<lambda>x. f x = k) xs))) = mset (map g xs)"
  using assms(2)
proof (induction xs)
  case Nil
  then show ?case by (induction ks) simp_all
next
  case (Cons x xs)
  have "(\<Sum>k \<leftarrow> ks. mset (map g (filter (\<lambda>y. f y = k) (x # xs)))) =
      (\<Sum>k \<leftarrow> ks. (if f x = k then {#g x#} else {#}) + mset (map g (filter (\<lambda>y. f y = k) xs)))"
    by (intro arg_cong [of _ _ sum_list] map_cong) auto
  also have "\<dots> = (\<Sum>k \<leftarrow> ks. if f x = k then {#g x#} else {#}) + mset (map g xs)"
    using Cons by (simp add: sum_list_addf)
  also have "(\<Sum>k \<leftarrow> ks. if f x = k then {#g x#} else {#}) = {#g x#}"
    by (rule sum_list_single) (use assms(1) Cons.prems in auto)
  finally show ?case by simp
qed

lemma mset_concat_map: "mset (concat (map f xs)) = (\<Sum>x \<leftarrow> xs. mset (f x))"
  by (induction xs) simp_all

lemma mset_concat_sort: "mset (concat (map f (sort_key k xs))) = mset (concat (map f xs))"
proof -
  have "mset (map (mset \<circ> f) (sort_key k xs)) = mset (map (mset \<circ> f) xs)" by simp
  then have "sum_mset (mset (map (mset \<circ> f) (sort_key k xs))) = sum_mset (mset (map (mset \<circ> f) xs))" by (rule arg_cong)
  then show ?thesis unfolding mset_concat_map sum_mset_sum_list comp_def .
qed

lemma concat_of_concats: "concat (map f (concat (map g xs))) = concat (map (\<lambda>x. concat (map f (g x))) xs)"
  by (induction xs) simp_all

lemma shards_members:
  assumes "shard_by_selection_locality items maximum_size identity = Inr shards"
  shows "mset (concat (map shard_members shards)) = mset (map (\<lambda>i. (li_selection_key i, li_logical_execution_id i)) items)"
proof -
  let ?ks = "sort (remdups (map li_selection_key items))"
  let ?s = "selection_shards identity (nat maximum_size) items"
  from assms have pos: "nat maximum_size > 0" and s: "shards = sort_key sh_shard_id (concat (map ?s ?ks))"
    by (auto simp: shard_by_selection_locality_def split: if_splits)
  have "mset (concat (map shard_members shards)) = mset (concat (map (\<lambda>k. concat (map shard_members (?s k))) ?ks))"
    unfolding s mset_concat_sort concat_of_concats ..
  also have "\<dots> = (\<Sum>k \<leftarrow> ?ks. mset (map (\<lambda>i. (li_selection_key i, li_logical_execution_id i)) (filter (\<lambda>i. li_selection_key i = k) items)))"
    by (simp only: mset_concat_map [where f = "\<lambda>k. concat (map shard_members (?s k))"] selection_shards_members [OF pos])
  also have "\<dots> = mset (map (\<lambda>i. (li_selection_key i, li_logical_execution_id i)) items)"
    by (rule mset_by_key) auto
  finally show ?thesis .
qed

lemma shard_of_selection:
  assumes "s \<in> set (selection_shards identity width items key)"
  shows "sh_selection_key s = key" "sh_shard_id s = identity (shard_body key (sh_logical_execution_ids s))"
    "sh_logical_execution_ids s \<noteq> []" "length (sh_logical_execution_ids s) \<le> width" "sorted (sh_logical_execution_ids s)"
proof -
  from assms obtain ids where ids: "ids \<in> set (slices width (selection_members items key))"
    and s: "s = \<lparr>sh_shard_id = identity (shard_body key ids), sh_logical_execution_ids = ids, sh_selection_key = key\<rparr>"
    by (auto simp: selection_shards_def)
  show "sh_selection_key s = key" "sh_shard_id s = identity (shard_body key (sh_logical_execution_ids s))" using s by simp_all
  from slices_sizes [OF ids] s show "sh_logical_execution_ids s \<noteq> []" "length (sh_logical_execution_ids s) \<le> width" by simp_all
  show "sorted (sh_logical_execution_ids s)" using slices_sorted [OF _ ids] s by (simp add: selection_members_def)
qed

text \<open>
  C30. Sharding partitions the logical executions: reassembling the shards gives every
  execution back, exactly as often as it was given and under its selection key, whatever the
  identity function; an execution is neither lost nor run twice.
\<close>

theorem shards_reassemble:
  assumes "shard_by_selection_locality items maximum_size identity = Inr shards"
  shows "mset (concat (map shard_members shards)) = mset (map (\<lambda>i. (li_selection_key i, li_logical_execution_id i)) items)"
  by (rule shards_members [OF assms])

text \<open>
  C31. Shards are bounded and as few as the bound allows: each holds between one and the
  maximum number of executions, all of one selection key and in order, its identifier is the
  identity of exactly this content, and the number of shards is the sum over the selection keys
  of the executions of the key divided by the maximum, rounded up.
\<close>

theorem shards_bounded:
  assumes run: "shard_by_selection_locality items maximum_size identity = Inr shards"
  shows "(\<forall>s \<in> set shards. 1 \<le> length (sh_logical_execution_ids s) \<and> int (length (sh_logical_execution_ids s)) \<le> maximum_size \<and>
       sorted (sh_logical_execution_ids s) \<and> sh_shard_id s = identity (shard_body (sh_selection_key s) (sh_logical_execution_ids s))) \<and>
     length shards = (\<Sum>k \<in> set (map li_selection_key items).
       (length (filter (\<lambda>i. li_selection_key i = k) items) + nat maximum_size - 1) div nat maximum_size)"
proof -
  let ?ks = "sort (remdups (map li_selection_key items))"
  let ?s = "selection_shards identity (nat maximum_size) items"
  from run have pos: "nat maximum_size > 0" and s: "shards = sort_key sh_shard_id (concat (map ?s ?ks))"
    by (auto simp: shard_by_selection_locality_def split: if_splits)
  have each: "1 \<le> length (sh_logical_execution_ids x) \<and> int (length (sh_logical_execution_ids x)) \<le> maximum_size \<and>
      sorted (sh_logical_execution_ids x) \<and> sh_shard_id x = identity (shard_body (sh_selection_key x) (sh_logical_execution_ids x))"
    if "x \<in> set shards" for x
  proof -
    from that s obtain k where k: "x \<in> set (?s k)" by auto
    from shard_of_selection [OF k] pos show ?thesis by (cases "sh_logical_execution_ids x") auto
  qed
  have "length shards = (\<Sum>k \<leftarrow> ?ks. length (?s k))" by (simp add: s length_concat comp_def)
  also have "\<dots> = (\<Sum>k \<in> set ?ks. length (?s k))" by (rule sum_list_distinct_conv_sum_set) simp
  also have "\<dots> = (\<Sum>k \<in> set (map li_selection_key items).
       (length (filter (\<lambda>i. li_selection_key i = k) items) + nat maximum_size - 1) div nat maximum_size)"
    by (rule sum.cong) (simp_all add: selection_shards_def slices_count [OF pos] selection_members_def)
  finally show ?thesis using each by blast
qed

theorem shards_reassemble_witness:
  "shard_by_selection_locality [\<lparr>li_logical_execution_id = ''b'', li_selection_key = ''x''\<rparr>, \<lparr>li_logical_execution_id = ''a'', li_selection_key = ''x''\<rparr>]
     1 (\<lambda>d. ''id'') = Inr [\<lparr>sh_shard_id = ''id'', sh_logical_execution_ids = [''a''], sh_selection_key = ''x''\<rparr>,
       \<lparr>sh_shard_id = ''id'', sh_logical_execution_ids = [''b''], sh_selection_key = ''x''\<rparr>] \<and>
   mset [(''x'', ''a''), (''x'', ''b'')] = mset [(''x'', ''b''), (''x'', ''a'')]"
proof -
  have run: "shard_by_selection_locality [\<lparr>li_logical_execution_id = ''b'', li_selection_key = ''x''\<rparr>, \<lparr>li_logical_execution_id = ''a'', li_selection_key = ''x''\<rparr>]
     1 (\<lambda>d. ''id'') = Inr [\<lparr>sh_shard_id = ''id'', sh_logical_execution_ids = [''a''], sh_selection_key = ''x''\<rparr>,
       \<lparr>sh_shard_id = ''id'', sh_logical_execution_ids = [''b''], sh_selection_key = ''x''\<rparr>]"
    by code_simp
  from shards_reassemble [OF run] run show ?thesis by (simp add: shard_members_def)
qed

theorem shards_bounded_witness:
  "\<exists>shards. shard_by_selection_locality [\<lparr>li_logical_execution_id = ''b'', li_selection_key = ''x''\<rparr>, \<lparr>li_logical_execution_id = ''a'', li_selection_key = ''x''\<rparr>,
     \<lparr>li_logical_execution_id = ''c'', li_selection_key = ''x''\<rparr>] 2 (\<lambda>d. ''id'') = Inr shards \<and> length shards = 2"
proof -
  let ?items = "[\<lparr>li_logical_execution_id = ''b'', li_selection_key = ''x''\<rparr>, \<lparr>li_logical_execution_id = ''a'', li_selection_key = ''x''\<rparr>,
     \<lparr>li_logical_execution_id = ''c'', li_selection_key = ''x''\<rparr>]"
  obtain shards where run: "shard_by_selection_locality ?items 2 (\<lambda>d. ''id'') = Inr shards" by (simp add: shard_by_selection_locality_def)
  from shards_bounded [OF run] run show ?thesis by simp
qed

end
