(* ===== verification/Fault_Attribution.thy ===== *)
theory Fault_Attribution
  imports Prelude
begin

text \<open>
  \<open>fault_attribution.py\<close>: the classification of a deliberately injected fault. A stimulus is a
  JSON document of bounded facts; the classifier attributes the fault to the target only when
  every fact proves it. \<open>canonical_object\<close> (RFC 8785 encoding and SHA-256 with the secret rules
  of the state models) is the parameter \<open>canon\<close>: the digest of a document, or what it raises.
\<close>

section \<open>Documents\<close>

fun json_field :: "json \<Rightarrow> string \<Rightarrow> json option" where
  "json_field (JObj fs) k = map_of fs k"
| "json_field _ k = None"

fun json_keys :: "json \<Rightarrow> string list option" where
  "json_keys (JObj fs) = Some (map fst fs)"
| "json_keys _ = None"

text \<open>\<open>isinstance(value, dict) and set(value) == names\<close>.\<close>

definition has_exact_keys :: "string list \<Rightarrow> json option \<Rightarrow> bool" where
  "has_exact_keys names d =
     (case d of
        Some v \<Rightarrow> (case json_keys v of None \<Rightarrow> False | Some ks \<Rightarrow> set ks = set names)
      | None \<Rightarrow> False)"

definition is_text_of :: "string list \<Rightarrow> json option \<Rightarrow> bool" where
  "is_text_of allowed v = (case v of Some (JStr s) \<Rightarrow> s \<in> set allowed | _ \<Rightarrow> False)"

section \<open>Vocabulary\<close>

definition INJECTION_POINTS :: "string list" where
  "INJECTION_POINTS = [''adapter-process'', ''evidence-storage'', ''network-acquisition'', ''target-invocation'', ''worker-process'']"

definition CONTAINMENT_OUTCOMES :: "string list" where
  "CONTAINMENT_OUTCOMES = [''completed'', ''cpu-time-limit'', ''launch-failed'', ''not-run'', ''stderr-limit'', ''stdout-limit'',
     ''wall-time-limit'']"

definition PROTOCOL_CHECKPOINTS :: "string list" where
  "PROTOCOL_CHECKPOINTS = [''not-applicable'', ''target-invocation-started'', ''target-not-started'', ''target-response-complete'']"

definition ADAPTER_RESPONSE_STATES :: "string list" where
  "ADAPTER_RESPONSE_STATES = [''malformed'', ''missing'', ''not-applicable'', ''valid'']"

definition HEALTH_STATES :: "string list" where
  "HEALTH_STATES = [''healthy'', ''unhealthy'', ''unknown'']"

definition FAULT_STIMULUS_SCHEMA_VERSION :: string where
  "FAULT_STIMULUS_SCHEMA_VERSION = ''deliberate-fault-stimulus.v1''"

definition FAULT_ASSESSMENT_SCHEMA_VERSION :: string where
  "FAULT_ASSESSMENT_SCHEMA_VERSION = ''fault-attribution-assessment.v1''"

definition STIMULUS_FIELDS :: "string list" where
  "STIMULUS_FIELDS = [''adapter_response_state'', ''containment'', ''environment_health_after'', ''environment_health_before'',
     ''fault_key'', ''injection_point'', ''network_observation'', ''protocol_checkpoint'', ''schema_version'',
     ''storage_observation'', ''supervisor_health'']"

text \<open>\<open>TOKEN\<close> of this module, which may start with a digit.\<close>

fun is_fault_token :: "string \<Rightarrow> bool" where
  "is_fault_token [] \<longleftrightarrow> False"
| "is_fault_token (c # cs) \<longleftrightarrow> is_lower_alnum c \<and> token_rest False cs"

section \<open>Validation\<close>

definition require_enum :: "string \<Rightarrow> json option \<Rightarrow> string list \<Rightarrow> exc option" where
  "require_enum label v allowed = raise_if (\<not> is_text_of allowed v) (ValueError (label @ '' is outside the closed vocabulary''))"

definition is_exit_code :: "json option \<Rightarrow> bool" where
  "is_exit_code v = (case v of Some JNull \<Rightarrow> True | Some (JInt n) \<Rightarrow> True | _ \<Rightarrow> False)"

definition check_containment :: "json option \<Rightarrow> exc option" where
  "check_containment c =
     (let outcome = (case c of Some d \<Rightarrow> json_field d ''outcome'' | None \<Rightarrow> None);
          exit_code = (case c of Some d \<Rightarrow> json_field d ''exit_code'' | None \<Rightarrow> None);
          ran = (outcome \<noteq> Some (JStr ''launch-failed'') \<and> outcome \<noteq> Some (JStr ''not-run'')) in
      first_exc [
        raise_if (\<not> has_exact_keys [''exit_code'', ''outcome''] c)
          (ValueError ''containment fact requires exact outcome and exit code''),
        require_enum ''containment outcome'' outcome CONTAINMENT_OUTCOMES,
        raise_if (\<not> is_exit_code exit_code) (ValueError ''containment exit code must be an integer or null''),
        raise_if (\<not> ran \<and> exit_code \<noteq> Some JNull) (ValueError ''a process that did not run cannot have an exit code''),
        raise_if (ran \<and> exit_code = Some JNull) (ValueError ''a launched process requires an exit code'')])"

definition validate_stimulus :: "(json \<Rightarrow> string result) \<Rightarrow> json \<Rightarrow> exc option" where
  "validate_stimulus canon d = first_exc [
     raise_if (\<not> has_exact_keys STIMULUS_FIELDS (Some d)) (ValueError ''fault stimulus requires the exact bounded fact set''),
     raise_if (json_field d ''schema_version'' \<noteq> Some (JStr FAULT_STIMULUS_SCHEMA_VERSION))
       (ValueError ''unsupported deliberate-fault stimulus schema''),
     raise_if (case json_field d ''fault_key'' of Some (JStr k) \<Rightarrow> \<not> is_fault_token k | _ \<Rightarrow> True)
       (ValueError ''fault key must be a canonical token''),
     require_enum ''injection point'' (json_field d ''injection_point'') INJECTION_POINTS,
     require_enum ''protocol checkpoint'' (json_field d ''protocol_checkpoint'') PROTOCOL_CHECKPOINTS,
     require_enum ''adapter response state'' (json_field d ''adapter_response_state'') ADAPTER_RESPONSE_STATES,
     require_enum ''pre-fault environment health'' (json_field d ''environment_health_before'') HEALTH_STATES,
     require_enum ''post-fault environment health'' (json_field d ''environment_health_after'') HEALTH_STATES,
     require_enum ''supervisor health'' (json_field d ''supervisor_health'') HEALTH_STATES,
     require_enum ''network observation'' (json_field d ''network_observation'') [''none'', ''transport-failed''],
     require_enum ''storage observation'' (json_field d ''storage_observation'') [''none'', ''publication-failed''],
     check_containment (json_field d ''containment''),
     (case canon d of Inl e \<Rightarrow> Some e | Inr _ \<Rightarrow> None)]"

section \<open>Classification\<close>

definition fault_result :: "(json \<Rightarrow> string result) \<Rightarrow> json \<Rightarrow> string \<Rightarrow> string \<Rightarrow> string \<Rightarrow> bool \<Rightarrow> json result" where
  "fault_result canon stimulus outcome_class layer reason eligible =
     ebind (canon stimulus) (\<lambda>digest.
     let r = JObj [
       (''attribution_layer'', JStr layer),
       (''c5_terminal_eligible'', JBool eligible),
       (''canonical_authority'', JBool False),
       (''completion_disposition'', JStr (if eligible then ''accepted-terminal-observation'' else ''inconclusive-attempt'')),
       (''fault_key'', (case json_field stimulus ''fault_key'' of Some k \<Rightarrow> k | None \<Rightarrow> JNull)),
       (''logical_execution_satisfied'', JBool eligible),
       (''normative_authority'', JBool False),
       (''outcome_class'', JStr outcome_class),
       (''reason_code'', JStr reason),
       (''schema_version'', JStr FAULT_ASSESSMENT_SCHEMA_VERSION),
       (''semantic_authority'', JBool False),
       (''stimulus_sha256'', JStr digest)]
     in ebind (canon r) (\<lambda>_. Inr r))"

definition is_text :: "json \<Rightarrow> string \<Rightarrow> string \<Rightarrow> bool" where
  "is_text d k v \<longleftrightarrow> json_field d k = Some (JStr v)"

definition target_proven :: "json \<Rightarrow> bool" where
  "target_proven d \<longleftrightarrow> is_text d ''injection_point'' ''target-invocation'' \<and>
     is_text d ''protocol_checkpoint'' ''target-invocation-started'' \<and> is_text d ''adapter_response_state'' ''missing'' \<and>
     is_text d ''environment_health_before'' ''healthy'' \<and> is_text d ''environment_health_after'' ''healthy'' \<and>
     is_text d ''supervisor_health'' ''healthy'' \<and> is_text d ''network_observation'' ''none'' \<and>
     is_text d ''storage_observation'' ''none''"

definition containment_of :: "json \<Rightarrow> string \<Rightarrow> json option" where
  "containment_of d k = (case json_field d ''containment'' of Some c \<Rightarrow> json_field c k | None \<Rightarrow> None)"

definition died_by_signal :: "json \<Rightarrow> bool" where
  "died_by_signal d = (case containment_of d ''exit_code'' of Some (JInt n) \<Rightarrow> n < 0 | _ \<Rightarrow> False)"

definition classify_fault :: "(json \<Rightarrow> string result) \<Rightarrow> json \<Rightarrow> json result" where
  "classify_fault canon d =
     (case validate_stimulus canon d of Some e \<Rightarrow> Inl e | None \<Rightarrow>
      if is_text d ''storage_observation'' ''publication-failed''
      then fault_result canon d ''storage-publication-failure'' ''storage'' ''publication-failed-before-evidence-commit'' False
      else if is_text d ''network_observation'' ''transport-failed''
      then fault_result canon d ''network-failure'' ''network'' ''transport-failed-before-target-invocation'' False
      else if is_text d ''injection_point'' ''worker-process''
      then fault_result canon d ''worker-failure'' ''worker'' ''worker-terminated-without-target-attribution'' False
      else if is_text d ''adapter_response_state'' ''malformed'' \<or> is_text d ''injection_point'' ''adapter-process''
      then fault_result canon d ''adapter-protocol-failure'' ''adapter-protocol''
        (if is_text d ''adapter_response_state'' ''malformed'' then ''malformed-adapter-response'' else ''adapter-process-terminated'') False
      else if target_proven d \<and> containment_of d ''outcome'' = Some (JStr ''wall-time-limit'')
      then fault_result canon d ''target-timeout'' ''target'' ''verified-target-wall-time-limit'' True
      else if target_proven d \<and> containment_of d ''outcome'' = Some (JStr ''completed'') \<and> died_by_signal d
      then fault_result canon d ''target-crash'' ''target'' ''verified-target-signal'' True
      else fault_result canon d ''inconclusive'' ''unknown'' ''insufficient-or-contradictory-attribution'' False)"

section \<open>The reference report\<close>

text \<open>A stimulus with the facts that the reference set varies; the others are those of \<open>common\<close>.\<close>

definition stimulus :: "string \<Rightarrow> string \<Rightarrow> string \<Rightarrow> json \<Rightarrow> string \<Rightarrow> string \<Rightarrow> string \<Rightarrow> string \<Rightarrow> json" where
  "stimulus key point response exit_code outcome network checkpoint storage = JObj [
     (''adapter_response_state'', JStr response),
     (''containment'', JObj [(''exit_code'', exit_code), (''outcome'', JStr outcome)]),
     (''environment_health_after'', JStr ''healthy''),
     (''environment_health_before'', JStr ''healthy''),
     (''fault_key'', JStr key),
     (''injection_point'', JStr point),
     (''network_observation'', JStr network),
     (''protocol_checkpoint'', JStr checkpoint),
     (''schema_version'', JStr FAULT_STIMULUS_SCHEMA_VERSION),
     (''storage_observation'', JStr storage),
     (''supervisor_health'', JStr ''healthy'')]"

definition reference_values :: "json list" where
  "reference_values = [
     stimulus ''adapter-process-crash'' ''adapter-process'' ''missing'' (JInt (- 6)) ''completed'' ''none'' ''target-not-started'' ''none'',
     stimulus ''malformed-adapter-response'' ''adapter-process'' ''malformed'' (JInt 0) ''completed'' ''none'' ''target-response-complete'' ''none'',
     stimulus ''network-acquisition-failure'' ''network-acquisition'' ''not-applicable'' JNull ''not-run'' ''transport-failed'' ''not-applicable'' ''none'',
     stimulus ''storage-publication-failure'' ''evidence-storage'' ''valid'' (JInt 0) ''completed'' ''none'' ''target-response-complete'' ''publication-failed'',
     stimulus ''target-process-crash'' ''target-invocation'' ''missing'' (JInt (- 6)) ''completed'' ''none'' ''target-invocation-started'' ''none'',
     stimulus ''target-timeout'' ''target-invocation'' ''missing'' (JInt (- 15)) ''wall-time-limit'' ''none'' ''target-invocation-started'' ''none'',
     stimulus ''worker-kill'' ''worker-process'' ''missing'' (JInt (- 9)) ''completed'' ''none'' ''target-not-started'' ''none'']"

definition fault_key_of :: "json \<Rightarrow> string" where
  "fault_key_of d = (case json_field d ''fault_key'' of Some (JStr k) \<Rightarrow> k | _ \<Rightarrow> [])"

definition reference_stimuli :: "(json \<Rightarrow> string result) \<Rightarrow> json list result" where
  "reference_stimuli canon =
     mapE (\<lambda>d. case validate_stimulus canon d of Some e \<Rightarrow> Inl e | None \<Rightarrow> Inr d) (sort_key fault_key_of reference_values)"

definition is_eligible :: "json \<Rightarrow> bool" where
  "is_eligible a \<longleftrightarrow> json_field a ''c5_terminal_eligible'' = Some (JBool True)"

definition build_reference_report :: "(json \<Rightarrow> string result) \<Rightarrow> json result" where
  "build_reference_report canon =
     ebind (reference_stimuli canon) (\<lambda>stimuli.
     ebind (mapE (\<lambda>d. ebind (classify_fault canon d) (\<lambda>a. Inr (a, d))) stimuli) (\<lambda>cases.
     let report = JObj [
       (''cases'', JArr (map (\<lambda>(a, d). JObj [(''assessment'', a), (''stimulus'', d)]) cases)),
       (''classification'', JObj [(''normative_authority'', JBool False), (''operational_qualification_only'', JBool True),
          (''semantic_authority'', JBool False)]),
       (''schema_version'', JStr ''fault-classification-report.v1''),
       (''summary'', JObj [
          (''accepted_terminal_count'', JInt (int (length (filter (is_eligible \<circ> fst) cases)))),
          (''case_count'', JInt (int (length cases))),
          (''inconclusive_attempt_count'', JInt (int (length (filter (Not \<circ> is_eligible \<circ> fst) cases))))])]
     in ebind (canon report) (\<lambda>_. Inr report)))"

section \<open>Properties\<close>

lemma fault_result_Inr:
  assumes "fault_result canon d outcome layer reason eligible = Inr r"
  shows "json_field r ''c5_terminal_eligible'' = Some (JBool eligible)" "json_field r ''attribution_layer'' = Some (JStr layer)"
    "json_field r ''outcome_class'' = Some (JStr outcome)" "json_field r ''reason_code'' = Some (JStr reason)"
    "json_field r ''logical_execution_satisfied'' = Some (JBool eligible)"
    "json_field r ''completion_disposition'' =
       Some (JStr (if eligible then ''accepted-terminal-observation'' else ''inconclusive-attempt''))"
  using assms by (auto simp: fault_result_def Let_def)

text \<open>
  What proves that the target was at fault, on the members of the stimulus: at which point the
  fault was injected, how far the protocol had come, and what was observed around the target.
\<close>

definition target_facts :: "json \<Rightarrow> bool" where
  "target_facts d \<longleftrightarrow>
     json_field d ''injection_point'' = Some (JStr ''target-invocation'') \<and>
     json_field d ''protocol_checkpoint'' = Some (JStr ''target-invocation-started'') \<and>
     json_field d ''adapter_response_state'' = Some (JStr ''missing'') \<and>
     json_field d ''environment_health_before'' = Some (JStr ''healthy'') \<and>
     json_field d ''environment_health_after'' = Some (JStr ''healthy'') \<and>
     json_field d ''supervisor_health'' = Some (JStr ''healthy'') \<and>
     json_field d ''network_observation'' = Some (JStr ''none'') \<and>
     json_field d ''storage_observation'' = Some (JStr ''none'')"

definition ran_into_limit :: "json \<Rightarrow> bool" where
  "ran_into_limit d \<longleftrightarrow>
     (\<exists>c. json_field d ''containment'' = Some c \<and> json_field c ''outcome'' = Some (JStr ''wall-time-limit''))"

definition killed_by_signal :: "json \<Rightarrow> bool" where
  "killed_by_signal d \<longleftrightarrow>
     (\<exists>c n. json_field d ''containment'' = Some c \<and> json_field c ''outcome'' = Some (JStr ''completed'') \<and>
        json_field c ''exit_code'' = Some (JInt n) \<and> n < 0)"

lemma target_proven_iff: "target_proven d \<longleftrightarrow> target_facts d"
  by (auto simp: target_proven_def target_facts_def is_text_def)

lemma containment_iff:
  "containment_of d ''outcome'' = Some (JStr ''wall-time-limit'') \<longleftrightarrow> ran_into_limit d"
  "containment_of d ''outcome'' = Some (JStr ''completed'') \<and> died_by_signal d \<longleftrightarrow> killed_by_signal d"
  by (auto simp: containment_of_def died_by_signal_def ran_into_limit_def killed_by_signal_def
      split: option.splits json.splits)

lemma limit_or_signal: "ran_into_limit d \<Longrightarrow> \<not> killed_by_signal d"
  by (auto simp: ran_into_limit_def killed_by_signal_def)

text \<open>The guards before the target is considered leave only stimuli without the target's facts.\<close>

lemma classified_target:
  assumes "classify_fault canon d = Inr r"
  obtains (elsewhere) layer outcome reason where "fault_result canon d outcome layer reason False = Inr r"
      "layer \<noteq> ''target''" "outcome \<notin> {''target-timeout'', ''target-crash''}"
      "\<not> (target_facts d \<and> (ran_into_limit d \<or> killed_by_signal d))"
    | (timeout) reason where "fault_result canon d ''target-timeout'' ''target'' reason True = Inr r"
      "target_facts d" "ran_into_limit d"
    | (crash) reason where "fault_result canon d ''target-crash'' ''target'' reason True = Inr r"
      "target_facts d" "killed_by_signal d"
proof -
  have not_target: "\<not> target_facts d" if "is_text d ''storage_observation'' ''publication-failed'' \<or>
      is_text d ''network_observation'' ''transport-failed'' \<or> is_text d ''injection_point'' ''worker-process'' \<or>
      is_text d ''adapter_response_state'' ''malformed'' \<or> is_text d ''injection_point'' ''adapter-process''"
    using that by (auto simp: target_facts_def is_text_def)
  note other = elsewhere [where layer = "''storage''" and outcome = "''storage-publication-failure''", simplified]
    elsewhere [where layer = "''network''" and outcome = "''network-failure''", simplified]
    elsewhere [where layer = "''worker''" and outcome = "''worker-failure''", simplified]
    elsewhere [where layer = "''adapter-protocol''" and outcome = "''adapter-protocol-failure''", simplified]
    elsewhere [where layer = "''unknown''" and outcome = "''inconclusive''", simplified]
  from assms have "validate_stimulus canon d = None" by (simp add: classify_fault_def split: option.splits)
  with assms show thesis
    unfolding classify_fault_def target_proven_iff containment_iff
    by (auto split: if_split_asm intro: timeout crash other simp: not_target)
qed

text \<open>
  C32. A fault is attributed to the target, counted as a terminal observation and its execution
  as satisfied, exactly when the members of the stimulus prove it: the target was being invoked,
  no response was received, environment and supervisor were healthy before and after, neither
  network nor storage failed, and the process ran into the wall-time limit, which is reported as
  a timeout, or completed with a negative exit code, which is reported as a crash. With any of
  these facts missing the attempt is inconclusive for the target.
\<close>

theorem target_attribution_exact:
  assumes "classify_fault canon d = Inr r"
  shows "(json_field r ''attribution_layer'' = Some (JStr ''target'') \<longleftrightarrow>
       target_facts d \<and> (ran_into_limit d \<or> killed_by_signal d)) \<and>
     (json_field r ''outcome_class'' = Some (JStr ''target-timeout'') \<longleftrightarrow> target_facts d \<and> ran_into_limit d) \<and>
     (json_field r ''outcome_class'' = Some (JStr ''target-crash'') \<longleftrightarrow> target_facts d \<and> killed_by_signal d) \<and>
     json_field r ''c5_terminal_eligible'' = Some (JBool (target_facts d \<and> (ran_into_limit d \<or> killed_by_signal d))) \<and>
     json_field r ''logical_execution_satisfied'' = json_field r ''c5_terminal_eligible'' \<and>
     json_field r ''completion_disposition'' = Some (JStr
       (if target_facts d \<and> (ran_into_limit d \<or> killed_by_signal d) then ''accepted-terminal-observation''
        else ''inconclusive-attempt''))"
  using assms
proof (cases rule: classified_target)
  case (elsewhere layer outcome reason)
  then show ?thesis using fault_result_Inr [OF elsewhere(1)] by auto
next
  case (timeout reason)
  then show ?thesis using fault_result_Inr [OF timeout(1)] limit_or_signal by auto
next
  case (crash reason)
  then show ?thesis using fault_result_Inr [OF crash(1)] limit_or_signal by auto
qed

lemma reference_report_summary:
  "case build_reference_report (\<lambda>x. Inr (h x)) of Inl _ \<Rightarrow> False | Inr report \<Rightarrow>
     json_field report ''summary'' = Some (JObj [(''accepted_terminal_count'', JInt 2), (''case_count'', JInt 7),
       (''inconclusive_attempt_count'', JInt 5)])"
  by code_simp

definition case_summary :: "json \<Rightarrow> (bool \<times> json option \<times> json option)" where
  "case_summary a = (is_eligible a, json_field a ''attribution_layer'', json_field a ''reason_code'')"

lemma reference_classified:
  "map (\<lambda>d. case classify_fault (\<lambda>x. Inr (h x)) d of Inr a \<Rightarrow> Some (case_summary a) | Inl _ \<Rightarrow> None) reference_values =
     map (\<lambda>(b, l, r). Some (b, Some (JStr l), Some (JStr r))) [
       (False, ''adapter-protocol'', ''adapter-process-terminated''), (False, ''adapter-protocol'', ''malformed-adapter-response''),
       (False, ''network'', ''transport-failed-before-target-invocation''), (False, ''storage'', ''publication-failed-before-evidence-commit''),
       (True, ''target'', ''verified-target-signal''), (True, ''target'', ''verified-target-wall-time-limit''),
       (False, ''worker'', ''worker-terminated-without-target-attribution'')]"
  by code_simp

text \<open>
  The reference report is built for every encoder that accepts its documents: the seven
  reference faults are valid, each gets the layer and reason it is named after, exactly the two
  target faults are accepted as terminal observations, and the summary counts them.
\<close>

theorem reference_report_exact:
  assumes "\<And>d. \<exists>x. canon d = Inr x"
  shows "\<exists>report. build_reference_report canon = Inr report \<and>
     json_field report ''summary'' = Some (JObj [(''accepted_terminal_count'', JInt 2), (''case_count'', JInt 7),
       (''inconclusive_attempt_count'', JInt 5)]) \<and>
     map (\<lambda>d. case classify_fault canon d of Inr a \<Rightarrow> Some (case_summary a) | Inl _ \<Rightarrow> None) reference_values =
     map (\<lambda>(b, l, r). Some (b, Some (JStr l), Some (JStr r))) [
       (False, ''adapter-protocol'', ''adapter-process-terminated''), (False, ''adapter-protocol'', ''malformed-adapter-response''),
       (False, ''network'', ''transport-failed-before-target-invocation''), (False, ''storage'', ''publication-failed-before-evidence-commit''),
       (True, ''target'', ''verified-target-signal''), (True, ''target'', ''verified-target-wall-time-limit''),
       (False, ''worker'', ''worker-terminated-without-target-attribution'')]"
proof -
  from assms obtain h where "\<And>d. canon d = Inr (h d)" by metis
  then have canon: "canon = (\<lambda>x. Inr (h x))" by blast
  obtain report where "build_reference_report (\<lambda>x. Inr (h x)) = Inr report"
    "json_field report ''summary'' = Some (JObj [(''accepted_terminal_count'', JInt 2), (''case_count'', JInt 7),
       (''inconclusive_attempt_count'', JInt 5)])"
    using reference_report_summary [of h] by (cases "build_reference_report (\<lambda>x. Inr (h x))") simp_all
  then show ?thesis unfolding canon using reference_classified [of h] by blast
qed

text \<open>
  The witness: the reference timeout is attributed to the target; the same stimulus with an
  environment found unhealthy afterwards, or with a process that exited by itself, is not.
\<close>

definition timeout_stimulus :: "string \<Rightarrow> string \<Rightarrow> int \<Rightarrow> json" where
  "timeout_stimulus health outcome n = JObj [
     (''adapter_response_state'', JStr ''missing''),
     (''containment'', JObj [(''exit_code'', JInt n), (''outcome'', JStr outcome)]),
     (''environment_health_after'', JStr health),
     (''environment_health_before'', JStr ''healthy''),
     (''fault_key'', JStr ''target-timeout''),
     (''injection_point'', JStr ''target-invocation''),
     (''network_observation'', JStr ''none''),
     (''protocol_checkpoint'', JStr ''target-invocation-started''),
     (''schema_version'', JStr FAULT_STIMULUS_SCHEMA_VERSION),
     (''storage_observation'', JStr ''none''),
     (''supervisor_health'', JStr ''healthy'')]"

definition blamed_on_target :: "json \<Rightarrow> bool option" where
  "blamed_on_target d =
     (case classify_fault (\<lambda>d. Inr ''digest'') d of
        Inl _ \<Rightarrow> None
      | Inr r \<Rightarrow> Some (json_field r ''attribution_layer'' = Some (JStr ''target'')))"

lemma timeout_stimulus_valid:
  "\<not> (case classify_fault (\<lambda>d. Inr ''digest'') (timeout_stimulus ''healthy'' ''wall-time-limit'' (- 15)) of Inl _ \<Rightarrow> True | Inr _ \<Rightarrow> False)"
  "\<not> (case classify_fault (\<lambda>d. Inr ''digest'') (timeout_stimulus ''unhealthy'' ''wall-time-limit'' (- 15)) of Inl _ \<Rightarrow> True | Inr _ \<Rightarrow> False)"
  "\<not> (case classify_fault (\<lambda>d. Inr ''digest'') (timeout_stimulus ''healthy'' ''completed'' 0) of Inl _ \<Rightarrow> True | Inr _ \<Rightarrow> False)"
  by code_simp+

theorem target_attribution_exact_witness:
  "blamed_on_target (timeout_stimulus ''healthy'' ''wall-time-limit'' (- 15)) = Some True \<and>
   blamed_on_target (timeout_stimulus ''unhealthy'' ''wall-time-limit'' (- 15)) = Some False \<and>
   blamed_on_target (timeout_stimulus ''healthy'' ''completed'' 0) = Some False"
proof -
  have blamed: "blamed_on_target d = Some (target_facts d \<and> (ran_into_limit d \<or> killed_by_signal d))"
    if "\<not> (case classify_fault (\<lambda>d. Inr ''digest'') d of Inl _ \<Rightarrow> True | Inr _ \<Rightarrow> False)" for d
    using that target_attribution_exact [of "\<lambda>d. Inr ''digest''" d]
    by (auto simp: blamed_on_target_def split: sum.splits)
  show ?thesis unfolding blamed [OF timeout_stimulus_valid(1)] blamed [OF timeout_stimulus_valid(2)]
      blamed [OF timeout_stimulus_valid(3)]
    by (simp add: timeout_stimulus_def target_facts_def ran_into_limit_def killed_by_signal_def)
qed

end
