(* ===== verification/State_Json.thy ===== *)
theory State_Json
  imports Recovery_Payload
begin

text \<open>
  The canonical documents of \<open>state_models.py\<close>: JSON trees without credentials, their RFC 8785
  text and its strict reading. The encoder, both readers of the \<open>json\<close> module, UTF-8, SHA-256 and
  the text of an instant are parameters; \<open>library_ok\<close> collects what the code relies on.
  Floating-point values are not represented. The forbidden names are those of \<open>safe_payload.py\<close>.
\<close>

datatype event_error =
    EventModelError string
  | StateModelError string
  | SecretMaterialError string
  | EventValueError string
  | JournalClosed
  | JournalCorruption string
  | JournalConflict string
  | CursorGap int int
  | SqlConstraint

record state_library =
  sl_text :: text_library
  sl_jcs :: "json \<Rightarrow> string option"
  sl_loads :: "string \<Rightarrow> json option"
  sl_loads_strict :: "string \<Rightarrow> json option"
  sl_encodable :: "string \<Rightarrow> bool"
  sl_utf8_length :: "string \<Rightarrow> int"
  sl_sha256 :: "string \<Rightarrow> string"
  sl_fromisoformat :: "string \<Rightarrow> timestamp"
  sl_isoformat :: "int \<Rightarrow> string"

text \<open>A block of statements that check something, in their order.\<close>

fun run_checks :: "('e + unit) list \<Rightarrow> 'e + unit" where
  "run_checks [] = Inr ()"
| "run_checks (c # cs) = ebind c (\<lambda>_. run_checks cs)"

lemma run_checks_Inr [simp]: "run_checks cs = Inr u \<longleftrightarrow> (\<forall>c \<in> set cs. c = Inr ())"
  by (induction cs) auto

lemma run_checks_raises: "run_checks cs = Inl e \<Longrightarrow> \<exists>c \<in> set cs. c = Inl e"
  by (induction cs) (auto simp: ebind_eq_Inl)

section \<open>Trees without credentials\<close>

definition string_contains_credentials :: "text_library \<Rightarrow> string \<Rightarrow> bool" where
  "string_contains_credentials lib v =
     (if sublist ''-----BEGIN '' v \<and> sublist ''PRIVATE KEY-----'' v then True
      else if tl_authorization_search lib v then True
      else if \<not> sublist ''://'' v then False
      else (case tl_urlsplit lib v of
              None \<Rightarrow> False
            | Some u \<Rightarrow>
                if su_username u \<noteq> None \<or> su_password u \<noteq> None then True
                else (case tl_parse_qsl lib (su_query u) of
                        None \<Rightarrow> False
                      | Some items \<Rightarrow> \<exists>item \<in> set items. normalized lib (fst item) \<in> set FORBIDDEN_QUERY_NAMES)))"

function validate_json_tree :: "state_library \<Rightarrow> string option \<Rightarrow> json \<Rightarrow> event_error option" where
  "validate_json_tree lib field_name v =
     (if forbidden_field (sl_text lib) field_name
      then Some (SecretMaterialError ''operational state cannot persist credential-bearing fields'')
      else (case v of
          JNull \<Rightarrow> None
        | JBool _ \<Rightarrow> None
        | JInt n \<Rightarrow>
            (if \<not> (- SAFE_INTEGER_MAX \<le> n \<and> n \<le> SAFE_INTEGER_MAX)
             then Some (StateModelError ''operational state integers must remain in the signed safe-integer domain'') else None)
        | JStr s \<Rightarrow>
            (if string_contains_credentials (sl_text lib) s
             then Some (SecretMaterialError ''operational state cannot persist credential-bearing values'')
             else if \<not> sl_encodable lib s
             then Some (StateModelError ''operational state strings must be valid Unicode scalar values'') else None)
        | JTime _ \<Rightarrow> Some (StateModelError ''operational state payloads must contain only JSON values'')
        | JObj fs \<Rightarrow> first_some (map (\<lambda>p. validate_json_tree lib (Some (fst p)) (snd p)) fs)
        | JArr xs \<Rightarrow> first_some (map (validate_json_tree lib None) xs)))"
  by pat_completeness auto
termination
  by (relation "measure (\<lambda>(lib, n, v). size v)") (auto dest: json_member_size)

declare validate_json_tree.simps [simp del]

lemma validate_json_tree_object [simp]:
  "validate_json_tree lib None (JObj fs) = first_some (map (\<lambda>p. validate_json_tree lib (Some (fst p)) (snd p)) fs)"
  by (simp add: validate_json_tree.simps forbidden_field_def)

section \<open>Canonical text\<close>

definition canonical_json :: "state_library \<Rightarrow> json \<Rightarrow> event_error + string" where
  "canonical_json lib v =
     (case validate_json_tree lib None v of
        Some e \<Rightarrow> Inl e
      | None \<Rightarrow>
          (case sl_jcs lib v of
             None \<Rightarrow> Inl (StateModelError ''operational state is not RFC 8785 canonicalizable'')
           | Some s \<Rightarrow> Inr s))"

definition canonical_object :: "state_library \<Rightarrow> (string \<times> json) list \<Rightarrow> event_error + string \<times> string" where
  "canonical_object lib fs = ebind (canonical_json lib (JObj fs)) (\<lambda>s. Inr (s, sl_sha256 lib s))"

definition parse_canonical_object :: "state_library \<Rightarrow> string \<Rightarrow> event_error + (string \<times> json) list" where
  "parse_canonical_object lib s =
     (case sl_loads_strict lib s of
        None \<Rightarrow> Inl (StateModelError ''stored state payload is not strict JSON'')
      | Some (JObj fs) \<Rightarrow>
          ebind (canonical_json lib (JObj fs)) (\<lambda>encoded.
            if encoded \<noteq> s then Inl (StateModelError ''stored state payload is not in canonical JCS form'') else Inr fs)
      | Some _ \<Rightarrow> Inl (StateModelError ''stored state payload must be a JSON object''))"

lemma canonical_json_Inr: "canonical_json lib v = Inr s \<longleftrightarrow> validate_json_tree lib None v = None \<and> sl_jcs lib v = Some s"
  by (auto simp: canonical_json_def split: option.splits)

lemma canonical_object_Inr:
  "canonical_object lib fs = Inr (s, h) \<longleftrightarrow> canonical_json lib (JObj fs) = Inr s \<and> h = sl_sha256 lib s"
  by (auto simp: canonical_object_def)

lemma parse_canonical_object_Inr:
  "parse_canonical_object lib s = Inr fs \<longleftrightarrow> sl_loads_strict lib s = Some (JObj fs) \<and> canonical_json lib (JObj fs) = Inr s"
  by (auto simp: parse_canonical_object_def split: option.splits json.splits if_splits)

text \<open>The errors of these functions are the two model errors of \<open>state_models.py\<close>.\<close>

fun state_error :: "event_error \<Rightarrow> bool" where
  "state_error (StateModelError _) = True"
| "state_error (SecretMaterialError _) = True"
| "state_error _ = False"

lemma first_some_SomeD: "first_some xs = Some x \<Longrightarrow> Some x \<in> set xs"
  by (induction xs rule: first_some.induct) auto

lemma validate_json_tree_error: "validate_json_tree lib n v = Some e \<Longrightarrow> state_error e"
proof (induction lib n v rule: validate_json_tree.induct)
  case (1 lib n v)
  from "1.prems" show ?case
    by (subst (asm) validate_json_tree.simps)
      (auto split: if_splits json.splits dest!: first_some_SomeD sym [of "Some e"] dest: "1.IH")
qed

lemma canonical_json_error: "canonical_json lib v = Inl e \<Longrightarrow> state_error e"
  by (auto simp: canonical_json_def split: option.splits dest: validate_json_tree_error)

lemma canonical_object_error: "canonical_object lib fs = Inl e \<Longrightarrow> state_error e"
  by (auto simp: canonical_object_def ebind_eq_Inl dest: canonical_json_error)

lemma parse_canonical_object_error: "parse_canonical_object lib s = Inl e \<Longrightarrow> state_error e"
  by (auto simp: parse_canonical_object_def ebind_eq_Inl split: option.splits json.splits if_splits dest: canonical_json_error)

section \<open>What the code relies on\<close>

text \<open>
  A document as the readers of the \<open>json\<close> module return it from canonical text: the members of
  every object are in the order of their names, without repetition.
\<close>

fun wire :: "json \<Rightarrow> bool" where
  "wire (JTime t) = False"
| "wire (JArr xs) = (\<forall>x \<in> set xs. wire x)"
| "wire (JObj fs) = (sorted (map fst fs) \<and> distinct (map fst fs) \<and> (\<forall>p \<in> set fs. wire (snd p)))"
| "wire _ = True"

text \<open>
  \<open>json.loads\<close>, plain or strict, inverts the encoder on such documents and reads such documents
  from canonical text; SHA-256 prints 64 hexadecimal digits; \<open>fromisoformat\<close> reads what
  \<open>isoformat\<close> prints with milliseconds.
\<close>

definition library_ok :: "state_library \<Rightarrow> bool" where
  "library_ok lib \<longleftrightarrow>
     (\<forall>d s. wire d \<longrightarrow> sl_jcs lib d = Some s \<longrightarrow> sl_loads lib s = Some d \<and> sl_loads_strict lib s = Some d) \<and>
     (\<forall>d s. sl_loads_strict lib s = Some d \<longrightarrow> sl_jcs lib d = Some s \<longrightarrow> wire d) \<and>
     (\<forall>s. is_sha256 (sl_sha256 lib s)) \<and>
     (\<forall>i. sl_fromisoformat lib (sl_isoformat lib i) = Aware (i div 1000 * 1000))"

lemma library_okD:
  assumes "library_ok lib"
  shows "wire d \<Longrightarrow> sl_jcs lib d = Some s \<Longrightarrow> sl_loads lib s = Some d"
    and "sl_loads_strict lib s = Some d \<Longrightarrow> sl_jcs lib d = Some s \<Longrightarrow> wire d"
    and "is_sha256 (sl_sha256 lib s)"
    and "sl_fromisoformat lib (sl_isoformat lib i) = Aware (i div 1000 * 1000)"
  using assms unfolding library_ok_def by blast+

lemma parsed_wire: "library_ok lib \<Longrightarrow> parse_canonical_object lib s = Inr fs \<Longrightarrow> wire (JObj fs)"
  by (rule library_okD(2)) (auto simp: parse_canonical_object_Inr canonical_json_Inr)

end
