(* ===== verification/Event_Models.thy ===== *)
theory Event_Models
  imports State_Json
begin

text \<open>
  \<open>control-plane/.../event_models.py\<close>: drafts of lifecycle events, events with identity and
  digest, cursors and batches, with their validators.
\<close>

section \<open>Checks\<close>

definition EVENT_TYPES :: "string list" where
  "EVENT_TYPES = [''checkpoint'', ''diagnostic'', ''lifecycle'', ''metric'', ''progress'']"

definition PROGRESS_UNITS :: "string list" where
  "PROGRESS_UNITS = [''bytes'', ''environments'', ''executions'', ''items'', ''shards'', ''steps'']"

definition TERMINAL_STATUSES :: "string list" where
  "TERMINAL_STATUSES = [''cancelled'', ''completed'', ''failed'', ''partial'', ''refused'']"

text \<open>\<open>OPERATIONAL_ID_PATTERN\<close>.\<close>

definition is_operational_id :: "string \<Rightarrow> bool" where
  "is_operational_id s \<longleftrightarrow>
     (case split_on (CHR '':'') s of
        [scheme, version, n, kind, u] \<Rightarrow>
          scheme = ''opid'' \<and> version = ''v1'' \<and> is_token n \<and> kind = ''u7'' \<and> is_uuid7 u
      | _ \<Rightarrow> False)"

definition require_event_token :: "string \<Rightarrow> event_error + unit" where
  "require_event_token v = refuse (\<not> is_token v) (EventModelError ''must be a lowercase hyphenated token'')"

definition require_safe_integer :: "int \<Rightarrow> bool \<Rightarrow> event_error + unit" where
  "require_safe_integer v positive =
     refuse (\<not> ((if positive then 1 else 0) \<le> v \<and> v \<le> SAFE_INTEGER_MAX)) (EventModelError ''must be a safe integer'')"

definition require_event_digest :: "string \<Rightarrow> event_error + unit" where
  "require_event_digest v = refuse (\<not> is_sha256 v) (EventModelError ''must be a lowercase SHA-256 digest'')"

definition event_timestamp :: "state_library \<Rightarrow> string \<Rightarrow> event_error + int" where
  "event_timestamp lib v =
     (case sl_fromisoformat lib v of
        Unparsable \<Rightarrow> Inl (EventModelError ''must be an RFC 3339 timestamp'')
      | Naive _ \<Rightarrow> Inl (EventModelError ''must include a timezone'')
      | Aware i \<Rightarrow> Inr i)"

definition require_operational_id :: "string \<Rightarrow> string option \<Rightarrow> event_error + unit" where
  "require_operational_id v namespace = run_checks [
     refuse (\<not> is_operational_id v) (EventModelError ''must be an operational UUIDv7''),
     refuse (case namespace of None \<Rightarrow> False | Some n \<Rightarrow> \<not> is_opid n v)
       (EventModelError ''uses the wrong operational namespace'')]"

section \<open>Drafts\<close>

record event_draft =
  ed_stream_id :: string
  ed_operation_kind :: string
  ed_event_type :: string
  ed_phase :: string
  ed_status :: string
  ed_attempt :: int
  ed_current :: "int option"
  ed_total :: "int option"
  ed_unit :: "string option"
  ed_message :: string
  ed_correlation_id :: "string option"
  ed_causation_id :: "string option"
  ed_attributes :: "(string \<times> json) list option"
  ed_terminal :: bool

definition attributes_object :: "event_draft \<Rightarrow> (string \<times> json) list" where
  "attributes_object d = (case ed_attributes d of None \<Rightarrow> [] | Some fs \<Rightarrow> fs)"

definition check_progress :: "event_draft \<Rightarrow> event_error + unit" where
  "check_progress d =
     (case ed_current d of
        None \<Rightarrow> run_checks [
          refuse (ed_total d \<noteq> None \<or> ed_unit d \<noteq> None) (EventModelError ''event progress total/unit require a current value''),
          refuse (ed_event_type d \<in> {''checkpoint'', ''progress''})
            (EventModelError ''checkpoint/progress events require progress coordinates'')]
      | Some current \<Rightarrow> run_checks [
          require_safe_integer current False,
          refuse (case ed_unit d of None \<Rightarrow> True | Some u \<Rightarrow> u \<notin> set PROGRESS_UNITS)
            (EventModelError ''event progress unit is unsupported''),
          (case ed_total d of
             None \<Rightarrow> Inr ()
           | Some whole \<Rightarrow> run_checks [
               require_safe_integer whole False,
               refuse (current > whole) (EventModelError ''event current progress cannot exceed total'')])])"

definition check_message :: "state_library \<Rightarrow> string \<Rightarrow> event_error + unit" where
  "check_message lib m = run_checks [
     refuse (m = '''' \<or> length m > 512 \<or> (\<exists>c \<in> set m. c \<in> {CHR 0x0D, CHR 0x0A, CHR 0x00}))
       (EventModelError ''event message must be bounded non-empty single-line text''),
     (case canonical_json lib (JStr m) of
        Inl _ \<Rightarrow> Inl (EventModelError ''event message contains unsafe material'')
      | Inr _ \<Rightarrow> Inr ())]"

definition event_draft_post_init :: "state_library \<Rightarrow> event_draft \<Rightarrow> event_error + unit" where
  "event_draft_post_init lib d = run_checks [
     require_operational_id (ed_stream_id d) None,
     require_event_token (ed_operation_kind d),
     refuse (ed_event_type d \<notin> set EVENT_TYPES) (EventModelError ''event type is unsupported''),
     require_event_token (ed_phase d),
     require_event_token (ed_status d),
     require_safe_integer (ed_attempt d) True,
     check_progress d,
     check_message lib (ed_message d),
     (case ed_correlation_id d of None \<Rightarrow> Inr () | Some i \<Rightarrow> require_operational_id i None),
     (case ed_causation_id d of None \<Rightarrow> Inr () | Some i \<Rightarrow> require_operational_id i (Some ''lifecycle-event'')),
     refuse (ed_terminal d \<noteq> (ed_status d \<in> set TERMINAL_STATUSES))
       (EventModelError ''event terminal flag and status disagree''),
     ebind (canonical_object lib (attributes_object d)) (\<lambda>(s, h).
       refuse (sl_utf8_length lib s > 16 * 1024) (EventModelError ''event attributes exceed the 16 KiB persistence limit''))]"

definition event_draft_new :: "state_library \<Rightarrow> event_draft \<Rightarrow> event_error + event_draft" where
  "event_draft_new lib d = ebind (event_draft_post_init lib d) (\<lambda>_. Inr d)"

section \<open>Events\<close>

record lifecycle_event =
  le_event_id :: string
  le_stream_id :: string
  le_stream_sequence :: int
  le_operation_kind :: string
  le_event_type :: string
  le_phase :: string
  le_status :: string
  le_attempt :: int
  le_occurred_at :: string
  le_current :: "int option"
  le_total :: "int option"
  le_unit :: "string option"
  le_message :: string
  le_correlation_id :: "string option"
  le_causation_id :: "string option"
  le_attributes_json :: string
  le_attributes_sha256 :: string
  le_terminal :: bool
  le_event_digest :: string
  le_canonical_authority :: bool
  le_schema_version :: string

text \<open>\<open>_digest_values\<close> with the two constants that \<open>calculate_digest\<close> adds.\<close>

definition digest_projection :: "lifecycle_event \<Rightarrow> json" where
  "digest_projection e = JObj [
     (''event_id'', JStr (le_event_id e)),
     (''stream_id'', JStr (le_stream_id e)),
     (''stream_sequence'', JInt (le_stream_sequence e)),
     (''operation_kind'', JStr (le_operation_kind e)),
     (''event_type'', JStr (le_event_type e)),
     (''phase'', JStr (le_phase e)),
     (''status'', JStr (le_status e)),
     (''attempt'', JInt (le_attempt e)),
     (''occurred_at'', JStr (le_occurred_at e)),
     (''current'', JOpt JInt (le_current e)),
     (''total'', JOpt JInt (le_total e)),
     (''unit'', JOpt JStr (le_unit e)),
     (''message'', JStr (le_message e)),
     (''correlation_id'', JOpt JStr (le_correlation_id e)),
     (''causation_id'', JOpt JStr (le_causation_id e)),
     (''attributes_json'', JStr (le_attributes_json e)),
     (''attributes_sha256'', JStr (le_attributes_sha256 e)),
     (''terminal'', JBool (le_terminal e)),
     (''canonical_authority'', JBool False),
     (''schema_version'', JStr ''lifecycle-event.v1'')]"

definition calculate_digest :: "state_library \<Rightarrow> lifecycle_event \<Rightarrow> event_error + string" where
  "calculate_digest lib e = ebind (canonical_json lib (digest_projection e)) (\<lambda>s. Inr (sl_sha256 lib s))"

text \<open>The draft that \<open>LifecycleEvent.__post_init__\<close> validates, and \<open>_draft_from_event\<close> returns.\<close>

definition event_draft_of :: "lifecycle_event \<Rightarrow> (string \<times> json) list \<Rightarrow> event_draft" where
  "event_draft_of e attributes = \<lparr>
     ed_stream_id = le_stream_id e, ed_operation_kind = le_operation_kind e, ed_event_type = le_event_type e,
     ed_phase = le_phase e, ed_status = le_status e, ed_attempt = le_attempt e, ed_current = le_current e,
     ed_total = le_total e, ed_unit = le_unit e, ed_message = le_message e,
     ed_correlation_id = le_correlation_id e, ed_causation_id = le_causation_id e,
     ed_attributes = Some attributes, ed_terminal = le_terminal e\<rparr>"

definition lifecycle_event_post_init :: "state_library \<Rightarrow> lifecycle_event \<Rightarrow> event_error + unit" where
  "lifecycle_event_post_init lib e = run_checks [
     require_operational_id (le_event_id e) (Some ''lifecycle-event''),
     ebind (parse_canonical_object lib (le_attributes_json e)) (\<lambda>fs. event_draft_post_init lib (event_draft_of e fs)),
     require_safe_integer (le_stream_sequence e) True,
     ebind (event_timestamp lib (le_occurred_at e)) (\<lambda>_. Inr ()),
     require_event_digest (le_attributes_sha256 e),
     refuse (sl_sha256 lib (le_attributes_json e) \<noteq> le_attributes_sha256 e)
       (EventModelError ''event attributes digest does not match''),
     require_event_digest (le_event_digest e),
     ebind (calculate_digest lib e) (\<lambda>digest. refuse (le_event_digest e \<noteq> digest)
       (EventModelError ''event digest does not match its complete content'')),
     refuse (le_canonical_authority e) (EventModelError ''local lifecycle events cannot claim canonical authority''),
     refuse (le_schema_version e \<noteq> ''lifecycle-event.v1'') (EventModelError ''unsupported lifecycle event schema'')]"

definition lifecycle_event_new :: "state_library \<Rightarrow> lifecycle_event \<Rightarrow> event_error + lifecycle_event" where
  "lifecycle_event_new lib e = ebind (lifecycle_event_post_init lib e) (\<lambda>_. Inr e)"

text \<open>The keyword arguments of \<open>build\<close>, before the digest is known.\<close>

definition event_values :: "string \<Rightarrow> int \<Rightarrow> string \<Rightarrow> event_draft \<Rightarrow> string \<Rightarrow> string \<Rightarrow> lifecycle_event" where
  "event_values event_id stream_sequence occurred_at d attributes_json attributes_sha256 = \<lparr>
     le_event_id = event_id, le_stream_id = ed_stream_id d, le_stream_sequence = stream_sequence,
     le_operation_kind = ed_operation_kind d, le_event_type = ed_event_type d, le_phase = ed_phase d,
     le_status = ed_status d, le_attempt = ed_attempt d, le_occurred_at = occurred_at, le_current = ed_current d,
     le_total = ed_total d, le_unit = ed_unit d, le_message = ed_message d,
     le_correlation_id = ed_correlation_id d, le_causation_id = ed_causation_id d,
     le_attributes_json = attributes_json, le_attributes_sha256 = attributes_sha256,
     le_terminal = ed_terminal d, le_event_digest = '''', le_canonical_authority = False,
     le_schema_version = ''lifecycle-event.v1''\<rparr>"

definition build_event :: "state_library \<Rightarrow> string \<Rightarrow> int \<Rightarrow> string \<Rightarrow> event_draft \<Rightarrow> event_error + lifecycle_event" where
  "build_event lib event_id stream_sequence occurred_at d =
     ebind (canonical_object lib (attributes_object d)) (\<lambda>(s, h).
     let values = event_values event_id stream_sequence occurred_at d s h in
     ebind (calculate_digest lib values) (\<lambda>digest.
     lifecycle_event_new lib (values\<lparr>le_event_digest := digest\<rparr>)))"

definition event_to_dict :: "lifecycle_event \<Rightarrow> (string \<times> json) list \<Rightarrow> json" where
  "event_to_dict e attributes = JObj [
     (''attempt'', JInt (le_attempt e)),
     (''attributes'', JObj attributes),
     (''attributes_sha256'', JStr (le_attributes_sha256 e)),
     (''canonical_authority'', JBool False),
     (''causation_id'', JOpt JStr (le_causation_id e)),
     (''correlation_id'', JOpt JStr (le_correlation_id e)),
     (''current'', JOpt JInt (le_current e)),
     (''event_digest'', JStr (le_event_digest e)),
     (''event_id'', JStr (le_event_id e)),
     (''event_type'', JStr (le_event_type e)),
     (''message'', JStr (le_message e)),
     (''occurred_at'', JStr (le_occurred_at e)),
     (''operation_kind'', JStr (le_operation_kind e)),
     (''phase'', JStr (le_phase e)),
     (''schema_version'', JStr (le_schema_version e)),
     (''status'', JStr (le_status e)),
     (''stream_id'', JStr (le_stream_id e)),
     (''stream_sequence'', JInt (le_stream_sequence e)),
     (''terminal'', JBool (le_terminal e)),
     (''total'', JOpt JInt (le_total e)),
     (''unit'', JOpt JStr (le_unit e))]"

definition event_document :: "state_library \<Rightarrow> lifecycle_event \<Rightarrow> event_error + json" where
  "event_document lib e =
     ebind (parse_canonical_object lib (le_attributes_json e)) (\<lambda>fs. Inr (event_to_dict e fs))"

section \<open>Cursors and batches\<close>

record event_cursor =
  cu_journal_id :: string
  cu_offset :: int

definition event_cursor_post_init :: "event_cursor \<Rightarrow> event_error + unit" where
  "event_cursor_post_init c = run_checks [
     require_operational_id (cu_journal_id c) (Some ''event-journal''),
     require_safe_integer (cu_offset c) False]"

definition event_cursor_new :: "event_cursor \<Rightarrow> event_error + event_cursor" where
  "event_cursor_new c = ebind (event_cursor_post_init c) (\<lambda>_. Inr c)"

text \<open>\<open>StoredEvent\<close>: the offset of an event and the event.\<close>

type_synonym stored_event = "int \<times> lifecycle_event"

definition stored_event_new :: "int \<Rightarrow> lifecycle_event \<Rightarrow> event_error + stored_event" where
  "stored_event_new offset e = ebind (require_safe_integer offset True) (\<lambda>_. Inr (offset, e))"

record event_batch =
  eb_cursor :: event_cursor
  eb_events :: "stored_event list"
  eb_oldest_retained_offset :: "int option"
  eb_newest_retained_offset :: "int option"
  eb_has_more :: bool

definition nonzero :: "int option \<Rightarrow> int" where
  "nonzero v = (case v of None \<Rightarrow> 0 | Some n \<Rightarrow> n)"

definition event_batch_post_init :: "event_batch \<Rightarrow> event_error + unit" where
  "event_batch_post_init b = run_checks [
     refuse ((eb_oldest_retained_offset b = None) \<noteq> (eb_newest_retained_offset b = None))
       (EventModelError ''event retention bounds must both be present or absent''),
     (case eb_oldest_retained_offset b of
        None \<Rightarrow> Inr ()
      | Some oldest \<Rightarrow> run_checks [
          require_safe_integer oldest True,
          require_safe_integer (nonzero (eb_newest_retained_offset b)) True,
          refuse (oldest > nonzero (eb_newest_retained_offset b)) (EventModelError ''event retention bounds are reversed'')]),
     (case eb_events b of
        [] \<Rightarrow> Inr ()
      | first # _ \<Rightarrow>
          (let offsets = map fst (eb_events b) in
           run_checks [
             refuse (offsets \<noteq> [fst first..fst first + int (length offsets) - 1])
               (EventModelError ''event batch offsets are not contiguous''),
             refuse (cu_offset (eb_cursor b) \<noteq> last offsets)
               (EventModelError ''event batch cursor does not identify its last event'')]))]"

definition event_batch_new :: "event_batch \<Rightarrow> event_error + event_batch" where
  "event_batch_new b = ebind (event_batch_post_init b) (\<lambda>_. Inr b)"

section \<open>Documents\<close>

definition stored_event_to_dict :: "state_library \<Rightarrow> stored_event \<Rightarrow> event_error + json" where
  "stored_event_to_dict lib v = ebind (event_document lib (snd v)) (\<lambda>document.
     Inr (JObj [(''event'', document), (''offset'', JInt (fst v))]))"

definition event_cursor_to_dict :: "event_cursor \<Rightarrow> json" where
  "event_cursor_to_dict c = JObj [
     (''journal_id'', JStr (cu_journal_id c)), (''offset'', JInt (cu_offset c)), (''schema_version'', JStr ''event-cursor.v1'')]"

definition event_batch_to_dict :: "state_library \<Rightarrow> event_batch \<Rightarrow> event_error + json" where
  "event_batch_to_dict lib b = ebind (mapE (stored_event_to_dict lib) (eb_events b)) (\<lambda>events. Inr (JObj [
     (''cursor'', event_cursor_to_dict (eb_cursor b)),
     (''events'', JArr events),
     (''has_more'', JBool (eb_has_more b)),
     (''newest_retained_offset'', JOpt JInt (eb_newest_retained_offset b)),
     (''oldest_retained_offset'', JOpt JInt (eb_oldest_retained_offset b)),
     (''schema_version'', JStr ''event-batch.v1'')]))"

end
