(* ===== verification/Event_Journal.thy ===== *)
theory Event_Journal
  imports Event_Models Operations
begin

text \<open>
  \<open>control-plane/.../event_store.py\<close>: the bounded journal of lifecycle events. Its tables are
  lists of rows, its metadata a record; a transaction that raises leaves them unchanged. Every
  method holds the mutex, so it is one step; a subscription releases it between its reads. The
  file, its lock and the structural checks of SQLite are outside the model. A stored text whose
  members have other JSON types than the fields of an event is refused as corrupt.
\<close>

section \<open>Tables\<close>

record event_row =
  er_offset :: int
  er_event_id :: string
  er_stream_id :: string
  er_stream_sequence :: int
  er_draft_sha256 :: string
  er_event_json :: string
  er_event_digest :: string
  er_previous_chain_sha256 :: string
  er_chain_sha256 :: string
  er_occurred_at :: string

record head_row =
  sh_stream_id :: string
  sh_operation_kind :: string
  sh_last_sequence :: int
  sh_attempt :: int
  sh_current_value :: "int option"
  sh_total_value :: "int option"
  sh_unit :: "string option"
  sh_terminal :: bool

record event_db =
  ev_journal_id :: string
  ev_last_offset :: int
  ev_oldest_offset :: int
  ev_maximum_events :: int
  ev_retained_anchor_sha256 :: string
  ev_tail_chain_sha256 :: string
  ev_rows :: "event_row list"
  ev_heads :: "head_row list"

record event_session =
  es_library :: state_library
  es_clock :: "nat \<Rightarrow> timestamp"
  es_event_ids :: "nat \<Rightarrow> string"

record event_world =
  vw_db :: event_db
  vw_ids :: nat
  vw_ticks :: nat
  vw_closed :: bool

type_synonym 'a event_action = "(event_world, event_error, 'a) operation"

definition events_by_offset :: "event_db \<Rightarrow> event_row list" where
  "events_by_offset db = sort_key er_offset (ev_rows db)"

definition stream_rows :: "event_db \<Rightarrow> string \<Rightarrow> event_row list" where
  "stream_rows db stream = sort_key er_stream_sequence (filter (\<lambda>r. er_stream_id r = stream) (ev_rows db))"

definition head_of :: "event_db \<Rightarrow> string \<Rightarrow> head_row option" where
  "head_of db stream = find (\<lambda>h. sh_stream_id h = stream) (ev_heads db)"

section \<open>Digests and stored texts\<close>

definition draft_document :: "event_draft \<Rightarrow> json" where
  "draft_document d = JObj [
     (''attempt'', JInt (ed_attempt d)),
     (''attributes'', JObj (attributes_object d)),
     (''causation_id'', JOpt JStr (ed_causation_id d)),
     (''correlation_id'', JOpt JStr (ed_correlation_id d)),
     (''current'', JOpt JInt (ed_current d)),
     (''event_type'', JStr (ed_event_type d)),
     (''message'', JStr (ed_message d)),
     (''operation_kind'', JStr (ed_operation_kind d)),
     (''phase'', JStr (ed_phase d)),
     (''status'', JStr (ed_status d)),
     (''stream_id'', JStr (ed_stream_id d)),
     (''terminal'', JBool (ed_terminal d)),
     (''total'', JOpt JInt (ed_total d)),
     (''unit'', JOpt JStr (ed_unit d))]"

definition draft_digest :: "state_library \<Rightarrow> event_draft \<Rightarrow> event_error + string" where
  "draft_digest lib d = ebind (canonical_json lib (draft_document d)) (\<lambda>s. Inr (sl_sha256 lib s))"

definition snapshot_draft :: "state_library \<Rightarrow> event_draft \<Rightarrow> event_error + event_draft" where
  "snapshot_draft lib d =
     ebind (canonical_object lib (attributes_object d)) (\<lambda>(s, h).
     ebind (parse_canonical_object lib s) (\<lambda>fs.
     event_draft_new lib (d\<lparr>ed_attributes := Some fs\<rparr>)))"

definition draft_from_event :: "state_library \<Rightarrow> lifecycle_event \<Rightarrow> event_error + event_draft" where
  "draft_from_event lib e =
     ebind (parse_canonical_object lib (le_attributes_json e)) (\<lambda>fs. event_draft_new lib (event_draft_of e fs))"

definition chain_document :: "int \<Rightarrow> string \<Rightarrow> json \<Rightarrow> json" where
  "chain_document offset previous document = JObj [
     (''event'', document), (''offset'', JInt offset), (''previous_chain_sha256'', JStr previous)]"

definition chain_digest :: "state_library \<Rightarrow> int \<Rightarrow> string \<Rightarrow> lifecycle_event \<Rightarrow> event_error + string" where
  "chain_digest lib offset previous e =
     ebind (event_document lib e) (\<lambda>document.
     ebind (canonical_json lib (chain_document offset previous document)) (\<lambda>s. Inr (sl_sha256 lib s)))"

definition model_violation :: event_error where
  "model_violation = JournalCorruption ''stored lifecycle event violates its model''"

definition string_field :: "(string \<times> json) list \<Rightarrow> string \<Rightarrow> event_error + string" where
  "string_field fs n = (case map_of fs n of Some (JStr s) \<Rightarrow> Inr s | _ \<Rightarrow> Inl model_violation)"

definition int_field :: "(string \<times> json) list \<Rightarrow> string \<Rightarrow> event_error + int" where
  "int_field fs n = (case map_of fs n of Some (JInt i) \<Rightarrow> Inr i | _ \<Rightarrow> Inl model_violation)"

definition bool_field :: "(string \<times> json) list \<Rightarrow> string \<Rightarrow> event_error + bool" where
  "bool_field fs n = (case map_of fs n of Some (JBool b) \<Rightarrow> Inr b | _ \<Rightarrow> Inl model_violation)"

definition optional_field ::
    "((string \<times> json) list \<Rightarrow> string \<Rightarrow> event_error + 'a) \<Rightarrow> (string \<times> json) list \<Rightarrow> string \<Rightarrow> event_error + 'a option" where
  "optional_field field fs n =
     (if map_of fs n = Some JNull then Inr None else ebind (field fs n) (\<lambda>v. Inr (Some v)))"

definition event_of_document :: "state_library \<Rightarrow> (string \<times> json) list \<Rightarrow> event_error + lifecycle_event" where
  "event_of_document lib fs =
     ebind (case map_of fs ''attributes'' of None \<Rightarrow> Inl model_violation | Some v \<Rightarrow> canonical_json lib v) (\<lambda>attributes_json.
     ebind (string_field fs ''event_id'') (\<lambda>event_id.
     ebind (string_field fs ''stream_id'') (\<lambda>stream_id.
     ebind (int_field fs ''stream_sequence'') (\<lambda>stream_sequence.
     ebind (string_field fs ''operation_kind'') (\<lambda>operation_kind.
     ebind (string_field fs ''event_type'') (\<lambda>event_type.
     ebind (string_field fs ''phase'') (\<lambda>phase.
     ebind (string_field fs ''status'') (\<lambda>status.
     ebind (int_field fs ''attempt'') (\<lambda>attempt.
     ebind (string_field fs ''occurred_at'') (\<lambda>occurred_at.
     ebind (optional_field int_field fs ''current'') (\<lambda>current.
     ebind (optional_field int_field fs ''total'') (\<lambda>whole.
     ebind (optional_field string_field fs ''unit'') (\<lambda>progress_unit.
     ebind (string_field fs ''message'') (\<lambda>message.
     ebind (optional_field string_field fs ''correlation_id'') (\<lambda>correlation_id.
     ebind (optional_field string_field fs ''causation_id'') (\<lambda>causation_id.
     ebind (string_field fs ''attributes_sha256'') (\<lambda>attributes_sha256.
     ebind (bool_field fs ''terminal'') (\<lambda>terminal.
     ebind (string_field fs ''event_digest'') (\<lambda>event_digest.
     ebind (bool_field fs ''canonical_authority'') (\<lambda>canonical_authority.
     ebind (string_field fs ''schema_version'') (\<lambda>schema_version.
     lifecycle_event_new lib \<lparr>
       le_event_id = event_id, le_stream_id = stream_id, le_stream_sequence = stream_sequence,
       le_operation_kind = operation_kind, le_event_type = event_type, le_phase = phase, le_status = status,
       le_attempt = attempt, le_occurred_at = occurred_at, le_current = current, le_total = whole,
       le_unit = progress_unit, le_message = message, le_correlation_id = correlation_id,
       le_causation_id = causation_id, le_attributes_json = attributes_json,
       le_attributes_sha256 = attributes_sha256, le_terminal = terminal, le_event_digest = event_digest,
       le_canonical_authority = canonical_authority, le_schema_version = schema_version\<rparr>)))))))))))))))))))))"

definition as_corruption :: "event_error + 'a \<Rightarrow> event_error + 'a" where
  "as_corruption r = (case r of Inl _ \<Rightarrow> Inl model_violation | Inr x \<Rightarrow> Inr x)"

definition event_from_json :: "state_library \<Rightarrow> string \<Rightarrow> event_error + lifecycle_event" where
  "event_from_json lib v =
     (case sl_loads lib v of
        None \<Rightarrow> Inl (JournalCorruption ''stored lifecycle event is not JSON'')
      | Some (JObj fs) \<Rightarrow>
          ebind (as_corruption (canonical_json lib (JObj fs))) (\<lambda>s.
          if s \<noteq> v then Inl (JournalCorruption ''stored lifecycle event is not canonical JSON'')
          else as_corruption (event_of_document lib fs))
      | Some _ \<Rightarrow> Inl (JournalCorruption ''stored lifecycle event is not canonical JSON''))"

section \<open>Verification\<close>

definition verify_event_row ::
    "state_library \<Rightarrow> int \<Rightarrow> string \<Rightarrow> (string \<times> int) list \<Rightarrow> event_row \<Rightarrow> event_error + string \<times> int \<times> string" where
  "verify_event_row lib expected_offset previous stream_sequences r =
     ebind (refuse (er_offset r \<noteq> expected_offset) (JournalCorruption ''retained event offsets are not contiguous'')) (\<lambda>_.
     ebind (event_from_json lib (er_event_json r)) (\<lambda>e.
     ebind (run_checks [
       refuse (le_event_id e \<noteq> er_event_id r \<or> le_event_digest e \<noteq> er_event_digest r)
         (JournalCorruption ''event row identity does not match serialized content''),
       refuse (le_stream_id e \<noteq> er_stream_id r \<or> le_stream_sequence e \<noteq> er_stream_sequence r)
         (JournalCorruption ''event stream coordinates do not match serialized content''),
       refuse (er_occurred_at r \<noteq> le_occurred_at e)
         (JournalCorruption ''event occurrence column does not match serialized content''),
       ebind (ebind (draft_from_event lib e) (draft_digest lib)) (\<lambda>digest. refuse (er_draft_sha256 r \<noteq> digest)
         (JournalCorruption ''event draft digest does not match serialized content'')),
       refuse (case map_of stream_sequences (le_stream_id e) of None \<Rightarrow> False | Some p \<Rightarrow> le_stream_sequence e \<noteq> p + 1)
         (JournalCorruption ''retained event stream sequence is not contiguous''),
       refuse (er_previous_chain_sha256 r \<noteq> previous) (JournalCorruption ''event chain predecessor is inconsistent'')]) (\<lambda>_.
     ebind (chain_digest lib (er_offset r) previous e) (\<lambda>expected_chain.
     ebind (refuse (er_chain_sha256 r \<noteq> expected_chain) (JournalCorruption ''event journal chain digest is invalid'')) (\<lambda>_.
     Inr (le_stream_id e, le_stream_sequence e, expected_chain))))))"

fun verify_event_rows ::
    "state_library \<Rightarrow> int \<Rightarrow> string \<Rightarrow> (string \<times> int) list \<Rightarrow> event_row list \<Rightarrow> event_error + string \<times> (string \<times> int) list" where
  "verify_event_rows lib expected_offset previous stream_sequences [] = Inr (previous, stream_sequences)"
| "verify_event_rows lib expected_offset previous stream_sequences (r # rs) =
     ebind (verify_event_row lib expected_offset previous stream_sequences r) (\<lambda>(stream, sequence, chain).
     verify_event_rows lib (expected_offset + 1) chain ((stream, sequence) # stream_sequences) rs)"

definition verify_head :: "state_library \<Rightarrow> event_db \<Rightarrow> head_row \<Rightarrow> event_error + unit" where
  "verify_head lib db h = run_checks [
     refuse (\<not> is_operational_id (sh_stream_id h)) (JournalCorruption ''event stream head contains an invalid stream ID''),
     refuse (\<not> (1 \<le> sh_last_sequence h \<and> sh_last_sequence h \<le> SAFE_INTEGER_MAX) \<or>
         \<not> (1 \<le> sh_attempt h \<and> sh_attempt h \<le> SAFE_INTEGER_MAX))
       (JournalCorruption ''event stream head coordinates are outside the safe-integer domain''),
     (if stream_rows db (sh_stream_id h) = []
      then refuse (sh_terminal h) (JournalCorruption ''terminal event stream head survived complete retention eviction'')
      else ebind (event_from_json lib (er_event_json (last (stream_rows db (sh_stream_id h))))) (\<lambda>e.
        refuse (sh_operation_kind h \<noteq> le_operation_kind e \<or> sh_last_sequence h \<noteq> le_stream_sequence e \<or>
            sh_attempt h \<noteq> le_attempt e \<or> sh_terminal h \<noteq> le_terminal e \<or>
            le_current e \<noteq> None \<and> sh_current_value h \<noteq> le_current e \<or>
            le_total e \<noteq> None \<and> sh_total_value h \<noteq> le_total e \<or>
            le_unit e \<noteq> None \<and> sh_unit h \<noteq> le_unit e)
          (JournalCorruption ''event stream head disagrees with its latest retained event'')))]"

definition verify_metadata :: "int option \<Rightarrow> event_db \<Rightarrow> event_error + unit" where
  "verify_metadata requested_maximum db = run_checks [
     refuse (\<not> is_opid ''event-journal'' (ev_journal_id db)) (JournalCorruption ''event journal ID is invalid''),
     refuse (\<not> (1 \<le> ev_maximum_events db \<and> ev_maximum_events db \<le> 1000000))
       (JournalCorruption ''event journal retention metadata is outside the supported domain''),
     refuse (case requested_maximum of None \<Rightarrow> False | Some m \<Rightarrow> ev_maximum_events db \<noteq> m)
       (JournalConflict ''configured event retention differs from the durable journal policy''),
     refuse (\<not> safe_integer (ev_last_offset db) \<or> \<not> safe_integer (ev_oldest_offset db))
       (JournalCorruption ''event journal offset is outside the safe-integer domain''),
     refuse (\<not> is_sha256 (ev_retained_anchor_sha256 db) \<or> \<not> is_sha256 (ev_tail_chain_sha256 db))
       (JournalCorruption ''event journal chain metadata is malformed''),
     refuse (int (length (ev_rows db)) > ev_maximum_events db)
       (JournalCorruption ''event journal exceeds its retention policy'')]"

definition verify_empty :: "state_library \<Rightarrow> event_db \<Rightarrow> event_error + unit" where
  "verify_empty lib db = run_checks [
     refuse (ev_last_offset db \<noteq> 0 \<or> ev_oldest_offset db \<noteq> 0 \<or>
         ev_tail_chain_sha256 db \<noteq> sl_sha256 lib '''' \<or> ev_retained_anchor_sha256 db \<noteq> sl_sha256 lib '''')
       (JournalCorruption ''empty event journal metadata is inconsistent''),
     refuse (ev_heads db \<noteq> []) (JournalCorruption ''empty event journal retains a stream head'')]"

definition verify_journal :: "state_library \<Rightarrow> int option \<Rightarrow> event_db \<Rightarrow> event_error + unit" where
  "verify_journal lib requested_maximum db =
     ebind (verify_metadata requested_maximum db) (\<lambda>_.
     let rows = events_by_offset db in
     if rows = [] then verify_empty lib db
     else
       ebind (refuse (er_offset (hd rows) \<noteq> ev_oldest_offset db \<or> er_offset (last rows) \<noteq> ev_last_offset db)
         (JournalCorruption ''event retention bounds disagree with stored rows'')) (\<lambda>_.
       ebind (verify_event_rows lib (ev_oldest_offset db) (ev_retained_anchor_sha256 db) [] rows) (\<lambda>(previous, stream_sequences).
       run_checks [
         refuse (previous \<noteq> ev_tail_chain_sha256 db) (JournalCorruption ''event journal tail digest is inconsistent''),
         run_checks (map (verify_head lib db) (sort_key sh_stream_id (ev_heads db))),
         refuse (\<not> fst ` set stream_sequences \<subseteq> sh_stream_id ` set (ev_heads db))
           (JournalCorruption ''retained event stream is missing its durable head'')])))"

section \<open>Opening\<close>

definition new_event_db :: "state_library \<Rightarrow> string \<Rightarrow> int \<Rightarrow> event_db" where
  "new_event_db lib journal_id maximum_events = \<lparr>
     ev_journal_id = journal_id, ev_last_offset = 0, ev_oldest_offset = 0, ev_maximum_events = maximum_events,
     ev_retained_anchor_sha256 = sl_sha256 lib '''', ev_tail_chain_sha256 = sl_sha256 lib '''',
     ev_rows = [], ev_heads = []\<rparr>"

text \<open>\<open>EventJournal.open\<close> on a new file (with the identifier that the generator returns) or an existing one.\<close>

definition open_event_journal :: "state_library \<Rightarrow> string \<Rightarrow> int \<Rightarrow> event_db option \<Rightarrow> event_error + event_db" where
  "open_event_journal lib new_journal_id maximum_events existing =
     ebind (refuse (\<not> (1 \<le> maximum_events \<and> maximum_events \<le> 1000000))
       (EventValueError ''event retention must be between 1 and 1,000,000 events'')) (\<lambda>_.
     ebind (case existing of
         Some db \<Rightarrow> Inr db
       | None \<Rightarrow>
           ebind (refuse (take 25 new_journal_id \<noteq> ''opid:v1:event-journal:u7:'')
             (EventModelError ''event journal ID generator returned the wrong namespace'')) (\<lambda>_.
           Inr (new_event_db lib new_journal_id maximum_events))) (\<lambda>db.
     ebind (verify_journal lib (Some maximum_events) db) (\<lambda>_. Inr db)))"

section \<open>Publishing\<close>

definition read_event_db :: "(event_db \<Rightarrow> event_error + 'a) \<Rightarrow> 'a event_action" where
  "read_event_db f w = (f (vw_db w), w)"

definition change_event_db :: "(event_db \<Rightarrow> event_error + event_db) \<Rightarrow> unit event_action" where
  "change_event_db f w = (case f (vw_db w) of Inl e \<Rightarrow> (Inl e, w) | Inr d \<Rightarrow> (Inr (), w\<lparr>vw_db := d\<rparr>))"

definition ensure_open :: "unit event_action" where
  "ensure_open w = (if vw_closed w then Inl JournalClosed else Inr (), w)"

definition event_transaction :: "'a event_action \<Rightarrow> 'a event_action" where
  "event_transaction m w = (case m w of (Inl e, w') \<Rightarrow> (Inl e, w'\<lparr>vw_db := vw_db w\<rparr>) | (Inr x, w') \<Rightarrow> (Inr x, w'))"

definition event_stamp :: "event_session \<Rightarrow> string event_action" where
  "event_stamp s w =
     ((case es_clock s (vw_ticks w) of
         Aware i \<Rightarrow> Inr (sl_isoformat (es_library s) i)
       | _ \<Rightarrow> Inl (EventModelError ''event clock must be timezone-aware'')), w\<lparr>vw_ticks := vw_ticks w + 1\<rparr>)"

text \<open>\<open>event_id or self._ids.new_event_id()\<close>.\<close>

definition select_event_id :: "event_session \<Rightarrow> string option \<Rightarrow> string event_action" where
  "select_event_id s event_id w =
     (case event_id of
        Some (c # cs) \<Rightarrow> (Inr (c # cs), w)
      | _ \<Rightarrow> (Inr (es_event_ids s (vw_ids w)), w\<lparr>vw_ids := vw_ids w + 1\<rparr>))"

definition replayed_event :: "state_library \<Rightarrow> string \<Rightarrow> event_row \<Rightarrow> event_error + stored_event" where
  "replayed_event lib request_digest r =
     ebind (refuse (er_draft_sha256 r \<noteq> request_digest) (JournalConflict ''event ID was reused with different content'')) (\<lambda>_.
     ebind (event_from_json lib (er_event_json r)) (stored_event_new (er_offset r)))"

definition check_new_stream :: "event_db \<Rightarrow> event_draft \<Rightarrow> event_error + unit" where
  "check_new_stream db d = run_checks [
     refuse (int (length (filter (\<lambda>h. \<not> sh_terminal h) (ev_heads db))) \<ge> ev_maximum_events db)
       (JournalConflict ''active event streams reached the bounded journal policy''),
     refuse (ed_attempt d \<noteq> 1) (JournalConflict ''a new event stream must begin with attempt one'')]"

definition check_next_event :: "head_row \<Rightarrow> event_draft \<Rightarrow> event_error + unit" where
  "check_next_event h d = run_checks [
     refuse (sh_terminal h) (JournalConflict ''terminal event streams are immutable''),
     refuse (sh_operation_kind h \<noteq> ed_operation_kind d) (JournalConflict ''event stream operation kind changed''),
     refuse (ed_attempt d \<notin> {sh_attempt h, sh_attempt h + 1}) (JournalConflict ''event attempt sequence is not contiguous''),
     (if ed_attempt d = sh_attempt h + 1
      then refuse (ed_status d \<noteq> ''resumed'' \<or> ed_current d \<noteq> sh_current_value h)
        (JournalConflict ''a resumed attempt must bind the prior durable coordinate'')
      else refuse (ed_status d = ''resumed'') (JournalConflict ''resumed status requires a new attempt'')),
     refuse (case (ed_current d, sh_current_value h) of (Some current, Some prior) \<Rightarrow> current < prior | _ \<Rightarrow> False)
       (JournalConflict ''event progress moved backward''),
     refuse (sh_unit h \<noteq> None \<and> ed_unit d \<noteq> sh_unit h) (JournalConflict ''event progress unit changed''),
     refuse (sh_total_value h \<noteq> None \<and> ed_total d \<notin> {None, sh_total_value h})
       (JournalConflict ''event progress total changed''),
     refuse (sh_last_sequence h + 1 > SAFE_INTEGER_MAX)
       (JournalConflict ''event stream exhausted the safe-integer sequence domain'')]"

definition next_coordinates :: "event_db \<Rightarrow> event_draft \<Rightarrow> event_error + int \<times> int" where
  "next_coordinates db d =
     ebind (refuse (ev_last_offset db + 1 > SAFE_INTEGER_MAX)
       (JournalConflict ''event journal exhausted the safe-integer offset domain'')) (\<lambda>_.
     case head_of db (ed_stream_id d) of
       None \<Rightarrow> ebind (check_new_stream db d) (\<lambda>_. Inr (ev_last_offset db + 1, 1))
     | Some h \<Rightarrow> ebind (check_next_event h d) (\<lambda>_. Inr (ev_last_offset db + 1, sh_last_sequence h + 1)))"

definition insert_event_row :: "event_row \<Rightarrow> event_db \<Rightarrow> event_error + event_db" where
  "insert_event_row r db =
     (if \<exists>q \<in> set (ev_rows db). er_offset q = er_offset r \<or> er_event_id q = er_event_id r \<or>
         er_stream_id q = er_stream_id r \<and> er_stream_sequence q = er_stream_sequence r
      then Inl SqlConstraint else Inr (db\<lparr>ev_rows := ev_rows db @ [r]\<rparr>))"

definition next_head :: "head_row option \<Rightarrow> event_draft \<Rightarrow> int \<Rightarrow> head_row" where
  "next_head head d sequence = \<lparr>
     sh_stream_id = ed_stream_id d,
     sh_operation_kind = (case head of None \<Rightarrow> ed_operation_kind d | Some h \<Rightarrow> sh_operation_kind h),
     sh_last_sequence = sequence, sh_attempt = ed_attempt d,
     sh_current_value = (if ed_current d \<noteq> None then ed_current d else case head of None \<Rightarrow> None | Some h \<Rightarrow> sh_current_value h),
     sh_total_value = (if ed_total d \<noteq> None then ed_total d else case head of None \<Rightarrow> None | Some h \<Rightarrow> sh_total_value h),
     sh_unit = (if ed_unit d \<noteq> None then ed_unit d else case head of None \<Rightarrow> None | Some h \<Rightarrow> sh_unit h),
     sh_terminal = ed_terminal d\<rparr>"

definition upsert_head :: "event_draft \<Rightarrow> int \<Rightarrow> event_db \<Rightarrow> event_db" where
  "upsert_head d sequence db =
     (case head_of db (ed_stream_id d) of
        None \<Rightarrow> db\<lparr>ev_heads := ev_heads db @ [next_head None d sequence]\<rparr>
      | Some h \<Rightarrow> db\<lparr>ev_heads :=
          map (\<lambda>g. if sh_stream_id g = ed_stream_id d then next_head (Some h) d sequence else g) (ev_heads db)\<rparr>)"

definition evict :: "int \<Rightarrow> string \<Rightarrow> event_db \<Rightarrow> event_db" where
  "evict offset chain db =
     (let excess = int (length (ev_rows db)) - ev_maximum_events db;
          oldest = (if ev_oldest_offset db = 0 then offset else ev_oldest_offset db) in
      if excess > 0 then
        (let removed = take (nat excess) (events_by_offset db);
             cutoff = er_offset (last removed);
             retained = filter (\<lambda>r. \<not> er_offset r \<le> cutoff) (ev_rows db) in
         db\<lparr>ev_rows := retained,
            ev_heads := filter (\<lambda>h. \<not> (sh_terminal h \<and> sh_stream_id h \<notin> er_stream_id ` set retained)) (ev_heads db),
            ev_last_offset := offset, ev_oldest_offset := cutoff + 1,
            ev_retained_anchor_sha256 := er_chain_sha256 (last removed), ev_tail_chain_sha256 := chain\<rparr>)
      else db\<lparr>ev_last_offset := offset, ev_oldest_offset := oldest, ev_tail_chain_sha256 := chain\<rparr>)"

definition append_event :: "state_library \<Rightarrow> event_draft \<Rightarrow> string \<Rightarrow> int \<Rightarrow> lifecycle_event \<Rightarrow> event_db \<Rightarrow> event_error + event_db" where
  "append_event lib d request_digest offset e db =
     ebind (chain_digest lib offset (ev_tail_chain_sha256 db) e) (\<lambda>chain.
     ebind (ebind (event_document lib e) (canonical_json lib)) (\<lambda>event_json.
     ebind (insert_event_row \<lparr>
         er_offset = offset, er_event_id = le_event_id e, er_stream_id = le_stream_id e,
         er_stream_sequence = le_stream_sequence e, er_draft_sha256 = request_digest, er_event_json = event_json,
         er_event_digest = le_event_digest e, er_previous_chain_sha256 = ev_tail_chain_sha256 db,
         er_chain_sha256 = chain, er_occurred_at = le_occurred_at e\<rparr> db) (\<lambda>inserted.
     Inr (evict offset chain (upsert_head d (le_stream_sequence e) inserted)))))"

text \<open>The steps of a new event, and the body of the transaction.\<close>

definition record_event :: "event_session \<Rightarrow> event_draft \<Rightarrow> string \<Rightarrow> string \<Rightarrow> stored_event event_action" where
  "record_event s d selected_id request_digest =
     op_bind (read_event_db (\<lambda>db. next_coordinates db d)) (\<lambda>(offset, sequence).
     op_bind (event_stamp s) (\<lambda>occurred_at.
     op_bind (op_lift (build_event (es_library s) selected_id sequence occurred_at d)) (\<lambda>e.
     op_bind (change_event_db (append_event (es_library s) d request_digest offset e)) (\<lambda>_.
     op_lift (stored_event_new offset e)))))"

definition publish_selected :: "event_session \<Rightarrow> event_draft \<Rightarrow> string \<Rightarrow> string \<Rightarrow> stored_event event_action" where
  "publish_selected s d selected_id request_digest =
     op_bind (read_event_db (\<lambda>db. Inr (find (\<lambda>r. er_event_id r = selected_id) (ev_rows db)))) (\<lambda>existing.
     case existing of
       Some r \<Rightarrow> op_lift (replayed_event (es_library s) request_digest r)
     | None \<Rightarrow> record_event s d selected_id request_digest)"

definition publish_event :: "event_session \<Rightarrow> event_draft \<Rightarrow> string option \<Rightarrow> stored_event event_action" where
  "publish_event s draft event_id =
     op_bind (op_lift (snapshot_draft (es_library s) draft)) (\<lambda>d.
     op_bind (select_event_id s event_id) (\<lambda>selected_id.
     op_bind (op_lift (refuse (\<not> is_opid ''lifecycle-event'' selected_id)
       (EventModelError ''event ID generator returned the wrong namespace''))) (\<lambda>_.
     op_bind (op_lift (draft_digest (es_library s) d)) (\<lambda>request_digest.
     op_bind ensure_open (\<lambda>_.
     event_transaction (publish_selected s d selected_id request_digest))))))"

section \<open>Reading\<close>

definition requested_offset :: "event_db \<Rightarrow> event_cursor option \<Rightarrow> int" where
  "requested_offset db cursor =
     (case cursor of
        None \<Rightarrow> (if ev_oldest_offset db \<noteq> 0 then ev_oldest_offset db - 1 else 0)
      | Some c \<Rightarrow> cu_offset c)"

definition stored_event_of :: "state_library \<Rightarrow> event_row \<Rightarrow> event_error + stored_event" where
  "stored_event_of lib r = ebind (event_from_json lib (er_event_json r)) (stored_event_new (er_offset r))"

definition select_batch :: "state_library \<Rightarrow> event_cursor option \<Rightarrow> int \<Rightarrow> event_db \<Rightarrow> event_error + event_batch" where
  "select_batch lib cursor maximum_events db =
     (let oldest = ev_oldest_offset db; newest = ev_last_offset db; requested = requested_offset db cursor in
      ebind (run_checks [
        refuse (case cursor of None \<Rightarrow> False | Some c \<Rightarrow> cu_journal_id c \<noteq> ev_journal_id db)
          (JournalConflict ''event cursor belongs to another journal''),
        refuse (oldest \<noteq> 0 \<and> requested < oldest - 1) (CursorGap requested oldest),
        refuse (requested > newest) (JournalConflict ''event cursor is ahead of the journal tail'')]) (\<lambda>_.
      let rows = take (nat (maximum_events + 1)) (filter (\<lambda>r. er_offset r > requested) (events_by_offset db));
          has_more = int (length rows) > maximum_events in
      ebind (mapE (stored_event_of lib) (take (nat maximum_events) rows)) (\<lambda>events.
      ebind (event_cursor_new \<lparr>cu_journal_id = ev_journal_id db,
          cu_offset = (if events \<noteq> [] then fst (last events) else requested)\<rparr>) (\<lambda>reached.
      event_batch_new \<lparr>
        eb_cursor = reached, eb_events = events,
        eb_oldest_retained_offset = (if oldest = 0 then None else Some oldest),
        eb_newest_retained_offset = (if newest = 0 then None else Some newest),
        eb_has_more = has_more\<rparr>))))"

definition read_events :: "event_session \<Rightarrow> event_cursor option \<Rightarrow> int \<Rightarrow> event_batch event_action" where
  "read_events s cursor maximum_events =
     op_bind (op_lift (refuse (\<not> (1 \<le> maximum_events \<and> maximum_events \<le> 10000))
       (EventValueError ''event batch size must be between 1 and 10,000''))) (\<lambda>_.
     op_bind ensure_open (\<lambda>_.
     read_event_db (select_batch (es_library s) cursor maximum_events)))"

definition read_stream :: "event_session \<Rightarrow> string \<Rightarrow> lifecycle_event list event_action" where
  "read_stream s stream_id =
     op_bind (op_lift (refuse (\<not> is_operational_id stream_id)
       (EventModelError ''event stream ID must be an operational UUIDv7''))) (\<lambda>_.
     op_bind ensure_open (\<lambda>_.
     read_event_db (\<lambda>db. mapE (\<lambda>r. event_from_json (es_library s) (er_event_json r)) (stream_rows db stream_id))))"

definition current_cursor :: "event_cursor event_action" where
  "current_cursor =
     op_bind ensure_open (\<lambda>_.
     read_event_db (\<lambda>db. event_cursor_new \<lparr>cu_journal_id = ev_journal_id db, cu_offset = ev_last_offset db\<rparr>))"

record health_report =
  hr_journal_id :: string
  hr_last_offset :: int
  hr_maximum_events :: int
  hr_oldest_offset :: int
  hr_retained_event_count :: int

definition health_check :: "event_session \<Rightarrow> health_report event_action" where
  "health_check s =
     op_bind ensure_open (\<lambda>_.
     read_event_db (\<lambda>db. ebind (verify_journal (es_library s) None db) (\<lambda>_.
       Inr \<lparr>hr_journal_id = ev_journal_id db, hr_last_offset = ev_last_offset db,
         hr_maximum_events = ev_maximum_events db, hr_oldest_offset = ev_oldest_offset db,
         hr_retained_event_count = int (length (ev_rows db))\<rparr>)))"

definition close_journal :: "unit event_action" where
  "close_journal w = (Inr (), w\<lparr>vw_closed := True\<rparr>)"

section \<open>Subscriptions\<close>

text \<open>
  A subscription is its cursor. \<open>others 0\<close> is what other threads do to the journal between the
  first read and the wait, \<open>others 1\<close> what they do while it waits and until it reads again. The
  timeout is in whole seconds.
\<close>

definition next_batch ::
    "event_session \<Rightarrow> (nat \<Rightarrow> event_world \<Rightarrow> event_world) \<Rightarrow> event_cursor option \<Rightarrow> int \<Rightarrow> int option \<Rightarrow>
     (event_batch \<times> event_cursor option) event_action" where
  "next_batch s others cursor maximum_events timeout_seconds =
     op_bind (op_lift (refuse (case timeout_seconds of None \<Rightarrow> False | Some t \<Rightarrow> t < 0 \<or> t > 300)
       (EventValueError ''event subscription timeout must be between 0 and 300 seconds''))) (\<lambda>_.
     op_bind (read_events s cursor maximum_events) (\<lambda>batch.
     op_bind (if eb_events batch = [] \<and> timeout_seconds \<noteq> Some 0
         then op_bind (\<lambda>w. ensure_open (others 0 w)) (\<lambda>_ w. read_events s cursor maximum_events (others 1 w))
         else op_return batch) (\<lambda>batch.
     op_return (batch, Some (eb_cursor batch)))))"

end
