(* ===== verification/Event_Roundtrip.thy ===== *)
theory Event_Roundtrip
  imports Event_Journal
begin

text \<open>
  What the constructors establish, and that the stored text of a valid event is read back as
  that event: reading is the inverse of writing, so every digest of the journal can be recomputed.
\<close>

definition valid_event :: "state_library \<Rightarrow> lifecycle_event \<Rightarrow> bool" where
  "valid_event lib e \<longleftrightarrow> lifecycle_event_post_init lib e = Inr ()"

lemma lifecycle_event_new_Inr [simp]: "lifecycle_event_new lib e = Inr e' \<longleftrightarrow> valid_event lib e \<and> e' = e"
  by (auto simp: lifecycle_event_new_def valid_event_def)

lemma valid_eventD:
  assumes "valid_event lib e"
  obtains fs where "parse_canonical_object lib (le_attributes_json e) = Inr fs"
      "event_draft_post_init lib (event_draft_of e fs) = Inr ()"
    and "is_opid ''lifecycle-event'' (le_event_id e)" "1 \<le> le_stream_sequence e" "le_stream_sequence e \<le> SAFE_INTEGER_MAX"
      "\<exists>i. sl_fromisoformat lib (le_occurred_at e) = Aware i" "calculate_digest lib e = Inr (le_event_digest e)"
      "le_attributes_sha256 e = sl_sha256 lib (le_attributes_json e)"
      "\<not> le_canonical_authority e" "le_schema_version e = ''lifecycle-event.v1''"
proof -
  have checks: "is_opid ''lifecycle-event'' (le_event_id e)" "1 \<le> le_stream_sequence e" "le_stream_sequence e \<le> SAFE_INTEGER_MAX"
      "\<exists>i. sl_fromisoformat lib (le_occurred_at e) = Aware i" "calculate_digest lib e = Inr (le_event_digest e)"
      "le_attributes_sha256 e = sl_sha256 lib (le_attributes_json e)"
      "\<not> le_canonical_authority e" "le_schema_version e = ''lifecycle-event.v1''"
      "\<exists>fs. parse_canonical_object lib (le_attributes_json e) = Inr fs \<and> event_draft_post_init lib (event_draft_of e fs) = Inr ()"
    using assms
    by (auto simp: valid_event_def lifecycle_event_post_init_def require_operational_id_def require_safe_integer_def
        event_timestamp_def split: timestamp.splits)
  then show thesis using that by blast
qed

lemma opid_operational: "is_token n \<Longrightarrow> is_opid n s \<Longrightarrow> is_operational_id s"
  by (auto simp: is_opid_def is_operational_id_def split: list.splits)

lemma draft_fields:
  assumes "event_draft_post_init lib d = Inr ()"
  shows "is_operational_id (ed_stream_id d)" "1 \<le> ed_attempt d" "ed_attempt d \<le> SAFE_INTEGER_MAX"
    and "ed_current d = None \<Longrightarrow> ed_total d = None \<and> ed_unit d = None"
    and "ed_current d = Some c \<Longrightarrow> safe_integer c \<and> (\<exists>u \<in> set PROGRESS_UNITS. ed_unit d = Some u)"
    and "ed_current d = Some c \<Longrightarrow> ed_total d = Some n \<Longrightarrow> safe_integer n \<and> c \<le> n"
    and "ed_terminal d \<longleftrightarrow> ed_status d \<in> set TERMINAL_STATUSES"
    and "is_token (ed_operation_kind d)" "is_token (ed_phase d)" "is_token (ed_status d)"
  using assms
  by (auto simp: event_draft_post_init_def require_operational_id_def require_safe_integer_def require_event_token_def
      check_progress_def safe_integer_def split: option.splits)

section \<open>Reading what was written\<close>

lemma wire_JOpt [simp]: "wire (JOpt JStr v)" "wire (JOpt JInt n)"
  by (auto simp: JOpt_def split: option.splits)

lemma event_to_dict_wire: "wire (JObj fs) \<Longrightarrow> wire (event_to_dict e fs)"
  by (simp add: event_to_dict_def less_list_code less_char_def)

lemma string_field_found: "map_of fs n = Some (JStr s) \<Longrightarrow> string_field fs n = Inr s"
  and int_field_found: "map_of fs n = Some (JInt i) \<Longrightarrow> int_field fs n = Inr i"
  and bool_field_found: "map_of fs n = Some (JBool b) \<Longrightarrow> bool_field fs n = Inr b"
  by (simp_all add: string_field_def int_field_def bool_field_def)

lemma optional_string_found: "map_of fs n = Some (JOpt JStr v) \<Longrightarrow> optional_field string_field fs n = Inr v"
  and optional_int_found: "map_of fs n = Some (JOpt JInt i) \<Longrightarrow> optional_field int_field fs n = Inr i"
  by (auto simp: optional_field_def JOpt_def string_field_def int_field_def split: option.splits)

lemma event_of_event_to_dict:
  assumes "valid_event lib e" "parse_canonical_object lib (le_attributes_json e) = Inr fs" "event_to_dict e fs = JObj gs"
  shows "event_of_document lib gs = Inr e"
proof -
  have gs: "gs = (case event_to_dict e fs of JObj gs \<Rightarrow> gs)" using assms(3) by simp
  have "canonical_json lib (JObj fs) = Inr (le_attributes_json e)" using assms(2) by (simp add: parse_canonical_object_Inr)
  moreover have "\<not> le_canonical_authority e" using assms(1) by (rule valid_eventD)
  ultimately show ?thesis
    using assms(1) unfolding event_of_document_def gs event_to_dict_def
    by (cases e) (simp add: string_field_found int_field_found bool_field_found optional_string_found optional_int_found)
qed

lemma event_from_json_stored:
  assumes lib: "library_ok lib" and e: "valid_event lib e"
    and stored: "ebind (event_document lib e) (canonical_json lib) = Inr s"
  shows "event_from_json lib s = Inr e"
proof -
  obtain fs where fs: "parse_canonical_object lib (le_attributes_json e) = Inr fs"
    and s: "canonical_json lib (event_to_dict e fs) = Inr s"
    using stored by (auto simp: event_document_def)
  have "sl_loads lib s = Some (event_to_dict e fs)"
    using library_okD(1) [OF lib event_to_dict_wire [OF parsed_wire [OF lib fs]]] s by (simp add: canonical_json_Inr)
  moreover obtain gs where gs: "event_to_dict e fs = JObj gs" by (simp add: event_to_dict_def)
  ultimately show ?thesis
    using s event_of_event_to_dict [OF e fs gs] by (simp add: event_from_json_def as_corruption_def)
qed

text \<open>
  C10. What the journal stores of a valid event reads back as that event: the canonical text of the
  event's document, read by the reader of stored rows with every check of its constructor, gives
  the same event in every field.
\<close>

theorem stored_event_roundtrip:
  assumes "library_ok lib" "valid_event lib e"
    and "ebind (event_document lib e) (canonical_json lib) = Inr s"
  shows "event_from_json lib s = Inr e"
  using assms by (rule event_from_json_stored)

section \<open>Snapshots and new events\<close>

text \<open>The draft that is published: its attributes are what their own canonical text says.\<close>

definition snapshot_of :: "state_library \<Rightarrow> event_draft \<Rightarrow> bool" where
  "snapshot_of lib d \<longleftrightarrow> event_draft_post_init lib d = Inr () \<and>
     (\<exists>fs s. ed_attributes d = Some fs \<and> parse_canonical_object lib s = Inr fs)"

lemma snapshot_draft_Inr: "snapshot_draft lib d = Inr d' \<Longrightarrow> snapshot_of lib d'"
  by (auto simp: snapshot_draft_def snapshot_of_def event_draft_new_def)

lemma event_draft_of_values:
  "event_draft_of ((event_values i q t d s h)\<lparr>le_event_digest := g\<rparr>) fs = d\<lparr>ed_attributes := Some fs\<rparr>"
  by (cases d) (simp add: event_draft_of_def event_values_def)

lemma build_event_Inr:
  assumes d: "snapshot_of lib d" and build: "build_event lib event_id sequence occurred_at d = Inr e"
  shows "valid_event lib e" "draft_from_event lib e = Inr d" "le_event_id e = event_id" "le_stream_sequence e = sequence"
    "le_occurred_at e = occurred_at" "\<And>fs. event_draft_of e fs = d\<lparr>ed_attributes := Some fs\<rparr>"
proof -
  obtain fs s where fs: "ed_attributes d = Some fs" "parse_canonical_object lib s = Inr fs"
    and ok: "event_draft_post_init lib d = Inr ()"
    using d by (auto simp: snapshot_of_def)
  then have encoded: "canonical_json lib (JObj fs) = Inr s" by (simp add: parse_canonical_object_Inr)
  obtain digest where e: "e = (event_values event_id sequence occurred_at d s (sl_sha256 lib s))\<lparr>le_event_digest := digest\<rparr>"
    and valid: "valid_event lib e"
    using build fs(1) encoded by (auto simp: build_event_def canonical_object_def attributes_object_def Let_def)
  show "valid_event lib e" by (rule valid)
  have same: "d\<lparr>ed_attributes := Some fs\<rparr> = d" using fs(1) by (cases d) simp
  have "le_attributes_json e = s" by (simp add: e event_values_def)
  then show "draft_from_event lib e = Inr d"
    using fs(2) ok unfolding draft_from_event_def by (simp add: e event_draft_of_values same event_draft_new_def)
  show "event_draft_of e gs = d\<lparr>ed_attributes := Some gs\<rparr>" for gs unfolding e by (rule event_draft_of_values)
qed (use build in \<open>auto simp: build_event_def event_values_def Let_def\<close>)

lemma stored_event_new_Inr [simp]:
  "stored_event_new n e = Inr p \<longleftrightarrow> 1 \<le> n \<and> n \<le> SAFE_INTEGER_MAX \<and> p = (n, e)"
  by (auto simp: stored_event_new_def require_safe_integer_def)

end
