(* ===== verification/Event_Invariant.thy ===== *)
theory Event_Invariant
  imports Event_Roundtrip
begin

text \<open>
  The invariant of the journal, over a ghost log of everything published: the retained rows hold
  the last events of the log under a chain of digests, and every head is what the events of its
  stream make of an earlier head. Its parts speak about lists of rows, events and heads, so that
  appending and evicting are separate lemmas; together they make the verification pass.
\<close>

section \<open>Rows and events\<close>

definition row_event :: "state_library \<Rightarrow> event_row \<Rightarrow> lifecycle_event \<Rightarrow> bool" where
  "row_event lib r e \<longleftrightarrow>
     event_from_json lib (er_event_json r) = Inr e \<and> le_event_id e = er_event_id r \<and>
     le_event_digest e = er_event_digest r \<and> le_stream_id e = er_stream_id r \<and>
     le_stream_sequence e = er_stream_sequence r \<and> le_occurred_at e = er_occurred_at r \<and>
     ebind (draft_from_event lib e) (draft_digest lib) = Inr (er_draft_sha256 r)"

fun chained :: "state_library \<Rightarrow> int \<Rightarrow> string \<Rightarrow> event_row list \<Rightarrow> lifecycle_event list \<Rightarrow> string \<Rightarrow> bool" where
  "chained lib offset previous [] [] tail = (tail = previous)"
| "chained lib offset previous (r # rs) (e # es) tail =
     (er_offset r = offset \<and> er_previous_chain_sha256 r = previous \<and> row_event lib r e \<and>
      chain_digest lib offset previous e = Inr (er_chain_sha256 r) \<and>
      chained lib (offset + 1) (er_chain_sha256 r) rs es tail)"
| "chained lib offset previous rs es tail = False"

lemma chained_rows: "chained lib k p rs es t \<Longrightarrow> list_all2 (row_event lib) rs es"
  by (induction lib k p rs es t rule: chained.induct) auto

lemma chained_offsets: "chained lib k p rs es t \<Longrightarrow> map er_offset rs = [k..k + int (length rs) - 1]"
  by (induction lib k p rs es t rule: chained.induct) (auto simp: upto_rec1 algebra_simps)

lemma chained_snoc:
  "chained lib k p rs es t \<Longrightarrow> er_offset r = k + int (length rs) \<Longrightarrow> er_previous_chain_sha256 r = t \<Longrightarrow> row_event lib r e \<Longrightarrow>
     chain_digest lib (er_offset r) t e = Inr (er_chain_sha256 r) \<Longrightarrow>
     chained lib k p (rs @ [r]) (es @ [e]) (er_chain_sha256 r)"
  by (induction lib k p rs es t rule: chained.induct) auto

section \<open>Heads and the events of a stream\<close>

definition stream_events :: "lifecycle_event list \<Rightarrow> string \<Rightarrow> lifecycle_event list" where
  "stream_events es stream = filter (\<lambda>e. le_stream_id e = stream) es"

text \<open>The draft of an event as far as the checks of a stream look at it.\<close>

abbreviation draft_of :: "lifecycle_event \<Rightarrow> event_draft" where
  "draft_of e \<equiv> event_draft_of e []"

fun admissible :: "head_row option \<Rightarrow> lifecycle_event \<Rightarrow> bool" where
  "admissible None e \<longleftrightarrow> le_attempt e = 1 \<and> le_stream_sequence e = 1"
| "admissible (Some h) e \<longleftrightarrow> check_next_event h (draft_of e) = Inr () \<and> le_stream_sequence e = sh_last_sequence h + 1"

definition head_after :: "head_row option \<Rightarrow> lifecycle_event \<Rightarrow> head_row" where
  "head_after h e = next_head h (draft_of e) (le_stream_sequence e)"

fun accepted :: "head_row option \<Rightarrow> lifecycle_event list \<Rightarrow> head_row option \<Rightarrow> bool" where
  "accepted h [] g \<longleftrightarrow> g = h"
| "accepted h (e # es) g \<longleftrightarrow> admissible h e \<and> accepted (Some (head_after h e)) es g"

lemma accepted_append: "accepted h (es @ fs) g \<longleftrightarrow> (\<exists>m. accepted h es m \<and> accepted m fs g)"
  by (induction es arbitrary: h) auto

lemma accepted_snoc: "accepted h es m \<Longrightarrow> admissible m e \<Longrightarrow> accepted h (es @ [e]) (Some (head_after m e))"
  by (auto simp: accepted_append)

text \<open>A coordinate has a unit, and a unit a coordinate.\<close>

fun head_wf :: "head_row option \<Rightarrow> bool" where
  "head_wf None \<longleftrightarrow> True"
| "head_wf (Some h) \<longleftrightarrow> (sh_current_value h = None \<longleftrightarrow> sh_unit h = None)"

lemma head_after_wf:
  assumes "head_wf g" "le_current e = None \<longleftrightarrow> le_unit e = None"
  shows "head_wf (Some (head_after g e))"
  using assms by (cases g) (auto simp: head_after_def next_head_def event_draft_of_def)

definition head_ok :: "lifecycle_event list \<Rightarrow> head_row \<Rightarrow> bool" where
  "head_ok es h \<longleftrightarrow> is_operational_id (sh_stream_id h) \<and>
     1 \<le> sh_last_sequence h \<and> sh_last_sequence h \<le> SAFE_INTEGER_MAX \<and> 1 \<le> sh_attempt h \<and> sh_attempt h \<le> SAFE_INTEGER_MAX \<and>
     (\<exists>g. head_wf g \<and> accepted g (stream_events es (sh_stream_id h)) (Some h))"

definition heads_ok :: "lifecycle_event list \<Rightarrow> head_row list \<Rightarrow> bool" where
  "heads_ok es hs \<longleftrightarrow> distinct (map sh_stream_id hs) \<and> (\<forall>h \<in> set hs. head_ok es h) \<and> le_stream_id ` set es \<subseteq> sh_stream_id ` set hs"

text \<open>No terminal head without an event.\<close>

definition heads_live :: "lifecycle_event list \<Rightarrow> head_row list \<Rightarrow> bool" where
  "heads_live es hs \<longleftrightarrow> (\<forall>h \<in> set hs. sh_terminal h \<longrightarrow> stream_events es (sh_stream_id h) \<noteq> [])"

lemma heads_okD:
  assumes "heads_ok es hs"
  shows "h \<in> set hs \<Longrightarrow> head_ok es h"
    and "stream_events es s \<noteq> [] \<Longrightarrow> \<exists>h \<in> set hs. sh_stream_id h = s"
proof -
  show "h \<in> set hs \<Longrightarrow> head_ok es h" using assms by (simp add: heads_ok_def)
  assume "stream_events es s \<noteq> []"
  then obtain e where "e \<in> set es" "le_stream_id e = s" unfolding stream_events_def filter_empty_conv by blast
  with assms have "s \<in> sh_stream_id ` set hs" unfolding heads_ok_def by blast
  then show "\<exists>h \<in> set hs. sh_stream_id h = s" by blast
qed

lemma find_head:
  assumes "distinct (map sh_stream_id hs)"
  shows "find (\<lambda>h. sh_stream_id h = s) hs = Some h \<longleftrightarrow> h \<in> set hs \<and> sh_stream_id h = s"
  using assms by (rule find_Some_iff_distinct)

lemma heads_ok_pop:
  assumes ok: "heads_ok (e # es) hs" and e: "le_current e = None \<longleftrightarrow> le_unit e = None"
  shows "heads_ok es hs"
proof -
  have "head_ok es h" if "head_ok (e # es) h" for h
  proof -
    obtain g where g: "head_wf g" "accepted g (stream_events (e # es) (sh_stream_id h)) (Some h)"
      using \<open>head_ok (e # es) h\<close> by (auto simp: head_ok_def)
    have "\<exists>g. head_wf g \<and> accepted g (stream_events es (sh_stream_id h)) (Some h)"
    proof (cases "le_stream_id e = sh_stream_id h")
      case True
      then have "accepted (Some (head_after g e)) (stream_events es (sh_stream_id h)) (Some h)" using g(2) by (simp add: stream_events_def)
      with head_after_wf [OF g(1) e] show ?thesis by blast
    next
      case False
      with g show ?thesis by (auto simp: stream_events_def)
    qed
    with that show ?thesis by (simp add: head_ok_def)
  qed
  with ok show ?thesis by (auto simp: heads_ok_def)
qed

lemma heads_ok_filter:
  assumes "heads_ok es hs"
    and kept: "\<And>h. h \<in> set hs \<Longrightarrow> sh_stream_id h \<in> le_stream_id ` set es \<Longrightarrow> P h"
    and dead: "\<And>h. h \<in> set hs \<Longrightarrow> P h \<Longrightarrow> sh_terminal h \<Longrightarrow> sh_stream_id h \<in> le_stream_id ` set es"
  shows "heads_ok es (filter P hs)" "heads_live es (filter P hs)"
proof -
  have "le_stream_id ` set es \<subseteq> sh_stream_id ` set (filter P hs)"
  proof
    fix s assume s: "s \<in> le_stream_id ` set es"
    then obtain h where "h \<in> set hs" "sh_stream_id h = s" using assms(1) by (auto simp: heads_ok_def)
    with s kept show "s \<in> sh_stream_id ` set (filter P hs)" by force
  qed
  with assms(1) show "heads_ok es (filter P hs)" by (simp add: heads_ok_def distinct_map_filter)
  show "heads_live es (filter P hs)"
    using dead by (fastforce simp: heads_live_def stream_events_def filter_empty_conv)
qed

definition upserted :: "head_row \<Rightarrow> head_row list \<Rightarrow> head_row list" where
  "upserted g hs =
     (if find (\<lambda>h. sh_stream_id h = sh_stream_id g) hs = None then hs @ [g]
      else map (\<lambda>h. if sh_stream_id h = sh_stream_id g then g else h) hs)"

lemma upserted_ids:
  "distinct (map sh_stream_id hs) \<Longrightarrow> distinct (map sh_stream_id (upserted g hs))"
  "set (upserted g hs) = insert g {h \<in> set hs. sh_stream_id h \<noteq> sh_stream_id g}"
  "sh_stream_id ` set (upserted g hs) = insert (sh_stream_id g) (sh_stream_id ` set hs)"
proof -
  have same: "map sh_stream_id (map (\<lambda>h. if sh_stream_id h = sh_stream_id g then g else h) hs) = map sh_stream_id hs"
    by (induction hs) auto
  show "distinct (map sh_stream_id hs) \<Longrightarrow> distinct (map sh_stream_id (upserted g hs))"
    using same unfolding upserted_def by (auto simp: find_None_iff simp del: map_map)
  show "set (upserted g hs) = insert g {h \<in> set hs. sh_stream_id h \<noteq> sh_stream_id g}"
    by (auto simp: upserted_def find_None_iff)
  then show "sh_stream_id ` set (upserted g hs) = insert (sh_stream_id g) (sh_stream_id ` set hs)" by auto
qed

lemma heads_ok_push:
  assumes ok: "heads_ok es hs" and adm: "admissible (find (\<lambda>h. sh_stream_id h = le_stream_id e) hs) e"
    and g: "g = head_after (find (\<lambda>h. sh_stream_id h = le_stream_id e) hs) e"
    and bounds: "is_operational_id (le_stream_id e)" "1 \<le> le_attempt e" "le_attempt e \<le> SAFE_INTEGER_MAX"
      "1 \<le> le_stream_sequence e" "le_stream_sequence e \<le> SAFE_INTEGER_MAX"
  shows "heads_ok (es @ [e]) (upserted g hs)" "heads_live es hs \<Longrightarrow> heads_live (es @ [e]) (upserted g hs)"
proof -
  have id: "sh_stream_id g = le_stream_id e" by (simp add: g head_after_def next_head_def event_draft_of_def)
  have others: "stream_events (es @ [e]) s = stream_events es s" if "s \<noteq> le_stream_id e" for s
    using that by (auto simp: stream_events_def)
  have own: "stream_events (es @ [e]) (le_stream_id e) = stream_events es (le_stream_id e) @ [e]"
    by (simp add: stream_events_def)
  have "\<exists>h. head_wf h \<and> accepted h (stream_events es (le_stream_id e)) (find (\<lambda>h. sh_stream_id h = le_stream_id e) hs)"
  proof (cases "find (\<lambda>h. sh_stream_id h = le_stream_id e) hs")
    case None
    then have "stream_events es (le_stream_id e) = []"
      using heads_okD(2) [OF ok, of "le_stream_id e"] unfolding find_None_iff by blast
    with None show ?thesis by (intro exI [of _ None]) simp
  next
    case (Some h)
    then have "h \<in> set hs" "sh_stream_id h = le_stream_id e" by (auto dest: find_SomeD)
    with heads_okD(1) [OF ok] Some show ?thesis unfolding head_ok_def by metis
  qed
  then obtain h where "head_wf h" "accepted h (stream_events es (le_stream_id e) @ [e]) (Some g)"
    using accepted_snoc [OF _ adm] unfolding g by blast
  then have new: "head_ok (es @ [e]) g"
    using bounds id own by (auto simp: head_ok_def g head_after_def next_head_def event_draft_of_def)
  have old: "head_ok (es @ [e]) h" if "h \<in> set hs" "sh_stream_id h \<noteq> le_stream_id e" for h
    using ok that others by (simp add: heads_ok_def head_ok_def)
  show "heads_ok (es @ [e]) (upserted g hs)"
    unfolding heads_ok_def
  proof (intro conjI)
    show "distinct (map sh_stream_id (upserted g hs))" using ok by (simp add: heads_ok_def upserted_ids(1))
    show "\<forall>h \<in> set (upserted g hs). head_ok (es @ [e]) h" using new old unfolding upserted_ids(2) id by blast
    show "le_stream_id ` set (es @ [e]) \<subseteq> sh_stream_id ` set (upserted g hs)"
      using ok unfolding heads_ok_def upserted_ids(3) id by auto
  qed
  show "heads_live (es @ [e]) (upserted g hs)" if live: "heads_live es hs"
    using live own others unfolding heads_live_def upserted_ids(2) by (auto simp: id)
qed

section \<open>The verification passes\<close>

fun consecutive :: "int option \<Rightarrow> int list \<Rightarrow> bool" where
  "consecutive p [] = True"
| "consecutive None (x # xs) = consecutive (Some x) xs"
| "consecutive (Some p) (x # xs) = (x = p + 1 \<and> consecutive (Some x) xs)"

lemma consecutive_None: "consecutive p xs \<Longrightarrow> consecutive None xs"
  by (cases p; cases xs) auto

lemma consecutive_sorted: "consecutive p xs \<Longrightarrow> sorted xs \<and> (\<forall>q. p = Some q \<longrightarrow> (\<forall>x \<in> set xs. q < x))"
proof (induction p xs rule: consecutive.induct)
  case (2 x xs)
  then have "sorted xs" "\<forall>y \<in> set xs. x < y" by auto
  then show ?case by (simp add: less_imp_le)
next
  case (3 p x xs)
  then have "sorted xs" "\<forall>y \<in> set xs. x < y" "x = p + 1" by auto
  then show ?case by (auto simp: less_imp_le)
qed simp

lemma accepted_consecutive: "accepted h es g \<Longrightarrow> consecutive (map_option sh_last_sequence h) (map le_stream_sequence es)"
proof (induction es arbitrary: h)
  case (Cons e es)
  then have "consecutive (Some (le_stream_sequence e)) (map le_stream_sequence es)"
    by (fastforce simp: head_after_def next_head_def)
  with Cons.prems show ?case by (cases h) auto
qed simp

lemma heads_consecutive:
  assumes "heads_ok es hs"
  shows "consecutive None (map le_stream_sequence (stream_events es s))"
proof (cases "stream_events es s = []")
  case False
  then obtain h where "h \<in> set hs" "sh_stream_id h = s" using heads_okD(2) [OF assms] by blast
  then obtain g where "accepted g (stream_events es s) (Some h)"
    using heads_okD(1) [OF assms] unfolding head_ok_def by blast
  then show ?thesis by (blast dest: accepted_consecutive consecutive_None)
qed simp

lemma verified_rows:
  assumes "chained lib k p rs es t"
    and "\<And>s. consecutive (map_of q s) (map le_stream_sequence (stream_events es s))"
  shows "verify_event_rows lib k p q rs = Inr (t, rev (map (\<lambda>e. (le_stream_id e, le_stream_sequence e)) es) @ q)"
  using assms
proof (induction lib k p rs es t arbitrary: q rule: chained.induct)
  case (2 lib k p r rs e es t)
  have now: "consecutive (map_of q (le_stream_id e)) (le_stream_sequence e # map le_stream_sequence (stream_events es (le_stream_id e)))"
    using "2.prems"(2) [of "le_stream_id e"] by (simp add: stream_events_def)
  have later: "consecutive (map_of ((le_stream_id e, le_stream_sequence e) # q) s) (map le_stream_sequence (stream_events es s))" for s
    using "2.prems"(2) [of s] now
    by (cases "map_of q (le_stream_id e)"; cases "s = le_stream_id e") (auto simp: stream_events_def)
  have "verify_event_row lib k p q r = Inr (le_stream_id e, le_stream_sequence e, er_chain_sha256 r)"
    using "2.prems"(1) now by (auto simp: verify_event_row_def row_event_def split: option.splits)
  then show ?case using "2.prems"(1) "2.IH" [OF _ later] by simp
qed simp_all

lemma row_events_stream:
  assumes "list_all2 (row_event lib) rs es"
  shows "list_all2 (row_event lib) (filter (\<lambda>r. er_stream_id r = s) rs) (stream_events es s)"
  using assms unfolding stream_events_def by (induction rule: list_all2_induct) (auto simp: row_event_def)

lemma row_events_sequences: "list_all2 (row_event lib) rs es \<Longrightarrow> map er_stream_sequence rs = map le_stream_sequence es"
  by (induction rule: list_all2_induct) (auto simp: row_event_def)

lemma stream_rows_events:
  assumes "list_all2 (row_event lib) (ev_rows db) es" "heads_ok es hs"
  shows "list_all2 (row_event lib) (stream_rows db s) (stream_events es s)"
proof -
  let ?rs = "filter (\<lambda>r. er_stream_id r = s) (ev_rows db)"
  have rows: "list_all2 (row_event lib) ?rs (stream_events es s)" by (rule row_events_stream [OF assms(1)])
  then have "sorted (map er_stream_sequence ?rs)"
    using consecutive_sorted [OF heads_consecutive [OF assms(2)]] by (simp add: row_events_sequences)
  then have "stream_rows db s = ?rs" unfolding stream_rows_def by (rule sort_key_id_if_sorted)
  with rows show ?thesis by simp
qed

lemma head_after_agrees:
  assumes "admissible m e" "h = head_after m e"
  shows "sh_operation_kind h = le_operation_kind e" "sh_last_sequence h = le_stream_sequence e" "sh_attempt h = le_attempt e"
    "sh_terminal h = le_terminal e" "le_current e \<noteq> None \<Longrightarrow> sh_current_value h = le_current e"
    "le_total e \<noteq> None \<Longrightarrow> sh_total_value h = le_total e" "le_unit e \<noteq> None \<Longrightarrow> sh_unit h = le_unit e"
  using assms by (cases m; simp add: head_after_def next_head_def event_draft_of_def check_next_event_def)+

lemma verified_head:
  assumes rows: "list_all2 (row_event lib) (ev_rows db) es" and ok: "heads_ok es (ev_heads db)" and live: "heads_live es (ev_heads db)"
    and h: "h \<in> set (ev_heads db)"
  shows "verify_head lib db h = Inr ()"
proof -
  have head: "head_ok es h" using ok h by (simp add: heads_ok_def)
  note stream = stream_rows_events [OF rows ok, of "sh_stream_id h"]
  show ?thesis
  proof (cases "stream_rows db (sh_stream_id h) = []")
    case True
    then have "stream_events es (sh_stream_id h) = []" using stream by simp
    then show ?thesis using live h head True by (auto simp: heads_live_def verify_head_def head_ok_def)
  next
    case False
    then obtain fs e where es: "stream_events es (sh_stream_id h) = fs @ [e]"
      using stream by (cases "stream_events es (sh_stream_id h)" rule: rev_cases) auto
    obtain m where m: "admissible m e" "h = head_after m e"
      using head unfolding head_ok_def es accepted_append by auto
    have "row_event lib (last (stream_rows db (sh_stream_id h))) e"
      using stream False unfolding es by (auto simp: list_all2_append2 list_all2_Cons2)
    then show ?thesis
      using False head head_after_agrees [OF m] unfolding verify_head_def head_ok_def row_event_def
      by (simp del: not_None_eq) blast
  qed
qed

section \<open>The invariant\<close>

definition kept_events :: "lifecycle_event list \<Rightarrow> event_db \<Rightarrow> lifecycle_event list" where
  "kept_events log db = drop (length log - length (ev_rows db)) log"

definition first_offset :: "lifecycle_event list \<Rightarrow> event_db \<Rightarrow> int" where
  "first_offset log db = int (length log) - int (length (ev_rows db)) + 1"

definition journal_ok :: "state_library \<Rightarrow> lifecycle_event list \<Rightarrow> event_db \<Rightarrow> bool" where
  "journal_ok lib log db \<longleftrightarrow>
     is_opid ''event-journal'' (ev_journal_id db) \<and> 1 \<le> ev_maximum_events db \<and> ev_maximum_events db \<le> 1000000 \<and>
     ev_last_offset db = int (length log) \<and> int (length log) \<le> SAFE_INTEGER_MAX \<and>
     length (ev_rows db) = min (nat (ev_maximum_events db)) (length log) \<and>
     ev_oldest_offset db = (if log = [] then 0 else first_offset log db) \<and>
     is_sha256 (ev_retained_anchor_sha256 db) \<and> is_sha256 (ev_tail_chain_sha256 db) \<and>
     (log = [] \<longrightarrow> ev_retained_anchor_sha256 db = sl_sha256 lib '''' \<and> ev_heads db = []) \<and>
     chained lib (first_offset log db) (ev_retained_anchor_sha256 db) (ev_rows db) (kept_events log db) (ev_tail_chain_sha256 db) \<and>
     distinct (map er_event_id (ev_rows db)) \<and>
     heads_ok (kept_events log db) (ev_heads db) \<and> heads_live (kept_events log db) (ev_heads db) \<and>
     (\<forall>e \<in> set log. valid_event lib e)"

lemma journal_okD:
  assumes "journal_ok lib log db"
  shows "is_opid ''event-journal'' (ev_journal_id db)" "1 \<le> ev_maximum_events db" "ev_maximum_events db \<le> 1000000"
    and "ev_last_offset db = int (length log)" "int (length log) \<le> SAFE_INTEGER_MAX"
    and "length (ev_rows db) = min (nat (ev_maximum_events db)) (length log)"
    and "ev_oldest_offset db = (if log = [] then 0 else first_offset log db)"
    and "is_sha256 (ev_retained_anchor_sha256 db)" "is_sha256 (ev_tail_chain_sha256 db)"
    and "log = [] \<Longrightarrow> ev_retained_anchor_sha256 db = sl_sha256 lib '''' \<and> ev_heads db = []"
    and "chained lib (first_offset log db) (ev_retained_anchor_sha256 db) (ev_rows db) (kept_events log db) (ev_tail_chain_sha256 db)"
    and "distinct (map er_event_id (ev_rows db))"
    and "heads_ok (kept_events log db) (ev_heads db)" "heads_live (kept_events log db) (ev_heads db)"
    and "e \<in> set log \<Longrightarrow> valid_event lib e"
  using assms unfolding journal_ok_def by blast+

lemma sorted_offsets: "chained lib k p rs es t \<Longrightarrow> sort_key er_offset rs = rs"
  by (rule sort_key_id_if_sorted) (simp add: chained_offsets)

lemma journal_rows_sorted: "journal_ok lib log db \<Longrightarrow> events_by_offset db = ev_rows db"
  unfolding events_by_offset_def by (rule sorted_offsets [OF journal_okD(11)])

lemma journal_rows_empty: "journal_ok lib log db \<Longrightarrow> ev_rows db = [] \<longleftrightarrow> log = []"
  using journal_okD(2,6) [of lib log db] by (auto simp: min_def split: if_splits)

lemma verified_journal:
  assumes ok: "journal_ok lib log db" and m: "m = None \<or> m = Some (ev_maximum_events db)"
  shows "verify_journal lib m db = Inr ()"
proof -
  note facts = journal_okD [OF ok]
  have bound: "0 \<le> ev_oldest_offset db" "ev_oldest_offset db \<le> int (length log)"
    using facts(2,6,7) by (auto simp: first_offset_def min_def Suc_le_eq split: if_splits)
  have meta: "verify_metadata m db = Inr ()"
    using facts m bound by (auto simp: verify_metadata_def safe_integer_def min_def split: if_splits)
  show ?thesis
  proof (cases "ev_rows db = []")
    case True
    then have "log = []" using journal_rows_empty [OF ok] by simp
    moreover have "ev_tail_chain_sha256 db = ev_retained_anchor_sha256 db"
      using facts(11) True by (cases "kept_events log db") simp_all
    ultimately show ?thesis
      using meta True facts(4,7,10) journal_rows_sorted [OF ok] by (simp add: verify_journal_def verify_empty_def)
  next
    case False
    then have "log \<noteq> []" using journal_rows_empty [OF ok] by simp
    then have oldest: "ev_oldest_offset db = first_offset log db" using facts(7) by simp
    have chain: "verify_event_rows lib (ev_oldest_offset db) (ev_retained_anchor_sha256 db) [] (ev_rows db) =
        Inr (ev_tail_chain_sha256 db, rev (map (\<lambda>e. (le_stream_id e, le_stream_sequence e)) (kept_events log db)) @ [])"
      unfolding oldest by (rule verified_rows [OF facts(11)]) (simp add: heads_consecutive [OF facts(13)])
    have offsets: "map er_offset (ev_rows db) = [ev_oldest_offset db..ev_last_offset db]"
      using chained_offsets [OF facts(11)] oldest facts(4) by (simp add: first_offset_def)
    have "ev_oldest_offset db \<le> ev_last_offset db" using bound facts(4) by simp
    then have "hd (map er_offset (ev_rows db)) = ev_oldest_offset db" "last (map er_offset (ev_rows db)) = ev_last_offset db"
      unfolding offsets by (simp add: upto_rec1, simp add: upto_rec2)
    then have "er_offset (hd (ev_rows db)) = ev_oldest_offset db" "er_offset (last (ev_rows db)) = ev_last_offset db"
      using False by (simp_all add: hd_map last_map)
    moreover have "run_checks (map (verify_head lib db) (sort_key sh_stream_id (ev_heads db))) = Inr ()"
      using verified_head [OF chained_rows [OF facts(11)] facts(13,14)] by simp
    moreover have "fst ` set (rev (map (\<lambda>e. (le_stream_id e, le_stream_sequence e)) (kept_events log db)) @ []) \<subseteq>
        sh_stream_id ` set (ev_heads db)"
      using facts(13) by (auto simp: heads_ok_def image_image)
    ultimately show ?thesis
      using meta chain False journal_rows_sorted [OF ok] unfolding verify_journal_def Let_def by (simp del: map_map)
  qed
qed

end
