(* ===== verification/Event_Drafts.thy ===== *)
theory Event_Drafts
  imports Event_Roundtrip
begin

text \<open>
  What a stored event says of the draft it was published with: every member of the draft, and the
  canonical text of its attributes. Both ways in which a call returns, a new event and the replay
  of a stored one, keep the draft; a replay compares digests, so it rests on SHA-256 not colliding
  on the two texts.
\<close>

definition carries :: "state_library \<Rightarrow> event_draft \<Rightarrow> lifecycle_event \<Rightarrow> bool" where
  "carries lib d e \<longleftrightarrow>
     le_stream_id e = ed_stream_id d \<and> le_operation_kind e = ed_operation_kind d \<and>
     le_event_type e = ed_event_type d \<and> le_phase e = ed_phase d \<and> le_status e = ed_status d \<and>
     le_attempt e = ed_attempt d \<and> le_current e = ed_current d \<and> le_total e = ed_total d \<and>
     le_unit e = ed_unit d \<and> le_message e = ed_message d \<and>
     le_correlation_id e = ed_correlation_id d \<and> le_causation_id e = ed_causation_id d \<and>
     le_terminal e = ed_terminal d \<and>
     sl_jcs lib (JObj (case ed_attributes d of None \<Rightarrow> [] | Some fs \<Rightarrow> fs)) = Some (le_attributes_json e)"

text \<open>
  The canonical text of the requested draft, with its attributes as their own canonical text reads,
  and that of a stored event's draft are different texts with one digest.
\<close>

definition digest_collision :: "state_library \<Rightarrow> event_draft \<Rightarrow> lifecycle_event \<Rightarrow> bool" where
  "digest_collision lib d e \<longleftrightarrow>
     (\<exists>s fs gs a b. sl_jcs lib (JObj (case ed_attributes d of None \<Rightarrow> [] | Some fs \<Rightarrow> fs)) = Some s \<and>
        sl_loads_strict lib s = Some (JObj fs) \<and> sl_loads_strict lib (le_attributes_json e) = Some (JObj gs) \<and>
        sl_jcs lib (draft_document (d\<lparr>ed_attributes := Some fs\<rparr>)) = Some a \<and>
        sl_jcs lib (draft_document (event_draft_of e gs)) = Some b \<and> a \<noteq> b \<and> sl_sha256 lib a = sl_sha256 lib b)"

lemma snapshot_draft_attributes:
  assumes "snapshot_draft lib d = Inr d'"
  obtains s fs where "canonical_json lib (JObj (attributes_object d)) = Inr s" "parse_canonical_object lib s = Inr fs"
    "d' = d\<lparr>ed_attributes := Some fs\<rparr>"
  using assms by (auto simp: snapshot_draft_def event_draft_new_def canonical_object_def)

lemma attributes_text:
  "canonical_json lib (JObj (attributes_object d)) = Inr s \<Longrightarrow>
     sl_jcs lib (JObj (case ed_attributes d of None \<Rightarrow> [] | Some fs \<Rightarrow> fs)) = Some s"
  by (simp add: canonical_json_Inr attributes_object_def)

lemma built_carries:
  assumes snapshot: "snapshot_draft lib d = Inr d'" and build: "build_event lib event_id sequence occurred_at d' = Inr e"
  shows "carries lib d e"
proof -
  obtain s fs where s: "canonical_json lib (JObj (attributes_object d)) = Inr s" "parse_canonical_object lib s = Inr fs"
    "d' = d\<lparr>ed_attributes := Some fs\<rparr>" by (rule snapshot_draft_attributes [OF snapshot])
  have "canonical_json lib (JObj (attributes_object d')) = Inr s"
    using s(2,3) by (simp add: attributes_object_def parse_canonical_object_Inr)
  then obtain digest where "e = (event_values event_id sequence occurred_at d' s (sl_sha256 lib s))\<lparr>le_event_digest := digest\<rparr>"
    using build by (auto simp: build_event_def canonical_object_def Let_def)
  with s(3) attributes_text [OF s(1)] show ?thesis by (simp add: carries_def event_values_def)
qed

lemma JOpt_eq [simp]: "JOpt JStr v = JOpt JStr u \<longleftrightarrow> v = u" "JOpt JInt n = JOpt JInt k \<longleftrightarrow> n = k"
  by (auto simp: JOpt_def split: option.splits)

lemma draft_document_wire: "wire (JObj (attributes_object d)) \<Longrightarrow> wire (draft_document d)"
  by (simp add: draft_document_def less_list_code less_char_def)

lemma replay_carries:
  assumes lib: "library_ok lib" and snapshot: "snapshot_draft lib d = Inr d'" and g: "draft_digest lib d' = Inr g"
    and stored: "draft_from_event lib e = Inr d''" "draft_digest lib d'' = Inr g"
  shows "carries lib d e \<or> digest_collision lib d e"
proof -
  obtain s fs where s: "canonical_json lib (JObj (attributes_object d)) = Inr s" "parse_canonical_object lib s = Inr fs"
    "d' = d\<lparr>ed_attributes := Some fs\<rparr>" by (rule snapshot_draft_attributes [OF snapshot])
  obtain gs where gs: "parse_canonical_object lib (le_attributes_json e) = Inr gs" "d'' = event_draft_of e gs"
    using stored(1) by (auto simp: draft_from_event_def event_draft_new_def)
  obtain a b where a: "canonical_json lib (draft_document d') = Inr a" and b: "canonical_json lib (draft_document d'') = Inr b"
    and same: "sl_sha256 lib a = sl_sha256 lib b"
    using g stored(2) by (auto simp: draft_digest_def)
  show ?thesis
  proof (cases "a = b")
    case False
    with s gs a b same attributes_text [OF s(1)] show ?thesis
      unfolding digest_collision_def by (auto simp: parse_canonical_object_Inr canonical_json_Inr)
  next
    case True
    have "attributes_object d' = fs" "attributes_object d'' = gs"
      using s(3) gs(2) by (simp_all add: attributes_object_def event_draft_of_def)
    then have "wire (draft_document d')" "wire (draft_document d'')"
      using parsed_wire [OF lib s(2)] parsed_wire [OF lib gs(1)] draft_document_wire by metis+
    then have documents: "draft_document d' = draft_document d''"
      using a b True library_okD(1) [OF lib] by (metis canonical_json_Inr option.inject)
    then have "fs = gs" using s(3) gs(2) by (simp add: draft_document_def attributes_object_def event_draft_of_def)
    with s(2) gs(1) have "le_attributes_json e = s" by (simp add: parse_canonical_object_Inr)
    with documents attributes_text [OF s(1)] show ?thesis
      unfolding s(3) gs(2) carries_def by (simp add: draft_document_def event_draft_of_def)
  qed
qed

text \<open>\<open>event_id or self._ids.new_event_id()\<close> as a value: the identifier that a call asks for.\<close>

definition requested_id :: "event_session \<Rightarrow> string option \<Rightarrow> event_world \<Rightarrow> string" where
  "requested_id s i w = (if i = None \<or> i = Some '''' then es_event_ids s (vw_ids w) else the i)"

lemma select_event_id_value: "select_event_id s i w = (r, w') \<Longrightarrow> r = Inr (requested_id s i w)"
  by (auto simp: select_event_id_def requested_id_def split: option.splits list.splits)

text \<open>The next event of its stream among the events held.\<close>

definition follows_stream :: "lifecycle_event list \<Rightarrow> lifecycle_event \<Rightarrow> bool" where
  "follows_stream held e \<longleftrightarrow>
     (let earlier = filter (\<lambda>x. le_stream_id x = le_stream_id e) held in
      earlier \<noteq> [] \<longrightarrow> le_stream_sequence e = le_stream_sequence (last earlier) + 1)"

end
