(* ===== verification/Event_Effects.thy ===== *)
theory Event_Effects
  imports Event_Invariant Event_Drafts
begin

text \<open>
  Publishing as a change of the tables: an accepted event is appended with its head, then at most
  one event is evicted; a replay and a refusal change nothing. The changes keep the invariant.
\<close>

lemma valid_event_fields:
  assumes "valid_event lib e"
  shows "is_operational_id (le_stream_id e)" "1 \<le> le_attempt e" "le_attempt e \<le> SAFE_INTEGER_MAX"
    and "1 \<le> le_stream_sequence e" "le_stream_sequence e \<le> SAFE_INTEGER_MAX"
    and "le_current e = None \<Longrightarrow> le_total e = None \<and> le_unit e = None"
    and "le_current e = Some c \<Longrightarrow> safe_integer c \<and> (\<exists>u \<in> set PROGRESS_UNITS. le_unit e = Some u)"
    and "le_current e = Some c \<Longrightarrow> le_total e = Some n \<Longrightarrow> safe_integer n \<and> c \<le> n"
    and "is_token (le_operation_kind e)" "is_token (le_phase e)" "is_token (le_status e)"
    and "\<exists>i. sl_fromisoformat lib (le_occurred_at e) = Aware i"
proof -
  obtain fs where "event_draft_post_init lib (event_draft_of e fs) = Inr ()" using assms by (rule valid_eventD)
  note draft = draft_fields [OF this]
  show "is_operational_id (le_stream_id e)" "1 \<le> le_attempt e" "le_attempt e \<le> SAFE_INTEGER_MAX"
    and "le_current e = None \<Longrightarrow> le_total e = None \<and> le_unit e = None"
    and "le_current e = Some c \<Longrightarrow> safe_integer c \<and> (\<exists>u \<in> set PROGRESS_UNITS. le_unit e = Some u)"
    and "le_current e = Some c \<Longrightarrow> le_total e = Some n \<Longrightarrow> safe_integer n \<and> c \<le> n"
    and "is_token (le_operation_kind e)" "is_token (le_phase e)" "is_token (le_status e)"
    using draft by (simp_all add: event_draft_of_def)
qed (use assms in \<open>blast elim: valid_eventD\<close>)+

lemma chained_pop:
  assumes "chained lib k p (r # rs) (e # es) t"
  shows "chained lib (k + 1) (er_chain_sha256 r) rs es t" "filter (\<lambda>q. \<not> er_offset q \<le> k) (r # rs) = rs" "er_offset r = k"
proof -
  show rest: "chained lib (k + 1) (er_chain_sha256 r) rs es t" and first: "er_offset r = k" using assms by simp_all
  have "\<not> er_offset q \<le> k" if "q \<in> set rs" for q
  proof -
    have "er_offset q \<in> set (map er_offset rs)" using that by simp
    then show ?thesis unfolding chained_offsets [OF rest] by simp
  qed
  with first show "filter (\<lambda>q. \<not> er_offset q \<le> k) (r # rs) = rs" by simp
qed

lemma chain_digest_sha256: "library_ok lib \<Longrightarrow> chain_digest lib k p e = Inr c \<Longrightarrow> is_sha256 c"
  by (auto simp: chain_digest_def library_okD(3))

lemma row_streams: "list_all2 (row_event lib) rs es \<Longrightarrow> er_stream_id ` set rs = le_stream_id ` set es"
  by (induction rule: list_all2_induct) (auto simp: row_event_def)

text \<open>What one accepted event does to the tables.\<close>

definition pushed :: "event_row \<Rightarrow> lifecycle_event \<Rightarrow> event_db \<Rightarrow> event_db" where
  "pushed r e db = db\<lparr>ev_rows := ev_rows db @ [r],
     ev_heads := upserted (head_after (head_of db (le_stream_id e)) e) (ev_heads db)\<rparr>"

lemma pushed_evicted:
  assumes ok: "journal_ok lib log db" and lib: "library_ok lib" and e: "valid_event lib e"
    and room: "int (length log) + 1 \<le> SAFE_INTEGER_MAX"
    and adm: "admissible (head_of db (le_stream_id e)) e" and row: "row_event lib r e"
    and r: "er_offset r = int (length log) + 1" "er_previous_chain_sha256 r = ev_tail_chain_sha256 db"
      "chain_digest lib (int (length log) + 1) (ev_tail_chain_sha256 db) e = Inr (er_chain_sha256 r)"
    and fresh: "er_event_id r \<notin> er_event_id ` set (ev_rows db)"
  shows "journal_ok lib (log @ [e]) (evict (int (length log) + 1) (er_chain_sha256 r) (pushed r e db))"
proof -
  note facts = journal_okD [OF ok]
  define es where "es = kept_events log db"
  define k where "k = first_offset log db"
  have len: "length es = length (ev_rows db)" "length (ev_rows db) \<le> length log"
    using facts(6) by (simp_all add: es_def kept_events_def)
  have chain: "chained lib k (ev_retained_anchor_sha256 db) (ev_rows db @ [r]) (es @ [e]) (er_chain_sha256 r)"
    using chained_snoc [OF facts(11), folded es_def k_def, of r e] r row by (simp add: k_def first_offset_def)
  define hs where "hs = ev_heads (pushed r e db)"
  have heads: "heads_ok (es @ [e]) hs" "heads_live (es @ [e]) hs"
    using heads_ok_push [OF facts(13) adm [unfolded head_of_def] refl valid_event_fields(1-5) [OF e]] facts(14)
    by (simp_all add: hs_def pushed_def es_def head_of_def)
  have valid: "\<forall>x \<in> set (log @ [e]). valid_event lib x" using e facts(15) by auto
  have sha: "is_sha256 (er_chain_sha256 r)" by (rule chain_digest_sha256 [OF lib r(3)])
  have ids: "distinct (map er_event_id (ev_rows db @ [r]))" using facts(12) fresh by simp
  show ?thesis
  proof (cases "length log < nat (ev_maximum_events db)")
    case True
    then have rows: "length (ev_rows db) = length log" using facts(6) by simp
    then have "es = log" "k = 1" by (simp_all add: es_def k_def kept_events_def first_offset_def)
    then show ?thesis
      using True rows chain heads valid sha ids facts(1-3,7,8) room
      by (auto simp: journal_ok_def evict_def Let_def pushed_def kept_events_def first_offset_def hs_def split: if_splits)
  next
    case False
    then have rows: "length (ev_rows db) = nat (ev_maximum_events db)" using facts(6) by simp
    obtain q qs where q: "ev_rows db @ [r] = q # qs" by (cases "ev_rows db @ [r]") auto
    obtain f fs where f: "es @ [e] = f # fs" by (cases "es @ [e]") auto
    note popped = chained_pop [OF chain [unfolded q f]]
    have qs: "length qs = nat (ev_maximum_events db)" using rows q by (metis length_append_singleton length_Cons nat.inject)
    have fs: "fs = drop (length (log @ [e]) - length qs) (log @ [e])"
    proof -
      have "es @ [e] = drop (length log - length (ev_rows db)) (log @ [e])" by (simp add: es_def kept_events_def)
      then have "fs = tl (drop (length log - length (ev_rows db)) (log @ [e]))" unfolding f by (metis list.sel(3))
      also have "\<dots> = drop (Suc (length log - length (ev_rows db))) (log @ [e])" by (simp only: tl_drop drop_Suc)
      finally show ?thesis using len(2) qs rows by (simp add: Suc_diff_le del: drop_append)
    qed
    have streams: "er_stream_id ` set qs = le_stream_id ` set fs" by (rule row_streams [OF chained_rows [OF popped(1)]])
    define keep where "keep = (\<lambda>h :: head_row. \<not> (sh_terminal h \<and> sh_stream_id h \<notin> er_stream_id ` set qs))"
    have kept: "keep h" if "sh_stream_id h \<in> le_stream_id ` set fs" for h using that by (simp add: keep_def streams)
    have dead: "sh_stream_id h \<in> le_stream_id ` set fs" if "keep h" "sh_terminal h" for h
      using that unfolding keep_def streams by blast
    have "f \<in> set log \<or> f = e" using f by (metis es_def kept_events_def Un_iff in_set_dropD list.set_intros(1) set_append set_ConsD empty_iff list.set(1))
    then have "valid_event lib f" using e facts(15) by blast
    then have "le_current f = None \<longleftrightarrow> le_unit f = None" using valid_event_fields(6,7) by (metis not_None_eq)
    note left = heads_ok_filter [OF heads_ok_pop [OF heads(1) [unfolded f] this] kept dead]
    have anchor: "is_sha256 (er_chain_sha256 q)"
      using chain unfolding q f by (auto dest: chain_digest_sha256 [OF lib])
    have offset: "k + 1 = int (length log) + 1 - int (length qs) + 1" using qs rows by (simp add: k_def first_offset_def)
    have evicted: "evict (int (length log) + 1) (er_chain_sha256 r) (pushed r e db) =
        (pushed r e db)\<lparr>ev_rows := qs, ev_heads := filter keep hs, ev_last_offset := int (length log) + 1,
          ev_oldest_offset := k + 1, ev_retained_anchor_sha256 := er_chain_sha256 q, ev_tail_chain_sha256 := er_chain_sha256 r\<rparr>"
    proof -
      have pushed: "ev_rows (pushed r e db) = q # qs" "events_by_offset (pushed r e db) = q # qs"
          "ev_maximum_events (pushed r e db) = ev_maximum_events db"
        using q sorted_offsets [OF chain] by (simp_all add: pushed_def events_by_offset_def)
      have excess: "int (length (q # qs)) - ev_maximum_events db = 1" using qs facts(2) by simp
      show ?thesis
        unfolding evict_def Let_def pushed excess keep_def hs_def by (simp add: popped(2,3) del: filter.simps)
    qed
    show ?thesis
      unfolding evicted
      using qs False popped(1) left valid sha anchor ids facts(1-3) room fs offset unfolding q
      by (auto simp: journal_ok_def kept_events_def first_offset_def pushed_def)
  qed
qed

section \<open>Publishing\<close>

lemma op_bind_cases:
  assumes "op_bind m f w = (r, w')"
  obtains (raised) e where "m w = (Inl e, w')" "r = Inl e"
    | (returned) x v where "m w = (Inr x, v)" "f x v = (r, w')"
  using assms by (auto simp: op_bind_def split: prod.splits sum.splits)

lemma read_event_db_eq [simp]: "read_event_db f w = (r, w') \<longleftrightarrow> f (vw_db w) = r \<and> w' = w"
  by (auto simp: read_event_db_def)

lemma change_event_db_Inr [simp]:
  "change_event_db f w = (Inr u, w') \<longleftrightarrow> (\<exists>d. f (vw_db w) = Inr d \<and> w' = w\<lparr>vw_db := d\<rparr>)"
  by (auto simp: change_event_db_def split: sum.splits)

lemma ensure_open_Inr [simp]: "ensure_open w = (Inr u, w') \<longleftrightarrow> \<not> vw_closed w \<and> w' = w"
  by (auto simp: ensure_open_def)

lemma event_transaction_Inr [simp]: "event_transaction m w = (Inr x, w') \<longleftrightarrow> m w = (Inr x, w')"
  by (auto simp: event_transaction_def split: prod.splits sum.splits)

lemma event_stamp_Inr:
  "event_stamp s w = (Inr t, w') \<longleftrightarrow>
     (\<exists>i. es_clock s (vw_ticks w) = Aware i \<and> t = sl_isoformat (es_library s) i) \<and> w' = w\<lparr>vw_ticks := vw_ticks w + 1\<rparr>"
  by (auto simp: event_stamp_def split: timestamp.splits)

lemma event_stamp_db: "event_stamp s w = (r, w') \<Longrightarrow> vw_db w' = vw_db w"
  by (auto simp: event_stamp_def)

lemma select_event_id_db:
  "select_event_id s i w = (r, w') \<Longrightarrow> vw_db w' = vw_db w \<and> vw_closed w' = vw_closed w \<and> vw_ticks w' = vw_ticks w"
  by (auto simp: select_event_id_def split: option.splits list.splits)

text \<open>A call that raises leaves the tables as they were.\<close>

lemma publish_raised:
  assumes "publish_event s d i w = (Inl err, w')"
  shows "vw_db w' = vw_db w"
  using assms unfolding publish_event_def
  by (auto elim!: op_bind_cases simp: event_transaction_def ensure_open_def dest!: select_event_id_db split: prod.splits sum.splits if_splits)

text \<open>The checks of a stream see a snapshot as they see the event that is built from it.\<close>

lemma check_of_event:
  assumes "\<And>fs. event_draft_of e fs = d\<lparr>ed_attributes := Some fs\<rparr>"
  shows "check_next_event h (draft_of e) = check_next_event h d" "next_head g (draft_of e) n = next_head g d n"
    "ed_stream_id d = le_stream_id e" "ed_attempt d = le_attempt e"
proof -
  show "check_next_event h (draft_of e) = check_next_event h d" "next_head g (draft_of e) n = next_head g d n"
    unfolding assms by (simp_all add: check_next_event_def next_head_def split: option.split)
  show "ed_stream_id d = le_stream_id e" "ed_attempt d = le_attempt e"
    using arg_cong [OF assms [of "[]"], of ed_stream_id] arg_cong [OF assms [of "[]"], of ed_attempt]
    by (simp_all add: event_draft_of_def)
qed

lemma next_coordinates_Inr:
  assumes "next_coordinates db d = Inr (offset, sequence)" and e: "\<And>fs. event_draft_of e fs = d\<lparr>ed_attributes := Some fs\<rparr>"
    "le_stream_sequence e = sequence"
  shows "offset = ev_last_offset db + 1" "offset \<le> SAFE_INTEGER_MAX" "admissible (head_of db (le_stream_id e)) e"
  using assms check_of_event [OF e(1)]
  by (auto simp: next_coordinates_def check_new_stream_def split: option.splits)

lemma upsert_head_pushed:
  assumes "\<And>fs. event_draft_of e fs = d\<lparr>ed_attributes := Some fs\<rparr>"
  shows "upsert_head d (le_stream_sequence e) (db\<lparr>ev_rows := ev_rows db @ [r]\<rparr>) = pushed r e db"
proof -
  note same = check_of_event [OF assms]
  have id: "sh_stream_id (next_head g d n) = le_stream_id e" for g n by (simp add: next_head_def same)
  have head: "head_of (db\<lparr>ev_rows := ev_rows db @ [r]\<rparr>) s = head_of db s" for s by (simp add: head_of_def)
  show ?thesis
    unfolding upsert_head_def pushed_def head_after_def same(2) same(3) head
    by (cases "head_of db (le_stream_id e)") (simp_all add: upserted_def id, simp_all add: head_of_def)
qed

lemma consecutive_snoc: "consecutive p (xs @ [x]) \<Longrightarrow> xs \<noteq> [] \<Longrightarrow> x = last xs + 1"
  by (induction p xs rule: consecutive.induct) (auto split: if_splits elim: consecutive.elims)

lemma admissible_follows:
  assumes ok: "heads_ok es hs" and adm: "admissible (find (\<lambda>h. sh_stream_id h = le_stream_id e) hs) e"
    and bounds: "is_operational_id (le_stream_id e)" "1 \<le> le_attempt e" "le_attempt e \<le> SAFE_INTEGER_MAX"
      "1 \<le> le_stream_sequence e" "le_stream_sequence e \<le> SAFE_INTEGER_MAX"
  shows "follows_stream es e"
proof -
  have "consecutive None (map le_stream_sequence (stream_events (es @ [e]) (le_stream_id e)))"
    by (rule heads_consecutive [OF heads_ok_push(1) [OF ok adm refl bounds]])
  then have "consecutive None (map le_stream_sequence (stream_events es (le_stream_id e)) @ [le_stream_sequence e])"
    by (simp add: stream_events_def)
  from consecutive_snoc [OF this] show ?thesis by (auto simp: follows_stream_def stream_events_def last_map Let_def)
qed

lemma append_event_ok:
  assumes ok: "journal_ok lib log db" and lib: "library_ok lib" and d: "snapshot_of lib d" "draft_digest lib d = Inr g"
    and coordinates: "next_coordinates db d = Inr (offset, sequence)"
    and e: "build_event lib event_id sequence t d = Inr e" and fresh: "find (\<lambda>r. er_event_id r = event_id) (ev_rows db) = None"
    and append: "append_event lib d g offset e db = Inr db'"
  shows "journal_ok lib (log @ [e]) db'" "offset = int (length log) + 1" "follows_stream (kept_events log db) e"
proof -
  note built = build_event_Inr [OF d(1) e]
  note coords = next_coordinates_Inr [OF coordinates built(6,4)]
  show offset: "offset = int (length log) + 1" using coords(1) journal_okD(4) [OF ok] by simp
  show "follows_stream (kept_events log db) e"
    by (rule admissible_follows [OF journal_okD(13) [OF ok] coords(3) [unfolded head_of_def] valid_event_fields(1-5) [OF built(1)]])
  obtain chain event_json r where chain: "chain_digest lib offset (ev_tail_chain_sha256 db) e = Inr chain"
    and json: "ebind (event_document lib e) (canonical_json lib) = Inr event_json"
    and r: "r = \<lparr>er_offset = offset, er_event_id = le_event_id e, er_stream_id = le_stream_id e,
         er_stream_sequence = le_stream_sequence e, er_draft_sha256 = g, er_event_json = event_json,
         er_event_digest = le_event_digest e, er_previous_chain_sha256 = ev_tail_chain_sha256 db,
         er_chain_sha256 = chain, er_occurred_at = le_occurred_at e\<rparr>"
    and db': "db' = evict offset chain (upsert_head d (le_stream_sequence e) (db\<lparr>ev_rows := ev_rows db @ [r]\<rparr>))"
    using append by (auto simp: append_event_def insert_event_row_def split: if_splits)
  have "row_event lib r e"
    using event_from_json_stored [OF lib built(1) json] built(2) d(2) by (simp add: row_event_def r)
  moreover have "er_event_id r \<notin> er_event_id ` set (ev_rows db)"
    using fresh built(3) by (auto simp: find_None_iff r)
  ultimately show "journal_ok lib (log @ [e]) db'"
    using pushed_evicted [OF ok lib built(1), of r] coords(2,3) chain
    unfolding db' upsert_head_pushed [OF built(6)] by (simp add: offset r)
qed

lemma select_event_id_result:
  "select_event_id s i w = (r, w') \<Longrightarrow> r = Inr (requested_id s i w) \<and> vw_db w' = vw_db w \<and> vw_ticks w' = vw_ticks w"
  using select_event_id_value select_event_id_db by blast

text \<open>The two ways in which a call returns: an event stored under the identifier, or a new one.\<close>

lemma publish_returned:
  assumes ok: "journal_ok lib log (vw_db w)" and lib: "library_ok lib" and same: "es_library s = lib"
    and run: "publish_event s d i w = (Inr (offset, e), w')"
  obtains (replayed) r where "vw_db w' = vw_db w" "r \<in> set (ev_rows (vw_db w))" "er_offset r = offset"
      "event_from_json lib (er_event_json r) = Inr e" "er_event_id r = requested_id s i w" "le_event_id e = requested_id s i w"
      "carries lib d e \<or> digest_collision lib d e"
  | (appended) "journal_ok lib (log @ [e]) (vw_db w')" "offset = int (length log) + 1" "le_event_id e = requested_id s i w"
      "\<forall>r \<in> set (ev_rows (vw_db w)). er_event_id r \<noteq> requested_id s i w" "carries lib d e"
      "\<exists>instant. es_clock s (vw_ticks w) = Aware instant \<and> le_occurred_at e = sl_isoformat lib instant"
      "follows_stream (kept_events log (vw_db w)) e"
proof -
  obtain d' v g where snapshot: "snapshot_draft lib d = Inr d'" and g: "draft_digest lib d' = Inr g" and v: "vw_db v = vw_db w"
      "vw_ticks v = vw_ticks w"
    and body: "publish_selected s d' (requested_id s i w) g v = (Inr (offset, e), w')"
    using run unfolding publish_event_def same by (auto dest!: select_event_id_result)
  show thesis
  proof (cases "find (\<lambda>r. er_event_id r = requested_id s i w) (ev_rows (vw_db v))")
    case (Some r)
    then have replay: "replayed_event lib g r = Inr (offset, e)" "w' = v" using body by (auto simp: publish_selected_def same)
    have r: "r \<in> set (ev_rows (vw_db w))" "er_event_id r = requested_id s i w" using find_SomeD [OF Some] v by simp_all
    from replay have read: "er_draft_sha256 r = g" "event_from_json lib (er_event_json r) = Inr e" "er_offset r = offset"
      by (auto simp: replayed_event_def)
    obtain x where "row_event lib r x" using list_all2_memberD [OF chained_rows [OF journal_okD(11) [OF ok]] r(1)] by blast
    with read(2) have row: "row_event lib r e" by (simp add: row_event_def)
    then obtain d'' where "draft_from_event lib e = Inr d''" "draft_digest lib d'' = Inr g"
      using read(1) by (auto simp: row_event_def)
    from replay_carries [OF lib snapshot g this] show thesis
      using row r(2) replay(2) v by (intro replayed [OF _ r(1) read(3,2)]) (simp_all add: row_event_def)
  next
    case None
    then have "record_event s d' (requested_id s i w) g v = (Inr (offset, e), w')" using body by (simp add: publish_selected_def)
    then obtain sequence t u db' where *: "next_coordinates (vw_db v) d' = Inr (offset, sequence)" "event_stamp s v = (Inr t, u)"
        "build_event lib (requested_id s i w) sequence t d' = Inr e" "append_event lib d' g offset e (vw_db u) = Inr db'" "vw_db w' = db'"
      unfolding record_event_def same by auto
    note built = build_event_Inr [OF snapshot_draft_Inr [OF snapshot] *(3)]
    note appended_ok = append_event_ok [OF ok lib snapshot_draft_Inr [OF snapshot] g _ *(3), of offset db']
    have "\<exists>instant. es_clock s (vw_ticks w) = Aware instant \<and> le_occurred_at e = sl_isoformat lib instant"
      using *(2) v(2) same built(5) by (auto simp: event_stamp_Inr)
    moreover have "\<forall>r \<in> set (ev_rows (vw_db w)). er_event_id r \<noteq> requested_id s i w"
      using None v(1) by (auto simp: find_None_iff)
    ultimately show thesis
      using appended_ok None *(1,4,5) event_stamp_db [OF *(2)] v(1) built(3) built_carries [OF snapshot *(3)]
      by (intro appended) simp_all
  qed
qed

end
