(* ===== verification/Event_History.thy ===== *)
theory Event_History
  imports Event_Effects
begin

text \<open>
  Histories of a journal with the ghost log of the events it has accepted: sessions publish, close
  and reopen in any order. In every history the journal verifies, and it holds exactly the last
  events of the log under their numbers.
\<close>

section \<open>Histories\<close>

text \<open>The log after a call: a returned offset beyond the log is a new event.\<close>

definition logged :: "lifecycle_event list \<Rightarrow> event_error + stored_event \<Rightarrow> lifecycle_event list" where
  "logged log r =
     (case r of Inl _ \<Rightarrow> log | Inr (offset, e) \<Rightarrow> if int (length log) < offset then log @ [e] else log)"

inductive event_step ::
    "state_library \<Rightarrow> lifecycle_event list \<times> event_world \<Rightarrow> lifecycle_event list \<times> event_world \<Rightarrow> bool" for lib where
  published: "es_library s = lib \<Longrightarrow> publish_event s d i w = (r, w') \<Longrightarrow> event_step lib (log, w) (logged log r, w')"
| closed: "close_journal w = (Inr (), w') \<Longrightarrow> event_step lib (log, w) (log, w')"
| reopened: "open_event_journal lib new_id m (Some (vw_db w)) = Inr db \<Longrightarrow>
    event_step lib (log, w) (log, \<lparr>vw_db = db, vw_ids = ids, vw_ticks = ticks, vw_closed = False\<rparr>)"

inductive event_steps ::
    "state_library \<Rightarrow> lifecycle_event list \<times> event_world \<Rightarrow> lifecycle_event list \<times> event_world \<Rightarrow> bool" for lib where
  stay: "event_steps lib a a"
| go: "event_steps lib a b \<Longrightarrow> event_step lib b c \<Longrightarrow> event_steps lib a c"

inductive event_history :: "state_library \<Rightarrow> int \<Rightarrow> lifecycle_event list \<Rightarrow> event_world \<Rightarrow> bool" for lib maximum where
  opened: "open_event_journal lib new_id maximum None = Inr db \<Longrightarrow>
    event_history lib maximum [] \<lparr>vw_db = db, vw_ids = ids, vw_ticks = ticks, vw_closed = False\<rparr>"
| stepped: "event_history lib maximum log w \<Longrightarrow> event_step lib (log, w) (log', w') \<Longrightarrow> event_history lib maximum log' w'"

lemma history_steps:
  "event_steps lib a b \<Longrightarrow> event_history lib m (fst a) (snd a) \<Longrightarrow> event_history lib m (fst b) (snd b)"
  by (induction rule: event_steps.induct) (auto intro: event_history.stepped)

section \<open>The invariant along a history\<close>

lemma new_event_db_ok:
  assumes "library_ok lib" "open_event_journal lib new_id m None = Inr db"
  shows "journal_ok lib [] db" "ev_maximum_events db = m"
  using assms library_okD(3) [OF assms(1)]
  by (auto simp: open_event_journal_def new_event_db_def verify_journal_def verify_metadata_def journal_ok_def
      kept_events_def first_offset_def heads_ok_def heads_live_def SAFE_INTEGER_MAX_def)

lemma evict_maximum: "ev_maximum_events (evict k c db) = ev_maximum_events db"
  by (simp add: evict_def Let_def)

lemma append_event_maximum: "append_event lib d g k e db = Inr db' \<Longrightarrow> ev_maximum_events db' = ev_maximum_events db"
  by (auto simp: append_event_def insert_event_row_def evict_maximum upsert_head_def split: if_splits option.splits)

lemma publish_maximum:
  assumes "publish_event s d i w = (r, w')"
  shows "ev_maximum_events (vw_db w') = ev_maximum_events (vw_db w)"
proof (cases r)
  case (Inl e)
  with assms show ?thesis by (simp add: publish_raised)
next
  case (Inr x)
  then obtain d' selected g v where v: "vw_db v = vw_db w" "publish_selected s d' selected g v = (Inr x, w')"
    using assms unfolding publish_event_def by (auto dest!: select_event_id_db)
  show ?thesis
  proof (cases "find (\<lambda>r. er_event_id r = selected) (ev_rows (vw_db v))")
    case (Some r)
    with v show ?thesis by (simp add: publish_selected_def)
  next
    case None
    then have "record_event s d' selected g v = (Inr x, w')" using v(2) by (simp add: publish_selected_def)
    then obtain t u k n e db' where "event_stamp s v = (Inr t, u)" "append_event (es_library s) d' g k e (vw_db u) = Inr db'" "vw_db w' = db'"
      unfolding record_event_def by auto
    with v(1) show ?thesis using append_event_maximum event_stamp_db by metis
  qed
qed

lemma row_of_log:
  assumes ok: "journal_ok lib log db" and r: "r \<in> set (ev_rows db)"
  shows "1 \<le> er_offset r" "er_offset r \<le> int (length log)"
proof -
  have "er_offset r \<in> set (map er_offset (ev_rows db))" using r by simp
  then have "first_offset log db \<le> er_offset r \<and> er_offset r \<le> int (length log)"
    unfolding chained_offsets [OF journal_okD(11) [OF ok]] by (simp add: first_offset_def)
  moreover have "1 \<le> first_offset log db" using journal_okD(6) [OF ok] by (simp add: first_offset_def)
  ultimately show "1 \<le> er_offset r" "er_offset r \<le> int (length log)" by auto
qed

lemma publish_ok:
  assumes ok: "journal_ok lib log (vw_db w)" and lib: "library_ok lib" "es_library s = lib"
    and run: "publish_event s d i w = (r, w')"
  shows "journal_ok lib (logged log r) (vw_db w')"
proof (cases r)
  case (Inl e)
  then show ?thesis using ok publish_raised run by (simp add: logged_def)
next
  case (Inr x)
  obtain offset e where x: "x = (offset, e)" by (cases x)
  from ok lib run [unfolded Inr x] show ?thesis
  proof (cases rule: publish_returned)
    case (replayed q)
    with ok row_of_log(2) [OF ok replayed(2)] show ?thesis by (simp add: logged_def Inr x)
  qed (simp add: logged_def Inr x)
qed

lemma step_journal_ok:
  assumes step: "event_step lib (log, w) (log', w')" and ok: "journal_ok lib log (vw_db w)" and lib: "library_ok lib"
  shows "journal_ok lib log' (vw_db w')" "ev_maximum_events (vw_db w') = ev_maximum_events (vw_db w)"
proof -
  from step have "journal_ok lib log' (vw_db w') \<and> ev_maximum_events (vw_db w') = ev_maximum_events (vw_db w)"
  proof (cases rule: event_step.cases)
    case (published s d i r)
    then show ?thesis using publish_ok [OF ok lib] publish_maximum by blast
  qed (use ok in \<open>auto simp: close_journal_def open_event_journal_def\<close>)
  then show "journal_ok lib log' (vw_db w')" "ev_maximum_events (vw_db w') = ev_maximum_events (vw_db w)" by simp_all
qed

lemma history_ok:
  assumes "event_history lib m log w" and lib: "library_ok lib"
  shows "journal_ok lib log (vw_db w) \<and> ev_maximum_events (vw_db w) = m"
  using assms(1) by induction (auto simp: new_event_db_ok [OF lib] dest: step_journal_ok [OF _ _ lib])

text \<open>
  C6. Every journal that sessions can leave, by publishing, closing and reopening in any order,
  passes the verification: it can be opened again with its retention policy, and its health check
  reports the number of accepted events and the retained ones.
\<close>

theorem event_journal_verifies:
  assumes "event_history lib m log w" "library_ok lib"
  shows "open_event_journal lib new_id m (Some (vw_db w)) = Inr (vw_db w) \<and>
    (es_library s = lib \<longrightarrow> \<not> vw_closed w \<longrightarrow>
      (\<exists>report. health_check s w = (Inr report, w) \<and> hr_last_offset report = int (length log) \<and>
        hr_retained_event_count report = min m (int (length log))))"
proof -
  have ok: "journal_ok lib log (vw_db w)" "ev_maximum_events (vw_db w) = m" using history_ok [OF assms] by simp_all
  note facts = journal_okD [OF ok(1)]
  show ?thesis
    using verified_journal [OF ok(1)] ok(2) facts(2-4,6)
    by (auto simp: open_event_journal_def health_check_def op_bind_def ensure_open_def read_event_db_def)
qed

section \<open>The journal holds the end of the log\<close>

definition numbered :: "lifecycle_event list \<Rightarrow> stored_event list" where
  "numbered log = zip [1..int (length log)] log"

definition take_last :: "nat \<Rightarrow> 'a list \<Rightarrow> 'a list" where
  "take_last n xs = drop (length xs - n) xs"

definition visible :: "state_library \<Rightarrow> event_db \<Rightarrow> event_error + stored_event list" where
  "visible lib db = mapE (stored_event_of lib) (events_by_offset db)"

lemma length_numbered [simp]: "length (numbered log) = length log"
  by (simp add: numbered_def)

lemma numbered_snoc: "numbered (log @ [e]) = numbered log @ [(int (length log) + 1, e)]"
proof -
  have "[1..int (length log) + 1] = [1..int (length log)] @ [int (length log) + 1]"
    by (subst upto_rec2) simp_all
  then show ?thesis by (simp add: numbered_def add.commute)
qed

lemma drop_numbered: "drop n (numbered log) = zip [int n + 1..int (length log)] (drop n log)"
proof -
  have "drop n [1..int (length log)] = [int n + 1..int (length log)]"
    by (rule nth_equalityI) simp_all
  then show ?thesis by (simp add: numbered_def drop_zip)
qed

lemma chained_stored:
  assumes "chained lib k p rs es t" "1 \<le> k" "k + int (length rs) - 1 \<le> SAFE_INTEGER_MAX"
  shows "mapE (stored_event_of lib) rs = Inr (zip [k..k + int (length rs) - 1] es)"
  using assms
proof (induction lib k p rs es t rule: chained.induct)
  case (2 lib k p r rs e es t)
  have "stored_event_of lib r = Inr (k, e)" using "2.prems" by (simp add: stored_event_of_def row_event_def)
  moreover have "[k..k + int (length (r # rs)) - 1] = k # [k + 1..k + 1 + int (length rs) - 1]"
    by (subst upto_rec1) (simp_all add: algebra_simps)
  ultimately show ?case using "2.IH" "2.prems" by simp
qed simp_all

lemma visible_events:
  assumes ok: "journal_ok lib log db"
  shows "visible lib db = Inr (take_last (nat (ev_maximum_events db)) (numbered log))"
proof -
  note facts = journal_okD [OF ok]
  have first: "first_offset log db = int (length log - length (ev_rows db)) + 1" using facts(6) by (simp add: first_offset_def)
  then have "mapE (stored_event_of lib) (ev_rows db) =
      Inr (zip [first_offset log db..first_offset log db + int (length (ev_rows db)) - 1] (kept_events log db))"
    using chained_stored [OF facts(11)] facts(5,6) by (simp add: first_offset_def)
  also have "first_offset log db + int (length (ev_rows db)) - 1 = int (length log)" by (simp add: first_offset_def)
  finally show ?thesis
    using facts(6) by (simp add: visible_def journal_rows_sorted [OF ok] first kept_events_def take_last_def drop_numbered min_def)
qed

lemma events_held:
  assumes ok: "journal_ok lib log db"
  shows "map snd (take_last (nat (ev_maximum_events db)) (numbered log)) = kept_events log db"
proof -
  have "map snd (numbered log) = log" by (simp add: numbered_def)
  then show ?thesis
    using journal_okD(6) [OF ok] by (simp add: take_last_def kept_events_def min_def flip: drop_map)
qed

lemma ids_held:
  assumes ok: "journal_ok lib log db"
  shows "er_event_id ` set (ev_rows db) = le_event_id ` snd ` set (take_last (nat (ev_maximum_events db)) (numbered log))"
proof -
  have "list_all2 (row_event lib) (ev_rows db) (kept_events log db)" by (rule chained_rows [OF journal_okD(11) [OF ok]])
  then have "er_event_id ` set (ev_rows db) = le_event_id ` set (kept_events log db)"
    by (induction rule: list_all2_induct) (auto simp: row_event_def)
  then show ?thesis by (simp flip: events_held [OF ok])
qed

text \<open>
  One call on a bounded numbered log: a raised error changes nothing; an event held under the
  requested identifier is answered again, and the log stays; otherwise one event is appended under
  the next number, with the requested identifier, the members of the draft, the time of the clock
  and the next number of its stream.
\<close>

definition log_call ::
    "event_session \<Rightarrow> event_draft \<Rightarrow> string option \<Rightarrow> event_world \<Rightarrow> stored_event list \<Rightarrow> lifecycle_event list \<Rightarrow>
     event_error + stored_event \<Rightarrow> lifecycle_event list \<Rightarrow> bool" where
  "log_call s d i w held log r log' \<longleftrightarrow>
     (case r of
        Inl _ \<Rightarrow> log' = log
      | Inr (offset, e) \<Rightarrow>
          le_event_id e = requested_id s i w \<and>
          (if \<exists>x \<in> set held. le_event_id (snd x) = requested_id s i w
           then log' = log \<and> (offset, e) \<in> set held \<and> (carries (es_library s) d e \<or> digest_collision (es_library s) d e)
           else log' = log @ [e] \<and> offset = int (length log) + 1 \<and> carries (es_library s) d e \<and>
             follows_stream (map snd held) e \<and>
             (\<exists>instant. es_clock s (vw_ticks w) = Aware instant \<and>
                le_occurred_at e = sl_isoformat (es_library s) instant)))"


end
