(* ===== verification/Event_Reading.thy ===== *)
theory Event_Reading
  imports Event_History
begin

text \<open>
  Reading the journal as reading the numbered log: what a batch holds, what a subscriber has
  received after any number of polls between the steps of others, and which errors a publisher
  can see.
\<close>

section \<open>Batches\<close>

lemma mapE_filter_take:
  assumes "mapE f rs = Inr vs" "\<And>r v. r \<in> set rs \<Longrightarrow> f r = Inr v \<Longrightarrow> Q v = P r"
  shows "mapE f (take n (filter P rs)) = Inr (take n (filter Q vs))" "length (filter P rs) = length (filter Q vs)"
proof -
  have "list_all2 (\<lambda>r v. f r = Inr v) (filter P rs) (filter Q vs)"
    using assms(1) [unfolded mapE_Inr_iff] assms(2) by (induction rule: list_all2_induct) auto
  then show "mapE f (take n (filter P rs)) = Inr (take n (filter Q vs))" "length (filter P rs) = length (filter Q vs)"
    unfolding mapE_Inr_iff by (auto intro: list_all2_takeI dest: list_all2_lengthD)
qed

lemma numbered_nth: "i < length log \<Longrightarrow> numbered log ! i = (int i + 1, log ! i)"
  by (simp add: numbered_def)

lemma filter_numbered:
  assumes "j \<le> q"
  shows "filter (\<lambda>v. int q < fst v) (drop j (numbered log)) = drop q (numbered log)"
proof -
  have early: "\<not> int q < fst v" if "v \<in> set (take (q - j) (drop j (numbered log)))" for v
    using that assms by (auto simp: in_set_conv_nth numbered_nth)
  have late: "int q < fst v" if "v \<in> set (drop q (numbered log))" for v
    using that by (auto simp: in_set_conv_nth numbered_nth)
  have "drop j (numbered log) = take (q - j) (drop j (numbered log)) @ drop (q - j) (drop j (numbered log))"
    by (simp only: append_take_drop_id)
  also have "drop (q - j) (drop j (numbered log)) = drop q (numbered log)" using assms by simp
  finally have "drop j (numbered log) = take (q - j) (drop j (numbered log)) @ drop q (numbered log)" .
  then have "filter (\<lambda>v. int q < fst v) (drop j (numbered log)) =
      filter (\<lambda>v. int q < fst v) (take (q - j) (drop j (numbered log))) @ filter (\<lambda>v. int q < fst v) (drop q (numbered log))"
    by (metis filter_append)
  also have "\<dots> = drop q (numbered log)" using early late by (simp add: filter_empty_conv filter_id_conv)
  finally show ?thesis .
qed

text \<open>What a reader of the bounded numbered log is told.\<close>

definition held_from :: "int \<Rightarrow> lifecycle_event list \<Rightarrow> int" where
  "held_from m log = int (length log) - min m (int (length log))"

definition read_position :: "int \<Rightarrow> lifecycle_event list \<Rightarrow> event_cursor option \<Rightarrow> int" where
  "read_position m log cursor = (case cursor of None \<Rightarrow> held_from m log | Some c \<Rightarrow> cu_offset c)"

definition log_batch :: "int \<Rightarrow> string \<Rightarrow> lifecycle_event list \<Rightarrow> event_cursor option \<Rightarrow> int \<Rightarrow> event_error + event_batch" where
  "log_batch m journal_id log cursor k =
     (let n = int (length log); p = read_position m log cursor; events = take (nat k) (drop (nat p) (numbered log)) in
      if (case cursor of None \<Rightarrow> False | Some c \<Rightarrow> cu_journal_id c \<noteq> journal_id)
      then Inl (JournalConflict ''event cursor belongs to another journal'')
      else if p < held_from m log then Inl (CursorGap p (held_from m log + 1))
      else if n < p then Inl (JournalConflict ''event cursor is ahead of the journal tail'')
      else Inr \<lparr>eb_cursor = \<lparr>cu_journal_id = journal_id, cu_offset = p + int (length events)\<rparr>, eb_events = events,
        eb_oldest_retained_offset = (if log = [] then None else Some (held_from m log + 1)),
        eb_newest_retained_offset = (if log = [] then None else Some n),
        eb_has_more = (p + k < n)\<rparr>)"

definition cursor_ok :: "event_cursor option \<Rightarrow> bool" where
  "cursor_ok cursor \<longleftrightarrow> (\<forall>c. cursor = Some c \<longrightarrow> event_cursor_post_init c = Inr ())"

lemma held_events:
  assumes ok: "journal_ok lib log db"
  shows "mapE (stored_event_of lib) (ev_rows db) = Inr (drop (nat (held_from (ev_maximum_events db) log)) (numbered log))"
proof -
  have "nat (held_from (ev_maximum_events db) log) = length log - nat (ev_maximum_events db)"
    using journal_okD(2) [OF ok] by (auto simp: held_from_def min_def)
  then show ?thesis
    using visible_events [OF ok] by (simp add: visible_def journal_rows_sorted [OF ok] take_last_def)
qed

lemma held_oldest:
  assumes ok: "journal_ok lib log db"
  shows "ev_oldest_offset db = (if log = [] then 0 else held_from (ev_maximum_events db) log + 1)"
  using journal_okD(2,6,7) [OF ok] by (auto simp: first_offset_def held_from_def min_def)

lemma stored_event_offset: "stored_event_of lib r = Inr v \<Longrightarrow> fst v = er_offset r"
  by (auto simp: stored_event_of_def)

lemma segment_offsets:
  assumes "p \<le> length log"
  shows "map fst (take k (drop p (numbered log))) = [int p + 1..int p + int (length (take k (drop p (numbered log))))]"
    (is "map fst ?seg = _")
proof (rule nth_equalityI)
  fix i assume "i < length (map fst ?seg)"
  then have i: "i < length ?seg" "p + i < length log" "?seg ! i = numbered log ! (p + i)" using assms by auto
  then have "map fst ?seg ! i = int p + 1 + int i" by (simp add: numbered_nth)
  also have "\<dots> = [int p + 1..int p + int (length ?seg)] ! i" using i(1) by (intro nth_upto [symmetric]) linarith
  finally show "map fst ?seg ! i = [int p + 1..int p + int (length ?seg)] ! i" .
qed simp

lemma batch_of_log_valid:
  assumes ok: "journal_ok lib log db" and p: "held_from (ev_maximum_events db) log \<le> p" "p \<le> int (length log)" and k: "1 \<le> k"
    and events: "events = take (nat k) (drop (nat p) (numbered log))"
  shows "event_batch_post_init \<lparr>eb_cursor = \<lparr>cu_journal_id = ev_journal_id db, cu_offset = p + int (length events)\<rparr>,
      eb_events = events, eb_oldest_retained_offset = (if log = [] then None else Some (held_from (ev_maximum_events db) log + 1)),
      eb_newest_retained_offset = (if log = [] then None else Some (int (length log))), eb_has_more = rest\<rparr> = Inr ()"
proof -
  note facts = journal_okD [OF ok]
  have held: "0 \<le> held_from (ev_maximum_events db) log" "log \<noteq> [] \<Longrightarrow> held_from (ev_maximum_events db) log < int (length log)"
    using facts(2) by (auto simp: held_from_def min_def)
  have offsets: "map fst events = [p + 1..p + int (length events)]"
    using segment_offsets [of "nat p" log "nat k"] p held(1) by (simp add: events)
  have chain: "map fst events = [fst (hd events)..fst (hd events) + int (length events) - 1]" "fst (last events) = p + int (length events)"
      "last [fst (hd events)..fst (hd events) + int (length events) - 1] = p + int (length events)"
    if "events \<noteq> []"
  proof -
    have ends: "hd [p + 1..p + int (length events)] = p + 1" "last [p + 1..p + int (length events)] = p + int (length events)"
    proof -
      have "p + 1 \<le> p + int (length events)" using that by (cases events) simp_all
      then show "hd [p + 1..p + int (length events)] = p + 1" "last [p + 1..p + int (length events)] = p + int (length events)"
        by (simp add: upto_rec1, simp add: upto_rec2)
    qed
    have "fst (hd events) = hd (map fst events)" "fst (last events) = last (map fst events)" using that by (simp_all add: hd_map last_map)
    then show "map fst events = [fst (hd events)..fst (hd events) + int (length events) - 1]" "fst (last events) = p + int (length events)"
        "last [fst (hd events)..fst (hd events) + int (length events) - 1] = p + int (length events)"
      unfolding offsets ends by (simp_all add: ends)
  qed
  show ?thesis
    using held facts(5) chain
    by (auto simp: event_batch_post_init_def require_safe_integer_def nonzero_def Let_def list.case_eq_if last_map)
qed

text \<open>The tables at a position that the reader may read from: the rows of the batch, and the checks that it passes.\<close>

lemma held_bounds: "journal_ok lib log db \<Longrightarrow> 0 \<le> held_from (ev_maximum_events db) log \<and> held_from (ev_maximum_events db) log \<le> int (length log)"
  using journal_okD(2) by (fastforce simp: held_from_def)

lemma position_is_requested:
  assumes "journal_ok lib log db"
  shows "requested_offset db cursor = read_position (ev_maximum_events db) log cursor"
  using held_oldest [OF assms] held_bounds [OF assms]
  by (auto simp: requested_offset_def read_position_def held_from_def split: option.split)

lemma cursor_checks:
  assumes ok: "journal_ok lib log db" and cursor: "cursor_ok cursor" and p: "p = read_position (ev_maximum_events db) log cursor"
  shows "run_checks [
        refuse (case cursor of None \<Rightarrow> False | Some c \<Rightarrow> cu_journal_id c \<noteq> ev_journal_id db)
          (JournalConflict ''event cursor belongs to another journal''),
        refuse (ev_oldest_offset db \<noteq> 0 \<and> p < ev_oldest_offset db - 1) (CursorGap p (ev_oldest_offset db)),
        refuse (p > ev_last_offset db) (JournalConflict ''event cursor is ahead of the journal tail'')] =
      (if (case cursor of None \<Rightarrow> False | Some c \<Rightarrow> cu_journal_id c \<noteq> ev_journal_id db)
       then Inl (JournalConflict ''event cursor belongs to another journal'')
       else if p < held_from (ev_maximum_events db) log then Inl (CursorGap p (held_from (ev_maximum_events db) log + 1))
       else if int (length log) < p then Inl (JournalConflict ''event cursor is ahead of the journal tail'') else Inr ())"
proof -
  have gap: "ev_oldest_offset db \<noteq> 0 \<and> p < ev_oldest_offset db - 1 \<longleftrightarrow> p < held_from (ev_maximum_events db) log"
    using held_oldest [OF ok] held_bounds [OF ok] cursor
    by (auto simp: p read_position_def held_from_def cursor_ok_def event_cursor_post_init_def require_safe_integer_def split: option.splits)
  then have "ev_oldest_offset db = held_from (ev_maximum_events db) log + 1" if "p < held_from (ev_maximum_events db) log"
    using that held_oldest [OF ok] by auto
  then show ?thesis
    unfolding gap journal_okD(4) [OF ok] by (simp add: refuse_def)
qed

lemma batch_rows:
  assumes ok: "journal_ok lib log db" and p: "held_from (ev_maximum_events db) log \<le> p" "p \<le> int (length log)"
  shows "mapE (stored_event_of lib) (take n (filter (\<lambda>r. p < er_offset r) (ev_rows db))) = Inr (take n (drop (nat p) (numbered log)))"
    and "length (filter (\<lambda>r. p < er_offset r) (ev_rows db)) = length log - nat p"
proof -
  let ?m = "ev_maximum_events db"
  have "filter (\<lambda>v. p < fst v) (drop (nat (held_from ?m log)) (numbered log)) = drop (nat p) (numbered log)"
    using filter_numbered [of "nat (held_from ?m log)" "nat p" log] p held_bounds [OF ok] by simp
  then show "mapE (stored_event_of lib) (take n (filter (\<lambda>r. p < er_offset r) (ev_rows db))) = Inr (take n (drop (nat p) (numbered log)))"
    and "length (filter (\<lambda>r. p < er_offset r) (ev_rows db)) = length log - nat p"
    using mapE_filter_take [OF held_events [OF ok], of "\<lambda>v. p < fst v" "\<lambda>r. p < er_offset r"] stored_event_offset
    by (metis, metis length_drop length_numbered)
qed

lemma reached_offset:
  assumes "0 \<le> p" "p \<le> int (length log)" "events = take k (drop (nat p) (numbered log))"
  shows "(if events \<noteq> [] then fst (last events) else p) = p + int (length events)"
proof (cases "events = []")
  case False
  have "fst (last events) = last (map fst events)" using False by (simp add: last_map)
  also have "map fst events = [p + 1..p + int (length events)]" using segment_offsets [of "nat p" log k] assms by simp
  also have "last \<dots> = p + int (length events)" using False by (cases events) (simp_all add: upto_rec2)
  finally show ?thesis using False by simp
qed simp

lemma select_batch_segment:
  assumes ok: "journal_ok lib log db" and cursor: "cursor_ok cursor" and k: "1 \<le> k"
  shows "select_batch lib cursor k db = log_batch (ev_maximum_events db) (ev_journal_id db) log cursor k"
proof -
  define m where "m = ev_maximum_events db"
  note facts = journal_okD [OF ok] and held = held_bounds [OF ok, folded m_def]
  define p where "p = read_position m log cursor"
  note requested = position_is_requested [OF ok, of cursor, folded m_def, folded p_def]
    and checks = cursor_checks [OF ok cursor, folded m_def, OF p_def]
  show ?thesis
  proof (cases "p < held_from m log \<or> int (length log) < p")
    case True
    then show ?thesis
      unfolding select_batch_def log_batch_def requested Let_def m_def [symmetric] p_def [symmetric] checks
      by (cases "case cursor of None \<Rightarrow> False | Some c \<Rightarrow> cu_journal_id c \<noteq> ev_journal_id db"; cases "p < held_from m log") simp_all
  next
    case False
    then have p: "held_from m log \<le> p" "p \<le> int (length log)" by auto
    define events where "events = take (nat k) (drop (nat p) (numbered log))"
    let ?rows = "filter (\<lambda>r. p < er_offset r) (ev_rows db)"
    note rows = batch_rows [OF ok, folded m_def, OF p]
    have rest: "k < int (length (take (nat (k + 1)) ?rows)) \<longleftrightarrow> p + k < int (length log)"
      using rows(2) p held k by (auto simp: min_def)
    have taken: "take (nat k) (take (nat (k + 1)) ?rows) = take (nat k) ?rows" using k by (simp add: min_def)
    have reached: "(if events \<noteq> [] then fst (last events) else p) = p + int (length events)"
      using reached_offset [OF _ p(2) events_def] p held by simp
    have "p + int (length events) \<le> int (length log)" using p held by (simp add: events_def)
    then have cursor_new: "event_cursor_new \<lparr>cu_journal_id = ev_journal_id db, cu_offset = p + int (length events)\<rparr> =
        Inr \<lparr>cu_journal_id = ev_journal_id db, cu_offset = p + int (length events)\<rparr>"
      using facts(1,5) p held opid_operational [OF _ facts(1)]
      by (simp add: event_cursor_new_def event_cursor_post_init_def require_operational_id_def require_safe_integer_def is_lower_def is_lower_alnum_def)
    note batch = batch_of_log_valid [OF ok, folded m_def, OF p k events_def]
    have bounds: "(if ev_oldest_offset db = 0 then None else Some (ev_oldest_offset db)) = (if log = [] then None else Some (held_from m log + 1))"
      "(if ev_last_offset db = 0 then None else Some (ev_last_offset db)) = (if log = [] then None else Some (int (length log)))"
      using held_oldest [OF ok, folded m_def] facts(4) held by auto
    show ?thesis
      unfolding select_batch_def log_batch_def requested Let_def m_def [symmetric] p_def [symmetric] checks journal_rows_sorted [OF ok] taken
        rows(1) rest events_def [symmetric]
      using False by (simp add: reached cursor_new bounds batch event_batch_new_def)
  qed
qed

lemma read_events_segment:
  assumes "event_history lib m log w" "library_ok lib" "es_library s = lib" "\<not> vw_closed w" "1 \<le> k" "k \<le> 10000" "cursor_ok cursor"
  shows "read_events s cursor k w = (log_batch m (ev_journal_id (vw_db w)) log cursor k, w)"
  using select_batch_segment [of lib log "vw_db w" cursor k] history_ok [OF assms(1,2)] assms(3-)
  by (simp add: read_events_def op_bind_def op_lift_def ensure_open_def read_event_db_def refuse_def)

text \<open>
  C16. A read of any journal that sessions can leave answers exactly as a read of the numbered
  log: the next events after the cursor, all of them up to the batch size, in order and without a
  gap; a cursor before the retained events is told so, and none is skipped silently.
\<close>

theorem batch_is_log_segment:
  assumes "event_history lib m log w" "library_ok lib" "es_library s = lib" "\<not> vw_closed w"
    and "1 \<le> k" "k \<le> 10000" "cursor_ok cursor"
  shows "read_events s cursor k w = (log_batch m (ev_journal_id (vw_db w)) log cursor k, w)"
  using assms by (rule read_events_segment)

section \<open>Subscribers\<close>

lemma numbered_logged: "\<exists>more. numbered (logged log r) = numbered log @ more"
  by (auto simp: logged_def numbered_snoc split: sum.splits)

lemma step_extends: "event_step lib a b \<Longrightarrow> \<exists>rest. numbered (fst b) = numbered (fst a) @ rest"
  by (induction rule: event_step.induct) (auto simp: numbered_logged)

lemma steps_extend: "event_steps lib a b \<Longrightarrow> \<exists>rest. numbered (fst b) = numbered (fst a) @ rest"
proof (induction rule: event_steps.induct)
  case (go a b c)
  then obtain r q where "numbered (fst b) = numbered (fst a) @ r" "numbered (fst c) = numbered (fst b) @ q"
    using step_extends by blast
  then show ?case by simp
qed simp

text \<open>The poll waits when its first read was empty and the timeout is not zero.\<close>

definition waits :: "event_session \<Rightarrow> event_cursor option \<Rightarrow> int \<Rightarrow> int option \<Rightarrow> event_world \<Rightarrow> bool" where
  "waits s cursor k timeout w \<longleftrightarrow>
     (case fst (read_events s cursor k w) of Inl _ \<Rightarrow> False | Inr batch \<Rightarrow> eb_events batch = []) \<and> timeout \<noteq> Some 0"

text \<open>
  A subscriber on a journal that others use: between its polls, and in the two gaps of a poll that
  waits, any steps may happen. The state is the log, the world, the cursor and what was received.
\<close>

inductive subscribed ::
    "state_library \<Rightarrow> int \<Rightarrow> lifecycle_event list \<Rightarrow> event_world \<Rightarrow> event_cursor option \<Rightarrow> stored_event list \<Rightarrow> bool" for lib m where
  joined: "event_history lib m log w \<Longrightarrow> subscribed lib m log w None []"
| others: "subscribed lib m log w cursor got \<Longrightarrow> event_steps lib (log, w) (log', w') \<Longrightarrow> subscribed lib m log' w' cursor got"
| polled: "subscribed lib m log w cursor got \<Longrightarrow> es_library s = lib \<Longrightarrow>
    event_steps lib (log, w) (log1, between 0 w) \<Longrightarrow> event_steps lib (log1, between 0 w) (log2, between 1 (between 0 w)) \<Longrightarrow>
    next_batch s between cursor k timeout w = (Inr (batch, cursor'), w') \<Longrightarrow>
    log' = (if waits s cursor k timeout w then log2 else log) \<Longrightarrow>
    subscribed lib m log' w' cursor' (got @ eb_events batch)"

lemma read_events_Inr:
  assumes hist: "event_history lib m log w" and lib: "library_ok lib" "es_library s = lib" and cursor: "cursor_ok cursor"
    and run: "read_events s cursor k w = (Inr batch, w')"
  shows "w' = w" "log_batch m (ev_journal_id (vw_db w)) log cursor k = Inr batch"
proof -
  have "\<not> vw_closed w" "1 \<le> k" "k \<le> 10000" "w' = w"
    using run by (auto simp: read_events_def op_lift_def)
  then show "w' = w" "log_batch m (ev_journal_id (vw_db w)) log cursor k = Inr batch"
    using read_events_segment [OF hist lib _ _ _ cursor, of k] run by auto
qed

text \<open>What one read adds to the segment that was received before.\<close>

lemma read_extends:
  assumes hist: "event_history lib m log w" and lib: "library_ok lib" "es_library s = lib" and cursor: "cursor_ok cursor"
    and run: "read_events s cursor k w = (Inr batch, w')"
    and got: "cursor = None \<Longrightarrow> got = []" "\<And>c. cursor = Some c \<Longrightarrow> cu_offset c = int (base + length got)"
      "got = take (length got) (drop base (numbered log))"
  shows "w' = w \<and> cursor_ok (Some (eb_cursor batch)) \<and> (\<exists>start.
    cu_offset (eb_cursor batch) = int (start + length (got @ eb_events batch)) \<and>
    got @ eb_events batch = take (length (got @ eb_events batch)) (drop start (numbered log)))"
proof -
  define p where "p = read_position m log cursor"
  have ok: "journal_ok lib log (vw_db w)" using history_ok [OF hist lib(1)] by simp
  have batch: "log_batch m (ev_journal_id (vw_db w)) log cursor k = Inr batch" and w: "w' = w"
    using read_events_Inr [OF hist lib cursor run] by simp_all
  then have p: "p \<le> int (length log)" "held_from m log \<le> p" and events: "eb_events batch = take (nat k) (drop (nat p) (numbered log))"
    and reached: "eb_cursor batch = \<lparr>cu_journal_id = ev_journal_id (vw_db w), cu_offset = p + int (length (eb_events batch))\<rparr>"
    by (auto simp: log_batch_def Let_def p_def split: if_splits)
  have "0 \<le> p"
    using p(2) cursor history_ok [OF hist lib(1)] journal_okD(2) [OF ok]
    by (auto simp: p_def read_position_def held_from_def split: option.splits)
  have "p + int (length (eb_events batch)) \<le> int (length log)" using p \<open>0 \<le> p\<close> by (simp add: events)
  then have "cursor_ok (Some (eb_cursor batch))"
    using \<open>0 \<le> p\<close> journal_okD(1,5) [OF ok] opid_operational [OF _ journal_okD(1) [OF ok]]
    by (simp add: cursor_ok_def reached event_cursor_post_init_def require_operational_id_def require_safe_integer_def
        is_lower_def is_lower_alnum_def)
  moreover have "\<exists>start. p = int (start + length got) \<and> got = take (length got) (drop start (numbered log))"
  proof (cases cursor)
    case None
    with got(1) \<open>0 \<le> p\<close> show ?thesis by (intro exI [of _ "nat p"]) simp
  next
    case (Some c)
    then have "p = int (base + length got)" using got(2) by (simp add: p_def read_position_def)
    with got(3) show ?thesis by blast
  qed
  then obtain start where start: "p = int (start + length got)" "got = take (length got) (drop start (numbered log))" by blast
  have "got @ eb_events batch = take (length got + nat k) (drop start (numbered log))"
    unfolding take_add using start(2) by (simp add: events start(1) add.commute nat_int_add)
  then have "got @ eb_events batch = take (length (got @ eb_events batch)) (drop start (numbered log))"
    by (metis length_take min.cobounded1 min_def nle_le take_all_iff)
  moreover have "cu_offset (eb_cursor batch) = int (start + length (got @ eb_events batch))" using start(1) reached by simp
  ultimately show ?thesis using w by blast
qed

lemma next_batch_reads:
  assumes "next_batch s between cursor k timeout w = (Inr (batch, cursor'), w')"
  shows "cursor' = Some (eb_cursor batch)"
    and "\<not> waits s cursor k timeout w \<Longrightarrow> read_events s cursor k w = (Inr batch, w')"
    and "waits s cursor k timeout w \<Longrightarrow> read_events s cursor k (between 1 (between 0 w)) = (Inr batch, w')"
proof -
  obtain first v where first: "read_events s cursor k w = (Inr first, v)" and v: "v = w"
    and rest: "(if eb_events first = [] \<and> timeout \<noteq> Some 0
         then op_bind (\<lambda>w. ensure_open (between 0 w)) (\<lambda>_ w. read_events s cursor k (between 1 w))
         else op_return first) v = (Inr batch, w')" and "cursor' = Some (eb_cursor batch)"
    using assms by (auto simp: next_batch_def read_events_def)
  then show "cursor' = Some (eb_cursor batch)"
    and "\<not> waits s cursor k timeout w \<Longrightarrow> read_events s cursor k w = (Inr batch, w')"
    and "waits s cursor k timeout w \<Longrightarrow> read_events s cursor k (between 1 (between 0 w)) = (Inr batch, w')"
    using rest first by (auto simp: waits_def v op_bind_run split: if_splits)
qed

definition received_segment :: "lifecycle_event list \<Rightarrow> event_cursor option \<Rightarrow> stored_event list \<Rightarrow> bool" where
  "received_segment log cursor got \<longleftrightarrow> (\<exists>start. got = take (length got) (drop start (numbered log)) \<and>
     (\<forall>c. cursor = Some c \<longrightarrow> cu_offset c = int (start + length got)))"

lemma received_extend:
  assumes "received_segment log cursor got" "numbered log' = numbered log @ rest"
  shows "received_segment log' cursor got"
proof -
  obtain start where start: "got = take (length got) (drop start (numbered log))" "\<forall>c. cursor = Some c \<longrightarrow> cu_offset c = int (start + length got)"
    using assms(1) by (auto simp: received_segment_def)
  show ?thesis
  proof (cases "got = []")
    case True
    with start show ?thesis by (auto simp: received_segment_def intro!: exI [of _ start])
  next
    case False
    have "length got \<le> length (drop start (numbered log))" by (subst start(1)) simp
    then have "got = take (length got) (drop start (numbered log'))" using start(1) False assms(2) by simp
    with start(2) show ?thesis unfolding received_segment_def by blast
  qed
qed

lemma subscribed_invariant:
  assumes "subscribed lib m log w cursor got" and lib: "library_ok lib"
  shows "event_history lib m log w \<and> cursor_ok cursor \<and> (cursor = None \<longrightarrow> got = []) \<and> received_segment log cursor got"
  using assms(1)
proof induction
  case (joined log w)
  then show ?case by (simp add: cursor_ok_def received_segment_def)
next
  case (others log w cursor got log' w')
  then show ?case using history_steps [of lib "(log, w)" "(log', w')" m] steps_extend [OF others.hyps(2)] received_extend by fastforce
next
  case (polled log w cursor got s log1 between log2 k timeout batch cursor' w' log')
  note reads = next_batch_reads [OF polled.hyps(5)]
  define v where "v = (if waits s cursor k timeout w then between 1 (between 0 w) else w)"
  have steps: "event_steps lib (log, w) (log', v)"
  proof -
    have trans: "event_steps lib a c" if "event_steps lib b c" "event_steps lib a b" for a b c
      using that by (induction rule: event_steps.induct) (auto intro: event_steps.go)
    show ?thesis using trans [OF polled.hyps(4,3)] event_steps.stay by (simp add: v_def polled.hyps(6))
  qed
  have hist: "event_history lib m log' v" using history_steps [OF steps] polled.IH by simp
  have seg: "received_segment log' cursor got" using steps_extend [OF steps] polled.IH received_extend by fastforce
  have read: "read_events s cursor k v = (Inr batch, w')" using reads by (simp add: v_def)
  obtain base where base: "got = take (length got) (drop base (numbered log'))" "\<forall>c. cursor = Some c \<longrightarrow> cu_offset c = int (base + length got)"
    using seg by (auto simp: received_segment_def)
  have "w' = v \<and> cursor_ok (Some (eb_cursor batch)) \<and> (\<exists>start.
      cu_offset (eb_cursor batch) = int (start + length (got @ eb_events batch)) \<and>
      got @ eb_events batch = take (length (got @ eb_events batch)) (drop start (numbered log')))"
    using read_extends [OF hist lib polled.hyps(2) _ read, of got base] polled.IH base by blast
  with hist reads(1) show ?case by (auto simp: received_segment_def)
qed

text \<open>
  C19. Exactly once and in order: whatever others publish, close and reopen between the polls of a
  subscriber and while it waits, what it has received is one segment of the numbered log, without
  a gap or a repetition, and its cursor is the end of that segment.
\<close>

theorem subscriber_gets_log_segment:
  assumes "subscribed lib m log w cursor got" "library_ok lib"
  shows "\<exists>start. got = take (length got) (drop start (numbered log)) \<and>
    (\<forall>c. cursor = Some c \<longrightarrow> cu_offset c = int (start + length got))"
  using subscribed_invariant [OF assms] by (simp add: received_segment_def)

end
