(* ===== verification/Event_Errors.thy ===== *)
theory Event_Errors
  imports Event_History
begin

text \<open>
  What a publisher can be told. On a journal that sessions can leave, a refused call reports the
  draft, the request or the state of the stream; corruption and a violated key of the tables
  cannot occur, and neither can a call that replays an event be anything but an answer.
\<close>

fun publisher_error :: "event_error \<Rightarrow> bool" where
  "publisher_error (EventModelError _) = True"
| "publisher_error (StateModelError _) = True"
| "publisher_error (SecretMaterialError _) = True"
| "publisher_error (JournalConflict _) = True"
| "publisher_error JournalClosed = True"
| "publisher_error _ = False"

lemma state_publisher_error: "state_error e \<Longrightarrow> publisher_error e"
  by (cases e) simp_all

lemmas state_errors = canonical_json_error [THEN state_publisher_error] canonical_object_error [THEN state_publisher_error]
  parse_canonical_object_error [THEN state_publisher_error]

section \<open>Constructors\<close>

lemma check_errors:
  "require_operational_id v n = Inl e \<Longrightarrow> publisher_error e"
  "require_event_token v = Inl e \<Longrightarrow> publisher_error e"
  "require_safe_integer i b = Inl e \<Longrightarrow> publisher_error e"
  "require_event_digest v = Inl e \<Longrightarrow> publisher_error e"
  "event_timestamp lib v = Inl e \<Longrightarrow> publisher_error e"
  by (auto simp: require_operational_id_def require_event_token_def require_safe_integer_def require_event_digest_def
      event_timestamp_def ebind_eq_Inl split: timestamp.splits)

lemma check_progress_error: "check_progress d = Inl e \<Longrightarrow> publisher_error e"
  by (auto simp: check_progress_def ebind_eq_Inl dest: check_errors split: option.splits)

lemma check_message_error: "check_message lib v = Inl e \<Longrightarrow> publisher_error e"
  unfolding check_message_def
  by (drule run_checks_raises, elim bexE, simp only: list.set, elim insertE emptyE) (simp_all add: refuse_def split: if_splits sum.splits)

lemma event_draft_error: "event_draft_post_init lib d = Inl e \<Longrightarrow> publisher_error e"
  unfolding event_draft_post_init_def
  by (drule run_checks_raises, elim bexE, simp only: list.set, elim insertE emptyE)
    (auto simp: ebind_eq_Inl dest!: sym [of "Inl e"] dest: check_errors check_progress_error check_message_error state_errors split: option.splits)

lemma lifecycle_event_error: "lifecycle_event_new lib e = Inl err \<Longrightarrow> publisher_error err"
  unfolding lifecycle_event_new_def lifecycle_event_post_init_def calculate_digest_def
  by (auto simp: ebind_eq_Inl dest: check_errors event_draft_error state_errors)

lemma build_event_error: "build_event lib i n t d = Inl e \<Longrightarrow> publisher_error e"
  by (auto simp: build_event_def calculate_digest_def ebind_eq_Inl Let_def dest: state_errors lifecycle_event_error)

lemma snapshot_error: "snapshot_draft lib d = Inl e \<Longrightarrow> publisher_error e"
  by (auto simp: snapshot_draft_def event_draft_new_def ebind_eq_Inl dest: state_errors event_draft_error)

lemma draft_digest_error: "draft_digest lib d = Inl e \<Longrightarrow> publisher_error e"
  by (auto simp: draft_digest_def ebind_eq_Inl dest: state_errors)

lemma stored_event_error: "stored_event_new n e = Inl err \<Longrightarrow> publisher_error err"
  by (auto simp: stored_event_new_def ebind_eq_Inl dest: check_errors)

section \<open>The body of a call\<close>

lemma next_coordinates_error: "next_coordinates db d = Inl e \<Longrightarrow> publisher_error e"
  by (auto simp: next_coordinates_def check_new_stream_def check_next_event_def ebind_eq_Inl split: option.splits if_splits)

text \<open>The coordinates that \<open>next_coordinates\<close> gives are free, so the insertion cannot fail.\<close>

lemma stream_sequence_bound:
  assumes "accepted g es (Some h)" "e \<in> set es"
  shows "le_stream_sequence e \<le> sh_last_sequence h"
proof -
  obtain fs f where es: "es = fs @ [f]" using assms(2) by (cases es rule: rev_cases) auto
  then have "sh_last_sequence h = le_stream_sequence f" using assms(1) by (auto simp: accepted_append head_after_def next_head_def)
  moreover have "sorted (map le_stream_sequence (fs @ [f]))"
    using consecutive_sorted [OF accepted_consecutive [OF assms(1)]] es by simp
  ultimately show ?thesis using assms(2) es by (auto simp: sorted_append)
qed

lemma next_coordinates_fresh:
  assumes ok: "journal_ok lib log db" and coordinates: "next_coordinates db d = Inr (offset, sequence)" and q: "q \<in> set (ev_rows db)"
  shows "er_offset q \<noteq> offset" "\<not> (er_stream_id q = ed_stream_id d \<and> er_stream_sequence q = sequence)"
proof -
  have "offset = int (length log) + 1" using coordinates journal_okD(4) [OF ok] by (auto simp: next_coordinates_def split: option.splits)
  with row_of_log [OF ok q] show "er_offset q \<noteq> offset" by simp
  show "\<not> (er_stream_id q = ed_stream_id d \<and> er_stream_sequence q = sequence)"
  proof
    assume at: "er_stream_id q = ed_stream_id d \<and> er_stream_sequence q = sequence"
    obtain e where e: "e \<in> set (kept_events log db)" "row_event lib q e"
      using list_all2_memberD [OF chained_rows [OF journal_okD(11) [OF ok]] q] by blast
    then have stream: "e \<in> set (stream_events (kept_events log db) (ed_stream_id d))" "le_stream_sequence e = sequence"
      using at by (auto simp: stream_events_def row_event_def)
    then obtain h where h: "h \<in> set (ev_heads db)" "sh_stream_id h = ed_stream_id d"
      using heads_okD(2) [OF journal_okD(13) [OF ok], of "ed_stream_id d"] by (metis empty_iff list.set(1))
    have "head_of db (ed_stream_id d) = Some h"
      unfolding head_of_def using find_head journal_okD(13) [OF ok] h by (fastforce simp: heads_ok_def)
    then have "sequence = sh_last_sequence h + 1" using coordinates by (auto simp: next_coordinates_def)
    moreover have "le_stream_sequence e \<le> sh_last_sequence h"
      using heads_okD(1) [OF journal_okD(13) [OF ok] h(1)] stream(1) stream_sequence_bound h(2) unfolding head_ok_def by metis
    ultimately show False using stream(2) by simp
  qed
qed

lemma append_event_error:
  assumes ok: "journal_ok lib log db" and d: "snapshot_of lib d" and coordinates: "next_coordinates db d = Inr (offset, sequence)"
    and e: "build_event lib event_id sequence t d = Inr e" and fresh: "find (\<lambda>r. er_event_id r = event_id) (ev_rows db) = None"
    and append: "append_event lib d g offset e db = Inl err"
  shows "publisher_error err"
proof -
  note built = build_event_Inr [OF d e]
  have free: "\<not> (er_offset q = offset \<or> er_event_id q = le_event_id e \<or>
      er_stream_id q = le_stream_id e \<and> er_stream_sequence q = le_stream_sequence e)" if q: "q \<in> set (ev_rows db)" for q
    using next_coordinates_fresh [OF ok coordinates q] fresh q built(3,4) check_of_event(3) [OF built(6)]
    by (auto simp: find_None_iff)
  from append show ?thesis
    using free by (auto simp: append_event_def insert_event_row_def chain_digest_def event_document_def ebind_eq_Inl
        dest: state_errors split: if_splits)
qed

lemma publish_selected_error:
  assumes ok: "journal_ok lib log (vw_db w)" and same: "es_library s = lib" and d: "snapshot_of lib d"
    and run: "publish_selected s d i g w = (Inl err, w')"
  shows "publisher_error err"
proof (cases "find (\<lambda>r. er_event_id r = i) (ev_rows (vw_db w))")
  case (Some r)
  then have r: "r \<in> set (ev_rows (vw_db w))" "replayed_event lib g r = Inl err"
    using run find_SomeD [OF Some] by (simp_all add: publish_selected_def same op_bind_def read_event_db_def Some)
  obtain e where "row_event lib r e" using list_all2_memberD [OF chained_rows [OF journal_okD(11) [OF ok]] r(1)] by blast
  with r(2) show ?thesis by (auto simp: replayed_event_def row_event_def ebind_eq_Inl dest: stored_event_error)
next
  case None
  then have "record_event s d i g w = (Inl err, w')"
    using run by (simp add: publish_selected_def op_bind_def read_event_db_def None)
  then show ?thesis
    unfolding record_event_def same
  proof (cases rule: op_bind_cases)
    case raised
    then show ?thesis by (auto dest: next_coordinates_error)
  next
    case (returned x v)
    obtain offset sequence where x: "x = (offset, sequence)" by (cases x)
    have coordinates: "next_coordinates (vw_db w) d = Inr (offset, sequence)" "v = w" using returned(1) x by auto
    from returned(2) [unfolded x prod.case] show ?thesis
    proof (cases rule: op_bind_cases)
      case raised
      then show ?thesis by (auto simp: event_stamp_def split: timestamp.splits)
    next
      case (returned t u)
      have u: "vw_db u = vw_db w" using event_stamp_db [OF returned(1)] coordinates(2) by simp
      from returned(2) show ?thesis
      proof (cases rule: op_bind_cases)
        case raised
        then show ?thesis by (auto dest: build_event_error)
      next
        case (returned e u')
        then have e: "build_event lib i sequence t d = Inr e" "u' = u" by auto
        from returned(2) show ?thesis
          using append_event_error [OF ok d coordinates(1) e(1) None] u e(2)
          by (auto elim!: op_bind_cases dest: stored_event_error simp: change_event_db_def split: sum.splits)
      qed
    qed
  qed
qed

text \<open>
  Once a stream has a unit, an event without progress coordinates cannot follow, not even the last
  one of the stream, although the drafts of such events may not carry a unit.
\<close>

lemma unquantified_event_refused:
  assumes "sh_unit h \<noteq> None" "event_draft_post_init lib d = Inr ()" "ed_current d = None"
  shows "check_next_event h d \<noteq> Inr ()"
  using assms by (auto simp: event_draft_post_init_def check_progress_def check_next_event_def refuse_def split: if_splits)

text \<open>
  C23. On every journal that sessions can leave, a call of \<open>publish\<close> that raises has changed no
  table and reports an unacceptable draft, a conflict with the journal's policy or with the
  stream, or a closed journal; it never meets a corrupt row or a violated key.
\<close>

theorem publish_refusals:
  assumes hist: "event_history lib m log w" and lib: "library_ok lib" "es_library s = lib"
    and run: "publish_event s d i w = (Inl err, w')"
  shows "publisher_error err \<and> vw_db w' = vw_db w"
proof -
  have ok: "journal_ok lib log (vw_db w)" using history_ok [OF hist lib(1)] by simp
  have select: "vw_db v = vw_db w \<and> (\<exists>y. x = Inr y)" if "select_event_id s i w = (x, v)" for x v
    using that by (auto simp: select_event_id_def split: option.splits list.splits)
  have body: "publisher_error err" if "publish_selected s d' j g v = (Inl err, v')" "snapshot_draft lib d = Inr d'" "vw_db v = vw_db w"
    for d' j g v v'
    using that publish_selected_error [OF _ lib(2)] snapshot_draft_Inr ok by metis
  from run have "publisher_error err"
    unfolding publish_event_def lib(2)
    by (auto elim!: op_bind_cases simp: ensure_open_def event_transaction_def
        dest!: select dest: snapshot_error draft_digest_error body split: if_splits prod.splits sum.splits)
  with publish_raised [OF run] show ?thesis by simp
qed

end
