(* ===== verification/Event_Progress.thy ===== *)
theory Event_Progress
  imports Event_Journal
begin

text \<open>
  \<open>ProgressAggregator.project\<close> of \<open>event_models.py\<close>: the status, integer rates and remaining time of
  a stream, from its events only, and \<open>controller.py\<close>'s progress of a stream.
\<close>

record progress_projection =
  pp_stream_id :: string
  pp_operation_kind :: string
  pp_phase :: string
  pp_status :: string
  pp_attempt :: int
  pp_current :: "int option"
  pp_total :: "int option"
  pp_unit :: "string option"
  pp_percent_basis_points :: "int option"
  pp_rate_milliunits_per_second :: "int option"
  pp_eta_seconds :: "int option"
  pp_updated_at :: string
  pp_terminal :: bool
  pp_history_complete :: bool
  pp_sample_count :: int

definition require_optional_safe :: "int option \<Rightarrow> event_error + unit" where
  "require_optional_safe v = (case v of None \<Rightarrow> Inr () | Some n \<Rightarrow> require_safe_integer n False)"

definition check_projected_progress :: "progress_projection \<Rightarrow> event_error + unit" where
  "check_projected_progress p =
     (case pp_current p of
        None \<Rightarrow>
          refuse (pp_total p \<noteq> None \<or> pp_unit p \<noteq> None \<or> pp_percent_basis_points p \<noteq> None \<or>
              pp_rate_milliunits_per_second p \<noteq> None \<or> pp_eta_seconds p \<noteq> None)
            (EventModelError ''non-quantified progress cannot expose quantitative projections'')
      | Some current \<Rightarrow> run_checks [
          require_safe_integer current False,
          refuse (case pp_unit p of None \<Rightarrow> True | Some u \<Rightarrow> u \<notin> set PROGRESS_UNITS)
            (EventModelError ''projected progress unit is unsupported''),
          (case pp_total p of
             None \<Rightarrow> Inr ()
           | Some whole \<Rightarrow> run_checks [
               require_safe_integer whole False,
               refuse (current > whole) (EventModelError ''projected current progress exceeds total'')]),
          require_optional_safe (pp_percent_basis_points p),
          require_optional_safe (pp_rate_milliunits_per_second p),
          require_optional_safe (pp_eta_seconds p),
          refuse (case pp_percent_basis_points p of None \<Rightarrow> False | Some b \<Rightarrow> b > 10000)
            (EventModelError ''progress percentage exceeds 100 percent'')])"

definition progress_projection_post_init :: "state_library \<Rightarrow> progress_projection \<Rightarrow> event_error + unit" where
  "progress_projection_post_init lib p = run_checks [
     require_operational_id (pp_stream_id p) None,
     require_event_token (pp_operation_kind p),
     require_event_token (pp_phase p),
     require_event_token (pp_status p),
     require_safe_integer (pp_attempt p) True,
     ebind (event_timestamp lib (pp_updated_at p)) (\<lambda>_. Inr ()),
     require_safe_integer (pp_sample_count p) True,
     check_projected_progress p]"

definition progress_projection_to_dict :: "progress_projection \<Rightarrow> json" where
  "progress_projection_to_dict p = JObj [
     (''attempt'', JInt (pp_attempt p)),
     (''current'', JOpt JInt (pp_current p)),
     (''eta_seconds'', JOpt JInt (pp_eta_seconds p)),
     (''history_complete'', JBool (pp_history_complete p)),
     (''operation_kind'', JStr (pp_operation_kind p)),
     (''percent_basis_points'', JOpt JInt (pp_percent_basis_points p)),
     (''phase'', JStr (pp_phase p)),
     (''rate_milliunits_per_second'', JOpt JInt (pp_rate_milliunits_per_second p)),
     (''sample_count'', JInt (pp_sample_count p)),
     (''schema_version'', JStr ''progress-projection.v1''),
     (''status'', JStr (pp_status p)),
     (''stream_id'', JStr (pp_stream_id p)),
     (''terminal'', JBool (pp_terminal p)),
     (''total'', JOpt JInt (pp_total p)),
     (''unit'', JOpt JStr (pp_unit p)),
     (''updated_at'', JStr (pp_updated_at p))]"

section \<open>The loop\<close>

record progress_loop =
  pl_expected :: int
  pl_terminal_seen :: bool
  pl_last_current :: "int option"
  pl_last_total :: "int option"
  pl_last_unit :: "string option"
  pl_last_attempt :: int
  pl_samples :: "lifecycle_event list"

definition check_attempt :: "lifecycle_event \<Rightarrow> progress_loop \<Rightarrow> event_error + unit" where
  "check_attempt e st = run_checks [
     refuse (le_stream_sequence e \<noteq> pl_expected st) (EventModelError ''progress event history contains a sequence gap''),
     refuse (pl_terminal_seen st) (EventModelError ''progress event follows a terminal event''),
     refuse (le_attempt e < pl_last_attempt st \<or> le_attempt e > pl_last_attempt st + 1)
       (EventModelError ''progress attempt sequence is not contiguous''),
     (if le_attempt e > pl_last_attempt st then run_checks [
        refuse (le_status e \<noteq> ''resumed'') (EventModelError ''a new progress attempt must begin with resumed status''),
        refuse (le_current e \<noteq> pl_last_current st)
          (EventModelError ''resumed progress must start at the prior durable coordinate'')]
      else Inr ())]"

definition check_coordinate :: "lifecycle_event \<Rightarrow> int \<Rightarrow> progress_loop \<Rightarrow> event_error + unit" where
  "check_coordinate e current st = run_checks [
     refuse (case pl_last_current st of None \<Rightarrow> False | Some prior \<Rightarrow> current < prior)
       (EventModelError ''progress current coordinate moved backward''),
     refuse (pl_last_unit st \<noteq> None \<and> le_unit e \<noteq> pl_last_unit st) (EventModelError ''progress unit changed within one stream''),
     refuse (pl_last_total st \<noteq> None \<and> le_total e \<notin> {None, pl_last_total st})
       (EventModelError ''progress total changed within one stream'')]"

definition project_event :: "lifecycle_event \<Rightarrow> progress_loop \<Rightarrow> event_error + progress_loop" where
  "project_event e st =
     ebind (check_attempt e st) (\<lambda>_.
     let samples = (if le_attempt e > pl_last_attempt st then [] else pl_samples st);
         st' = st\<lparr>pl_expected := pl_expected st + 1, pl_terminal_seen := le_terminal e,
           pl_last_attempt := le_attempt e, pl_samples := samples\<rparr> in
     case le_current e of
       None \<Rightarrow> Inr st'
     | Some current \<Rightarrow>
         ebind (check_coordinate e current st) (\<lambda>_.
         Inr (st'\<lparr>pl_last_current := Some current,
           pl_last_total := (if le_total e \<noteq> None then le_total e else pl_last_total st),
           pl_last_unit := le_unit e, pl_samples := samples @ [e]\<rparr>)))"

definition progress_start :: "lifecycle_event \<Rightarrow> progress_loop" where
  "progress_start e = \<lparr>pl_expected = le_stream_sequence e, pl_terminal_seen = False, pl_last_current = None,
     pl_last_total = None, pl_last_unit = None, pl_last_attempt = le_attempt e, pl_samples = []\<rparr>"

section \<open>Rates\<close>

text \<open>\<open>timedelta\<close> keeps days, seconds and microseconds, the last two non-negative.\<close>

definition elapsed_milliseconds :: "int \<Rightarrow> int" where
  "elapsed_milliseconds microseconds =
     (let days = microseconds div 86400000000; seconds = microseconds mod 86400000000 div 1000000;
          rest = microseconds mod 86400000000 mod 1000000 in
      days * 86400000 + seconds * 1000 + rest div 1000)"

definition percent_of :: "progress_loop \<Rightarrow> int option" where
  "percent_of st =
     (case (pl_last_current st, pl_last_total st) of
        (Some current, Some whole) \<Rightarrow> Some (if whole = 0 then 10000 else current * 10000 div whole)
      | _ \<Rightarrow> None)"

definition rate_and_eta :: "state_library \<Rightarrow> progress_loop \<Rightarrow> event_error + int option \<times> int option" where
  "rate_and_eta lib st =
     (let quantitative = filter (\<lambda>e. le_current e \<noteq> None) (pl_samples st) in
      if length quantitative < 2 then Inr (None, None)
      else
        ebind (event_timestamp lib (le_occurred_at (last quantitative))) (\<lambda>t1.
        ebind (event_timestamp lib (le_occurred_at (hd quantitative))) (\<lambda>t0.
        let elapsed_ms = elapsed_milliseconds (t1 - t0);
            delta = nonzero (le_current (last quantitative)) - nonzero (le_current (hd quantitative)) in
        if elapsed_ms > 0 \<and> delta > 0 then
          (let rate = min SAFE_INTEGER_MAX (delta * 1000000 div elapsed_ms) in
           Inr (Some rate,
             (case (pl_last_total st, pl_last_current st) of
                (Some whole, Some current) \<Rightarrow>
                  if rate > 0 then Some (min SAFE_INTEGER_MAX (((whole - current) * 1000 + rate - 1) div rate)) else None
              | _ \<Rightarrow> None)))
        else Inr (None, None))))"

definition project_progress :: "state_library \<Rightarrow> lifecycle_event list \<Rightarrow> event_error + progress_projection" where
  "project_progress lib events =
     (case events of
        [] \<Rightarrow> Inl (EventModelError ''progress projection requires at least one event'')
      | first # _ \<Rightarrow>
        let ordered = sort_key le_stream_sequence events; latest = last ordered in
        if \<exists>e \<in> set ordered. le_stream_id e \<noteq> le_stream_id first \<or> le_operation_kind e \<noteq> le_operation_kind first
        then Inl (EventModelError ''progress projection cannot mix streams or operation kinds'')
        else
          ebind (foldE project_event ordered (progress_start (hd ordered))) (\<lambda>st.
          ebind (rate_and_eta lib st) (\<lambda>(rate, eta).
          let p = \<lparr>pp_stream_id = le_stream_id first, pp_operation_kind = le_operation_kind first,
            pp_phase = le_phase latest, pp_status = le_status latest, pp_attempt = le_attempt latest,
            pp_current = pl_last_current st, pp_total = pl_last_total st, pp_unit = pl_last_unit st,
            pp_percent_basis_points = percent_of st, pp_rate_milliunits_per_second = rate, pp_eta_seconds = eta,
            pp_updated_at = le_occurred_at latest, pp_terminal = le_terminal latest,
            pp_history_complete = (le_stream_sequence (hd ordered) = 1), pp_sample_count = int (length ordered)\<rparr> in
          ebind (progress_projection_post_init lib p) (\<lambda>_. Inr p))))"

definition stream_progress :: "event_session \<Rightarrow> string \<Rightarrow> progress_projection event_action" where
  "stream_progress s stream_id = op_bind (read_stream s stream_id) (\<lambda>events. op_lift (project_progress (es_library s) events))"

section \<open>Basic facts\<close>

lemma div_by_parts:
  fixes b c x :: int
  assumes "0 < b"
  shows "x div b = x div (b * c) * c + x mod (b * c) div b"
proof -
  have "x = x mod (b * c) + x div (b * c) * c * b"
    using div_mult_mod_eq [of x "b * c"] by (simp add: ac_simps)
  then have "x div b = (x mod (b * c) + x div (b * c) * c * b) div b" by simp
  also have "\<dots> = x div (b * c) * c + x mod (b * c) div b" using assms by (intro div_mult_self1) simp
  finally show ?thesis .
qed

lemma elapsed_milliseconds_eq: "elapsed_milliseconds t = t div 1000"
proof -
  have n: "(1000 :: int) * 86400000 = 86400000000" "(1000 :: int) * 1000 = 1000000" by simp_all
  have "t div 1000 = t div 86400000000 * 86400000 + t mod 86400000000 div 1000"
    by (rule div_by_parts [of 1000 t 86400000, unfolded n]) simp
  moreover have "t mod 86400000000 div 1000 = t mod 86400000000 div 1000000 * 1000 + t mod 86400000000 mod 1000000 div 1000"
    by (rule div_by_parts [of 1000 "t mod 86400000000" 1000, unfolded n]) simp
  ultimately show ?thesis unfolding elapsed_milliseconds_def Let_def by (simp only: add.assoc)
qed

text \<open>The order in which the events are given does not matter.\<close>

lemma project_progress_order:
  assumes "mset es = mset fs" "distinct (map le_stream_sequence es)"
  shows "project_progress lib es = project_progress lib fs"
proof (cases es)
  case Nil
  with assms(1) show ?thesis by simp
next
  case (Cons e es')
  then obtain f fs' where fs: "fs = f # fs'" using assms(1) by (cases fs) auto
  have sorted: "sort_key le_stream_sequence es = sort_key le_stream_sequence fs" by (rule sort_key_canonical [OF assms])
  have members: "set es = set fs" using assms(1) by (metis set_mset_mset)
  have in_sorted: "e \<in> set (sort_key le_stream_sequence es)" "f \<in> set (sort_key le_stream_sequence es)"
    unfolding set_sort using members Cons fs by auto
  show ?thesis
  proof (cases "le_stream_id e = le_stream_id f \<and> le_operation_kind e = le_operation_kind f")
    case True
    then show ?thesis unfolding project_progress_def Cons fs list.case Let_def
      using sorted by (simp only: Cons fs)
  next
    case False
    then have mixed: "\<exists>x \<in> set (sort_key le_stream_sequence es). le_stream_id x \<noteq> le_stream_id y \<or> le_operation_kind x \<noteq> le_operation_kind y" for y
      using in_sorted by (cases "le_stream_id e = le_stream_id y \<and> le_operation_kind e = le_operation_kind y") metis+
    have "project_progress lib (x # xs) = Inl (EventModelError ''progress projection cannot mix streams or operation kinds'')"
      if "sort_key le_stream_sequence (x # xs) = sort_key le_stream_sequence es" for x xs
      unfolding project_progress_def list.case Let_def that by (rule if_P [OF mixed])
    then show ?thesis using sorted unfolding Cons fs by metis
  qed
qed

end
