(* ===== verification/Event_Projection.thy ===== *)
theory Event_Projection
  imports Event_History Event_Progress
begin

text \<open>
  The journal and the aggregator together: what \<open>publish\<close> accepts in a stream the projection can
  read, from any retained tail of the stream, up to one gap between the two: a coordinate beyond
  a total that an earlier event announced.
\<close>

section \<open>The latest announced values\<close>

fun latest :: "'a option \<Rightarrow> 'a option list \<Rightarrow> 'a option" where
  "latest d [] = d"
| "latest d (v # vs) = latest (if v = None then d else v) vs"

lemma latest_snoc: "latest d (vs @ [v]) = (if v = None then latest d vs else v)"
  by (induction vs arbitrary: d) auto

lemma latest_Some: "latest None vs = Some x \<Longrightarrow> Some x \<in> set vs"
proof (induction vs rule: rev_induct)
  case (snoc v vs)
  then show ?case by (auto simp: latest_snoc split: if_splits)
qed simp

text \<open>The loop after the events \<open>es\<close>, the last of which left the head \<open>h\<close>.\<close>

definition follows :: "lifecycle_event list \<Rightarrow> head_row \<Rightarrow> progress_loop \<Rightarrow> bool" where
  "follows es h st \<longleftrightarrow>
     pl_expected st = sh_last_sequence h + 1 \<and> pl_terminal_seen st = sh_terminal h \<and> pl_last_attempt st = sh_attempt h \<and>
     pl_last_current st = sh_current_value h \<and> pl_last_unit st = sh_unit h \<and> pl_last_total st \<in> {None, sh_total_value h} \<and>
     head_wf (Some h) \<and>
     pl_last_current st = latest None (map le_current es) \<and> pl_last_total st = latest None (map le_total es) \<and>
     pl_last_unit st = latest None (map le_unit es) \<and> set (pl_samples st) \<subseteq> set es"

lemma check_next_simps:
  assumes "check_next_event h (draft_of e) = Inr ()"
  shows "\<not> sh_terminal h" "le_operation_kind e = sh_operation_kind h" "le_attempt e = sh_attempt h \<or> le_attempt e = sh_attempt h + 1"
    and "le_attempt e = sh_attempt h + 1 \<Longrightarrow> le_status e = ''resumed'' \<and> le_current e = sh_current_value h"
    and "le_current e = Some c \<Longrightarrow> sh_current_value h = Some p \<Longrightarrow> p \<le> c"
    and "sh_unit h \<noteq> None \<Longrightarrow> le_unit e = sh_unit h"
    and "sh_total_value h \<noteq> None \<Longrightarrow> le_total e \<in> {None, sh_total_value h}"
  using assms by (auto simp: check_next_event_def event_draft_of_def split: if_splits)

lemma head_after_values:
  "sh_last_sequence (head_after g e) = le_stream_sequence e" "sh_attempt (head_after g e) = le_attempt e"
  "sh_terminal (head_after g e) = le_terminal e"
  "sh_current_value (head_after g e) = (if le_current e \<noteq> None then le_current e else case g of None \<Rightarrow> None | Some h \<Rightarrow> sh_current_value h)"
  "sh_total_value (head_after g e) = (if le_total e \<noteq> None then le_total e else case g of None \<Rightarrow> None | Some h \<Rightarrow> sh_total_value h)"
  "sh_unit (head_after g e) = (if le_unit e \<noteq> None then le_unit e else case g of None \<Rightarrow> None | Some h \<Rightarrow> sh_unit h)"
  by (simp_all add: head_after_def next_head_def event_draft_of_def)

text \<open>An event without a coordinate is only accepted while the stream has none.\<close>

lemma unquantified_event:
  assumes adm: "admissible g e" and wf: "head_wf g" and e: "valid_event lib e" and none: "le_current e = None"
  shows "le_total e = None" "le_unit e = None" "sh_current_value (head_after g e) = None" "sh_unit (head_after g e) = None"
proof -
  show fields: "le_total e = None" "le_unit e = None" using valid_event_fields(6) [OF e none] by simp_all
  show "sh_current_value (head_after g e) = None" "sh_unit (head_after g e) = None"
    using adm wf none fields check_next_simps(6) by (cases g; force simp: head_after_values)+
qed

lemma quantified_unit:
  assumes "valid_event lib e" "le_current e = Some c"
  obtains u where "le_unit e = Some u" "u \<in> set PROGRESS_UNITS" "safe_integer c"
  using valid_event_fields(7) [OF assms] by blast

lemma first_event_follows:
  assumes adm: "admissible g e" and wf: "head_wf g" and e: "valid_event lib e"
  shows "\<exists>st. project_event e (progress_start e) = Inr st \<and> follows [e] (head_after g e) st"
proof (cases "le_current e")
  case None
  note facts = unquantified_event [OF adm wf e None]
  show ?thesis
    by (simp add: project_event_def check_attempt_def progress_start_def None refuse_def follows_def facts
        head_after_values(1-3))
next
  case (Some c)
  with e obtain u where u: "le_unit e = Some u" by (rule quantified_unit)
  show ?thesis
    by (simp add: project_event_def check_attempt_def check_coordinate_def progress_start_def Some refuse_def
        follows_def u head_after_values)
qed

lemma next_event_follows:
  assumes adm: "admissible (Some h) e" and st: "follows es h st" and e: "valid_event lib e"
  shows "\<exists>st'. project_event e st = Inr st' \<and> follows (es @ [e]) (head_after (Some h) e) st'"
proof -
  have check: "check_next_event h (draft_of e) = Inr ()" and sequence: "le_stream_sequence e = sh_last_sequence h + 1"
    using adm by simp_all
  note rules = check_next_simps [OF check]
  have wf: "head_wf (Some h)" using st by (simp add: follows_def)
  have attempt: "check_attempt e st = Inr ()"
    using rules(1,3,4) st sequence by (auto simp: check_attempt_def follows_def)
  show ?thesis
  proof (cases "le_current e")
    case None
    note facts = unquantified_event [OF adm wf e None]
    have blank: "sh_current_value h = None" "sh_unit h = None" using facts None by (simp_all add: head_after_values)
    show ?thesis
      by (use st facts(1,2) blank sequence in
        \<open>auto simp: project_event_def attempt None Let_def follows_def latest_snoc head_after_values\<close>)
  next
    case (Some c)
    with e obtain u where u: "le_unit e = Some u" by (rule quantified_unit)
    have coordinate: "check_coordinate e c st = Inr ()"
      using rules(5) [OF Some] rules(6,7) st by (auto simp: check_coordinate_def follows_def split: option.splits)
    show ?thesis
      by (use st rules(7) sequence in \<open>auto simp: project_event_def attempt Some coordinate Let_def follows_def latest_snoc head_after_values u\<close>)
  qed
qed

lemma accepted_follows:
  assumes "accepted (Some h) es (Some h')" "follows fs h st" "\<forall>e \<in> set es. valid_event lib e"
  shows "\<exists>st'. foldE project_event es st = Inr st' \<and> follows (fs @ es) h' st'"
  using assms
proof (induction es arbitrary: h fs st)
  case (Cons e es)
  then obtain st' where "project_event e st = Inr st'" "follows (fs @ [e]) (head_after (Some h) e) st'"
    using next_event_follows [of h e fs st lib] by auto
  with Cons show ?case by fastforce
qed simp

lemma accepted_projects:
  assumes acc: "accepted g (e # es) (Some h)" and wf: "head_wf g" and valid: "\<forall>x \<in> set (e # es). valid_event lib x"
  shows "\<exists>st. foldE project_event (e # es) (progress_start e) = Inr st \<and> follows (e # es) h st"
proof -
  obtain st where st: "project_event e (progress_start e) = Inr st" "follows [e] (head_after g e) st"
    using first_event_follows [of g e lib] acc wf valid by auto
  then show ?thesis using accepted_follows [of "head_after g e" es h "[e]" st lib] acc valid by auto
qed

section \<open>The projection of a stream\<close>

text \<open>The last announced coordinate is beyond the last announced total.\<close>

definition overrun :: "lifecycle_event list \<Rightarrow> bool" where
  "overrun es \<longleftrightarrow>
     (case (latest None (map le_current es), latest None (map le_total es)) of
        (Some current, Some whole) \<Rightarrow> whole < current
      | _ \<Rightarrow> False)"

text \<open>What the loop leaves, for events that are valid.\<close>

lemma announced_values:
  assumes valid: "\<forall>e \<in> set es. valid_event lib e"
  shows "latest None (map le_current es) = Some c \<Longrightarrow> safe_integer c"
    and "latest None (map le_total es) = Some n \<Longrightarrow> safe_integer n"
    and "latest None (map le_unit es) = Some u \<Longrightarrow> u \<in> set PROGRESS_UNITS"
    and "latest None (map le_current es) = None \<Longrightarrow> latest None (map le_total es) = None \<and> latest None (map le_unit es) = None"
proof -
  have fields: "(\<forall>c. le_current e = Some c \<longrightarrow> safe_integer c) \<and> (\<forall>n. le_total e = Some n \<longrightarrow> safe_integer n) \<and>
      (\<forall>u. le_unit e = Some u \<longrightarrow> u \<in> set PROGRESS_UNITS) \<and> (le_current e = None \<longrightarrow> le_total e = None \<and> le_unit e = None)"
    if "e \<in> set es" for e
  proof -
    have e: "valid_event lib e" using valid that by blast
    note rules = valid_event_fields(6-8) [OF e]
    show ?thesis
    proof (cases "le_current e")
      case None
      with rules(1) show ?thesis by simp
    next
      case (Some c)
      with rules(2) rules(3) show ?thesis by fastforce
    qed
  qed
  show "latest None (map le_current es) = Some c \<Longrightarrow> safe_integer c"
    using latest_Some fields by fastforce
  show "latest None (map le_total es) = Some n \<Longrightarrow> safe_integer n"
    using latest_Some fields by fastforce
  show "latest None (map le_unit es) = Some u \<Longrightarrow> u \<in> set PROGRESS_UNITS"
    using latest_Some fields by fastforce
  have "latest None (map le_current fs) = None \<longrightarrow> latest None (map le_total fs) = None \<and> latest None (map le_unit fs) = None"
    if "set fs \<subseteq> set es" for fs
    using that fields by (induction fs rule: rev_induct) (auto simp: latest_snoc)
  then show "latest None (map le_current es) = None \<Longrightarrow> latest None (map le_total es) = None \<and> latest None (map le_unit es) = None"
    by blast
qed

lemma latest_None: "latest None vs = None \<Longrightarrow> v \<in> set vs \<Longrightarrow> v = None"
  by (induction vs rule: rev_induct) (auto simp: latest_snoc split: if_splits)

lemma rate_returns:
  assumes valid: "\<forall>e \<in> set (pl_samples st). valid_event lib e"
    and blank: "pl_last_current st = None \<Longrightarrow> \<forall>e \<in> set (pl_samples st). le_current e = None"
  obtains rate eta where "rate_and_eta lib st = Inr (rate, eta)" "require_optional_safe rate = Inr ()"
    and "pl_last_current st = None \<Longrightarrow> rate = None \<and> eta = None"
    and "\<not> (\<exists>c n. pl_last_current st = Some c \<and> pl_last_total st = Some n \<and> n < c) \<Longrightarrow> require_optional_safe eta = Inr ()"
proof -
  define quantitative where "quantitative = filter (\<lambda>e. le_current e \<noteq> None) (pl_samples st)"
  have time: "\<exists>i. event_timestamp lib (le_occurred_at e) = Inr i" if "e \<in> set quantitative" for e
    using valid that valid_event_fields(12) by (fastforce simp: quantitative_def event_timestamp_def)
  show thesis
  proof (cases "length quantitative < 2")
    case True
    then show thesis by (intro that [of None None]) (simp_all add: rate_and_eta_def Let_def quantitative_def require_optional_safe_def)
  next
    case False
    then have ne: "quantitative \<noteq> []" by auto
    have coordinate: "pl_last_current st \<noteq> None"
    proof
      assume "pl_last_current st = None"
      from blank [OF this] ne show False by (simp add: quantitative_def filter_empty_conv)
    qed
    obtain t1 t0 where t: "event_timestamp lib (le_occurred_at (last quantitative)) = Inr t1"
        "event_timestamp lib (le_occurred_at (hd quantitative)) = Inr t0"
      using time ne by (meson last_in_set list.set_sel(1))
    define ms where "ms = elapsed_milliseconds (t1 - t0)"
    define delta where "delta = nonzero (le_current (last quantitative)) - nonzero (le_current (hd quantitative))"
    define rate where "rate = min SAFE_INTEGER_MAX (delta * 1000000 div ms)"
    define eta where "eta = (case (pl_last_total st, pl_last_current st) of
                (Some whole, Some current) \<Rightarrow>
                  if rate > 0 then Some (min SAFE_INTEGER_MAX (((whole - current) * 1000 + rate - 1) div rate)) else None
              | _ \<Rightarrow> None)"
    have run: "rate_and_eta lib st = (if ms > 0 \<and> delta > 0 then Inr (Some rate, eta) else Inr (None, None))"
      using False unfolding rate_and_eta_def Let_def quantitative_def [symmetric] t ebind_Inr ms_def [symmetric]
        delta_def [symmetric] rate_def [symmetric] eta_def [symmetric] by simp
    show thesis
    proof (cases "ms > 0 \<and> delta > 0")
      case True
      have "0 \<le> rate" using True by (simp add: rate_def SAFE_INTEGER_MAX_def pos_imp_zdiv_nonneg_iff)
      then have "require_optional_safe (Some rate) = Inr ()" by (simp add: require_optional_safe_def require_safe_integer_def rate_def)
      moreover have "require_optional_safe eta = Inr ()"
        if within: "\<not> (\<exists>c n. pl_last_current st = Some c \<and> pl_last_total st = Some n \<and> n < c)"
      proof -
        have "0 \<le> ((whole - current) * 1000 + rate - 1) div rate" if "current \<le> whole" "0 < rate" for whole current
          using that by (simp add: pos_imp_zdiv_nonneg_iff)
        with within show ?thesis
          by (auto simp: eta_def require_optional_safe_def require_safe_integer_def SAFE_INTEGER_MAX_def not_less split: option.split)
      qed
      ultimately show thesis using run True coordinate by (intro that [of "Some rate" eta]) auto
    next
      case False
      then show thesis using run by (intro that [of None None]) (simp_all add: require_optional_safe_def)
    qed
  qed
qed

text \<open>The projection that the events of one stream determine, before its validation.\<close>

definition projected :: "lifecycle_event list \<Rightarrow> int option \<Rightarrow> int option \<Rightarrow> progress_loop \<Rightarrow> progress_projection" where
  "projected es rate eta st = \<lparr>pp_stream_id = le_stream_id (last es), pp_operation_kind = le_operation_kind (last es),
     pp_phase = le_phase (last es), pp_status = le_status (last es), pp_attempt = le_attempt (last es),
     pp_current = latest None (map le_current es), pp_total = latest None (map le_total es),
     pp_unit = latest None (map le_unit es), pp_percent_basis_points = percent_of st,
     pp_rate_milliunits_per_second = rate, pp_eta_seconds = eta, pp_updated_at = le_occurred_at (last es),
     pp_terminal = le_terminal (last es), pp_history_complete = (le_stream_sequence (hd es) = 1),
     pp_sample_count = int (length es)\<rparr>"

lemma accepted_kinds:
  assumes "accepted g es (Some h)" "e \<in> set es"
  shows "le_operation_kind e = sh_operation_kind h"
proof -
  have later: "sh_operation_kind h = sh_operation_kind k" if "accepted (Some k) fs (Some h)" for k fs
    using that by (induction fs arbitrary: k) (auto simp: head_after_def next_head_def)
  have "le_operation_kind e = sh_operation_kind h" if "accepted k fs (Some h)" "e \<in> set fs" for k fs
    using that
  proof (induction fs arbitrary: k)
    case (Cons f fs)
    then have f: "admissible k f" "accepted (Some (head_after k f)) fs (Some h)" by simp_all
    show ?case
    proof (cases "e \<in> set fs")
      case True
      with Cons.IH [OF f(2)] show ?thesis by blast
    next
      case False
      with Cons.prems(2) later [OF f(2)] head_after_agrees(1) [OF f(1) refl] show ?thesis by simp
    qed
  qed simp
  with assms show ?thesis by blast
qed

lemma ebind_Inr_id: "ebind m Inr = m"
  by (cases m) simp_all

lemma projection_valid:
  assumes valid: "\<forall>e \<in> set es. valid_event lib e" and ne: "es \<noteq> []" and few: "int (length es) \<le> SAFE_INTEGER_MAX"
    and st: "follows es h st" and rate: "require_optional_safe rate = Inr ()" and eta: "pl_last_current st = None \<Longrightarrow> eta = None"
      "\<not> overrun es \<Longrightarrow> require_optional_safe eta = Inr ()" and none: "pl_last_current st = None \<Longrightarrow> rate = None"
  shows "progress_projection_post_init lib (projected es rate eta st) =
    (if overrun es then Inl (EventModelError ''projected current progress exceeds total'') else Inr ())"
proof -
  have last: "valid_event lib (last es)" using valid ne by simp
  note fields = valid_event_fields [OF last]
  have "1 \<le> int (length es)" using ne by (cases es) simp_all
  then have common: "progress_projection_post_init lib (projected es rate eta st) = check_projected_progress (projected es rate eta st)"
    using fields(1-3,9-12) few ebind_Inr_id [of "check_projected_progress (projected es rate eta st)"]
    by (auto simp: progress_projection_post_init_def projected_def require_operational_id_def require_event_token_def
        require_safe_integer_def event_timestamp_def refuse_def)
  have same: "pl_last_current st = latest None (map le_current es)" "pl_last_total st = latest None (map le_total es)"
      "pl_last_unit st = latest None (map le_unit es)" "sh_current_value h = latest None (map le_current es)"
      "sh_unit h = latest None (map le_unit es)" "head_wf (Some h)"
    using st unfolding follows_def by metis+
  note announced = announced_values [OF valid]
  show ?thesis
  proof (cases "latest None (map le_current es)")
    case None
    then show ?thesis
      unfolding common using announced(4) eta(1) none same
      by (simp add: check_projected_progress_def projected_def percent_of_def overrun_def refuse_def)
  next
    case (Some c)
    then obtain u where u: "latest None (map le_unit es) = Some u" "u \<in> set PROGRESS_UNITS"
      using same(4-6) announced(3) by fastforce
    have c: "require_safe_integer c False = Inr ()" using announced(1) [OF Some] by (simp add: require_safe_integer_def safe_integer_def)
    show ?thesis
    proof (cases "latest None (map le_total es)")
      case None
      then show ?thesis
        unfolding common using Some u c rate eta(2) same
        by (simp add: check_projected_progress_def projected_def percent_of_def overrun_def refuse_def require_optional_safe_def)
    next
      case total: (Some n)
      have n: "require_safe_integer n False = Inr ()" "0 \<le> n" "0 \<le> c"
        using announced(2) [OF total] announced(1) [OF Some] by (simp_all add: require_safe_integer_def safe_integer_def)
      have percent: "percent_of st = Some (if n = 0 then 10000 else c * 10000 div n)" using Some total same by (simp add: percent_of_def)
      show ?thesis
      proof (cases "n < c")
        case True
        then show ?thesis
          unfolding common using Some total u c n by (simp add: check_projected_progress_def projected_def overrun_def refuse_def)
      next
        case False
        then have "c * 10000 div n \<le> 10000" "0 \<le> c * 10000 div n"
          using n zdiv_mono1 [of "c * 10000" "n * 10000" n] by (cases "n = 0"; simp add: pos_imp_zdiv_nonneg_iff)+
        then have "require_optional_safe (percent_of st) = Inr ()" "\<not> (if n = 0 then 10000 else c * 10000 div n) > 10000"
          unfolding percent by (simp_all add: require_optional_safe_def require_safe_integer_def SAFE_INTEGER_MAX_def)
        then show ?thesis
          unfolding common using False Some total u c n rate eta(2)
          by (simp add: check_projected_progress_def projected_def overrun_def percent refuse_def)
      qed
    qed
  qed
qed

text \<open>What the heads of the streams say of a stream that has retained events.\<close>

lemma stream_of_journal:
  assumes ok: "journal_ok lib log db" and es: "es = stream_events (kept_events log db) stream" "es \<noteq> []"
  obtains g h where "mapE (\<lambda>r. event_from_json lib (er_event_json r)) (stream_rows db stream) = Inr es"
    "head_wf g" "accepted g es (Some h)" "\<forall>e \<in> set es. valid_event lib e \<and> le_stream_id e = stream" "int (length es) \<le> SAFE_INTEGER_MAX"
proof -
  note facts = journal_okD [OF ok]
  have rows: "list_all2 (row_event lib) (stream_rows db stream) es"
    unfolding es(1) by (rule stream_rows_events [OF chained_rows [OF facts(11)] facts(13)])
  then have read: "mapE (\<lambda>r. event_from_json lib (er_event_json r)) (stream_rows db stream) = Inr es"
    unfolding mapE_Inr_iff by (rule list_all2_mono) (simp add: row_event_def)
  obtain h where h: "h \<in> set (ev_heads db)" "sh_stream_id h = stream" using heads_okD(2) [OF facts(13)] es by blast
  then obtain g where g: "head_wf g" "accepted g es (Some h)" using heads_okD(1) [OF facts(13) h(1)] es(1) by (auto simp: head_ok_def)
  have kept: "set es \<subseteq> set log" unfolding es(1) stream_events_def kept_events_def by (auto dest: in_set_dropD)
  have "length es \<le> length (kept_events log db)" unfolding es(1) stream_events_def by (rule length_filter_le)
  also have "\<dots> \<le> length log" by (simp add: kept_events_def)
  finally have "int (length es) \<le> SAFE_INTEGER_MAX" using facts(5) by linarith
  moreover have "\<forall>e \<in> set es. valid_event lib e \<and> le_stream_id e = stream"
    using kept facts(15) unfolding es(1) stream_events_def by auto
  ultimately show ?thesis using that read g by blast
qed

lemma progress_state_of:
  assumes accepted: "head_wf g" "accepted g es (Some h)" and valid: "\<forall>e \<in> set es. valid_event lib e" and es: "es \<noteq> []"
  obtains st rate eta where "foldE project_event es (progress_start (hd es)) = Inr st" "follows es h st"
    "rate_and_eta lib st = Inr (rate, eta)" "require_optional_safe rate = Inr ()"
    "pl_last_current st = None \<longrightarrow> eta = None \<and> rate = None" "\<not> overrun es \<longrightarrow> require_optional_safe eta = Inr ()"
proof -
  obtain e fs where e: "es = e # fs" using es by (cases es) auto
  obtain st where st: "foldE project_event es (progress_start (hd es)) = Inr st" "follows es h st"
    using accepted_projects accepted valid unfolding e list.sel by blast
  have samples: "\<forall>e \<in> set (pl_samples st). valid_event lib e" using st(2) valid by (auto simp: follows_def)
  have blank: "\<forall>e \<in> set (pl_samples st). le_current e = None" if "pl_last_current st = None"
    using that st(2) latest_None [of "map le_current es"] by (auto simp: follows_def)
  have within: "\<not> (\<exists>c n. pl_last_current st = Some c \<and> pl_last_total st = Some n \<and> n < c)" if "\<not> overrun es"
    using that st(2) by (auto simp: follows_def overrun_def)
  obtain rate eta where "rate_and_eta lib st = Inr (rate, eta)" "require_optional_safe rate = Inr ()"
      "pl_last_current st = None \<Longrightarrow> eta = None" "\<not> overrun es \<Longrightarrow> require_optional_safe eta = Inr ()"
      "pl_last_current st = None \<Longrightarrow> rate = None"
    using rate_returns [OF samples blank] within by metis
  then show ?thesis using that [OF st, of rate eta] by simp
qed

lemma project_progress_exact:
  assumes accepted: "head_wf g" "accepted g es (Some h)" and es: "es \<noteq> []"
    and valid: "\<forall>e \<in> set es. valid_event lib e \<and> le_stream_id e = stream" and few: "int (length es) \<le> SAFE_INTEGER_MAX"
  shows "\<exists>st rate eta. foldE project_event es (progress_start (hd es)) = Inr st \<and> rate_and_eta lib st = Inr (rate, eta) \<and>
      project_progress lib es = (if overrun es then Inl (EventModelError ''projected current progress exceeds total'')
        else Inr (projected es rate eta st))"
proof -
  obtain e fs where e: "es = e # fs" using es by (cases es) auto
  have events: "\<forall>e \<in> set es. valid_event lib e" using valid by blast
  obtain st rate eta where st: "foldE project_event es (progress_start (hd es)) = Inr st" "follows es h st"
    and rate: "rate_and_eta lib st = Inr (rate, eta)" "require_optional_safe rate = Inr ()"
      "pl_last_current st = None \<longrightarrow> eta = None \<and> rate = None" "\<not> overrun es \<longrightarrow> require_optional_safe eta = Inr ()"
    by (rule progress_state_of [OF accepted events es])
  have "sorted (map le_stream_sequence es)" using consecutive_sorted [OF accepted_consecutive [OF accepted(2)]] by simp
  then have ordered: "sort_key le_stream_sequence es = es" by (rule sort_key_id_if_sorted)
  have same: "le_stream_id x = le_stream_id e \<and> le_operation_kind x = le_operation_kind e" if "x \<in> set es" for x
    using that valid [rule_format, of x] valid [rule_format, of e] accepted_kinds [OF accepted(2), of x]
      accepted_kinds [OF accepted(2), of e] by (simp add: e)
  have hd: "hd es = e" by (simp add: e)
  have left: "pl_last_current st = latest None (map le_current es)" "pl_last_total st = latest None (map le_total es)"
      "pl_last_unit st = latest None (map le_unit es)"
    using st(2) unfolding follows_def by metis+
  have one: "\<not> (\<exists>x \<in> set es. le_stream_id x \<noteq> le_stream_id e \<or> le_operation_kind x \<noteq> le_operation_kind e)" using same by blast
  have "last es \<in> set es" using es by simp
  then have p: "\<lparr>pp_stream_id = le_stream_id e, pp_operation_kind = le_operation_kind e,
          pp_phase = le_phase (last es), pp_status = le_status (last es), pp_attempt = le_attempt (last es),
          pp_current = pl_last_current st, pp_total = pl_last_total st, pp_unit = pl_last_unit st,
          pp_percent_basis_points = percent_of st, pp_rate_milliunits_per_second = rate, pp_eta_seconds = eta,
          pp_updated_at = le_occurred_at (last es), pp_terminal = le_terminal (last es),
          pp_history_complete = (le_stream_sequence e = 1), pp_sample_count = int (length es)\<rparr> = projected es rate eta st"
    using same left by (simp add: projected_def hd)
  have "project_progress lib es = ebind (progress_projection_post_init lib (projected es rate eta st)) (\<lambda>_. Inr (projected es rate eta st))"
    unfolding project_progress_def list.case_eq_if Let_def ordered hd if_not_P [OF es] if_not_P [OF one] st(1) [unfolded hd]
      ebind_Inr rate(1) prod.case p
    by (rule refl)
  then have "project_progress lib es = (if overrun es then Inl (EventModelError ''projected current progress exceeds total'')
      else Inr (projected es rate eta st))"
    using projection_valid [OF events es few st(2) rate(2)] rate(3,4) by simp
  with st(1) rate(1) show ?thesis by blast
qed

text \<open>
  C25. Reading the progress of a stream from any journal that sessions can leave: the projection
  reports status, attempt, phase and end of the last event and the last announced coordinate,
  total and unit; it fails on exactly one kind of history that \<open>publish\<close> accepts, a coordinate
  beyond the last announced total.
\<close>

theorem stream_projection_exact:
  assumes hist: "event_history lib m log w" and lib: "library_ok lib" "es_library s = lib" and open_world: "\<not> vw_closed w"
    and stream: "is_operational_id stream" and es: "es = stream_events (kept_events log (vw_db w)) stream" "es \<noteq> []"
  shows "read_stream s stream w = (Inr es, w) \<and>
    (\<exists>st rate eta. foldE project_event es (progress_start (hd es)) = Inr st \<and> rate_and_eta lib st = Inr (rate, eta) \<and>
      stream_progress s stream w =
      (if overrun es then Inl (EventModelError ''projected current progress exceeds total'') else Inr (projected es rate eta st), w))"
proof -
  have ok: "journal_ok lib log (vw_db w)" using history_ok [OF hist lib(1)] by simp
  obtain g h where stream_of: "mapE (\<lambda>r. event_from_json lib (er_event_json r)) (stream_rows (vw_db w) stream) = Inr es"
      "head_wf g" "accepted g es (Some h)" "\<forall>e \<in> set es. valid_event lib e \<and> le_stream_id e = stream" "int (length es) \<le> SAFE_INTEGER_MAX"
    by (rule stream_of_journal [OF ok es])
  then have read: "read_stream s stream w = (Inr es, w)"
    using open_world stream lib(2) by (simp add: read_stream_def op_bind_def op_lift_def ensure_open_def read_event_db_def refuse_def)
  then have "stream_progress s stream w = (project_progress lib es, w)"
    using lib(2) by (simp add: stream_progress_def op_bind_def op_lift_def)
  with read project_progress_exact [OF stream_of(2,3) es(2) stream_of(4,5)] show ?thesis by simp
qed

end
