(* ===== verification/Event_Witnesses.thy ===== *)
theory Event_Witnesses
  imports Event_Reading Event_Errors Event_Projection
begin

text \<open>
  A journal of at most two events with small stand-ins for the encoder, SHA-256 and the clock that
  satisfy the laws, and the properties at concrete calls: two progress events of one stream, the
  second beyond the total that the first announced.
\<close>

section \<open>The library\<close>

definition sample_hex :: string where
  "sample_hex = replicate 64 (CHR ''0'')"

definition plain_text :: text_library where
  "plain_text = \<lparr>tl_casefold = (\<lambda>s. s), tl_isalnum = is_lower_alnum, tl_authorization_search = (\<lambda>_. False),
     tl_urlsplit = (\<lambda>_. None), tl_parse_qsl = (\<lambda>_. None)\<rparr>"

definition stream_1 :: string where
  "stream_1 = ''opid:v1:transfer:u7:00000000-0000-7000-8000-000000000001''"

definition event_id_of :: "nat \<Rightarrow> string" where
  "event_id_of n = ''opid:v1:lifecycle-event:u7:00000000-0000-7000-8000-00000000000'' @ [''0123456789'' ! n]"

text \<open>Instants as signed unary numbers of milliseconds.\<close>

definition unary_time :: "int \<Rightarrow> string" where
  "unary_time i = (if 0 \<le> i div 1000 then CHR ''p'' # replicate (nat (i div 1000)) (CHR ''x'')
     else CHR ''m'' # replicate (nat (- (i div 1000))) (CHR ''x''))"

definition read_time :: "string \<Rightarrow> timestamp" where
  "read_time s = (case s of c # cs \<Rightarrow> Aware ((if c = CHR ''p'' then int (length cs) else - int (length cs)) * 1000) | [] \<Rightarrow> Unparsable)"

definition draft_at :: "int \<Rightarrow> int option \<Rightarrow> (string \<times> json) list option \<Rightarrow> event_draft" where
  "draft_at current whole attributes = \<lparr>ed_stream_id = stream_1, ed_operation_kind = ''transfer'', ed_event_type = ''progress'',
     ed_phase = ''transfer'', ed_status = ''running'', ed_attempt = 1, ed_current = Some current, ed_total = whole,
     ed_unit = Some ''bytes'', ed_message = ''chunk'', ed_correlation_id = None, ed_causation_id = None,
     ed_attributes = attributes, ed_terminal = False\<rparr>"

definition event_at :: "nat \<Rightarrow> int \<Rightarrow> int option \<Rightarrow> lifecycle_event" where
  "event_at n current whole = (event_values (event_id_of n) (int n) (unary_time (int n * 1000)) (draft_at current whole None)
     ''0'' sample_hex)\<lparr>le_event_digest := sample_hex\<rparr>"

definition event_1 :: lifecycle_event where "event_1 = event_at 1 0 (Some 10)"
definition event_2 :: lifecycle_event where "event_2 = event_at 2 20 None"

text \<open>The documents that the sample encoder knows; those with unordered members share one text.\<close>

definition sample_documents :: "json list" where
  "sample_documents = [JObj [], JStr ''chunk'', draft_document (draft_at 0 (Some 10) (Some [])), draft_document (draft_at 20 None (Some [])),
     event_to_dict event_1 [], event_to_dict event_2 [],
     chain_document 1 sample_hex (event_to_dict event_1 []), chain_document 2 sample_hex (event_to_dict event_2 [])]"

fun number_of :: "'a \<Rightarrow> 'a list \<Rightarrow> nat option" where
  "number_of x [] = None"
| "number_of x (y # ys) = (if x = y then Some 0 else map_option Suc (number_of x ys))"

definition sample_text :: "nat \<Rightarrow> string" where
  "sample_text n = [''0123456789'' ! n]"

definition sample_jcs :: "json \<Rightarrow> string option" where
  "sample_jcs d = (if wire d then map_option sample_text (number_of d sample_documents) else Some ''unordered'')"

definition sample_loads :: "string \<Rightarrow> json option" where
  "sample_loads s =
     (case number_of s (map sample_text [0..<8]) of None \<Rightarrow> None
      | Some n \<Rightarrow> if wire (sample_documents ! n) then Some (sample_documents ! n) else None)"

definition sample_library :: state_library where
  "sample_library = \<lparr>sl_text = plain_text, sl_jcs = sample_jcs, sl_loads = sample_loads, sl_loads_strict = sample_loads,
     sl_encodable = (\<lambda>_. True), sl_utf8_length = (\<lambda>s. int (length s)), sl_sha256 = (\<lambda>_. sample_hex),
     sl_fromisoformat = read_time, sl_isoformat = unary_time\<rparr>"

lemma number_of_Some: "number_of x ys = Some n \<Longrightarrow> n < length ys \<and> ys ! n = x"
  by (induction ys arbitrary: n) (auto split: if_splits)

lemma sample_texts: "n < 8 \<Longrightarrow> number_of (sample_text n) (map sample_text [0..<8]) = Some n"
proof -
  have "list_all (\<lambda>n. number_of (sample_text n) (map sample_text [0..<8]) = Some n) [0..<8]" by code_simp
  then show "n < 8 \<Longrightarrow> number_of (sample_text n) (map sample_text [0..<8]) = Some n" by (simp add: list_all_iff)
qed

lemma sample_library_ok: "library_ok sample_library"
proof -
  have "sample_loads s = Some d" if doc: "wire d" "sample_jcs d = Some s" for d s
  proof -
    obtain n where n: "number_of d sample_documents = Some n" "s = sample_text n" using doc by (auto simp: sample_jcs_def)
    have "length sample_documents = 8" by (simp add: sample_documents_def)
    then have "n < 8" "sample_documents ! n = d" using number_of_Some [OF n(1)] by auto
    with n(2) sample_texts doc(1) show ?thesis by (simp add: sample_loads_def)
  qed
  moreover have "wire d" if "sample_loads s = Some d" for d s
    using that by (auto simp: sample_loads_def split: option.splits if_splits)
  moreover have "is_sha256 sample_hex" by code_simp
  moreover have "read_time (unary_time i) = Aware (i div 1000 * 1000)" for i by (simp add: read_time_def unary_time_def)
  ultimately show ?thesis unfolding library_ok_def sample_library_def state_library.simps by blast
qed

section \<open>The calls\<close>

definition sample_session :: event_session where
  "sample_session = \<lparr>es_library = sample_library, es_clock = (\<lambda>n. Aware (int n * 1000)), es_event_ids = event_id_of\<rparr>"

definition world_0 :: event_world where
  "world_0 = \<lparr>vw_db = new_event_db sample_library ''opid:v1:event-journal:u7:00000000-0000-7000-8000-000000000000'' 2,
     vw_ids = 1, vw_ticks = 1, vw_closed = False\<rparr>"

text \<open>The tables after the first and after the second event.\<close>

definition row_at :: "nat \<Rightarrow> string \<Rightarrow> event_row" where
  "row_at n json_text = \<lparr>er_offset = int n, er_event_id = event_id_of n, er_stream_id = stream_1, er_stream_sequence = int n,
     er_draft_sha256 = sample_hex, er_event_json = json_text, er_event_digest = sample_hex,
     er_previous_chain_sha256 = sample_hex, er_chain_sha256 = sample_hex, er_occurred_at = unary_time (int n * 1000)\<rparr>"

definition head_at :: "int \<Rightarrow> int \<Rightarrow> head_row" where
  "head_at sequence current = \<lparr>sh_stream_id = stream_1, sh_operation_kind = ''transfer'', sh_last_sequence = sequence, sh_attempt = 1,
     sh_current_value = Some current, sh_total_value = Some 10, sh_unit = Some ''bytes'', sh_terminal = False\<rparr>"

definition world_with :: "nat \<Rightarrow> event_row list \<Rightarrow> head_row list \<Rightarrow> event_world" where
  "world_with n rows heads = \<lparr>vw_db = (vw_db world_0)\<lparr>ev_last_offset := int n, ev_oldest_offset := 1, ev_rows := rows, ev_heads := heads\<rparr>,
     vw_ids = n + 1, vw_ticks = n + 1, vw_closed = False\<rparr>"

definition world_1 :: event_world where
  "world_1 = world_with 1 [row_at 1 ''4''] [head_at 1 0]"

definition world_2 :: event_world where
  "world_2 = world_with 2 [row_at 1 ''4'', row_at 2 ''5''] [head_at 2 20]"

lemma sample_opened:
  "open_event_journal sample_library ''opid:v1:event-journal:u7:00000000-0000-7000-8000-000000000000'' 2 None = Inr (vw_db world_0)"
  by code_simp

lemma sample_calls:
  "publish_event sample_session (draft_at 0 (Some 10) None) None world_0 = (Inr (1, event_1), world_1)"
  "publish_event sample_session (draft_at 20 None None) None world_1 = (Inr (2, event_2), world_2)"
  by code_simp+

lemma sample_session_library [simp]: "es_library sample_session = sample_library"
  by (simp add: sample_session_def)

lemma history_0: "event_history sample_library 2 [] world_0"
  using event_history.opened [OF sample_opened, of 1 1] by (simp add: world_0_def)

lemma history_1: "event_history sample_library 2 [event_1] world_1"
  using event_history.stepped [OF history_0 event_step.published [OF _ sample_calls(1)]] by (simp add: logged_def)

lemma history_2: "event_history sample_library 2 [event_1, event_2] world_2"
  using event_history.stepped [OF history_1 event_step.published [OF _ sample_calls(2)]] by (simp add: logged_def)

lemma world_2_open: "\<not> vw_closed world_2"
  by code_simp

section \<open>Witnesses\<close>

theorem stored_event_roundtrip_witness: "event_from_json sample_library ''4'' = Inr event_1"
proof -
  have "valid_event sample_library event_1" by code_simp
  moreover have "ebind (event_document sample_library event_1) (canonical_json sample_library) = Inr ''4''" by code_simp
  ultimately show ?thesis by (rule stored_event_roundtrip [OF sample_library_ok])
qed

theorem event_journal_verifies_witness:
  "open_event_journal sample_library ''unused'' 2 (Some (vw_db world_2)) = Inr (vw_db world_2) \<and>
   (\<exists>report. health_check sample_session world_2 = (Inr report, world_2) \<and> hr_last_offset report = 2 \<and>
     hr_retained_event_count report = 2)"
  using event_journal_verifies [OF history_2 sample_library_ok, of "''unused''" sample_session] world_2_open by simp

text \<open>
  The second event is new and carries its draft; the same call again, under the identifier of the
  second event, answers with it and leaves the tables.
\<close>

lemma sample_replay:
  "publish_event sample_session (draft_at 20 None None) (Some (event_id_of 2)) world_2 = (Inr (2, event_2), world_2)"
  by code_simp


theorem batch_is_log_segment_witness:
  "read_events sample_session None 1 world_2 = (log_batch 2 (ev_journal_id (vw_db world_2)) [event_1, event_2] None 1, world_2)"
  by (rule batch_is_log_segment [OF history_2 sample_library_ok sample_session_library world_2_open])
    (simp_all add: cursor_ok_def)

definition first_batch :: "event_batch \<times> event_cursor option" where
  "first_batch = (case fst (next_batch sample_session (\<lambda>_ w. w) None 1 (Some 0) world_2) of
     Inr b \<Rightarrow> b | Inl _ \<Rightarrow> (\<lparr>eb_cursor = \<lparr>cu_journal_id = [], cu_offset = 0\<rparr>, eb_events = [],
       eb_oldest_retained_offset = None, eb_newest_retained_offset = None, eb_has_more = False\<rparr>, None))"

lemma next_batch_alone: "snd (next_batch s (\<lambda>_ w. w) cursor k timeout w) = w"
  by (simp add: next_batch_def read_events_def read_event_db_def ensure_open_def op_bind_def op_lift_def op_return_def split: sum.split)

lemma first_poll: "subscribed sample_library 2 [event_1, event_2] world_2 (snd first_batch) [(1, event_1)]"
proof -
  have "\<not> isl (fst (next_batch sample_session (\<lambda>_ w. w) None 1 (Some 0) world_2))" by code_simp
  then have "fst (next_batch sample_session (\<lambda>_ w. w) None 1 (Some 0) world_2) = Inr first_batch"
    by (auto simp: first_batch_def isl_def split: sum.splits)
  moreover have "snd (next_batch sample_session (\<lambda>_ w. w) None 1 (Some 0) world_2) = world_2" by (rule next_batch_alone)
  ultimately have poll: "next_batch sample_session (\<lambda>_ w. w) None 1 (Some 0) world_2 = (Inr (fst first_batch, snd first_batch), world_2)"
    by (simp add: prod_eq_iff)
  have "subscribed sample_library 2 [event_1, event_2] world_2 (snd first_batch) ([] @ eb_events (fst first_batch))"
    by (rule subscribed.polled [OF subscribed.joined [OF history_2] sample_session_library event_steps.stay event_steps.stay poll])
      (simp add: waits_def)
  moreover have "eb_events (fst first_batch) = [(1, event_1)]" by code_simp
  ultimately show ?thesis by simp
qed

theorem subscriber_gets_log_segment_witness:
  "\<exists>start. [(1, event_1)] = take 1 (drop start (numbered [event_1, event_2])) \<and>
     (\<forall>c \<in> set_option (snd first_batch). cu_offset c = int (start + 1))"
  using subscriber_gets_log_segment [OF first_poll sample_library_ok] by auto

theorem publish_refusals_witness:
  "publisher_error (JournalConflict ''event progress moved backward'') \<and>
   vw_db (snd (publish_event sample_session (draft_at 0 (Some 10) None) None world_2)) = vw_db world_2"
proof -
  have "fst (publish_event sample_session (draft_at 0 (Some 10) None) None world_2) = Inl (JournalConflict ''event progress moved backward'')"
    by code_simp
  then have "publish_event sample_session (draft_at 0 (Some 10) None) None world_2 =
      (Inl (JournalConflict ''event progress moved backward''), snd (publish_event sample_session (draft_at 0 (Some 10) None) None world_2))"
    by (simp add: prod_eq_iff)
  then show ?thesis by (rule publish_refusals [OF history_2 sample_library_ok sample_session_library])
qed

text \<open>The projection of a stream whose every event was accepted fails.\<close>

theorem stream_projection_exact_witness:
  "stream_progress sample_session stream_1 world_2 =
     (Inl (EventModelError ''projected current progress exceeds total''), world_2)"
proof -
  have es: "[event_1, event_2] = stream_events (kept_events [event_1, event_2] (vw_db world_2)) stream_1" by code_simp
  have id: "is_operational_id stream_1" by code_simp
  have "overrun [event_1, event_2]" by code_simp
  then show ?thesis
    using stream_projection_exact [OF history_2 sample_library_ok sample_session_library world_2_open id es] by auto
qed

end
