(* ===== verification/Spec2Isabelle.thy ===== *)
theory Spec2Isabelle
  imports Admission_Witnesses Environment_Witnesses Cache_Witnesses Transfer_Witnesses Recovery_Witnesses Sharding Fault_Attribution Event_Witnesses
begin

text \<open>
  A verification development of the regex-conformance control plane and scheduler: the parts
  of the program that decide whether a workload may run on a machine, build and tear down
  execution environments, reclaim cache space, transfer artifacts, split a campaign into shards,
  keep the durable journals of its execution attempts and of lifecycle events, project progress and
  attribute faults. Paths are relative to \<open>src/\<close>; \<open>cp\<close> stands for
  \<open>control-plane/python/regex_conformance_control_plane\<close>.

  \<^bold>\<open>How the program fits together.\<close> Host discovery writes a machine inventory (\<open>cp/models.py\<close>).
  Compilers write resource plans for workloads (\<open>cp/resource_models.py\<close>). The resource planner
  (\<open>cp/resource_planner.py\<close>) compares a plan with the inventory under a policy and returns an
  admission report. The environment manager (\<open>cp/environment_manager.py\<close>) plans a transaction
  for a recipe, has it admitted by the planner, drives a provider through acquisition,
  construction, inspection and smoke tests, verifies each answer, fingerprints the result
  (\<open>cp/environment_fingerprint.py\<close>) and rolls back on any failure. The cache manager
  (\<open>cp/cache_manager.py\<close>) reconciles an inventory of cached artifacts with a provider, plans
  which to evict and executes the plan; its transfer manager downloads artifacts in resumable
  attempts. The scheduler (\<open>sc\<close> for \<open>scheduler/python/regex_conformance_scheduler\<close>) splits logical
  executions into shards (\<open>sc/sharding.py\<close>) and records their attempts in a journal of
  hash-chained checkpoints from which any session can resume (\<open>sc/recovery.py\<close>). Every
  component publishes lifecycle events (\<open>cp/event_models.py\<close>) to a bounded journal
  (\<open>cp/event_store.py\<close>), from which subscribers read by cursor and the controller projects the
  progress of a stream. Faults injected into executions are classified by
  \<open>cp/fault_attribution.py\<close>.

  \<^bold>\<open>Conventions.\<close> A frozen dataclass is a record; its \<open>__post_init__\<close> is a definition
  \<open>..._post_init\<close> that returns the exception it raises, and \<open>construct\<close> builds a value only when
  it returns none. A function that may raise returns \<open>exc + 'a\<close>; an operation with effects
  takes the world and returns the result with the world it leaves, also when it raises. The
  world holds the reads of the clock, the published events and the provider calls made so far;
  a provider, a publisher or a cancellation token may answer differently depending on them.
  Integers are Python's unbounded integers (\<open>int\<close>), with the safe-integer checks of the source;
  instants are microseconds, so that \<open>total_seconds\<close> compares exactly. Documents are JSON
  values. Exception texts that quote a value keep their constant part.

  \<^bold>\<open>Theories.\<close>
  \<^item> \<open>Prelude\<close>: results and exceptions, JSON, timestamps, the recognisers of the token, digest
    and identifier patterns, and lemmas on lists that all parts share.
  \<^item> \<open>Machine_Inventory\<close> (\<open>cp/models.py\<close>), \<open>Resource_Models\<close> (\<open>cp/resource_models.py\<close>) and
    \<open>Resource_Planner\<close> (\<open>cp/resource_planner.py\<close>): the admission of workloads.
    \<open>Admission_Soundness\<close> shows that admitted workloads fit (C1, C2), \<open>Admission_Properties\<close>
    and \<open>Admission_Totality\<close> that the evaluation returns, passes its guards and classifies its
    outcome (C3 to C5), \<open>Admission_Decisions\<close> treats decisions about environments (C8) and
    \<open>Admission_Witnesses\<close> the documents and one behaviour the code does not intend;
    \<open>Admission_Examples\<close> holds the concrete inputs.
  \<^item> \<open>Environment_Models\<close> (\<open>cp/environment_models.py\<close>), \<open>Environment_Providers\<close>
    (\<open>cp/environment_providers.py\<close>), \<open>Environment_Fingerprint\<close>
    (\<open>cp/environment_fingerprint.py\<close>, C11) and \<open>Environment_Manager\<close>
    (\<open>cp/environment_manager.py\<close>): the environment lifecycle. \<open>Environment_Lifecycle\<close> gives the
    reachable records and their invariant (C12), \<open>Environment_Verification\<close> what a Ready record
    means and which calls are made (C13, C14), \<open>Environment_Totality\<close> termination and the final
    states (C15, C18). \<open>Environment_Liveness\<close> shows that the statements of a realization return
    when the checks accept, and \<open>Environment_Honesty\<close> that they accept whatever a provider
    answers that has what the recipe asks for, so that it leads to Ready (C20).
  \<^item> \<open>Cache_Models\<close> (\<open>cp/cache_models.py\<close>), \<open>Cache_World\<close>, \<open>Cache_Planning\<close> and \<open>Cache_Cleanup\<close>
    (\<open>cp/cache_manager.py\<close>): cache entries, reconciliation, eviction plans and their execution.
    \<open>Cache_Selection\<close> states the specification of a plan (rank the evictable entries, take the
    shortest prefix that reaches the target) over an interface for weighted rankings;
    \<open>Cache_Plan_Properties\<close> proves that the code's loops implement it (C21, C22, C24),
    \<open>Cache_Cleanup_Properties\<close> that a clean-up deletes only unprotected entries that an inspection
    has just confirmed, both stated on the members of entry and observation, and
    accounts for it exactly (C26, C27), \<open>Cache_Cleanup_Answers\<close> that it returns (C28, C29).
  \<^item> \<open>Operations\<close> has the combinators of operations that leave a world also when they raise.
  \<^item> \<open>Transfer_Models\<close> (\<open>cp/cache_models.py\<close>), \<open>Transfer_World\<close> and \<open>Transfer_Manager\<close>
    (\<open>cp/cache_manager.py\<close>): resumable transfers over a file system of directory entries and
    inodes in which other processes may interfere and every system call may fail.
    \<open>Transfer_Files\<close> states what the calls do without interference, \<open>Transfer_History\<close> that the
    record of a transfer stays valid with its whole history (C40), \<open>Transfer_Properties\<close> that a
    completed download has published the required bytes (C9) and that one interrupted before its
    first byte is stuck (C17), \<open>Transfer_Liveness\<close> that with an honest source every attempt makes
    all the progress its budget allows (C33).
  \<^item> \<open>Recovery_Payload\<close> (\<open>sc/safe_payload.py\<close>) and \<open>Recovery_Journal\<close> (\<open>sc/recovery.py\<close>): the
    journal. \<open>Recovery_Audit\<close> and \<open>Recovery_Invariant\<close> say what a passing audit means,
    \<open>Recovery_Effects\<close> and \<open>Recovery_Steps\<close> which changes the operations make and that these keep
    the invariant, \<open>Recovery_Reach\<close> that whatever the sessions of a campaign do and wherever they
    crash, the journal passes the audit of each (C34), \<open>Recovery_Refinement\<close> and
    \<open>Recovery_Properties\<close> that it refines an abstract machine of runs (C35), that commits are
    final (C36) and restarts follow the qualification report (C37), \<open>Recovery_Chain\<close> that the
    last digest of a chain fixes its history (C38), \<open>Recovery_Errors\<close> which errors remain under
    the law of the encoder (C39) and what a payload outside that law does to the journal.
  \<^item> \<open>State_Json\<close> (the canonical documents of \<open>cp/state_models.py\<close>), \<open>Event_Models\<close> and
    \<open>Event_Progress\<close> (\<open>cp/event_models.py\<close>) and \<open>Event_Journal\<close> (\<open>cp/event_store.py\<close>): the
    lifecycle events. \<open>Event_Roundtrip\<close> shows that a stored event reads back (C10),
    \<open>Event_Drafts\<close> that a new or replayed event carries the draft it was requested with,
    \<open>Event_Invariant\<close> states what the tables hold of the log of all accepted events and that such
    tables pass the verification, \<open>Event_Effects\<close> that a publication appends to the log or changes
    nothing, \<open>Event_History\<close> that every journal that sessions can leave verifies (C6) and
    implements a bounded numbered log of drafts under their identifiers (C7). \<open>Event_Reading\<close> proves that reads and subscribers get
    segments of that log (C16, C19), \<open>Event_Errors\<close> which errors a publisher can see (C23),
    \<open>Event_Projection\<close> what the progress of a stream reports and when it fails (C25);
    \<open>Event_Witnesses\<close> has a journal of two events on a small library.
  \<^item> \<open>Sharding\<close> (\<open>sc/sharding.py\<close>) shows that shards partition the executions within their bounds
    (C30, C31), \<open>Fault_Attribution\<close> (\<open>cp/fault_attribution.py\<close>) which stimuli are attributed to the
    target, stated on their members (C32).

  \<^bold>\<open>Parameters.\<close> Clocks, identifier generators, publishers and providers are functions of the
  number of calls or the history; the canonical encoder (RFC 8785), SHA-256, Unicode
  normalization and the file system seen by the environment manager are functions too. No law
  is assumed of them except where a property names it as a hypothesis, and every such property
  has a witness with a concrete function. No fuel is used: loops recurse on lists, on the
  chunks of a file, or on the remaining length; the loop of a download ends because every chunk
  it accepts has a byte. Transactions of SQLite are atomic: one that raises, or is cut off by a
  crash, leaves the tables as they were. JSON values of the model have no floats, so
  the law of the recovery journal's encoder (\<open>encoder_ok\<close>) holds of them; the lemma
  \<open>unencodable_payload_blocks\<close> of \<open>Recovery_Errors\<close> shows what a payload that breaks it does.
  Closing the file of a transfer cannot fail, and instants are far from the ends of the calendar,
  where a conversion to UTC would overflow.
  The laws that the event journal relies on are collected in \<open>library_ok\<close>: the readers of the
  \<open>json\<close> module invert the encoder, SHA-256 prints 64 hexadecimal digits, and an instant
  printed with milliseconds is read back. A subscriber's waiting is what others do to the journal
  between its two reads.

  \<^bold>\<open>Not modelled.\<close> Host discovery, containment and the concrete environment and cache providers
  are operating-system calls; so are the opening of the journals' database files, their locks, SQLite's structural checks and the directory
  checks of a transfer's destination. The state store, telemetry, the
  scheduler's recovery from scale campaigns, the applicability matrix and the campaign compilers
  are candidates for extension; engine adapters, the command line and the schema tooling bind libraries or read repository
  data. The file \<open>PROJECT.json\<close> of the development lists every part with its status.
\<close>

end
